(* ===== verification/Prelude.thy ===== *)
theory Prelude
  imports Main "HOL-Library.Word"
begin

text \<open>
  Shared vocabulary of the development: octets and octet strings, big-endian
  accumulation, the exclusive-or of two strings, splitting into fixed-size
  blocks, and the generic lemmas about them that the component theories use.
  Three collections steer the automation: \<open>len_simps\<close> (lengths of the octet
  strings the operations build), \<open>xor_simps\<close> (the algebra of the bytewise
  exclusive-or) and \<open>word_bits\<close> (bit-level unfolding of the integer codecs).
\<close>

unbundle bit_operations_syntax

named_theorems len_simps "lengths of the octet strings built by the operations"
named_theorems xor_simps "algebra of bytewise exclusive or"
named_theorems word_bits "bit-level facts for integer codecs"

type_synonym byte = "8 word"
type_synonym bytes = "byte list"
type_synonym uint16 = "16 word"
type_synonym uint32 = "32 word"
type_synonym uint64 = "64 word"

section \<open>Bytewise exclusive or\<close>

definition xor_bytes :: "bytes \<Rightarrow> bytes \<Rightarrow> bytes" where
  "xor_bytes xs ys = map2 (XOR) xs ys"

lemma xor_bytes_Nil [simp]: "xor_bytes [] ys = []" "xor_bytes xs [] = []"
  by (simp_all add: xor_bytes_def)

lemma xor_bytes_Cons [simp]:
  "xor_bytes (x # xs) (y # ys) = (x XOR y) # xor_bytes xs ys"
  by (simp add: xor_bytes_def)

lemma length_xor_bytes [simp, len_simps]:
  "length (xor_bytes xs ys) = min (length xs) (length ys)"
  by (simp add: xor_bytes_def)

lemma nth_xor_bytes [simp]:
  "i < length xs \<Longrightarrow> i < length ys \<Longrightarrow> xor_bytes xs ys ! i = xs ! i XOR ys ! i"
  by (simp add: xor_bytes_def)

lemma xor_bytes_commute: "xor_bytes xs ys = xor_bytes ys xs"
  by (rule nth_equalityI) (auto simp: ac_simps)

lemma xor_bytes_assoc: "xor_bytes (xor_bytes xs ys) zs = xor_bytes xs (xor_bytes ys zs)"
  by (rule nth_equalityI) (auto simp: ac_simps)

lemma xor_bytes_left_commute:
  "xor_bytes xs (xor_bytes ys zs) = xor_bytes ys (xor_bytes xs zs)"
  by (metis xor_bytes_assoc xor_bytes_commute)

lemmas xor_bytes_ac = xor_bytes_commute xor_bytes_assoc xor_bytes_left_commute

lemma xor_bytes_cancel [xor_simps]:
  assumes "length xs \<le> length ks"
  shows "xor_bytes (xor_bytes xs ks) ks = xs"
  using assms by (intro nth_equalityI) (auto simp: bit_eq_iff bit_simps)

lemma xor_bytes_cancel_left [xor_simps]:
  assumes "length xs \<le> length ks"
  shows "xor_bytes ks (xor_bytes ks xs) = xs"
  using xor_bytes_cancel [OF assms] by (simp add: xor_bytes_commute)

lemma xor_bytes_same [xor_simps]: "xor_bytes xs xs = replicate (length xs) 0"
  by (rule nth_equalityI) auto

lemma xor_bytes_zero [xor_simps]:
  "length xs \<le> n \<Longrightarrow> xor_bytes xs (replicate n 0) = xs"
  "length xs \<le> n \<Longrightarrow> xor_bytes (replicate n 0) xs = xs"
  by (rule nth_equalityI; simp)+

lemma xor_bytes_append:
  "length xs = length us \<Longrightarrow> xor_bytes (xs @ ys) (us @ vs) = xor_bytes xs us @ xor_bytes ys vs"
  by (simp add: xor_bytes_def)

lemma take_xor_bytes: "take n (xor_bytes xs ys) = xor_bytes (take n xs) (take n ys)"
  by (simp add: xor_bytes_def take_map take_zip)

lemma drop_xor_bytes: "drop n (xor_bytes xs ys) = xor_bytes (drop n xs) (drop n ys)"
  by (simp add: xor_bytes_def drop_map drop_zip)

section \<open>Words of a given number of bits\<close>

lemma take_bit_push_bit_add:
  "take_bit (m + n) (push_bit n (v :: 'a :: len word)) = push_bit n (take_bit m v)"
  by (auto simp: bit_eq_iff bit_simps)

lemma or_take_bit_split [word_bits]:
  fixes v :: "'a :: len word"
  shows "push_bit n (take_bit m (drop_bit n v)) OR take_bit n v = take_bit (m + n) v"
  by (rule bit_word_eqI) (auto simp: bit_simps)

lemma take_bit_full_word [word_bits]:
  fixes v :: "'a :: len word"
  assumes "LENGTH('a) \<le> n"
  shows "take_bit n v = v"
  using assms by (intro bit_word_eqI) (simp add: bit_simps)

section \<open>Lists\<close>

lemma take_append_exact [simp]: "n = length xs \<Longrightarrow> take n (xs @ ys) = xs"
  by simp

lemma drop_append_exact [simp]: "n = length xs \<Longrightarrow> drop n (xs @ ys) = ys"
  by simp

lemma list_all_replicate_iff: "list_all P (replicate n x) \<longleftrightarrow> n = 0 \<or> P x"
  by (induction n) auto

lemma find_SomeD: "find Q xs = Some x \<Longrightarrow> x \<in> set xs \<and> Q x"
  by (auto simp: find_Some_iff)

text \<open>Elimination rules that walk down a fallible computation known to have a result.\<close>

lemma bind_SomeE: "Option.bind m f = Some y \<Longrightarrow> (\<And>x. m = Some x \<Longrightarrow> f x = Some y \<Longrightarrow> R) \<Longrightarrow> R"
  by (cases m) auto

lemma if_SomeE:
  "(if c then a else b) = Some y \<Longrightarrow> (c \<Longrightarrow> a = Some y \<Longrightarrow> R) \<Longrightarrow> (\<not> c \<Longrightarrow> b = Some y \<Longrightarrow> R) \<Longrightarrow> R"
  by (cases c) auto

end
