(* ===== verification/Ssl_Utils.thy ===== *)
theory Ssl_Utils
  imports Prelude
begin

text \<open>
  Model of \<open>sslUtils.c\<close>: the big-endian integer codecs, the 64-bit record
  sequence number kept as two 32-bit halves, and the protocol-version
  negotiation ladder.
\<close>

section \<open>Integer codecs\<close>

text \<open>
  \<open>SSLDecodeInt\<close> reads \<open>length\<close> octets and accumulates \<open>val = (val << 8) | *p++\<close> in a
  32-bit variable; the callers hand it a pointer with at least that many octets left.
\<close>

fun SSLDecodeInt_loop :: "uint32 \<Rightarrow> bytes \<Rightarrow> nat \<Rightarrow> uint32" where
  "SSLDecodeInt_loop val p 0 = val"
| "SSLDecodeInt_loop val [] (Suc n) = val"
| "SSLDecodeInt_loop val (b # p) (Suc n) = SSLDecodeInt_loop (push_bit 8 val OR ucast b) p n"

definition SSLDecodeInt :: "bytes \<Rightarrow> nat \<Rightarrow> uint32" where
  "SSLDecodeInt p n = SSLDecodeInt_loop 0 p n"

text \<open>
  \<open>SSLEncodeInt\<close> fills \<open>p[length-1] .. p[0]\<close> backwards with the low octet of \<open>value\<close>,
  shifting \<open>value\<close> right each time. The model returns the octets written. The assertion
  \<open>0 < length <= 4\<close> is a precondition: every call site passes a literal width.
\<close>

fun SSLEncodeInt :: "uint32 \<Rightarrow> nat \<Rightarrow> bytes" where
  "SSLEncodeInt v 0 = []"
| "SSLEncodeInt v (Suc n) = SSLEncodeInt (drop_bit 8 v) n @ [ucast v]"

record sslUint64 =
  high :: uint32
  low :: uint32

definition SSLEncodeUInt64 :: "sslUint64 \<Rightarrow> bytes" where
  "SSLEncodeUInt64 v = SSLEncodeInt (high v) 4 @ SSLEncodeInt (low v) 4"

definition IncrementUInt64 :: "sslUint64 \<Rightarrow> sslUint64" where
  "IncrementUInt64 v =
     (let l = low v + 1 in
      if l = 0 then v\<lparr>low := l, high := high v + 1\<rparr> else v\<lparr>low := l\<rparr>)"

lemma length_SSLEncodeInt [simp, len_simps]: "length (SSLEncodeInt v n) = n"
  by (induction n arbitrary: v) auto

lemma length_SSLEncodeUInt64 [simp, len_simps]: "length (SSLEncodeUInt64 v) = 8"
  by (simp add: SSLEncodeUInt64_def)

lemma SSLDecodeInt_loop_append:
  "SSLDecodeInt_loop val (p @ q) (length p + n) = SSLDecodeInt_loop (SSLDecodeInt_loop val p (length p)) q n"
  by (induction p arbitrary: val) auto

lemma SSLDecodeInt_loop_prefix:
  "n \<le> length p \<Longrightarrow> SSLDecodeInt_loop val (p @ q) n = SSLDecodeInt_loop val p n"
  by (induction val p n rule: SSLDecodeInt_loop.induct) auto

lemma SSLDecodeInt_append [simp]:
  "n \<le> length p \<Longrightarrow> SSLDecodeInt (p @ q) n = SSLDecodeInt p n"
  by (simp add: SSLDecodeInt_def SSLDecodeInt_loop_prefix)

lemma SSLDecodeInt_snoc:
  "SSLDecodeInt (p @ [b]) (Suc (length p)) = push_bit 8 (SSLDecodeInt p (length p)) OR ucast b"
  using SSLDecodeInt_loop_append [of 0 p "[b]" 1] by (simp add: SSLDecodeInt_def)

lemma ucast_low_octet: "(ucast (ucast (v :: uint32) :: byte) :: uint32) = take_bit 8 v"
  by (rule bit_word_eqI) (auto simp: bit_simps)

lemma ucast_byte_id [simp]: "(ucast (ucast (x :: byte) :: uint32) :: byte) = x"
  by (rule bit_word_eqI) (simp add: bit_simps)

lemma ucast_octet_cong:
  assumes "take_bit 8 (v :: uint32) = take_bit 8 w"
  shows "(ucast v :: byte) = ucast w"
proof -
  have "(ucast (ucast v :: byte) :: uint32) = ucast (ucast w :: byte)"
    using assms by (simp only: ucast_low_octet)
  then show ?thesis
    by (metis ucast_byte_id)
qed

lemma SSLDecodeInt_SSLEncodeInt:
  "SSLDecodeInt (SSLEncodeInt v n) n = take_bit (8 * n) v"
proof (induction n arbitrary: v)
  case 0
  then show ?case by (simp add: SSLDecodeInt_def)
next
  case (Suc n)
  have "SSLDecodeInt (SSLEncodeInt v (Suc n)) (Suc n) =
      push_bit 8 (take_bit (8 * n) (drop_bit 8 v)) OR take_bit 8 v"
    using SSLDecodeInt_snoc [of "SSLEncodeInt (drop_bit 8 v) n" "ucast v"] Suc
    by (simp add: ucast_low_octet)
  also have "\<dots> = take_bit (8 * n + 8) v"
    by (rule or_take_bit_split)
  finally show ?case by (simp add: add.commute)
qed

lemma SSLEncodeInt_inject_iff:
  "SSLEncodeInt v n = SSLEncodeInt w n \<longleftrightarrow> take_bit (8 * n) v = take_bit (8 * n) w"
proof
  assume "SSLEncodeInt v n = SSLEncodeInt w n"
  then show "take_bit (8 * n) v = take_bit (8 * n) w"
    by (metis SSLDecodeInt_SSLEncodeInt)
next
  show "take_bit (8 * n) v = take_bit (8 * n) w \<Longrightarrow> SSLEncodeInt v n = SSLEncodeInt w n"
  proof (induction n arbitrary: v w)
    case 0
    then show ?case by simp
  next
    case (Suc n)
    have "take_bit (8 * n) (drop_bit 8 v) = take_bit (8 * n) (drop_bit 8 w)"
      using arg_cong [OF Suc.prems, of "drop_bit 8"] by (simp add: drop_bit_take_bit)
    moreover have "take_bit 8 v = take_bit 8 w"
      using arg_cong [OF Suc.prems, of "take_bit 8"] by (simp add: take_bit_take_bit)
    then have "(ucast v :: byte) = ucast w"
      by (rule ucast_octet_cong)
    ultimately show ?case using Suc.IH [of "drop_bit 8 v" "drop_bit 8 w"] by simp
  qed
qed

section \<open>The 64-bit sequence number\<close>

definition uint64_of :: "sslUint64 \<Rightarrow> uint64" where
  "uint64_of v = word_of_nat (unat (high v) * 2 ^ 32 + unat (low v))"

lemma unat32_less: "unat (w :: uint32) < 4294967296"
  using unsigned_less [of w] by simp

lemma unat_uint64_of: "unat (uint64_of v) = unat (high v) * 2 ^ 32 + unat (low v)"
proof -
  have "unat (high v) * 2 ^ 32 + unat (low v) < 2 ^ 64"
    using unat32_less [of "high v"] unat32_less [of "low v"] by simp
  then show ?thesis
    unfolding uint64_of_def unat_of_nat by (subst mod_less) simp_all
qed

lemma halves_unique:
  fixes a b c d m :: nat
  assumes "a * m + b = c * m + d" "b < m" "d < m"
  shows "a = c \<and> b = d"
proof -
  have "(a * m + b) div m = (c * m + d) div m"
    using assms(1) by simp
  then have "a = c"
    using assms(2,3) by simp
  with assms(1) show ?thesis by simp
qed

lemma uint64_of_inject: "uint64_of v = uint64_of w \<longleftrightarrow> v = w"
proof
  assume eq: "uint64_of v = uint64_of w"
  have "unat (high v) * 2 ^ 32 + unat (low v) = unat (high w) * 2 ^ 32 + unat (low w)"
    using arg_cong [OF eq, of unat] by (simp only: unat_uint64_of)
  from halves_unique [OF this] have "unat (high v) = unat (high w) \<and> unat (low v) = unat (low w)"
    by (simp add: unat32_less)
  then show "v = w" by (simp add: word_unat_eq_iff)
qed simp

text \<open>The carry from the low to the high half makes the pair a 64-bit counter.\<close>

lemma uint64_of_IncrementUInt64: "uint64_of (IncrementUInt64 v) = uint64_of v + 1"
proof (cases "low v + 1 = 0")
  case True
  then have "low v = - 1" by (simp add: eq_neg_iff_add_eq_0)
  then have l: "unat (low v) = 2 ^ 32 - 1"
    by (simp add: unsigned_minus_1_eq_mask mask_eq_exp_minus_1)
  show ?thesis
  proof (cases "high v + 1 = 0")
    case h: True
    then have "high v = - 1" by (simp add: eq_neg_iff_add_eq_0)
    with \<open>low v = - 1\<close> True h show ?thesis
      by (simp add: IncrementUInt64_def uint64_of_def unsigned_minus_1_eq_mask
          mask_eq_exp_minus_1)
  next
    case False
    then have "unat (high v + 1) = unat (high v) + 1"
      using unatSuc [of "high v"] by (simp add: add.commute)
    with True l show ?thesis
      by (simp add: IncrementUInt64_def uint64_of_def)
  qed
next
  case False
  then have "unat (low v + 1) = unat (low v) + 1"
    using unatSuc [of "low v"] by (simp add: add.commute)
  with False show ?thesis
    by (simp add: IncrementUInt64_def uint64_of_def)
qed

lemma uint64_of_iterate: "uint64_of ((IncrementUInt64 ^^ n) v) = uint64_of v + of_nat n"
  by (induction n) (simp_all add: uint64_of_IncrementUInt64)

lemma SSLEncodeUInt64_inject: "SSLEncodeUInt64 v = SSLEncodeUInt64 w \<longleftrightarrow> v = w"
  by (auto simp: SSLEncodeUInt64_def SSLEncodeInt_inject_iff take_bit_full_word)

end
