(* ===== verification/Gf128.thy ===== *)
theory Gf128
  imports Prelude
begin

text \<open>
  The specification side of GHASH: polynomials of degree below 128 over GF(2), bit \<open>i\<close> of a
  128-bit word being the coefficient of \<open>x^i\<close>, multiplied modulo
  \<open>x^128 + x^7 + x^2 + x + 1\<close>. The theory shows that this multiplication is commutative,
  associative, has a unit and distributes over exclusive or.
\<close>

type_synonym poly128 = "128 word"

definition xtime :: "poly128 \<Rightarrow> poly128" where
  "xtime a = push_bit 1 a XOR (if bit a 127 then 0x87 else 0)"

fun xsum :: "(nat \<Rightarrow> poly128) \<Rightarrow> nat \<Rightarrow> poly128" where
  "xsum f 0 = 0"
| "xsum f (Suc n) = xsum f n XOR f n"

definition gf_times :: "poly128 \<Rightarrow> poly128 \<Rightarrow> poly128" where
  "gf_times a b = xsum (\<lambda>i. if bit a i then (xtime ^^ i) b else 0) 128"

section \<open>Exclusive-or sums\<close>

lemma xsum_cong: "(\<And>i. i < n \<Longrightarrow> f i = g i) \<Longrightarrow> xsum f n = xsum g n"
  by (induction n) auto

lemma xsum_zero [simp]: "xsum (\<lambda>i. 0) n = 0"
  by (induction n) auto

lemma xsum_xor: "xsum (\<lambda>i. f i XOR g i) n = xsum f n XOR xsum g n"
  by (induction n) (auto simp: ac_simps)

lemma xsum_swap: "xsum (\<lambda>i. xsum (f i) m) n = xsum (\<lambda>j. xsum (\<lambda>i. f i j) n) m"
  by (induction n) (auto simp: xsum_xor)

lemma xsum_hom:
  assumes "h 0 = 0" and "\<And>a b. h (a XOR b) = h a XOR h b"
  shows "h (xsum f n) = xsum (\<lambda>i. h (f i)) n"
  by (induction n) (simp_all add: assms)

lemma bit_xsum_coefficients:
  "bit (xsum (\<lambda>i. if bit (a :: poly128) i then push_bit i 1 else 0) n) k
     \<longleftrightarrow> k < n \<and> k < 128 \<and> bit a k"
  by (induction n) (auto simp: bit_simps less_Suc_eq)

lemma xsum_coefficients: "xsum (\<lambda>i. if bit a i then push_bit i 1 else 0) 128 = a"
  by (rule bit_word_eqI) (simp add: bit_xsum_coefficients)

section \<open>Multiplication by x\<close>

lemma xtime_zero [simp]: "xtime 0 = 0"
  by (simp add: xtime_def)

lemma xtime_xor: "xtime (a XOR b) = xtime a XOR xtime b"
  by (auto simp: xtime_def push_bit_xor bit_simps ac_simps)

lemma xtime_pow_zero [simp]: "(xtime ^^ i) 0 = 0"
  by (induction i) auto

lemma xtime_pow_xor: "(xtime ^^ i) (a XOR b) = (xtime ^^ i) a XOR (xtime ^^ i) b"
  by (induction i) (auto simp: xtime_xor)

lemma xtime_pow_one: "i < 128 \<Longrightarrow> (xtime ^^ i) 1 = push_bit i 1"
proof (induction i)
  case (Suc i)
  then have "(xtime ^^ Suc i) 1 = xtime (push_bit i 1)" by simp
  also have "\<dots> = push_bit (Suc i) 1"
    using Suc.prems by (simp add: xtime_def bit_simps)
  finally show ?case .
qed simp

section \<open>Ring laws\<close>

lemma gf_times_zero [simp]: "gf_times 0 b = 0" "gf_times a 0 = 0"
  by (simp_all add: gf_times_def if_distrib cong: if_cong)

lemma gf_times_xor_right: "gf_times a (b XOR c) = gf_times a b XOR gf_times a c"
  by (auto simp: gf_times_def xsum_xor [symmetric] xtime_pow_xor intro!: xsum_cong)

lemma gf_times_xor_left: "gf_times (a XOR b) c = gf_times a c XOR gf_times b c"
  by (auto simp: gf_times_def xsum_xor [symmetric] bit_simps intro!: xsum_cong)

lemma gf_times_xtime_pow: "gf_times a ((xtime ^^ n) b) = (xtime ^^ n) (gf_times a b)"
proof -
  have "(xtime ^^ n) (gf_times a b) =
      xsum (\<lambda>i. (xtime ^^ n) (if bit a i then (xtime ^^ i) b else 0)) 128"
    unfolding gf_times_def by (rule xsum_hom) (simp_all add: xtime_pow_xor)
  also have "\<dots> = gf_times a ((xtime ^^ n) b)"
    unfolding gf_times_def
    by (rule xsum_cong) (simp add: funpow_add [symmetric, THEN fun_cong, simplified] add.commute)
  finally show ?thesis ..
qed

lemma gf_times_one_right: "gf_times a 1 = a"
proof -
  have "gf_times a 1 = xsum (\<lambda>i. if bit a i then push_bit i 1 else 0) 128"
    unfolding gf_times_def by (rule xsum_cong) (simp add: xtime_pow_one)
  then show ?thesis by (simp add: xsum_coefficients)
qed

lemma gf_times_expand:
  "gf_times a b =
     xsum (\<lambda>i. xsum (\<lambda>j. if bit a i \<and> bit b j then (xtime ^^ (i + j)) 1 else 0) 128) 128"
proof -
  have "(xtime ^^ i) b = xsum (\<lambda>j. if bit b j then (xtime ^^ (i + j)) 1 else 0) 128" for i
  proof -
    have "(xtime ^^ i) b =
        (xtime ^^ i) (xsum (\<lambda>j. if bit b j then (xtime ^^ j) 1 else 0) 128)"
      using gf_times_one_right [of b] by (simp add: gf_times_def)
    also have "\<dots> = xsum (\<lambda>j. (xtime ^^ i) (if bit b j then (xtime ^^ j) 1 else 0)) 128"
      by (rule xsum_hom) (simp_all add: xtime_pow_xor)
    also have "\<dots> = xsum (\<lambda>j. if bit b j then (xtime ^^ (i + j)) 1 else 0) 128"
      by (rule xsum_cong) (simp add: funpow_add)
    finally show ?thesis .
  qed
  then show ?thesis
    unfolding gf_times_def by (intro xsum_cong) simp
qed

lemma gf_times_commute: "gf_times a b = gf_times b a"
  unfolding gf_times_expand
  by (subst xsum_swap) (intro xsum_cong, simp add: conj_commute add.commute)

lemma gf_times_one_left: "gf_times 1 a = a"
  by (metis gf_times_commute gf_times_one_right)

lemma gf_times_left_commute: "gf_times a (gf_times b c) = gf_times b (gf_times a c)"
proof -
  have "gf_times a (gf_times b c) =
      xsum (\<lambda>i. gf_times a (if bit b i then (xtime ^^ i) c else 0)) 128"
    unfolding gf_times_def [of b] by (rule xsum_hom) (simp_all add: gf_times_xor_right)
  also have "\<dots> = gf_times b (gf_times a c)"
    unfolding gf_times_def [of b] by (rule xsum_cong) (simp add: gf_times_xtime_pow)
  finally show ?thesis .
qed

lemma gf_times_assoc: "gf_times (gf_times a b) c = gf_times a (gf_times b c)"
  by (metis gf_times_commute gf_times_left_commute)

end
