(* ===== verification/Gcm_Correct.thy ===== *)
theory Gcm_Correct
  imports Gcm Gf128
begin

text \<open>
  Correctness of the GCM core: the byte loops of \<open>Gcm\<close> refine the polynomial
  arithmetic of \<open>Gf128\<close>, the counter increment is injective up to \<open>2^32\<close> blocks, and
  \<open>sslGcmOpen\<close> inverts \<open>sslGcmSeal\<close> for every block function that returns 16 octets.
\<close>

section \<open>Blocks as polynomials\<close>

text \<open>Bit \<open>i\<close> of a block, most significant bit of octet 0 first, is the coefficient of \<open>x^i\<close>.\<close>

definition poly_of :: "bytes \<Rightarrow> poly128" where
  "poly_of X = horner_sum of_bool 2 (map (gf_bit X) [0..<128])"

lemma and_one_iff: "(w :: 'a :: len word) AND 1 \<noteq> 0 \<longleftrightarrow> bit w 0"
  by (simp add: bit_0 and_one_eq odd_iff_mod_2_eq_one)

lemma gf_bit_iff: "gf_bit X i \<longleftrightarrow> bit (X ! (i div 8)) (7 - i mod 8)"
  by (simp only: gf_bit_def and_one_iff bit_drop_bit_eq o_apply add_0_right)

lemma bit_poly_of: "bit (poly_of X) i \<longleftrightarrow> i < 128 \<and> gf_bit X i"
  by (auto simp: poly_of_def bit_horner_sum_bit_word_iff)

lemma poly_of_replicate_zero: "poly_of (replicate 16 0) = 0"
  by (rule bit_word_eqI) (simp add: bit_poly_of gf_bit_iff)

lemma poly_of_xor_block: "poly_of (xor_block a b) = poly_of a XOR poly_of b"
  by (rule bit_word_eqI) (auto simp: bit_poly_of gf_bit_iff xor_block_def bit_simps)

lemma poly_of_inject:
  assumes "length a = 16" "length b = 16" "poly_of a = poly_of b"
  shows "a = b"
proof (rule nth_equalityI)
  fix j assume j: "j < length a"
  show "a ! j = b ! j"
  proof (rule bit_word_eqI)
    fix p assume "p < LENGTH(8)"
    define q where "q = 7 - p"
    have q: "p = 7 - q" "q < 8" using \<open>p < LENGTH(8)\<close> by (auto simp: q_def)
    have "bit (poly_of a) (8 * j + q) = bit (poly_of b) (8 * j + q)"
      using assms(3) by simp
    then show "bit (a ! j) p = bit (b ! j) p"
      using j q assms(1) by (simp add: bit_poly_of gf_bit_iff)
  qed
qed (simp add: assms)

section \<open>One step of the multiplication loop\<close>

lemma gf_shift_loop_nth:
  "j < length V \<Longrightarrow> k < length V \<Longrightarrow>
   gf_shift_loop V j ! k =
     (if 0 < k \<and> k \<le> j then drop_bit 1 (V ! k) OR push_bit 7 (V ! (k - 1) AND 1) else V ! k)"
  by (induction V j rule: gf_shift_loop.induct) (auto simp: nth_list_update le_Suc_eq)

lemma gf_shift_nth:
  assumes "length V = 16" "k < 16"
  shows "gf_shift V ! k =
    (if k = 0 then drop_bit 1 (V ! 0) XOR (if bit (V ! 15) 0 then 0xe1 else 0)
     else drop_bit 1 (V ! k) OR push_bit 7 (V ! (k - 1) AND 1))"
  using assms
  by (auto simp: gf_shift_def Let_def gf_shift_loop_nth nth_list_update and_one_iff [simplified])

lemma bit_e1: "bit (0xe1 :: byte) p \<longleftrightarrow> p \<in> {0, 5, 6, 7}"
proof (cases "p < 8")
  case True
  then have "p \<in> {0, 1, 2, 3, 4, 5, 6, 7}" by auto
  then show ?thesis by (auto simp: bit_iff_odd)
next
  case False
  then show ?thesis by (auto simp: bit_simps)
qed

lemma bit_gf_shift_nth:
  assumes "length V = 16" "k < 16" "p < 8"
  shows "bit (gf_shift V ! k) p \<longleftrightarrow>
    (if p < 7 then bit (V ! k) (Suc p) else 0 < k \<and> bit (V ! (k - 1)) 0) \<noteq>
    (k = 0 \<and> bit (V ! 15) 0 \<and> p \<in> {0, 5, 6, 7})"
proof -
  have top: "\<not> bit (V ! k) 8" by (auto dest: bit_imp_le_length)
  consider "p < 7" | "p = 7" using assms(3) by linarith
  then show ?thesis
  proof cases
    case 1
    then show ?thesis
      using assms by (auto simp: gf_shift_nth bit_simps bit_e1 simp del: bit_numeral_word_iff)
  next
    case 2
    have "bit (128 :: byte) 7" "bit (0xe1 :: byte) 7" by (simp_all add: bit_iff_odd)
    with 2 show ?thesis
      using assms top by (auto simp: gf_shift_nth bit_simps simp del: bit_numeral_word_iff)
  qed
qed

lemma gf_bit_gf_shift:
  assumes V: "length V = 16" and i: "i < 128"
  shows "gf_bit (gf_shift V) i \<longleftrightarrow>
    ((0 < i \<and> gf_bit V (i - 1)) \<noteq> (gf_bit V 127 \<and> i \<in> {0, 1, 2, 7}))"
proof -
  define j q where "j = i div 8" and "q = i mod 8"
  have iq: "i = 8 * j + q" "q < 8" "j < 16" using i by (auto simp: j_def q_def)
  have last: "gf_bit V 127 \<longleftrightarrow> bit (V ! 15) 0" by (simp add: gf_bit_iff)
  have top: "gf_bit (gf_shift V) i \<longleftrightarrow> bit (gf_shift V ! j) (7 - q)"
    by (simp add: gf_bit_iff j_def q_def)
  show ?thesis
  proof (cases "q = 0")
    case True
    have low: "i \<in> {0, 1, 2, 7} \<longleftrightarrow> j = 0" "0 < i \<longleftrightarrow> 0 < j" using True iq by auto
    have prev: "gf_bit V (i - 1) \<longleftrightarrow> bit (V ! (j - 1)) 0" if "0 < j"
    proof -
      have "i - 1 = 8 * (j - 1) + 7" using True iq that by simp
      then show ?thesis by (simp add: gf_bit_iff)
    qed
    show ?thesis
      using bit_gf_shift_nth [OF V iq(3), of "7 - q"] True prev
      by (simp only: top last low) auto
  next
    case False
    have low: "i \<in> {0, 1, 2, 7} \<longleftrightarrow> j = 0 \<and> 7 - q \<in> {0, 5, 6, 7}"
      using False iq by (cases j) auto
    have "0 < i" using False iq by simp
    from False obtain q' where q': "q = Suc q'" by (cases q) auto
    have prev: "gf_bit V (i - 1) \<longleftrightarrow> bit (V ! j) (Suc (7 - q))"
    proof -
      have "i - 1 = 8 * j + q'" "7 - q' = Suc (7 - q)" using iq q' by simp_all
      then show ?thesis using iq q' by (simp add: gf_bit_iff)
    qed
    show ?thesis
      using bit_gf_shift_nth [OF V iq(3), of "7 - q"] False \<open>0 < i\<close> prev
      by (simp only: top last low) auto
  qed
qed

lemma bit_0x87: "bit (0x87 :: poly128) i \<longleftrightarrow> i \<in> {0, 1, 2, 7}"
proof (cases "i < 8")
  case True
  then have "i \<in> {0, 1, 2, 3, 4, 5, 6, 7}" by auto
  then show ?thesis by (auto simp: bit_iff_odd)
next
  case False
  then have "\<not> bit (take_bit 8 (0x87 :: poly128)) i"
    by (auto simp only: bit_take_bit_iff)
  moreover have "take_bit 8 (0x87 :: poly128) = 0x87" by simp
  ultimately show ?thesis using False by auto
qed

lemma bit_xtime:
  "bit (xtime a) n \<longleftrightarrow> n < 128 \<and> ((0 < n \<and> bit a (n - 1)) \<noteq> (bit a 127 \<and> n \<in> {0, 1, 2, 7}))"
proof -
  have "bit (push_bit 1 a) n \<longleftrightarrow> n < 128 \<and> 0 < n \<and> bit a (n - 1)"
    by (auto simp only: bit_push_bit_iff possible_bit_word) auto
  moreover have "\<not> bit a 127 \<or> n < 128" if "n \<in> {0, 1, 2, 7}" using that by auto
  ultimately show ?thesis
    by (cases "bit a 127") (auto simp only: xtime_def bit_xor_iff bit_0x87 if_True if_False bit_0_eq)
qed

lemma poly_of_gf_shift: "length V = 16 \<Longrightarrow> poly_of (gf_shift V) = xtime (poly_of V)"
  by (rule bit_word_eqI)
     (auto simp: bit_poly_of gf_bit_gf_shift bit_xtime)

lemma poly_of_gf_mult_loop:
  assumes "r \<le> 128" "length V = 16"
  shows "poly_of (gf_mult_loop X r Z V) =
    poly_of Z XOR
    xsum (\<lambda>k. if gf_bit X (128 - r + k) then (xtime ^^ k) (poly_of V) else 0) r"
  using assms
proof (induction r arbitrary: Z V)
  case (Suc r)
  let ?f = "\<lambda>k. if gf_bit X (127 - r + k) then (xtime ^^ k) (poly_of V) else 0"
  have shift: "xsum f (Suc n) = f 0 XOR xsum (\<lambda>k. f (Suc k)) n" for f n
    by (induction n) (auto simp: ac_simps)
  have idx: "128 - Suc r = 127 - r" "127 - r + Suc k = 128 - r + k" for k
    using Suc.prems by auto
  have inner: "(if gf_bit X (128 - r + k) then (xtime ^^ k) (xtime (poly_of V)) else 0) = ?f (Suc k)" for k
    by (simp only: idx funpow_Suc_right o_apply)
  have "poly_of (gf_mult_loop X (Suc r) Z V) =
      poly_of (if gf_bit X (127 - r) then xor_block Z V else Z) XOR
      xsum (\<lambda>k. if gf_bit X (128 - r + k) then (xtime ^^ k) (xtime (poly_of V)) else 0) r"
    using Suc.prems by (simp add: Suc.IH poly_of_gf_shift cong: if_cong)
  also have "\<dots> = poly_of Z XOR (?f 0 XOR xsum (\<lambda>k. ?f (Suc k)) r)"
    unfolding inner by (simp add: poly_of_xor_block ac_simps)
  also have "\<dots> = poly_of Z XOR xsum ?f (Suc r)"
    by (simp only: shift)
  finally show ?case by (simp only: idx(1))
qed simp

lemma poly_of_gf_mult:
  assumes "length Y = 16"
  shows "poly_of (gf_mult X Y) = gf_times (poly_of X) (poly_of Y)"
  unfolding gf_mult_def gf_times_def
  by (subst poly_of_gf_mult_loop)
     (auto simp: assms poly_of_replicate_zero bit_poly_of intro: xsum_cong)

section \<open>GHASH is Horner's rule over the padded blocks\<close>

function pad16_blocks :: "bytes \<Rightarrow> bytes list" where
  "pad16_blocks data =
     (if data = [] then []
      else if length data < 16 then [data @ replicate (16 - length data) 0]
      else take 16 data # pad16_blocks (drop 16 data))"
  by pat_completeness auto
termination by (relation "measure length") auto

declare pad16_blocks.simps [simp del]

definition horner :: "poly128 \<Rightarrow> poly128 \<Rightarrow> bytes list \<Rightarrow> poly128" where
  "horner h y bs = foldl (\<lambda>y b. gf_times (y XOR poly_of b) h) y bs"

lemma horner_simps [simp]:
  "horner h y [] = y"
  "horner h y (b # bs) = horner h (gf_times (y XOR poly_of b) h) bs"
  "horner h y (bs @ cs) = horner h (horner h y bs) cs"
  by (simp_all add: horner_def)

lemma poly_of_ghash_update:
  assumes "length H = 16"
  shows "poly_of (ghash_update Y H data) = horner (poly_of H) (poly_of Y) (pad16_blocks data)"
  using assms
proof (induction Y H data rule: ghash_update.induct)
  case (1 Y H data)
  show ?case
    by (subst ghash_update.simps, subst pad16_blocks.simps)
       (auto simp: "1.IH" "1.prems" poly_of_gf_mult poly_of_xor_block)
qed

lemma poly_of_ghash_full:
  assumes "length H = 16"
  shows "poly_of (ghash_full H aad ct) =
    horner (poly_of H) 0
      (pad16_blocks aad @ pad16_blocks ct @
       [len_block (of_nat (length aad)) (of_nat (length ct))])"
  using assms
  by (simp add: ghash_full_def Let_def poly_of_gf_mult poly_of_xor_block
      poly_of_ghash_update poly_of_replicate_zero)

section \<open>The counter\<close>

lemma four_Suc: "(4 :: nat) = Suc (Suc (Suc (Suc 0)))"
  by simp

lemma SSLDecodeInt_4:
  "SSLDecodeInt [a, b, c, d] 4 =
     push_bit 24 (ucast a) OR push_bit 16 (ucast b) OR push_bit 8 (ucast c) OR ucast d"
  unfolding four_Suc by (simp add: SSLDecodeInt_def push_bit_or or.assoc)

lemma SSLEncodeInt_4:
  "SSLEncodeInt v 4 = [ucast (drop_bit 24 v), ucast (drop_bit 16 v), ucast (drop_bit 8 v), ucast v]"
  unfolding four_Suc by simp

lemma list16_split:
  assumes "length xs = 16"
  shows "xs = take 12 xs @ [xs ! 12, xs ! 13, xs ! 14, xs ! 15]"
proof -
  have "drop 12 xs = [xs ! 12, xs ! 13, xs ! 14, xs ! 15]"
    using assms by (simp add: Cons_nth_drop_Suc [symmetric])
  then show ?thesis by (metis append_take_drop_id)
qed

lemma inc32_eq:
  assumes "length ctr = 16"
  shows "inc32 ctr = take 12 ctr @ SSLEncodeInt (SSLDecodeInt (drop 12 ctr) 4 + 1) 4"
proof -
  obtain p a b c d where ctr: "ctr = p @ [a, b, c, d]" and p: "length p = 12"
    by (rule that [OF list16_split [OF assms]]) (simp add: assms)
  show ?thesis
    by (simp add: ctr p inc32_def Let_def list_update_append nth_append SSLDecodeInt_4 SSLEncodeInt_4)
qed

lemma SSLDecodeInt_SSLEncodeInt_4 [simp]: "SSLDecodeInt (SSLEncodeInt v 4) 4 = v"
  by (simp add: SSLDecodeInt_SSLEncodeInt take_bit_full_word)

lemma SSLEncodeInt_SSLDecodeInt_4:
  assumes "length p = 4"
  shows "SSLEncodeInt (SSLDecodeInt p 4) 4 = p"
proof -
  obtain a b c d where "p = [a, b, c, d]"
    using assms by (auto simp: numeral_eq_Suc length_Suc_conv)
  then show ?thesis
    by (auto simp: SSLDecodeInt_4 SSLEncodeInt_4 intro!: bit_word_eqI)
       (auto simp: bit_simps dest: bit_imp_le_length)
qed

lemma inc32_iterate:
  assumes "length ctr = 16"
  shows "(inc32 ^^ n) ctr = take 12 ctr @ SSLEncodeInt (SSLDecodeInt (drop 12 ctr) 4 + of_nat n) 4"
proof (induction n)
  case 0
  have "ctr = take 12 ctr @ drop 12 ctr" by simp
  then show ?case using assms by (simp add: SSLEncodeInt_SSLDecodeInt_4)
next
  case (Suc n)
  then show ?case using assms by (simp add: inc32_eq algebra_simps)
qed

lemma inc32_iterate_distinct:
  assumes "length ctr = 16" "m < 2 ^ 32" "n < 2 ^ 32" "(inc32 ^^ m) ctr = (inc32 ^^ n) ctr"
  shows "m = n"
proof -
  have "SSLDecodeInt (drop 12 ctr) 4 + of_nat m = SSLDecodeInt (drop 12 ctr) 4 + of_nat n"
    using assms(4) unfolding inc32_iterate [OF assms(1)]
    by (metis SSLDecodeInt_SSLEncodeInt_4 same_append_eq)
  then have "(of_nat m :: uint32) = of_nat n" by simp
  then have "unat (of_nat m :: uint32) = unat (of_nat n :: uint32)" by simp
  then show ?thesis using assms(2,3) by (simp only: unat_of_nat) simp
qed

section \<open>The constant-time tag comparison\<close>

lemma fold_or_zero_iff:
  "fold (\<lambda>i d. d OR f i) xs (d0 :: byte) = 0 \<longleftrightarrow> d0 = 0 \<and> (\<forall>i \<in> set xs. f i = 0)"
  by (induction xs arbitrary: d0) (auto simp: or_eq_0_iff)

lemma xor_zero_iff: "(a :: byte) XOR b = 0 \<longleftrightarrow> a = b"
  by (auto simp: bit_eq_iff bit_simps)

lemma tag_diff_zero_iff:
  assumes "length e = 16" "length t = 16"
  shows "tag_diff e t = 0 \<longleftrightarrow> e = t"
  using assms unfolding tag_diff_def fold_or_zero_iff
  by (auto simp: xor_zero_iff intro: nth_equalityI)

section \<open>The block-function interface and what sealing guarantees over it\<close>

text \<open>
  \<open>SslGcmBlockFn\<close> is a callback that writes 16 octets for 16 octets. The locale states just
  that; the lemmas hold for every provider of the callback.
\<close>

locale gcm_block =
  fixes block :: "'k \<Rightarrow> bytes \<Rightarrow> bytes"
    and good_key :: "'k \<Rightarrow> bool"
  assumes length_block: "good_key k \<Longrightarrow> length b = 16 \<Longrightarrow> length (block k b) = 16"
begin

definition keystream :: "'k \<Rightarrow> bytes \<Rightarrow> nat \<Rightarrow> bytes" where
  "keystream k ctr n = concat (map (\<lambda>i. block k ((inc32 ^^ i) ctr)) [0..<n])"

lemma length_inc32_iterate: "length ((inc32 ^^ n) ctr) = length ctr"
  by (induction n) simp_all

lemma keystream_Suc:
  "keystream k ctr (Suc n) = block k ctr @ keystream k (inc32 ctr) n"
  unfolding keystream_def map_upt_Suc concat.simps
  by (simp add: funpow_swap1)

lemma gctr_keystream:
  assumes "good_key k" "length ctr = 16" "length data \<le> 16 * n"
  shows "gctr block k ctr data = xor_bytes data (keystream k ctr n)"
  using assms(2,3)
proof (induction n arbitrary: ctr data)
  case 0
  then show ?case by (simp add: gctr.simps)
next
  case (Suc n)
  have len: "length (block k ctr) = 16" using assms(1) Suc.prems by (simp add: length_block)
  show ?case
  proof (cases "16 \<le> length data")
    case True
    have "data = take 16 data @ drop 16 data" by simp
    then have "xor_bytes data (keystream k ctr (Suc n)) =
        xor_bytes (take 16 data @ drop 16 data) (block k ctr @ keystream k (inc32 ctr) n)"
      by (simp only: keystream_Suc)
    also have "\<dots> = xor_bytes (take 16 data) (block k ctr) @
        xor_bytes (drop 16 data) (keystream k (inc32 ctr) n)"
      using True len by (intro xor_bytes_append) simp
    finally show ?thesis
      using True Suc by (subst gctr.simps) simp
  next
    case False
    have "xor_bytes data (block k ctr @ ks) = xor_bytes data (take (length data) (block k ctr))" for ks
      using False len by (intro nth_equalityI) (auto simp: nth_append)
    with False show ?thesis
      by (subst gctr.simps) (simp add: keystream_Suc)
  qed
qed

lemma length_keystream:
  "good_key k \<Longrightarrow> length ctr = 16 \<Longrightarrow> length (keystream k ctr n) = 16 * n"
  by (induction n arbitrary: ctr) (simp_all add: keystream_Suc length_block, simp add: keystream_def)

lemma length_gctr:
  assumes "good_key k" "length ctr = 16"
  shows "length (gctr block k ctr data) = length data"
  using gctr_keystream [OF assms, of data "length data"] length_keystream [OF assms, of "length data"]
  by simp

lemma gctr_involution:
  assumes "good_key k" "length ctr = 16"
  shows "gctr block k ctr (gctr block k ctr data) = data"
proof -
  let ?ks = "keystream k ctr (length data)"
  have "gctr block k ctr data = xor_bytes data ?ks"
    by (rule gctr_keystream [OF assms]) simp
  moreover have "gctr block k ctr (xor_bytes data ?ks) = xor_bytes (xor_bytes data ?ks) ?ks"
    by (rule gctr_keystream [OF assms]) simp
  ultimately show ?thesis
    using length_keystream [OF assms, of "length data"] by (simp add: xor_bytes_cancel)
qed

lemma seal_lengths:
  assumes "good_key k" "length iv = 12" "sslGcmSeal block k iv aad pt = (ct, tag)"
  shows "length ct = length pt" "length tag = 16"
  using assms by (auto simp: sslGcmSeal_def Let_def length_gctr)

lemma open_seal:
  assumes "good_key k" "length iv = 12" "sslGcmSeal block k iv aad pt = (ct, tag)"
  shows "sslGcmOpen block k iv aad ct tag = Some pt"
  using assms
  by (auto simp: sslGcmSeal_def sslGcmOpen_def Let_def tag_diff_zero_iff gctr_involution)

lemma open_authentic:
  assumes "good_key k" "length iv = 12" "length tag = 16"
    and "sslGcmOpen block k iv aad ct tag = Some pt"
  shows "sslGcmSeal block k iv aad pt = (ct, tag)"
  using assms
  by (auto simp: sslGcmSeal_def sslGcmOpen_def Let_def tag_diff_zero_iff gctr_involution
      split: if_splits)

end

end
