(* ===== verification/Platform.thy ===== *)
theory Platform
  imports Ssl_Utils
begin

text \<open>
  What the library gets from outside its own sources: the status codes of the Mac OS
  toolbox and of \<open>SecureTransport.h\<close>, and the services of CommonCrypto, libcrypto, the C
  allocator, \<open>/dev/random\<close>, the clock and the application's I/O callbacks. None of these is
  defined here; they are fields of the record \<open>platform\<close>, which the operations take as an
  argument, and \<open>platform_ok\<close> states the documented behaviour that the proofs rely on.
\<close>

section \<open>Status codes\<close>

text \<open>
  The toolbox codes are constructors; those of \<open>SecureTransport.h\<close> (lines 181--240) carry
  their number. Only equality with another code is ever tested, and a callback may return
  any other code.
\<close>

datatype OSStatus =
    noErr | paramErr | memFullErr | unimpErr | ioErr | badReqErr | internalComponentErr
  | errSSL int | otherStatus int

abbreviation errSSLProtocol :: OSStatus where "errSSLProtocol \<equiv> errSSL (- 9800)"
abbreviation errSSLNegotiation :: OSStatus where "errSSLNegotiation \<equiv> errSSL (- 9801)"
abbreviation errSSLFatalAlert :: OSStatus where "errSSLFatalAlert \<equiv> errSSL (- 9802)"
abbreviation errSSLWouldBlock :: OSStatus where "errSSLWouldBlock \<equiv> errSSL (- 9803)"
abbreviation errSSLSessionNotFound :: OSStatus where "errSSLSessionNotFound \<equiv> errSSL (- 9804)"
abbreviation errSSLClosedGraceful :: OSStatus where "errSSLClosedGraceful \<equiv> errSSL (- 9805)"
abbreviation errSSLClosedAbort :: OSStatus where "errSSLClosedAbort \<equiv> errSSL (- 9806)"
abbreviation errSSLXCertChainInvalid :: OSStatus where "errSSLXCertChainInvalid \<equiv> errSSL (- 9807)"
abbreviation errSSLBadCert :: OSStatus where "errSSLBadCert \<equiv> errSSL (- 9808)"
abbreviation errSSLCrypto :: OSStatus where "errSSLCrypto \<equiv> errSSL (- 9809)"
abbreviation errSSLInternal :: OSStatus where "errSSLInternal \<equiv> errSSL (- 9810)"
abbreviation errSSLModuleAttach :: OSStatus where "errSSLModuleAttach \<equiv> errSSL (- 9811)"
abbreviation errSSLUnknownRootCert :: OSStatus where "errSSLUnknownRootCert \<equiv> errSSL (- 9812)"
abbreviation errSSLNoRootCert :: OSStatus where "errSSLNoRootCert \<equiv> errSSL (- 9813)"
abbreviation errSSLCertExpired :: OSStatus where "errSSLCertExpired \<equiv> errSSL (- 9814)"
abbreviation errSSLCertNotYetValid :: OSStatus where "errSSLCertNotYetValid \<equiv> errSSL (- 9815)"
abbreviation errSSLClosedNoNotify :: OSStatus where "errSSLClosedNoNotify \<equiv> errSSL (- 9816)"
abbreviation errSSLBufferOverflow :: OSStatus where "errSSLBufferOverflow \<equiv> errSSL (- 9817)"
abbreviation errSSLBadCipherSuite :: OSStatus where "errSSLBadCipherSuite \<equiv> errSSL (- 9818)"
abbreviation errSSLPeerUnexpectedMsg :: OSStatus where "errSSLPeerUnexpectedMsg \<equiv> errSSL (- 9819)"
abbreviation errSSLPeerBadRecordMac :: OSStatus where "errSSLPeerBadRecordMac \<equiv> errSSL (- 9820)"
abbreviation errSSLPeerDecryptionFail :: OSStatus where "errSSLPeerDecryptionFail \<equiv> errSSL (- 9821)"
abbreviation errSSLPeerRecordOverflow :: OSStatus where "errSSLPeerRecordOverflow \<equiv> errSSL (- 9822)"
abbreviation errSSLPeerDecompressFail :: OSStatus where "errSSLPeerDecompressFail \<equiv> errSSL (- 9823)"
abbreviation errSSLPeerHandshakeFail :: OSStatus where "errSSLPeerHandshakeFail \<equiv> errSSL (- 9824)"
abbreviation errSSLPeerBadCert :: OSStatus where "errSSLPeerBadCert \<equiv> errSSL (- 9825)"
abbreviation errSSLPeerUnsupportedCert :: OSStatus where "errSSLPeerUnsupportedCert \<equiv> errSSL (- 9826)"
abbreviation errSSLPeerCertRevoked :: OSStatus where "errSSLPeerCertRevoked \<equiv> errSSL (- 9827)"
abbreviation errSSLPeerCertExpired :: OSStatus where "errSSLPeerCertExpired \<equiv> errSSL (- 9828)"
abbreviation errSSLPeerCertUnknown :: OSStatus where "errSSLPeerCertUnknown \<equiv> errSSL (- 9829)"
abbreviation errSSLIllegalParam :: OSStatus where "errSSLIllegalParam \<equiv> errSSL (- 9830)"
abbreviation errSSLPeerUnknownCA :: OSStatus where "errSSLPeerUnknownCA \<equiv> errSSL (- 9831)"
abbreviation errSSLPeerAccessDenied :: OSStatus where "errSSLPeerAccessDenied \<equiv> errSSL (- 9832)"
abbreviation errSSLPeerDecodeError :: OSStatus where "errSSLPeerDecodeError \<equiv> errSSL (- 9833)"
abbreviation errSSLPeerDecryptError :: OSStatus where "errSSLPeerDecryptError \<equiv> errSSL (- 9834)"
abbreviation errSSLPeerExportRestriction :: OSStatus where "errSSLPeerExportRestriction \<equiv> errSSL (- 9835)"
abbreviation errSSLPeerProtocolVersion :: OSStatus where "errSSLPeerProtocolVersion \<equiv> errSSL (- 9836)"
abbreviation errSSLPeerInsufficientSecurity :: OSStatus where "errSSLPeerInsufficientSecurity \<equiv> errSSL (- 9837)"
abbreviation errSSLPeerInternalError :: OSStatus where "errSSLPeerInternalError \<equiv> errSSL (- 9838)"
abbreviation errSSLPeerUserCancelled :: OSStatus where "errSSLPeerUserCancelled \<equiv> errSSL (- 9839)"
abbreviation errSSLPeerNoRenegotiation :: OSStatus where "errSSLPeerNoRenegotiation \<equiv> errSSL (- 9840)"
abbreviation errSSLServerAuthCompleted :: OSStatus where "errSSLServerAuthCompleted \<equiv> errSSL (- 9841)"
abbreviation errSSLClientCertRequested :: OSStatus where "errSSLClientCertRequested \<equiv> errSSL (- 9842)"
abbreviation errSSLHostNameMismatch :: OSStatus where "errSSLHostNameMismatch \<equiv> errSSL (- 9843)"
abbreviation errSSLConnectionRefused :: OSStatus where "errSSLConnectionRefused \<equiv> errSSL (- 9844)"
abbreviation errSSLDecryptionFail :: OSStatus where "errSSLDecryptionFail \<equiv> errSSL (- 9845)"
abbreviation errSSLBadRecordMac :: OSStatus where "errSSLBadRecordMac \<equiv> errSSL (- 9846)"
abbreviation errSSLRecordOverflow :: OSStatus where "errSSLRecordOverflow \<equiv> errSSL (- 9847)"
abbreviation errSSLBadConfiguration :: OSStatus where "errSSLBadConfiguration \<equiv> errSSL (- 9848)"

section \<open>Algorithm names\<close>

datatype HMAC_Algs = HA_Null | HA_SHA1 | HA_MD5 | HA_SHA256 | HA_SHA384

datatype HashReference =
  SSLHashNull | SSLHashMD5 | SSLHashSHA1 | SSLHashSHA256 | SSLHashSHA384 | SSLHashSHA512

datatype SSLSymmetricCipher =
    SSLCipherNull | SSLCipherDES_CBC | SSLCipherDES40_CBC | SSLCipher3DES_CBC
  | SSLCipherRC4_40 | SSLCipherRC4_128 | SSLCipherRC2_40 | SSLCipherRC2_128
  | SSLCipherAES_128 | SSLCipherAES_256 | SSLCipherAES_128_GCM | SSLCipherAES_256_GCM

section \<open>Keys and trust results\<close>

text \<open>
  A \<open>CSSM_KEY\<close>: of the key header the fields that the library reads. The usage flags that the
  library sets for the benefit of the CSP are never read by it and are left out.
\<close>

datatype CSSM_ALGORITHMS =
  CSSM_ALGID_NONE | CSSM_ALGID_RSA | CSSM_ALGID_DSA | CSSM_ALGID_ECDSA | CSSM_ALGID_DH | CSSM_ALGID_other

datatype CSSM_KEYCLASS = CSSM_KEYCLASS_PUBLIC_KEY | CSSM_KEYCLASS_PRIVATE_KEY | CSSM_KEYCLASS_other

datatype CSSM_KEYBLOB = CSSM_KEYBLOB_RAW | CSSM_KEYBLOB_REFERENCE | CSSM_KEYBLOB_other

datatype CSSM_KEYFORMAT = CSSM_KEYBLOB_RAW_FORMAT_PKCS1 | CSSM_KEYBLOB_RAW_FORMAT_X509 | CSSM_KEYFORMAT_other

record CSSM_KEY =
  AlgorithmId :: CSSM_ALGORITHMS
  KeyClass :: CSSM_KEYCLASS
  BlobType :: CSSM_KEYBLOB
  Format :: CSSM_KEYFORMAT
  LogicalKeySizeInBits :: nat
  KeyData :: bytes

datatype CSSM_PADDING = CSSM_PADDING_PKCS1 | CSSM_PADDING_APPLE_SSLv2

datatype SecTrustResultType =
    kSecTrustResultUnspecified | kSecTrustResultProceed | kSecTrustResultDeny | kSecTrustResultConfirm
  | kSecTrustResultOther

datatype CSSM_RETURN =
    CSSM_OK | CSSMERR_TP_INVALID_ANCHOR_CERT | CSSMERR_TP_NOT_TRUSTED | CSSMERR_TP_CERT_EXPIRED
  | CSSMERR_TP_CERT_NOT_VALID_YET | CSSMERR_APPLETP_HOSTNAME_MISMATCH | errSecInvalidTrustSettings
  | CSSMERR_TP_INVALID_CERTIFICATE | CSSMERR_other int

text \<open>What \<open>sslVerifyCertChain\<close> hands to the trust evaluation.\<close>

record trust_request =
  certGroup :: "bytes list"
  serverName :: "bytes option"
  forClientCert :: bool
  anchors :: "bytes list option"
  allowExpired :: bool
  allowExpiredRoot :: bool

section \<open>Services\<close>

text \<open>
  A digest or HMAC context of CommonCrypto is represented by the octets absorbed so far: the
  documentation promises that several updates equal one update with the concatenation. A
  cryptor (a \<open>CCCryptorRef\<close>) is its direction, its algorithm and an opaque state (the CBC
  chaining value, the RC4 permutation) that each update replaces; the same holds for a CDSA
  context handle. \<open>devRandom\<close>, \<open>ioRead\<close> and \<open>ioWrite\<close> are indexed by the number of earlier
  calls, so that any sequence of answers is possible. \<open>masterSecretFn\<close> is the application's callback
  for tickets, which replaces the master secret.

  From \<open>SecKeyGetCSPHandle\<close> on follow the services of the Security framework's key, certificate
  and trust APIs, of the ASN.1 coder and of libcrypto (\<open>dlsym\<close> tells which symbols resolve; an
  opaque handle is a \<open>bytes\<close>). A context handle that CSSM creates, uses once and deletes is
  folded into the call that uses it.
\<close>

record cryptor =
  cryptorEncrypting :: bool
  cryptorAlg :: SSLSymmetricCipher
  cryptorState :: bytes

record platform =
  CC_Digest :: "HashReference \<Rightarrow> bytes \<Rightarrow> bytes"
  sizeof_CC_CTX :: "HashReference \<Rightarrow> nat"
  CCHmac :: "HMAC_Algs \<Rightarrow> bytes \<Rightarrow> bytes \<Rightarrow> bytes"
  CCCryptorCreate :: "bool \<Rightarrow> SSLSymmetricCipher \<Rightarrow> bytes \<Rightarrow> bytes \<Rightarrow> cryptor option"
  CCCryptorUpdate :: "cryptor \<Rightarrow> bytes \<Rightarrow> bytes \<times> cryptor"
  CSSM_CreateSymmetricContext :: "SSLSymmetricCipher \<Rightarrow> bytes \<Rightarrow> bytes option \<Rightarrow> cryptor option"
  CSSM_DataInit :: "bool \<Rightarrow> cryptor \<Rightarrow> cryptor option"
  CSSM_DataUpdate :: "bool \<Rightarrow> cryptor \<Rightarrow> bytes \<Rightarrow> nat \<Rightarrow> (bytes \<times> cryptor) option"
  libcryptoHandle :: bool
  libcryptoAesSyms :: bool
  AES_set_encrypt_key :: "bytes \<Rightarrow> int \<Rightarrow> bytes option"
  AES_encrypt :: "bytes \<Rightarrow> bytes \<Rightarrow> bytes"
  mallocOk :: "nat \<Rightarrow> bool"
  devRandom :: "nat \<Rightarrow> nat \<Rightarrow> bytes option"
  ioRead :: "nat \<Rightarrow> nat \<Rightarrow> OSStatus \<times> bytes"
  ioWrite :: "nat \<Rightarrow> bytes \<Rightarrow> OSStatus \<times> nat"
  now :: int
  masterSecretFn :: "bytes \<Rightarrow> bytes"
  SecKeyGetCSPHandle :: "CSSM_KEY \<Rightarrow> OSStatus + nat"
  SecKeyGetCredentials :: "CSSM_KEY \<Rightarrow> OSStatus"
  CSSM_CSP_CreateSignatureContext :: "nat \<Rightarrow> CSSM_ALGORITHMS \<Rightarrow> CSSM_KEY \<Rightarrow> bool"
  CSSM_UpdateContextAttributes :: "CSSM_KEY \<Rightarrow> OSStatus"
  CSSM_SignData :: "CSSM_KEY \<Rightarrow> bytes \<Rightarrow> nat \<Rightarrow> bytes option"
  CSSM_VerifyData :: "CSSM_KEY \<Rightarrow> bytes \<Rightarrow> bytes \<Rightarrow> bool"
  CSSM_CSP_CreateAsymmetricContext :: "nat \<Rightarrow> CSSM_KEY \<Rightarrow> CSSM_PADDING \<Rightarrow> bool"
  CSSM_EncryptData :: "CSSM_KEY \<Rightarrow> CSSM_PADDING \<Rightarrow> bytes \<Rightarrow> bytes option"
  CSSM_DecryptData :: "CSSM_KEY \<Rightarrow> CSSM_PADDING \<Rightarrow> bytes \<Rightarrow> bytes option"
  CSSM_QueryKeySizeInBits :: "CSSM_KEY \<Rightarrow> nat option"
  CSSM_CL_CertGetKeyInfo :: "bytes \<Rightarrow> CSSM_KEY option"
  CSSM_GenerateAlgorithmParams :: "nat \<Rightarrow> bytes option"
  CSSM_GenerateKeyPair :: "nat \<Rightarrow> bytes \<Rightarrow> nat \<Rightarrow> (CSSM_KEY \<times> CSSM_KEY) option"
  CSSM_CSP_CreateDeriveKeyContext :: "nat \<Rightarrow> CSSM_KEY \<Rightarrow> nat \<Rightarrow> bool"
  CSSM_DeriveKey :: "CSSM_KEY \<Rightarrow> bytes \<Rightarrow> nat \<Rightarrow> bytes option"
  CSSM_CSP_CreateNullContext :: "nat \<Rightarrow> bool"
  CSSM_WrapKey :: "nat \<Rightarrow> bytes \<Rightarrow> OSStatus + bytes"
  SEC_ASN1Decode_RSA :: "bytes \<Rightarrow> (bytes \<times> bytes) option"
  SEC_ASN1Encode_RSA :: "bytes \<Rightarrow> bytes \<Rightarrow> bytes option"
  SEC_ASN1Decode_DHParameter :: "bytes \<Rightarrow> (bytes \<times> bytes) option"
  SEC_ASN1Decode_DHParameterBlock :: "bytes \<Rightarrow> (bytes \<times> bytes) option"
  SEC_ASN1Encode_DHParameter :: "bytes \<Rightarrow> bytes \<Rightarrow> bytes option"
  SecAsn1Decode_SPKI :: "bytes \<Rightarrow> OSStatus + (bytes \<times> bytes \<times> bytes)"
  SecCertificateCreateFromData :: "bytes \<Rightarrow> OSStatus"
  SecTrustCall :: "string \<Rightarrow> OSStatus"
  SecTrustEvaluate :: "trust_request \<Rightarrow> OSStatus + SecTrustResultType"
  SecTrustGetCssmResultCode :: "trust_request \<Rightarrow> OSStatus + CSSM_RETURN"
  dlsym :: "string \<Rightarrow> bool"
  d2i_X509 :: "bytes \<Rightarrow> bytes option"
  X509_get_pubkey :: "bytes \<Rightarrow> bytes option"
  EVP_PKEY_get1_RSA :: "bytes \<Rightarrow> bytes option"
  EVP_PKEY_get1_EC_KEY :: "bytes \<Rightarrow> bytes option"
  RSA_verify :: "nat \<Rightarrow> bytes \<Rightarrow> bytes \<Rightarrow> bytes \<Rightarrow> int"
  ECDSA_verify :: "bytes \<Rightarrow> bytes \<Rightarrow> bytes \<Rightarrow> int"
  i2d_RSAPublicKey :: "bytes \<Rightarrow> bytes option"
  RSA_public_encrypt :: "bytes \<Rightarrow> bytes \<Rightarrow> bytes \<Rightarrow> int \<times> bytes"
  anchorBundle :: "bytes list option"
  X509_STORE_ok :: bool
  X509_STORE_add_cert :: "bytes list \<Rightarrow> bytes \<Rightarrow> bool"
  X509_STORE_CTX_ok :: bool
  X509_verify_cert :: "bytes list \<Rightarrow> bytes \<Rightarrow> int"
  subjectAltName :: "bytes \<Rightarrow> bytes option"
  EC_KEY_generate :: "nat \<Rightarrow> nat \<Rightarrow> (bytes \<times> bytes) option"
  EC_POINT_oct2point :: "nat \<Rightarrow> bytes \<Rightarrow> bytes option"
  ECDH_compute_key :: "bytes \<Rightarrow> bytes \<Rightarrow> nat \<Rightarrow> int \<times> bytes"

definition digest_length :: "HashReference \<Rightarrow> nat" where
  "digest_length h = (case h of SSLHashNull \<Rightarrow> 0 | SSLHashMD5 \<Rightarrow> 16 | SSLHashSHA1 \<Rightarrow> 20
     | SSLHashSHA256 \<Rightarrow> 32 | SSLHashSHA384 \<Rightarrow> 48 | SSLHashSHA512 \<Rightarrow> 64)"

definition hmac_length :: "HMAC_Algs \<Rightarrow> nat" where
  "hmac_length a = (case a of HA_Null \<Rightarrow> 0 | HA_SHA1 \<Rightarrow> 20 | HA_MD5 \<Rightarrow> 16
     | HA_SHA256 \<Rightarrow> 32 | HA_SHA384 \<Rightarrow> 48)"

text \<open>The block size of the algorithm behind a cryptor: 1 for the stream cipher.\<close>

definition cipher_block :: "SSLSymmetricCipher \<Rightarrow> nat" where
  "cipher_block c = (case c of SSLCipherNull \<Rightarrow> 1 | SSLCipherRC4_40 \<Rightarrow> 1 | SSLCipherRC4_128 \<Rightarrow> 1
     | SSLCipherAES_128 \<Rightarrow> 16 | SSLCipherAES_256 \<Rightarrow> 16
     | SSLCipherAES_128_GCM \<Rightarrow> 1 | SSLCipherAES_256_GCM \<Rightarrow> 1 | _ \<Rightarrow> 8)"

text \<open>
  The documented behaviour: digests and MACs have their nominal length, the AES block
  function maps 16 octets to 16 octets, a cryptor without padding preserves the length of
  block-aligned data and stays a cryptor of its kind, a read of \<open>/dev/random\<close> gives what was
  asked for, the read callback delivers at most what was asked for, and memory is available.
\<close>

definition platform_ok :: "platform \<Rightarrow> bool" where
  "platform_ok P \<longleftrightarrow>
     (\<forall>h m. length (CC_Digest P h m) = digest_length h) \<and>
     (\<forall>a k m. a \<noteq> HA_Null \<longrightarrow> length (CCHmac P a k m) = hmac_length a) \<and>
     (\<forall>k b. length b = 16 \<longrightarrow> length (AES_encrypt P k b) = 16) \<and>
     (\<forall>s m. cipher_block (cryptorAlg s) dvd length m \<longrightarrow>
        length (fst (CCCryptorUpdate P s m)) = length m \<and>
        cryptorAlg (snd (CCCryptorUpdate P s m)) = cryptorAlg s \<and>
        cryptorEncrypting (snd (CCCryptorUpdate P s m)) = cryptorEncrypting s) \<and>
     (\<forall>i n. \<exists>bs. devRandom P i n = Some bs \<and> length bs = n) \<and>
     (\<forall>i n. length (snd (ioRead P i n)) \<le> n) \<and>
     (\<forall>n. mallocOk P n)"

lemma platform_okD:
  assumes "platform_ok P"
  shows length_CC_Digest: "length (CC_Digest P h m) = digest_length h"
    and length_CCHmac: "a \<noteq> HA_Null \<Longrightarrow> length (CCHmac P a k m) = hmac_length a"
    and length_AES_encrypt: "length b = 16 \<Longrightarrow> length (AES_encrypt P k b) = 16"
    and CCCryptorUpdate_keeps: "cipher_block (cryptorAlg s) dvd length m \<Longrightarrow>
      CCCryptorUpdate P s m = (out, s') \<Longrightarrow>
      length out = length m \<and> cryptorAlg s' = cryptorAlg s \<and>
      cryptorEncrypting s' = cryptorEncrypting s"
    and devRandom_Some: "\<exists>bs. devRandom P i n = Some bs \<and> length bs = n"
    and length_ioRead: "length (snd (ioRead P i n)) \<le> n"
    and platform_malloc [simp]: "mallocOk P n"
  using assms unfolding platform_ok_def by (auto dest: spec) (metis fst_conv snd_conv)+

text \<open>
  Decryption inverts encryption. Two cryptors are paired when whatever block-aligned
  messages the first encrypts, one update each, the second decrypts back one by one.
  CommonCrypto promises this of an encryptor and a decryptor made from the same
  algorithm, key and IV (\<open>cryptor_laws\<close>), and it is preserved by every update.
\<close>

fun cryptor_run :: "platform \<Rightarrow> cryptor \<Rightarrow> bytes list \<Rightarrow> bytes list" where
  "cryptor_run P s [] = []"
| "cryptor_run P s (m # ms) =
     fst (CCCryptorUpdate P s m) # cryptor_run P (snd (CCCryptorUpdate P s m)) ms"

definition cryptors_paired :: "platform \<Rightarrow> cryptor \<Rightarrow> cryptor \<Rightarrow> bool" where
  "cryptors_paired P e d \<longleftrightarrow> cryptorAlg e = cryptorAlg d \<and>
     (\<forall>ms. (\<forall>m\<in>set ms. cipher_block (cryptorAlg e) dvd length m) \<longrightarrow>
        cryptor_run P d (cryptor_run P e ms) = ms)"

definition cryptor_laws :: "platform \<Rightarrow> bool" where
  "cryptor_laws P \<longleftrightarrow> (\<forall>alg key iv e d.
     CCCryptorCreate P True alg key iv = Some e \<longrightarrow> CCCryptorCreate P False alg key iv = Some d \<longrightarrow>
     cryptorAlg e = alg \<and> cryptors_paired P e d)"

lemma cryptors_paired_step:
  assumes "platform_ok P" "cryptors_paired P e d"
    and "cipher_block (cryptorAlg e) dvd length m"
    and "CCCryptorUpdate P e m = (c, e')" "CCCryptorUpdate P d c = (m', d')"
  shows "m' = m" "cryptors_paired P e' d'" "length c = length m"
proof -
  have alg: "cryptorAlg d = cryptorAlg e" and
    run: "\<And>ms. (\<forall>m\<in>set ms. cipher_block (cryptorAlg e) dvd length m) \<Longrightarrow>
      cryptor_run P d (cryptor_run P e ms) = ms"
    using assms(2) by (auto simp: cryptors_paired_def)
  have e': "length c = length m" "cryptorAlg e' = cryptorAlg e"
    using CCCryptorUpdate_keeps [OF assms(1,3,4)] by auto
  then have d': "cryptorAlg d' = cryptorAlg e"
    using CCCryptorUpdate_keeps [OF assms(1) _ assms(5)] assms(3) alg by simp
  show "length c = length m" by (fact e')
  show "m' = m" using run [of "[m]"] assms(3-5) by simp
  show "cryptors_paired P e' d'"
    unfolding cryptors_paired_def
  proof (intro conjI allI impI)
    show "cryptorAlg e' = cryptorAlg d'" using e' d' by simp
    fix ms :: "bytes list"
    assume "\<forall>m\<in>set ms. cipher_block (cryptorAlg e') dvd length m"
    then show "cryptor_run P d' (cryptor_run P e' ms) = ms"
      using run [of "m # ms"] assms(3-5) e' by simp
  qed
qed

section \<open>Buffers: \<open>sslMemory.c\<close>\<close>

text \<open>
  An \<open>SSLBuffer\<close> whose data may be NULL is a \<open>bytes option\<close>. The contents of a fresh buffer
  are indeterminate in C; every caller writes it before it is read, and the model fills it
  with zeros. \<open>SSLReallocBuffer\<close> keeps the common prefix.
\<close>

definition SSLAllocBuffer :: "platform \<Rightarrow> nat \<Rightarrow> OSStatus \<times> bytes option" where
  "SSLAllocBuffer P n = (if mallocOk P n then (noErr, Some (replicate n 0)) else (memFullErr, None))"

definition SSLFreeBuffer :: "bytes option \<Rightarrow> OSStatus \<times> bytes option" where
  "SSLFreeBuffer buf = (noErr, None)"

definition SSLReallocBuffer :: "platform \<Rightarrow> bytes option \<Rightarrow> nat \<Rightarrow> OSStatus \<times> bytes option" where
  "SSLReallocBuffer P buf n =
     (let old = (case buf of None \<Rightarrow> [] | Some bs \<Rightarrow> bs) in
      if mallocOk P n then (noErr, Some (take n old @ replicate (n - length old) 0))
      else (memFullErr, None))"

definition sslAllocCopy :: "platform \<Rightarrow> bytes \<Rightarrow> bytes option" where
  "sslAllocCopy P src = (if mallocOk P (length src) then Some src else None)"

text \<open>\<open>SSLCopyBufferFromData\<close> and \<open>SSLCopyBuffer\<close>: on failure \<open>dst->length\<close> is left as it was.\<close>

definition SSLCopyBuffer :: "platform \<Rightarrow> bytes \<Rightarrow> OSStatus \<times> bytes option" where
  "SSLCopyBuffer P src =
     (case sslAllocCopy P src of None \<Rightarrow> (memFullErr, None) | Some dst \<Rightarrow> (noErr, Some dst))"

lemma SSLCopyBuffer_ok: "platform_ok P \<Longrightarrow> SSLCopyBuffer P src = (noErr, Some src)"
  by (simp add: SSLCopyBuffer_def sslAllocCopy_def platform_malloc)

lemma SSLAllocBuffer_ok: "platform_ok P \<Longrightarrow> SSLAllocBuffer P n = (noErr, Some (replicate n 0))"
  by (simp add: SSLAllocBuffer_def platform_malloc)

end
