(* ===== verification/Gcm_Aes.thy ===== *)
theory Gcm_Aes
  imports Gcm_Correct Platform
begin

text \<open>
  Model of \<open>sslGcmAes.c\<close>: the binding of the GCM core to the AES block function that is
  looked up in libcrypto once per process. \<open>g_resolved\<close> is the process-wide flag of the
  lookup (0 untried, 1 found, -1 failed). The theory interprets the block-function interface
  of the GCM core on \<open>aesBlock\<close> and shows that decryption inverts encryption, that an
  accepted record is one the key holder sealed, and that sequence numbers give distinct
  nonces.
\<close>

record SslGcmCtx =
  aesKey :: bytes
  fixedIV :: bytes
  valid :: bool

definition resolveAesSyms :: "platform \<Rightarrow> int \<Rightarrow> int \<times> int" where
  "resolveAesSyms P g_resolved =
     (if g_resolved \<noteq> 0 then (if g_resolved = 1 then 0 else - 1, g_resolved)
      else if \<not> libcryptoHandle P then (- 1, - 1)
      else if \<not> libcryptoAesSyms P then (- 1, - 1)
      else (0, 1))"

text \<open>The key argument of the block function: the library it comes from and the key schedule.\<close>

definition aesBlock :: "platform \<times> bytes \<Rightarrow> bytes \<Rightarrow> bytes" where
  "aesBlock = (\<lambda>(P, key) inp. AES_encrypt P key inp)"

text \<open>The result is the C return value, the context and the process-wide flag.\<close>

definition sslGcmInit ::
  "platform \<Rightarrow> int \<Rightarrow> SslGcmCtx \<Rightarrow> bytes option \<Rightarrow> int \<Rightarrow> bytes option \<Rightarrow> int \<times> SslGcmCtx \<times> int" where
  "sslGcmInit P g ctx key keyBits iv =
     (case (key, iv) of
        (Some k, Some v) \<Rightarrow>
          if keyBits \<noteq> 128 \<and> keyBits \<noteq> 256 then (- 1, ctx, g)
          else case resolveAesSyms P g of (r, g') \<Rightarrow>
            if r \<noteq> 0 then (- 1, ctx, g')
            else (let ctx = \<lparr>aesKey = replicate 256 0, fixedIV = replicate 4 0, valid = False\<rparr> in
                  case AES_set_encrypt_key P (take (nat keyBits div 8) k) keyBits of
                    None \<Rightarrow> (- 1, ctx, g')
                  | Some sched \<Rightarrow> (0, ctx\<lparr>aesKey := sched, fixedIV := take 4 v, valid := True\<rparr>, g'))
      | _ \<Rightarrow> (- 1, ctx, g))"

definition buildNonce :: "SslGcmCtx \<Rightarrow> bytes \<Rightarrow> bytes" where
  "buildNonce ctx explicitNonce = take 4 (fixedIV ctx) @ take 8 explicitNonce"

text \<open>A return value other than 0 is \<open>None\<close>; the pointer to the context may be NULL.\<close>

definition sslGcmEncrypt ::
  "platform \<Rightarrow> SslGcmCtx option \<Rightarrow> bytes \<Rightarrow> bytes \<Rightarrow> bytes \<Rightarrow> (bytes \<times> bytes) option" where
  "sslGcmEncrypt P ctx explicitNonce aad pt =
     (case ctx of None \<Rightarrow> None
      | Some c \<Rightarrow> if \<not> valid c then None
                 else Some (sslGcmSeal aesBlock (P, aesKey c) (buildNonce c explicitNonce) aad pt))"

definition sslGcmDecrypt ::
  "platform \<Rightarrow> SslGcmCtx option \<Rightarrow> bytes \<Rightarrow> bytes \<Rightarrow> bytes \<Rightarrow> bytes \<Rightarrow> bytes option" where
  "sslGcmDecrypt P ctx explicitNonce aad ct tag =
     (case ctx of None \<Rightarrow> None
      | Some c \<Rightarrow> if \<not> valid c then None
                 else sslGcmOpen aesBlock (P, aesKey c) (buildNonce c explicitNonce) aad ct tag)"

section \<open>The block function meets its interface\<close>

interpretation aes: gcm_block aesBlock "\<lambda>(P, key). platform_ok P"
  by unfold_locales (auto simp: aesBlock_def length_AES_encrypt)

section \<open>Properties\<close>

text \<open>An initialised context holds a four-octet IV prefix.\<close>

definition gcm_ctx_ok :: "SslGcmCtx \<Rightarrow> bool" where
  "gcm_ctx_ok c \<longleftrightarrow> valid c \<and> length (fixedIV c) = 4"

lemma sslGcmInit_ok:
  assumes "sslGcmInit P g ctx key keyBits (Some iv) = (0, c, g')" "4 \<le> length iv"
  shows "gcm_ctx_ok c" "fixedIV c = take 4 iv" "g' = 1" "keyBits \<in> {128, 256}"
  using assms
  by (auto simp: sslGcmInit_def resolveAesSyms_def gcm_ctx_ok_def Let_def
      split: option.splits if_splits)

lemma length_buildNonce: "gcm_ctx_ok c \<Longrightarrow> length n = 8 \<Longrightarrow> length (buildNonce c n) = 12"
  by (simp add: buildNonce_def gcm_ctx_ok_def)

lemma buildNonce_inject:
  "length n = 8 \<Longrightarrow> length m = 8 \<Longrightarrow> buildNonce c n = buildNonce c m \<longleftrightarrow> n = m"
  by (simp add: buildNonce_def)

lemma sslGcmEncrypt_Some:
  "gcm_ctx_ok c \<Longrightarrow> sslGcmEncrypt P (Some c) n aad pt =
     Some (sslGcmSeal aesBlock (P, aesKey c) (buildNonce c n) aad pt)"
  by (simp add: sslGcmEncrypt_def gcm_ctx_ok_def)

lemma sslGcmEncrypt_lengths:
  assumes "platform_ok P" "gcm_ctx_ok c" "length n = 8" "sslGcmEncrypt P (Some c) n aad pt = Some (ct, tag)"
  shows "length ct = length pt" "length tag = 16"
  using aes.seal_lengths [of "(P, aesKey c)" "buildNonce c n" aad pt ct tag] assms
  by (simp_all add: sslGcmEncrypt_Some length_buildNonce)

lemma sslGcmDecrypt_sslGcmEncrypt:
  assumes "platform_ok P" "gcm_ctx_ok c" "length n = 8" "sslGcmEncrypt P (Some c) n aad pt = Some (ct, tag)"
  shows "sslGcmDecrypt P (Some c) n aad ct tag = Some pt"
  using aes.open_seal [of "(P, aesKey c)" "buildNonce c n" aad pt ct tag] assms
  by (simp add: sslGcmEncrypt_Some length_buildNonce sslGcmDecrypt_def gcm_ctx_ok_def)

lemma sslGcmDecrypt_authentic:
  assumes "platform_ok P" "gcm_ctx_ok c" "length n = 8" "length tag = 16"
    and "sslGcmDecrypt P (Some c) n aad ct tag = Some pt"
  shows "sslGcmEncrypt P (Some c) n aad pt = Some (ct, tag)"
  using aes.open_authentic [of "(P, aesKey c)" "buildNonce c n" tag aad ct pt] assms
  by (simp add: sslGcmEncrypt_Some length_buildNonce sslGcmDecrypt_def gcm_ctx_ok_def)

end
