(* ===== verification/Hash_Hmac.thy ===== *)
theory Hash_Hmac
  imports Platform "HOL-Library.Monad_Syntax"
begin

text \<open>
  Model of \<open>sslDigests.c\<close> (the \<open>HashReference\<close> tables and the wrappers around them) and of
  \<open>tls_hmac.c\<close> (the \<open>HMACReference\<close> tables). A table of C function pointers is the
  constructor that names it; calling through a pointer is a function that dispatches on the
  constructor. An outer \<open>None\<close> is a call with no defined behaviour: a failed assertion or a
  NULL dereference.

  The interface the record layer and the PRF use is the locale \<open>hmac_provider\<close>: after
  \<open>alloc\<close> and \<open>init\<close>, a sequence of updates followed by \<open>final\<close> gives the MAC of the
  concatenation, and the context can be initialised again.
\<close>

section \<open>Digests\<close>

definition SSLMACPad1 :: bytes where "SSLMACPad1 = replicate 48 0x36"
definition SSLMACPad2 :: bytes where "SSLMACPad2 = replicate 48 0x5C"

definition macPadSize :: "HashReference \<Rightarrow> nat" where
  "macPadSize h = (case h of SSLHashMD5 \<Rightarrow> 48 | SSLHashSHA1 \<Rightarrow> 40 | _ \<Rightarrow> 0)"

abbreviation digestSize :: "HashReference \<Rightarrow> nat" where
  "digestSize h \<equiv> digest_length h"

definition contextSize :: "platform \<Rightarrow> HashReference \<Rightarrow> nat" where
  "contextSize P h = (if h = SSLHashNull then 0 else sizeof_CC_CTX P h)"

text \<open>A digest context is a buffer: \<open>None\<close> when it has no data, else the octets absorbed.\<close>

type_synonym digestCtx = "bytes option"

definition hash_init :: "HashReference \<Rightarrow> digestCtx \<Rightarrow> (OSStatus \<times> digestCtx) option" where
  "hash_init h st =
     (if h = SSLHashNull then Some (noErr, st)
      else case st of None \<Rightarrow> None | Some _ \<Rightarrow> Some (noErr, Some []))"

definition hash_update :: "HashReference \<Rightarrow> digestCtx \<Rightarrow> bytes \<Rightarrow> (OSStatus \<times> digestCtx) option" where
  "hash_update h st data =
     (if h = SSLHashNull then Some (noErr, st)
      else case st of None \<Rightarrow> None | Some absorbed \<Rightarrow> Some (noErr, Some (absorbed @ data)))"

text \<open>
  \<open>final\<close> writes the digest and sets \<open>digest->length\<close>; the caller's buffer is \<open>digest\<close>,
  which must have room. The null hash writes nothing.
\<close>

definition hash_final :: "platform \<Rightarrow> HashReference \<Rightarrow> digestCtx \<Rightarrow> bytes \<Rightarrow> (OSStatus \<times> bytes) option" where
  "hash_final P h st digest =
     (if h = SSLHashNull then Some (noErr, digest)
      else case st of None \<Rightarrow> None
           | Some absorbed \<Rightarrow> if length digest < digest_length h then None
                             else Some (noErr, CC_Digest P h absorbed))"

definition hash_close :: "HashReference \<Rightarrow> digestCtx \<Rightarrow> OSStatus" where
  "hash_close h st = noErr"

definition hash_clone :: "HashReference \<Rightarrow> digestCtx \<Rightarrow> digestCtx \<Rightarrow> (OSStatus \<times> digestCtx) option" where
  "hash_clone h src dest =
     (if h = SSLHashNull then Some (noErr, dest)
      else case (src, dest) of (Some absorbed, Some _) \<Rightarrow> Some (noErr, Some absorbed) | _ \<Rightarrow> None)"

definition CloneHashState :: "platform \<Rightarrow> HashReference \<Rightarrow> digestCtx \<Rightarrow> (OSStatus \<times> digestCtx) option" where
  "CloneHashState P ref state =
     (case SSLAllocBuffer P (contextSize P ref) of
        (err, newState) \<Rightarrow> if err \<noteq> noErr then Some (err, newState)
                          else hash_clone ref state newState)"

definition ReadyHash :: "platform \<Rightarrow> HashReference \<Rightarrow> (OSStatus \<times> digestCtx) option" where
  "ReadyHash P ref =
     (case SSLAllocBuffer P (contextSize P ref) of
        (err, state) \<Rightarrow> if err \<noteq> noErr then Some (err, state) else hash_init ref state)"

definition CloseHash :: "HashReference \<Rightarrow> digestCtx \<Rightarrow> OSStatus \<times> digestCtx" where
  "CloseHash ref state =
     (if state = None then (noErr, state)
      else let serr = hash_close ref state in
           if serr \<noteq> noErr then (serr, state) else SSLFreeBuffer state)"

lemmas hash_defs = hash_init_def hash_update_def hash_final_def hash_clone_def

text \<open>
  The functional contract of a digest run: ready it, update it any number of times, clone it,
  and finish the clone.
\<close>

fun hash_updates :: "HashReference \<Rightarrow> digestCtx \<Rightarrow> bytes list \<Rightarrow> (OSStatus \<times> digestCtx) option" where
  "hash_updates h st [] = Some (noErr, st)"
| "hash_updates h st (d # ds) =
     do { (err, st') \<leftarrow> hash_update h st d;
          if err \<noteq> noErr then Some (err, st') else hash_updates h st' ds }"

lemma ReadyHash_ok:
  "platform_ok P \<Longrightarrow> h \<noteq> SSLHashNull \<Longrightarrow> ReadyHash P h = Some (noErr, Some [])"
  by (simp add: ReadyHash_def SSLAllocBuffer_ok hash_init_def)

lemma CloneHashState_ok:
  "platform_ok P \<Longrightarrow> h \<noteq> SSLHashNull \<Longrightarrow> CloneHashState P h (Some bs) = Some (noErr, Some bs)"
  by (simp add: CloneHashState_def SSLAllocBuffer_ok hash_clone_def)

lemma hash_update_Some [simp]:
  "h \<noteq> SSLHashNull \<Longrightarrow> hash_update h (Some bs) d = Some (noErr, Some (bs @ d))"
  by (simp add: hash_update_def)

lemma hash_updates_Some:
  "h \<noteq> SSLHashNull \<Longrightarrow> hash_updates h (Some bs) ds = Some (noErr, Some (bs @ concat ds))"
  by (induction ds arbitrary: bs) simp_all

lemma hash_final_Some [simp]:
  "h \<noteq> SSLHashNull \<Longrightarrow> digest_length h \<le> length digest \<Longrightarrow>
   hash_final P h (Some bs) digest = Some (noErr, CC_Digest P h bs)"
  by (simp add: hash_final_def)

section \<open>HMAC\<close>

text \<open>
  \<open>struct HMACContext\<close>: the template holds the algorithm and the key; \<open>ccHmac\<close> is the
  context data is fed to, here the octets absorbed since the last \<open>init\<close>. A reference
  is named by its algorithm, since each algorithm has exactly one table.
\<close>

record HMACContext =
  hmacRef :: HMAC_Algs
  ccHmacTemplate :: bytes
  ccHmac :: bytes
  hmacMacSize :: nat

type_synonym HMACContextRef = "HMACContext option"

abbreviation macSize :: "HMAC_Algs \<Rightarrow> nat" where
  "macSize a \<equiv> hmac_length a"

definition TLS_HMAC_MAX_SIZE :: nat where "TLS_HMAC_MAX_SIZE = 48"

text \<open>792 is the size of the C structure; only whether the allocator serves it matters.\<close>

definition HMAC_Alloc :: "platform \<Rightarrow> HMAC_Algs \<Rightarrow> bytes \<Rightarrow> (OSStatus \<times> HMACContextRef) option" where
  "HMAC_Alloc P hmac key =
     (if \<not> mallocOk P 792 then Some (memFullErr, None)
      else case hmac of
             HA_SHA1 \<Rightarrow> Some (noErr, Some \<lparr>hmacRef = hmac, ccHmacTemplate = key, ccHmac = [], hmacMacSize = 20\<rparr>)
           | HA_MD5 \<Rightarrow> Some (noErr, Some \<lparr>hmacRef = hmac, ccHmacTemplate = key, ccHmac = [], hmacMacSize = 16\<rparr>)
           | HA_SHA256 \<Rightarrow> Some (noErr, Some \<lparr>hmacRef = hmac, ccHmacTemplate = key, ccHmac = [], hmacMacSize = 32\<rparr>)
           | HA_SHA384 \<Rightarrow> Some (noErr, Some \<lparr>hmacRef = hmac, ccHmacTemplate = key, ccHmac = [], hmacMacSize = 48\<rparr>)
           | HA_Null \<Rightarrow> None)"

definition HMAC_Free :: "HMACContextRef \<Rightarrow> OSStatus \<times> HMACContextRef" where
  "HMAC_Free hmacCtx = (noErr, None)"

definition HMAC_Init :: "HMACContextRef \<Rightarrow> OSStatus \<times> HMACContextRef" where
  "HMAC_Init hmacCtx =
     (case hmacCtx of None \<Rightarrow> (errSSLInternal, None) | Some c \<Rightarrow> (noErr, Some (c\<lparr>ccHmac := []\<rparr>)))"

definition HMAC_Update :: "HMACContextRef \<Rightarrow> bytes \<Rightarrow> (OSStatus \<times> HMACContextRef) option" where
  "HMAC_Update hmacCtx data =
     (case hmacCtx of None \<Rightarrow> None | Some c \<Rightarrow> Some (noErr, Some (c\<lparr>ccHmac := ccHmac c @ data\<rparr>)))"

text \<open>
  \<open>final\<close> is given the room \<open>*hmacLen\<close> and writes the MAC; the second component of the result
  is what was written, \<open>None\<close> when nothing was (then \<open>*hmacLen\<close> is unchanged too).
\<close>

definition HMAC_Final :: "platform \<Rightarrow> HMACContextRef \<Rightarrow> nat \<Rightarrow> (OSStatus \<times> bytes option) option" where
  "HMAC_Final P hmacCtx hmacLen =
     (case hmacCtx of None \<Rightarrow> None
      | Some c \<Rightarrow> if hmacLen < hmacMacSize c then Some (errSSLInternal, None)
                 else Some (noErr, Some (CCHmac P (hmacRef c) (ccHmacTemplate c) (ccHmac c))))"

definition HMAC_AllocNull :: "(OSStatus \<times> HMACContextRef) option" where
  "HMAC_AllocNull = Some (noErr, None)"

definition hmac_alloc :: "platform \<Rightarrow> HMAC_Algs \<Rightarrow> bytes \<Rightarrow> (OSStatus \<times> HMACContextRef) option" where
  "hmac_alloc P ref key = (if ref = HA_Null then HMAC_AllocNull else HMAC_Alloc P ref key)"

definition hmac_free :: "HMAC_Algs \<Rightarrow> HMACContextRef \<Rightarrow> OSStatus \<times> HMACContextRef" where
  "hmac_free ref c = (if ref = HA_Null then (noErr, c) else HMAC_Free c)"

definition hmac_init :: "HMAC_Algs \<Rightarrow> HMACContextRef \<Rightarrow> OSStatus \<times> HMACContextRef" where
  "hmac_init ref c = (if ref = HA_Null then (noErr, c) else HMAC_Init c)"

definition hmac_update :: "HMAC_Algs \<Rightarrow> HMACContextRef \<Rightarrow> bytes \<Rightarrow> (OSStatus \<times> HMACContextRef) option" where
  "hmac_update ref c data = (if ref = HA_Null then Some (noErr, c) else HMAC_Update c data)"

definition hmac_final :: "platform \<Rightarrow> HMAC_Algs \<Rightarrow> HMACContextRef \<Rightarrow> nat \<Rightarrow> (OSStatus \<times> bytes option) option" where
  "hmac_final P ref c hmacLen = (if ref = HA_Null then Some (noErr, None) else HMAC_Final P c hmacLen)"

definition HMAC_Hmac ::
  "platform \<Rightarrow> HMACContextRef \<Rightarrow> bytes \<Rightarrow> nat \<Rightarrow> (OSStatus \<times> bytes option \<times> HMACContextRef) option" where
  "HMAC_Hmac P hmacCtx data hmacLen =
     (case hmacCtx of None \<Rightarrow> Some (errSSLInternal, None, None)
      | Some c \<Rightarrow>
          (let ref = hmacRef c; (serr, c1) = hmac_init ref hmacCtx in
           if serr \<noteq> noErr then Some (serr, None, c1)
           else do { (serr, c2) \<leftarrow> hmac_update ref c1 data;
                     if serr \<noteq> noErr then Some (serr, None, c2)
                     else do { (serr, out) \<leftarrow> hmac_final P ref c2 hmacLen; Some (serr, out, c2) } }))"

text \<open>
  The pairs of \<open>HashHmacReference\<close>: the digest for SSLv3 and the HMAC for TLS. As with the
  references, the pair is named by its HMAC algorithm.
\<close>

definition hash_of :: "HMAC_Algs \<Rightarrow> HashReference" where
  "hash_of a = (case a of HA_Null \<Rightarrow> SSLHashNull | HA_MD5 \<Rightarrow> SSLHashMD5 | HA_SHA1 \<Rightarrow> SSLHashSHA1
     | HA_SHA256 \<Rightarrow> SSLHashSHA256 | HA_SHA384 \<Rightarrow> SSLHashSHA384)"

lemma digest_length_hash_of [simp]: "digest_length (hash_of a) = hmac_length a"
  by (cases a) (simp_all add: hash_of_def digest_length_def hmac_length_def)

lemma hash_of_Null_iff [simp]: "hash_of a = SSLHashNull \<longleftrightarrow> a = HA_Null"
  by (cases a) (simp_all add: hash_of_def)

lemma hmac_length_le_max: "hmac_length a \<le> TLS_HMAC_MAX_SIZE"
  by (cases a) (simp_all add: hmac_length_def TLS_HMAC_MAX_SIZE_def)

section \<open>The HMAC interface\<close>

text \<open>
  \<open>keyed c k\<close> says that the context holds key \<open>k\<close>, \<open>fed c k m\<close> that it also has absorbed
  exactly \<open>m\<close> since the last \<open>init\<close>.
\<close>

locale hmac_provider =
  fixes alloc :: "'p \<Rightarrow> bytes \<Rightarrow> (OSStatus \<times> 'c) option"
    and init :: "'p \<Rightarrow> 'c \<Rightarrow> OSStatus \<times> 'c"
    and update :: "'p \<Rightarrow> 'c \<Rightarrow> bytes \<Rightarrow> (OSStatus \<times> 'c) option"
    and final :: "'p \<Rightarrow> 'c \<Rightarrow> nat \<Rightarrow> (OSStatus \<times> bytes option) option"
    and size_of :: "'p \<Rightarrow> nat"
    and mac :: "'p \<Rightarrow> bytes \<Rightarrow> bytes \<Rightarrow> bytes"
    and good :: "'p \<Rightarrow> bool"
    and fed :: "'p \<Rightarrow> 'c \<Rightarrow> bytes \<Rightarrow> bytes \<Rightarrow> bool"
  assumes alloc_ok: "good p \<Longrightarrow> \<exists>c m. alloc p k = Some (noErr, c) \<and> fed p c k m"
    and init_ok: "good p \<Longrightarrow> fed p c k m \<Longrightarrow> \<exists>c'. init p c = (noErr, c') \<and> fed p c' k []"
    and update_ok: "good p \<Longrightarrow> fed p c k m \<Longrightarrow>
      \<exists>c'. update p c d = Some (noErr, c') \<and> fed p c' k (m @ d)"
    and final_ok: "good p \<Longrightarrow> fed p c k m \<Longrightarrow> size_of p \<le> n \<Longrightarrow>
      final p c n = Some (noErr, Some (mac p k m))"
    and length_mac: "good p \<Longrightarrow> length (mac p k m) = size_of p"
begin

fun updates :: "'p \<Rightarrow> 'c \<Rightarrow> bytes list \<Rightarrow> (OSStatus \<times> 'c) option" where
  "updates p c [] = Some (noErr, c)"
| "updates p c (d # ds) =
     do { (err, c') \<leftarrow> update p c d; if err \<noteq> noErr then Some (err, c') else updates p c' ds }"

lemma updates_ok:
  "good p \<Longrightarrow> fed p c k m \<Longrightarrow> \<exists>c'. updates p c ds = Some (noErr, c') \<and> fed p c' k (m @ concat ds)"
proof (induction ds arbitrary: c m)
  case (Cons d ds)
  obtain c' where "update p c d = Some (noErr, c')" "fed p c' k (m @ d)"
    using update_ok [OF Cons.prems] by blast
  then show ?case using Cons.IH [of c' "m @ d"] Cons.prems by simp
qed simp

text \<open>Splitting the data over several updates does not matter, and a context is reusable.\<close>

lemma mac_of_updates:
  assumes "good p" "fed p c k m" "size_of p \<le> n"
  shows "\<exists>c1 c2. init p c = (noErr, c1) \<and> updates p c1 ds = Some (noErr, c2) \<and>
    final p c2 n = Some (noErr, Some (mac p k (concat ds))) \<and> fed p c2 k (concat ds)"
  using init_ok [OF assms(1,2)] updates_ok [OF assms(1)] final_ok [OF assms(1) _ assms(3)]
  by (metis append_Nil)

end

definition hmac_fed :: "platform \<times> HMAC_Algs \<Rightarrow> HMACContextRef \<Rightarrow> bytes \<Rightarrow> bytes \<Rightarrow> bool" where
  "hmac_fed p c k m \<longleftrightarrow>
     c = Some \<lparr>hmacRef = snd p, ccHmacTemplate = k, ccHmac = m, hmacMacSize = hmac_length (snd p)\<rparr>"

lemma hmac_alloc_ok:
  assumes "platform_ok P" "a \<noteq> HA_Null"
  shows "hmac_alloc P a k = Some (noErr, Some \<lparr>hmacRef = a, ccHmacTemplate = k, ccHmac = [],
    hmacMacSize = hmac_length a\<rparr>)"
  using assms by (cases a) (simp_all add: hmac_alloc_def HMAC_Alloc_def platform_malloc hmac_length_def)

interpretation tls_hmac: hmac_provider
  "\<lambda>(P, a). hmac_alloc P a" "\<lambda>(P, a). hmac_init a" "\<lambda>(P, a). hmac_update a" "\<lambda>(P, a). hmac_final P a"
  "\<lambda>(P, a). hmac_length a" "\<lambda>(P, a). CCHmac P a" "\<lambda>(P, a). platform_ok P \<and> a \<noteq> HA_Null" hmac_fed
  by unfold_locales
    (auto simp: hmac_fed_def hmac_alloc_ok hmac_init_def HMAC_Init_def hmac_update_def
      HMAC_Update_def hmac_final_def HMAC_Final_def length_CCHmac)

end
