(* ===== verification/Sym_Cipher.thy ===== *)
theory Sym_Cipher
  imports Gcm_Aes Hash_Hmac
begin

text \<open>
  Model of \<open>symCipher.c\<close> (the CommonCrypto and CDSA ciphers), \<open>sslNullCipher.c\<close>,
  \<open>sslGcmCipher.c\<close> and of the cipher tables at the head of \<open>cipherSpecs.c\<close>. A table
  \<open>SSLSymmetricCipher\<close> is named by a constructor; its fields and its four function pointers are
  functions of the constructor. \<open>CipherContext\<close> is the per-direction state of a connection.

  \<open>SSL_DEBUG\<close> is off, as in the release build, so that the alignment checks of the CDSA
  path and the status check of the CommonCrypto path are absent.
\<close>

section \<open>The cipher context\<close>

datatype HashHmacContext = NoMacCtx | HashCtx digestCtx | HmacCtx HMACContextRef

text \<open>The union \<open>cc\<close>: NULL, a CommonCrypto cryptor or the AES-GCM context.\<close>

datatype cc_union = NoCC | CC_cryptorRef cryptor | CC_aes SslGcmCtx

text \<open>
  \<open>symKey\<close> is the key data of the CSSM key, \<open>ccHand\<close> the state behind the CDSA context handle;
  both are \<open>None\<close> for the C value 0. \<open>macRef\<close> names the pair of digest and HMAC.
\<close>

record CipherContext =
  macRef :: HMAC_Algs
  symCipher :: SSLSymmetricCipher
  macCtx :: HashHmacContext
  symKey :: "bytes option"
  cspHand :: nat
  ccHand :: "cryptor option"
  cc :: cc_union
  encrypting :: bool
  sequenceNum :: sslUint64
  ready :: bool
  macSecret :: bytes

section \<open>The tables\<close>

definition keySize :: "SSLSymmetricCipher \<Rightarrow> nat" where
  "keySize c = (case c of SSLCipherNull \<Rightarrow> 0 | SSLCipherDES_CBC \<Rightarrow> 8 | SSLCipherDES40_CBC \<Rightarrow> 8
     | SSLCipher3DES_CBC \<Rightarrow> 24 | SSLCipherRC4_40 \<Rightarrow> 16 | SSLCipherRC4_128 \<Rightarrow> 16
     | SSLCipherRC2_40 \<Rightarrow> 16 | SSLCipherRC2_128 \<Rightarrow> 16 | SSLCipherAES_128 \<Rightarrow> 16
     | SSLCipherAES_256 \<Rightarrow> 32 | SSLCipherAES_128_GCM \<Rightarrow> 16 | SSLCipherAES_256_GCM \<Rightarrow> 32)"

definition secretKeySize :: "SSLSymmetricCipher \<Rightarrow> nat" where
  "secretKeySize c = (case c of SSLCipherDES40_CBC \<Rightarrow> 5 | SSLCipherRC4_40 \<Rightarrow> 5
     | SSLCipherRC2_40 \<Rightarrow> 5 | _ \<Rightarrow> keySize c)"

definition ivSize :: "SSLSymmetricCipher \<Rightarrow> nat" where
  "ivSize c = (case c of SSLCipherNull \<Rightarrow> 0 | SSLCipherDES_CBC \<Rightarrow> 8 | SSLCipherDES40_CBC \<Rightarrow> 8
     | SSLCipher3DES_CBC \<Rightarrow> 8 | SSLCipherRC4_40 \<Rightarrow> 0 | SSLCipherRC4_128 \<Rightarrow> 0
     | SSLCipherRC2_40 \<Rightarrow> 8 | SSLCipherRC2_128 \<Rightarrow> 8 | SSLCipherAES_128 \<Rightarrow> 16
     | SSLCipherAES_256 \<Rightarrow> 16 | SSLCipherAES_128_GCM \<Rightarrow> 4 | SSLCipherAES_256_GCM \<Rightarrow> 4)"

definition blockSize :: "SSLSymmetricCipher \<Rightarrow> nat" where
  "blockSize c = (case c of SSLCipherNull \<Rightarrow> 0 | SSLCipherDES_CBC \<Rightarrow> 8 | SSLCipherDES40_CBC \<Rightarrow> 8
     | SSLCipher3DES_CBC \<Rightarrow> 8 | SSLCipherRC4_40 \<Rightarrow> 0 | SSLCipherRC4_128 \<Rightarrow> 0
     | SSLCipherRC2_40 \<Rightarrow> 8 | SSLCipherRC2_128 \<Rightarrow> 8 | SSLCipherAES_128 \<Rightarrow> 16
     | SSLCipherAES_256 \<Rightarrow> 16 | SSLCipherAES_128_GCM \<Rightarrow> 0 | SSLCipherAES_256_GCM \<Rightarrow> 0)"

text \<open>\<open>encrMode == SSL_CSSM_ALGMODE_GCM\<close>, the AEAD sentinel of the record layer.\<close>

definition isGcm :: "SSLSymmetricCipher \<Rightarrow> bool" where
  "isGcm c \<longleftrightarrow> c = SSLCipherAES_128_GCM \<or> c = SSLCipherAES_256_GCM"

definition isCDSA :: "SSLSymmetricCipher \<Rightarrow> bool" where
  "isCDSA c \<longleftrightarrow> c = SSLCipherRC2_40 \<or> c = SSLCipherRC2_128"

lemma blockSize_cipher_block:
  "cipher_block c = (if blockSize c = 0 then 1 else blockSize c)"
  by (cases c) (simp_all add: cipher_block_def blockSize_def)

lemma blockSize_cases: "blockSize c = 0 \<or> blockSize c = 8 \<or> blockSize c = 16"
  by (cases c) (simp_all add: blockSize_def)

lemma isGcm_blockSize [simp]: "isGcm c \<Longrightarrow> blockSize c = 0"
  by (auto simp: isGcm_def blockSize_def)

section \<open>CommonCrypto ciphers\<close>

text \<open>
  Releasing a GCM context through \<open>CCCryptorRelease\<close> (the two share a union) has no defined
  behaviour. The key pointer gives \<open>keySize\<close> octets.
\<close>

definition CCSymmInit ::
  "platform \<Rightarrow> bytes \<Rightarrow> bytes \<Rightarrow> CipherContext \<Rightarrow> (OSStatus \<times> CipherContext) option" where
  "CCSymmInit P key iv cipherCtx =
     (case cc cipherCtx of CC_aes _ \<Rightarrow> None
      | _ \<Rightarrow>
        (let c1 = cipherCtx\<lparr>cc := NoCC\<rparr>; alg = symCipher cipherCtx in
         if alg = SSLCipherNull \<or> isCDSA alg then None
         else case CCCryptorCreate P (encrypting cipherCtx) alg (take (keySize alg) key) iv of
                None \<Rightarrow> Some (internalComponentErr, c1)
              | Some localRef \<Rightarrow> Some (noErr, c1\<lparr>cc := CC_cryptorRef localRef\<rparr>)))"

text \<open>
  \<open>crypt src dest\<close>: the result holds the new contents of the destination. Exactly
  \<open>dest.length\<close> octets are read from the source, whatever \<open>src.length\<close> says.
\<close>

definition CCSymmEncryptDecrypt ::
  "platform \<Rightarrow> bytes \<Rightarrow> bytes \<Rightarrow> CipherContext \<Rightarrow> (OSStatus \<times> bytes \<times> CipherContext) option" where
  "CCSymmEncryptDecrypt P src dest cipherCtx =
     (case cc cipherCtx of
        NoCC \<Rightarrow> Some (internalComponentErr, dest, cipherCtx)
      | CC_aes _ \<Rightarrow> None
      | CC_cryptorRef s \<Rightarrow>
          if length src < length dest then None
          else (case CCCryptorUpdate P s (take (length dest) src) of
                  (out, s') \<Rightarrow> Some (noErr, take (length dest) out @ drop (length out) dest,
                                    cipherCtx\<lparr>cc := CC_cryptorRef s'\<rparr>)))"

definition CCSymmFinish :: "CipherContext \<Rightarrow> (OSStatus \<times> CipherContext) option" where
  "CCSymmFinish cipherCtx =
     (case cc cipherCtx of CC_aes _ \<Rightarrow> None | _ \<Rightarrow> Some (noErr, cipherCtx\<lparr>cc := NoCC\<rparr>))"

section \<open>CDSA ciphers\<close>

definition disposeCipherCtx :: "CipherContext \<Rightarrow> CipherContext option" where
  "disposeCipherCtx cipherCtx =
     (if symKey cipherCtx \<noteq> None \<and> cspHand cipherCtx = 0 then None
      else Some (cipherCtx\<lparr>symKey := None, cspHand := 0, ccHand := None\<rparr>))"

text \<open>
  \<open>ctxCspHand\<close> is the CSP handle of the connection. Every error after the key has been stored
  disposes of what was created. The assertion in \<open>disposeCipherCtx\<close> on that path fails when
  the context has a key and no handle yet.
\<close>

definition CDSASymmInit ::
  "platform \<Rightarrow> nat \<Rightarrow> bytes \<Rightarrow> bytes \<Rightarrow> CipherContext \<Rightarrow> (OSStatus \<times> CipherContext) option" where
  "CDSASymmInit P ctxCspHand key iv cipherCtx =
     (let alg = symCipher cipherCtx in
      if ctxCspHand = 0 then Some (errSSLInternal, cipherCtx)
      else do {
        c1 \<leftarrow> disposeCipherCtx cipherCtx;
        if \<not> mallocOk P 128 then Some (memFullErr, c1)
        else if \<not> mallocOk P (keySize alg) then Some (memFullErr, c1)
        else
          (let c2 = c1\<lparr>symKey := Some (take (keySize alg) key)\<rparr>;
               ivData = (if ivSize alg \<noteq> 0 then Some (take (ivSize alg) iv) else None)
           in case CSSM_CreateSymmetricContext P alg (take (keySize alg) key) ivData of
                None \<Rightarrow> do { c3 \<leftarrow> disposeCipherCtx c2; Some (errSSLCrypto, c3) }
              | Some h \<Rightarrow>
                  (case CSSM_DataInit P (encrypting cipherCtx) h of
                     None \<Rightarrow> do { c3 \<leftarrow> disposeCipherCtx (c2\<lparr>ccHand := Some h\<rparr>); Some (errSSLCrypto, c3) }
                   | Some h' \<Rightarrow> Some (noErr, c2\<lparr>ccHand := Some h', cspHand := ctxCspHand\<rparr>))) })"

text \<open>\<open>CDSASymmEncrypt\<close> and \<open>CDSASymmDecrypt\<close> differ in the direction and in the order of two checks.\<close>

definition CDSASymmEncrypt ::
  "platform \<Rightarrow> bytes \<Rightarrow> bytes \<Rightarrow> CipherContext \<Rightarrow> (OSStatus \<times> bytes \<times> CipherContext) option" where
  "CDSASymmEncrypt P src dest cipherCtx =
     (if length dest < length src then None
      else case ccHand cipherCtx of
        None \<Rightarrow> Some (errSSLInternal, dest, cipherCtx)
      | Some h \<Rightarrow>
          if cspHand cipherCtx = 0 then Some (errSSLInternal, dest, cipherCtx)
          else (case CSSM_DataUpdate P True h src (length dest) of
                  None \<Rightarrow> Some (errSSLCrypto, dest, cipherCtx)
                | Some (out, h') \<Rightarrow>
                    if length out > length dest then Some (errSSLCrypto, dest, cipherCtx\<lparr>ccHand := Some h'\<rparr>)
                    else Some (noErr, out @ drop (length out) dest, cipherCtx\<lparr>ccHand := Some h'\<rparr>)))"

definition CDSASymmDecrypt ::
  "platform \<Rightarrow> bytes \<Rightarrow> bytes \<Rightarrow> CipherContext \<Rightarrow> (OSStatus \<times> bytes \<times> CipherContext) option" where
  "CDSASymmDecrypt P src dest cipherCtx =
     (case ccHand cipherCtx of
        None \<Rightarrow> Some (errSSLInternal, dest, cipherCtx)
      | Some h \<Rightarrow>
          if cspHand cipherCtx = 0 then Some (errSSLInternal, dest, cipherCtx)
          else if length dest < length src then None
          else (case CSSM_DataUpdate P False h src (length dest) of
                  None \<Rightarrow> Some (errSSLCrypto, dest, cipherCtx)
                | Some (out, h') \<Rightarrow>
                    if length out > length dest then Some (errSSLCrypto, dest, cipherCtx\<lparr>ccHand := Some h'\<rparr>)
                    else Some (noErr, out @ drop (length out) dest, cipherCtx\<lparr>ccHand := Some h'\<rparr>)))"

definition CDSASymmFinish :: "CipherContext \<Rightarrow> (OSStatus \<times> CipherContext) option" where
  "CDSASymmFinish cipherCtx = do { c \<leftarrow> disposeCipherCtx cipherCtx; Some (noErr, c) }"

section \<open>AES-GCM and the null cipher\<close>

text \<open>\<open>sslGcmCipherInit\<close> also returns the process-wide flag of the symbol lookup.\<close>

definition sslGcmCipherInit ::
  "platform \<Rightarrow> int \<Rightarrow> bytes option \<Rightarrow> bytes option \<Rightarrow> CipherContext \<Rightarrow> OSStatus \<times> CipherContext \<times> int" where
  "sslGcmCipherInit P g key iv cipherCtx =
     (if key = None \<or> iv = None then (errSSLInternal, cipherCtx, g)
      else
        (let keyBits = int (secretKeySize (symCipher cipherCtx)) * 8;
             c1 = cipherCtx\<lparr>cc := NoCC\<rparr> in
         if \<not> mallocOk P 264 then (memFullErr, c1, g)
         else (case sslGcmInit P g \<lparr>aesKey = replicate 256 0, fixedIV = replicate 4 0, valid = False\<rparr>
                      key keyBits iv of
                 (r, gcm, g') \<Rightarrow> if r \<noteq> 0 then (errSSLCrypto, c1, g')
                                 else (noErr, c1\<lparr>cc := CC_aes gcm\<rparr>, g'))))"

definition sslGcmCipherFinish :: "CipherContext \<Rightarrow> OSStatus \<times> CipherContext" where
  "sslGcmCipherFinish cipherCtx = (noErr, cipherCtx\<lparr>cc := NoCC\<rparr>)"

definition sslGcmCipherCryptStub ::
  "bytes \<Rightarrow> bytes \<Rightarrow> CipherContext \<Rightarrow> (OSStatus \<times> bytes \<times> CipherContext) option" where
  "sslGcmCipherCryptStub src dest cipherCtx = Some (errSSLInternal, dest, cipherCtx)"

text \<open>\<open>NullCrypt\<close> copies \<open>src.length\<close> octets to the destination, which must have room.\<close>

definition NullCrypt :: "bytes \<Rightarrow> bytes \<Rightarrow> CipherContext \<Rightarrow> (OSStatus \<times> bytes \<times> CipherContext) option" where
  "NullCrypt src dest cipherCtx =
     (if length dest < length src then None
      else Some (noErr, src @ drop (length src) dest, cipherCtx))"

section \<open>Calls through the table\<close>

definition cipher_initialize ::
  "platform \<Rightarrow> nat \<Rightarrow> int \<Rightarrow> bytes \<Rightarrow> bytes \<Rightarrow> CipherContext \<Rightarrow> (OSStatus \<times> CipherContext \<times> int) option" where
  "cipher_initialize P ctxCspHand g key iv c =
     (let alg = symCipher c in
      if alg = SSLCipherNull then Some (noErr, c, g)
      else if isGcm alg then Some (sslGcmCipherInit P g (Some key) (Some iv) c)
      else if isCDSA alg then do { (err, c') \<leftarrow> CDSASymmInit P ctxCspHand key iv c; Some (err, c', g) }
      else do { (err, c') \<leftarrow> CCSymmInit P key iv c; Some (err, c', g) })"

definition cipher_encrypt ::
  "platform \<Rightarrow> bytes \<Rightarrow> bytes \<Rightarrow> CipherContext \<Rightarrow> (OSStatus \<times> bytes \<times> CipherContext) option" where
  "cipher_encrypt P src dest c =
     (let alg = symCipher c in
      if alg = SSLCipherNull then NullCrypt src dest c
      else if isGcm alg then sslGcmCipherCryptStub src dest c
      else if isCDSA alg then CDSASymmEncrypt P src dest c
      else CCSymmEncryptDecrypt P src dest c)"

definition cipher_decrypt ::
  "platform \<Rightarrow> bytes \<Rightarrow> bytes \<Rightarrow> CipherContext \<Rightarrow> (OSStatus \<times> bytes \<times> CipherContext) option" where
  "cipher_decrypt P src dest c =
     (let alg = symCipher c in
      if alg = SSLCipherNull then NullCrypt src dest c
      else if isGcm alg then sslGcmCipherCryptStub src dest c
      else if isCDSA alg then CDSASymmDecrypt P src dest c
      else CCSymmEncryptDecrypt P src dest c)"

definition cipher_finish :: "CipherContext \<Rightarrow> (OSStatus \<times> CipherContext) option" where
  "cipher_finish c =
     (let alg = symCipher c in
      if alg = SSLCipherNull then Some (noErr, c)
      else if isGcm alg then Some (sslGcmCipherFinish c)
      else if isCDSA alg then CDSASymmFinish c
      else CCSymmFinish c)"

section \<open>Paired contexts\<close>

text \<open>
  The writer's and the reader's cipher state are paired when the reader decrypts what the
  writer encrypts: both null, or two paired cryptors of the same table.
\<close>

definition ciphers_paired :: "platform \<Rightarrow> CipherContext \<Rightarrow> CipherContext \<Rightarrow> bool" where
  "ciphers_paired P w r \<longleftrightarrow> symCipher w = symCipher r \<and>
     (symCipher w = SSLCipherNull \<or>
      \<not> isGcm (symCipher w) \<and> \<not> isCDSA (symCipher w) \<and>
      (\<exists>e d. cc w = CC_cryptorRef e \<and> cc r = CC_cryptorRef d \<and>
             cryptorAlg e = symCipher w \<and> cryptors_paired P e d))"

lemma CCSymmEncryptDecrypt_inplace:
  assumes "cc c = CC_cryptorRef s" "CCCryptorUpdate P s buf = (out, s')" "length out = length buf"
  shows "CCSymmEncryptDecrypt P buf buf c = Some (noErr, out, c\<lparr>cc := CC_cryptorRef s'\<rparr>)"
  using assms by (simp add: CCSymmEncryptDecrypt_def)

text \<open>In-place encryption of block-aligned data and its in-place decryption by the peer.\<close>

lemma cipher_roundtrip:
  assumes ok: "platform_ok P" and pair: "ciphers_paired P w r"
    and al: "cipher_block (symCipher w) dvd length buf"
  obtains ct cw cr where
    "cipher_encrypt P buf buf w = Some (noErr, ct, w\<lparr>cc := cw\<rparr>)"
    "cipher_decrypt P ct ct r = Some (noErr, buf, r\<lparr>cc := cr\<rparr>)"
    "length ct = length buf" "ciphers_paired P (w\<lparr>cc := cw\<rparr>) (r\<lparr>cc := cr\<rparr>)"
proof (cases "symCipher w = SSLCipherNull")
  case True
  then show ?thesis
    using pair by (intro that [of buf "cc w" "cc r"])
      (simp_all add: ciphers_paired_def cipher_encrypt_def cipher_decrypt_def NullCrypt_def)
next
  case False
  then obtain e d where ed: "cc w = CC_cryptorRef e" "cc r = CC_cryptorRef d"
      "cryptorAlg e = symCipher w" "cryptors_paired P e d" and alg: "symCipher r = symCipher w"
      "\<not> isGcm (symCipher w)" "\<not> isCDSA (symCipher w)"
    using pair unfolding ciphers_paired_def by metis
  obtain ct e' where e': "CCCryptorUpdate P e buf = (ct, e')" using prod.exhaust by blast
  obtain m' d' where d': "CCCryptorUpdate P d ct = (m', d')" using prod.exhaust by blast
  have ale: "cipher_block (cryptorAlg e) dvd length buf" using al ed by simp
  note step = cryptors_paired_step [OF ok ed(4) ale e' d']
  have "cryptorAlg e' = symCipher w"
    using CCCryptorUpdate_keeps [OF ok ale e'] ed by simp
  then show ?thesis
    using False alg ed step e' d'
    by (intro that [of ct "CC_cryptorRef e'" "CC_cryptorRef d'"])
      (simp_all add: cipher_encrypt_def cipher_decrypt_def ciphers_paired_def
        CCSymmEncryptDecrypt_inplace)
qed

text \<open>A fresh pair made by \<open>CCSymmInit\<close> from the same key and IV is paired.\<close>

lemma CCSymmInit_paired:
  assumes "cryptor_laws P" "encrypting w" "\<not> encrypting r" "symCipher w = symCipher r"
    and "\<not> isGcm (symCipher w)" "symCipher w \<noteq> SSLCipherNull"
    and "CCSymmInit P key iv w = Some (noErr, w')" "CCSymmInit P key iv r = Some (noErr, r')"
  shows "ciphers_paired P w' r'"
  using assms
  by (auto simp: CCSymmInit_def Let_def ciphers_paired_def cryptor_laws_def
      split: cc_union.splits option.splits if_splits)

end
