(* ===== verification/Prf.thy ===== *)
theory Prf
  imports Hash_Hmac
begin

text \<open>
  Model of the pseudorandom functions: \<open>tlsPHash\<close> and \<open>SSLInternal_PRF\<close> of \<open>tls1Callouts.c\<close>
  (TLS 1.0 and 1.1) and \<open>tls12PHash\<close>, \<open>tls12_PRF\<close> and the per-suite hash selection of
  \<open>tls12Callouts.c\<close>. The expansion loop of the C code runs until the requested octets are
  written; it is a \<open>partial_function\<close>, so that not returning is the value \<open>None\<close>. The theory
  shows that it returns for every real HMAC and computes the \<open>P_hash\<close> of RFC 2246, section 5.
\<close>

section \<open>The operations\<close>

definition hmac_hmac ::
  "platform \<Rightarrow> HMAC_Algs \<Rightarrow> HMACContextRef \<Rightarrow> bytes \<Rightarrow> nat \<Rightarrow> (OSStatus \<times> bytes option \<times> HMACContextRef) option" where
  "hmac_hmac P ref c data hmacLen =
     (if ref = HA_Null then Some (noErr, None, c) else HMAC_Hmac P c data hmacLen)"

text \<open>
  One turn of the loop: the chunk \<open>HMAC(secret, A(i) + seed)\<close> is appended to the output, and
  \<open>A(i+1)\<close> is computed unless the output is complete. \<open>digestLen\<close> is the length of \<open>aSubI\<close> and
  of the chunk. A null HMAC leaves the stack buffers unwritten (no defined behaviour).
\<close>

partial_function (option) tlsPHash_loop ::
  "platform \<Rightarrow> HMAC_Algs \<Rightarrow> HMACContextRef \<Rightarrow> bytes \<Rightarrow> bytes \<Rightarrow> bytes \<Rightarrow> nat \<Rightarrow> (OSStatus \<times> bytes) option" where
  "tlsPHash_loop P hmac hmacCtx aSubI seed out outLen =
     (let (serr, c1) = hmac_init hmac hmacCtx in
      if serr \<noteq> noErr then Some (serr, out)
      else do {
        (serr, c2) \<leftarrow> hmac_update hmac c1 aSubI;
        if serr \<noteq> noErr then Some (serr, out)
        else do {
          (serr, c3) \<leftarrow> hmac_update hmac c2 seed;
          if serr \<noteq> noErr then Some (serr, out)
          else do {
            (serr, written) \<leftarrow> hmac_final P hmac c3 (length aSubI);
            if serr \<noteq> noErr then Some (serr, out)
            else do {
              digest \<leftarrow> written;
              if outLen \<le> length digest then Some (noErr, out @ take outLen digest)
              else do {
                (serr, written, c4) \<leftarrow> hmac_hmac P hmac c3 aSubI (length digest);
                if serr \<noteq> noErr then Some (serr, out @ digest)
                else do {
                  aSubI' \<leftarrow> written;
                  tlsPHash_loop P hmac c4 aSubI' seed (out @ digest) (outLen - length digest)
                }
              }
            }
          }
        }
      })"

text \<open>The second component is what has been written to \<open>out\<close>, from its beginning.\<close>

definition tlsPHash ::
  "platform \<Rightarrow> HMAC_Algs \<Rightarrow> bytes \<Rightarrow> bytes \<Rightarrow> nat \<Rightarrow> (OSStatus \<times> bytes) option" where
  "tlsPHash P hmac secret seed outLen =
     do { (serr, hmacCtx) \<leftarrow> hmac_alloc P hmac secret;
          if serr \<noteq> noErr then Some (serr, [])
          else do {
            (serr, written, c) \<leftarrow> hmac_hmac P hmac hmacCtx seed (macSize hmac);
            if serr \<noteq> noErr then Some (serr, [])
            else do { aSubI \<leftarrow> written; tlsPHash_loop P hmac c aSubI seed [] outLen } } }"

text \<open>
  Lengths are \<open>size_t\<close> in the arguments and \<open>unsigned\<close> inside, which the model writes out: \<open>trunc32\<close> is a
  buffer as it is seen after the conversion of its length. The copies of label and seed use the full lengths, so that a
  sum of 2^32 and more writes beyond the buffer (\<open>None\<close>).
\<close>

definition trunc32 :: "bytes \<Rightarrow> bytes" where
  "trunc32 b = take (length b mod 2 ^ 32) b"

text \<open>
  \<open>SSLInternal_PRF\<close>: the two halves of the secret overlap in the middle octet when its length
  is odd; the two expansions are XORed. A NULL label means that the seed contains it. The counter of the loop over the
  output is \<open>unsigned\<close>; it never reaches an output length of 2^32 or more.
\<close>

definition SSLInternal_PRF ::
  "platform \<Rightarrow> bytes \<Rightarrow> bytes option \<Rightarrow> bytes \<Rightarrow> nat \<Rightarrow> (OSStatus \<times> bytes) option" where
  "SSLInternal_PRF P secret label seed outLen =
     (let sLen = length secret div 2 mod 2 ^ 32;
          S2 = drop sLen secret;
          sLen = (sLen + length secret mod 2) mod 2 ^ 32;
          labelSeed = (case label of None \<Rightarrow> seed | Some l \<Rightarrow> l @ seed)
      in if label \<noteq> None \<and> \<not> mallocOk P (length labelSeed mod 2 ^ 32) then Some (memFullErr, [])
         else if label \<noteq> None \<and> length labelSeed \<ge> 2 ^ 32 then None
         else if \<not> mallocOk P outLen then Some (memFullErr, [])
         else do {
           (serr, out) \<leftarrow> tlsPHash P HA_MD5 (take sLen secret) (trunc32 labelSeed) (outLen mod 2 ^ 32);
           if serr \<noteq> noErr then Some (serr, out)
           else do {
             (serr, tmpOut) \<leftarrow> tlsPHash P HA_SHA1 (take sLen S2) (trunc32 labelSeed) (outLen mod 2 ^ 32);
             if serr \<noteq> noErr then Some (serr, out)
             else if outLen \<ge> 2 ^ 32 then None
             else Some (noErr, xor_bytes out tmpOut) } })"

text \<open>The suite selection of TLS 1.2, on the 16-bit wire value of the negotiated suite.\<close>

definition tls12SuiteUsesSHA384 :: "uint16 \<Rightarrow> bool" where
  "tls12SuiteUsesSHA384 selectedCipher \<longleftrightarrow> selectedCipher \<in> {0xC030, 0xC02C, 0x009D}"

definition tls12PrfHmac :: "uint16 \<Rightarrow> HMAC_Algs" where
  "tls12PrfHmac selectedCipher = (if tls12SuiteUsesSHA384 selectedCipher then HA_SHA384 else HA_SHA256)"

definition tls12FinishedHash :: "uint16 \<Rightarrow> HashReference" where
  "tls12FinishedHash selectedCipher =
     (if tls12SuiteUsesSHA384 selectedCipher then SSLHashSHA384 else SSLHashSHA256)"

definition tls12FinishedDigestLen :: "uint16 \<Rightarrow> nat" where
  "tls12FinishedDigestLen selectedCipher = (if tls12SuiteUsesSHA384 selectedCipher then 48 else 32)"

text \<open>\<open>tls12PHash\<close> is the same code; its assertions compare where the older ones assign.\<close>

definition tls12PHash ::
  "platform \<Rightarrow> HMAC_Algs \<Rightarrow> bytes \<Rightarrow> bytes \<Rightarrow> nat \<Rightarrow> (OSStatus \<times> bytes) option" where
  "tls12PHash P hmac secret seed outLen = tlsPHash P hmac secret seed outLen"

definition tls12_PRF ::
  "platform \<Rightarrow> uint16 \<Rightarrow> bytes \<Rightarrow> bytes option \<Rightarrow> bytes \<Rightarrow> nat \<Rightarrow> (OSStatus \<times> bytes) option" where
  "tls12_PRF P selectedCipher secret label seed outLen =
     (let labelSeed = (case label of None \<Rightarrow> seed | Some l \<Rightarrow> l @ seed)
      in if label \<noteq> None \<and> \<not> mallocOk P (length labelSeed mod 2 ^ 32) then Some (memFullErr, [])
         else if label \<noteq> None \<and> length labelSeed \<ge> 2 ^ 32 then None
         else tls12PHash P (tls12PrfHmac selectedCipher) (trunc32 secret) (trunc32 labelSeed) (outLen mod 2 ^ 32))"

section \<open>The specification of RFC 2246, section 5\<close>

text \<open>
  \<open>A(0) = seed\<close>, \<open>A(i+1) = HMAC(secret, A(i))\<close>, and \<open>P_hash\<close> is the concatenation of
  \<open>HMAC(secret, A(i) + seed)\<close> for \<open>i = 1, 2, ...\<close>; \<open>P_hash mac secret seed n\<close> has \<open>n\<close> chunks.
\<close>

definition A_of :: "(bytes \<Rightarrow> bytes \<Rightarrow> bytes) \<Rightarrow> bytes \<Rightarrow> bytes \<Rightarrow> nat \<Rightarrow> bytes" where
  "A_of mac secret seed i = (mac secret ^^ i) seed"

definition P_hash :: "(bytes \<Rightarrow> bytes \<Rightarrow> bytes) \<Rightarrow> bytes \<Rightarrow> bytes \<Rightarrow> nat \<Rightarrow> bytes" where
  "P_hash mac secret seed n =
     concat (map (\<lambda>i. mac secret (A_of mac secret seed (Suc i) @ seed)) [0..<n])"

text \<open>The first \<open>n\<close> octets; one chunk per octet is always enough.\<close>

definition PRF_expand :: "(bytes \<Rightarrow> bytes \<Rightarrow> bytes) \<Rightarrow> bytes \<Rightarrow> bytes \<Rightarrow> nat \<Rightarrow> bytes" where
  "PRF_expand mac secret seed n = take n (P_hash mac secret seed (Suc n))"

section \<open>The loop computes \<open>P_hash\<close>\<close>

lemma P_hash_tail:
  "P_hash mac secret seed (Suc n) = P_hash mac secret seed n @
     mac secret (A_of mac secret seed (Suc n) @ seed)"
  by (simp add: P_hash_def)

lemma length_P_hash:
  "(\<And>m. length (mac secret m) = k) \<Longrightarrow> length (P_hash mac secret seed n) = n * k"
  by (induction n) (simp_all add: P_hash_tail, simp add: P_hash_def)

lemma P_hash_prefix: "m \<le> n \<Longrightarrow> \<exists>r. P_hash mac secret seed n = P_hash mac secret seed m @ r"
  by (induction n) (auto simp: P_hash_tail le_Suc_eq)

lemma hmac_length_pos: "a \<noteq> HA_Null \<Longrightarrow> 0 < hmac_length a"
  by (cases a) (simp_all add: hmac_length_def)

lemma hmac_init_fed:
  "a \<noteq> HA_Null \<Longrightarrow> hmac_fed (P, a) c k m \<Longrightarrow> \<exists>c'. hmac_init a c = (noErr, c') \<and> hmac_fed (P, a) c' k []"
  by (auto simp: hmac_fed_def hmac_init_def HMAC_Init_def)

lemma hmac_hmac_fed:
  assumes ok: "platform_ok P" "a \<noteq> HA_Null" and fed: "hmac_fed (P, a) c k m" and n: "hmac_length a \<le> n"
  obtains c' where "hmac_hmac P a c data n = Some (noErr, Some (CCHmac P a k data), c')"
    "hmac_fed (P, a) c' k data"
  using fed ok n that
  by (auto simp: hmac_fed_def hmac_hmac_def HMAC_Hmac_def hmac_init_def HMAC_Init_def
      hmac_update_def HMAC_Update_def hmac_final_def HMAC_Final_def)

text \<open>One chunk through the interface of the HMAC provider.\<close>

lemma chunk_fed:
  assumes ok: "platform_ok P" "a \<noteq> HA_Null" and fed: "hmac_fed (P, a) c k m"
  obtains c1 c2 c3 where "hmac_init a c = (noErr, c1)" "hmac_update a c1 x = Some (noErr, c2)"
    "hmac_update a c2 y = Some (noErr, c3)" "hmac_fed (P, a) c3 k (x @ y)"
    "hmac_final P a c3 (hmac_length a) = Some (noErr, Some (CCHmac P a k (x @ y)))"
proof -
  have good: "(\<lambda>(P, a). platform_ok P \<and> a \<noteq> HA_Null) (P, a)" using ok by simp
  from tls_hmac.init_ok [OF good fed]
  obtain c1 where c1: "hmac_init a c = (noErr, c1)" "hmac_fed (P, a) c1 k []" by auto
  from tls_hmac.update_ok [OF good c1(2), of x]
  obtain c2 where c2: "hmac_update a c1 x = Some (noErr, c2)" "hmac_fed (P, a) c2 k x" by auto
  from tls_hmac.update_ok [OF good c2(2), of y]
  obtain c3 where c3: "hmac_update a c2 y = Some (noErr, c3)" "hmac_fed (P, a) c3 k (x @ y)" by auto
  from tls_hmac.final_ok [OF good c3(2), of "hmac_length a"] c1 c2 c3 show ?thesis
    by (intro that) simp_all
qed

lemma tlsPHash_loop_spec:
  assumes ok: "platform_ok P" "a \<noteq> HA_Null"
    and "hmac_fed (P, a) c secret m"
    and "outLen \<le> n * hmac_length a" "0 < n"
  shows "tlsPHash_loop P a c (A_of (CCHmac P a) secret seed (Suc i)) seed out outLen =
    Some (noErr, out @ take outLen
      (concat (map (\<lambda>j. CCHmac P a secret (A_of (CCHmac P a) secret seed (Suc j) @ seed)) [i..<i + n])))"
  using assms(3-5)
proof (induction n arbitrary: c m out outLen i)
  case 0
  then show ?case by simp
next
  case (Suc n)
  let ?A = "A_of (CCHmac P a) secret seed"
  let ?chunk = "\<lambda>j. CCHmac P a secret (?A (Suc j) @ seed)"
  have A: "?A (Suc j) = CCHmac P a secret (?A j)" for j by (simp add: A_of_def)
  have len: "length (CCHmac P a k x) = hmac_length a" for k x using ok by (simp add: length_CCHmac)
  obtain c1 c2 c3 where c: "hmac_init a c = (noErr, c1)" "hmac_update a c1 (?A (Suc i)) = Some (noErr, c2)"
    "hmac_update a c2 seed = Some (noErr, c3)" "hmac_fed (P, a) c3 secret (?A (Suc i) @ seed)"
    "hmac_final P a c3 (hmac_length a) = Some (noErr, Some (?chunk i))"
    using chunk_fed [OF ok Suc.prems(1)] by blast
  have lenA: "length (?A (Suc i)) = hmac_length a" by (simp add: A len)
  have upt: "[i..<i + Suc n] = i # [Suc i..<Suc i + n]" by (simp add: upt_rec)
  show ?case
  proof (cases "outLen \<le> hmac_length a")
    case True
    then show ?thesis
      unfolding upt by (subst tlsPHash_loop.simps) (simp add: c lenA len)
  next
    case False
    obtain c4 where c4: "hmac_hmac P a c3 (?A (Suc i)) (hmac_length a) =
        Some (noErr, Some (?A (Suc (Suc i))), c4)" "hmac_fed (P, a) c4 secret (?A (Suc i))"
      using hmac_hmac_fed [OF ok c(4)] A by (metis order_refl)
    have n: "0 < n" "outLen - hmac_length a \<le> n * hmac_length a"
      using False Suc.prems by (cases n; simp)+
    have "tlsPHash_loop P a c (?A (Suc i)) seed out outLen =
        tlsPHash_loop P a c4 (?A (Suc (Suc i))) seed (out @ ?chunk i) (outLen - hmac_length a)"
      using False c4 by (subst tlsPHash_loop.simps) (simp add: c lenA len)
    also have "\<dots> = Some (noErr, out @ ?chunk i @
        take (outLen - hmac_length a) (concat (map ?chunk [Suc i..<Suc i + n])))"
      using Suc.IH [OF c4(2) n(2,1), of "Suc i" "out @ ?chunk i"] by simp
    finally show ?thesis
      using False unfolding upt by (simp add: len)
  qed
qed

text \<open>The expansion returns, for every requested length, and is \<open>P_hash\<close>.\<close>

lemma tlsPHash_spec:
  assumes ok: "platform_ok P" "a \<noteq> HA_Null"
  shows "tlsPHash P a secret seed outLen = Some (noErr, PRF_expand (CCHmac P a) secret seed outLen)"
proof -
  have fed: "hmac_fed (P, a) (Some \<lparr>hmacRef = a, ccHmacTemplate = secret, ccHmac = [],
      hmacMacSize = hmac_length a\<rparr>) secret []"
    by (simp add: hmac_fed_def)
  obtain c where c: "hmac_hmac P a (Some \<lparr>hmacRef = a, ccHmacTemplate = secret, ccHmac = [],
      hmacMacSize = hmac_length a\<rparr>) seed (hmac_length a) =
      Some (noErr, Some (CCHmac P a secret seed), c)" "hmac_fed (P, a) c secret seed"
    using hmac_hmac_fed [OF ok fed order_refl] by blast
  have "outLen \<le> Suc outLen * hmac_length a"
    using hmac_length_pos [OF ok(2)] by (cases "hmac_length a") auto
  from tlsPHash_loop_spec [OF ok c(2) this, of seed 0 "[]"]
  show ?thesis
    using ok c by (simp add: tlsPHash_def hmac_alloc_ok PRF_expand_def P_hash_def A_of_def)
qed

lemma length_PRF_expand:
  assumes "platform_ok P" "a \<noteq> HA_Null"
  shows "length (PRF_expand (CCHmac P a) secret seed n) = n"
proof -
  have "length (P_hash (CCHmac P a) secret seed (Suc n)) = Suc n * hmac_length a"
    using assms by (intro length_P_hash) (simp add: length_CCHmac)
  moreover have "n \<le> Suc n * hmac_length a"
    using hmac_length_pos [OF assms(2)] by (cases "hmac_length a") auto
  ultimately show ?thesis by (simp add: PRF_expand_def)
qed

text \<open>A shorter request gives a prefix of a longer one: key material can be cut from one block.\<close>

lemma PRF_expand_prefix:
  assumes "platform_ok P" "a \<noteq> HA_Null" "m \<le> n"
  shows "PRF_expand (CCHmac P a) secret seed m = take m (PRF_expand (CCHmac P a) secret seed n)"
proof -
  have pos: "0 < hmac_length a" by (rule hmac_length_pos [OF assms(2)])
  have len: "length (P_hash (CCHmac P a) secret seed k) = k * hmac_length a" for k
    using assms by (intro length_P_hash) (simp add: length_CCHmac)
  obtain r where "P_hash (CCHmac P a) secret seed (Suc n) = P_hash (CCHmac P a) secret seed (Suc m) @ r"
    using P_hash_prefix [of "Suc m" "Suc n" "CCHmac P a" secret seed] assms(3) by auto
  moreover have "m \<le> Suc m * hmac_length a"
    using pos by (cases "hmac_length a") auto
  ultimately show ?thesis
    using assms(3) len [of "Suc m"] by (simp add: PRF_expand_def min_absorb1)
qed

lemma tls12PrfHmac_not_Null [simp]: "tls12PrfHmac s \<noteq> HA_Null"
  by (simp add: tls12PrfHmac_def)

lemma trunc32_short [simp]: "length b < 4294967296 \<Longrightarrow> trunc32 b = b"
  by (simp add: trunc32_def)

lemma tls12_PRF_spec:
  "platform_ok P \<Longrightarrow> length (case label of None \<Rightarrow> [] | Some l \<Rightarrow> l @ seed) < 4294967296 \<Longrightarrow>
   tls12_PRF P s secret label seed n = Some (noErr,
     PRF_expand (CCHmac P (tls12PrfHmac s)) (trunc32 secret) (trunc32 (case label of None \<Rightarrow> seed | Some l \<Rightarrow> l @ seed)) (n mod 2 ^ 32))"
  by (auto simp: tls12_PRF_def tls12PHash_def tlsPHash_spec platform_malloc Let_def split: option.splits)

text \<open>The two halves of the secret, with the conversions of the lengths.\<close>

definition PRF_half1 :: "bytes \<Rightarrow> bytes" where
  "PRF_half1 secret = take ((length secret div 2 mod 2 ^ 32 + length secret mod 2) mod 2 ^ 32) secret"

definition PRF_half2 :: "bytes \<Rightarrow> bytes" where
  "PRF_half2 secret =
     take ((length secret div 2 mod 2 ^ 32 + length secret mod 2) mod 2 ^ 32) (drop (length secret div 2 mod 2 ^ 32) secret)"

text \<open>For a secret that fits they are those of RFC 2246, of length \<open>ceil (n / 2)\<close> each.\<close>

lemma PRF_halves:
  assumes "length secret < 2 ^ 32"
  shows "PRF_half1 secret = take ((length secret + 1) div 2) secret" "PRF_half2 secret = drop (length secret div 2) secret"
proof -
  have 1: "length secret div 2 mod 2 ^ 32 = length secret div 2" using assms by simp
  have 2: "length secret div 2 + length secret mod 2 = (length secret + 1) div 2" by presburger
  have "(length secret + 1) div 2 < 2 ^ 32" using assms by simp
  then have 3: "(length secret + 1) div 2 mod 2 ^ 32 = (length secret + 1) div 2" by simp
  show "PRF_half1 secret = take ((length secret + 1) div 2) secret" unfolding PRF_half1_def 1 2 3 ..
  show "PRF_half2 secret = drop (length secret div 2) secret" unfolding PRF_half2_def 1 2 3
    by (rule take_all) (unfold length_drop, presburger)
qed

lemma SSLInternal_PRF_spec:
  assumes "platform_ok P" "length (case label of None \<Rightarrow> [] | Some l \<Rightarrow> l @ seed) < 4294967296" "n < 4294967296"
  shows "SSLInternal_PRF P secret label seed n = Some (noErr,
     xor_bytes (PRF_expand (CCHmac P HA_MD5) (PRF_half1 secret) (trunc32 (case label of None \<Rightarrow> seed | Some l \<Rightarrow> l @ seed)) n)
               (PRF_expand (CCHmac P HA_SHA1) (PRF_half2 secret) (trunc32 (case label of None \<Rightarrow> seed | Some l \<Rightarrow> l @ seed)) n))"
  using assms
  by (auto simp: SSLInternal_PRF_def tlsPHash_spec platform_malloc Let_def PRF_half1_def PRF_half2_def split: option.splits)

end
