(* ===== verification/Session_Cache.thy ===== *)
theory Session_Cache
  imports Platform
begin

text \<open>
  Model of \<open>appleSession.c\<close>: the process-wide cache of resumable sessions, a linked list of
  entries searched by key, newest first. Every exported operation runs under one mutex, so
  a caller sees them as atomic steps on the list. The time is the argument \<open>now\<close> of the
  platform (seconds). Keys and data are non-NULL buffers: \<open>sslSession.c\<close> tests for a NULL
  key before it calls.
\<close>

record SessionCacheEntry =
  mKey :: bytes
  mSessionData :: bytes
  mExpiration :: int

type_synonym SessionCache = "SessionCacheEntry list"

definition SESSION_CACHE_TTL :: int where
  "SESSION_CACHE_TTL = 10 * 60"

text \<open>
  \<open>SessionCacheEntryCreate\<close> returns NULL when either copy cannot be allocated; the only
  caller dereferences the result, so that outcome is \<open>None\<close> there (no defined behaviour).
  96 stands for \<open>sizeof(SessionCacheEntry)\<close> or more; only whether the allocator can serve
  the request matters.
\<close>

definition SessionCacheEntryCreate ::
  "platform \<Rightarrow> bytes \<Rightarrow> bytes \<Rightarrow> int \<Rightarrow> SessionCacheEntry option" where
  "SessionCacheEntryCreate P key data expirationTime =
     (if \<not> mallocOk P 96 then None
      else if \<not> mallocOk P (length key) then None
      else if \<not> mallocOk P (length data) then None
      else Some \<lparr>mKey = key, mSessionData = data, mExpiration = expirationTime\<rparr>)"

definition SessionCacheEntryMatchKey :: "SessionCacheEntry \<Rightarrow> bytes \<Rightarrow> bool" where
  "SessionCacheEntryMatchKey entry key \<longleftrightarrow> length key = length (mKey entry) \<and> key = mKey entry"

definition SessionCacheEntryIsStale :: "SessionCacheEntry \<Rightarrow> int \<Rightarrow> bool" where
  "SessionCacheEntryIsStale entry t \<longleftrightarrow> t > mExpiration entry"

text \<open>Replacing the data frees the old copy first; if the new copy fails the entry keeps no data.\<close>

definition SessionCacheEntrySetSessionData ::
  "platform \<Rightarrow> SessionCacheEntry \<Rightarrow> bytes \<Rightarrow> OSStatus \<times> SessionCacheEntry" where
  "SessionCacheEntrySetSessionData P entry data =
     (if mallocOk P (length data) then (noErr, entry\<lparr>mSessionData := data\<rparr>)
      else (memFullErr, entry\<lparr>mSessionData := []\<rparr>))"

text \<open>The search loop of \<open>SessionCacheAddEntry\<close>: \<open>None\<close> when no entry has the key.\<close>

fun SessionCacheAddEntry_loop ::
  "platform \<Rightarrow> SessionCache \<Rightarrow> bytes \<Rightarrow> bytes \<Rightarrow> (OSStatus \<times> SessionCache) option" where
  "SessionCacheAddEntry_loop P [] key data = None"
| "SessionCacheAddEntry_loop P (entry # rest) key data =
     (if SessionCacheEntryMatchKey entry key then
        (if length (mSessionData entry) = length data \<and> mSessionData entry = data
         then Some (noErr, entry # rest)
         else (let (err, entry') = SessionCacheEntrySetSessionData P entry data
               in Some (err, entry' # rest)))
      else map_option (\<lambda>(err, rest'). (err, entry # rest'))
             (SessionCacheAddEntry_loop P rest key data))"

definition SessionCacheAddEntry ::
  "platform \<Rightarrow> SessionCache \<Rightarrow> bytes \<Rightarrow> bytes \<Rightarrow> nat \<Rightarrow> (OSStatus \<times> SessionCache) option" where
  "SessionCacheAddEntry P cache key data timeToLive =
     (case SessionCacheAddEntry_loop P cache key data of
        Some r \<Rightarrow> Some r
      | None \<Rightarrow>
          (let expireTime = now P + (if timeToLive \<noteq> 0 then int timeToLive else SESSION_CACHE_TTL)
           in case SessionCacheEntryCreate P key data expireTime of
                None \<Rightarrow> None
              | Some entry \<Rightarrow> Some (noErr, entry # cache)))"

fun SessionCacheLookupEntry ::
  "platform \<Rightarrow> SessionCache \<Rightarrow> bytes \<Rightarrow> OSStatus \<times> bytes option \<times> SessionCache" where
  "SessionCacheLookupEntry P [] key = (errSSLSessionNotFound, None, [])"
| "SessionCacheLookupEntry P (entry # rest) key =
     (if SessionCacheEntryMatchKey entry key then
        (if SessionCacheEntryIsStale entry (now P) then (errSSLSessionNotFound, None, rest)
         else if mallocOk P (length (mSessionData entry))
         then (noErr, Some (mSessionData entry), entry # rest)
         else (memFullErr, None, entry # rest))
      else (let (err, data, rest') = SessionCacheLookupEntry P rest key
            in (err, data, entry # rest')))"

fun SessionCacheDeleteEntry :: "SessionCache \<Rightarrow> bytes \<Rightarrow> OSStatus \<times> SessionCache" where
  "SessionCacheDeleteEntry [] key = (noErr, [])"
| "SessionCacheDeleteEntry (entry # rest) key =
     (if SessionCacheEntryMatchKey entry key then (noErr, rest)
      else (let (err, rest') = SessionCacheDeleteEntry rest key in (err, entry # rest')))"

text \<open>\<open>SessionCacheCleanup\<close> also reports whether it leaves an entry in the cache.\<close>

fun SessionCacheCleanup_loop :: "int \<Rightarrow> SessionCache \<Rightarrow> bool \<Rightarrow> bool \<times> SessionCache" where
  "SessionCacheCleanup_loop t [] brtn = (brtn, [])"
| "SessionCacheCleanup_loop t (entry # rest) brtn =
     (if SessionCacheEntryIsStale entry t then SessionCacheCleanup_loop t rest brtn
      else (let (b, rest') = SessionCacheCleanup_loop t rest True in (b, entry # rest')))"

definition SessionCacheCleanup :: "platform \<Rightarrow> SessionCache \<Rightarrow> bool \<times> SessionCache" where
  "SessionCacheCleanup P cache = SessionCacheCleanup_loop (now P) cache False"

text \<open>
  The exported entry points take the lock, get the (lazily created, initially empty) instance
  and call the function above; the NULL test on the instance never fires because the
  initialiser dereferences what it allocated.
\<close>

definition sslAddSession ::
  "platform \<Rightarrow> SessionCache \<Rightarrow> bytes \<Rightarrow> bytes \<Rightarrow> nat \<Rightarrow> (OSStatus \<times> SessionCache) option" where
  "sslAddSession P cache sessionKey sessionData timeToLive =
     SessionCacheAddEntry P cache sessionKey sessionData timeToLive"

definition sslGetSession ::
  "platform \<Rightarrow> SessionCache \<Rightarrow> bytes \<Rightarrow> OSStatus \<times> bytes option \<times> SessionCache" where
  "sslGetSession P cache sessionKey = SessionCacheLookupEntry P cache sessionKey"

definition sslDeleteSession :: "SessionCache \<Rightarrow> bytes \<Rightarrow> OSStatus \<times> SessionCache" where
  "sslDeleteSession cache sessionKey = SessionCacheDeleteEntry cache sessionKey"

definition sslCleanupSession :: "platform \<Rightarrow> SessionCache \<Rightarrow> OSStatus \<times> bool \<times> SessionCache" where
  "sslCleanupSession P cache =
     (let (moreToGo, cache') = SessionCacheCleanup P cache in (noErr, moreToGo, cache'))"

section \<open>The cache as a map\<close>

text \<open>
  What a lookup at time \<open>t\<close> sees: the data of the entry with that key, unless it has expired.
\<close>

definition session_view :: "int \<Rightarrow> SessionCache \<Rightarrow> bytes \<Rightarrow> bytes option" where
  "session_view t cache key =
     (case find (\<lambda>e. mKey e = key) cache of None \<Rightarrow> None
      | Some e \<Rightarrow> if mExpiration e < t then None else Some (mSessionData e))"

text \<open>An entry for the key is still in the list although it has expired.\<close>

definition session_expired :: "int \<Rightarrow> SessionCache \<Rightarrow> bytes \<Rightarrow> bool" where
  "session_expired t cache key \<longleftrightarrow>
     (case find (\<lambda>e. mKey e = key) cache of None \<Rightarrow> False | Some e \<Rightarrow> mExpiration e < t)"

definition cache_inv :: "SessionCache \<Rightarrow> bool" where
  "cache_inv cache \<longleftrightarrow> distinct (map mKey cache)"

lemma MatchKey_iff [simp]: "SessionCacheEntryMatchKey e key \<longleftrightarrow> mKey e = key"
  by (auto simp: SessionCacheEntryMatchKey_def)

lemma IsStale_iff [simp]: "SessionCacheEntryIsStale e t \<longleftrightarrow> mExpiration e < t"
  by (simp add: SessionCacheEntryIsStale_def)

lemma session_view_simps [simp]:
  "session_view t [] key = None"
  "session_view t (e # rest) key =
     (if mKey e = key then if mExpiration e < t then None else Some (mSessionData e)
      else session_view t rest key)"
  by (simp_all add: session_view_def)

lemma session_expired_simps [simp]:
  "session_expired t [] key \<longleftrightarrow> False"
  "session_expired t (e # rest) key \<longleftrightarrow>
     (if mKey e = key then mExpiration e < t else session_expired t rest key)"
  by (simp_all add: session_expired_def)

lemma cache_inv_simps [simp]:
  "cache_inv []" "cache_inv (e # rest) \<longleftrightarrow> mKey e \<notin> mKey ` set rest \<and> cache_inv rest"
  by (simp_all add: cache_inv_def)

lemma session_view_notin: "key \<notin> mKey ` set cache \<Longrightarrow> session_view t cache key = None"
  by (induction cache) auto

lemma session_expired_notin: "key \<notin> mKey ` set cache \<Longrightarrow> \<not> session_expired t cache key"
  by (induction cache) auto

subsection \<open>Adding\<close>

lemma AddEntry_loop_None:
  "SessionCacheAddEntry_loop P cache key data = None \<longleftrightarrow> key \<notin> mKey ` set cache"
  by (induction cache) (auto simp: Let_def split: prod.splits)

lemma AddEntry_loop_view:
  assumes "platform_ok P" "SessionCacheAddEntry_loop P cache key data = Some (err, cache')"
  shows "err = noErr"
    and "session_view t cache' k = (if k = key \<and> \<not> session_expired t cache key then Some data else session_view t cache k)"
    and "map mKey cache' = map mKey cache"
    and "session_expired t cache' k = session_expired t cache k"
  using assms(2)
  by (induction cache arbitrary: cache')
    (auto simp: SessionCacheEntrySetSessionData_def platform_malloc [OF assms(1)] split: if_splits)

lemma AddEntry_view:
  assumes "platform_ok P"
  shows "\<exists>cache'. SessionCacheAddEntry P cache key data ttl = Some (noErr, cache') \<and>
    (cache_inv cache \<longrightarrow> cache_inv cache') \<and>
    (\<forall>k. session_view (now P) cache' k =
       (if k = key \<and> \<not> session_expired (now P) cache key then Some data else session_view (now P) cache k)) \<and>
    (\<forall>k. session_expired (now P) cache' k = session_expired (now P) cache k)"
proof (cases "SessionCacheAddEntry_loop P cache key data")
  case None
  then have "key \<notin> mKey ` set cache" using AddEntry_loop_None by blast
  with None show ?thesis
    using assms session_expired_notin [of key cache "now P"]
    by (auto simp: SessionCacheAddEntry_def SessionCacheEntryCreate_def platform_malloc
        SESSION_CACHE_TTL_def)
next
  case (Some r)
  obtain err cache' where r: "r = (err, cache')" by (cases r)
  note view = AddEntry_loop_view [OF assms Some [unfolded r]]
  show ?thesis
    using Some r view by (simp add: SessionCacheAddEntry_def cache_inv_def)
qed

text \<open>How long what is added now can be looked up: an entry that is already there keeps its expiration.\<close>

definition session_expiry :: "int \<Rightarrow> SessionCache \<Rightarrow> bytes \<Rightarrow> nat \<Rightarrow> int" where
  "session_expiry t cache key ttl =
     (case find (\<lambda>e. mKey e = key) cache of Some e \<Rightarrow> mExpiration e
      | None \<Rightarrow> t + (if ttl \<noteq> 0 then int ttl else SESSION_CACHE_TTL))"

lemma session_expiry_simps [simp]:
  "session_expiry t [] key ttl = t + (if ttl \<noteq> 0 then int ttl else SESSION_CACHE_TTL)"
  "session_expiry t (e # rest) key ttl = (if mKey e = key then mExpiration e else session_expiry t rest key ttl)"
  by (simp_all add: session_expiry_def)

lemma session_expiry_notin:
  "key \<notin> mKey ` set cache \<Longrightarrow> session_expiry t cache key ttl = t + (if ttl \<noteq> 0 then int ttl else SESSION_CACHE_TTL)"
  by (induction cache) auto

lemma session_expiry_in: "key \<in> mKey ` set cache \<Longrightarrow> session_expired u cache key \<longleftrightarrow> session_expiry t cache key ttl < u"
  by (induction cache) auto

lemma AddEntry_lasts:
  assumes "platform_ok P"
  shows "\<exists>cache'. SessionCacheAddEntry P cache key data ttl = Some (noErr, cache') \<and>
    (\<forall>t \<le> session_expiry (now P) cache key ttl. session_view t cache' key = Some data)"
proof (cases "SessionCacheAddEntry_loop P cache key data")
  case None
  then have "key \<notin> mKey ` set cache" using AddEntry_loop_None by blast
  with None show ?thesis
    using assms by (simp add: SessionCacheAddEntry_def SessionCacheEntryCreate_def platform_malloc session_expiry_notin)
next
  case (Some r)
  obtain err cache' where r: "r = (err, cache')" by (cases r)
  note view = AddEntry_loop_view [OF assms Some [unfolded r]]
  have "key \<in> mKey ` set cache" using Some AddEntry_loop_None [of P cache key data] by auto
  with Some r view show ?thesis
    by (auto simp: SessionCacheAddEntry_def session_expiry_in [of key cache _ "now P" ttl])
qed

subsection \<open>Looking up, deleting, cleaning up\<close>

lemma LookupEntry_view:
  assumes "platform_ok P" "SessionCacheLookupEntry P cache key = (err, data, cache')"
  shows "data = session_view (now P) cache key \<and>
    err = (if session_view (now P) cache key = None then errSSLSessionNotFound else noErr) \<and>
    (cache_inv cache \<longrightarrow> cache' = filter (\<lambda>e. mKey e \<noteq> key \<or> \<not> mExpiration e < now P) cache)"
  using assms(2)
proof (induction cache arbitrary: err data cache')
  case (Cons e rest)
  obtain err1 data1 rest1 where rec: "SessionCacheLookupEntry P rest key = (err1, data1, rest1)"
    by (cases "SessionCacheLookupEntry P rest key") auto
  have "mKey e \<notin> mKey ` set rest \<Longrightarrow> mKey e = key \<Longrightarrow>
      filter (\<lambda>e. mKey e \<noteq> key \<or> \<not> mExpiration e < now P) rest = rest"
    by (rule filter_True) (metis imageI)
  with Cons.prems Cons.IH [OF rec] rec show ?case
    using platform_malloc [OF assms(1)] by (auto split: if_splits)
qed simp

lemma DeleteEntry_eq:
  "cache_inv cache \<Longrightarrow> SessionCacheDeleteEntry cache key = (noErr, filter (\<lambda>e. mKey e \<noteq> key) cache)"
proof (induction cache)
  case (Cons e rest)
  have "mKey e \<notin> mKey ` set rest \<Longrightarrow> mKey e = key \<Longrightarrow> filter (\<lambda>e. mKey e \<noteq> key) rest = rest"
    by (rule filter_True) (metis imageI)
  with Cons show ?case by auto
qed simp

lemma Cleanup_loop_eq:
  "SessionCacheCleanup_loop t cache b =
     (b \<or> (\<exists>e\<in>set cache. \<not> mExpiration e < t), filter (\<lambda>e. \<not> mExpiration e < t) cache)"
  by (induction cache arbitrary: b) auto

lemma session_view_filter_key:
  "session_view t (filter (\<lambda>e. mKey e \<noteq> key) cache) k = (if k = key then None else session_view t cache k)"
  by (induction cache) auto

lemma session_view_filter_stale:
  "cache_inv cache \<Longrightarrow> session_view t (filter (\<lambda>e. \<not> mExpiration e < t) cache) k = session_view t cache k"
proof (induction cache)
  case (Cons e rest)
  then show ?case using session_view_notin [of k rest t] by auto
qed simp

lemma cache_inv_filter: "cache_inv cache \<Longrightarrow> cache_inv (filter Q cache)"
  by (auto simp: cache_inv_def distinct_map_filter)

section \<open>The interface of the session store\<close>

text \<open>
  What the session layer relies on. \<open>expired s k\<close> marks a key whose old entry has run out but
  is still in the store: adding then does not make the new data visible, which is why the law
  for \<open>add\<close> excludes it. Deleting, or a lookup, clears the mark.
\<close>

locale session_store =
  fixes inv :: "'s \<Rightarrow> bool"
    and get :: "'s \<Rightarrow> bytes \<Rightarrow> bytes option"
    and add :: "'s \<Rightarrow> bytes \<Rightarrow> bytes \<Rightarrow> 's"
    and del :: "'s \<Rightarrow> bytes \<Rightarrow> 's"
    and expired :: "'s \<Rightarrow> bytes \<Rightarrow> bool"
  assumes add_inv: "inv s \<Longrightarrow> inv (add s k d)"
    and del_inv: "inv s \<Longrightarrow> inv (del s k)"
    and get_add: "inv s \<Longrightarrow> \<not> expired s k \<Longrightarrow> get (add s k d) k' = (if k' = k then Some d else get s k')"
    and get_del: "inv s \<Longrightarrow> get (del s k) k' = (if k' = k then None else get s k')"
    and expired_del: "inv s \<Longrightarrow> expired (del s k) k' \<longleftrightarrow> k' \<noteq> k \<and> expired s k'"
    and expired_add: "inv s \<Longrightarrow> expired (add s k d) k' = expired s k'"
begin

text \<open>Refreshing a session is deleting it and storing it again, whatever was there before.\<close>

lemma get_refresh: "inv s \<Longrightarrow> get (add (del s k) k d) k' = (if k' = k then Some d else get s k')"
  by (simp add: get_add get_del del_inv expired_del)

text \<open>The last write wins, and writes to other keys do not matter.\<close>

lemma get_adds:
  assumes "inv s" "\<forall>(k, d)\<in>set kds. \<not> expired s k"
  shows "get (foldl (\<lambda>s (k, d). add s k d) s kds) k' =
    (case map_of (rev kds) k' of None \<Rightarrow> get s k' | Some d \<Rightarrow> Some d)"
  using assms
proof (induction kds rule: rev_induct)
  case (snoc kd kds)
  obtain k d where kd: "kd = (k, d)" by (cases kd)
  have inv: "inv (foldl (\<lambda>s (k, d). add s k d) s xs)" for xs
    using assms(1) by (induction xs rule: rev_induct) (auto simp: add_inv)
  have exp: "expired (foldl (\<lambda>s (k, d). add s k d) s xs) k' = expired s k'" for xs k'
  proof (induction xs rule: rev_induct)
    case (snoc x xs)
    then show ?case using inv [of xs] by (cases x) (simp add: expired_add)
  qed simp
  show ?case using snoc kd inv [of kds] exp [of kds k] by (simp add: get_add)
qed simp

end

text \<open>The model's operations at one moment, with a platform that meets its contract.\<close>

lemma session_expired_filter_key:
  "session_expired t (filter (\<lambda>e. mKey e \<noteq> key) cache) k \<longleftrightarrow> k \<noteq> key \<and> session_expired t cache k"
  by (induction cache) auto

lemma sslGetSession_view:
  "platform_ok P \<Longrightarrow> fst (snd (sslGetSession P cache key)) = session_view (now P) cache key"
  using LookupEntry_view [of P cache key]
  by (cases "SessionCacheLookupEntry P cache key") (simp add: sslGetSession_def)

lemma sslAddSession_laws:
  assumes "platform_ok P" "cache_inv cache"
  shows "cache_inv (snd (the (sslAddSession P cache k d ttl)))"
    and "session_expired (now P) (snd (the (sslAddSession P cache k d ttl))) k' = session_expired (now P) cache k'"
    and "\<not> session_expired (now P) cache k \<Longrightarrow>
      fst (snd (sslGetSession P (snd (the (sslAddSession P cache k d ttl))) k')) =
      (if k' = k then Some d else fst (snd (sslGetSession P cache k')))"
  using AddEntry_view [OF assms(1), of cache k d ttl] assms
  by (auto simp: sslAddSession_def sslGetSession_view)

lemma sslDeleteSession_laws:
  assumes "cache_inv cache"
  shows "cache_inv (snd (sslDeleteSession cache k))"
    and "session_expired t (snd (sslDeleteSession cache k)) k' \<longleftrightarrow> k' \<noteq> k \<and> session_expired t cache k'"
    and "platform_ok P \<Longrightarrow> fst (snd (sslGetSession P (snd (sslDeleteSession cache k)) k')) =
      (if k' = k then None else fst (snd (sslGetSession P cache k')))"
  using assms
  by (simp_all add: sslDeleteSession_def DeleteEntry_eq cache_inv_filter session_expired_filter_key
      sslGetSession_view session_view_filter_key)

interpretation apple_session: session_store
  "\<lambda>(P, ttl, cache). platform_ok P \<and> cache_inv cache"
  "\<lambda>(P, ttl, cache) key. fst (snd (sslGetSession P cache key))"
  "\<lambda>(P, ttl, cache) key data. (P, ttl, snd (the (sslAddSession P cache key data ttl)))"
  "\<lambda>(P, ttl, cache) key. (P, ttl, snd (sslDeleteSession cache key))"
  "\<lambda>(P, ttl, cache) key. session_expired (now P) cache key"
  by unfold_locales (auto simp: sslAddSession_laws sslDeleteSession_laws)

end
