(* ===== verification/Context.thy ===== *)
theory Context
  imports Sym_Cipher Prf Session_Cache
begin

text \<open>
  The state of a connection, \<open>struct SSLContext\<close> of \<open>sslContext.h\<close>, and the small operations
  of \<open>sslUtils.c\<close> on it: the I/O redirection, the random source, the activity test and the
  protocol-version negotiation.

  The fields keep the C names. Six fields are not in the C structure: \<open>sessionCache\<close>,
  \<open>g_resolved\<close> and \<open>serverDhParams\<close> (\<open>None\<close> until \<open>pthread_once\<close> has run) are process-wide variables, and \<open>ioPos\<close> and \<open>rngPos\<close> count the calls made to the
  I/O callbacks and to \<open>/dev/random\<close>, whose answers the platform gives in order. \<open>wireOut\<close> is what the
  write callback has taken so far of what it was offered, in order; no operation reads it. The I/O
  functions, the connection reference and the argument of the master secret callback are opaque
  pointers. A zeroed
  \<open>CipherContext\<close> (NULL tables) is represented by the null tables: every operation that tests
  for NULL does nothing in either case.
\<close>

section \<open>Enumerations\<close>

type_synonym SSLProtocolVersion = uint32

abbreviation SSL_Version_Undetermined :: SSLProtocolVersion where "SSL_Version_Undetermined \<equiv> 0"
abbreviation SSL_Version_2_0 :: SSLProtocolVersion where "SSL_Version_2_0 \<equiv> 0x0002"
abbreviation SSL_Version_3_0 :: SSLProtocolVersion where "SSL_Version_3_0 \<equiv> 0x0300"
abbreviation TLS_Version_1_0 :: SSLProtocolVersion where "TLS_Version_1_0 \<equiv> 0x0301"
abbreviation TLS_Version_1_1 :: SSLProtocolVersion where "TLS_Version_1_1 \<equiv> 0x0302"
abbreviation TLS_Version_1_2 :: SSLProtocolVersion where "TLS_Version_1_2 \<equiv> 0x0303"

datatype SSLProtocolSide = SSL_ServerSide | SSL_ClientSide

datatype SSLHandshakeState =
    SSL_HdskStateUninit | SSL_HdskStateServerUninit | SSL_HdskStateClientUninit
  | SSL_HdskStateGracefulClose | SSL_HdskStateErrorClose | SSL_HdskStateNoNotifyClose
  | SSL_HdskStateServerHello | SSL_HdskStateServerHelloUnknownVersion
  | SSL_HdskStateKeyExchange | SSL_HdskStateCert | SSL_HdskStateHelloDone
  | SSL_HdskStateClientCert | SSL_HdskStateClientKeyExchange | SSL_HdskStateClientCertVerify
  | SSL_HdskStateChangeCipherSpec | SSL_HdskStateFinished
  | SSL2_HdskStateClientMasterKey | SSL2_HdskStateClientFinished | SSL2_HdskStateServerHello
  | SSL2_HdskStateServerVerify | SSL2_HdskStateServerFinished
  | SSL_HdskStateServerReady | SSL_HdskStateClientReady

datatype KeyExchangeMethod =
    SSL_NULL_auth | SSL_RSA | SSL_RSA_EXPORT | SSL_DH_DSS | SSL_DH_DSS_EXPORT | SSL_DH_RSA
  | SSL_DH_RSA_EXPORT | SSL_DHE_DSS | SSL_DHE_DSS_EXPORT | SSL_DHE_RSA | SSL_DHE_RSA_EXPORT
  | SSL_DH_anon | SSL_DH_anon_EXPORT | SSL_Fortezza | SSL_ECDH_ECDSA | SSL_ECDHE_ECDSA
  | SSL_ECDH_RSA | SSL_ECDHE_RSA | SSL_ECDH_anon

datatype SSLAuthenticate = kNeverAuthenticate | kAlwaysAuthenticate | kTryAuthenticate

datatype SSLClientCertificateState =
  kSSLClientCertNone | kSSLClientCertRequested | kSSLClientCertSent | kSSLClientCertRejected

text \<open>A private key reference (\<open>SecKeyRef\<close>) is the answer of \<open>SecKeyGetCSSMKey\<close>: an error or the key.\<close>

type_synonym SecKeyRef = "OSStatus + CSSM_KEY"

text \<open>
  The elements of the array that the application hands to \<open>SSLSetCertificate\<close>. A certificate
  reference is identified with its DER data, an identity reference is opaque.
\<close>

datatype CFItem = NullItem | IdentityItem nat | CertificateItem bytes | OtherItem

type_synonym SSLClientAuthenticationType = int

abbreviation SSLClientAuthNone :: SSLClientAuthenticationType where "SSLClientAuthNone \<equiv> - 1"
abbreviation SSLClientAuth_RSASign :: SSLClientAuthenticationType where "SSLClientAuth_RSASign \<equiv> 1"
abbreviation SSLClientAuth_ECDSASign :: SSLClientAuthenticationType where "SSLClientAuth_ECDSASign \<equiv> 64"
abbreviation SSLClientAuth_RSAFixedECDH :: SSLClientAuthenticationType where "SSLClientAuth_RSAFixedECDH \<equiv> 65"
abbreviation SSLClientAuth_ECDSAFixedECDH :: SSLClientAuthenticationType where "SSLClientAuth_ECDSAFixedECDH \<equiv> 66"

abbreviation SSL_Curve_None :: int where "SSL_Curve_None \<equiv> - 1"
abbreviation SSL_Curve_secp256r1 :: int where "SSL_Curve_secp256r1 \<equiv> 23"
abbreviation SSL_Curve_secp384r1 :: int where "SSL_Curve_secp384r1 \<equiv> 24"
abbreviation SSL_Curve_secp521r1 :: int where "SSL_Curve_secp521r1 \<equiv> 25"

datatype SslTlsCallouts = Ssl3Callouts | Tls1Callouts | Tls12Callouts

section \<open>Records\<close>

record SSLCipherSpec =
  cipherSpec :: uint32
  isExportable :: bool
  keyExchangeMethod :: KeyExchangeMethod
  macAlgorithm :: HMAC_Algs
  cipher :: SSLSymmetricCipher

record SSLRecord =
  contentType :: byte
  protocolVersion :: SSLProtocolVersion
  contents :: bytes

record WaitingRecord =
  sent :: nat
  wdata :: bytes

record SSLContext =
  ioReadFunc :: nat
  ioWriteFunc :: nat
  ioRef :: nat
  negProtocolVersion :: SSLProtocolVersion
  clientReqProtocol :: SSLProtocolVersion
  versionSsl2Enable :: bool
  versionSsl3Enable :: bool
  versionTls1Enable :: bool
  versionTls11Enable :: bool
  versionTls12Enable :: bool
  maxProtocolVersion :: SSLProtocolVersion
  protocolSide :: SSLProtocolSide
  sslTslCalls :: SslTlsCallouts
  signingPrivKeyRef :: "SecKeyRef option"
  signingPubKey :: "CSSM_KEY option"
  encryptPrivKeyRef :: "SecKeyRef option"
  encryptPubKey :: "CSSM_KEY option"
  peerPubKey :: "CSSM_KEY option"
  peerPubKeyCsp :: nat
  localCert :: "bytes list"
  encryptCert :: "bytes list"
  peerCert :: "bytes list"
  ourSignerAlg :: CSSM_ALGORITHMS
  localCertArray :: "CFItem list option"
  encryptCertArray :: "CFItem list option"
  peerSecTrust :: "trust_request option"
  trustedCerts :: "bytes list option"
  trustedLeafCerts :: "bytes list option"
  ctxCspHand :: nat
  tpHand :: nat
  clHand :: nat
  dhParamsPrime :: "bytes option"
  dhParamsGenerator :: "bytes option"
  dhParamsEncoded :: "bytes option"
  dhPeerPublic :: "bytes option"
  dhExchangePublic :: "bytes option"
  dhPrivate :: "CSSM_KEY option"
  ecdhCurves :: "int list"
  ecdhPeerPublic :: "bytes option"
  ecdhPeerCurve :: int
  ecdhExchangePublic :: "bytes option"
  ecdhPrivate :: "CSSM_KEY option"
  ecdhPrivCspHand :: nat
  allowExpiredCerts :: bool
  allowExpiredRoots :: bool
  enableCertVerify :: bool
  sessionID :: "bytes option"
  peerID :: "bytes option"
  resumableSession :: "bytes option"
  peerDomainName :: "bytes option"
  peerDomainNameLen :: nat
  readCipher :: CipherContext
  writeCipher :: CipherContext
  readPending :: CipherContext
  writePending :: CipherContext
  selectedCipher :: uint16
  selectedCipherSpec :: "SSLCipherSpec option"
  validCipherSpecs :: "SSLCipherSpec list option"
  numValidNonSSLv2Specs :: nat
  state :: SSLHandshakeState
  clientAuth :: SSLAuthenticate
  tryClientAuth :: bool
  clientCertState :: SSLClientCertificateState
  acceptableDNList :: "bytes list"
  acceptableCAs :: "bytes list option"
  certRequested :: bool
  certSent :: bool
  certReceived :: bool
  x509Requested :: bool
  clientRandom :: bytes
  serverRandom :: bytes
  preMasterSecret :: "bytes option"
  masterSecret :: bytes
  shaState :: digestCtx
  md5State :: digestCtx
  sha256State :: digestCtx
  sha384State :: digestCtx
  fragmentedMessageCache :: "bytes option"
  ssl2ChallengeLength :: nat
  ssl2ConnectionIDLength :: nat
  sessionMatch :: nat
  partialReadBuffer :: "bytes option"
  amountRead :: nat
  recordWriteQueue :: "WaitingRecord list"
  receivedDataBuffer :: "bytes option"
  receivedDataPos :: nat
  allowAnyRoot :: bool
  sentFatalAlert :: bool
  rsaBlindingEnable :: bool
  sessionCacheTimeout :: uint32
  sessionTicket :: "bytes option"
  masterSecretCallback :: bool
  masterSecretArg :: nat
  anonCipherEnable :: bool
  weakCipherEnable :: bool
  breakOnServerAuth :: bool
  breakOnCertRequest :: bool
  signalServerAuth :: bool
  signalCertRequest :: bool
  ecdsaEnable :: bool
  clientAuthTypes :: "SSLClientAuthenticationType list"
  negAuthType :: SSLClientAuthenticationType
  serverDhParams :: "(bytes option \<times> bytes option \<times> bytes option) option"
  sessionCache :: SessionCache
  g_resolved :: int
  ioPos :: nat
  wireOut :: bytes
  rngPos :: nat

section \<open>Operations of \<open>sslUtils.c\<close>\<close>

definition sslIsSessionActive :: "SSLContext \<Rightarrow> bool" where
  "sslIsSessionActive ctx \<longleftrightarrow>
     state ctx \<notin> {SSL_HdskStateUninit, SSL_HdskStateServerUninit, SSL_HdskStateClientUninit,
                  SSL_HdskStateGracefulClose, SSL_HdskStateErrorClose}"

text \<open>The octets the callback delivered, at most what was asked for.\<close>

definition sslIoRead :: "platform \<Rightarrow> nat \<Rightarrow> SSLContext \<Rightarrow> OSStatus \<times> bytes \<times> SSLContext" where
  "sslIoRead P n ctx =
     (case ioRead P (ioPos ctx) n of (ortn, bs) \<Rightarrow> (ortn, bs, ctx\<lparr>ioPos := ioPos ctx + 1\<rparr>))"

text \<open>The callback takes a first part of the buffer and reports its length.\<close>

definition sslIoWrite :: "platform \<Rightarrow> bytes \<Rightarrow> SSLContext \<Rightarrow> OSStatus \<times> nat \<times> SSLContext" where
  "sslIoWrite P buf ctx =
     (case ioWrite P (ioPos ctx) buf of (ortn, n) \<Rightarrow> (ortn, n, ctx\<lparr>ioPos := ioPos ctx + 1, wireOut := wireOut ctx @ take n buf\<rparr>))"

definition sslRand :: "platform \<Rightarrow> nat \<Rightarrow> SSLContext \<Rightarrow> OSStatus \<times> bytes \<times> SSLContext" where
  "sslRand P n ctx =
     (if n = 0 then (noErr, [], ctx)
      else case devRandom P (rngPos ctx) n of
             None \<Rightarrow> (errSSLCrypto, replicate n 0, ctx\<lparr>rngPos := rngPos ctx + 1\<rparr>)
           | Some bs \<Rightarrow> (noErr, bs, ctx\<lparr>rngPos := rngPos ctx + 1\<rparr>))"

text \<open>On error \<open>*negVersion\<close> is not written; the second component is \<open>None\<close> then.\<close>

definition sslVerifyProtVersion ::
  "SSLContext \<Rightarrow> SSLProtocolVersion \<Rightarrow> OSStatus \<times> SSLProtocolVersion option" where
  "sslVerifyProtVersion ctx peerVersion =
     (let client = (protocolSide ctx = SSL_ClientSide);
          fail = (errSSLNegotiation, None);
          ssl2 = (if versionSsl2Enable ctx then (noErr, Some SSL_Version_2_0) else fail)
      in
      if peerVersion = SSL_Version_2_0 then ssl2
      else if peerVersion = SSL_Version_3_0 then
        (if versionSsl3Enable ctx then (noErr, Some SSL_Version_3_0)
         else if client then fail else ssl2)
      else if peerVersion = TLS_Version_1_0 then
        (if versionTls1Enable ctx then (noErr, Some TLS_Version_1_0)
         else if client then fail
         else if versionSsl3Enable ctx then (noErr, Some SSL_Version_3_0)
         else ssl2)
      else if peerVersion = TLS_Version_1_1 then
        (if versionTls11Enable ctx then (noErr, Some TLS_Version_1_1)
         else if client then fail
         else if versionTls1Enable ctx then (noErr, Some TLS_Version_1_0)
         else if versionSsl3Enable ctx then (noErr, Some SSL_Version_3_0)
         else ssl2)
      else if peerVersion = TLS_Version_1_2 then
        (if versionTls12Enable ctx then (noErr, Some TLS_Version_1_2)
         else if client then fail
         else if versionTls11Enable ctx then (noErr, Some TLS_Version_1_1)
         else if versionTls1Enable ctx then (noErr, Some TLS_Version_1_0)
         else if versionSsl3Enable ctx then (noErr, Some SSL_Version_3_0)
         else ssl2)
      else fail)"

definition sslGetMaxProtVersion :: "SSLContext \<Rightarrow> OSStatus \<times> SSLProtocolVersion option" where
  "sslGetMaxProtVersion ctx =
     (if versionTls12Enable ctx then (noErr, Some TLS_Version_1_2)
      else if versionTls11Enable ctx then (noErr, Some TLS_Version_1_1)
      else if versionTls1Enable ctx then (noErr, Some TLS_Version_1_0)
      else if versionSsl3Enable ctx then (noErr, Some SSL_Version_3_0)
      else if versionSsl2Enable ctx then (noErr, Some SSL_Version_2_0)
      else (paramErr, None))"

section \<open>Version negotiation is correct\<close>

definition versionEnabled :: "SSLContext \<Rightarrow> SSLProtocolVersion \<Rightarrow> bool" where
  "versionEnabled ctx v \<longleftrightarrow>
     (v = SSL_Version_2_0 \<and> versionSsl2Enable ctx \<or> v = SSL_Version_3_0 \<and> versionSsl3Enable ctx \<or>
      v = TLS_Version_1_0 \<and> versionTls1Enable ctx \<or> v = TLS_Version_1_1 \<and> versionTls11Enable ctx \<or>
      v = TLS_Version_1_2 \<and> versionTls12Enable ctx)"

definition knownVersion :: "SSLProtocolVersion \<Rightarrow> bool" where
  "knownVersion v \<longleftrightarrow> v \<in> {SSL_Version_2_0, SSL_Version_3_0, TLS_Version_1_0, TLS_Version_1_1, TLS_Version_1_2}"

text \<open>
  A version is agreed exactly when it is the highest enabled version that does not exceed the
  peer's, and on the client side only the peer's own version will do.
\<close>

lemma all_versionEnabled:
  "(\<forall>w. versionEnabled ctx w \<longrightarrow> Q w) \<longleftrightarrow>
     (versionSsl2Enable ctx \<longrightarrow> Q SSL_Version_2_0) \<and> (versionSsl3Enable ctx \<longrightarrow> Q SSL_Version_3_0) \<and>
     (versionTls1Enable ctx \<longrightarrow> Q TLS_Version_1_0) \<and> (versionTls11Enable ctx \<longrightarrow> Q TLS_Version_1_1) \<and>
     (versionTls12Enable ctx \<longrightarrow> Q TLS_Version_1_2)"
  unfolding versionEnabled_def by blast

lemma version_cases:
  obtains "v = SSL_Version_2_0" | "v = SSL_Version_3_0" | "v = TLS_Version_1_0"
  | "v = TLS_Version_1_1" | "v = TLS_Version_1_2" | "\<not> knownVersion v"
  unfolding knownVersion_def by blast

lemma versionEnabled_known: "versionEnabled ctx v \<Longrightarrow> knownVersion v"
  unfolding versionEnabled_def knownVersion_def by blast

lemma sslVerifyProtVersion_known: "sslVerifyProtVersion ctx p = (e, Some v) \<Longrightarrow> knownVersion v"
  by (simp add: sslVerifyProtVersion_def knownVersion_def Let_def split: if_split_asm)

lemma sslGetMaxProtVersion_known: "sslGetMaxProtVersion ctx = (e, Some v) \<Longrightarrow> knownVersion v"
  by (simp add: sslGetMaxProtVersion_def knownVersion_def split: if_split_asm)

lemma sslVerifyProtVersion_iff:
  assumes "knownVersion peer"
  shows "sslVerifyProtVersion ctx peer = (noErr, Some v) \<longleftrightarrow>
    versionEnabled ctx v \<and> v \<le> peer \<and> (\<forall>w. versionEnabled ctx w \<longrightarrow> w \<le> peer \<longrightarrow> w \<le> v) \<and>
    (protocolSide ctx = SSL_ClientSide \<longrightarrow> v = peer)"
proof (cases v rule: version_cases)
  case 6
  then show ?thesis
    using versionEnabled_known sslVerifyProtVersion_known by blast
qed (use assms in \<open>cases peer rule: version_cases; subst all_versionEnabled;
    cases "protocolSide ctx"; simp add: sslVerifyProtVersion_def versionEnabled_def Let_def\<close>)+

lemma sslVerifyProtVersion_error:
  "fst (sslVerifyProtVersion ctx peer) \<noteq> noErr \<longleftrightarrow> snd (sslVerifyProtVersion ctx peer) = None"
  by (simp add: sslVerifyProtVersion_def Let_def)

lemma sslGetMaxProtVersion_iff:
  "sslGetMaxProtVersion ctx = (noErr, Some v) \<longleftrightarrow>
     versionEnabled ctx v \<and> (\<forall>w. versionEnabled ctx w \<longrightarrow> w \<le> v)"
proof (cases v rule: version_cases)
  case 6
  then show ?thesis
    using versionEnabled_known sslGetMaxProtVersion_known by blast
qed (subst all_versionEnabled; simp add: sslGetMaxProtVersion_def versionEnabled_def)+

lemma length_sslRand:
  "platform_ok P \<Longrightarrow> sslRand P n ctx = (err, bs, ctx') \<Longrightarrow> err = noErr \<and> length bs = n"
  using devRandom_Some [of P "rngPos ctx" n]
  by (auto simp: sslRand_def split: if_splits option.splits)

end
