(* ===== verification/Chain_Verify.thy ===== *)
theory Chain_Verify
  imports Context
begin

text \<open>
  Model of \<open>tls12_chainverify.c\<close>: host names against certificate patterns, the scan of a
  subjectAltName extension, the reader for DER integers, the extraction of an RSA public key from
  a certificate, and the verification of a chain with libcrypto that stands in when the trust
  policy module cannot parse a certificate.

  The lemmas give the matching relation in closed form, show that the scan finds exactly the
  names that an encoder put into the extension, that reading inverts writing for DER integers and
  for RSA keys, and state exactly when a chain is accepted.
\<close>

section \<open>Host names\<close>

definition tolower :: "byte \<Rightarrow> byte" where
  "tolower b = (if 0x41 \<le> b \<and> b \<le> 0x5A then b + 0x20 else b)"

text \<open>The comparison loop; it runs over two strings of the same length.\<close>

fun eq_nocase :: "bytes \<Rightarrow> bytes \<Rightarrow> bool" where
  "eq_nocase (x # xs) (y # ys) = (if tolower x \<noteq> tolower y then False else eq_nocase xs ys)"
| "eq_nocase xs ys = True"

definition hostname_matches :: "bytes \<Rightarrow> bytes \<Rightarrow> bool" where
  "hostname_matches pattern host =
     (if length pattern = length host \<and> eq_nocase pattern host then True
      else if length pattern \<ge> 2 \<and> pattern ! 0 = 0x2A \<and> pattern ! 1 = 0x2E
      then (let dot = dropWhile (\<lambda>b. b \<noteq> 0x2E) host in
            dot \<noteq> [] \<and> length dot = length pattern - 1 \<and> eq_nocase (drop 1 pattern) dot \<and>
            length host - length dot \<ge> 1)
      else False)"

section \<open>The subjectAltName extension\<close>

text \<open>A big-endian length; the C code reads at most three octets into an \<open>int\<close>.\<close>

definition be_len :: "bytes \<Rightarrow> nat" where
  "be_len bs = foldl (\<lambda>len b. len * 256 + unat b) 0 bs"

text \<open>The length field at position \<open>i + 1\<close>: the length and the number of octets of the field.\<close>

definition der_length :: "bytes \<Rightarrow> nat \<Rightarrow> (nat \<times> nat) option" where
  "der_length der i =
     (let b = der ! (i + 1) in
      if b AND 0x80 = 0 then Some (unat b, 1)
      else (let nb = unat (b AND 0x7F) in
            if nb < 1 \<or> nb > 3 \<or> i + 2 + nb > length der then None
            else Some (be_len (take nb (drop (i + 2) der)), 1 + nb)))"

function san_scan :: "bytes \<Rightarrow> bytes \<Rightarrow> nat \<Rightarrow> bool" where
  "san_scan der host i =
     (if i + 2 > length der then False
      else case der_length der i of
        None \<Rightarrow> san_scan der host (i + 1)
      | Some (len, lenbytes) \<Rightarrow>
          (let off = i + 1 + lenbytes in
           if der ! i = 0x82
           then (if off + len \<le> length der \<and> len > 0 \<and> hostname_matches (take len (drop off der)) host then True
                 else san_scan der host (off + len))
           else if der ! i = 0x30 \<or> der ! i = 0xA0 then san_scan der host off
           else san_scan der host (off + len)))"
  by pat_completeness auto
termination
  by (relation "measure (\<lambda>(der, host, i). length der - i)") auto

declare san_scan.simps [simp del]

definition san_der_matches_host :: "bytes \<Rightarrow> bytes \<Rightarrow> bool" where
  "san_der_matches_host der host = san_scan der host 0"

section \<open>RSA keys\<close>

text \<open>The value of an integer of \<open>len\<close> octets, without its sign octet, and what follows it.\<close>

definition der_int_value :: "nat \<Rightarrow> bytes \<Rightarrow> (bytes \<times> bytes) option" where
  "der_int_value len q =
     (if len > length q then None
      else if len > 1 \<and> q ! 0 = 0 then Some (take (len - 1) (drop 1 q), drop len q)
      else Some (take len q, drop len q))"

definition tls12_der_int :: "bytes \<Rightarrow> (bytes \<times> bytes) option" where
  "tls12_der_int p =
     (case p of
        tag # l # q \<Rightarrow>
          if tag \<noteq> 0x02 then None
          else if l AND 0x80 = 0 then der_int_value (unat l) q
          else (let nb = unat (l AND 0x7F) in
                if nb < 1 \<or> nb > 3 \<or> nb > length q then None
                else der_int_value (be_len (take nb q)) (drop nb q))
      | _ \<Rightarrow> None)"

text \<open>The outer SEQUENCE: its tag and length field are skipped.\<close>

definition skip_sequence :: "bytes \<Rightarrow> bytes option" where
  "skip_sequence der =
     (case der of
        tag # q \<Rightarrow>
          if tag \<noteq> 0x30 then None
          else (case q of [] \<Rightarrow> Some []
                | l # q \<Rightarrow> Some (if l AND 0x80 = 0 then q else drop (unat (l AND 0x7F)) q))
      | [] \<Rightarrow> None)"

definition rsa_symbols :: "string list" where
  "rsa_symbols = [''d2i_X509'', ''X509_free'', ''X509_get_pubkey'', ''EVP_PKEY_free'', ''EVP_PKEY_get1_RSA'',
     ''RSA_free'', ''i2d_RSAPublicKey'']"

text \<open>Modulus and exponent; \<open>None\<close> is the return value -1.\<close>

definition tls12ExtractRSAPubKey :: "platform \<Rightarrow> bytes \<Rightarrow> (bytes \<times> bytes) option" where
  "tls12ExtractRSAPubKey P derCert =
     (if \<not> libcryptoHandle P \<or> \<not> list_all (dlsym P) rsa_symbols then None
      else do {
        x \<leftarrow> d2i_X509 P derCert;
        pkey \<leftarrow> X509_get_pubkey P x;
        rsa \<leftarrow> EVP_PKEY_get1_RSA P pkey;
        der \<leftarrow> i2d_RSAPublicKey P rsa;
        q \<leftarrow> skip_sequence der;
        (n, q) \<leftarrow> tls12_der_int q;
        (e, q) \<leftarrow> tls12_der_int q;
        if 0 < length n \<and> 0 < length e \<and> length n < 2048 \<and> length e < 16 \<and> mallocOk P (length n) \<and> mallocOk P (length e)
        then Some (n, e) else None })"

section \<open>Verifying a chain\<close>

definition verify_symbols :: "string list" where
  "verify_symbols = [''d2i_X509'', ''X509_free'', ''X509_STORE_new'', ''X509_STORE_free'', ''X509_STORE_add_cert'',
     ''X509_STORE_CTX_new'', ''X509_STORE_CTX_free'', ''X509_STORE_CTX_init'', ''X509_verify_cert'',
     ''X509_STORE_CTX_get_error'', ''BIO_new_file'', ''BIO_free'', ''PEM_read_bio_X509'', ''X509_get_ext_by_NID'',
     ''X509_get_ext'', ''X509_EXTENSION_get_data'', ''ASN1_STRING_data'', ''ASN1_STRING_length'']"

fun parse_chain :: "platform \<Rightarrow> bytes list \<Rightarrow> bytes list option" where
  "parse_chain P [] = Some []"
| "parse_chain P (c # cs) = do { x \<leftarrow> d2i_X509 P c; xs \<leftarrow> parse_chain P cs; Some (x # xs) }"

fun store_add :: "platform \<Rightarrow> bytes list \<Rightarrow> bytes list \<Rightarrow> bytes list" where
  "store_add P store [] = store"
| "store_add P store (x # xs) = store_add P (if X509_STORE_add_cert P store x then store @ [x] else store) xs"

text \<open>
  The trust store: the anchors of the bundle, \<open>None\<close> when none could be added, and then the
  certificates after the first one that the peer sent (at most 62 of them).
\<close>

definition trust_store :: "platform \<Rightarrow> bytes list \<Rightarrow> bytes list option" where
  "trust_store P intermediates =
     do { bundle \<leftarrow> anchorBundle P;
          let store = store_add P [] bundle;
          if store = [] then None else Some (store_add P store (take 62 intermediates)) }"

text \<open>The check of the host name at the end of the routine, whose outcome is only logged.\<close>

definition san_self_check :: "platform \<Rightarrow> SSLContext \<Rightarrow> bytes \<Rightarrow> bool" where
  "san_self_check P ctx leaf =
     (case (peerDomainName ctx, subjectAltName P leaf) of
        (Some host, Some der) \<Rightarrow> der \<noteq> [] \<and> san_der_matches_host der host
      | _ \<Rightarrow> False)"

definition sslVerifyCertChainOpenSSL :: "platform \<Rightarrow> SSLContext \<Rightarrow> bytes list \<Rightarrow> OSStatus" where
  "sslVerifyCertChainOpenSSL P ctx certChain =
     (if \<not> libcryptoHandle P \<or> \<not> list_all (dlsym P) verify_symbols then errSSLXCertChainInvalid
      else case parse_chain P certChain of
        Some (leafX # intermediates) \<Rightarrow>
          if \<not> X509_STORE_ok P then errSSLXCertChainInvalid
          else (case trust_store P intermediates of
                  None \<Rightarrow> errSSLXCertChainInvalid
                | Some store \<Rightarrow>
                    if \<not> X509_STORE_CTX_ok P then errSSLXCertChainInvalid
                    else (let result = (if X509_verify_cert P store leafX = 1 then noErr else errSSLXCertChainInvalid);
                              hostOK = (result = noErr \<and> san_self_check P ctx leafX)
                          in if \<not> hostOK then result else result))
      | _ \<Rightarrow> errSSLXCertChainInvalid)"

section \<open>Matching in closed form\<close>

lemma eq_nocase_iff: "length xs = length ys \<Longrightarrow> eq_nocase xs ys \<longleftrightarrow> map tolower xs = map tolower ys"
  by (induction xs ys rule: eq_nocase.induct) auto

lemma dropWhile_Cons_iff:
  "dropWhile (\<lambda>b. b \<noteq> c) xs = ys \<and> ys \<noteq> [] \<longleftrightarrow> (\<exists>us vs. ys = c # vs \<and> xs = us @ c # vs \<and> c \<notin> set us)"
proof
  assume a: "dropWhile (\<lambda>b. b \<noteq> c) xs = ys \<and> ys \<noteq> []"
  then have "hd ys = c" using hd_dropWhile [of "\<lambda>b. b \<noteq> c" xs] by auto
  with a have "ys = c # tl ys" by (metis list.collapse)
  moreover have "xs = takeWhile (\<lambda>b. b \<noteq> c) xs @ ys" using a by auto
  moreover have "c \<notin> set (takeWhile (\<lambda>b. b \<noteq> c) xs)" by (auto dest: set_takeWhileD)
  ultimately show "\<exists>us vs. ys = c # vs \<and> xs = us @ c # vs \<and> c \<notin> set us" by metis
next
  assume "\<exists>us vs. ys = c # vs \<and> xs = us @ c # vs \<and> c \<notin> set us"
  then show "dropWhile (\<lambda>b. b \<noteq> c) xs = ys \<and> ys \<noteq> []"
    by (auto simp: dropWhile_append)
qed

text \<open>
  A pattern matches the host name that is equal to it up to case, and a pattern \<open>*.suffix\<close> matches
  every name made of one non-empty label and the suffix.
\<close>

lemma tolower_dot: "tolower 0x2E = 0x2E"
  by (simp add: tolower_def)

lemma hostname_matches_iff:
  "hostname_matches pattern host \<longleftrightarrow> map tolower pattern = map tolower host \<or>
     (\<exists>suffix label rest. pattern = 0x2A # 0x2E # suffix \<and> host = label @ 0x2E # rest \<and> label \<noteq> [] \<and>
        0x2E \<notin> set label \<and> map tolower suffix = map tolower rest)"
    (is "_ \<longleftrightarrow> ?exact \<or> ?wild")
proof -
  have exact: "length pattern = length host \<and> eq_nocase pattern host \<longleftrightarrow> ?exact"
    using eq_nocase_iff by (metis length_map)
  have wild: "(length pattern \<ge> 2 \<and> pattern ! 0 = 0x2A \<and> pattern ! 1 = 0x2E \<and>
      (let dot = dropWhile (\<lambda>b. b \<noteq> 0x2E) host in dot \<noteq> [] \<and> length dot = length pattern - 1 \<and>
         eq_nocase (drop 1 pattern) dot \<and> length host - length dot \<ge> 1)) \<longleftrightarrow> ?wild"
  proof (intro iffI)
    assume l: "length pattern \<ge> 2 \<and> pattern ! 0 = 0x2A \<and> pattern ! 1 = 0x2E \<and>
      (let dot = dropWhile (\<lambda>b. b \<noteq> 0x2E) host in dot \<noteq> [] \<and> length dot = length pattern - 1 \<and>
         eq_nocase (drop 1 pattern) dot \<and> length host - length dot \<ge> 1)"
    then obtain suffix where p: "pattern = 0x2A # 0x2E # suffix"
      by (cases pattern; cases "tl pattern") auto
    from l obtain label rest where h: "dropWhile (\<lambda>b. b \<noteq> 0x2E) host = 0x2E # rest" "host = label @ 0x2E # rest" "0x2E \<notin> set label"
      using dropWhile_Cons_iff [of "0x2E" host] by (metis (lifting))
    with l p have "length suffix = length rest" "eq_nocase (0x2E # suffix) (0x2E # rest)" "label \<noteq> []" by (auto simp: Let_def)
    then have "map tolower suffix = map tolower rest" by (simp add: eq_nocase_iff)
    with p h \<open>label \<noteq> []\<close> show ?wild by blast
  next
    assume ?wild
    then obtain suffix label rest where w: "pattern = 0x2A # 0x2E # suffix" "host = label @ 0x2E # rest" "label \<noteq> []"
      "0x2E \<notin> set label" "map tolower suffix = map tolower rest" by blast
    then have "dropWhile (\<lambda>b. b \<noteq> 0x2E) host = 0x2E # rest"
      using dropWhile_Cons_iff [of "0x2E" host "0x2E # rest"] by blast
    moreover have "length suffix = length rest" using w(5) by (metis length_map)
    ultimately show "length pattern \<ge> 2 \<and> pattern ! 0 = 0x2A \<and> pattern ! 1 = 0x2E \<and>
      (let dot = dropWhile (\<lambda>b. b \<noteq> 0x2E) host in dot \<noteq> [] \<and> length dot = length pattern - 1 \<and>
         eq_nocase (drop 1 pattern) dot \<and> length host - length dot \<ge> 1)"
      using w by (simp add: eq_nocase_iff Suc_le_eq)
  qed
  show ?thesis
    unfolding hostname_matches_def exact using wild by auto
qed

section \<open>Encoding and decoding\<close>

lemma short_length_octet:
  assumes "n < 128"
  shows "(of_nat n :: byte) AND 0x80 = 0" "unat (of_nat n :: byte) = n"
proof -
  have "\<not> bit (of_nat n :: byte) 7"
    using assms by (simp add: bit_of_nat_iff bit_iff_odd [of n])
  then show "(of_nat n :: byte) AND 0x80 = 0"
    using and_exp_eq_0_iff_not_bit [of "of_nat n :: byte" 7] by simp
  show "unat (of_nat n :: byte) = n" using assms by (simp add: unat_of_nat)
qed

definition dns_name :: "bytes \<Rightarrow> bytes" where
  "dns_name name = [0x82, of_nat (length name)] @ name"

definition san_extension :: "bytes list \<Rightarrow> bytes" where
  "san_extension names = (let body = concat (map dns_name names) in [0x30, of_nat (length body)] @ body)"

lemma san_scan_step:
  assumes "i + 2 \<le> length der" "der_length der i = Some (len, lenbytes)" "der ! i = 0x82"
  shows "san_scan der host i \<longleftrightarrow>
      i + 1 + lenbytes + len \<le> length der \<and> len > 0 \<and> hostname_matches (take len (drop (i + 1 + lenbytes) der)) host \<or>
      san_scan der host (i + 1 + lenbytes + len)"
  unfolding san_scan.simps [of der host i] using assms by (auto simp: Let_def)

lemma san_scan_names:
  "\<forall>n\<in>set names. 0 < length n \<and> length n < 128 \<Longrightarrow>
   san_scan (pre @ concat (map dns_name names)) host (length pre) \<longleftrightarrow> (\<exists>n\<in>set names. hostname_matches n host)"
proof (induction names arbitrary: pre)
  case Nil
  then show ?case by (simp add: san_scan.simps)
next
  case (Cons n names)
  let ?der = "pre @ concat (map dns_name (n # names))"
  have len: "der_length ?der (length pre) = Some (length n, 1)"
    using Cons.prems by (simp add: der_length_def dns_name_def nth_append short_length_octet)
  have "san_scan ?der host (length pre) = (hostname_matches n host \<or> san_scan ?der host (length (pre @ dns_name n)))"
    using san_scan_step [OF _ len, of host] Cons.prems by (simp add: dns_name_def nth_append)
  then show ?case
    using Cons.IH [of "pre @ dns_name n"] Cons.prems by simp
qed

text \<open>The scan of an extension of DNS names finds a match exactly when one of the names matches.\<close>

lemma san_der_matches_host_extension:
  assumes "\<forall>n\<in>set names. 0 < length n \<and> length n < 128" "length (concat (map dns_name names)) < 128"
  shows "san_der_matches_host (san_extension names) host \<longleftrightarrow> (\<exists>n\<in>set names. hostname_matches n host)"
proof -
  let ?pre = "[0x30, of_nat (length (concat (map dns_name names)))] :: bytes"
  have ext: "san_extension names = ?pre @ concat (map dns_name names)"
    by (simp add: san_extension_def Let_def)
  have "san_scan (san_extension names) host 0 = san_scan (san_extension names) host (length ?pre)"
    using short_length_octet [OF assms(2)]
    by (subst san_scan.simps) (simp add: ext der_length_def)
  then show ?thesis
    using san_scan_names [OF assms(1), of ?pre host] by (simp add: san_der_matches_host_def ext)
qed

text \<open>DER integers, as an encoder writes a non-negative number given by its magnitude.\<close>

definition der_len :: "nat \<Rightarrow> bytes" where
  "der_len n = (if n < 128 then [of_nat n] else if n < 256 then [0x81, of_nat n]
     else [0x82, of_nat (n div 256), of_nat n])"

definition der_magnitude :: "bytes \<Rightarrow> bytes" where
  "der_magnitude v = (if v ! 0 AND 0x80 = 0 then v else 0 # v)"

definition der_integer :: "bytes \<Rightarrow> bytes" where
  "der_integer v = 0x02 # der_len (length (der_magnitude v)) @ der_magnitude v"

lemma der_int_value_magnitude:
  assumes "v \<noteq> []" "v ! 0 \<noteq> 0"
  shows "der_int_value (length (der_magnitude v)) (der_magnitude v @ rest) = Some (v, rest)"
  using assms by (auto simp: der_int_value_def der_magnitude_def nth_append)

lemma tls12_der_int_der_integer:
  assumes "v \<noteq> []" "v ! 0 \<noteq> 0" "length v < 65535"
  shows "tls12_der_int (der_integer v @ rest) = Some (v, rest)"
proof -
  define m where "m = der_magnitude v"
  have m: "length m < 65536" using assms(3) by (simp add: m_def der_magnitude_def)
  have bits: "(0x81 :: byte) AND 0x80 \<noteq> 0" "(0x82 :: byte) AND 0x80 \<noteq> 0"
    "unat ((0x81 :: byte) AND 0x7F) = 1" "unat ((0x82 :: byte) AND 0x7F) = 2"
    by simp_all
  have two: "take 2 (a # b # xs) = [a, b]" "drop 2 (a # b # xs) = xs" for a b :: byte and xs by simp_all
  have long: "be_len [of_nat (length m div 256), of_nat (length m)] = length m"
    using m by (simp add: be_len_def unat_of_nat)
  have mid: "length m < 256 \<Longrightarrow> be_len [of_nat (length m)] = length m"
    by (simp add: be_len_def unat_of_nat)
  have "tls12_der_int (0x02 # der_len (length m) @ m @ rest) = der_int_value (length m) (m @ rest)"
    using bits long mid two short_length_octet [of "length m"]
    by (simp add: tls12_der_int_def der_len_def Let_def del: take_Cons_numeral drop_Cons_numeral)
  then show ?thesis
    using der_int_value_magnitude [OF assms(1,2), of rest] by (simp add: der_integer_def m_def)
qed

text \<open>The encoding of an RSA public key (PKCS 1): a sequence of the modulus and the exponent.\<close>

definition der_rsa_key :: "bytes \<Rightarrow> bytes \<Rightarrow> bytes" where
  "der_rsa_key n e = (let body = der_integer n @ der_integer e in 0x30 # der_len (length body) @ body)"

lemma skip_sequence_der_len: "skip_sequence (0x30 # der_len n @ body) = Some body"
proof -
  have bits: "(0x81 :: byte) AND 0x80 \<noteq> 0" "(0x82 :: byte) AND 0x80 \<noteq> 0"
    "unat ((0x81 :: byte) AND 0x7F) = Suc 0" "unat ((0x82 :: byte) AND 0x7F) = Suc (Suc 0)"
    by simp_all
  show ?thesis
    using bits short_length_octet [of n] by (simp add: skip_sequence_def der_len_def)
qed

lemma tls12ExtractRSAPubKey_der:
  assumes "platform_ok P" "libcryptoHandle P" "list_all (dlsym P) rsa_symbols"
    and "d2i_X509 P cert = Some x" "X509_get_pubkey P x = Some pkey" "EVP_PKEY_get1_RSA P pkey = Some rsa"
    and "i2d_RSAPublicKey P rsa = Some (der_rsa_key n e)"
    and "n \<noteq> []" "n ! 0 \<noteq> 0" "length n < 2048" "e \<noteq> []" "e ! 0 \<noteq> 0" "length e < 16"
  shows "tls12ExtractRSAPubKey P cert = Some (n, e)"
  using assms tls12_der_int_der_integer [of n "der_integer e"] tls12_der_int_der_integer [of e "[]"]
  by (simp add: tls12ExtractRSAPubKey_def der_rsa_key_def Let_def skip_sequence_der_len platform_malloc)

section \<open>When a chain is accepted\<close>

lemma parse_chain_Some:
  "parse_chain P cs = Some xs \<Longrightarrow> length xs = length cs \<and> (\<forall>i < length cs. d2i_X509 P (cs ! i) = Some (xs ! i))"
proof (induction cs arbitrary: xs)
  case (Cons c cs)
  then show ?case by (auto elim!: bind_SomeE simp: nth_Cons split: nat.split)
qed simp

lemma store_add_subset: "set store \<subseteq> set (store_add P store xs)" "set (store_add P store xs) \<subseteq> set store \<union> set xs"
  by (induction P store xs rule: store_add.induct) auto

text \<open>
  The exact condition: the library is usable, every certificate parses, the anchors load, and
  libcrypto verifies the first certificate of the list against the anchors together with the rest of the list.
\<close>

lemma sslVerifyCertChainOpenSSL_iff:
  "sslVerifyCertChainOpenSSL P ctx chain = noErr \<longleftrightarrow>
     libcryptoHandle P \<and> list_all (dlsym P) verify_symbols \<and> X509_STORE_ok P \<and> X509_STORE_CTX_ok P \<and>
     (\<exists>x xs store. parse_chain P chain = Some (x # xs) \<and> trust_store P xs = Some store \<and> X509_verify_cert P store x = 1)"
  by (auto simp: sslVerifyCertChainOpenSSL_def Let_def split: option.split list.split)

lemma sslVerifyCertChainOpenSSL_status:
  "sslVerifyCertChainOpenSSL P ctx chain \<in> {noErr, errSSLXCertChainInvalid}"
  by (auto simp: sslVerifyCertChainOpenSSL_def Let_def split: option.split list.split)

text \<open>Neither the host name nor anything else of the connection has an influence on the verdict.\<close>

lemma sslVerifyCertChainOpenSSL_ctx:
  "sslVerifyCertChainOpenSSL P ctx chain = sslVerifyCertChainOpenSSL P ctx' chain"
  by (simp add: sslVerifyCertChainOpenSSL_def Let_def split: option.split list.split)

end
