(* ===== verification/Cipher_Specs.thy ===== *)
theory Cipher_Specs
  imports Context
begin

text \<open>
  Model of \<open>cipherSpecs.c\<close> from the table \<open>KnownCipherSpecs\<close> on, with \<open>sslVerifySelectedCipher\<close>
  of \<open>appleCdsa.c\<close>: which suites a context offers or accepts, and how the negotiated one is
  looked up. The table is the one the preprocessor leaves: ECDHE on, static ECDH and all
  Diffie-Hellman suites off, \<open>SSL_PAC_SERVER_ENABLE\<close> off.
\<close>

section \<open>The table\<close>

abbreviation spec :: "uint32 \<Rightarrow> bool \<Rightarrow> KeyExchangeMethod \<Rightarrow> HMAC_Algs \<Rightarrow> SSLSymmetricCipher \<Rightarrow> SSLCipherSpec" where
  "spec suite exportable kx mac c \<equiv>
     \<lparr>cipherSpec = suite, isExportable = exportable, keyExchangeMethod = kx, macAlgorithm = mac, cipher = c\<rparr>"

definition SSL_NULL_WITH_NULL_NULL_CipherSpec :: SSLCipherSpec where
  "SSL_NULL_WITH_NULL_NULL_CipherSpec = spec 0x0000 True SSL_NULL_auth HA_Null SSLCipherNull"

definition KnownCipherSpecs :: "SSLCipherSpec list" where
  "KnownCipherSpecs = [
     spec 0xC030 False SSL_ECDHE_RSA HA_Null SSLCipherAES_256_GCM,
     spec 0xC02C False SSL_ECDHE_ECDSA HA_Null SSLCipherAES_256_GCM,
     spec 0x009D False SSL_RSA HA_Null SSLCipherAES_256_GCM,
     spec 0x009C False SSL_RSA HA_Null SSLCipherAES_128_GCM,
     spec 0xC02F False SSL_ECDHE_RSA HA_Null SSLCipherAES_128_GCM,
     spec 0xC02B False SSL_ECDHE_ECDSA HA_Null SSLCipherAES_128_GCM,
     spec 0x003C False SSL_RSA HA_SHA256 SSLCipherAES_128,
     spec 0x003D False SSL_RSA HA_SHA256 SSLCipherAES_256,
     spec 0xC027 False SSL_ECDHE_RSA HA_SHA256 SSLCipherAES_128,
     spec 0xC023 False SSL_ECDHE_ECDSA HA_SHA256 SSLCipherAES_128,
     spec 0xC00A False SSL_ECDHE_ECDSA HA_SHA1 SSLCipherAES_256,
     spec 0xC009 False SSL_ECDHE_ECDSA HA_SHA1 SSLCipherAES_128,
     spec 0xC007 False SSL_ECDHE_ECDSA HA_SHA1 SSLCipherRC4_128,
     spec 0xC008 False SSL_ECDHE_ECDSA HA_SHA1 SSLCipher3DES_CBC,
     spec 0xC013 False SSL_ECDHE_RSA HA_SHA1 SSLCipherAES_128,
     spec 0xC014 False SSL_ECDHE_RSA HA_SHA1 SSLCipherAES_256,
     spec 0xC011 False SSL_ECDHE_RSA HA_SHA1 SSLCipherRC4_128,
     spec 0xC012 False SSL_ECDHE_RSA HA_SHA1 SSLCipher3DES_CBC,
     spec 0x002F False SSL_RSA HA_SHA1 SSLCipherAES_128,
     spec 0x0005 False SSL_RSA HA_SHA1 SSLCipherRC4_128,
     spec 0x0004 False SSL_RSA HA_MD5 SSLCipherRC4_128,
     spec 0x0035 False SSL_RSA HA_SHA1 SSLCipherAES_256,
     spec 0x000A False SSL_RSA HA_SHA1 SSLCipher3DES_CBC,
     spec 0xFF83 False SSL_RSA HA_MD5 SSLCipher3DES_CBC,
     spec 0x0009 False SSL_RSA HA_SHA1 SSLCipherDES_CBC,
     spec 0xFF82 False SSL_RSA HA_MD5 SSLCipherDES_CBC,
     spec 0x0003 True SSL_RSA_EXPORT HA_MD5 SSLCipherRC4_40,
     spec 0x0008 True SSL_RSA_EXPORT HA_SHA1 SSLCipherDES40_CBC,
     spec 0x0006 True SSL_RSA_EXPORT HA_MD5 SSLCipherRC2_40,
     spec 0xFF80 False SSL_RSA HA_MD5 SSLCipherRC2_128,
     spec 0x0001 True SSL_RSA HA_MD5 SSLCipherNull]"

definition CIPHER_SUITE_IS_SSLv2 :: "uint32 \<Rightarrow> bool" where
  "CIPHER_SUITE_IS_SSLv2 suite \<longleftrightarrow> suite AND 0xff00 = 0xff00"

definition isEC :: "KeyExchangeMethod \<Rightarrow> bool" where
  "isEC k \<longleftrightarrow> k \<in> {SSL_ECDH_ECDSA, SSL_ECDHE_ECDSA, SSL_ECDH_RSA, SSL_ECDHE_RSA, SSL_ECDH_anon}"

section \<open>The operations\<close>

definition sslAnalyzeCipherSpecs :: "SSLContext \<Rightarrow> SSLContext" where
  "sslAnalyzeCipherSpecs ctx =
     (let specs = (case validCipherSpecs ctx of None \<Rightarrow> [] | Some s \<Rightarrow> s) in
      ctx\<lparr>numValidNonSSLv2Specs := length (filter (\<lambda>s. \<not> CIPHER_SUITE_IS_SSLv2 (cipherSpec s)) specs),
          ecdsaEnable := ecdsaEnable ctx \<or> (\<exists>s\<in>set specs. isEC (keyExchangeMethod s))\<rparr>)"

text \<open>
  The server needs a signing key of the right algorithm. A key exchange the switch does not
  list runs into \<open>assert(0)\<close>.
\<close>

definition sslVerifySelectedCipher :: "SSLContext \<Rightarrow> SSLCipherSpec \<Rightarrow> OSStatus option" where
  "sslVerifySelectedCipher ctx s =
     (if protocolSide ctx = SSL_ClientSide then Some noErr
      else
        (let kx = keyExchangeMethod s;
             needs = (\<lambda>alg. case signingPrivKeyRef ctx of
                        None \<Rightarrow> Some errSSLBadConfiguration
                      | Some (Inl ortn) \<Rightarrow> Some ortn
                      | Some (Inr key) \<Rightarrow> Some (if AlgorithmId key \<noteq> alg then errSSLBadConfiguration else noErr))
         in
         if kx \<in> {SSL_RSA, SSL_RSA_EXPORT, SSL_DH_RSA, SSL_DH_RSA_EXPORT, SSL_DHE_RSA, SSL_DHE_RSA_EXPORT}
         then needs CSSM_ALGID_RSA
         else if kx \<in> {SSL_DHE_DSS, SSL_DHE_DSS_EXPORT, SSL_DH_DSS, SSL_DH_DSS_EXPORT}
         then needs CSSM_ALGID_DSA
         else if kx \<in> {SSL_DH_anon, SSL_DH_anon_EXPORT} then Some noErr
         else None))"

text \<open>Whether the build loop keeps an entry of the table; \<open>None\<close> when the check asserts.\<close>

definition keepCipherSpec :: "SSLContext \<Rightarrow> SSLCipherSpec \<Rightarrow> bool option" where
  "keepCipherSpec ctx s =
     (let trimECDSA = (protocolSide ctx = SSL_ServerSide \<or> versionSsl2Enable ctx \<or> \<not> versionTls1Enable ctx);
          kx = keyExchangeMethod s
      in
      if isEC kx \<and> trimECDSA then Some False
      else if \<not> anonCipherEnable ctx \<and> (cipher s = SSLCipherNull \<or> kx \<in> {SSL_DH_anon, SSL_DH_anon_EXPORT, SSL_ECDH_anon})
      then Some False
      else if \<not> weakCipherEnable ctx \<and>
              cipher s \<in> {SSLCipherRC2_40, SSLCipherRC4_40, SSLCipherDES40_CBC, SSLCipherDES_CBC}
      then Some False
      else if protocolSide ctx = SSL_ServerSide \<and> signingPrivKeyRef ctx \<noteq> None
      then map_option (\<lambda>err. err = noErr) (sslVerifySelectedCipher ctx s)
      else Some True)"

fun buildCipherSpecs_loop :: "SSLContext \<Rightarrow> SSLCipherSpec list \<Rightarrow> SSLCipherSpec list option" where
  "buildCipherSpecs_loop ctx [] = Some []"
| "buildCipherSpecs_loop ctx (s # rest) =
     do { keep \<leftarrow> keepCipherSpec ctx s;
          specs \<leftarrow> buildCipherSpecs_loop ctx rest;
          Some (if keep then s # specs else specs) }"

definition sslBuildCipherSpecArray :: "platform \<Rightarrow> SSLContext \<Rightarrow> (OSStatus \<times> SSLContext) option" where
  "sslBuildCipherSpecArray P ctx =
     (if validCipherSpecs ctx \<noteq> None then None
      else if \<not> mallocOk P (length KnownCipherSpecs * 32) then Some (memFullErr, ctx)
      else do { specs \<leftarrow> buildCipherSpecs_loop ctx KnownCipherSpecs;
                Some (noErr, sslAnalyzeCipherSpecs (ctx\<lparr>validCipherSpecs := Some specs\<rparr>)) })"

text \<open>The caller's array has room for \<open>numCiphers\<close> suites; the result is what is written there.\<close>

definition cipherSpecsToCipherSuites :: "SSLCipherSpec list \<Rightarrow> nat \<Rightarrow> OSStatus \<times> uint32 list" where
  "cipherSpecsToCipherSuites specs numCiphers =
     (if numCiphers < length specs then (errSSLBufferOverflow, [])
      else (noErr, map cipherSpec specs))"

definition SSLGetNumberSupportedCiphers :: "OSStatus \<times> nat" where
  "SSLGetNumberSupportedCiphers = (noErr, length KnownCipherSpecs)"

definition SSLGetSupportedCiphers :: "nat \<Rightarrow> OSStatus \<times> uint32 list" where
  "SSLGetSupportedCiphers numCiphers = cipherSpecsToCipherSuites KnownCipherSpecs numCiphers"

fun findSpecs :: "uint32 list \<Rightarrow> SSLCipherSpec list option" where
  "findSpecs [] = Some []"
| "findSpecs (suite # rest) =
     (case find (\<lambda>s. cipherSpec s = suite) KnownCipherSpecs of
        None \<Rightarrow> None
      | Some s \<Rightarrow> map_option (\<lambda>ss. s # ss) (findSpecs rest))"

definition SSLSetEnabledCiphers :: "platform \<Rightarrow> SSLContext \<Rightarrow> uint32 list \<Rightarrow> OSStatus \<times> SSLContext" where
  "SSLSetEnabledCiphers P ctx ciphers =
     (if ciphers = [] then (paramErr, ctx)
      else if sslIsSessionActive ctx then (badReqErr, ctx)
      else if \<not> mallocOk P (length ciphers * 32) then (memFullErr, ctx\<lparr>validCipherSpecs := None\<rparr>)
      else case findSpecs ciphers of
             None \<Rightarrow> (errSSLBadCipherSuite, ctx\<lparr>validCipherSpecs := None\<rparr>)
           | Some specs \<Rightarrow> (noErr, sslAnalyzeCipherSpecs (ctx\<lparr>validCipherSpecs := Some specs\<rparr>)))"

text \<open>
  Without an explicit list the array is built for the answer and discarded; the flags that
  \<open>sslAnalyzeCipherSpecs\<close> set stay.
\<close>

definition SSLGetNumberEnabledCiphers :: "platform \<Rightarrow> SSLContext \<Rightarrow> (OSStatus \<times> nat \<times> SSLContext) option" where
  "SSLGetNumberEnabledCiphers P ctx =
     (case validCipherSpecs ctx of
        Some specs \<Rightarrow> Some (noErr, length specs, ctx)
      | None \<Rightarrow> do { (s, ctx') \<leftarrow> sslBuildCipherSpecArray P ctx;
                    Some (noErr, if s = noErr then length (the (validCipherSpecs ctx')) else length KnownCipherSpecs,
                          ctx'\<lparr>validCipherSpecs := None\<rparr>) })"

definition SSLGetEnabledCiphers ::
  "platform \<Rightarrow> SSLContext \<Rightarrow> nat \<Rightarrow> (OSStatus \<times> uint32 list \<times> SSLContext) option" where
  "SSLGetEnabledCiphers P ctx numCiphers =
     (case validCipherSpecs ctx of
        Some specs \<Rightarrow> (let (err, out) = cipherSpecsToCipherSuites specs numCiphers in Some (err, out, ctx))
      | None \<Rightarrow> do { (s, ctx') \<leftarrow> sslBuildCipherSpecArray P ctx;
                    let (err, out) = cipherSpecsToCipherSuites
                      (if s = noErr then the (validCipherSpecs ctx') else KnownCipherSpecs) numCiphers;
                    Some (err, out, ctx'\<lparr>validCipherSpecs := None\<rparr>) })"

definition FindCipherSpec :: "SSLContext \<Rightarrow> (OSStatus \<times> SSLContext) option" where
  "FindCipherSpec ctx =
     do { specs \<leftarrow> validCipherSpecs ctx;
          case find (\<lambda>s. cipherSpec s = ucast (selectedCipher ctx)) specs of
            None \<Rightarrow> Some (errSSLNegotiation, ctx\<lparr>selectedCipherSpec := None\<rparr>)
          | Some s \<Rightarrow> do { err \<leftarrow> sslVerifySelectedCipher ctx s;
                          Some (err, ctx\<lparr>selectedCipherSpec := Some s\<rparr>) } }"

section \<open>Properties\<close>

text \<open>Every table entry is consistent: AEAD suites carry no MAC, all others do, and no suite is listed twice.\<close>

lemma KnownCipherSpecs_distinct: "distinct (map cipherSpec KnownCipherSpecs)"
  by (simp add: KnownCipherSpecs_def)

lemma KnownCipherSpecs_mac: "\<forall>s\<in>set KnownCipherSpecs. macAlgorithm s = HA_Null \<longleftrightarrow> isGcm (cipher s)"
  by (simp add: KnownCipherSpecs_def isGcm_def)

lemma KnownCipherSpecs_sha384:
  "\<forall>s\<in>set KnownCipherSpecs. tls12SuiteUsesSHA384 (ucast (cipherSpec s)) \<longleftrightarrow> cipher s = SSLCipherAES_256_GCM"
  by (simp add: KnownCipherSpecs_def tls12SuiteUsesSHA384_def)

text \<open>On the server no elliptic-curve suite survives, so the assertion is never reached.\<close>

lemma KnownCipherSpecs_kx: "\<forall>s\<in>set KnownCipherSpecs. \<not> isEC (keyExchangeMethod s) \<longrightarrow>
  keyExchangeMethod s = SSL_RSA \<or> keyExchangeMethod s = SSL_RSA_EXPORT"
  by (simp add: KnownCipherSpecs_def isEC_def)

lemma sslVerifySelectedCipher_RSA:
  assumes "keyExchangeMethod s = SSL_RSA \<or> keyExchangeMethod s = SSL_RSA_EXPORT"
  shows "sslVerifySelectedCipher ctx s \<noteq> None"
  using assms by (auto simp: sslVerifySelectedCipher_def Let_def split: option.splits sum.splits)

lemma keepCipherSpec_defined:
  assumes "s \<in> set KnownCipherSpecs"
  shows "keepCipherSpec ctx s \<noteq> None"
proof (cases "isEC (keyExchangeMethod s)")
  case True
  then show ?thesis by (cases "protocolSide ctx") (simp_all add: keepCipherSpec_def Let_def del: not_None_eq)
next
  case False
  then have "sslVerifySelectedCipher ctx s \<noteq> None"
    using KnownCipherSpecs_kx assms sslVerifySelectedCipher_RSA by blast
  with False show ?thesis by (simp add: keepCipherSpec_def Let_def del: not_None_eq)
qed

lemma buildCipherSpecs_loop_filter:
  "\<forall>s\<in>set specs. keepCipherSpec ctx s \<noteq> None \<Longrightarrow>
   buildCipherSpecs_loop ctx specs = Some (filter (\<lambda>s. keepCipherSpec ctx s = Some True) specs)"
  by (induction specs) auto

text \<open>The array is the table without the trimmed entries, in the table's order of preference.\<close>

lemma sslBuildCipherSpecArray_ok:
  assumes "platform_ok P" "validCipherSpecs ctx = None"
  shows "\<exists>ctx'. sslBuildCipherSpecArray P ctx = Some (noErr, ctx') \<and>
    validCipherSpecs ctx' = Some (filter (\<lambda>s. keepCipherSpec ctx s = Some True) KnownCipherSpecs)"
  using assms buildCipherSpecs_loop_filter [of KnownCipherSpecs ctx] keepCipherSpec_defined
  by (auto simp: sslBuildCipherSpecArray_def platform_malloc sslAnalyzeCipherSpecs_def Let_def)

lemma FindCipherSpec_ok:
  assumes "FindCipherSpec ctx = Some (noErr, ctx')"
  shows "\<exists>s specs. validCipherSpecs ctx = Some specs \<and> s \<in> set specs \<and>
    cipherSpec s = ucast (selectedCipher ctx) \<and> ctx' = ctx\<lparr>selectedCipherSpec := Some s\<rparr>"
proof -
  obtain specs where specs: "validCipherSpecs ctx = Some specs"
    using assms by (auto simp: FindCipherSpec_def bind_eq_Some_conv)
  obtain s where s: "find (\<lambda>s. cipherSpec s = ucast (selectedCipher ctx)) specs = Some s"
    using assms specs by (auto simp: FindCipherSpec_def split: option.splits)
  with assms specs have "ctx' = ctx\<lparr>selectedCipherSpec := Some s\<rparr>"
    by (auto simp: FindCipherSpec_def bind_eq_Some_conv)
  with specs find_SomeD [OF s] show ?thesis by blast
qed

lemma findSpecs_sound:
  "findSpecs suites = Some specs \<Longrightarrow> map cipherSpec specs = suites \<and> set specs \<subseteq> set KnownCipherSpecs"
  by (induction suites arbitrary: specs) (auto simp: find_Some_iff split: option.splits)

end
