(* ===== verification/Cdsa.thy ===== *)
theory Cdsa
  imports Chain_Verify Cipher_Specs
begin

text \<open>
  Model of the public-key side of \<open>appleCdsa.c\<close> (raw signatures, RSA encryption, key conversion,
  certificate chains, Diffie-Hellman) and of \<open>sslBER.c\<close>. The cryptographic service provider, the
  certificate library, the trust evaluation and the ASN.1 coder are fields of the platform.

  A result that the C code returns through a pointer is a component of the value; it is \<open>[]\<close> or
  \<open>None\<close> when the routine returns before writing it. \<open>None\<close> as the value of a whole operation is
  a failed assertion.
\<close>

section \<open>Module handles and keys\<close>

definition attachToCsp :: "SSLContext \<Rightarrow> OSStatus" where
  "attachToCsp ctx = (if ctxCspHand ctx \<noteq> 0 then noErr else errSSLModuleAttach)"

definition attachToCl :: "SSLContext \<Rightarrow> OSStatus" where
  "attachToCl ctx = (if clHand ctx \<noteq> 0 then noErr else errSSLModuleAttach)"

definition sslAddBlindingAttr :: "platform \<Rightarrow> CSSM_KEY \<Rightarrow> OSStatus" where
  "sslAddBlindingAttr P key = CSSM_UpdateContextAttributes P key"

definition sslGetKeyParts :: "platform \<Rightarrow> SecKeyRef \<Rightarrow> OSStatus + CSSM_KEY \<times> nat" where
  "sslGetKeyParts P keyRef =
     (case keyRef of Inl ortn \<Rightarrow> Inl ortn
      | Inr key \<Rightarrow> (case SecKeyGetCSPHandle P key of Inl ortn \<Rightarrow> Inl ortn | Inr csp \<Rightarrow> Inr (key, csp)))"

definition sslKeyToSigAlg :: "CSSM_KEY \<Rightarrow> OSStatus" where
  "sslKeyToSigAlg key =
     (if AlgorithmId key \<in> {CSSM_ALGID_RSA, CSSM_ALGID_DSA, CSSM_ALGID_ECDSA} then noErr else errSSLBadConfiguration)"

definition sslKeyLengthInBytes :: "CSSM_KEY \<Rightarrow> nat" where
  "sslKeyLengthInBytes key = (LogicalKeySizeInBits key + 7) div 8"

definition sslGetMaxSigSize :: "CSSM_KEY \<Rightarrow> (OSStatus \<times> nat) option" where
  "sslGetMaxSigSize key =
     (if KeyClass key \<noteq> CSSM_KEYCLASS_PRIVATE_KEY then None
      else Some (case AlgorithmId key of
          CSSM_ALGID_RSA \<Rightarrow> (noErr, sslKeyLengthInBytes key)
        | CSSM_ALGID_DSA \<Rightarrow> (noErr, 2 * (160 div 8 + 1 + 2) + 5)
        | _ \<Rightarrow> (errSSLBadConfiguration, 0)))"

section \<open>Signatures and RSA\<close>

text \<open>\<open>sigLen\<close> is the room the caller has for the signature.\<close>

definition sslRawSign ::
  "platform \<Rightarrow> SSLContext \<Rightarrow> SecKeyRef option \<Rightarrow> bytes \<Rightarrow> nat \<Rightarrow> (OSStatus \<times> bytes) option" where
  "sslRawSign P ctx privKeyRef plainText sigLen =
     (case privKeyRef of
        None \<Rightarrow> Some (errSSLInternal, [])
      | Some keyRef \<Rightarrow>
          (case sslGetKeyParts P keyRef of
             Inl serr \<Rightarrow> Some (serr, [])
           | Inr (privKey, csp) \<Rightarrow>
               if KeyClass privKey \<noteq> CSSM_KEYCLASS_PRIVATE_KEY then None
               else if sslKeyToSigAlg privKey \<noteq> noErr then Some (sslKeyToSigAlg privKey, [])
               else if SecKeyGetCredentials P privKey \<noteq> noErr then Some (SecKeyGetCredentials P privKey, [])
               else if \<not> CSSM_CSP_CreateSignatureContext P csp (AlgorithmId privKey) privKey then Some (errSSLCrypto, [])
               else if rsaBlindingEnable ctx \<and> AlgorithmId privKey = CSSM_ALGID_RSA \<and> sslAddBlindingAttr P privKey \<noteq> noErr
               then Some (sslAddBlindingAttr P privKey, [])
               else (case CSSM_SignData P privKey plainText sigLen of
                       None \<Rightarrow> Some (errSSLCrypto, [])
                     | Some sig \<Rightarrow> Some (noErr, sig))))"

definition sslRawVerify :: "platform \<Rightarrow> CSSM_KEY option \<Rightarrow> nat \<Rightarrow> bytes \<Rightarrow> bytes \<Rightarrow> OSStatus" where
  "sslRawVerify P pubKey csp plainText sig =
     (case pubKey of
        None \<Rightarrow> errSSLInternal
      | Some key \<Rightarrow>
          if csp = 0 then errSSLInternal
          else if sslKeyToSigAlg key \<noteq> noErr then sslKeyToSigAlg key
          else if \<not> CSSM_CSP_CreateSignatureContext P csp (AlgorithmId key) key then errSSLCrypto
          else if \<not> CSSM_VerifyData P key plainText sig then errSSLCrypto
          else noErr)"

text \<open>The ciphertext comes in two parts from the CSP; what counts is the number of octets moved.\<close>

definition sslRsaEncrypt ::
  "platform \<Rightarrow> CSSM_KEY option \<Rightarrow> nat \<Rightarrow> CSSM_PADDING \<Rightarrow> bytes \<Rightarrow> nat \<Rightarrow> (OSStatus \<times> bytes) option" where
  "sslRsaEncrypt P pubKey csp padding plainText cipherTextLen =
     (case pubKey of
        None \<Rightarrow> Some (errSSLInternal, [])
      | Some key \<Rightarrow>
          if csp = 0 then Some (errSSLInternal, [])
          else if KeyClass key \<noteq> CSSM_KEYCLASS_PUBLIC_KEY then None
          else if \<not> CSSM_CSP_CreateAsymmetricContext P csp key padding then Some (errSSLCrypto, [])
          else (case CSSM_EncryptData P key padding plainText of
                  None \<Rightarrow> Some (errSSLCrypto, [])
                | Some ctext \<Rightarrow> Some (if length ctext > cipherTextLen then (errSSLCrypto, []) else (noErr, ctext))))"

definition sslRsaDecrypt ::
  "platform \<Rightarrow> SSLContext \<Rightarrow> SecKeyRef option \<Rightarrow> CSSM_PADDING \<Rightarrow> bytes \<Rightarrow> nat \<Rightarrow> (OSStatus \<times> bytes) option" where
  "sslRsaDecrypt P ctx privKeyRef padding cipherText plainTextLen =
     (case privKeyRef of
        None \<Rightarrow> Some (errSSLInternal, [])
      | Some keyRef \<Rightarrow>
          (case sslGetKeyParts P keyRef of
             Inl serr \<Rightarrow> Some (serr, [])
           | Inr (privKey, csp) \<Rightarrow>
               if KeyClass privKey \<noteq> CSSM_KEYCLASS_PRIVATE_KEY then None
               else if SecKeyGetCredentials P privKey \<noteq> noErr then Some (SecKeyGetCredentials P privKey, [])
               else if \<not> CSSM_CSP_CreateAsymmetricContext P csp privKey padding then Some (errSSLCrypto, [])
               else if rsaBlindingEnable ctx \<and> AlgorithmId privKey = CSSM_ALGID_RSA \<and> sslAddBlindingAttr P privKey \<noteq> noErr
               then Some (sslAddBlindingAttr P privKey, [])
               else (case CSSM_DecryptData P privKey padding cipherText of
                       None \<Rightarrow> Some (errSSLCrypto, [])
                     | Some ptext \<Rightarrow> Some (if length ptext > plainTextLen then (errSSLCrypto, []) else (noErr, ptext)))))"

section \<open>Encoded keys and parameters\<close>

text \<open>Both components are copied one after the other; the first may remain when the second fails.\<close>

definition copy_pair :: "platform \<Rightarrow> bytes \<times> bytes \<Rightarrow> OSStatus \<times> bytes option \<times> bytes option" where
  "copy_pair P ab =
     (case SSLCopyBuffer P (fst ab) of (err, a) \<Rightarrow>
        if err \<noteq> noErr then (err, a, None) else (case SSLCopyBuffer P (snd ab) of (err, b) \<Rightarrow> (err, a, b)))"

definition sslDecodeRsaBlob :: "platform \<Rightarrow> bytes \<Rightarrow> OSStatus \<times> bytes option \<times> bytes option" where
  "sslDecodeRsaBlob P blob =
     (case SEC_ASN1Decode_RSA P blob of None \<Rightarrow> (errSSLBadCert, None, None) | Some key \<Rightarrow> copy_pair P key)"

definition sslEncodeRsaBlob :: "platform \<Rightarrow> bytes \<Rightarrow> bytes \<Rightarrow> OSStatus \<times> bytes option" where
  "sslEncodeRsaBlob P modulus exponent =
     (case SEC_ASN1Encode_RSA P modulus exponent of None \<Rightarrow> (memFullErr, None) | Some blob \<Rightarrow> SSLCopyBuffer P blob)"

definition sslDecodeDhParams :: "platform \<Rightarrow> bytes \<Rightarrow> OSStatus \<times> bytes option \<times> bytes option" where
  "sslDecodeDhParams P blob =
     (case SEC_ASN1Decode_DHParameter P blob of
        Some params \<Rightarrow> copy_pair P params
      | None \<Rightarrow> (case SEC_ASN1Decode_DHParameterBlock P blob of
                   None \<Rightarrow> (errSSLCrypto, None, None)
                 | Some params \<Rightarrow> copy_pair P params))"

definition sslEncodeDhParams :: "platform \<Rightarrow> bytes \<Rightarrow> bytes \<Rightarrow> OSStatus \<times> bytes option" where
  "sslEncodeDhParams P prime generator =
     (case SEC_ASN1Encode_DHParameter P prime generator of None \<Rightarrow> (memFullErr, None) | Some blob \<Rightarrow> SSLCopyBuffer P blob)"

text \<open>The object identifiers that \<open>sslEcdsaPeerCurve\<close> compares with, as encoded.\<close>

definition CSSMOID_ecPublicKey :: bytes where "CSSMOID_ecPublicKey = [0x2A, 0x86, 0x48, 0xCE, 0x3D, 0x02, 0x01]"
definition CSSMOID_secp256r1 :: bytes where "CSSMOID_secp256r1 = [0x2A, 0x86, 0x48, 0xCE, 0x3D, 0x03, 0x01, 0x07]"
definition CSSMOID_secp384r1 :: bytes where "CSSMOID_secp384r1 = [0x2B, 0x81, 0x04, 0x00, 0x22]"
definition CSSMOID_secp521r1 :: bytes where "CSSMOID_secp521r1 = [0x2B, 0x81, 0x04, 0x00, 0x23]"

definition curve_of_oid :: "bytes \<Rightarrow> int option" where
  "curve_of_oid oid =
     (if oid = CSSMOID_secp256r1 then Some SSL_Curve_secp256r1
      else if oid = CSSMOID_secp384r1 then Some SSL_Curve_secp384r1
      else if oid = CSSMOID_secp521r1 then Some SSL_Curve_secp521r1 else None)"

definition x509_ec_key :: "CSSM_KEY \<Rightarrow> bool" where
  "x509_ec_key key \<longleftrightarrow> AlgorithmId key = CSSM_ALGID_ECDSA \<and> BlobType key = CSSM_KEYBLOB_RAW \<and>
     Format key = CSSM_KEYBLOB_RAW_FORMAT_X509"

text \<open>The curve of a static key; the second component is \<open>None\<close> when the curve is not written.\<close>

definition sslEcdsaPeerCurve :: "platform \<Rightarrow> CSSM_KEY \<Rightarrow> (OSStatus \<times> int option) option" where
  "sslEcdsaPeerCurve P key =
     (if \<not> x509_ec_key key then Some (errSSLProtocol, None)
      else case SecAsn1Decode_SPKI P (KeyData key) of
        Inl ortn \<Rightarrow> Some (ortn, None)
      | Inr (algorithm, parameters, bits) \<Rightarrow>
          if algorithm \<noteq> CSSMOID_ecPublicKey then Some (errSSLProtocol, None)
          else (case parameters of
                  [] \<Rightarrow> None
                | tag # rest \<Rightarrow>
                    if tag \<noteq> 6 \<or> rest = [] then Some (errSSLProtocol, None)
                    else (case curve_of_oid (tl rest) of
                            None \<Rightarrow> Some (errSSLProtocol, None)
                          | Some curve \<Rightarrow> Some (noErr, Some curve))))"

definition sslEcdsaPubKeyBits :: "platform \<Rightarrow> CSSM_KEY \<Rightarrow> OSStatus \<times> bytes option" where
  "sslEcdsaPubKeyBits P key =
     (if \<not> x509_ec_key key then (errSSLProtocol, None)
      else case SecAsn1Decode_SPKI P (KeyData key) of
        Inl ortn \<Rightarrow> (ortn, None)
      | Inr (algorithm, parameters, bits) \<Rightarrow> SSLCopyBuffer P bits)"

section \<open>Public keys\<close>

definition sslGetPubKeyBits :: "platform \<Rightarrow> CSSM_KEY \<Rightarrow> (OSStatus \<times> bytes option \<times> bytes option) option" where
  "sslGetPubKeyBits P key =
     (if KeyClass key \<noteq> CSSM_KEYCLASS_PUBLIC_KEY \<or> AlgorithmId key \<noteq> CSSM_ALGID_RSA then Some (errSSLInternal, None, None)
      else if BlobType key \<noteq> CSSM_KEYBLOB_RAW then None
      else Some (sslDecodeRsaBlob P (KeyData key)))"

text \<open>
  200 stands for \<open>sizeof(CSSM_KEY)\<close> or more; only whether the allocator can serve the request
  matters.
\<close>

definition pkcs1_key :: "bytes \<Rightarrow> nat \<Rightarrow> CSSM_KEY" where
  "pkcs1_key blob bits =
     \<lparr>AlgorithmId = CSSM_ALGID_RSA, KeyClass = CSSM_KEYCLASS_PUBLIC_KEY, BlobType = CSSM_KEYBLOB_RAW,
      Format = CSSM_KEYBLOB_RAW_FORMAT_PKCS1, LogicalKeySizeInBits = bits, KeyData = blob\<rparr>"

definition sslGetPubKeyFromBits :: "platform \<Rightarrow> SSLContext \<Rightarrow> bytes \<Rightarrow> bytes \<Rightarrow> OSStatus \<times> CSSM_KEY option \<times> nat" where
  "sslGetPubKeyFromBits P ctx modulus exponent =
     (if attachToCsp ctx \<noteq> noErr then (attachToCsp ctx, None, 0)
      else case sslEncodeRsaBlob P modulus exponent of
        (serr, None) \<Rightarrow> (serr, None, 0)
      | (serr, Some blob) \<Rightarrow>
          if serr \<noteq> noErr then (serr, None, 0)
          else if \<not> mallocOk P 200 then (memFullErr, None, 0)
          else (case CSSM_QueryKeySizeInBits P (pkcs1_key blob 0) of
                  None \<Rightarrow> (errSSLCrypto, None, 0)
                | Some bits \<Rightarrow> (noErr, Some (pkcs1_key blob bits), ctxCspHand ctx)))"

definition sslPubKeyFromCert :: "platform \<Rightarrow> SSLContext \<Rightarrow> bytes \<Rightarrow> OSStatus \<times> CSSM_KEY option \<times> nat" where
  "sslPubKeyFromCert P ctx derCert =
     (if attachToCl ctx \<noteq> noErr then (attachToCl ctx, None, 0)
      else if attachToCsp ctx \<noteq> noErr then (attachToCsp ctx, None, 0)
      else case CSSM_CL_CertGetKeyInfo P derCert of
        None \<Rightarrow> (errSSLBadCert, None, 0)
      | Some key \<Rightarrow> (noErr, Some key, ctxCspHand ctx))"

section \<open>Certificate chains\<close>

text \<open>
  The certificates are parsed in list order and collected in reverse, so that the leaf, last in
  the list, comes first in the group.
\<close>

fun cert_group :: "platform \<Rightarrow> bytes list \<Rightarrow> bytes list \<Rightarrow> OSStatus + bytes list" where
  "cert_group P [] certs = Inr certs"
| "cert_group P (c # cs) certs =
     (if SecCertificateCreateFromData P c \<noteq> noErr then Inl (SecCertificateCreateFromData P c)
      else cert_group P cs (c # certs))"

definition sslGetMatchingCertInArray :: "platform \<Rightarrow> bytes \<Rightarrow> bytes list \<Rightarrow> bool" where
  "sslGetMatchingCertInArray P cert certArray \<longleftrightarrow>
     SecTrustCall P ''SecCertificateGetData'' = noErr \<and> cert \<in> set certArray"

definition make_request :: "SSLContext \<Rightarrow> bytes list \<Rightarrow> bool \<Rightarrow> trust_request" where
  "make_request ctx certs arePeerCerts =
     \<lparr>certGroup = certs, serverName = (if arePeerCerts then peerDomainName ctx else None),
      forClientCert = (protocolSide ctx = SSL_ServerSide), anchors = trustedCerts ctx,
      allowExpired = allowExpiredCerts ctx, allowExpiredRoot = allowExpiredRoots ctx\<rparr>"

text \<open>The calls that build the policy and the trust object, in order; the first error ends the routine.\<close>

fun first_error :: "(string \<Rightarrow> OSStatus) \<Rightarrow> string list \<Rightarrow> OSStatus" where
  "first_error f [] = noErr"
| "first_error f (x # xs) = (if f x \<noteq> noErr then f x else first_error f xs)"

definition trust_calls :: "SSLContext \<Rightarrow> string list" where
  "trust_calls ctx = [''SecPolicySearchCreate'', ''SecPolicySearchCopyNext'', ''SecPolicySetValue'',
     ''SecTrustCreateWithCertificates''] @ (if trustedCerts ctx \<noteq> None then [''SecTrustSetAnchorCertificates''] else []) @
     [''SecTrustSetParameters'']"

text \<open>The verdict of the trust evaluation.\<close>

definition trust_verdict :: "platform \<Rightarrow> SSLContext \<Rightarrow> bytes list \<Rightarrow> CSSM_RETURN \<Rightarrow> OSStatus option" where
  "trust_verdict P ctx certChain crtn =
     (case crtn of
        CSSM_OK \<Rightarrow> Some noErr
      | CSSMERR_TP_INVALID_ANCHOR_CERT \<Rightarrow> Some (if allowAnyRoot ctx then noErr else errSSLUnknownRootCert)
      | CSSMERR_TP_NOT_TRUSTED \<Rightarrow> Some (if allowAnyRoot ctx then noErr else errSSLNoRootCert)
      | CSSMERR_TP_CERT_EXPIRED \<Rightarrow> if allowExpiredCerts ctx then None else Some errSSLCertExpired
      | CSSMERR_TP_CERT_NOT_VALID_YET \<Rightarrow> Some errSSLCertNotYetValid
      | CSSMERR_APPLETP_HOSTNAME_MISMATCH \<Rightarrow> Some errSSLHostNameMismatch
      | errSecInvalidTrustSettings \<Rightarrow> Some (otherStatus (- 25262))
      | CSSMERR_TP_INVALID_CERTIFICATE \<Rightarrow> Some (sslVerifyCertChainOpenSSL P ctx certChain)
      | CSSMERR_other n \<Rightarrow> Some errSSLXCertChainInvalid)"

definition evaluate_trust :: "platform \<Rightarrow> SSLContext \<Rightarrow> bytes list \<Rightarrow> trust_request \<Rightarrow> OSStatus option" where
  "evaluate_trust P ctx certChain req =
     (case SecTrustEvaluate P req of
        Inl serr \<Rightarrow> Some serr
      | Inr result \<Rightarrow>
          if result \<in> {kSecTrustResultUnspecified, kSecTrustResultProceed} then Some noErr
          else if result \<in> {kSecTrustResultDeny, kSecTrustResultConfirm}
          then trust_verdict P ctx certChain CSSMERR_TP_NOT_TRUSTED
          else (case SecTrustGetCssmResultCode P req of
                  Inl serr \<Rightarrow> Some serr
                | Inr crtn \<Rightarrow> trust_verdict P ctx certChain crtn))"

text \<open>
  The error value of \<open>Inl\<close> is never \<open>noErr\<close> in the C code, where \<open>noErr\<close> is how success is told.
  \<open>peerSecTrust\<close> is the trust object, which is determined by the request it was made from.
\<close>

definition sslVerifyCertChain :: "platform \<Rightarrow> bytes list \<Rightarrow> bool \<Rightarrow> SSLContext \<Rightarrow> (OSStatus \<times> SSLContext) option" where
  "sslVerifyCertChain P certChain arePeerCerts ctx =
     (let ctx = (if arePeerCerts then ctx\<lparr>peerSecTrust := None\<rparr> else ctx) in
      if certChain = [] then Some (errSSLBadCert, ctx)
      else if SecTrustCall P ''CFArrayCreateMutable'' \<noteq> noErr then Some (memFullErr, ctx)
      else case cert_group P certChain [] of
        Inl serr \<Rightarrow> Some (serr, ctx)
      | Inr certs \<Rightarrow>
          (let serr = first_error (SecTrustCall P) (trust_calls ctx); req = make_request ctx certs arePeerCerts in
           if serr \<noteq> noErr then Some (serr, ctx)
           else let ctx = (if arePeerCerts then ctx\<lparr>peerSecTrust := Some req\<rparr> else ctx) in
           if \<not> enableCertVerify ctx then Some (noErr, ctx)
           else if (case trustedLeafCerts ctx of None \<Rightarrow> False | Some cs \<Rightarrow> sslGetMatchingCertInArray P (hd certs) cs)
           then Some (noErr, ctx)
           else do { serr \<leftarrow> evaluate_trust P ctx certChain req; Some (serr, ctx) }))"

section \<open>Diffie-Hellman\<close>

text \<open>
  A generated key pair depends on how many random choices were made before; the counter of the
  random source is advanced with it.
\<close>

definition sslDhGenerateKeyPair ::
  "platform \<Rightarrow> bytes \<Rightarrow> nat \<Rightarrow> SSLContext \<Rightarrow> (OSStatus \<times> (CSSM_KEY \<times> CSSM_KEY) option \<times> SSLContext) option" where
  "sslDhGenerateKeyPair P paramBlob keySizeInBits ctx =
     (if ctxCspHand ctx = 0 then None
      else let pair = CSSM_GenerateKeyPair P (rngPos ctx) paramBlob keySizeInBits; ctx = ctx\<lparr>rngPos := rngPos ctx + 1\<rparr> in
           Some (if pair = None then errSSLCrypto else noErr, pair, ctx))"

definition sslDhGenKeyPairClient ::
  "platform \<Rightarrow> bytes \<Rightarrow> bytes \<Rightarrow> SSLContext \<Rightarrow> (OSStatus \<times> (CSSM_KEY \<times> CSSM_KEY) option \<times> SSLContext) option" where
  "sslDhGenKeyPairClient P prime generator ctx =
     (case sslEncodeDhParams P prime generator of
        (ortn, None) \<Rightarrow> Some (ortn, None, ctx)
      | (ortn, Some sParam) \<Rightarrow>
          if ortn \<noteq> noErr then Some (ortn, None, ctx)
          else sslDhGenerateKeyPair P sParam (length prime * 8) ctx)"

definition sslDhKeyExchange :: "platform \<Rightarrow> nat \<Rightarrow> SSLContext \<Rightarrow> (OSStatus \<times> bytes option) option" where
  "sslDhKeyExchange P deriveSizeInBits ctx =
     (if ctxCspHand ctx = 0 then None
      else do {
        priv \<leftarrow> dhPrivate ctx;
        case dhPeerPublic ctx of
          None \<Rightarrow> Some (errSSLProtocol, None)
        | Some pub \<Rightarrow>
            if pub = [] then Some (errSSLProtocol, None)
            else if \<not> CSSM_CSP_CreateDeriveKeyContext P (ctxCspHand ctx) priv deriveSizeInBits then Some (errSSLCrypto, None)
            else (case CSSM_DeriveKey P priv pub deriveSizeInBits of
                    None \<Rightarrow> Some (errSSLCrypto, None)
                  | Some key \<Rightarrow> Some (noErr, Some key)) })"

text \<open>The conversion of a reference key into raw octets; the status of \<open>CSSM_WrapKey\<close> is returned as it is.\<close>

definition sslNullWrapKey :: "platform \<Rightarrow> nat \<Rightarrow> bytes \<Rightarrow> OSStatus \<times> bytes" where
  "sslNullWrapKey P csp refKey =
     (if \<not> CSSM_CSP_CreateNullContext P csp then (errSSLCrypto, [])
      else case CSSM_WrapKey P csp refKey of Inl crtn \<Rightarrow> (crtn, []) | Inr rawKey \<Rightarrow> (noErr, rawKey))"

text \<open>
  The exchange with a certified key of our own. When the private key belongs to another CSP than
  the peer's, credentials are needed and the peer's key is passed as raw octets.
\<close>

definition peer_ec_key :: "platform \<Rightarrow> bool \<Rightarrow> SSLContext \<Rightarrow> (OSStatus \<times> bytes) option" where
  "peer_ec_key P useRefKeys ctx =
     do { cs \<leftarrow> selectedCipherSpec ctx;
          if keyExchangeMethod cs \<in> {SSL_ECDHE_ECDSA, SSL_ECDHE_RSA}
          then (case ecdhPeerPublic ctx of
                  None \<Rightarrow> Some (errSSLProtocol, [])
                | Some pub \<Rightarrow> Some (if pub = [] then (errSSLProtocol, []) else (noErr, pub)))
          else if keyExchangeMethod cs \<in> {SSL_ECDH_ECDSA, SSL_ECDH_RSA}
          then (case peerPubKey ctx of
                  None \<Rightarrow> Some (errSSLInternal, [])
                | Some key \<Rightarrow>
                    if useRefKeys
                    then (case sslEcdsaPubKeyBits P key of (ortn, bits) \<Rightarrow> Some (ortn, case bits of None \<Rightarrow> [] | Some b \<Rightarrow> b))
                    else Some (if CSSM_UpdateContextAttributes P key \<noteq> noErr then (errSSLInternal, []) else (noErr, KeyData key)))
          else None }"

definition sslEcdhKeyExchange :: "platform \<Rightarrow> SSLContext \<Rightarrow> (OSStatus \<times> bytes option) option" where
  "sslEcdhKeyExchange P ctx =
     (if ecdhPrivCspHand ctx = 0 then None
      else do {
        priv \<leftarrow> ecdhPrivate ctx;
        cs \<leftarrow> selectedCipherSpec ctx;
        let useRefKeys = (keyExchangeMethod cs \<in> {SSL_ECDH_ECDSA, SSL_ECDH_RSA} \<and> ctxCspHand ctx \<noteq> ecdhPrivCspHand ctx);
        creds \<leftarrow> (if useRefKeys then (case signingPrivKeyRef ctx of
                    Some (Inr key) \<Rightarrow> Some (SecKeyGetCredentials P key)
                  | Some (Inl ortn) \<Rightarrow> Some ortn
                  | None \<Rightarrow> None) else Some noErr);
        if creds \<noteq> noErr then Some (creds, None)
        else if \<not> CSSM_CSP_CreateDeriveKeyContext P (ecdhPrivCspHand ctx) priv (LogicalKeySizeInBits priv)
        then Some (errSSLCrypto, None) else do {
        (ortn, theirPubKey) \<leftarrow> peer_ec_key P useRefKeys ctx;
        if ortn \<noteq> noErr then Some (ortn, None)
        else (case CSSM_DeriveKey P priv theirPubKey (LogicalKeySizeInBits priv) of
                None \<Rightarrow> Some (errSSLCrypto, None)
              | Some key \<Rightarrow>
                  (case (if useRefKeys then sslNullWrapKey P (ecdhPrivCspHand ctx) key else (noErr, key)) of (ortn, rawKey) \<Rightarrow>
                     Some (if ortn \<noteq> noErr then (ortn, None) else SSLCopyBuffer P rawKey))) }})"

section \<open>Which chains pass\<close>

lemma cert_group_Inr: "cert_group P cs acc = Inr certs \<Longrightarrow> certs = rev cs @ acc \<and> (\<forall>c\<in>set cs. SecCertificateCreateFromData P c = noErr)"
  by (induction P cs acc rule: cert_group.induct) (auto split: if_split_asm)

lemma cert_group_Inl: "cert_group P cs acc = Inl e \<Longrightarrow> e \<noteq> noErr"
  by (induction P cs acc rule: cert_group.induct) (auto split: if_split_asm)

lemma cert_group_ok: "\<forall>c\<in>set cs. SecCertificateCreateFromData P c = noErr \<Longrightarrow> cert_group P cs acc = Inr (rev cs @ acc)"
  by (induction P cs acc rule: cert_group.induct) auto

lemma trust_calls_peerSecTrust [simp]:
  "trust_calls (ctx\<lparr>peerSecTrust := x\<rparr>) = trust_calls ctx" "make_request (ctx\<lparr>peerSecTrust := x\<rparr>) = make_request ctx"
  by (simp_all add: trust_calls_def make_request_def fun_eq_iff)

definition trust_ready :: "platform \<Rightarrow> SSLContext \<Rightarrow> bytes list \<Rightarrow> bool" where
  "trust_ready P ctx chain \<longleftrightarrow> chain \<noteq> [] \<and> SecTrustCall P ''CFArrayCreateMutable'' = noErr \<and>
     (\<forall>c\<in>set chain. SecCertificateCreateFromData P c = noErr) \<and> first_error (SecTrustCall P) (trust_calls ctx) = noErr"

text \<open>The verdict of the trust evaluation that lets a chain pass.\<close>

definition trust_passes :: "platform \<Rightarrow> SSLContext \<Rightarrow> bytes list \<Rightarrow> trust_request \<Rightarrow> bool" where
  "trust_passes P ctx chain req \<longleftrightarrow>
     (\<exists>result. SecTrustEvaluate P req = Inr result \<and>
        (result \<in> {kSecTrustResultUnspecified, kSecTrustResultProceed} \<or>
         result \<in> {kSecTrustResultDeny, kSecTrustResultConfirm} \<and> allowAnyRoot ctx \<or>
         result \<notin> {kSecTrustResultUnspecified, kSecTrustResultProceed, kSecTrustResultDeny, kSecTrustResultConfirm} \<and>
           (\<exists>crtn. SecTrustGetCssmResultCode P req = Inr crtn \<and>
              (crtn = CSSM_OK \<or> crtn \<in> {CSSMERR_TP_INVALID_ANCHOR_CERT, CSSMERR_TP_NOT_TRUSTED} \<and> allowAnyRoot ctx \<or>
               crtn = CSSMERR_TP_INVALID_CERTIFICATE \<and> sslVerifyCertChainOpenSSL P ctx chain = noErr))))"

definition errors_are_errors :: "platform \<Rightarrow> bool" where
  "errors_are_errors P \<longleftrightarrow> (\<forall>req. SecTrustEvaluate P req \<noteq> Inl noErr \<and> SecTrustGetCssmResultCode P req \<noteq> Inl noErr)"

lemma evaluate_trust_noErr:
  assumes "errors_are_errors P"
  shows "evaluate_trust P ctx chain req = Some noErr \<longleftrightarrow> trust_passes P ctx chain req"
proof (cases "SecTrustEvaluate P req")
  case (Inl e)
  then show ?thesis using assms by (auto simp: evaluate_trust_def trust_passes_def errors_are_errors_def)
next
  case (Inr result)
  show ?thesis
  proof (cases "SecTrustGetCssmResultCode P req")
    case (Inl e)
    then show ?thesis using assms Inr
      by (auto simp: evaluate_trust_def trust_passes_def errors_are_errors_def trust_verdict_def)
  next
    case (Inr crtn)
    then show ?thesis using \<open>SecTrustEvaluate P req = Inr result\<close>
      by (cases crtn) (auto simp: evaluate_trust_def trust_passes_def trust_verdict_def)
  qed
qed

lemma sslVerifyCertChain_accepts:
  assumes "errors_are_errors P"
  shows "(\<exists>ctx'. sslVerifyCertChain P chain True ctx = Some (noErr, ctx')) \<longleftrightarrow>
    trust_ready P ctx chain \<and>
    (\<not> enableCertVerify ctx \<or>
     (\<exists>leafs. trustedLeafCerts ctx = Some leafs \<and> sslGetMatchingCertInArray P (last chain) leafs) \<or>
     trust_passes P ctx chain (make_request ctx (rev chain) True))"
proof (cases "trust_ready P ctx chain")
  case False
  show ?thesis
  proof (cases "cert_group P chain []")
    case (Inl e)
    with False cert_group_Inl [OF Inl] show ?thesis
      by (auto simp: sslVerifyCertChain_def trust_ready_def Let_def split: if_split_asm)
  next
    case (Inr certs)
    with False show ?thesis
      using cert_group_Inr [of P chain "[]" certs] by (auto simp: sslVerifyCertChain_def trust_ready_def Let_def split: if_split_asm)
  qed
next
  case True
  define req where "req = make_request ctx (rev chain) True"
  define leaf_ok where "leaf_ok = (case trustedLeafCerts ctx of None \<Rightarrow> False | Some cs \<Rightarrow> sslGetMatchingCertInArray P (last chain) cs)"
  have "sslVerifyCertChain P chain True ctx =
      (let ctx' = ctx\<lparr>peerSecTrust := Some req\<rparr> in
       if \<not> enableCertVerify ctx \<or> leaf_ok then Some (noErr, ctx')
       else do { serr \<leftarrow> evaluate_trust P ctx' chain req; Some (serr, ctx') })"
    using True
    by (simp add: sslVerifyCertChain_def trust_ready_def Let_def cert_group_ok leaf_ok_def req_def hd_rev split: option.split)
  moreover have "evaluate_trust P (ctx\<lparr>peerSecTrust := Some req\<rparr>) chain req = evaluate_trust P ctx chain req"
    using sslVerifyCertChainOpenSSL_ctx by (auto simp: evaluate_trust_def trust_verdict_def split: sum.split CSSM_RETURN.split)
  ultimately show ?thesis
    using True evaluate_trust_noErr [OF assms, of ctx chain req]
    by (auto simp: Let_def req_def [symmetric] leaf_ok_def bind_eq_Some_conv split: option.split_asm if_split_asm)
qed

end
