(* ===== verification/Mac.thy ===== *)
theory Mac
  imports Context
begin

text \<open>
  The record MACs: \<open>initMac\<close>, \<open>freeMac\<close> and \<open>computeMac\<close> of \<open>ssl3Callouts.c\<close>,
  \<open>tls1Callouts.c\<close> and \<open>tls12Callouts.c\<close>. The field \<open>macCtx\<close> is a C union: it holds a digest
  buffer under SSLv3 and an HMAC context under TLS; using one as the other has no defined
  behaviour.

  The locale \<open>record_mac\<close> is the contract the record layer relies on: with a context that holds
  the secret, \<open>computeMac\<close> succeeds, gives the MAC that the protocol defines of the sequence
  number, type and data, and leaves a context that holds the same secret. It is interpreted
  for the three protocols.
\<close>

section \<open>The operations\<close>

definition hashCtx_of :: "HashHmacContext \<Rightarrow> digestCtx option" where
  "hashCtx_of m = (case m of NoMacCtx \<Rightarrow> Some None | HashCtx d \<Rightarrow> Some d | HmacCtx _ \<Rightarrow> None)"

definition hmacCtx_of :: "HashHmacContext \<Rightarrow> HMACContextRef option" where
  "hmacCtx_of m = (case m of NoMacCtx \<Rightarrow> Some None | HmacCtx h \<Rightarrow> Some h | HashCtx _ \<Rightarrow> None)"

definition ssl3InitMac :: "platform \<Rightarrow> CipherContext \<Rightarrow> (OSStatus \<times> CipherContext) option" where
  "ssl3InitMac P c =
     do { hashCtx \<leftarrow> hashCtx_of (macCtx c);
          let (serr, d) = SSLAllocBuffer P (contextSize P (hash_of (macRef c)));
          Some (serr, c\<lparr>macCtx := HashCtx d\<rparr>) }"

definition ssl3FreeMac :: "CipherContext \<Rightarrow> (OSStatus \<times> CipherContext) option" where
  "ssl3FreeMac c = do { hashCtx \<leftarrow> hashCtx_of (macCtx c); Some (noErr, c\<lparr>macCtx := HashCtx None\<rparr>) }"

text \<open>
  MAC = hash(secret + pad2 + hash(secret + pad1 + sequence number + type + length + content)).
  Each step stops at the first error; none occurs once the context has been allocated.
\<close>

definition ssl3ComputeMac ::
  "platform \<Rightarrow> byte \<Rightarrow> bytes \<Rightarrow> CipherContext \<Rightarrow> sslUint64 \<Rightarrow> (OSStatus \<times> bytes \<times> CipherContext) option" where
  "ssl3ComputeMac P type data c seqNo =
     (let hash = hash_of (macRef c);
          room = replicate (digestSize hash) 0;
          secret = take (digestSize hash) (macSecret c);
          scratch = SSLEncodeUInt64 seqNo @ [type] @ SSLEncodeInt (of_nat (length data)) 2
      in do {
        st \<leftarrow> hashCtx_of (macCtx c);
        (err, st) \<leftarrow> hash_init hash st;
        if err \<noteq> noErr then Some (err, room, c\<lparr>macCtx := HashCtx st\<rparr>) else do {
        (err, st) \<leftarrow> hash_updates hash st [secret, take (macPadSize hash) SSLMACPad1, scratch, data];
        if err \<noteq> noErr then Some (err, room, c\<lparr>macCtx := HashCtx st\<rparr>) else do {
        (err, digest) \<leftarrow> hash_final P hash st room;
        if err \<noteq> noErr then Some (err, room, c\<lparr>macCtx := HashCtx st\<rparr>) else do {
        (err, st) \<leftarrow> hash_init hash st;
        if err \<noteq> noErr then Some (err, room, c\<lparr>macCtx := HashCtx st\<rparr>) else do {
        (err, st) \<leftarrow> hash_updates hash st [secret, take (macPadSize hash) SSLMACPad2, digest];
        if err \<noteq> noErr then Some (err, room, c\<lparr>macCtx := HashCtx st\<rparr>) else do {
        (err, mac) \<leftarrow> hash_final P hash st room;
        Some (err, mac, c\<lparr>macCtx := HashCtx st\<rparr>) }}}}}})"

text \<open>The secret moves from \<open>macSecret\<close>, which is cleared, into the HMAC context.\<close>

definition tls1InitMac :: "platform \<Rightarrow> CipherContext \<Rightarrow> (OSStatus \<times> CipherContext) option" where
  "tls1InitMac P c =
     (let hmac = macRef c in
      do { hmacCtx \<leftarrow> hmacCtx_of (macCtx c);
           (serr, h) \<leftarrow> hmac_alloc P hmac (take (macSize hmac) (macSecret c));
           Some (serr, c\<lparr>macCtx := HmacCtx (if serr = noErr then h else None),
                         macSecret := replicate 32 0\<rparr>) })"

definition tls1FreeMac :: "CipherContext \<Rightarrow> (OSStatus \<times> CipherContext) option" where
  "tls1FreeMac c = do { hmacCtx \<leftarrow> hmacCtx_of (macCtx c); Some (noErr, c\<lparr>macCtx := HmacCtx None\<rparr>) }"

text \<open>
  The common body of \<open>tls1ComputeMac\<close> and \<open>tls12ComputeMac\<close>: HMAC over sequence number, type,
  version, length and data. A null HMAC writes nothing, so the caller's buffer keeps what it had.
\<close>

definition tls_mac_header :: "sslUint64 \<Rightarrow> byte \<Rightarrow> SSLProtocolVersion \<Rightarrow> nat \<Rightarrow> bytes" where
  "tls_mac_header seqNo type vers len =
     SSLEncodeUInt64 seqNo @ [type, ucast (drop_bit 8 vers), ucast vers,
       of_nat (len div 256), of_nat len]"

definition tls_compute_mac ::
  "platform \<Rightarrow> SSLProtocolVersion \<Rightarrow> byte \<Rightarrow> bytes \<Rightarrow> CipherContext \<Rightarrow> sslUint64 \<Rightarrow>
   (OSStatus \<times> bytes \<times> CipherContext) option" where
  "tls_compute_mac P vers type data c seqNo =
     (let hmac = macRef c;
          room = replicate (digestSize (hash_of hmac)) 0;
          hdr = tls_mac_header seqNo type vers (length data)
      in do {
        h \<leftarrow> hmacCtx_of (macCtx c);
        let (serr, h) = hmac_init hmac h;
        if serr \<noteq> noErr then Some (serr, room, c\<lparr>macCtx := HmacCtx h\<rparr>) else do {
        (serr, h) \<leftarrow> hmac_update hmac h hdr;
        if serr \<noteq> noErr then Some (serr, room, c\<lparr>macCtx := HmacCtx h\<rparr>) else do {
        (serr, h) \<leftarrow> hmac_update hmac h data;
        if serr \<noteq> noErr then Some (serr, room, c\<lparr>macCtx := HmacCtx h\<rparr>) else do {
        (serr, written) \<leftarrow> hmac_final P hmac h (length room);
        Some (serr, case written of None \<Rightarrow> room | Some mac \<Rightarrow> mac, c\<lparr>macCtx := HmacCtx h\<rparr>) }}}})"

definition tls1ComputeMac ::
  "platform \<Rightarrow> byte \<Rightarrow> bytes \<Rightarrow> CipherContext \<Rightarrow> sslUint64 \<Rightarrow> (OSStatus \<times> bytes \<times> CipherContext) option" where
  "tls1ComputeMac P type data c seqNo = tls_compute_mac P TLS_Version_1_0 type data c seqNo"

text \<open>\<open>tls12InitMac\<close> and \<open>tls12FreeMac\<close> test for a NULL \<open>hmac\<close>, which no table has.\<close>

definition tls12InitMac :: "platform \<Rightarrow> CipherContext \<Rightarrow> (OSStatus \<times> CipherContext) option" where
  "tls12InitMac P c =
     (let hmac = macRef c in
      do { hmacCtx \<leftarrow> hmacCtx_of (macCtx c);
           (serr, h) \<leftarrow> hmac_alloc P hmac (take (digestSize (hash_of hmac)) (macSecret c));
           Some (serr, c\<lparr>macCtx := HmacCtx (if serr = noErr then h else None),
                         macSecret := replicate 32 0\<rparr>) })"

definition tls12FreeMac :: "CipherContext \<Rightarrow> (OSStatus \<times> CipherContext) option" where
  "tls12FreeMac c = do { hmacCtx \<leftarrow> hmacCtx_of (macCtx c); Some (noErr, c\<lparr>macCtx := HmacCtx None\<rparr>) }"

definition tls12ComputeMac ::
  "platform \<Rightarrow> SSLProtocolVersion \<Rightarrow> byte \<Rightarrow> bytes \<Rightarrow> CipherContext \<Rightarrow> sslUint64 \<Rightarrow>
   (OSStatus \<times> bytes \<times> CipherContext) option" where
  "tls12ComputeMac P vers type data c seqNo = tls_compute_mac P vers type data c seqNo"

text \<open>Calls through \<open>ctx->sslTslCalls\<close>; \<open>vers\<close> is \<open>ctx->negProtocolVersion\<close>.\<close>

definition call_initMac :: "platform \<Rightarrow> SslTlsCallouts \<Rightarrow> CipherContext \<Rightarrow> (OSStatus \<times> CipherContext) option" where
  "call_initMac P calls c = (case calls of Ssl3Callouts \<Rightarrow> ssl3InitMac P c
     | Tls1Callouts \<Rightarrow> tls1InitMac P c | Tls12Callouts \<Rightarrow> tls12InitMac P c)"

definition call_freeMac :: "SslTlsCallouts \<Rightarrow> CipherContext \<Rightarrow> (OSStatus \<times> CipherContext) option" where
  "call_freeMac calls c = (case calls of Ssl3Callouts \<Rightarrow> ssl3FreeMac c
     | Tls1Callouts \<Rightarrow> tls1FreeMac c | Tls12Callouts \<Rightarrow> tls12FreeMac c)"

definition call_computeMac ::
  "platform \<Rightarrow> SslTlsCallouts \<Rightarrow> SSLProtocolVersion \<Rightarrow> byte \<Rightarrow> bytes \<Rightarrow> CipherContext \<Rightarrow> sslUint64 \<Rightarrow>
   (OSStatus \<times> bytes \<times> CipherContext) option" where
  "call_computeMac P calls vers type data c seqNo =
     (case calls of Ssl3Callouts \<Rightarrow> ssl3ComputeMac P type data c seqNo
      | Tls1Callouts \<Rightarrow> tls1ComputeMac P type data c seqNo
      | Tls12Callouts \<Rightarrow> tls12ComputeMac P vers type data c seqNo)"

section \<open>The MACs the protocols define\<close>

definition ssl3_mac :: "platform \<Rightarrow> HMAC_Algs \<Rightarrow> bytes \<Rightarrow> sslUint64 \<Rightarrow> byte \<Rightarrow> bytes \<Rightarrow> bytes" where
  "ssl3_mac P a secret seqNo type data =
     (let h = hash_of a; pad = (\<lambda>b. replicate (macPadSize h) b) in
      CC_Digest P h (secret @ pad 0x5C @
        CC_Digest P h (secret @ pad 0x36 @ SSLEncodeUInt64 seqNo @ [type] @
          SSLEncodeInt (of_nat (length data)) 2 @ data)))"

definition tls_mac ::
  "platform \<Rightarrow> SSLProtocolVersion \<Rightarrow> HMAC_Algs \<Rightarrow> bytes \<Rightarrow> sslUint64 \<Rightarrow> byte \<Rightarrow> bytes \<Rightarrow> bytes" where
  "tls_mac P vers a secret seqNo type data =
     CCHmac P a secret (tls_mac_header seqNo type vers (length data) @ data)"

definition record_mac_of ::
  "platform \<Rightarrow> SslTlsCallouts \<Rightarrow> SSLProtocolVersion \<Rightarrow> HMAC_Algs \<Rightarrow> bytes \<Rightarrow> sslUint64 \<Rightarrow> byte \<Rightarrow> bytes \<Rightarrow> bytes" where
  "record_mac_of P calls vers a secret seqNo type data =
     (case calls of Ssl3Callouts \<Rightarrow> ssl3_mac P a secret seqNo type data
      | Tls1Callouts \<Rightarrow> tls_mac P TLS_Version_1_0 a secret seqNo type data
      | Tls12Callouts \<Rightarrow> tls_mac P vers a secret seqNo type data)"

text \<open>The context holds secret \<open>k\<close> ready for use.\<close>

definition mac_holds :: "platform \<Rightarrow> SslTlsCallouts \<Rightarrow> CipherContext \<Rightarrow> bytes \<Rightarrow> bool" where
  "mac_holds P calls c k \<longleftrightarrow> macRef c \<noteq> HA_Null \<and>
     (case calls of
        Ssl3Callouts \<Rightarrow> (\<exists>st. macCtx c = HashCtx (Some st)) \<and> k = take (hmac_length (macRef c)) (macSecret c)
      | _ \<Rightarrow> (\<exists>h m. macCtx c = HmacCtx h \<and> hmac_fed (P, macRef c) h k m))"

section \<open>The contract of \<open>computeMac\<close>\<close>

locale record_mac =
  fixes compute :: "platform \<Rightarrow> SSLProtocolVersion \<Rightarrow> byte \<Rightarrow> bytes \<Rightarrow> CipherContext \<Rightarrow> sslUint64 \<Rightarrow>
      (OSStatus \<times> bytes \<times> CipherContext) option"
    and mac :: "platform \<Rightarrow> SSLProtocolVersion \<Rightarrow> HMAC_Algs \<Rightarrow> bytes \<Rightarrow> sslUint64 \<Rightarrow> byte \<Rightarrow> bytes \<Rightarrow> bytes"
    and holds :: "platform \<Rightarrow> CipherContext \<Rightarrow> bytes \<Rightarrow> bool"
  assumes compute_ok: "platform_ok P \<Longrightarrow> holds P c k \<Longrightarrow>
      \<exists>x. compute P vers type data c seqNo =
        Some (noErr, mac P vers (macRef c) k seqNo type data, c\<lparr>macCtx := x\<rparr>) \<and> holds P (c\<lparr>macCtx := x\<rparr>) k"
    and mac_length: "platform_ok P \<Longrightarrow> holds P c k \<Longrightarrow>
      length (mac P vers (macRef c) k seqNo type data) = hmac_length (macRef c)"
begin

text \<open>Two ends that hold the same secret compute the same MAC.\<close>

lemma compute_agree:
  assumes "platform_ok P" "holds P w k" "holds P r k" "macRef w = macRef r"
  obtains m x y where "compute P vers type data w seqNo = Some (noErr, m, w\<lparr>macCtx := x\<rparr>)"
    "compute P vers type data r seqNo = Some (noErr, m, r\<lparr>macCtx := y\<rparr>)"
    "length m = hmac_length (macRef w)" "holds P (w\<lparr>macCtx := x\<rparr>) k" "holds P (r\<lparr>macCtx := y\<rparr>) k"
  using compute_ok [OF assms(1,2), of vers type data seqNo] mac_length [OF assms(1,2), of vers seqNo type data]
    compute_ok [OF assms(1,3), of vers type data seqNo] assms(4) by force

end

lemma hash_init_Some [simp]: "h \<noteq> SSLHashNull \<Longrightarrow> hash_init h (Some bs) = Some (noErr, Some [])"
  by (simp add: hash_init_def)

lemma macPadSize_le: "macPadSize h \<le> 48"
  by (cases h) (simp_all add: macPadSize_def)

lemma take_macPads:
  "take (macPadSize h) SSLMACPad1 = replicate (macPadSize h) 0x36"
  "take (macPadSize h) SSLMACPad2 = replicate (macPadSize h) 0x5C"
  using macPadSize_le [of h] by (simp_all add: SSLMACPad1_def SSLMACPad2_def min_absorb1)

lemma ssl3ComputeMac_ok:
  assumes "platform_ok P" "macRef c \<noteq> HA_Null" "macCtx c = HashCtx (Some st)"
  shows "\<exists>x. ssl3ComputeMac P type data c seqNo =
    Some (noErr, ssl3_mac P (macRef c) (take (hmac_length (macRef c)) (macSecret c)) seqNo type data,
      c\<lparr>macCtx := HashCtx (Some x)\<rparr>)"
proof -
  have h: "hash_of (macRef c) \<noteq> SSLHashNull" using assms(2) by simp
  show ?thesis
    using assms h
    by (simp add: ssl3ComputeMac_def hashCtx_of_def Let_def hash_updates_Some take_macPads
        ssl3_mac_def length_CC_Digest) (rule exI, rule refl)
qed

lemma tls_compute_mac_ok:
  assumes "platform_ok P" "macRef c \<noteq> HA_Null" "macCtx c = HmacCtx h" "hmac_fed (P, macRef c) h k m"
  shows "\<exists>h' m'. tls_compute_mac P vers type data c seqNo =
    Some (noErr, tls_mac P vers (macRef c) k seqNo type data, c\<lparr>macCtx := HmacCtx h'\<rparr>) \<and>
    hmac_fed (P, macRef c) h' k m'"
proof -
  obtain c1 c2 c3 where "hmac_init (macRef c) h = (noErr, c1)"
    "hmac_update (macRef c) c1 (tls_mac_header seqNo type vers (length data)) = Some (noErr, c2)"
    "hmac_update (macRef c) c2 data = Some (noErr, c3)"
    "hmac_fed (P, macRef c) c3 k (tls_mac_header seqNo type vers (length data) @ data)"
    "hmac_final P (macRef c) c3 (hmac_length (macRef c)) =
       Some (noErr, Some (CCHmac P (macRef c) k (tls_mac_header seqNo type vers (length data) @ data)))"
    by (rule chunk_fed [OF assms(1,2,4)])
  then show ?thesis
    using assms by (auto simp: tls_compute_mac_def hmacCtx_of_def tls_mac_def Let_def)
qed

interpretation ssl3_calls: record_mac "\<lambda>P vers. ssl3ComputeMac P" "\<lambda>P vers. ssl3_mac P"
  "\<lambda>P c k. mac_holds P Ssl3Callouts c k"
proof unfold_locales
  fix P c k vers type data seqNo
  assume "platform_ok P" "mac_holds P Ssl3Callouts c k"
  then obtain st where "macRef c \<noteq> HA_Null" "macCtx c = HashCtx (Some st)"
      "k = take (hmac_length (macRef c)) (macSecret c)" "platform_ok P"
    by (auto simp: mac_holds_def)
  then show "\<exists>x. ssl3ComputeMac P type data c seqNo =
      Some (noErr, ssl3_mac P (macRef c) k seqNo type data, c\<lparr>macCtx := x\<rparr>) \<and>
      mac_holds P Ssl3Callouts (c\<lparr>macCtx := x\<rparr>) k"
    using ssl3ComputeMac_ok [of P c st type data seqNo] by (auto simp: mac_holds_def)
qed (simp add: ssl3_mac_def Let_def length_CC_Digest)

interpretation tls1_calls: record_mac "\<lambda>P vers. tls1ComputeMac P" "\<lambda>P vers. tls_mac P TLS_Version_1_0"
  "\<lambda>P c k. mac_holds P Tls1Callouts c k"
proof unfold_locales
  fix P c k vers type data seqNo
  assume P: "platform_ok P" and h: "mac_holds P Tls1Callouts c k"
  from h obtain h m where "macRef c \<noteq> HA_Null" "macCtx c = HmacCtx h" "hmac_fed (P, macRef c) h k m"
    by (auto simp: mac_holds_def)
  then show "\<exists>x. tls1ComputeMac P type data c seqNo =
      Some (noErr, tls_mac P TLS_Version_1_0 (macRef c) k seqNo type data, c\<lparr>macCtx := x\<rparr>) \<and>
      mac_holds P Tls1Callouts (c\<lparr>macCtx := x\<rparr>) k"
    using tls_compute_mac_ok [OF P, of c h k m TLS_Version_1_0 type data seqNo]
    by (auto simp: mac_holds_def tls1ComputeMac_def)
qed (simp add: tls_mac_def mac_holds_def length_CCHmac)

interpretation tls12_calls: record_mac tls12ComputeMac tls_mac
  "\<lambda>P c k. mac_holds P Tls12Callouts c k"
proof unfold_locales
  fix P c k vers type data seqNo
  assume P: "platform_ok P" and h: "mac_holds P Tls12Callouts c k"
  from h obtain h m where "macRef c \<noteq> HA_Null" "macCtx c = HmacCtx h" "hmac_fed (P, macRef c) h k m"
    by (auto simp: mac_holds_def)
  then show "\<exists>x. tls12ComputeMac P vers type data c seqNo =
      Some (noErr, tls_mac P vers (macRef c) k seqNo type data, c\<lparr>macCtx := x\<rparr>) \<and>
      mac_holds P Tls12Callouts (c\<lparr>macCtx := x\<rparr>) k"
    using tls_compute_mac_ok [OF P, of c h k m vers type data seqNo]
    by (auto simp: mac_holds_def tls12ComputeMac_def)
qed (simp add: tls_mac_def mac_holds_def length_CCHmac)

text \<open>The contract for a call through the table, whichever protocol it is of.\<close>

lemma call_computeMac_agree:
  assumes "platform_ok P" "mac_holds P calls w k" "mac_holds P calls r k" "macRef w = macRef r"
  obtains m x y where
    "call_computeMac P calls vers type data w seqNo = Some (noErr, m, w\<lparr>macCtx := x\<rparr>)"
    "call_computeMac P calls vers type data r seqNo = Some (noErr, m, r\<lparr>macCtx := y\<rparr>)"
    "length m = hmac_length (macRef w)"
    "mac_holds P calls (w\<lparr>macCtx := x\<rparr>) k" "mac_holds P calls (r\<lparr>macCtx := y\<rparr>) k"
proof (cases calls)
  case Ssl3Callouts
  then show ?thesis
    using ssl3_calls.compute_agree [of P w k r type data seqNo] assms that
    by (simp add: call_computeMac_def) metis
next
  case Tls1Callouts
  then show ?thesis
    using tls1_calls.compute_agree [of P w k r type data seqNo] assms that
    by (simp add: call_computeMac_def) metis
next
  case Tls12Callouts
  then show ?thesis
    using tls12_calls.compute_agree [of P w k r vers type data seqNo] assms that
    by (simp add: call_computeMac_def) metis
qed

text \<open>\<open>initMac\<close> makes a context that holds the secret it was given.\<close>

lemma call_initMac_holds:
  assumes ok: "platform_ok P" and a: "macRef c \<noteq> HA_Null" "macCtx c = NoMacCtx"
  obtains x s where "call_initMac P calls c = Some (noErr, c\<lparr>macCtx := x, macSecret := s\<rparr>)"
    "mac_holds P calls (c\<lparr>macCtx := x, macSecret := s\<rparr>) (take (hmac_length (macRef c)) (macSecret c))"
proof (cases calls)
  case Ssl3Callouts
  show ?thesis
    using assms Ssl3Callouts
    by (intro that [of "macSecret c" "HashCtx (Some (replicate (contextSize P (hash_of (macRef c))) 0))"])
      (simp_all add: call_initMac_def ssl3InitMac_def hashCtx_of_def SSLAllocBuffer_ok mac_holds_def)
next
  case Tls1Callouts
  show ?thesis
    using assms Tls1Callouts
    by (intro that [of "replicate 32 0" "HmacCtx (Some \<lparr>hmacRef = macRef c,
          ccHmacTemplate = take (hmac_length (macRef c)) (macSecret c), ccHmac = [],
          hmacMacSize = hmac_length (macRef c)\<rparr>)"])
      (simp_all add: Let_def call_initMac_def tls1InitMac_def hmacCtx_of_def hmac_alloc_ok
        mac_holds_def hmac_fed_def)
next
  case Tls12Callouts
  show ?thesis
    using assms Tls12Callouts
    by (intro that [of "replicate 32 0" "HmacCtx (Some \<lparr>hmacRef = macRef c,
          ccHmacTemplate = take (hmac_length (macRef c)) (macSecret c), ccHmac = [],
          hmacMacSize = hmac_length (macRef c)\<rparr>)"])
      (simp_all add: Let_def call_initMac_def tls12InitMac_def hmacCtx_of_def hmac_alloc_ok
        mac_holds_def hmac_fed_def)
qed

end
