(* ===== verification/Key_Material.thy ===== *)
theory Key_Material
  imports Mac
begin

text \<open>
  Key derivation and handshake verification data: the remaining callouts of \<open>ssl3Callouts.c\<close>,
  \<open>tls1Callouts.c\<close> and \<open>tls12Callouts.c\<close>, that is, the generation of the key material, of the
  export keys and of the master secret, and the MACs of the Finished and CertificateVerify
  messages.

  The arrays \<open>masterSecret\<close> (48 octets), \<open>clientRandom\<close> and \<open>serverRandom\<close> (32 octets each) have
  their declared length in every state of the program; the C code passes those lengths as
  constants. What a routine wrote to the caller's buffer is part of its result.
\<close>

section \<open>Labels\<close>

definition ascii :: "string \<Rightarrow> bytes" where
  "ascii s = map of_char s"

definition PLS_MASTER_SECRET :: bytes where "PLS_MASTER_SECRET = ascii ''master secret''"
definition PLS_KEY_EXPAND :: bytes where "PLS_KEY_EXPAND = ascii ''key expansion''"
definition PLS_CLIENT_FINISH :: bytes where "PLS_CLIENT_FINISH = ascii ''client finished''"
definition PLS_SERVER_FINISH :: bytes where "PLS_SERVER_FINISH = ascii ''server finished''"
definition PLS_EXPORT_CLIENT_WRITE :: bytes where "PLS_EXPORT_CLIENT_WRITE = ascii ''client write key''"
definition PLS_EXPORT_SERVER_WRITE :: bytes where "PLS_EXPORT_SERVER_WRITE = ascii ''server write key''"
definition PLS_EXPORT_IV_BLOCK :: bytes where "PLS_EXPORT_IV_BLOCK = ascii ''IV block''"

abbreviation SSL_MASTER_SECRET_SIZE :: nat where "SSL_MASTER_SECRET_SIZE \<equiv> 48"
abbreviation SSL_Finished_Sender_Server :: uint32 where "SSL_Finished_Sender_Server \<equiv> 0x53525652"
abbreviation SSL_Finished_Sender_Client :: uint32 where "SSL_Finished_Sender_Client \<equiv> 0x434C4E54"

section \<open>SSLv3\<close>

text \<open>One digest run on an allocated context: \<open>init\<close>, the updates, \<open>final\<close>; the first error ends it.\<close>

definition digest_run ::
  "platform \<Rightarrow> HashReference \<Rightarrow> digestCtx \<Rightarrow> bytes list \<Rightarrow> (OSStatus \<times> bytes \<times> digestCtx) option" where
  "digest_run P h st parts =
     do { (err, st) \<leftarrow> hash_init h st;
          if err \<noteq> noErr then Some (err, [], st) else do {
          (err, st) \<leftarrow> hash_updates h st parts;
          if err \<noteq> noErr then Some (err, [], st) else do {
          (err, d) \<leftarrow> hash_final P h st (replicate (digestSize h) 0);
          Some (err, d, st) }}}"

text \<open>
  The loop of \<open>ssl3GenerateKeyMaterial\<close>: leaders 'A', 'BB', 'CCC', \dots, each giving 16 octets. The
  contexts are initialised again only when more octets remain.
\<close>

function ssl3GenerateKeyMaterial_loop ::
  "platform \<Rightarrow> SSLContext \<Rightarrow> nat \<Rightarrow> nat \<Rightarrow> digestCtx \<Rightarrow> digestCtx \<Rightarrow> bytes \<Rightarrow> (OSStatus \<times> bytes) option" where
  "ssl3GenerateKeyMaterial_loop P ctx i remaining sha md5 key =
     (if remaining = 0 then Some (noErr, key)
      else do {
        let leader = replicate (i + 1) (of_nat (0x41 + i));
        (err, sha) \<leftarrow> hash_updates SSLHashSHA1 sha [leader, masterSecret ctx, serverRandom ctx, clientRandom ctx];
        if err \<noteq> noErr then Some (err, key) else do {
        (err, shaHash) \<leftarrow> hash_final P SSLHashSHA1 sha (replicate 20 0);
        if err \<noteq> noErr then Some (err, key) else do {
        (err, md5) \<leftarrow> hash_updates SSLHashMD5 md5 [masterSecret ctx, shaHash];
        if err \<noteq> noErr then Some (err, key) else do {
        (err, md5Hash) \<leftarrow> hash_final P SSLHashMD5 md5 (replicate 16 0);
        if err \<noteq> noErr then Some (err, key) else do {
        let satisfied = (if remaining < 16 then remaining else 16);
        let key = key @ take satisfied md5Hash;
        if remaining - satisfied > 0 then do {
          (err, md5) \<leftarrow> hash_init SSLHashMD5 md5;
          if err \<noteq> noErr then Some (err, key) else do {
          (err, sha) \<leftarrow> hash_init SSLHashSHA1 sha;
          if err \<noteq> noErr then Some (err, key)
          else ssl3GenerateKeyMaterial_loop P ctx (i + 1) (remaining - satisfied) sha md5 key }}
        else Some (noErr, key) }}}}})"
  by pat_completeness auto
termination
  by (relation "measure (\<lambda>(P, ctx, i, remaining, sha, md5, key). remaining)") auto

text \<open>The assertion limits the request to the ten leaders the array has room for.\<close>

definition ssl3GenerateKeyMaterial :: "platform \<Rightarrow> nat \<Rightarrow> SSLContext \<Rightarrow> (OSStatus \<times> bytes) option" where
  "ssl3GenerateKeyMaterial P keyLen ctx =
     (if keyLen > 160 then None
      else do {
        (err, md5) \<leftarrow> ReadyHash P SSLHashMD5;
        if err \<noteq> noErr then Some (err, []) else do {
        (err, sha) \<leftarrow> ReadyHash P SSLHashSHA1;
        if err \<noteq> noErr then Some (err, [])
        else ssl3GenerateKeyMaterial_loop P ctx 0 keyLen sha md5 [] }})"

text \<open>
  The four results are the final client and server keys and IVs; an IV that is not written is
  \<open>[]\<close>.
\<close>

definition ssl3GenerateExportKeyAndIv ::
  "platform \<Rightarrow> nat \<Rightarrow> bytes \<Rightarrow> bytes \<Rightarrow> SSLContext \<Rightarrow> (OSStatus \<times> bytes \<times> bytes \<times> bytes \<times> bytes) option" where
  "ssl3GenerateExportKeyAndIv P ivLen clientWriteKey serverWriteKey ctx =
     (let cr = clientRandom ctx; sr = serverRandom ctx;
          (err, h) = SSLAllocBuffer P (contextSize P SSLHashMD5);
          iv = (\<lambda>h parts. if ivLen > 0 then digest_run P SSLHashMD5 h parts else Some (noErr, [], h))
      in
      if err \<noteq> noErr then Some (err, [], [], [], []) else do {
      (err, ck, h) \<leftarrow> digest_run P SSLHashMD5 h [clientWriteKey, cr, sr];
      if err \<noteq> noErr then Some (err, [], [], [], []) else do {
      (err, civ, h) \<leftarrow> iv h [cr, sr];
      if err \<noteq> noErr then Some (err, ck, [], [], []) else do {
      (err, sk, h) \<leftarrow> digest_run P SSLHashMD5 h [serverWriteKey, sr, cr];
      if err \<noteq> noErr then Some (err, ck, [], civ, []) else do {
      (err, siv, h) \<leftarrow> iv h [sr, cr];
      Some (err, ck, sk, civ, siv) }}}})"

text \<open>The three turns of \<open>ssl3GenerateMasterSecret\<close>; \<open>out\<close> is what has been written so far.\<close>

fun ssl3GenerateMasterSecret_loop ::
  "platform \<Rightarrow> bytes \<Rightarrow> bytes \<Rightarrow> bytes \<Rightarrow> nat list \<Rightarrow> digestCtx \<Rightarrow> digestCtx \<Rightarrow> bytes \<Rightarrow> (OSStatus \<times> bytes) option" where
  "ssl3GenerateMasterSecret_loop P pms cr sr [] sha md5 out = Some (noErr, out)"
| "ssl3GenerateMasterSecret_loop P pms cr sr (i # is) sha md5 out =
     do { (err, md5) \<leftarrow> hash_init SSLHashMD5 md5;
          if err \<noteq> noErr then Some (err, out) else do {
          (err, shaHash, sha) \<leftarrow> digest_run P SSLHashSHA1 sha [replicate i (of_nat (0x40 + i)), pms, cr, sr];
          if err \<noteq> noErr then Some (err, out) else do {
          (err, md5) \<leftarrow> hash_updates SSLHashMD5 md5 [pms, shaHash];
          if err \<noteq> noErr then Some (err, out) else do {
          (err, md5Hash) \<leftarrow> hash_final P SSLHashMD5 md5 (replicate 16 0);
          if err \<noteq> noErr then Some (err, out)
          else ssl3GenerateMasterSecret_loop P pms cr sr is sha md5 (out @ md5Hash) }}}}"

definition preMaster :: "SSLContext \<Rightarrow> bytes" where
  "preMaster ctx = (case preMasterSecret ctx of None \<Rightarrow> [] | Some s \<Rightarrow> s)"

definition store_master :: "bytes \<Rightarrow> SSLContext \<Rightarrow> SSLContext" where
  "store_master out ctx = ctx\<lparr>masterSecret := out @ drop (length out) (masterSecret ctx)\<rparr>"

definition ssl3GenerateMasterSecret :: "platform \<Rightarrow> SSLContext \<Rightarrow> (OSStatus \<times> SSLContext) option" where
  "ssl3GenerateMasterSecret P ctx =
     (let (err, md5) = SSLAllocBuffer P (contextSize P SSLHashMD5) in
      if err \<noteq> noErr then Some (err, ctx)
      else (let (err, sha) = SSLAllocBuffer P (contextSize P SSLHashSHA1) in
            if err \<noteq> noErr then Some (err, ctx)
            else do { (err, out) \<leftarrow> ssl3GenerateMasterSecret_loop P (preMaster ctx) (clientRandom ctx)
                                     (serverRandom ctx) [1, 2, 3] sha md5 [];
                      Some (err, store_master out ctx) }))"

text \<open>
  The handshake digests are clones made by the caller. The C code interleaves the calls on the
  two digests; they are independent of each other.
\<close>

definition ssl3CalculateFinishedMessage ::
  "platform \<Rightarrow> digestCtx \<Rightarrow> digestCtx \<Rightarrow> uint32 \<Rightarrow> SSLContext \<Rightarrow> (OSStatus \<times> bytes) option" where
  "ssl3CalculateFinishedMessage P sha md5 senderID ctx =
     (let sender = (if senderID \<noteq> 0 then [SSLEncodeInt senderID 4] else []);
          ms = masterSecret ctx;
          pad1 = (\<lambda>h. take (macPadSize h) SSLMACPad1);
          pad2 = (\<lambda>h. take (macPadSize h) SSLMACPad2)
      in do {
        (err, md5) \<leftarrow> hash_updates SSLHashMD5 md5 (sender @ [ms, pad1 SSLHashMD5]);
        if err \<noteq> noErr then Some (err, []) else do {
        (err, sha) \<leftarrow> hash_updates SSLHashSHA1 sha (sender @ [ms, pad1 SSLHashSHA1]);
        if err \<noteq> noErr then Some (err, []) else do {
        (err, md5Inner) \<leftarrow> hash_final P SSLHashMD5 md5 (replicate 16 0);
        if err \<noteq> noErr then Some (err, []) else do {
        (err, shaInner) \<leftarrow> hash_final P SSLHashSHA1 sha (replicate 20 0);
        if err \<noteq> noErr then Some (err, []) else do {
        (err, md5Out, md5) \<leftarrow> digest_run P SSLHashMD5 md5 [ms, pad2 SSLHashMD5, md5Inner];
        if err \<noteq> noErr then Some (err, []) else do {
        (err, shaOut, sha) \<leftarrow> digest_run P SSLHashSHA1 sha [ms, pad2 SSLHashSHA1, shaInner];
        Some (err, md5Out @ shaOut) }}}}}})"

definition ssl3ComputeFinishedMac ::
  "platform \<Rightarrow> digestCtx \<Rightarrow> digestCtx \<Rightarrow> bool \<Rightarrow> SSLContext \<Rightarrow> (OSStatus \<times> bytes) option" where
  "ssl3ComputeFinishedMac P sha md5 isServer ctx =
     ssl3CalculateFinishedMessage P sha md5
       (if isServer then SSL_Finished_Sender_Server else SSL_Finished_Sender_Client) ctx"

definition ssl3ComputeCertVfyMac ::
  "platform \<Rightarrow> digestCtx \<Rightarrow> digestCtx \<Rightarrow> SSLContext \<Rightarrow> (OSStatus \<times> bytes) option" where
  "ssl3ComputeCertVfyMac P sha md5 ctx = ssl3CalculateFinishedMessage P sha md5 0 ctx"

section \<open>TLS\<close>

text \<open>
  The routines of \<open>tls1Callouts.c\<close> and \<open>tls12Callouts.c\<close> differ in the pseudorandom function only,
  which is an argument here: \<open>prf secret label seed n\<close>.
\<close>

type_synonym tls_prf = "bytes \<Rightarrow> bytes option \<Rightarrow> bytes \<Rightarrow> nat \<Rightarrow> (OSStatus \<times> bytes) option"

definition tls_key_material :: "tls_prf \<Rightarrow> nat \<Rightarrow> SSLContext \<Rightarrow> (OSStatus \<times> bytes) option" where
  "tls_key_material prf keyLen ctx =
     prf (take 48 (masterSecret ctx)) None (PLS_KEY_EXPAND @ take 32 (serverRandom ctx) @ take 32 (clientRandom ctx)) keyLen"

definition tls_export_keys ::
  "platform \<Rightarrow> tls_prf \<Rightarrow> nat \<Rightarrow> bytes \<Rightarrow> bytes \<Rightarrow> SSLContext \<Rightarrow> (OSStatus \<times> bytes \<times> bytes \<times> bytes \<times> bytes) option" where
  "tls_export_keys P prf ivLen clientWriteKey serverWriteKey ctx =
     (let randBuf = take 32 (clientRandom ctx) @ take 32 (serverRandom ctx) in
      do { (serr, ck) \<leftarrow> prf clientWriteKey (Some PLS_EXPORT_CLIENT_WRITE) randBuf 16;
           if serr \<noteq> noErr then Some (serr, ck, [], [], []) else do {
           (serr, sk) \<leftarrow> prf serverWriteKey (Some PLS_EXPORT_SERVER_WRITE) randBuf 16;
           if serr \<noteq> noErr then Some (serr, ck, sk, [], [])
           else if ivLen = 0 then Some (noErr, ck, sk, [], [])
           else if \<not> mallocOk P (ivLen + ivLen) then Some (memFullErr, ck, sk, [], [])
           else do {
             (serr, ivBlock) \<leftarrow> prf [] (Some PLS_EXPORT_IV_BLOCK) randBuf (ivLen + ivLen);
             if serr \<noteq> noErr then Some (serr, ck, sk, [], [])
             else Some (noErr, ck, sk, take ivLen ivBlock, take ivLen (drop ivLen ivBlock)) }}})"

definition tls_master_secret :: "tls_prf \<Rightarrow> SSLContext \<Rightarrow> (OSStatus \<times> SSLContext) option" where
  "tls_master_secret prf ctx =
     do { (serr, out) \<leftarrow> prf (preMaster ctx) (Some PLS_MASTER_SECRET) (take 32 (clientRandom ctx) @ take 32 (serverRandom ctx))
                          SSL_MASTER_SECRET_SIZE;
          Some (serr, store_master out ctx) }"

definition finish_label :: "bool \<Rightarrow> bytes" where
  "finish_label isServer = (if isServer then PLS_SERVER_FINISH else PLS_CLIENT_FINISH)"

lemma label_lengths:
  "length PLS_MASTER_SECRET = 13" "length PLS_KEY_EXPAND = 13" "length (finish_label isServer) = 15"
  by (simp_all add: PLS_MASTER_SECRET_def PLS_KEY_EXPAND_def finish_label_def PLS_SERVER_FINISH_def PLS_CLIENT_FINISH_def ascii_def)

subsection \<open>TLS 1.0\<close>

definition tls1GenerateKeyMaterial :: "platform \<Rightarrow> nat \<Rightarrow> SSLContext \<Rightarrow> (OSStatus \<times> bytes) option" where
  "tls1GenerateKeyMaterial P keyLen ctx = tls_key_material (SSLInternal_PRF P) keyLen ctx"

definition tls1GenerateExportKeyAndIv ::
  "platform \<Rightarrow> nat \<Rightarrow> bytes \<Rightarrow> bytes \<Rightarrow> SSLContext \<Rightarrow> (OSStatus \<times> bytes \<times> bytes \<times> bytes \<times> bytes) option" where
  "tls1GenerateExportKeyAndIv P = tls_export_keys P (SSLInternal_PRF P)"

definition tls1GenerateMasterSecret :: "platform \<Rightarrow> SSLContext \<Rightarrow> (OSStatus \<times> SSLContext) option" where
  "tls1GenerateMasterSecret P = tls_master_secret (SSLInternal_PRF P)"

definition tls1ComputeFinishedMac ::
  "platform \<Rightarrow> nat \<Rightarrow> digestCtx \<Rightarrow> digestCtx \<Rightarrow> bool \<Rightarrow> SSLContext \<Rightarrow> (OSStatus \<times> bytes) option" where
  "tls1ComputeFinishedMac P finishedLen sha md5 isServer ctx =
     do { (serr, d1) \<leftarrow> hash_final P SSLHashMD5 md5 (replicate 16 0);
          if serr \<noteq> noErr then Some (serr, []) else do {
          (serr, d2) \<leftarrow> hash_final P SSLHashSHA1 sha (replicate 20 0);
          if serr \<noteq> noErr then Some (serr, [])
          else SSLInternal_PRF P (take 48 (masterSecret ctx)) (Some (finish_label isServer)) (d1 @ d2) finishedLen }}"

definition tls1ComputeCertVfyMac ::
  "platform \<Rightarrow> nat \<Rightarrow> digestCtx \<Rightarrow> digestCtx \<Rightarrow> SSLContext \<Rightarrow> (OSStatus \<times> bytes) option" where
  "tls1ComputeCertVfyMac P finishedLen sha md5 ctx =
     (if finishedLen \<noteq> 36 then None
      else do { (serr, d1) \<leftarrow> hash_final P SSLHashMD5 md5 (replicate 16 0);
                if serr \<noteq> noErr then Some (serr, []) else do {
                (serr, d2) \<leftarrow> hash_final P SSLHashSHA1 sha (replicate 20 0);
                Some (serr, d1 @ d2) }})"

subsection \<open>TLS 1.2\<close>

definition tls12GenerateKeyMaterial :: "platform \<Rightarrow> nat \<Rightarrow> SSLContext \<Rightarrow> (OSStatus \<times> bytes) option" where
  "tls12GenerateKeyMaterial P keyLen ctx = tls_key_material (tls12_PRF P (selectedCipher ctx)) keyLen ctx"

definition tls12GenerateExportKeyAndIv ::
  "platform \<Rightarrow> nat \<Rightarrow> bytes \<Rightarrow> bytes \<Rightarrow> SSLContext \<Rightarrow> (OSStatus \<times> bytes \<times> bytes \<times> bytes \<times> bytes) option" where
  "tls12GenerateExportKeyAndIv P ivLen ck sk ctx =
     tls_export_keys P (tls12_PRF P (selectedCipher ctx)) ivLen ck sk ctx"

definition tls12GenerateMasterSecret :: "platform \<Rightarrow> SSLContext \<Rightarrow> (OSStatus \<times> SSLContext) option" where
  "tls12GenerateMasterSecret P ctx = tls_master_secret (tls12_PRF P (selectedCipher ctx)) ctx"

definition tls12FinishedState :: "SSLContext \<Rightarrow> digestCtx" where
  "tls12FinishedState ctx = (if tls12SuiteUsesSHA384 (selectedCipher ctx) then sha384State ctx else sha256State ctx)"

text \<open>The digest of the handshake under the hash of the suite, taken from a clone.\<close>

definition tls12_transcript :: "platform \<Rightarrow> SSLContext \<Rightarrow> (OSStatus \<times> bytes) option" where
  "tls12_transcript P ctx =
     (let hash = tls12FinishedHash (selectedCipher ctx) in
      do { (serr, clone) \<leftarrow> CloneHashState P hash (tls12FinishedState ctx);
           if serr \<noteq> noErr then Some (serr, [])
           else hash_final P hash clone (replicate (tls12FinishedDigestLen (selectedCipher ctx)) 0) })"

definition tls12ComputeFinishedMac ::
  "platform \<Rightarrow> nat \<Rightarrow> bool \<Rightarrow> SSLContext \<Rightarrow> (OSStatus \<times> bytes) option" where
  "tls12ComputeFinishedMac P finishedLen isServer ctx =
     do { (serr, digest) \<leftarrow> tls12_transcript P ctx;
          if serr \<noteq> noErr then Some (serr, [])
          else tls12_PRF P (selectedCipher ctx) (take 48 (masterSecret ctx)) (Some (finish_label isServer)) digest finishedLen }"

definition tls12ComputeCertVfyMac :: "platform \<Rightarrow> nat \<Rightarrow> SSLContext \<Rightarrow> (OSStatus \<times> bytes) option" where
  "tls12ComputeCertVfyMac P finishedLen ctx =
     (if finishedLen \<noteq> tls12FinishedDigestLen (selectedCipher ctx) then None else tls12_transcript P ctx)"

section \<open>Calls through the table\<close>

definition call_generateKeyMaterial :: "platform \<Rightarrow> nat \<Rightarrow> SSLContext \<Rightarrow> (OSStatus \<times> bytes) option" where
  "call_generateKeyMaterial P n ctx = (case sslTslCalls ctx of Ssl3Callouts \<Rightarrow> ssl3GenerateKeyMaterial P n ctx
     | Tls1Callouts \<Rightarrow> tls1GenerateKeyMaterial P n ctx | Tls12Callouts \<Rightarrow> tls12GenerateKeyMaterial P n ctx)"

definition call_generateExportKeyAndIv ::
  "platform \<Rightarrow> nat \<Rightarrow> bytes \<Rightarrow> bytes \<Rightarrow> SSLContext \<Rightarrow> (OSStatus \<times> bytes \<times> bytes \<times> bytes \<times> bytes) option" where
  "call_generateExportKeyAndIv P n ck sk ctx = (case sslTslCalls ctx of
       Ssl3Callouts \<Rightarrow> ssl3GenerateExportKeyAndIv P n ck sk ctx
     | Tls1Callouts \<Rightarrow> tls1GenerateExportKeyAndIv P n ck sk ctx
     | Tls12Callouts \<Rightarrow> tls12GenerateExportKeyAndIv P n ck sk ctx)"

definition call_generateMasterSecret :: "platform \<Rightarrow> SSLContext \<Rightarrow> (OSStatus \<times> SSLContext) option" where
  "call_generateMasterSecret P ctx = (case sslTslCalls ctx of Ssl3Callouts \<Rightarrow> ssl3GenerateMasterSecret P ctx
     | Tls1Callouts \<Rightarrow> tls1GenerateMasterSecret P ctx | Tls12Callouts \<Rightarrow> tls12GenerateMasterSecret P ctx)"

text \<open>\<open>n\<close> is \<open>finished.length\<close>, which the SSLv3 routine does not look at.\<close>

definition call_computeFinishedMac ::
  "platform \<Rightarrow> nat \<Rightarrow> digestCtx \<Rightarrow> digestCtx \<Rightarrow> bool \<Rightarrow> SSLContext \<Rightarrow> (OSStatus \<times> bytes) option" where
  "call_computeFinishedMac P n sha md5 isServer ctx = (case sslTslCalls ctx of
       Ssl3Callouts \<Rightarrow> ssl3ComputeFinishedMac P sha md5 isServer ctx
     | Tls1Callouts \<Rightarrow> tls1ComputeFinishedMac P n sha md5 isServer ctx
     | Tls12Callouts \<Rightarrow> tls12ComputeFinishedMac P n isServer ctx)"

definition call_computeCertVfyMac ::
  "platform \<Rightarrow> nat \<Rightarrow> digestCtx \<Rightarrow> digestCtx \<Rightarrow> SSLContext \<Rightarrow> (OSStatus \<times> bytes) option" where
  "call_computeCertVfyMac P n sha md5 ctx = (case sslTslCalls ctx of
       Ssl3Callouts \<Rightarrow> ssl3ComputeCertVfyMac P sha md5 ctx
     | Tls1Callouts \<Rightarrow> tls1ComputeCertVfyMac P n sha md5 ctx
     | Tls12Callouts \<Rightarrow> tls12ComputeCertVfyMac P n ctx)"

section \<open>The key block the protocols define\<close>

definition ssl3_key_chunk :: "platform \<Rightarrow> bytes \<Rightarrow> bytes \<Rightarrow> bytes \<Rightarrow> nat \<Rightarrow> bytes" where
  "ssl3_key_chunk P ms sr cr i =
     CC_Digest P SSLHashMD5 (ms @ CC_Digest P SSLHashSHA1 (replicate (i + 1) (of_nat (0x41 + i)) @ ms @ sr @ cr))"

definition key_block :: "platform \<Rightarrow> SslTlsCallouts \<Rightarrow> uint16 \<Rightarrow> bytes \<Rightarrow> bytes \<Rightarrow> bytes \<Rightarrow> nat \<Rightarrow> bytes" where
  "key_block P calls suite ms sr cr n =
     (let seed = PLS_KEY_EXPAND @ take 32 sr @ take 32 cr in
      case calls of
        Ssl3Callouts \<Rightarrow> take n (concat (map (ssl3_key_chunk P ms sr cr) [0..<n]))
      | Tls1Callouts \<Rightarrow> xor_bytes (PRF_expand (CCHmac P HA_MD5) (PRF_half1 (take 48 ms)) seed n)
                                 (PRF_expand (CCHmac P HA_SHA1) (PRF_half2 (take 48 ms)) seed n)
      | Tls12Callouts \<Rightarrow> PRF_expand (CCHmac P (tls12PrfHmac suite)) (take 48 ms) seed n)"

lemma length_ssl3_key_chunk: "platform_ok P \<Longrightarrow> length (ssl3_key_chunk P ms sr cr i) = 16"
  by (simp add: ssl3_key_chunk_def length_CC_Digest digest_length_def)

lemma length_ssl3_key_chunks:
  "platform_ok P \<Longrightarrow> length (concat (map (ssl3_key_chunk P ms sr cr) is)) = 16 * length is"
  by (induction "is") (simp_all add: length_ssl3_key_chunk)

lemma length_key_block: "platform_ok P \<Longrightarrow> length (key_block P calls suite ms sr cr n) = n"
  by (simp add: key_block_def Let_def length_ssl3_key_chunks length_PRF_expand split: SslTlsCallouts.split)

text \<open>The loop gives the concatenation of the chunks, cut to the requested length.\<close>

lemma ssl3_loop_spec:
  assumes ok: "platform_ok P" and "remaining \<le> 16 * k"
  shows "ssl3GenerateKeyMaterial_loop P ctx i remaining (Some []) (Some []) key =
    Some (noErr, key @ take remaining (concat (map (ssl3_key_chunk P (masterSecret ctx) (serverRandom ctx) (clientRandom ctx)) [i..<i + k])))"
  using assms(2)
proof (induction k arbitrary: i remaining key)
  case 0
  then show ?case by simp
next
  case (Suc k)
  let ?chunk = "ssl3_key_chunk P (masterSecret ctx) (serverRandom ctx) (clientRandom ctx)"
  have len: "length (?chunk i) = 16" using ok by (rule length_ssl3_key_chunk)
  have upt: "[i..<i + Suc k] = i # [Suc i..<Suc i + k]" by (simp add: upt_rec)
  have step: "ssl3GenerateKeyMaterial_loop P ctx i remaining (Some []) (Some []) key =
    (if remaining = 0 then Some (noErr, key)
     else if remaining - min 16 remaining > 0
     then ssl3GenerateKeyMaterial_loop P ctx (i + 1) (remaining - 16) (Some []) (Some []) (key @ take (min 16 remaining) (?chunk i))
     else Some (noErr, key @ take (min 16 remaining) (?chunk i)))"
    by (subst ssl3GenerateKeyMaterial_loop.simps)
      (simp add: Let_def length_CC_Digest [OF ok] digest_length_def ssl3_key_chunk_def min_def)
  show ?case
  proof (cases "remaining \<le> 16")
    case True
    then show ?thesis using step len upt by (simp add: min_def)
  next
    case False
    then have "remaining - 16 \<le> 16 * k" using Suc.prems by simp
    from Suc.IH [OF this, of "i + 1"] show ?thesis
      using False step len upt by simp
  qed
qed

lemma call_generateKeyMaterial_ok:
  assumes "platform_ok P" "n \<le> 160"
  shows "call_generateKeyMaterial P n ctx = Some (noErr, key_block P (sslTslCalls ctx) (selectedCipher ctx)
    (masterSecret ctx) (serverRandom ctx) (clientRandom ctx) n)"
proof (cases "sslTslCalls ctx")
  case Ssl3Callouts
  then show ?thesis
    using assms ssl3_loop_spec [OF assms(1), of n n ctx 0 "[]"]
    by (simp add: call_generateKeyMaterial_def ssl3GenerateKeyMaterial_def ReadyHash_ok key_block_def)
next
  case Tls1Callouts
  then show ?thesis
    using assms by (simp add: call_generateKeyMaterial_def tls1GenerateKeyMaterial_def tls_key_material_def
        SSLInternal_PRF_spec key_block_def Let_def label_lengths)
next
  case Tls12Callouts
  then show ?thesis
    using assms by (simp add: call_generateKeyMaterial_def tls12GenerateKeyMaterial_def tls_key_material_def
        tls12_PRF_spec key_block_def Let_def label_lengths)
qed

section \<open>Finished messages\<close>

text \<open>
  The verification data of the Finished message as a function of the transcript: what SSLv3, TLS 1.0
  and TLS 1.2 define.
\<close>

definition ssl3_finished :: "platform \<Rightarrow> bytes \<Rightarrow> bytes \<Rightarrow> bytes \<Rightarrow> bytes" where
  "ssl3_finished P ms sender transcript =
     (let f = (\<lambda>h. CC_Digest P h (ms @ replicate (macPadSize h) 0x5C @
        CC_Digest P h (transcript @ sender @ ms @ replicate (macPadSize h) 0x36))) in
      f SSLHashMD5 @ f SSLHashSHA1)"

definition finished_data ::
  "platform \<Rightarrow> SslTlsCallouts \<Rightarrow> uint16 \<Rightarrow> bytes \<Rightarrow> bytes \<Rightarrow> bool \<Rightarrow> nat \<Rightarrow> bytes" where
  "finished_data P calls suite ms transcript isServer n =
     (case calls of
        Ssl3Callouts \<Rightarrow> ssl3_finished P ms
          (SSLEncodeInt (if isServer then SSL_Finished_Sender_Server else SSL_Finished_Sender_Client) 4) transcript
      | Tls1Callouts \<Rightarrow>
          (let seed = finish_label isServer @ CC_Digest P SSLHashMD5 transcript @ CC_Digest P SSLHashSHA1 transcript
           in xor_bytes (PRF_expand (CCHmac P HA_MD5) (PRF_half1 (take 48 ms)) seed n)
                        (PRF_expand (CCHmac P HA_SHA1) (PRF_half2 (take 48 ms)) seed n))
      | Tls12Callouts \<Rightarrow> PRF_expand (CCHmac P (tls12PrfHmac suite)) (take 48 ms)
          (finish_label isServer @ CC_Digest P (tls12FinishedHash suite) transcript) n)"

lemma digest_run_ok:
  "platform_ok P \<Longrightarrow> h \<noteq> SSLHashNull \<Longrightarrow>
   digest_run P h (Some bs) parts = Some (noErr, CC_Digest P h (concat parts), Some (concat parts))"
  by (simp add: digest_run_def hash_updates_Some)

lemma tls12_transcript_ok:
  assumes "platform_ok P" "sha256State ctx = Some tr" "sha384State ctx = Some tr"
  shows "tls12_transcript P ctx = Some (noErr, CC_Digest P (tls12FinishedHash (selectedCipher ctx)) tr)"
proof -
  have "tls12FinishedState ctx = Some tr" using assms by (simp add: tls12FinishedState_def)
  moreover have "tls12FinishedHash s \<noteq> SSLHashNull"
    "tls12FinishedDigestLen s = digest_length (tls12FinishedHash s)" for s
    by (simp_all add: tls12FinishedHash_def tls12FinishedDigestLen_def digest_length_def)
  ultimately show ?thesis using assms(1) by (simp add: tls12_transcript_def CloneHashState_ok Let_def)
qed

lemma call_computeFinishedMac_ok:
  assumes ok: "platform_ok P" and "sha256State ctx = Some tr" "sha384State ctx = Some tr" "n < 4294967296"
  shows "call_computeFinishedMac P n (Some tr) (Some tr) isServer ctx =
    Some (noErr, finished_data P (sslTslCalls ctx) (selectedCipher ctx) (masterSecret ctx) tr isServer n)"
proof (cases "sslTslCalls ctx")
  case Ssl3Callouts
  have pads: "take 48 SSLMACPad1 = replicate 48 0x36" "take 40 SSLMACPad1 = replicate 40 0x36"
    "take 48 SSLMACPad2 = replicate 48 0x5C" "take 40 SSLMACPad2 = replicate 40 0x5C"
    by (simp_all add: SSLMACPad1_def SSLMACPad2_def)
  show ?thesis
    using Ssl3Callouts ok
    by (simp add: call_computeFinishedMac_def ssl3ComputeFinishedMac_def ssl3CalculateFinishedMessage_def Let_def
        hash_updates_Some digest_run_ok digest_length_def pads macPadSize_def finished_data_def ssl3_finished_def)
next
  case Tls1Callouts
  then show ?thesis
    using ok assms(4) by (simp add: call_computeFinishedMac_def tls1ComputeFinishedMac_def digest_length_def
        SSLInternal_PRF_spec finished_data_def Let_def label_lengths length_CC_Digest)
next
  case Tls12Callouts
  then show ?thesis
    using assms tls12_transcript_ok [OF assms(1-3)]
    by (simp add: call_computeFinishedMac_def tls12ComputeFinishedMac_def tls12_PRF_spec finished_data_def label_lengths
        length_CC_Digest digest_length_def tls12FinishedHash_def)
qed

section \<open>Master secrets\<close>

definition master_secret :: "platform \<Rightarrow> SslTlsCallouts \<Rightarrow> uint16 \<Rightarrow> bytes \<Rightarrow> bytes \<Rightarrow> bytes \<Rightarrow> bytes" where
  "master_secret P calls suite pms cr sr =
     (let seed = PLS_MASTER_SECRET @ take 32 cr @ take 32 sr in
      case calls of
        Ssl3Callouts \<Rightarrow> concat (map (\<lambda>i. CC_Digest P SSLHashMD5 (pms @
          CC_Digest P SSLHashSHA1 (replicate i (of_nat (0x40 + i)) @ pms @ cr @ sr))) [1, 2, 3])
      | Tls1Callouts \<Rightarrow> xor_bytes (PRF_expand (CCHmac P HA_MD5) (PRF_half1 pms) seed 48)
                                 (PRF_expand (CCHmac P HA_SHA1) (PRF_half2 pms) seed 48)
      | Tls12Callouts \<Rightarrow> PRF_expand (CCHmac P (tls12PrfHmac suite)) (trunc32 pms) seed 48)"

lemma ssl3_master_loop_spec:
  assumes "platform_ok P"
  shows "ssl3GenerateMasterSecret_loop P pms cr sr is (Some s) (Some m) out = Some (noErr, out @
    concat (map (\<lambda>i. CC_Digest P SSLHashMD5 (pms @
      CC_Digest P SSLHashSHA1 (replicate i (of_nat (0x40 + i)) @ pms @ cr @ sr))) is))"
  by (induction "is" arbitrary: s m out) (simp_all add: digest_run_ok [OF assms] digest_length_def)

lemma length_master_secret:
  "platform_ok P \<Longrightarrow> length (master_secret P calls suite pms cr sr) = 48"
  by (simp add: master_secret_def Let_def length_CC_Digest digest_length_def length_PRF_expand split: SslTlsCallouts.split)

lemma call_generateMasterSecret_ok:
  assumes "platform_ok P" "length (masterSecret ctx) = 48"
  shows "call_generateMasterSecret P ctx = Some (noErr, ctx\<lparr>masterSecret :=
    master_secret P (sslTslCalls ctx) (selectedCipher ctx) (preMaster ctx) (clientRandom ctx) (serverRandom ctx)\<rparr>)"
proof -
  have st: "store_master (master_secret P calls s pms cr sr) ctx = ctx\<lparr>masterSecret := master_secret P calls s pms cr sr\<rparr>"
    for calls s pms cr sr
    using assms by (simp add: store_master_def length_master_secret)
  show ?thesis
  proof (cases "sslTslCalls ctx")
    case Ssl3Callouts
    then show ?thesis
      using assms(1) ssl3_master_loop_spec [OF assms(1), of "preMaster ctx" "clientRandom ctx" "serverRandom ctx" "[1, 2, 3]" _ _ "[]"]
        st [of Ssl3Callouts, unfolded master_secret_def Let_def]
      by (simp add: call_generateMasterSecret_def ssl3GenerateMasterSecret_def SSLAllocBuffer_ok master_secret_def Let_def)
  next
    case Tls1Callouts
    then show ?thesis
      using assms(1) st [of Tls1Callouts, unfolded master_secret_def Let_def]
      by (simp add: call_generateMasterSecret_def tls1GenerateMasterSecret_def tls_master_secret_def
          SSLInternal_PRF_spec master_secret_def Let_def label_lengths)
  next
    case Tls12Callouts
    then show ?thesis
      using assms(1) st [of Tls12Callouts, unfolded master_secret_def Let_def]
      by (simp add: call_generateMasterSecret_def tls12GenerateMasterSecret_def tls_master_secret_def
          tls12_PRF_spec master_secret_def Let_def label_lengths)
  qed
qed

end
