(* ===== verification/Record_Write.thy ===== *)
theory Record_Write
  imports Mac
begin

text \<open>
  The write side of the record layer: \<open>SSL2WriteRecord\<close> and \<open>SSL2CalculateMAC\<close> of
  \<open>ssl2Record.c\<close>, \<open>ssl3WriteRecord\<close> of \<open>ssl3Callouts.c\<close> (SSLv3, TLS 1.0 and TLS 1.1), and
  \<open>tls12WriteGcmRecord\<close> and \<open>tls12WriteRecord\<close> of \<open>tls12Callouts.c\<close>. A write builds the octets
  of the record and appends them to the queue that \<open>SSLServiceWriteQueue\<close> later sends.

  \<open>None\<close> stands for a failed assertion, or for the NULL dereference that follows a failed
  allocation where the code does not test for it.
\<close>

section \<open>Building blocks\<close>

text \<open>\<open>payloadSize\<close> is a \<open>UInt16\<close>; the assertion on the length keeps it from wrapping.\<close>

definition UInt16_of :: "nat \<Rightarrow> nat" where
  "UInt16_of n = n mod 65536"

definition enqueue :: "bytes \<Rightarrow> SSLContext \<Rightarrow> SSLContext" where
  "enqueue out ctx = ctx\<lparr>recordWriteQueue := recordWriteQueue ctx @ [\<lparr>sent = 0, wdata = out\<rparr>]\<rparr>"

definition bump_write_seq :: "SSLContext \<Rightarrow> SSLContext" where
  "bump_write_seq ctx =
     ctx\<lparr>writeCipher := (writeCipher ctx)\<lparr>sequenceNum := IncrementUInt64 (sequenceNum (writeCipher ctx))\<rparr>\<rparr>"

definition record_header :: "SSLRecord \<Rightarrow> nat \<Rightarrow> bytes" where
  "record_header rec payloadSize =
     [contentType rec] @ SSLEncodeInt (protocolVersion rec) 2 @ SSLEncodeInt (of_nat payloadSize) 2"

text \<open>The padding octets and the padding length octet all hold the padding value.\<close>

definition cbc_padding :: "nat \<Rightarrow> nat \<Rightarrow> bytes" where
  "cbc_padding bs len =
     (if bs > 0 then replicate (bs - len mod bs) (of_nat (bs - len mod bs - 1)) else [])"

text \<open>The MAC of the plaintext, skipped when the suite has none.\<close>

definition mac_record ::
  "platform \<Rightarrow> SSLRecord \<Rightarrow> SSLContext \<Rightarrow> CipherContext \<Rightarrow> (OSStatus \<times> bytes \<times> CipherContext) option" where
  "mac_record P rec ctx w =
     (if digestSize (hash_of (macRef w)) > 0
      then call_computeMac P (sslTslCalls ctx) (negProtocolVersion ctx) (contentType rec)
             (contents rec) w (sequenceNum w)
      else Some (noErr, [], w))"

text \<open>The common tail of the write routines: encrypt in place, enqueue, advance the sequence number.\<close>

definition encrypt_and_queue ::
  "platform \<Rightarrow> bytes \<Rightarrow> bytes \<Rightarrow> CipherContext \<Rightarrow> SSLContext \<Rightarrow> (OSStatus \<times> SSLContext) option" where
  "encrypt_and_queue P header body w ctx =
     do { (err, payload, w') \<leftarrow> cipher_encrypt P body body w;
          if err \<noteq> noErr then Some (err, ctx\<lparr>writeCipher := w'\<rparr>)
          else Some (noErr, bump_write_seq (enqueue (header @ payload) (ctx\<lparr>writeCipher := w'\<rparr>))) }"

section \<open>SSL 2.0\<close>

definition SSL2CalculateMAC ::
  "platform \<Rightarrow> bytes \<Rightarrow> bytes \<Rightarrow> uint32 \<Rightarrow> HashReference \<Rightarrow> (OSStatus \<times> bytes) option" where
  "SSL2CalculateMAC P secret content seqNo hash =
     (let room = replicate (digestSize hash) 0 in
      do { (err, st) \<leftarrow> ReadyHash P hash;
           if err \<noteq> noErr then Some (err, room) else do {
           (err, st) \<leftarrow> hash_updates hash st [secret, content, SSLEncodeInt seqNo 4];
           if err \<noteq> noErr then Some (err, room) else hash_final P hash st room }})"

definition SSL2WriteRecord :: "platform \<Rightarrow> SSLRecord \<Rightarrow> SSLContext \<Rightarrow> (OSStatus \<times> SSLContext) option" where
  "SSL2WriteRecord P rec ctx =
     (let w = writeCipher ctx;
          digest = digestSize (hash_of (macRef w));
          bs = blockSize (symCipher w);
          size0 = UInt16_of (length (contents rec) + digest);
          padding = (if bs > 0 \<and> bs - size0 mod bs \<noteq> bs then bs - size0 mod bs else 0);
          payloadSize = (if bs > 0 then UInt16_of (size0 + padding) else size0);
          header = (if bs > 0 then SSLEncodeInt (of_nat payloadSize) 2 @ [of_nat padding]
                    else SSLEncodeInt (of_nat payloadSize OR 0x8000) 2);
          content = contents rec @ replicate padding (of_nat padding)
      in
      if length (contents rec) \<ge> 16384 then None
      else if \<not> mallocOk P (24 + length header + payloadSize) then None
      else do {
        (err, mac) \<leftarrow> (if digest > 0
                      then SSL2CalculateMAC P (take (keySize (symCipher w)) (macSecret w)) content
                             (low (sequenceNum w)) (hash_of (macRef w))
                      else Some (noErr, []));
        if err \<noteq> noErr then Some (err, ctx)
        else encrypt_and_queue P header (mac @ content) w ctx })"

section \<open>SSLv3, TLS 1.0 and TLS 1.1\<close>

definition ssl3WriteRecord :: "platform \<Rightarrow> SSLRecord \<Rightarrow> SSLContext \<Rightarrow> (OSStatus \<times> SSLContext) option" where
  "ssl3WriteRecord P rec ctx =
     (if protocolVersion rec = SSL_Version_2_0 then SSL2WriteRecord P rec ctx
      else if protocolVersion rec \<notin> {SSL_Version_3_0, TLS_Version_1_0, TLS_Version_1_1, TLS_Version_1_2}
      then None
      else if length (contents rec) > 16384 then None
      else
        (let w = writeCipher ctx;
             digest = digestSize (hash_of (macRef w));
             bs = blockSize (symCipher w);
             size0 = UInt16_of (length (contents rec) + digest);
             pad = cbc_padding bs size0;
             payloadSize = UInt16_of (size0 + length pad)
         in
         if \<not> mallocOk P (24 + 5 + payloadSize) then None
         else do {
           (err, mac, w1) \<leftarrow> mac_record P rec ctx w;
           if err \<noteq> noErr then Some (err, ctx\<lparr>writeCipher := w1\<rparr>)
           else encrypt_and_queue P (record_header rec payloadSize) (contents rec @ mac @ pad) w1 ctx }))"

section \<open>TLS 1.2\<close>

text \<open>seq_num(8) || content_type(1) || version(2) || plaintext_length(2)\<close>

definition tls12GcmBuildAad :: "sslUint64 \<Rightarrow> byte \<Rightarrow> SSLProtocolVersion \<Rightarrow> uint16 \<Rightarrow> bytes" where
  "tls12GcmBuildAad seqNum type vers plaintextLen =
     SSLEncodeUInt64 seqNum @ [type, ucast (drop_bit 8 vers), ucast vers,
       ucast (drop_bit 8 plaintextLen), ucast plaintextLen]"

text \<open>
  The union \<open>cc\<close> is read as the GCM context; a cryptor there has no defined behaviour.
  The explicit nonce is the sequence number.
\<close>

definition tls12WriteGcmRecord :: "platform \<Rightarrow> SSLRecord \<Rightarrow> SSLContext \<Rightarrow> (OSStatus \<times> SSLContext) option" where
  "tls12WriteGcmRecord P rec ctx =
     (let w = writeCipher ctx;
          len = length (contents rec);
          payloadSize = UInt16_of (8 + len + 16);
          explicitNonce = SSLEncodeUInt64 (sequenceNum w);
          aad = tls12GcmBuildAad (sequenceNum w) (contentType rec) (protocolVersion rec) (of_nat len)
      in
      if len > 16384 then None
      else case cc w of
        NoCC \<Rightarrow> Some (errSSLInternal, ctx)
      | CC_cryptorRef _ \<Rightarrow> None
      | CC_aes gcm \<Rightarrow>
          if \<not> mallocOk P (24 + 5 + payloadSize) then Some (memFullErr, ctx)
          else (case sslGcmEncrypt P (Some gcm) explicitNonce aad (contents rec) of
                  None \<Rightarrow> Some (errSSLInternal, ctx)
                | Some (ct, tag) \<Rightarrow> Some (noErr, bump_write_seq
                    (enqueue (record_header rec payloadSize @ explicitNonce @ ct @ tag) ctx))))"

definition tls12WriteRecord :: "platform \<Rightarrow> SSLRecord \<Rightarrow> SSLContext \<Rightarrow> (OSStatus \<times> SSLContext) option" where
  "tls12WriteRecord P rec ctx =
     (if length (contents rec) > 16384 then None
      else if isGcm (symCipher (writeCipher ctx)) then tls12WriteGcmRecord P rec ctx
      else
        (let w = writeCipher ctx;
             digest = digestSize (hash_of (macRef w));
             bs = blockSize (symCipher w);
             explicitIVLen = (if bs > 0 \<and> negProtocolVersion ctx \<ge> TLS_Version_1_1 then bs else 0);
             size0 = UInt16_of (explicitIVLen + length (contents rec) + digest);
             pad = cbc_padding bs size0;
             payloadSize = UInt16_of (size0 + length pad)
         in
         if \<not> mallocOk P (24 + 5 + payloadSize) then Some (memFullErr, ctx)
         else
           (let (err, iv, ctx) = (if explicitIVLen > 0 then sslRand P explicitIVLen ctx else (noErr, [], ctx)) in
            if err \<noteq> noErr then Some (err, ctx)
            else do {
              (err, mac, w1) \<leftarrow> mac_record P rec ctx w;
              if err \<noteq> noErr then Some (err, ctx\<lparr>writeCipher := w1\<rparr>)
              else encrypt_and_queue P (record_header rec payloadSize)
                     (iv @ contents rec @ mac @ pad) w1 ctx })))"

text \<open>\<open>ctx->sslTslCalls->writeRecord\<close>: SSLv3, TLS 1.0 and TLS 1.1 share one routine.\<close>

definition call_writeRecord :: "platform \<Rightarrow> SSLRecord \<Rightarrow> SSLContext \<Rightarrow> (OSStatus \<times> SSLContext) option" where
  "call_writeRecord P rec ctx =
     (case sslTslCalls ctx of Tls12Callouts \<Rightarrow> tls12WriteRecord P rec ctx
      | _ \<Rightarrow> ssl3WriteRecord P rec ctx)"

section \<open>Sizes\<close>

lemma length_record_header [simp, len_simps]: "length (record_header rec n) = 5"
  by (simp add: record_header_def)

lemma length_tls12GcmBuildAad [simp, len_simps]: "length (tls12GcmBuildAad s t v l) = 13"
  by (simp add: tls12GcmBuildAad_def)

lemma length_cbc_padding:
  "length (cbc_padding bs len) = (if bs > 0 then bs - len mod bs else 0)"
  by (simp add: cbc_padding_def)

lemma cbc_padding_aligned: "bs > 0 \<Longrightarrow> bs dvd len + length (cbc_padding bs len)"
proof -
  assume bs: "bs > 0"
  then have "len mod bs \<le> bs" by (simp add: less_imp_le)
  then have "len + (bs - len mod bs) = len div bs * bs + bs"
    using div_mult_mod_eq [of len bs] by linarith
  with bs show ?thesis by (simp add: length_cbc_padding)
qed

lemma cbc_padding_le: "length (cbc_padding bs len) \<le> bs"
  by (simp add: length_cbc_padding)

lemma UInt16_of_small [simp]: "n < 65536 \<Longrightarrow> UInt16_of n = n"
  by (simp add: UInt16_of_def)

lemma blockSize_le: "blockSize c \<le> 16"
  using blockSize_cases [of c] by auto

lemma hmac_length_le_48: "hmac_length a \<le> 48"
  using hmac_length_le_max [of a] by (simp add: TLS_HMAC_MAX_SIZE_def)

section \<open>What a write touches\<close>

text \<open>
  A write changes only the write cipher, the queue (it appends at most one record) and the
  position in the random source.
\<close>

definition write_frame :: "SSLContext \<Rightarrow> SSLContext \<Rightarrow> bool" where
  "write_frame ctx ctx' \<longleftrightarrow>
     ctx' = ctx\<lparr>writeCipher := writeCipher ctx', recordWriteQueue := recordWriteQueue ctx',
               rngPos := rngPos ctx'\<rparr> \<and>
     take (length (recordWriteQueue ctx)) (recordWriteQueue ctx') = recordWriteQueue ctx \<and>
     length (recordWriteQueue ctx') \<le> length (recordWriteQueue ctx) + 1"

lemma write_frame_intros:
  "write_frame ctx ctx"
  "write_frame ctx (ctx\<lparr>writeCipher := w\<rparr>)"
  "write_frame ctx (ctx\<lparr>rngPos := n\<rparr>)"
  "write_frame ctx (ctx\<lparr>rngPos := n, writeCipher := w\<rparr>)"
  "write_frame ctx (bump_write_seq (enqueue r ctx))"
  "write_frame ctx (bump_write_seq (enqueue r (ctx\<lparr>writeCipher := w\<rparr>)))"
  "write_frame ctx (bump_write_seq (enqueue r (ctx\<lparr>rngPos := n, writeCipher := w\<rparr>)))"
  by (simp_all add: write_frame_def bump_write_seq_def enqueue_def)

lemma write_frame_proj:
  assumes "write_frame ctx ctx'"
    and "\<And>w q n. f (ctx\<lparr>writeCipher := w, recordWriteQueue := q, rngPos := n\<rparr>) = f ctx"
  shows "f ctx' = f ctx"
  using assms unfolding write_frame_def by metis

lemma write_frame_simps:
  assumes "write_frame ctx ctx'"
  shows "state ctx' = state ctx" "sentFatalAlert ctx' = sentFatalAlert ctx"
    "sessionCache ctx' = sessionCache ctx" "peerID ctx' = peerID ctx"
    "negProtocolVersion ctx' = negProtocolVersion ctx" "sslTslCalls ctx' = sslTslCalls ctx"
    "readCipher ctx' = readCipher ctx" "protocolSide ctx' = protocolSide ctx" "wireOut ctx' = wireOut ctx"
  by (rule write_frame_proj [OF assms], simp)+

lemma sslRand_frame: "sslRand P n ctx = (err, bs, ctx') \<Longrightarrow> \<exists>m. ctx' = ctx\<lparr>rngPos := m\<rparr>"
  by (auto simp: sslRand_def split: if_splits option.splits intro: exI [of _ "rngPos ctx"])

lemma encrypt_and_queue_frame:
  "encrypt_and_queue P header body w ctx = Some (err, ctx') \<Longrightarrow> write_frame ctx ctx'"
  by (auto simp: encrypt_and_queue_def bind_eq_Some_conv write_frame_intros split: if_split_asm)

lemma SSL2WriteRecord_frame: "SSL2WriteRecord P rec ctx = Some (err, ctx') \<Longrightarrow> write_frame ctx ctx'"
  unfolding SSL2WriteRecord_def Let_def bind_eq_Some_conv
  by (elim if_SomeE bind_SomeE; clarsimp simp: write_frame_intros encrypt_and_queue_frame split: if_split_asm)

lemma ssl3WriteRecord_frame: "ssl3WriteRecord P rec ctx = Some (err, ctx') \<Longrightarrow> write_frame ctx ctx'"
  unfolding ssl3WriteRecord_def Let_def
  by (elim if_SomeE bind_SomeE; clarsimp simp: write_frame_intros SSL2WriteRecord_frame encrypt_and_queue_frame split: if_split_asm)

lemma tls12WriteGcmRecord_frame: "tls12WriteGcmRecord P rec ctx = Some (err, ctx') \<Longrightarrow> write_frame ctx ctx'"
  unfolding tls12WriteGcmRecord_def Let_def
  by (auto simp: write_frame_intros split: if_split_asm cc_union.split_asm option.split_asm)

lemma encrypt_and_queue_frame_rng:
  "encrypt_and_queue P header body w (ctx\<lparr>rngPos := n\<rparr>) = Some (err, ctx') \<Longrightarrow> write_frame ctx ctx'"
  by (auto simp: encrypt_and_queue_def bind_eq_Some_conv write_frame_intros split: if_split_asm)

lemma explicit_iv_eq: "(if n > 0 then sslRand P n ctx else (noErr, [], ctx)) = sslRand P n ctx"
  by (simp add: sslRand_def)

lemma case_SomeE:
  "(case p of (a, b, c) \<Rightarrow> f a b c) = Some y \<Longrightarrow> (\<And>a b c. p = (a, b, c) \<Longrightarrow> f a b c = Some y \<Longrightarrow> R) \<Longrightarrow> R"
  by (cases p) auto

lemma tls12WriteRecord_frame: "tls12WriteRecord P rec ctx = Some (err, ctx') \<Longrightarrow> write_frame ctx ctx'"
  unfolding tls12WriteRecord_def Let_def explicit_iv_eq
  by (elim if_SomeE bind_SomeE case_SomeE; (drule sslRand_frame)?;
      clarsimp simp: write_frame_intros tls12WriteGcmRecord_frame encrypt_and_queue_frame_rng
        split: if_split_asm)

lemma call_writeRecord_frame: "call_writeRecord P rec ctx = Some (err, ctx') \<Longrightarrow> write_frame ctx ctx'"
  by (auto simp: call_writeRecord_def ssl3WriteRecord_frame tls12WriteRecord_frame
      split: SslTlsCallouts.split_asm)

end
