(* ===== verification/Session.thy ===== *)
theory Session
  imports Cipher_Specs
begin

text \<open>
  Model of \<open>sslSession.c\<close>: a resumable session is stored in the cache as the memory image of
  \<open>struct ResumableSession\<close> followed by the certificates, under the key \<open>ctx->peerID\<close>. The image is
  little-endian (the platform of the library) with the fields at the offsets the C layout
  gives them; reading or writing outside it has no defined behaviour (\<open>None\<close>).
\<close>

section \<open>The memory image\<close>

definition le32 :: "uint32 \<Rightarrow> bytes" where
  "le32 v = rev (SSLEncodeInt v 4)"

definition le16 :: "uint16 \<Rightarrow> bytes" where
  "le16 v = rev (SSLEncodeInt (ucast v) 2)"

definition rd32 :: "nat \<Rightarrow> bytes \<Rightarrow> uint32" where
  "rd32 off b = SSLDecodeInt (rev (take 4 (drop off b))) 4"

definition rd16 :: "nat \<Rightarrow> bytes \<Rightarrow> uint16" where
  "rd16 off b = ucast (SSLDecodeInt (rev (take 2 (drop off b))) 2)"

definition encode_certs :: "bytes list \<Rightarrow> bytes" where
  "encode_certs certs = concat (map (\<lambda>c. SSLEncodeInt (of_nat (length c)) 4 @ c) certs)"

text \<open>
  Offsets: sessionIDLen 0, sessionID 4, protocolVersion 36, cipherSuite 40, padding 42,
  masterSecret 44, certCount 92, certs 96.
\<close>

definition session_image ::
  "bytes \<Rightarrow> SSLProtocolVersion \<Rightarrow> uint16 \<Rightarrow> bytes \<Rightarrow> bytes list \<Rightarrow> bytes" where
  "session_image sid vers suite ms certs =
     le32 (of_nat (length sid)) @ sid @ replicate (32 - length sid) 0 @ le32 vers @ le16 suite @
     le16 0 @ take 48 ms @ le32 (of_nat (length certs)) @ encode_certs certs"

section \<open>The operations\<close>

text \<open>The length of the image is a \<open>uint32\<close>; when the sum wraps around, the certificates are written beyond the buffer (\<open>None\<close>).\<close>

definition SSLAddSessionData :: "platform \<Rightarrow> SSLContext \<Rightarrow> (OSStatus \<times> SSLContext) option" where
  "SSLAddSessionData P ctx =
     (case peerID ctx of
        None \<Rightarrow> Some (errSSLSessionNotFound, ctx)
      | Some pid \<Rightarrow>
          (let sid = (case sessionID ctx of None \<Rightarrow> [] | Some s \<Rightarrow> s);
               sessionIDLen = (96 + length (encode_certs (peerCert ctx))) mod 2 ^ 32;
               (err, buf) = SSLAllocBuffer P sessionIDLen
           in
           if err \<noteq> noErr then Some (err, ctx)
           else if length sid > 32 \<or> 96 + length (encode_certs (peerCert ctx)) \<ge> 2 ^ 32 then None
           else do {
             (err, cache) \<leftarrow> sslAddSession P (sessionCache ctx) pid
                (session_image sid (negProtocolVersion ctx) (selectedCipher ctx) (masterSecret ctx) (peerCert ctx))
                (unat (sessionCacheTimeout ctx));
             Some (err, ctx\<lparr>sessionCache := cache\<rparr>) }))"

definition SSLGetSessionData :: "platform \<Rightarrow> SSLContext \<Rightarrow> OSStatus \<times> bytes option \<times> SSLContext" where
  "SSLGetSessionData P ctx =
     (case peerID ctx of
        None \<Rightarrow> (errSSLSessionNotFound, None, ctx)
      | Some pid \<Rightarrow>
          (case sslGetSession P (sessionCache ctx) pid of
             (err, sessionData, cache) \<Rightarrow>
               (if sessionData = None then errSSLSessionNotFound else err, sessionData,
                ctx\<lparr>sessionCache := cache\<rparr>)))"

definition SSLDeleteSessionData :: "SSLContext \<Rightarrow> OSStatus \<times> SSLContext" where
  "SSLDeleteSessionData ctx =
     (case peerID ctx of
        None \<Rightarrow> (errSSLSessionNotFound, ctx)
      | Some pid \<Rightarrow> (case sslDeleteSession (sessionCache ctx) pid of
                      (err, cache) \<Rightarrow> (err, ctx\<lparr>sessionCache := cache\<rparr>)))"

definition SSLRetrieveSessionID :: "platform \<Rightarrow> bytes \<Rightarrow> (OSStatus \<times> bytes option) option" where
  "SSLRetrieveSessionID P sessionData =
     (if length sessionData < 96 then None
      else
        (let n = unat (rd32 0 sessionData); (err, buf) = SSLAllocBuffer P n in
         if err \<noteq> noErr then Some (err, buf)
         else if n > 32 then None
         else Some (noErr, Some (take n (drop 4 sessionData)))))"

definition SSLRetrieveSessionProtocolVersion :: "bytes \<Rightarrow> (OSStatus \<times> SSLProtocolVersion) option" where
  "SSLRetrieveSessionProtocolVersion sessionData =
     (if length sessionData < 96 then None else Some (noErr, rd32 36 sessionData))"

text \<open>The loop over the stored certificates; the chain collected so far is returned on error too.\<close>

fun installCerts :: "platform \<Rightarrow> nat \<Rightarrow> bytes \<Rightarrow> bytes list \<Rightarrow> (OSStatus \<times> bytes list) option" where
  "installCerts P 0 progress acc = Some (noErr, acc)"
| "installCerts P (Suc certCount) progress acc =
     (if \<not> mallocOk P 24 then Some (memFullErr, acc)
      else if length progress < 4 then None
      else
        (let certLen = unat (SSLDecodeInt progress 4); rest = drop 4 progress;
             (err, buf) = SSLAllocBuffer P certLen in
         if err \<noteq> noErr then Some (err, acc)
         else if length rest < certLen then None
         else installCerts P certCount (drop certLen rest) (acc @ [take certLen rest])))"

definition SSLInstallSessionFromData :: "platform \<Rightarrow> bytes \<Rightarrow> SSLContext \<Rightarrow> (OSStatus \<times> SSLContext) option" where
  "SSLInstallSessionFromData P sessionData ctx =
     (if length sessionData < 96 then None
      else
        (let suite = rd16 40 sessionData;
             install = (\<lambda>ctx. do {
               (err, ctx) \<leftarrow> FindCipherSpec ctx;
               if err \<noteq> noErr then Some (err, ctx) else do {
               (err, certs) \<leftarrow> installCerts P (unat (rd32 92 sessionData)) (drop 96 sessionData) [];
               Some (err, ctx\<lparr>masterSecret := take 48 (drop 44 sessionData),
                              peerCert := (if certs = [] then peerCert ctx else certs)\<rparr>) }})
         in
         if negProtocolVersion ctx = SSL_Version_2_0 then
           (if protocolSide ctx = SSL_ClientSide then
              (if selectedCipher ctx \<noteq> 0 then None else install (ctx\<lparr>selectedCipher := suite\<rparr>))
            else if selectedCipher ctx \<noteq> suite then Some (errSSLProtocol, ctx)
            else install ctx)
         else if selectedCipher ctx = 0 then None
         else install ctx))"

section \<open>Reading back what was stored\<close>

lemma length_le32 [simp, len_simps]: "length (le32 v) = 4"
  by (simp add: le32_def)

lemma length_le16 [simp, len_simps]: "length (le16 v) = 2"
  by (simp add: le16_def)

lemma rd32_le32: "rd32 (length p) (p @ le32 v @ q) = v"
  by (simp add: rd32_def le32_def SSLDecodeInt_SSLEncodeInt take_bit_full_word)

lemma ucast_take_bit_16: "(ucast (take_bit 16 (ucast (v :: uint16) :: uint32)) :: uint16) = v"
  by (rule bit_word_eqI) (auto simp: bit_simps)

lemma rd16_le16: "rd16 (length p) (p @ le16 v @ q) = v"
  by (simp add: rd16_def le16_def SSLDecodeInt_SSLEncodeInt ucast_take_bit_16)

lemma length_encode_certs_Cons:
  "encode_certs (c # cs) = SSLEncodeInt (of_nat (length c)) 4 @ c @ encode_certs cs"
  by (simp add: encode_certs_def)

lemma unat_of_nat_32: "n < 4294967296 \<Longrightarrow> unat (of_nat n :: uint32) = n"
  by (simp add: unat_of_nat)

lemma installCerts_encode:
  assumes "platform_ok P" "\<forall>c\<in>set certs. length c < 4294967296"
  shows "installCerts P (length certs) (encode_certs certs @ rest) acc = Some (noErr, acc @ certs)"
  using assms(2)
proof (induction certs arbitrary: acc)
  case (Cons c cs)
  have "SSLDecodeInt (SSLEncodeInt (of_nat (length c)) 4) 4 = of_nat (length c)"
    by (simp add: SSLDecodeInt_SSLEncodeInt take_bit_full_word)
  with Cons assms(1) show ?case
    by (simp add: length_encode_certs_Cons SSLAllocBuffer_ok platform_malloc unat_of_nat_32)
qed simp

lemma length_session_image:
  "length sid \<le> 32 \<Longrightarrow> length ms = 48 \<Longrightarrow>
   length (session_image sid vers suite ms certs) = 96 + length (encode_certs certs)"
  by (simp add: session_image_def)

lemma session_image_fields:
  assumes "length sid \<le> 32" "length ms = 48" "length certs < 4294967296"
    and b_def: "b = session_image sid vers suite ms certs"
  shows "rd32 0 b = of_nat (length sid)" "take (length sid) (drop 4 b) = sid"
    "rd32 36 b = vers" "rd16 40 b = suite" "take 48 (drop 44 b) = ms"
    "unat (rd32 92 b) = length certs" "drop 96 b = encode_certs certs"
proof -
  let ?sid = "le32 (of_nat (length sid)) @ sid @ replicate (32 - length sid) 0"
  let ?pre = "?sid @ le32 vers @ le16 suite @ le16 0 @ ms"
  have b: "b = ?sid @ le32 vers @ le16 suite @ le16 0 @ ms @ le32 (of_nat (length certs)) @ encode_certs certs"
    using assms(2) by (simp add: b_def session_image_def)
  have len: "length ?sid = 36" "length ?pre = 92" using assms(1,2) by simp_all
  show "rd32 0 b = of_nat (length sid)"
    using rd32_le32 [of "[]"] by (simp add: b_def session_image_def)
  show "take (length sid) (drop 4 b) = sid" by (simp add: b)
  show "rd32 36 b = vers"
    using rd32_le32 [of ?sid] len by (simp add: b)
  show "rd16 40 b = suite"
    using rd16_le16 [of "?sid @ le32 vers"] len by (simp add: b)
  show "take 48 (drop 44 b) = ms" using assms(1,2) by (simp add: b)
  have "rd32 92 b = of_nat (length certs)"
    using rd32_le32 [of ?pre "of_nat (length certs)"] len by (simp add: b)
  then show "unat (rd32 92 b) = length certs"
    using assms(3) by (simp add: unat_of_nat_32)
  show "drop 96 b = encode_certs certs" using assms(1,2) by (simp add: b)
qed

section \<open>Resuming a session\<close>

text \<open>
  What \<open>SSLAddSessionData\<close> stores is what a later connection to the same peer gets back from
  the cache, field by field.
\<close>

definition stored_sessionID :: "SSLContext \<Rightarrow> bytes" where
  "stored_sessionID ctx = (case sessionID ctx of None \<Rightarrow> [] | Some s \<Rightarrow> s)"

text \<open>The sizes that fit the memory image.\<close>

definition storable :: "SSLContext \<Rightarrow> bool" where
  "storable ctx \<longleftrightarrow> length (stored_sessionID ctx) \<le> 32 \<and> length (masterSecret ctx) = 48 \<and>
     96 + length (encode_certs (peerCert ctx)) < 2 ^ 32"

lemma length_encode_certs:
  shows "c \<in> set certs \<Longrightarrow> length c \<le> length (encode_certs certs)"
    and "length certs \<le> length (encode_certs certs)"
  by (induction certs) (auto simp: encode_certs_def)

lemma storable_sizes:
  assumes "storable ctx"
  shows "length (peerCert ctx) < 4294967296" "\<forall>c\<in>set (peerCert ctx). length c < 4294967296"
  using assms length_encode_certs(1) [of _ "peerCert ctx"] length_encode_certs(2) [of "peerCert ctx"]
  by (fastforce simp: storable_def)+

definition image_of :: "SSLContext \<Rightarrow> bytes" where
  "image_of ctx = session_image (stored_sessionID ctx) (negProtocolVersion ctx) (selectedCipher ctx)
     (masterSecret ctx) (peerCert ctx)"

lemma storable_fields:
  assumes "storable ctx"
  shows "length (image_of ctx) \<ge> 96"
    "unat (rd32 0 (image_of ctx)) = length (stored_sessionID ctx)"
    "take (length (stored_sessionID ctx)) (drop 4 (image_of ctx)) = stored_sessionID ctx"
    "rd32 36 (image_of ctx) = negProtocolVersion ctx" "rd16 40 (image_of ctx) = selectedCipher ctx"
    "take 48 (drop 44 (image_of ctx)) = masterSecret ctx"
    "unat (rd32 92 (image_of ctx)) = length (peerCert ctx)"
    "drop 96 (image_of ctx) = encode_certs (peerCert ctx)"
  using assms session_image_fields [of "stored_sessionID ctx" "masterSecret ctx" "peerCert ctx" "image_of ctx"
      "negProtocolVersion ctx" "selectedCipher ctx"]
    length_session_image [of "stored_sessionID ctx" "masterSecret ctx"]
    storable_sizes [OF assms]
  by (simp_all add: storable_def image_of_def unat_of_nat_32)

text \<open>The entry can be looked up, with whatever clock, as long as the clock has not passed the expiration of the entry.\<close>

lemma SSLAddSessionData_stores:
  assumes "platform_ok P" "peerID ctx = Some pid" "storable ctx"
  obtains cache where "SSLAddSessionData P ctx = Some (noErr, ctx\<lparr>sessionCache := cache\<rparr>)"
    "\<And>Q c. platform_ok Q \<Longrightarrow> now Q \<le> session_expiry (now P) (sessionCache ctx) pid (unat (sessionCacheTimeout ctx)) \<Longrightarrow>
       peerID c = Some pid \<Longrightarrow> sessionCache c = cache \<Longrightarrow>
       \<exists>cache'. SSLGetSessionData Q c = (noErr, Some (image_of ctx), c\<lparr>sessionCache := cache'\<rparr>)"
proof -
  obtain cache where c: "sslAddSession P (sessionCache ctx) pid (image_of ctx) (unat (sessionCacheTimeout ctx)) = Some (noErr, cache)"
    "\<And>t. t \<le> session_expiry (now P) (sessionCache ctx) pid (unat (sessionCacheTimeout ctx)) \<Longrightarrow> session_view t cache pid = Some (image_of ctx)"
    using AddEntry_lasts [OF assms(1), of "sessionCache ctx" pid "image_of ctx" "unat (sessionCacheTimeout ctx)"]
    by (auto simp: sslAddSession_def)
  have "SSLAddSessionData P ctx = Some (noErr, ctx\<lparr>sessionCache := cache\<rparr>)"
    using assms c by (simp add: SSLAddSessionData_def SSLAllocBuffer_ok storable_def image_of_def stored_sessionID_def)
  moreover have "\<exists>cache'. SSLGetSessionData Q x = (noErr, Some (image_of ctx), x\<lparr>sessionCache := cache'\<rparr>)"
    if Q: "platform_ok Q" "now Q \<le> session_expiry (now P) (sessionCache ctx) pid (unat (sessionCacheTimeout ctx))"
      and x: "peerID x = Some pid" "sessionCache x = cache" for Q x
  proof -
    obtain e d cache' where l: "SessionCacheLookupEntry Q cache pid = (e, d, cache')" by (rule prod_cases3)
    with LookupEntry_view [OF Q(1) l] c(2) [OF Q(2)] x show ?thesis
      by (intro exI [of _ cache']) (simp add: SSLGetSessionData_def sslGetSession_def)
  qed
  ultimately show thesis by (rule that)
qed

lemma SSLInstallSessionFromData_restores:
  assumes "platform_ok P" "storable ctx" "FindCipherSpec c = Some (noErr, c')"
    and "negProtocolVersion c \<noteq> SSL_Version_2_0" "selectedCipher c \<noteq> 0"
  shows "SSLInstallSessionFromData P (image_of ctx) c =
    Some (noErr, c'\<lparr>masterSecret := masterSecret ctx,
      peerCert := (if peerCert ctx = [] then peerCert c' else peerCert ctx)\<rparr>)"
proof -
  have "installCerts P (length (peerCert ctx)) (encode_certs (peerCert ctx)) [] = Some (noErr, peerCert ctx)"
    using installCerts_encode [OF assms(1), of "peerCert ctx" "[]" "[]"] assms(2)
      storable_sizes [OF assms(2)] by simp
  then show ?thesis
    using assms(3-5) storable_fields [OF assms(2)]
    by (simp add: SSLInstallSessionFromData_def Let_def)
qed

lemma SSLRetrieve_restores:
  assumes "platform_ok P" "storable ctx"
  shows "SSLRetrieveSessionID P (image_of ctx) = Some (noErr, Some (stored_sessionID ctx))"
    "SSLRetrieveSessionProtocolVersion (image_of ctx) = Some (noErr, negProtocolVersion ctx)"
  using assms storable_fields [OF assms(2)]
  by (simp_all add: SSLRetrieveSessionID_def SSLRetrieveSessionProtocolVersion_def SSLAllocBuffer_ok storable_def Let_def)

end
