(* ===== verification/Alert.thy ===== *)
theory Alert
  imports Record_Write Session
begin

text \<open>
  Model of the sending half of \<open>sslAlertMessage.c\<close>: \<open>SSLEncodeAlert\<close>, \<open>SSLSendAlert\<close>,
  \<open>SSLFatalSessionAlert\<close>, and \<open>SSLDetectCertRejected\<close>. \<open>SSLProcessAlert\<close> needs the handshake and
  is in its theory. Alert descriptions are the octets of the wire format.
\<close>

section \<open>Alert descriptions\<close>

type_synonym AlertDescription = byte

abbreviation SSL_AlertLevelWarning :: byte where "SSL_AlertLevelWarning \<equiv> 1"
abbreviation SSL_AlertLevelFatal :: byte where "SSL_AlertLevelFatal \<equiv> 2"

abbreviation SSL_AlertCloseNotify :: AlertDescription where "SSL_AlertCloseNotify \<equiv> 0"
abbreviation SSL_AlertUnexpectedMsg :: AlertDescription where "SSL_AlertUnexpectedMsg \<equiv> 10"
abbreviation SSL_AlertBadRecordMac :: AlertDescription where "SSL_AlertBadRecordMac \<equiv> 20"
abbreviation SSL_AlertDecryptionFail :: AlertDescription where "SSL_AlertDecryptionFail \<equiv> 21"
abbreviation SSL_AlertRecordOverflow :: AlertDescription where "SSL_AlertRecordOverflow \<equiv> 22"
abbreviation SSL_AlertDecompressFail :: AlertDescription where "SSL_AlertDecompressFail \<equiv> 30"
abbreviation SSL_AlertHandshakeFail :: AlertDescription where "SSL_AlertHandshakeFail \<equiv> 40"
abbreviation SSL_AlertNoCert :: AlertDescription where "SSL_AlertNoCert \<equiv> 41"
abbreviation SSL_AlertBadCert :: AlertDescription where "SSL_AlertBadCert \<equiv> 42"
abbreviation SSL_AlertUnsupportedCert :: AlertDescription where "SSL_AlertUnsupportedCert \<equiv> 43"
abbreviation SSL_AlertCertRevoked :: AlertDescription where "SSL_AlertCertRevoked \<equiv> 44"
abbreviation SSL_AlertCertExpired :: AlertDescription where "SSL_AlertCertExpired \<equiv> 45"
abbreviation SSL_AlertCertUnknown :: AlertDescription where "SSL_AlertCertUnknown \<equiv> 46"
abbreviation SSL_AlertIllegalParam :: AlertDescription where "SSL_AlertIllegalParam \<equiv> 47"
abbreviation SSL_AlertUnknownCA :: AlertDescription where "SSL_AlertUnknownCA \<equiv> 48"
abbreviation SSL_AlertAccessDenied :: AlertDescription where "SSL_AlertAccessDenied \<equiv> 49"
abbreviation SSL_AlertDecodeError :: AlertDescription where "SSL_AlertDecodeError \<equiv> 50"
abbreviation SSL_AlertDecryptError :: AlertDescription where "SSL_AlertDecryptError \<equiv> 51"
abbreviation SSL_AlertExportRestriction :: AlertDescription where "SSL_AlertExportRestriction \<equiv> 60"
abbreviation SSL_AlertProtocolVersion :: AlertDescription where "SSL_AlertProtocolVersion \<equiv> 70"
abbreviation SSL_AlertInsufficientSecurity :: AlertDescription where "SSL_AlertInsufficientSecurity \<equiv> 71"
abbreviation SSL_AlertInternalError :: AlertDescription where "SSL_AlertInternalError \<equiv> 80"
abbreviation SSL_AlertUserCancelled :: AlertDescription where "SSL_AlertUserCancelled \<equiv> 90"
abbreviation SSL_AlertNoRenegotiation :: AlertDescription where "SSL_AlertNoRenegotiation \<equiv> 100"

abbreviation SSL_RecordTypeChangeCipher :: byte where "SSL_RecordTypeChangeCipher \<equiv> 20"
abbreviation SSL_RecordTypeAlert :: byte where "SSL_RecordTypeAlert \<equiv> 21"
abbreviation SSL_RecordTypeHandshake :: byte where "SSL_RecordTypeHandshake \<equiv> 22"
abbreviation SSL_RecordTypeAppData :: byte where "SSL_RecordTypeAppData \<equiv> 23"
abbreviation SSL_RecordTypeV2_0 :: byte where "SSL_RecordTypeV2_0 \<equiv> 0"

section \<open>The operations\<close>

definition SSLDetectCertRejected :: "SSLContext \<Rightarrow> AlertDescription \<Rightarrow> SSLContext" where
  "SSLDetectCertRejected ctx desc =
     (if protocolSide ctx = SSL_ServerSide then ctx
      else if clientCertState ctx \<noteq> kSSLClientCertSent then ctx
      else if desc \<in> {SSL_AlertBadCert, SSL_AlertUnsupportedCert, SSL_AlertCertRevoked,
                      SSL_AlertCertExpired, SSL_AlertCertUnknown, SSL_AlertUnknownCA}
      then ctx\<lparr>clientCertState := kSSLClientCertRejected\<rparr>
      else ctx)"

definition SSLEncodeAlert ::
  "platform \<Rightarrow> byte \<Rightarrow> AlertDescription \<Rightarrow> SSLContext \<Rightarrow> OSStatus \<times> SSLRecord" where
  "SSLEncodeAlert P level desc ctx =
     (fst (SSLAllocBuffer P 2),
      \<lparr>contentType = SSL_RecordTypeAlert, protocolVersion = negProtocolVersion ctx, contents = [level, desc]\<rparr>)"

definition SSLSendAlert ::
  "platform \<Rightarrow> byte \<Rightarrow> AlertDescription \<Rightarrow> SSLContext \<Rightarrow> (OSStatus \<times> SSLContext) option" where
  "SSLSendAlert P level desc ctx =
     (if negProtocolVersion ctx = SSL_Version_Undetermined then Some (noErr, ctx)
      else if negProtocolVersion ctx = SSL_Version_2_0 then None
      else if sentFatalAlert ctx then Some (noErr, ctx)
      else
        (let (err, rec) = SSLEncodeAlert P level desc ctx in
         if err \<noteq> noErr then Some (err, ctx)
         else do {
           (err, ctx) \<leftarrow> call_writeRecord P rec ctx;
           if err \<noteq> noErr then Some (err, ctx)
           else Some (noErr, if desc = SSL_AlertCloseNotify then ctx\<lparr>sentFatalAlert := True\<rparr> else ctx) }))"

text \<open>The descriptions that SSLv3 does not know are translated.\<close>

definition ssl3AlertDesc :: "AlertDescription \<Rightarrow> AlertDescription" where
  "ssl3AlertDesc desc =
     (if desc \<in> {SSL_AlertDecryptionFail, SSL_AlertRecordOverflow, SSL_AlertAccessDenied,
                 SSL_AlertDecodeError, SSL_AlertDecryptError, SSL_AlertExportRestriction,
                 SSL_AlertProtocolVersion, SSL_AlertInsufficientSecurity, SSL_AlertUserCancelled,
                 SSL_AlertNoRenegotiation}
      then SSL_AlertHandshakeFail
      else if desc = SSL_AlertUnknownCA then SSL_AlertUnsupportedCert
      else if desc = SSL_AlertInternalError then SSL_AlertCloseNotify
      else desc)"

definition SSLFatalSessionAlert ::
  "platform \<Rightarrow> AlertDescription \<Rightarrow> SSLContext \<Rightarrow> (OSStatus \<times> SSLContext) option" where
  "SSLFatalSessionAlert P desc ctx =
     (let ctx = ctx\<lparr>state := SSL_HdskStateErrorClose\<rparr>;
          desc = (if negProtocolVersion ctx < TLS_Version_1_0 then ssl3AlertDesc desc else desc);
          (err1, ctx) = SSLDeleteSessionData ctx
      in do {
        (err2, ctx) \<leftarrow> SSLSendAlert P SSL_AlertLevelFatal desc ctx;
        Some (if err1 \<noteq> noErr then err1 else err2, ctx\<lparr>sentFatalAlert := True\<rparr>) })"

text \<open>The callers that go on to return their own error.\<close>

definition fatal_return ::
  "platform \<Rightarrow> AlertDescription \<Rightarrow> OSStatus \<Rightarrow> 'a \<Rightarrow> SSLContext \<Rightarrow> (OSStatus \<times> 'a \<times> SSLContext) option" where
  "fatal_return P desc err x ctx =
     do { (ignored, ctx) \<leftarrow> SSLFatalSessionAlert P desc ctx; Some (err, x, ctx) }"

section \<open>What a fatal alert does\<close>

text \<open>
  An alert, too, changes only what a write changes, and possibly \<open>sentFatalAlert\<close>.
\<close>

lemma write_frame_sentFatalAlert:
  "write_frame ctx c \<Longrightarrow> write_frame ctx (c\<lparr>sentFatalAlert := sentFatalAlert ctx\<rparr>)"
  using write_frame_simps(2) [of ctx c] by (simp flip: write_frame_simps(2))

lemma SSLSendAlert_cases:
  assumes "SSLSendAlert P level desc ctx = Some (err, ctx')"
  shows "ctx' = ctx \<or> (\<exists>rec e c. call_writeRecord P rec ctx = Some (e, c) \<and>
    (ctx' = c \<or> ctx' = c\<lparr>sentFatalAlert := True\<rparr>))"
  using assms unfolding SSLSendAlert_def SSLEncodeAlert_def Let_def case_prod_unfold
  by (elim if_SomeE bind_SomeE; clarsimp split: if_split_asm; blast)

lemma SSLSendAlert_frame:
  "SSLSendAlert P level desc ctx = Some (err, ctx') \<Longrightarrow>
   write_frame ctx (ctx'\<lparr>sentFatalAlert := sentFatalAlert ctx\<rparr>)"
  by (drule SSLSendAlert_cases)
    (auto dest!: call_writeRecord_frame intro: write_frame_sentFatalAlert write_frame_intros(1))

lemma SSLDeleteSessionData_frame:
  "snd (SSLDeleteSessionData ctx) = ctx\<lparr>sessionCache := sessionCache (snd (SSLDeleteSessionData ctx))\<rparr>"
  by (simp add: SSLDeleteSessionData_def split: option.splits prod.splits)

text \<open>
  After \<open>SSLFatalSessionAlert\<close> the session is closed with an error, its cache entry is gone, and
  \<open>sentFatalAlert\<close> is set, so that no further alert is ever sent; at most one record is queued.
\<close>

lemma SSLFatalSessionAlert_effect:
  assumes "SSLFatalSessionAlert P desc ctx = Some (err, ctx')"
  shows "state ctx' = SSL_HdskStateErrorClose" "sentFatalAlert ctx'"
    "sessionCache ctx' = sessionCache (snd (SSLDeleteSessionData ctx))" "peerID ctx' = peerID ctx"
    "negProtocolVersion ctx' = negProtocolVersion ctx" "readCipher ctx' = readCipher ctx"
    "take (length (recordWriteQueue ctx)) (recordWriteQueue ctx') = recordWriteQueue ctx"
    "length (recordWriteQueue ctx') \<le> length (recordWriteQueue ctx) + 1"
proof -
  define c0 where "c0 = snd (SSLDeleteSessionData (ctx\<lparr>state := SSL_HdskStateErrorClose\<rparr>))"
  have c0: "c0 = ctx\<lparr>state := SSL_HdskStateErrorClose, sessionCache := sessionCache (snd (SSLDeleteSessionData ctx))\<rparr>"
    unfolding c0_def by (simp add: SSLDeleteSessionData_def split: option.splits prod.splits)
  obtain d x where x: "SSLSendAlert P SSL_AlertLevelFatal d c0 = Some x" "ctx' = snd x\<lparr>sentFatalAlert := True\<rparr>"
    using assms unfolding SSLFatalSessionAlert_def Let_def case_prod_unfold c0_def [symmetric]
    by (elim bind_SomeE) force
  define c where "c = snd x\<lparr>sentFatalAlert := sentFatalAlert c0\<rparr>"
  have c: "write_frame c0 c" "ctx' = c\<lparr>sentFatalAlert := True\<rparr>"
    using SSLSendAlert_frame [of P SSL_AlertLevelFatal d c0 "fst x" "snd x"] x by (simp_all add: c_def)
  note w = write_frame_simps [OF c(1)]
  show "state ctx' = SSL_HdskStateErrorClose" "sentFatalAlert ctx'"
    "sessionCache ctx' = sessionCache (snd (SSLDeleteSessionData ctx))" "peerID ctx' = peerID ctx"
    "negProtocolVersion ctx' = negProtocolVersion ctx" "readCipher ctx' = readCipher ctx"
    using w by (simp_all add: c(2) c0)
  show "take (length (recordWriteQueue ctx)) (recordWriteQueue ctx') = recordWriteQueue ctx"
    "length (recordWriteQueue ctx') \<le> length (recordWriteQueue ctx) + 1"
    using c(1) unfolding write_frame_def by (simp_all add: c(2) c0)
qed

lemma SSLSendAlert_silent:
  "sentFatalAlert ctx \<Longrightarrow> negProtocolVersion ctx \<noteq> SSL_Version_2_0 \<Longrightarrow> SSLSendAlert P level desc ctx = Some (noErr, ctx)"
  by (simp add: SSLSendAlert_def)

end
