(* ===== verification/Record_Read.thy ===== *)
theory Record_Read
  imports Alert
begin

text \<open>
  The read side of the record layer: \<open>SSLVerifyMac\<close> and \<open>SSLReadRecord\<close> of \<open>sslRecord.c\<close>, the
  three \<open>decryptRecord\<close> callouts of \<open>ssl3Callouts.c\<close>, \<open>tls1Callouts.c\<close> and \<open>tls12Callouts.c\<close>, and
  \<open>SSL2ReadRecord\<close> with its helpers of \<open>ssl2Record.c\<close>.

  Lengths are unsigned in C. Where a subtraction wraps around, the code goes on to read memory
  far outside the record; the model gives \<open>None\<close> there, as for every access out of bounds.
\<close>

section \<open>MAC verification\<close>

definition SSLVerifyMac ::
  "platform \<Rightarrow> byte \<Rightarrow> bytes \<Rightarrow> bytes \<Rightarrow> SSLContext \<Rightarrow> (OSStatus \<times> SSLContext) option" where
  "SSLVerifyMac P type data compareMAC ctx =
     (let r = readCipher ctx in
      do { (err, mac, r') \<leftarrow> call_computeMac P (sslTslCalls ctx) (negProtocolVersion ctx) type data r (sequenceNum r);
           let ctx = ctx\<lparr>readCipher := r'\<rparr>;
           if err \<noteq> noErr then Some (err, ctx)
           else if length compareMAC < length mac then None
           else if mac \<noteq> take (length mac) compareMAC then Some (errSSLProtocol, ctx)
           else Some (noErr, ctx) })"

text \<open>The common end of the three CBC decryption routines: check the MAC and return the content.\<close>

definition check_mac_return ::
  "platform \<Rightarrow> byte \<Rightarrow> bytes \<Rightarrow> bytes \<Rightarrow> SSLContext \<Rightarrow> (OSStatus \<times> bytes \<times> SSLContext) option" where
  "check_mac_return P type content compareMAC ctx =
     (if digestSize (hash_of (macRef (readCipher ctx))) > 0 then
        do { (err, ctx) \<leftarrow> SSLVerifyMac P type content compareMAC ctx;
             if err \<noteq> noErr then fatal_return P SSL_AlertBadRecordMac errSSLBadRecordMac [] ctx
             else Some (noErr, content, ctx) }
      else Some (noErr, content, ctx))"

section \<open>Decryption\<close>

text \<open>
  In all three routines the length of the content is what remains after the MAC and the padding, and it can wrap around.
  With a MAC the routine then reads far outside the record to compute it. For a block cipher without a MAC, which no suite has, it returns
  \<open>noErr\<close> and a buffer descriptor whose length is the wrapped one, so that it is the caller who reads outside the record; a descriptor that is longer than its memory is not an
  octet string, and the model has no result (\<open>None\<close>) in this case either.
\<close>

definition ssl3DecryptRecord ::
  "platform \<Rightarrow> byte \<Rightarrow> bytes \<Rightarrow> SSLContext \<Rightarrow> (OSStatus \<times> bytes \<times> SSLContext) option" where
  "ssl3DecryptRecord P type payload ctx =
     (let bs = blockSize (symCipher (readCipher ctx));
          digest = digestSize (hash_of (macRef (readCipher ctx)))
      in
      if bs > 0 \<and> length payload mod bs \<noteq> 0
      then fatal_return P SSL_AlertUnexpectedMsg errSSLProtocol [] ctx
      else do {
        (err, plain, r) \<leftarrow> cipher_decrypt P payload payload (readCipher ctx);
        let ctx = ctx\<lparr>readCipher := r\<rparr>;
        if err \<noteq> noErr then fatal_return P SSL_AlertDecryptionFail err [] ctx
        else if bs > 0 then
          (if plain = [] then None
           else if unat (last plain) \<ge> bs
           then fatal_return P SSL_AlertDecryptionFail errSSLDecryptionFail [] ctx
           else if length plain < digest + 1 + unat (last plain) then None
           else (let n = length plain - digest - (1 + unat (last plain))
                 in check_mac_return P type (take n plain) (drop n plain) ctx))
        else if length plain < digest then None
        else check_mac_return P type (take (length plain - digest) plain) (drop (length plain - digest) plain) ctx })"

text \<open>The last \<open>padSize\<close> octets must all hold \<open>padSize\<close>; the one before them is not looked at.\<close>

definition tls_padding_ok :: "bytes \<Rightarrow> byte \<Rightarrow> bool" where
  "tls_padding_ok plain padSize \<longleftrightarrow>
     list_all (\<lambda>b. b = padSize) (drop (length plain - unat padSize) plain)"

definition tls1DecryptRecord ::
  "platform \<Rightarrow> byte \<Rightarrow> bytes \<Rightarrow> SSLContext \<Rightarrow> (OSStatus \<times> bytes \<times> SSLContext) option" where
  "tls1DecryptRecord P type payload ctx =
     (let bs = blockSize (symCipher (readCipher ctx));
          digest = digestSize (hash_of (macRef (readCipher ctx)))
      in
      if bs > 0 \<and> length payload mod bs \<noteq> 0
      then fatal_return P SSL_AlertRecordOverflow errSSLRecordOverflow [] ctx
      else do {
        (err, plain, r) \<leftarrow> cipher_decrypt P payload payload (readCipher ctx);
        let ctx = ctx\<lparr>readCipher := r\<rparr>;
        if err \<noteq> noErr then fatal_return P SSL_AlertDecryptError errSSLDecryptionFail [] ctx
        else if bs > 0 then
          (if plain = [] then None
           else if unat (last plain) > length plain
           then fatal_return P SSL_AlertDecodeError errSSLDecryptionFail [] ctx
           else if \<not> tls_padding_ok plain (last plain)
           then fatal_return P SSL_AlertDecodeError errSSLDecryptionFail [] ctx
           else if length plain < digest + (1 + unat (last plain)) then None
           else (let n = length plain - digest - (1 + unat (last plain))
                 in check_mac_return P type (take n plain) (drop n plain) ctx))
        else if length plain < digest then None
        else check_mac_return P type (take (length plain - digest) plain) (drop (length plain - digest) plain) ctx })"

text \<open>
  The sequence number of the associated data is our own counter; the nonce is the one on the
  wire. The plaintext overwrites the ciphertext.
\<close>

definition tls12DecryptGcmRecord ::
  "platform \<Rightarrow> byte \<Rightarrow> bytes \<Rightarrow> SSLContext \<Rightarrow> (OSStatus \<times> bytes \<times> SSLContext) option" where
  "tls12DecryptGcmRecord P type payload ctx =
     (case cc (readCipher ctx) of
        NoCC \<Rightarrow> fatal_return P SSL_AlertInternalError errSSLInternal [] ctx
      | CC_cryptorRef _ \<Rightarrow> None
      | CC_aes gcm \<Rightarrow>
          if length payload < 24 then fatal_return P SSL_AlertDecodeError errSSLDecryptionFail [] ctx
          else
            (let ctLen = length payload - 24;
                 explicitNonce = take 8 payload;
                 ct = take ctLen (drop 8 payload);
                 tag = drop (8 + ctLen) payload;
                 aad = tls12GcmBuildAad (sequenceNum (readCipher ctx)) type (negProtocolVersion ctx) (of_nat ctLen)
             in case sslGcmDecrypt P (Some gcm) explicitNonce aad ct tag of
                  None \<Rightarrow> fatal_return P SSL_AlertBadRecordMac errSSLBadRecordMac [] ctx
                | Some pt \<Rightarrow> Some (noErr, pt, ctx)))"

definition tls12DecryptRecord ::
  "platform \<Rightarrow> byte \<Rightarrow> bytes \<Rightarrow> SSLContext \<Rightarrow> (OSStatus \<times> bytes \<times> SSLContext) option" where
  "tls12DecryptRecord P type payload ctx =
     (if isGcm (symCipher (readCipher ctx)) then tls12DecryptGcmRecord P type payload ctx
      else
        (let bs = blockSize (symCipher (readCipher ctx));
             digest = digestSize (hash_of (macRef (readCipher ctx)));
             iv = (if negProtocolVersion ctx \<ge> TLS_Version_1_1 then bs else 0)
         in
         if bs > 0 \<and> length payload mod bs \<noteq> 0
         then fatal_return P SSL_AlertRecordOverflow errSSLRecordOverflow [] ctx
         else do {
           (err, plain, r) \<leftarrow> cipher_decrypt P payload payload (readCipher ctx);
           let ctx = ctx\<lparr>readCipher := r\<rparr>;
           if err \<noteq> noErr then fatal_return P SSL_AlertDecryptError errSSLDecryptionFail [] ctx
           else if bs > 0 then
             (if iv > 0 \<and> length plain < bs + 1 + digest
              then fatal_return P SSL_AlertDecodeError errSSLDecryptionFail [] ctx
              else if plain = [] then None
              else if unat (last plain) > length plain
              then fatal_return P SSL_AlertDecodeError errSSLDecryptionFail [] ctx
              else if \<not> tls_padding_ok plain (last plain)
              then fatal_return P SSL_AlertDecodeError errSSLDecryptionFail [] ctx
              else if length plain < iv + digest + (1 + unat (last plain)) then None
              else (let n = length plain - digest - iv - (1 + unat (last plain))
                    in check_mac_return P type (take n (drop iv plain)) (drop (iv + n) plain) ctx))
           else if length plain < digest then None
           else check_mac_return P type (take (length plain - digest) plain) (drop (length plain - digest) plain) ctx }))"

definition call_decryptRecord ::
  "platform \<Rightarrow> byte \<Rightarrow> bytes \<Rightarrow> SSLContext \<Rightarrow> (OSStatus \<times> bytes \<times> SSLContext) option" where
  "call_decryptRecord P type payload ctx =
     (case sslTslCalls ctx of Ssl3Callouts \<Rightarrow> ssl3DecryptRecord P type payload ctx
      | Tls1Callouts \<Rightarrow> tls1DecryptRecord P type payload ctx
      | Tls12Callouts \<Rightarrow> tls12DecryptRecord P type payload ctx)"

section \<open>The read buffer\<close>

text \<open>Storing what the callback delivered at \<open>ctx->partialReadBuffer.data + ctx->amountRead\<close>.\<close>

definition store_read :: "bytes \<Rightarrow> SSLContext \<Rightarrow> SSLContext option" where
  "store_read bs ctx =
     (case partialReadBuffer ctx of None \<Rightarrow> None
      | Some buf \<Rightarrow>
          if length buf < amountRead ctx + length bs then None
          else Some (ctx\<lparr>partialReadBuffer := Some (take (amountRead ctx) buf @ bs @
                                                   drop (amountRead ctx + length bs) buf)\<rparr>))"

definition got :: "bytes \<Rightarrow> SSLContext \<Rightarrow> SSLContext" where
  "got bs ctx = ctx\<lparr>amountRead := amountRead ctx + length bs\<rparr>"

definition bump_read_seq :: "SSLContext \<Rightarrow> SSLContext" where
  "bump_read_seq ctx =
     ctx\<lparr>readCipher := (readCipher ctx)\<lparr>sequenceNum := IncrementUInt64 (sequenceNum (readCipher ctx))\<rparr>\<rparr>"

section \<open>SSL 2.0\<close>

abbreviation SSL2_MsgError :: byte where "SSL2_MsgError \<equiv> 0"
abbreviation SSL2_ErrNoCipher :: uint32 where "SSL2_ErrNoCipher \<equiv> 1"

definition SSL2SendError :: "platform \<Rightarrow> uint32 \<Rightarrow> SSLContext \<Rightarrow> (OSStatus \<times> SSLContext) option" where
  "SSL2SendError P error ctx =
     SSL2WriteRecord P \<lparr>contentType = SSL_RecordTypeV2_0, protocolVersion = SSL_Version_2_0,
                        contents = SSL2_MsgError # SSLEncodeInt error 2\<rparr> ctx"

definition SSL2VerifyMAC :: "platform \<Rightarrow> bytes \<Rightarrow> bytes \<Rightarrow> SSLContext \<Rightarrow> OSStatus option" where
  "SSL2VerifyMAC P content compareMAC ctx =
     (let r = readCipher ctx; hash = hash_of (macRef r) in
      do { (err, mac) \<leftarrow> SSL2CalculateMAC P (take (keySize (symCipher r)) (macSecret r)) content
                          (low (sequenceNum r)) hash;
           if err \<noteq> noErr then Some err
           else if take (digestSize hash) mac \<noteq> take (digestSize hash) compareMAC then Some errSSLProtocol
           else Some noErr })"

definition SSL2DecryptRecord ::
  "platform \<Rightarrow> bytes \<Rightarrow> SSLContext \<Rightarrow> (OSStatus \<times> bytes \<times> SSLContext) option" where
  "SSL2DecryptRecord P payload ctx =
     (let bs = blockSize (symCipher (readCipher ctx));
          digest = digestSize (hash_of (macRef (readCipher ctx)))
      in
      if bs > 0 \<and> length payload mod bs \<noteq> 0 then Some (errSSLProtocol, [], ctx)
      else do {
        (err, plain, r) \<leftarrow> cipher_decrypt P payload payload (readCipher ctx);
        let ctx = ctx\<lparr>readCipher := r\<rparr>;
        if err \<noteq> noErr then Some (err, [], ctx)
        else if digest > 0 then
          (if length plain < digest then None
           else do { err \<leftarrow> SSL2VerifyMAC P (drop digest plain) plain ctx;
                     if err \<noteq> noErr then Some (err, [], ctx) else Some (noErr, drop digest plain, ctx) })
        else Some (noErr, plain, ctx) })"

text \<open>The buffer, the three octets of the longest header, the rest of the record.\<close>

definition ssl2_ready_buffer :: "platform \<Rightarrow> SSLContext \<Rightarrow> (OSStatus \<times> SSLContext) option" where
  "ssl2_ready_buffer P ctx =
     (if (case partialReadBuffer ctx of None \<Rightarrow> True | Some buf \<Rightarrow> length buf < 3)
      then (let (err, buf) = SSLAllocBuffer P 4096; ctx = ctx\<lparr>partialReadBuffer := buf\<rparr> in
            if err \<noteq> noErr then do { (ignored, ctx) \<leftarrow> SSL2SendError P SSL2_ErrNoCipher ctx; Some (err, ctx) }
            else Some (noErr, ctx))
      else Some (noErr, ctx))"

definition ssl2_read_header :: "platform \<Rightarrow> SSLContext \<Rightarrow> (OSStatus \<times> SSLContext) option" where
  "ssl2_read_header P ctx =
     (if amountRead ctx < 3 then
        (let (err, bs, ctx) = sslIoRead P (3 - amountRead ctx) ctx in
         do { ctx \<leftarrow> store_read bs ctx;
              if err \<noteq> noErr then
                (let ctx = (if err = errSSLWouldBlock then got bs ctx else ctx) in
                 Some (if err = ioErr \<and> amountRead ctx = 0 then errSSLClosedGraceful else err, ctx))
              else Some (noErr, got bs ctx) })
      else Some (noErr, ctx))"

definition ssl2_read_body :: "platform \<Rightarrow> nat \<Rightarrow> SSLContext \<Rightarrow> (OSStatus \<times> SSLContext) option" where
  "ssl2_read_body P upTo ctx =
     (if amountRead ctx < upTo then
        (let (err, bs, ctx) = sslIoRead P (upTo - amountRead ctx) ctx in
         do { ctx \<leftarrow> store_read bs ctx;
              Some (err, if err = noErr \<or> err = errSSLWouldBlock then got bs ctx else ctx) })
      else Some (noErr, ctx))"

definition SSL2ReadRecord ::
  "platform \<Rightarrow> SSLContext \<Rightarrow> (OSStatus \<times> SSLRecord option \<times> SSLContext) option" where
  "SSL2ReadRecord P ctx =
     (if negProtocolVersion ctx \<in> {SSL_Version_3_0, TLS_Version_1_0}
      then fatal_return P SSL_AlertUnexpectedMsg errSSLProtocol None ctx
      else if negProtocolVersion ctx \<notin> {SSL_Version_Undetermined, SSL_Version_2_0}
      then Some (errSSLInternal, None, ctx)
      else do {
        (err, ctx) \<leftarrow> ssl2_ready_buffer P ctx;
        if err \<noteq> noErr then Some (err, None, ctx) else do {
        (err, ctx) \<leftarrow> ssl2_read_header P ctx;
        if err \<noteq> noErr then Some (err, None, ctx) else do {
        buf \<leftarrow> partialReadBuffer ctx;
        let b0 = unat (buf ! 0);
        let b1 = unat (buf ! 1);
        let twoByte = (b0 div 128 = 1);
        if \<not> twoByte \<and> b0 div 64 = 1 then Some (errSSLProtocol, None, ctx) else do {
        let headerSize = (if twoByte then 2 else 3);
        let contentLen = (if twoByte then b0 mod 128 else b0 mod 64) * 256 + b1;
        let padding = (if twoByte then 0 else unat (buf ! 2));
        if contentLen = 0 \<or> contentLen > 65535 then Some (errSSLProtocol, None, ctx) else do {
        let (err, buf1) = (if length buf < headerSize + contentLen then SSLReallocBuffer P (Some buf) (5 + contentLen)
                           else (noErr, Some buf));
        let ctx = ctx\<lparr>partialReadBuffer := buf1\<rparr>;
        if err \<noteq> noErr then Some (err, None, ctx) else do {
        (err, ctx) \<leftarrow> ssl2_read_body P (headerSize + contentLen) ctx;
        if err \<noteq> noErr then Some (err, None, ctx) else do {
        buf \<leftarrow> partialReadBuffer ctx;
        (err, plain, ctx) \<leftarrow> SSL2DecryptRecord P (take contentLen (drop headerSize buf)) ctx;
        if err \<noteq> noErr then Some (err, None, ctx)
        else if length plain < padding then None
        else
          (let data = take (length plain - padding) plain;
               ctx = bump_read_seq ctx;
               (err, out) = SSLAllocBuffer P (length data) in
           if err \<noteq> noErr then Some (err, None, ctx)
           else Some (noErr, Some \<lparr>contentType = SSL_RecordTypeV2_0, protocolVersion = SSL_Version_2_0, contents = data\<rparr>,
                      ctx\<lparr>amountRead := 0\<rparr>)) }}}}}}})"

section \<open>\<open>SSLReadRecord\<close>\<close>

text \<open>Getting the buffer ready and, before the version is known, the first octet.\<close>

definition ready_buffer :: "platform \<Rightarrow> SSLContext \<Rightarrow> (OSStatus \<times> SSLContext) option" where
  "ready_buffer P ctx =
     (if (case partialReadBuffer ctx of None \<Rightarrow> True | Some buf \<Rightarrow> length buf < 5)
      then (let (err, buf) = SSLAllocBuffer P 4096; ctx = ctx\<lparr>partialReadBuffer := buf\<rparr> in
            if err \<noteq> noErr then do { (ignored, ctx) \<leftarrow> SSLFatalSessionAlert P SSL_AlertInternalError ctx; Some (err, ctx) }
            else Some (noErr, ctx))
      else Some (noErr, ctx))"

definition read_first_octet :: "platform \<Rightarrow> SSLContext \<Rightarrow> (OSStatus \<times> SSLContext) option" where
  "read_first_octet P ctx =
     (if negProtocolVersion ctx = SSL_Version_Undetermined \<and> amountRead ctx < 1 then
        (let (err, bs, ctx) = sslIoRead P (1 - amountRead ctx) ctx in
         do { ctx \<leftarrow> store_read bs ctx;
              if err \<noteq> noErr then
                (if err = errSSLWouldBlock then Some (err, got bs ctx)
                 else
                   (let err = (if protocolSide ctx = SSL_ClientSide \<and> amountRead ctx = 0 \<and> length bs = 0 \<and>
                                  state ctx \<in> {SSL_HdskStateServerHello, SSL_HdskStateServerHelloUnknownVersion}
                               then errSSLConnectionRefused else errSSLClosedAbort)
                    in do { (ignored, ctx) \<leftarrow> SSLFatalSessionAlert P SSL_AlertCloseNotify ctx; Some (err, ctx) }))
              else Some (noErr, got bs ctx) })
      else Some (noErr, ctx))"

text \<open>The five octets of the header; a clean disconnect between records is reported as such.\<close>

definition read_header :: "platform \<Rightarrow> SSLContext \<Rightarrow> (OSStatus \<times> SSLContext) option" where
  "read_header P ctx =
     (if amountRead ctx < 5 then
        (let (err, bs, ctx) = sslIoRead P (5 - amountRead ctx) ctx in
         do { ctx \<leftarrow> store_read bs ctx;
              if err \<noteq> noErr then
                (if err = errSSLWouldBlock then Some (err, got bs ctx)
                 else if err = errSSLClosedGraceful \<and> amountRead ctx = 0 \<and> length bs = 0 \<and>
                         state ctx = SSL_HdskStateClientReady
                 then Some (errSSLClosedNoNotify, ctx\<lparr>state := SSL_HdskStateNoNotifyClose\<rparr>)
                 else do { (ignored, ctx) \<leftarrow> SSLFatalSessionAlert P SSL_AlertCloseNotify ctx;
                           Some (if err = errSSLClosedGraceful then errSSLClosedAbort else err, ctx) })
              else Some (noErr, got bs ctx) })
      else Some (noErr, ctx))"

definition read_body :: "platform \<Rightarrow> nat \<Rightarrow> SSLContext \<Rightarrow> (OSStatus \<times> SSLContext) option" where
  "read_body P contentLen ctx =
     (if amountRead ctx < 5 + contentLen then
        (let (err, bs, ctx) = sslIoRead P (5 + contentLen - amountRead ctx) ctx in
         do { ctx \<leftarrow> store_read bs ctx;
              if err \<noteq> noErr then
                (if err = errSSLWouldBlock then Some (err, got bs ctx)
                 else do { (ignored, ctx) \<leftarrow> SSLFatalSessionAlert P SSL_AlertCloseNotify ctx; Some (err, ctx) })
              else Some (noErr, got bs ctx) })
      else Some (noErr, ctx))"

definition SSLReadRecord ::
  "platform \<Rightarrow> SSLContext \<Rightarrow> (OSStatus \<times> SSLRecord option \<times> SSLContext) option" where
  "SSLReadRecord P ctx =
     do { (err, ctx) \<leftarrow> ready_buffer P ctx;
          if err \<noteq> noErr then Some (err, None, ctx) else do {
          (err, ctx) \<leftarrow> read_first_octet P ctx;
          if err \<noteq> noErr then Some (err, None, ctx) else do {
          buf \<leftarrow> partialReadBuffer ctx;
          if negProtocolVersion ctx = SSL_Version_Undetermined \<and> (buf ! 0 < 20 \<or> buf ! 0 > 23) \<or>
             negProtocolVersion ctx = SSL_Version_2_0
          then SSL2ReadRecord P ctx
          else do {
          (err, ctx) \<leftarrow> read_header P ctx;
          if err \<noteq> noErr then Some (err, None, ctx)
          else if amountRead ctx < 5 then None
          else do {
          buf \<leftarrow> partialReadBuffer ctx;
          let type = buf ! 0;
          if type < 20 \<or> type > 23 then Some (errSSLProtocol, None, ctx) else do {
          let vers = SSLDecodeInt (drop 1 buf) 2;
          let contentLen = unat (SSLDecodeInt (drop 3 buf) 2);
          if contentLen > 16384 + 2048
          then fatal_return P SSL_AlertRecordOverflow errSSLProtocol None ctx
          else if contentLen < digestSize (hash_of (macRef (readCipher ctx)))
          then fatal_return P SSL_AlertInternalError errSSLClosedAbort None ctx
          else do {
          let (err, buf1) = (if length buf < 5 + contentLen then SSLReallocBuffer P (Some buf) (5 + contentLen)
                             else (noErr, Some buf));
          let ctx = ctx\<lparr>partialReadBuffer := buf1\<rparr>;
          if err \<noteq> noErr then fatal_return P SSL_AlertInternalError err None ctx else do {
          (err, ctx) \<leftarrow> read_body P contentLen ctx;
          if err \<noteq> noErr then Some (err, None, ctx)
          else if amountRead ctx < 5 + contentLen then None
          else do {
          buf \<leftarrow> partialReadBuffer ctx;
          (err, plain, ctx) \<leftarrow> call_decryptRecord P type (take contentLen (drop 5 buf)) ctx;
          if err \<noteq> noErr then Some (err, None, ctx)
          else
            (let ctx = bump_read_seq ctx;
                 (err, out) = SSLAllocBuffer P (length plain) in
             if err \<noteq> noErr then fatal_return P SSL_AlertInternalError err None ctx
             else Some (noErr, Some \<lparr>contentType = type, protocolVersion = vers, contents = plain\<rparr>,
                        ctx\<lparr>amountRead := 0\<rparr>)) }}}}}}}}}"

end
