(* ===== verification/Record_Sync.thy ===== *)
theory Record_Sync
  imports Record_Read
begin

text \<open>
  The record layer delivers what was written. Two connection states are \<open>in_sync\<close> when the
  write half of one and the read half of the other hold the same keys, the same sequence number
  and paired cipher states. Writing a record and decrypting its payload at the other end gives
  the contents back and keeps the two in sync; a sequence of records is delivered in order.
\<close>

section \<open>The relation\<close>

definition in_sync :: "platform \<Rightarrow> SSLContext \<Rightarrow> SSLContext \<Rightarrow> bool" where
  "in_sync P w r \<longleftrightarrow>
     (let W = writeCipher w; R = readCipher r in
      sslTslCalls w = sslTslCalls r \<and> negProtocolVersion w = negProtocolVersion r \<and>
      sequenceNum W = sequenceNum R \<and> macRef W = macRef R \<and> symCipher W = symCipher R \<and>
      (if isGcm (symCipher W)
       then sslTslCalls w = Tls12Callouts \<and> macRef W = HA_Null \<and>
            (\<exists>g. cc W = CC_aes g \<and> cc R = CC_aes g \<and> gcm_ctx_ok g)
       else ciphers_paired P W R \<and>
            (if macRef W = HA_Null then blockSize (symCipher W) = 0
             else \<exists>k. mac_holds P (sslTslCalls w) W k \<and> mac_holds P (sslTslCalls w) R k)))"

section \<open>Padding\<close>

definition pad_value :: "nat \<Rightarrow> nat \<Rightarrow> nat" where
  "pad_value bs len = bs - len mod bs - 1"

lemma cbc_padding_eq:
  "bs > 0 \<Longrightarrow> cbc_padding bs len = replicate (Suc (pad_value bs len)) (of_nat (pad_value bs len))"
proof -
  assume bs: "bs > 0"
  then have "bs - len mod bs = Suc (pad_value bs len)"
    using mod_less_divisor [of bs len] unfolding pad_value_def by linarith
  with bs show ?thesis by (simp add: cbc_padding_def pad_value_def)
qed

lemma unat_pad_value: "bs \<le> 16 \<Longrightarrow> unat (of_nat (pad_value bs len) :: byte) = pad_value bs len"
  by (simp add: unat_of_nat pad_value_def)

text \<open>A plaintext that ends in padding is split where the writer joined it.\<close>

lemma padded_plain:
  fixes p :: nat and c m iv :: bytes
  assumes "p < 256" "plain = iv @ c @ m @ replicate (Suc p) (of_nat p)"
  shows "last plain = of_nat p" "unat (last plain) = p" "plain \<noteq> []"
    "tls_padding_ok plain (last plain)"
    "length plain - length m - length iv - (1 + unat (last plain)) = length c"
    "\<not> length plain < unat (last plain)"
    "\<not> length plain < length iv + length m + (1 + unat (last plain))"
    "take (length c) (drop (length iv) plain) = c"
    "drop (length iv + length c) plain = m @ replicate (Suc p) (of_nat p)"
proof -
  show last: "last plain = of_nat p"
    using assms(2) by (simp add: replicate_append_same [symmetric] del: replicate_Suc)
  then show u: "unat (last plain) = p"
    using assms(1) by (simp add: unat_of_nat)
  have "drop (length plain - p) plain = replicate p (of_nat p)"
    using assms(2) by (simp add: Suc_diff_le)
  then show "tls_padding_ok plain (last plain)"
    unfolding tls_padding_ok_def u by (simp add: last list_all_iff)
  show "length plain - length m - length iv - (1 + unat (last plain)) = length c"
    "\<not> length plain < unat (last plain)"
    "\<not> length plain < length iv + length m + (1 + unat (last plain))"
    unfolding u using assms(2) by simp_all
  show "plain \<noteq> []" "take (length c) (drop (length iv) plain) = c"
    "drop (length iv + length c) plain = m @ replicate (Suc p) (of_nat p)"
    using assms(2) by simp_all
qed

section \<open>MACs\<close>

lemma mac_holds_cc [simp]:
  "mac_holds P calls (c\<lparr>cc := x\<rparr>) k = mac_holds P calls c k"
  "mac_holds P calls (c\<lparr>cc := x, macCtx := y\<rparr>) k = mac_holds P calls (c\<lparr>macCtx := y\<rparr>) k"
  "mac_holds P calls (c\<lparr>macCtx := y, cc := x\<rparr>) k = mac_holds P calls (c\<lparr>macCtx := y\<rparr>) k"
  by (simp_all add: mac_holds_def split: SslTlsCallouts.split)

lemma mac_holds_seq [simp]: "mac_holds P calls (c\<lparr>sequenceNum := x\<rparr>) k = mac_holds P calls c k"
  by (simp add: mac_holds_def split: SslTlsCallouts.split)

lemma ciphers_paired_macCtx [simp]:
  "ciphers_paired P (w\<lparr>macCtx := x\<rparr>) r = ciphers_paired P w r"
  "ciphers_paired P w (r\<lparr>macCtx := x\<rparr>) = ciphers_paired P w r"
  "ciphers_paired P (w\<lparr>sequenceNum := s\<rparr>) r = ciphers_paired P w r"
  "ciphers_paired P w (r\<lparr>sequenceNum := s\<rparr>) = ciphers_paired P w r"
  by (simp_all add: ciphers_paired_def)

lemma hmac_length_Null [simp]: "hmac_length HA_Null = 0"
  by (simp add: hmac_length_def)

lemma hmac_length_eq_0 [simp]: "hmac_length a = 0 \<longleftrightarrow> a = HA_Null"
  by (cases a) (simp_all add: hmac_length_def)

text \<open>
  The writer's MAC, and the reader's check of it after decryption has replaced the reader's
  cipher state.
\<close>

lemma mac_roundtrip:
  assumes ok: "platform_ok P"
    and same: "sslTslCalls w = sslTslCalls r" "negProtocolVersion w = negProtocolVersion r"
      "sequenceNum (writeCipher w) = sequenceNum (readCipher r)" "macRef (writeCipher w) = macRef (readCipher r)"
    and holds: "macRef (writeCipher w) \<noteq> HA_Null \<Longrightarrow>
      \<exists>k. mac_holds P (sslTslCalls w) (writeCipher w) k \<and> mac_holds P (sslTslCalls w) (readCipher r) k"
  obtains m x where
    "mac_record P rec w (writeCipher w) = Some (noErr, m, (writeCipher w)\<lparr>macCtx := x\<rparr>)"
    "length m = hmac_length (macRef (writeCipher w))"
    "\<And>c rest. \<exists>y. check_mac_return P (contentType rec) (contents rec) (m @ rest) (r\<lparr>readCipher := (readCipher r)\<lparr>cc := c\<rparr>\<rparr>) =
       Some (noErr, contents rec, r\<lparr>readCipher := (readCipher r)\<lparr>cc := c, macCtx := y\<rparr>\<rparr>) \<and>
       (macRef (writeCipher w) \<noteq> HA_Null \<longrightarrow> (\<exists>k. mac_holds P (sslTslCalls w) ((writeCipher w)\<lparr>macCtx := x\<rparr>) k \<and>
          mac_holds P (sslTslCalls w) ((readCipher r)\<lparr>macCtx := y\<rparr>) k))"
proof (cases "macRef (writeCipher w) = HA_Null")
  case True
  then show ?thesis
    using same by (intro that [of "[]" "macCtx (writeCipher w)"])
      (simp_all add: mac_record_def check_mac_return_def hmac_length_def,
        intro exI [of _ "macCtx (readCipher r)"], simp)
next
  case False
  then obtain k where k: "mac_holds P (sslTslCalls w) (writeCipher w) k"
      "mac_holds P (sslTslCalls w) (readCipher r) k"
    using holds by blast
  obtain m x y0 where m: "call_computeMac P (sslTslCalls w) (negProtocolVersion w) (contentType rec) (contents rec)
        (writeCipher w) (sequenceNum (writeCipher w)) = Some (noErr, m, (writeCipher w)\<lparr>macCtx := x\<rparr>)"
      "length m = hmac_length (macRef (writeCipher w))"
      "mac_holds P (sslTslCalls w) ((writeCipher w)\<lparr>macCtx := x\<rparr>) k"
    by (rule call_computeMac_agree [OF ok k same(4)]) blast
  have check: "\<exists>y. check_mac_return P (contentType rec) (contents rec) (m @ rest) (r\<lparr>readCipher := (readCipher r)\<lparr>cc := c\<rparr>\<rparr>) =
       Some (noErr, contents rec, r\<lparr>readCipher := (readCipher r)\<lparr>cc := c, macCtx := y\<rparr>\<rparr>) \<and>
       mac_holds P (sslTslCalls w) ((readCipher r)\<lparr>macCtx := y\<rparr>) k" for c rest
  proof -
    have k2: "mac_holds P (sslTslCalls w) ((readCipher r)\<lparr>cc := c\<rparr>) k" using k by simp
    have ref: "macRef (writeCipher w) = macRef ((readCipher r)\<lparr>cc := c\<rparr>)" using same by simp
    obtain m2 x2 y where "call_computeMac P (sslTslCalls w) (negProtocolVersion w) (contentType rec) (contents rec)
          (writeCipher w) (sequenceNum (writeCipher w)) = Some (noErr, m2, (writeCipher w)\<lparr>macCtx := x2\<rparr>)"
        "call_computeMac P (sslTslCalls w) (negProtocolVersion w) (contentType rec) (contents rec)
          ((readCipher r)\<lparr>cc := c\<rparr>) (sequenceNum (writeCipher w)) = Some (noErr, m2, (readCipher r)\<lparr>cc := c, macCtx := y\<rparr>)"
        "mac_holds P (sslTslCalls w) ((readCipher r)\<lparr>cc := c, macCtx := y\<rparr>) k"
      by (rule call_computeMac_agree [OF ok k(1) k2 ref]) blast
    moreover from this(1) m(1) have "m2 = m" by simp
    ultimately have eq: "call_computeMac P (sslTslCalls r) (negProtocolVersion r) (contentType rec) (contents rec)
          ((readCipher r)\<lparr>cc := c\<rparr>) (sequenceNum (readCipher r)) = Some (noErr, m, (readCipher r)\<lparr>cc := c, macCtx := y\<rparr>)"
      and h: "mac_holds P (sslTslCalls w) ((readCipher r)\<lparr>macCtx := y\<rparr>\<lparr>cc := c\<rparr>) k"
      using same by simp_all
    from eq False same(4) have "check_mac_return P (contentType rec) (contents rec) (m @ rest)
        (r\<lparr>readCipher := (readCipher r)\<lparr>cc := c\<rparr>\<rparr>) =
       Some (noErr, contents rec, r\<lparr>readCipher := (readCipher r)\<lparr>cc := c, macCtx := y\<rparr>\<rparr>)"
      by (simp add: check_mac_return_def SSLVerifyMac_def)
    with h show ?thesis unfolding mac_holds_cc by blast
  qed
  show ?thesis
  proof (rule that [OF _ m(2)])
    show "mac_record P rec w (writeCipher w) = Some (noErr, m, (writeCipher w)\<lparr>macCtx := x\<rparr>)"
      using False m(1) by (simp add: mac_record_def)
  qed (use check m(3) in blast)
qed

section \<open>Suites with a MAC\<close>

lemma in_sync_parts:
  assumes "in_sync P w r"
  shows "sslTslCalls w = sslTslCalls r" "negProtocolVersion w = negProtocolVersion r"
    "sequenceNum (writeCipher w) = sequenceNum (readCipher r)" "macRef (writeCipher w) = macRef (readCipher r)"
    "symCipher (writeCipher w) = symCipher (readCipher r)"
    "\<not> isGcm (symCipher (writeCipher w)) \<Longrightarrow> ciphers_paired P (writeCipher w) (readCipher r)"
    "\<not> isGcm (symCipher (writeCipher w)) \<Longrightarrow> macRef (writeCipher w) \<noteq> HA_Null \<Longrightarrow>
      \<exists>k. mac_holds P (sslTslCalls w) (writeCipher w) k \<and> mac_holds P (sslTslCalls w) (readCipher r) k"
    "\<not> isGcm (symCipher (writeCipher w)) \<Longrightarrow> macRef (writeCipher w) = HA_Null \<Longrightarrow>
      blockSize (symCipher (writeCipher w)) = 0"
  using assms by (auto simp: in_sync_def Let_def split: if_splits)

text \<open>
  The body \<open>iv @ contents @ mac @ padding\<close> of a record: encrypted by the writer, decrypted and
  checked by the reader, after which the two are in sync again.
\<close>

lemma body_roundtrip:
  assumes ok: "platform_ok P" and sync: "in_sync P w r" and ngcm: "\<not> isGcm (symCipher (writeCipher w))"
    and len: "len = length iv + length (contents rec) + hmac_length (macRef (writeCipher w))"
  defines "W \<equiv> writeCipher w" and "R \<equiv> readCipher r" and "bs \<equiv> blockSize (symCipher (writeCipher w))"
  obtains m x ct cw cr y where
    "mac_record P rec w W = Some (noErr, m, W\<lparr>macCtx := x\<rparr>)"
    "length m = hmac_length (macRef W)"
    "\<And>hdr w0. encrypt_and_queue P hdr (iv @ contents rec @ m @ cbc_padding bs len) (W\<lparr>macCtx := x\<rparr>) w0 =
       Some (noErr, bump_write_seq (enqueue (hdr @ ct) (w0\<lparr>writeCipher := W\<lparr>macCtx := x, cc := cw\<rparr>\<rparr>)))"
    "length ct = length (iv @ contents rec @ m @ cbc_padding bs len)"
    "cipher_decrypt P ct ct R = Some (noErr, iv @ contents rec @ m @ cbc_padding bs len, R\<lparr>cc := cr\<rparr>)"
    "check_mac_return P (contentType rec) (contents rec) (m @ cbc_padding bs len) (r\<lparr>readCipher := R\<lparr>cc := cr\<rparr>\<rparr>) =
       Some (noErr, contents rec, r\<lparr>readCipher := R\<lparr>cc := cr, macCtx := y\<rparr>\<rparr>)"
    "\<And>q n. in_sync P (bump_write_seq (enqueue q (w\<lparr>rngPos := n, writeCipher := W\<lparr>macCtx := x, cc := cw\<rparr>\<rparr>)))
       (bump_read_seq (r\<lparr>readCipher := R\<lparr>cc := cr, macCtx := y\<rparr>\<rparr>))"
proof -
  note parts = in_sync_parts [OF sync]
  obtain m x where m: "mac_record P rec w W = Some (noErr, m, W\<lparr>macCtx := x\<rparr>)"
    "length m = hmac_length (macRef W)" and
    chk: "\<And>c rest. \<exists>y. check_mac_return P (contentType rec) (contents rec) (m @ rest) (r\<lparr>readCipher := R\<lparr>cc := c\<rparr>\<rparr>) =
       Some (noErr, contents rec, r\<lparr>readCipher := R\<lparr>cc := c, macCtx := y\<rparr>\<rparr>) \<and>
       (macRef W \<noteq> HA_Null \<longrightarrow> (\<exists>k. mac_holds P (sslTslCalls w) (W\<lparr>macCtx := x\<rparr>) k \<and>
          mac_holds P (sslTslCalls w) (R\<lparr>macCtx := y\<rparr>) k))"
    unfolding W_def R_def
    by (rule mac_roundtrip [OF ok parts(1-4) parts(7) [OF ngcm]]) blast+
  let ?body = "iv @ contents rec @ m @ cbc_padding bs len"
  have pair: "ciphers_paired P (W\<lparr>macCtx := x\<rparr>) R"
    using parts(6) [OF ngcm] by (simp add: W_def R_def)
  have "bs > 0 \<Longrightarrow> bs dvd length ?body"
    using cbc_padding_aligned [of bs len] m(2) len by (simp add: W_def add.assoc)
  then have al: "cipher_block (symCipher (W\<lparr>macCtx := x\<rparr>)) dvd length ?body"
    by (simp add: blockSize_cipher_block bs_def W_def)
  obtain ct cw cr where enc: "cipher_encrypt P ?body ?body (W\<lparr>macCtx := x\<rparr>) = Some (noErr, ct, W\<lparr>macCtx := x, cc := cw\<rparr>)"
    and dec: "cipher_decrypt P ct ct R = Some (noErr, ?body, R\<lparr>cc := cr\<rparr>)"
    and lct: "length ct = length ?body"
    and pair': "ciphers_paired P (W\<lparr>macCtx := x, cc := cw\<rparr>) (R\<lparr>cc := cr\<rparr>)"
    by (rule cipher_roundtrip [OF ok pair al])
  obtain y where y: "check_mac_return P (contentType rec) (contents rec) (m @ cbc_padding bs len) (r\<lparr>readCipher := R\<lparr>cc := cr\<rparr>\<rparr>) =
       Some (noErr, contents rec, r\<lparr>readCipher := R\<lparr>cc := cr, macCtx := y\<rparr>\<rparr>)"
    and hk: "macRef W \<noteq> HA_Null \<Longrightarrow> \<exists>k. mac_holds P (sslTslCalls w) (W\<lparr>macCtx := x\<rparr>) k \<and>
          mac_holds P (sslTslCalls w) (R\<lparr>macCtx := y\<rparr>) k"
    using chk by blast
  show thesis
  proof (rule that [OF m _ lct dec y])
    show "encrypt_and_queue P hdr ?body (W\<lparr>macCtx := x\<rparr>) w0 =
        Some (noErr, bump_write_seq (enqueue (hdr @ ct) (w0\<lparr>writeCipher := W\<lparr>macCtx := x, cc := cw\<rparr>\<rparr>)))" for hdr w0
      by (simp add: encrypt_and_queue_def enc)
    show "in_sync P (bump_write_seq (enqueue q (w\<lparr>rngPos := n, writeCipher := W\<lparr>macCtx := x, cc := cw\<rparr>\<rparr>)))
       (bump_read_seq (r\<lparr>readCipher := R\<lparr>cc := cr, macCtx := y\<rparr>\<rparr>))" for q n
      using parts(1-5) parts(8) [OF ngcm] ngcm pair' hk
      by (simp add: in_sync_def Let_def bump_write_seq_def bump_read_seq_def enqueue_def W_def R_def)
  qed
qed

section \<open>One record\<close>

text \<open>
  What it means that \<open>rec\<close>, written in state \<open>w\<close>, is delivered to \<open>r\<close>: the write succeeds and
  queues exactly one record with a correct header and a legal length, the payload decrypts to
  the contents, and writer and reader (after \<open>SSLReadRecord\<close> has counted the record) are in sync.
\<close>

definition delivered ::
  "platform \<Rightarrow> SSLRecord \<Rightarrow> SSLContext \<Rightarrow> SSLContext \<Rightarrow> SSLContext \<Rightarrow> bytes \<Rightarrow> SSLContext \<Rightarrow> bool" where
  "delivered P rec w r w' payload r' \<longleftrightarrow>
     call_writeRecord P rec w = Some (noErr, w') \<and>
     recordWriteQueue w' = recordWriteQueue w @ [\<lparr>sent = 0, wdata = record_header rec (length payload) @ payload\<rparr>] \<and>
     hmac_length (macRef (readCipher r)) \<le> length payload \<and> length payload \<le> 16384 + 2048 \<and>
     call_decryptRecord P (contentType rec) payload r = Some (noErr, contents rec, r') \<and>
     r' = r\<lparr>readCipher := readCipher r'\<rparr> \<and>
     in_sync P w' (bump_read_seq r')"

definition sendable :: "SSLRecord \<Rightarrow> SSLContext \<Rightarrow> bool" where
  "sendable rec w \<longleftrightarrow> length (contents rec) \<le> 16384 \<and> protocolVersion rec = negProtocolVersion w \<and>
     negProtocolVersion w \<in> {SSL_Version_3_0, TLS_Version_1_0, TLS_Version_1_1, TLS_Version_1_2}"

lemma queue_simps [simp]:
  "recordWriteQueue (bump_write_seq (enqueue q c)) = recordWriteQueue c @ [\<lparr>sent = 0, wdata = q\<rparr>]"
  by (simp add: bump_write_seq_def enqueue_def)

lemma ssl3_delivered:
  assumes ok: "platform_ok P" and sync: "in_sync P w r" and snd: "sendable rec w"
    and calls: "sslTslCalls w \<noteq> Tls12Callouts"
  shows "\<exists>w' payload r'. delivered P rec w r w' payload r'"
proof -
  note parts = in_sync_parts [OF sync]
  have ngcm: "\<not> isGcm (symCipher (writeCipher w))"
    using sync calls by (auto simp: in_sync_def Let_def)
  let ?bs = "blockSize (symCipher (writeCipher w))" and ?dg = "hmac_length (macRef (writeCipher w))"
  let ?len = "length (contents rec) + ?dg"
  have len0: "?len = length ([] :: bytes) + length (contents rec) + ?dg" by simp
  obtain m x ct cw cr y where
    m: "mac_record P rec w (writeCipher w) = Some (noErr, m, (writeCipher w)\<lparr>macCtx := x\<rparr>)" "length m = ?dg"
    and enc: "\<And>hdr w0. encrypt_and_queue P hdr ([] @ contents rec @ m @ cbc_padding ?bs ?len) ((writeCipher w)\<lparr>macCtx := x\<rparr>) w0 =
       Some (noErr, bump_write_seq (enqueue (hdr @ ct) (w0\<lparr>writeCipher := (writeCipher w)\<lparr>macCtx := x, cc := cw\<rparr>\<rparr>)))"
    and lct: "length ct = length ([] @ contents rec @ m @ cbc_padding ?bs ?len)"
    and dec: "cipher_decrypt P ct ct (readCipher r) =
      Some (noErr, [] @ contents rec @ m @ cbc_padding ?bs ?len, (readCipher r)\<lparr>cc := cr\<rparr>)"
    and chk: "check_mac_return P (contentType rec) (contents rec) (m @ cbc_padding ?bs ?len) (r\<lparr>readCipher := (readCipher r)\<lparr>cc := cr\<rparr>\<rparr>) =
       Some (noErr, contents rec, r\<lparr>readCipher := (readCipher r)\<lparr>cc := cr, macCtx := y\<rparr>\<rparr>)"
    and sync': "\<And>q n. in_sync P (bump_write_seq (enqueue q (w\<lparr>rngPos := n, writeCipher := (writeCipher w)\<lparr>macCtx := x, cc := cw\<rparr>\<rparr>)))
       (bump_read_seq (r\<lparr>readCipher := (readCipher r)\<lparr>cc := cr, macCtx := y\<rparr>\<rparr>))"
    by (rule body_roundtrip [OF ok sync ngcm len0]) (rule that)
  have small: "?len + length (cbc_padding ?bs ?len) \<le> 16384 + 64"
    using snd cbc_padding_le [of ?bs ?len] blockSize_le [of "symCipher (writeCipher w)"]
      hmac_length_le_48 [of "macRef (writeCipher w)"] unfolding sendable_def by linarith
  have lct': "length ct = ?len + length (cbc_padding ?bs ?len)" using lct m(2) by simp
  have wr: "call_writeRecord P rec w = Some (noErr, bump_write_seq
      (enqueue (record_header rec (length ct) @ ct) (w\<lparr>writeCipher := (writeCipher w)\<lparr>macCtx := x, cc := cw\<rparr>\<rparr>)))"
    using calls snd small enc m ok lct'
    by (cases "sslTslCalls w") (auto simp: call_writeRecord_def ssl3WriteRecord_def sendable_def Let_def platform_malloc)
  have al: "?bs > 0 \<Longrightarrow> length ct mod ?bs = 0"
    using cbc_padding_aligned [of ?bs ?len] lct' by (simp add: dvd_imp_mod_0)
  have rd: "call_decryptRecord P (contentType rec) ct r =
      Some (noErr, contents rec, r\<lparr>readCipher := (readCipher r)\<lparr>cc := cr, macCtx := y\<rparr>\<rparr>)"
  proof (cases "?bs > 0")
    case True
    define p where "p = pad_value ?bs ?len"
    have p: "cbc_padding ?bs ?len = replicate (Suc p) (of_nat p)" "p < ?bs" "p < 256"
      using cbc_padding_eq [OF True] blockSize_le [of "symCipher (writeCipher w)"] True
      by (simp_all add: p_def pad_value_def)
    note pl = padded_plain [OF p(3), of "[] @ contents rec @ m @ cbc_padding ?bs ?len" "[]" "contents rec" m]
    show ?thesis
      using calls True al dec chk pl p parts m(2)
      by (cases "sslTslCalls w")
        (simp_all add: call_decryptRecord_def ssl3DecryptRecord_def tls1DecryptRecord_def Let_def del: replicate_Suc)
  next
    case False
    then show ?thesis
      using calls dec chk parts m(2)
      by (cases "sslTslCalls w")
        (simp_all add: call_decryptRecord_def ssl3DecryptRecord_def tls1DecryptRecord_def Let_def cbc_padding_def)
  qed
  show ?thesis
    unfolding delivered_def
    by (intro exI conjI, rule wr, simp, use lct' parts in simp, use lct' small in simp, rule rd, simp)
      (use sync' [of _ "rngPos w"] in simp)
qed

lemma sslRand_ok:
  assumes "platform_ok P"
  obtains bs n where "sslRand P k ctx = (noErr, bs, ctx\<lparr>rngPos := n\<rparr>)" "length bs = k"
proof -
  obtain err bs c where r: "sslRand P k ctx = (err, bs, c)" by (rule prod_cases3)
  with length_sslRand [OF assms r] sslRand_frame [OF r] that show thesis by auto
qed

lemma tls12_mac_delivered:
  assumes ok: "platform_ok P" and sync: "in_sync P w r" and snd: "sendable rec w"
    and calls: "sslTslCalls w = Tls12Callouts" and ngcm: "\<not> isGcm (symCipher (writeCipher w))"
  shows "\<exists>w' payload r'. delivered P rec w r w' payload r'"
proof -
  note parts = in_sync_parts [OF sync]
  let ?bs = "blockSize (symCipher (writeCipher w))" and ?dg = "hmac_length (macRef (writeCipher w))"
  define ivLen where "ivLen = (if ?bs > 0 \<and> negProtocolVersion w \<ge> TLS_Version_1_1 then ?bs else 0)"
  obtain iv n where iv: "sslRand P ivLen w = (noErr, iv, w\<lparr>rngPos := n\<rparr>)" "length iv = ivLen"
    by (rule sslRand_ok [OF ok])
  let ?len = "ivLen + length (contents rec) + ?dg"
  have len0: "?len = length iv + length (contents rec) + ?dg" using iv by simp
  obtain m x ct cw cr y where
    m: "mac_record P rec w (writeCipher w) = Some (noErr, m, (writeCipher w)\<lparr>macCtx := x\<rparr>)" "length m = ?dg"
    and enc: "\<And>hdr w0. encrypt_and_queue P hdr (iv @ contents rec @ m @ cbc_padding ?bs ?len) ((writeCipher w)\<lparr>macCtx := x\<rparr>) w0 =
       Some (noErr, bump_write_seq (enqueue (hdr @ ct) (w0\<lparr>writeCipher := (writeCipher w)\<lparr>macCtx := x, cc := cw\<rparr>\<rparr>)))"
    and lct: "length ct = length (iv @ contents rec @ m @ cbc_padding ?bs ?len)"
    and dec: "cipher_decrypt P ct ct (readCipher r) =
      Some (noErr, iv @ contents rec @ m @ cbc_padding ?bs ?len, (readCipher r)\<lparr>cc := cr\<rparr>)"
    and chk: "check_mac_return P (contentType rec) (contents rec) (m @ cbc_padding ?bs ?len) (r\<lparr>readCipher := (readCipher r)\<lparr>cc := cr\<rparr>\<rparr>) =
       Some (noErr, contents rec, r\<lparr>readCipher := (readCipher r)\<lparr>cc := cr, macCtx := y\<rparr>\<rparr>)"
    and sync': "\<And>q n. in_sync P (bump_write_seq (enqueue q (w\<lparr>rngPos := n, writeCipher := (writeCipher w)\<lparr>macCtx := x, cc := cw\<rparr>\<rparr>)))
       (bump_read_seq (r\<lparr>readCipher := (readCipher r)\<lparr>cc := cr, macCtx := y\<rparr>\<rparr>))"
    by (rule body_roundtrip [OF ok sync ngcm len0]) (rule that)
  have "ivLen \<le> 16"
    using blockSize_le [of "symCipher (writeCipher w)"] by (simp add: ivLen_def)
  then have small: "?len + length (cbc_padding ?bs ?len) \<le> 16384 + 80"
    using snd cbc_padding_le [of ?bs ?len] blockSize_le [of "symCipher (writeCipher w)"]
      hmac_length_le_48 [of "macRef (writeCipher w)"] unfolding sendable_def by linarith
  have lct': "length ct = ?len + length (cbc_padding ?bs ?len)" using lct m(2) iv by simp
  have mac_rng: "mac_record P rec (w\<lparr>rngPos := n\<rparr>) c = mac_record P rec w c" for c
    by (simp add: mac_record_def)
  have wr: "call_writeRecord P rec w = Some (noErr, bump_write_seq
      (enqueue (record_header rec (length ct) @ ct) (w\<lparr>rngPos := n, writeCipher := (writeCipher w)\<lparr>macCtx := x, cc := cw\<rparr>\<rparr>)))"
    using calls ngcm snd small enc m ok lct' iv
    unfolding call_writeRecord_def tls12WriteRecord_def Let_def explicit_iv_eq digest_length_hash_of
      ivLen_def [symmetric]
    by (simp add: sendable_def platform_malloc mac_rng)
  have al: "?bs > 0 \<Longrightarrow> length ct mod ?bs = 0"
    using cbc_padding_aligned [of ?bs ?len] lct' by (simp add: dvd_imp_mod_0)
  have rd: "call_decryptRecord P (contentType rec) ct r =
      Some (noErr, contents rec, r\<lparr>readCipher := (readCipher r)\<lparr>cc := cr, macCtx := y\<rparr>\<rparr>)"
  proof (cases "?bs > 0")
    case True
    define p where "p = pad_value ?bs ?len"
    have p: "cbc_padding ?bs ?len = replicate (Suc p) (of_nat p)" "p < ?bs" "p < 256"
      using cbc_padding_eq [OF True] blockSize_le [of "symCipher (writeCipher w)"] True
      by (simp_all add: p_def pad_value_def)
    note pl = padded_plain [OF p(3), of "iv @ contents rec @ m @ cbc_padding ?bs ?len" iv "contents rec" m]
    have ivr: "length iv = (if negProtocolVersion r \<ge> TLS_Version_1_1 then ?bs else 0)"
      using True iv parts(2) by (simp add: ivLen_def)
    show ?thesis
      using calls ngcm True al dec chk pl p parts m(2) ivr
      by (simp add: call_decryptRecord_def tls12DecryptRecord_def Let_def del: replicate_Suc split: if_splits)
  next
    case False
    then show ?thesis
      using calls ngcm dec chk parts m(2) iv(2)
      by (simp add: call_decryptRecord_def tls12DecryptRecord_def Let_def cbc_padding_def ivLen_def)
  qed
  show ?thesis
    unfolding delivered_def
    by (intro exI conjI, rule wr, simp, use lct' parts in simp, use lct' small in simp, rule rd, simp)
      (use sync' in simp)
qed

lemma gcm_delivered:
  assumes ok: "platform_ok P" and sync: "in_sync P w r" and snd: "sendable rec w"
    and gcm: "isGcm (symCipher (writeCipher w))"
  shows "\<exists>w' payload r'. delivered P rec w r w' payload r'"
proof -
  note parts = in_sync_parts [OF sync]
  obtain g where g: "cc (writeCipher w) = CC_aes g" "cc (readCipher r) = CC_aes g" "gcm_ctx_ok g"
      and calls: "sslTslCalls w = Tls12Callouts" "macRef (writeCipher w) = HA_Null"
    using sync gcm by (auto simp: in_sync_def Let_def)
  let ?n = "SSLEncodeUInt64 (sequenceNum (writeCipher w))"
  let ?aad = "tls12GcmBuildAad (sequenceNum (writeCipher w)) (contentType rec) (negProtocolVersion w) (of_nat (length (contents rec)))"
  obtain ct tag where enc: "sslGcmEncrypt P (Some g) ?n ?aad (contents rec) = Some (ct, tag)"
    using g(3) by (simp add: sslGcmEncrypt_Some) (metis surj_pair)
  note len = sslGcmEncrypt_lengths [OF ok g(3) length_SSLEncodeUInt64 enc]
  have dec: "sslGcmDecrypt P (Some g) ?n ?aad ct tag = Some (contents rec)"
    by (rule sslGcmDecrypt_sslGcmEncrypt [OF ok g(3) length_SSLEncodeUInt64 enc])
  let ?payload = "?n @ ct @ tag"
  have wr: "call_writeRecord P rec w =
      Some (noErr, bump_write_seq (enqueue (record_header rec (length ?payload) @ ?payload) w))"
    using calls(1) gcm g enc snd ok len
    by (simp add: call_writeRecord_def tls12WriteRecord_def tls12WriteGcmRecord_def Let_def sendable_def platform_malloc)
  have rd: "call_decryptRecord P (contentType rec) ?payload r = Some (noErr, contents rec, r)"
    using calls(1) gcm g parts dec len
    by (simp add: call_decryptRecord_def tls12DecryptRecord_def tls12DecryptGcmRecord_def Let_def)
  show ?thesis
    unfolding delivered_def
  proof (intro exI conjI)
    show "call_writeRecord P rec w =
      Some (noErr, bump_write_seq (enqueue (record_header rec (length ?payload) @ ?payload) w))" by (rule wr)
    show "call_decryptRecord P (contentType rec) ?payload r = Some (noErr, contents rec, r)" by (rule rd)
    show "in_sync P (bump_write_seq (enqueue (record_header rec (length ?payload) @ ?payload) w)) (bump_read_seq r)"
      using sync gcm by (auto simp: in_sync_def Let_def bump_write_seq_def bump_read_seq_def enqueue_def)
  qed (use len parts snd calls in \<open>simp_all add: sendable_def\<close>)
qed

text \<open>Every record that may be sent is delivered, whatever the protocol and the suite.\<close>

lemma record_delivered:
  assumes "platform_ok P" "in_sync P w r" "sendable rec w"
  shows "\<exists>w' payload r'. delivered P rec w r w' payload r'"
  using assms ssl3_delivered tls12_mac_delivered gcm_delivered by blast

end
