(* ===== verification/Change_Cipher.thy ===== *)
theory Change_Cipher
  imports Key_Material Record_Sync
begin

text \<open>
  Taking new keys into use: \<open>SSLInitPendingCiphers\<close> of \<open>sslKeyExchange.c\<close> cuts the key material
  into the pending cipher contexts of both directions; \<open>sslChangeCipher.c\<close> installs the pending
  read cipher when the peer's ChangeCipherSpec arrives, and the handshake installs the pending
  write cipher after it has sent its own.

  The main result is that two ends which agree on the secrets are in sync, in both directions,
  after each has done so.
\<close>

section \<open>Pending ciphers\<close>

text \<open>A context cleared by \<open>memset\<close>.\<close>

definition zeroed_cipher :: CipherContext where
  "zeroed_cipher = \<lparr>macRef = HA_Null, symCipher = SSLCipherNull, macCtx = NoMacCtx, symKey = None, cspHand = 0,
     ccHand = None, cc = NoCC, encrypting = False, sequenceNum = \<lparr>high = 0, low = 0\<rparr>, ready = False,
     macSecret = replicate 32 0\<rparr>"

definition set_pending :: "SSLCipherSpec \<Rightarrow> CipherContext \<Rightarrow> CipherContext" where
  "set_pending cs c = c\<lparr>macRef := macAlgorithm cs, symCipher := cipher cs, sequenceNum := \<lparr>high = 0, low = 0\<rparr>\<rparr>"

definition clientPending :: "SSLContext \<Rightarrow> CipherContext" where
  "clientPending ctx = (if protocolSide ctx = SSL_ServerSide then readPending ctx else writePending ctx)"

definition serverPending :: "SSLContext \<Rightarrow> CipherContext" where
  "serverPending ctx = (if protocolSide ctx = SSL_ServerSide then writePending ctx else readPending ctx)"

definition put_pending :: "CipherContext \<Rightarrow> CipherContext \<Rightarrow> SSLContext \<Rightarrow> SSLContext" where
  "put_pending cp sp ctx = (if protocolSide ctx = SSL_ServerSide
     then ctx\<lparr>readPending := cp, writePending := sp\<rparr> else ctx\<lparr>readPending := sp, writePending := cp\<rparr>)"

text \<open>\<open>memcpy(c->macSecret, src, n)\<close>, the array having 32 octets.\<close>

definition copy_macSecret :: "nat \<Rightarrow> bytes \<Rightarrow> CipherContext \<Rightarrow> CipherContext option" where
  "copy_macSecret n src c =
     (if n > length (macSecret c) \<or> n > length src then None
      else Some (c\<lparr>macSecret := take n src @ drop n (macSecret c)\<rparr>))"

text \<open>The two calls of \<open>initialize\<close>, with the keys and IVs that their pointers give.\<close>

definition init_pair ::
  "platform \<Rightarrow> bytes \<Rightarrow> bytes \<Rightarrow> bytes \<Rightarrow> bytes \<Rightarrow> CipherContext \<Rightarrow> CipherContext \<Rightarrow> SSLContext \<Rightarrow> (OSStatus \<times> SSLContext) option" where
  "init_pair P ckey civ skey siv cp sp ctx =
     do { (err, cp, g) \<leftarrow> cipher_initialize P (ctxCspHand ctx) (g_resolved ctx) ckey civ cp;
          let ctx = put_pending cp sp (ctx\<lparr>g_resolved := g\<rparr>);
          if err \<noteq> noErr then Some (err, ctx) else do {
          (err, sp, g) \<leftarrow> cipher_initialize P (ctxCspHand ctx) (g_resolved ctx) skey siv sp;
          let ctx = put_pending cp sp (ctx\<lparr>g_resolved := g\<rparr>);
          if err \<noteq> noErr then Some (err, ctx)
          else Some (noErr, ctx\<lparr>writePending := (writePending ctx)\<lparr>ready := True\<rparr>,
                                readPending := (readPending ctx)\<lparr>ready := True\<rparr>\<rparr>) }}"

definition keyDataLen :: "SSLCipherSpec \<Rightarrow> nat" where
  "keyDataLen cs = (digestSize (hash_of (macAlgorithm cs)) + secretKeySize (cipher cs) +
     (if isExportable cs then 0 else ivSize (cipher cs))) * 2"

definition start_pending :: "SSLCipherSpec \<Rightarrow> SSLContext \<Rightarrow> SSLContext" where
  "start_pending cs ctx = ctx\<lparr>readPending := set_pending cs (readPending ctx),
                              writePending := set_pending cs (writePending ctx)\<rparr>"

text \<open>From the key material on: MAC secrets, then keys and IVs.\<close>

definition install_key_material ::
  "platform \<Rightarrow> SSLCipherSpec \<Rightarrow> bytes \<Rightarrow> SSLContext \<Rightarrow> (OSStatus \<times> SSLContext) option" where
  "install_key_material P cs key ctx =
     (let digest = digestSize (hash_of (macAlgorithm cs));
          ksize = secretKeySize (cipher cs);
          isize = ivSize (cipher cs);
          keys = drop (2 * digest) key
      in do {
          cp \<leftarrow> copy_macSecret digest key (clientPending ctx);
          sp \<leftarrow> copy_macSecret digest (drop digest key) (serverPending ctx);
          (err, cp) \<leftarrow> call_initMac P (sslTslCalls ctx) cp;
          if err \<noteq> noErr then Some (err, put_pending cp sp ctx) else do {
          (err, sp) \<leftarrow> call_initMac P (sslTslCalls ctx) sp;
          if err \<noteq> noErr then Some (err, put_pending cp sp ctx)
          else if \<not> isExportable cs then
            init_pair P keys (take isize (drop (2 * ksize) keys))
              (drop ksize keys) (take isize (drop (2 * ksize + isize) keys)) cp sp ctx
          else if keySize (cipher cs) > 16 \<or> isize > 16 then None
          else do {
            (err, ckey, skey, civ, siv) \<leftarrow>
              call_generateExportKeyAndIv P isize (take ksize keys) (take ksize (drop ksize keys)) ctx;
            if err \<noteq> noErr then Some (err, put_pending cp sp ctx)
            else init_pair P ckey (take isize civ) skey (take isize siv) cp sp ctx } }})"

definition SSLInitPendingCiphers :: "platform \<Rightarrow> SSLContext \<Rightarrow> (OSStatus \<times> SSLContext) option" where
  "SSLInitPendingCiphers P ctx =
     do { cs \<leftarrow> selectedCipherSpec ctx;
          let ctx = start_pending cs ctx;
          let (err, buf) = SSLAllocBuffer P (keyDataLen cs);
          if err \<noteq> noErr then Some (err, ctx) else do {
          (err, key) \<leftarrow> call_generateKeyMaterial P (keyDataLen cs) ctx;
          if err \<noteq> noErr then Some (err, ctx) else install_key_material P cs key ctx }}"

section \<open>ChangeCipherSpec\<close>

text \<open>
  A message encoder (\<open>EncodeMessageFunc\<close>) fills in the record and may change the context; the
  record is not used when the status is an error.
\<close>

type_synonym EncodeMessageFunc = "platform \<Rightarrow> SSLContext \<Rightarrow> (OSStatus \<times> SSLRecord \<times> SSLContext) option"

definition SSLEncodeChangeCipherSpec :: EncodeMessageFunc where
  "SSLEncodeChangeCipherSpec P ctx =
     (if \<not> ready (writePending ctx) \<or> negProtocolVersion ctx < SSL_Version_3_0 then None
      else Some (fst (SSLAllocBuffer P 1), \<lparr>contentType = SSL_RecordTypeChangeCipher,
        protocolVersion = negProtocolVersion ctx, contents = [1]\<rparr>, ctx))"

text \<open>Releasing a cipher context; the result of \<open>freeMac\<close> is ignored.\<close>

definition SSLDisposeCipherSuite ::
  "SslTlsCallouts \<Rightarrow> CipherContext \<Rightarrow> (OSStatus \<times> CipherContext) option" where
  "SSLDisposeCipherSuite calls c =
     do { (err, c) \<leftarrow> cipher_finish c;
          if err \<noteq> noErr then Some (err, c)
          else do { (ignored, c) \<leftarrow> call_freeMac calls c; Some (noErr, c) } }"

text \<open>
  Taking the pending write cipher into use, as the handshake does after it has queued its own
  ChangeCipherSpec. Only one of the three places sets \<open>encrypting\<close> again in the cleared context.
\<close>

definition install_writePending :: "bool \<Rightarrow> SSLContext \<Rightarrow> SSLContext" where
  "install_writePending enc ctx = ctx\<lparr>writeCipher := (writePending ctx)\<lparr>ready := False\<rparr>,
     writePending := zeroed_cipher\<lparr>encrypting := enc\<rparr>\<rparr>"

definition install_readPending :: "SSLContext \<Rightarrow> SSLContext" where
  "install_readPending ctx = ctx\<lparr>readCipher := (readPending ctx)\<lparr>ready := False\<rparr>,
     state := SSL_HdskStateFinished, readPending := zeroed_cipher\<rparr>"

text \<open>
  The resumption by ticket: on the client, in the state the ServerHello left, the application's
  callback supplies the master secret.
\<close>

definition resume_by_ticket :: "platform \<Rightarrow> SSLContext \<Rightarrow> (OSStatus \<times> SSLContext) option" where
  "resume_by_ticket P ctx =
     (if protocolSide ctx = SSL_ClientSide \<and> (\<exists>t. sessionTicket ctx = Some t \<and> t \<noteq> []) \<and>
         state ctx \<in> {SSL_HdskStateKeyExchange, SSL_HdskStateCert} \<and> masterSecretCallback ctx
      then do {
        let ctx = ctx\<lparr>masterSecret := masterSecretFn P (masterSecret ctx), sessionMatch := 1\<rparr>;
        (err, ctx) \<leftarrow> FindCipherSpec ctx;
        if err \<noteq> noErr then Some (err, ctx) else do {
        (err, ctx) \<leftarrow> SSLInitPendingCiphers P ctx;
        if err \<noteq> noErr
        then do { (ignored, ctx) \<leftarrow> SSLFatalSessionAlert P SSL_AlertInternalError ctx; Some (err, ctx) }
        else Some (noErr, ctx\<lparr>state := SSL_HdskStateChangeCipherSpec\<rparr>) }}
      else Some (noErr, ctx))"

definition alert_return :: "platform \<Rightarrow> AlertDescription \<Rightarrow> OSStatus \<Rightarrow> SSLContext \<Rightarrow> (OSStatus \<times> SSLContext) option" where
  "alert_return P desc err ctx = do { (ignored, ctx) \<leftarrow> SSLFatalSessionAlert P desc ctx; Some (err, ctx) }"

definition SSLProcessChangeCipherSpec :: "platform \<Rightarrow> SSLRecord \<Rightarrow> SSLContext \<Rightarrow> (OSStatus \<times> SSLContext) option" where
  "SSLProcessChangeCipherSpec P rec ctx =
     (if contents rec \<noteq> [1] then alert_return P SSL_AlertUnexpectedMsg errSSLProtocol ctx
      else do {
        (err, ctx) \<leftarrow> resume_by_ticket P ctx;
        if err \<noteq> noErr then Some (err, ctx)
        else if \<not> ready (readPending ctx) \<or> state ctx \<noteq> SSL_HdskStateChangeCipherSpec
        then alert_return P SSL_AlertUnexpectedMsg errSSLProtocol ctx
        else do {
          (err, old) \<leftarrow> SSLDisposeCipherSuite (sslTslCalls ctx) (readCipher ctx);
          if err \<noteq> noErr then alert_return P SSL_AlertInternalError err (ctx\<lparr>readCipher := old\<rparr>)
          else Some (noErr, install_readPending ctx) }})"

section \<open>Both ends derive the same ciphers\<close>

text \<open>A pending context as \<open>SSLNewContext\<close> or the previous handshake leaves it.\<close>

definition fresh_pending :: "bool \<Rightarrow> CipherContext \<Rightarrow> bool" where
  "fresh_pending enc c \<longleftrightarrow> macCtx c = NoMacCtx \<and> cc c = NoCC \<and> encrypting c = enc \<and> length (macSecret c) = 32"

text \<open>The inputs of the key derivation on which client \<open>c\<close> and server \<open>s\<close> have to agree.\<close>

definition same_secrets :: "SSLContext \<Rightarrow> SSLContext \<Rightarrow> bool" where
  "same_secrets c s \<longleftrightarrow> protocolSide c = SSL_ClientSide \<and> protocolSide s = SSL_ServerSide \<and>
     sslTslCalls c = sslTslCalls s \<and> negProtocolVersion c = negProtocolVersion s \<and>
     selectedCipher c = selectedCipher s \<and> selectedCipherSpec c = selectedCipherSpec s \<and>
     masterSecret c = masterSecret s \<and> clientRandom c = clientRandom s \<and> serverRandom c = serverRandom s"

lemma KnownCipherSpecs_lengths:
  "\<forall>cs\<in>set KnownCipherSpecs. keyDataLen cs \<le> 160 \<and> digestSize (hash_of (macAlgorithm cs)) \<le> 32"
  by (simp add: KnownCipherSpecs_def keyDataLen_def hmac_length_def secretKeySize_def keySize_def ivSize_def)

text \<open>The end of the routine: both contexts initialised and marked ready.\<close>

lemma init_pair_noErr:
  assumes "init_pair P ckey civ skey siv cp sp ctx = Some (noErr, ctx')"
  obtains cp' sp' g g' where
    "cipher_initialize P (ctxCspHand ctx) (g_resolved ctx) ckey civ cp = Some (noErr, cp', g)"
    "cipher_initialize P (ctxCspHand ctx) g skey siv sp = Some (noErr, sp', g')"
    "ctx' = put_pending (cp'\<lparr>ready := True\<rparr>) (sp'\<lparr>ready := True\<rparr>) (ctx\<lparr>g_resolved := g'\<rparr>)"
proof -
  from assms obtain cp' g where 1: "cipher_initialize P (ctxCspHand ctx) (g_resolved ctx) ckey civ cp = Some (noErr, cp', g)"
    by (auto simp: init_pair_def Let_def elim!: bind_SomeE if_SomeE split: if_splits)
  with assms obtain sp' g' where 2: "cipher_initialize P (ctxCspHand ctx) g skey siv sp = Some (noErr, sp', g')"
    by (auto simp: init_pair_def Let_def put_pending_def elim!: bind_SomeE split: if_splits)
  with 1 assms have "ctx' = put_pending (cp'\<lparr>ready := True\<rparr>) (sp'\<lparr>ready := True\<rparr>) (ctx\<lparr>g_resolved := g'\<rparr>)"
    by (auto simp: init_pair_def Let_def put_pending_def split: if_splits)
  with 1 2 show thesis by (rule that)
qed

text \<open>The key block, and the keys and IVs that are cut from it or derived for an exportable suite.\<close>

definition derived_keys ::
  "platform \<Rightarrow> SSLCipherSpec \<Rightarrow> SSLContext \<Rightarrow> (OSStatus \<times> bytes \<times> bytes \<times> bytes \<times> bytes \<times> bytes) option" where
  "derived_keys P cs ctx =
     (let ksize = secretKeySize (cipher cs); isize = ivSize (cipher cs);
          key = key_block P (sslTslCalls ctx) (selectedCipher ctx) (masterSecret ctx) (serverRandom ctx)
            (clientRandom ctx) (keyDataLen cs);
          keys = drop (2 * digestSize (hash_of (macAlgorithm cs))) key
      in if \<not> isExportable cs
         then Some (noErr, key, keys, take isize (drop (2 * ksize) keys), drop ksize keys, take isize (drop (2 * ksize + isize) keys))
         else do { (err, ckey, skey, civ, siv) \<leftarrow>
                     call_generateExportKeyAndIv P isize (take ksize keys) (take ksize (drop ksize keys)) ctx;
                   Some (err, key, ckey, take isize civ, skey, take isize siv) })"

lemma call_generateExportKeyAndIv_cong:
  assumes "sslTslCalls c = sslTslCalls s" "selectedCipher c = selectedCipher s"
    "clientRandom c = clientRandom s" "serverRandom c = serverRandom s"
  shows "call_generateExportKeyAndIv P n ck sk c = call_generateExportKeyAndIv P n ck sk s"
  unfolding call_generateExportKeyAndIv_def ssl3GenerateExportKeyAndIv_def tls1GenerateExportKeyAndIv_def
    tls12GenerateExportKeyAndIv_def tls_export_keys_def assms ..

lemma derived_keys_cong: "same_secrets c s \<Longrightarrow> derived_keys P cs c = derived_keys P cs s"
  using call_generateExportKeyAndIv_cong [of c s] by (simp add: same_secrets_def derived_keys_def Let_def)

definition with_secret :: "nat \<Rightarrow> bytes \<Rightarrow> CipherContext \<Rightarrow> CipherContext" where
  "with_secret n src c = c\<lparr>macSecret := take n src @ drop n (macSecret c)\<rparr>"

lemma copy_macSecret_ok:
  "n \<le> length (macSecret c) \<Longrightarrow> n \<le> length src \<Longrightarrow> copy_macSecret n src c = Some (with_secret n src c)"
  by (simp add: copy_macSecret_def with_secret_def)

lemma start_pending_fields [simp]:
  "clientPending (start_pending cs ctx) = set_pending cs (clientPending ctx)"
  "serverPending (start_pending cs ctx) = set_pending cs (serverPending ctx)"
  "protocolSide (start_pending cs ctx) = protocolSide ctx" "sslTslCalls (start_pending cs ctx) = sslTslCalls ctx"
  "negProtocolVersion (start_pending cs ctx) = negProtocolVersion ctx" "state (start_pending cs ctx) = state ctx"
  "selectedCipher (start_pending cs ctx) = selectedCipher ctx" "masterSecret (start_pending cs ctx) = masterSecret ctx"
  "clientRandom (start_pending cs ctx) = clientRandom ctx" "serverRandom (start_pending cs ctx) = serverRandom ctx"
  by (simp_all add: start_pending_def clientPending_def serverPending_def)

lemma put_pending_fields [simp]:
  "clientPending (put_pending cp sp ctx) = cp" "serverPending (put_pending cp sp ctx) = sp"
  "protocolSide (put_pending cp sp ctx) = protocolSide ctx" "sslTslCalls (put_pending cp sp ctx) = sslTslCalls ctx"
  "negProtocolVersion (put_pending cp sp ctx) = negProtocolVersion ctx" "state (put_pending cp sp ctx) = state ctx"
  by (simp_all add: put_pending_def clientPending_def serverPending_def)

lemma install_key_material_noErr:
  assumes "length key = keyDataLen cs" "digestSize (hash_of (macAlgorithm cs)) \<le> 32"
    and "length (macSecret (clientPending ctx)) = 32" "length (macSecret (serverPending ctx)) = 32"
    and "key = key_block P (sslTslCalls ctx) (selectedCipher ctx) (masterSecret ctx) (serverRandom ctx) (clientRandom ctx) (keyDataLen cs)"
    and run: "install_key_material P cs key ctx = Some (noErr, ctx')"
  obtains ckey civ skey siv cp sp where "derived_keys P cs ctx = Some (noErr, key, ckey, civ, skey, siv)"
    "call_initMac P (sslTslCalls ctx) (with_secret (digestSize (hash_of (macAlgorithm cs))) key (clientPending ctx)) = Some (noErr, cp)"
    "call_initMac P (sslTslCalls ctx) (with_secret (digestSize (hash_of (macAlgorithm cs)))
        (drop (digestSize (hash_of (macAlgorithm cs))) key) (serverPending ctx)) = Some (noErr, sp)"
    "init_pair P ckey civ skey siv cp sp ctx = Some (noErr, ctx')"
proof -
  let ?d = "digestSize (hash_of (macAlgorithm cs))"
  have "2 * ?d \<le> keyDataLen cs" by (simp add: keyDataLen_def)
  then have copy: "copy_macSecret ?d key (clientPending ctx) = Some (with_secret ?d key (clientPending ctx))"
    "copy_macSecret ?d (drop ?d key) (serverPending ctx) = Some (with_secret ?d (drop ?d key) (serverPending ctx))"
    using assms(1-4) by (simp_all add: copy_macSecret_ok)
  note keys = derived_keys_def [of P cs ctx, folded assms(5), unfolded Let_def]
  show thesis
    using run unfolding install_key_material_def Let_def copy Option.bind.simps
    apply (elim bind_SomeE; clarsimp split: if_split_asm; elim bind_SomeE; clarsimp split: if_split_asm)
    subgoal by (rule that [rotated -1], assumption) (simp_all add: keys)
    subgoal
      by (elim bind_SomeE; clarsimp split: if_split_asm; rule that [rotated -1], assumption) (simp_all add: keys)
    done
qed

lemma call_initMac_frame:
  assumes "call_initMac P calls c = Some (err, c')"
  shows "\<exists>x s. c' = c\<lparr>macCtx := x, macSecret := s\<rparr>"
proof -
  have upd: "\<exists>x s. c\<lparr>macCtx := a\<rparr> = c\<lparr>macCtx := x, macSecret := s\<rparr>" for a
    by (rule exI [of _ a], rule exI [of _ "macSecret c"]) (cases c; simp)
  show ?thesis
    using assms upd
    by (cases calls) (auto simp: call_initMac_def ssl3InitMac_def tls1InitMac_def tls12InitMac_def Let_def
        elim!: bind_SomeE split: prod.split_asm)
qed

lemma call_initMac_secret:
  assumes "platform_ok P" "macRef c \<noteq> HA_Null" "macCtx c = NoMacCtx" "call_initMac P calls c = Some (noErr, c')"
  shows "mac_holds P calls c' (take (hmac_length (macRef c)) (macSecret c))"
  using call_initMac_holds [OF assms(1-3), of calls] assms(4) by (metis option.inject prod.inject)

text \<open>Initialising two ends with the same key and IV: what changes, and the pairing.\<close>

lemma cipher_initialize_pair:
  assumes "cryptor_laws P" "encrypting w" "\<not> encrypting r" "symCipher w = symCipher r"
    and "\<not> isGcm (symCipher w)" "\<not> isCDSA (symCipher w)"
    and "cipher_initialize P h g key iv w = Some (noErr, w', g1)" "cipher_initialize P h' g' key iv r = Some (noErr, r', g2)"
  shows "ciphers_paired P w' r'" "\<exists>x. w' = w\<lparr>cc := x\<rparr>" "\<exists>x. r' = r\<lparr>cc := x\<rparr>"
proof -
  have cc_id: "\<exists>x. (c :: CipherContext) = c\<lparr>cc := x\<rparr>" for c by (metis CipherContext.surjective CipherContext.update_convs(7))
  have frame: "CCSymmInit P key iv c = Some (noErr, c') \<Longrightarrow> \<exists>x. c' = c\<lparr>cc := x\<rparr>" for c c'
    by (auto simp: CCSymmInit_def Let_def split: cc_union.split_asm if_split_asm option.split_asm)
  show "ciphers_paired P w' r'"
    using assms CCSymmInit_paired [of P w r key iv w' r']
    by (auto simp: cipher_initialize_def Let_def ciphers_paired_def elim!: bind_SomeE split: if_split_asm)
  show "\<exists>x. w' = w\<lparr>cc := x\<rparr>" "\<exists>x. r' = r\<lparr>cc := x\<rparr>"
    using assms cc_id frame by (auto simp: cipher_initialize_def Let_def elim!: bind_SomeE split: if_split_asm)
qed

lemma cipher_initialize_gcm:
  assumes "isGcm (symCipher w)" "symCipher w = symCipher r" "4 \<le> length iv"
    and "cipher_initialize P h g key iv w = Some (noErr, w', g1)" "cipher_initialize P h' g' key iv r = Some (noErr, r', g2)"
  obtains x where "w' = w\<lparr>cc := CC_aes x\<rparr>" "r' = r\<lparr>cc := CC_aes x\<rparr>" "gcm_ctx_ok x"
proof -
  have gcm: "\<exists>x. AES_set_encrypt_key P (take (nat (int (secretKeySize (symCipher c)) * 8) div 8) key)
        (int (secretKeySize (symCipher c)) * 8) = Some x \<and>
      c' = c\<lparr>cc := CC_aes \<lparr>aesKey = x, fixedIV = take 4 iv, valid = True\<rparr>\<rparr>"
    if "cipher_initialize P h g key iv c = Some (noErr, c', g1)" "isGcm (symCipher c)" for c c' h g g1
    using that by (auto simp: cipher_initialize_def sslGcmCipherInit_def sslGcmInit_def Let_def isGcm_def
        split: prod.split_asm if_split_asm option.split_asm)
  show thesis
    using gcm [OF assms(4)] gcm [OF assms(5)] assms(1-3) that by (auto simp: gcm_ctx_ok_def)
qed

text \<open>How one pending context \<open>p\<close> becomes \<open>p'\<close>, given its MAC secret, key and IV.\<close>

definition pend_init ::
  "platform \<Rightarrow> SslTlsCallouts \<Rightarrow> SSLCipherSpec \<Rightarrow> bytes \<Rightarrow> bytes \<Rightarrow> bytes \<Rightarrow> CipherContext \<Rightarrow> CipherContext \<Rightarrow> bool" where
  "pend_init P calls cs src key iv p p' \<longleftrightarrow> (\<exists>h g g' p1 p2.
     call_initMac P calls (with_secret (digestSize (hash_of (macAlgorithm cs))) src (set_pending cs p)) = Some (noErr, p1) \<and>
     cipher_initialize P h g key iv p1 = Some (noErr, p2, g') \<and> p' = p2\<lparr>ready := True\<rparr>)"

lemma pending_pair_in_sync:
  assumes ok: "platform_ok P" "cryptor_laws P" and cs: "cs \<in> set KnownCipherSpecs" "\<not> isCDSA (cipher cs)"
    "isGcm (cipher cs) \<Longrightarrow> calls = Tls12Callouts"
    and fresh: "fresh_pending True w" "fresh_pending False r"
    and len: "digestSize (hash_of (macAlgorithm cs)) \<le> length src" "isGcm (cipher cs) \<Longrightarrow> 4 \<le> length iv"
    and pend: "pend_init P calls cs src key iv w w'" "pend_init P calls cs src key iv r r'"
    and ctxs': "sslTslCalls x = calls" "sslTslCalls y = calls" "negProtocolVersion x = negProtocolVersion y"
      "writeCipher x = w'\<lparr>ready := b\<rparr>" "readCipher y = r'\<lparr>ready := b'\<rparr>"
  shows "in_sync P x y"
proof -
  let ?d = "digestSize (hash_of (macAlgorithm cs))"
  obtain w1 r1 w2 r2 h h' g g' g1 g2 where mac:
    "call_initMac P calls (with_secret ?d src (set_pending cs w)) = Some (noErr, w1)"
    "call_initMac P calls (with_secret ?d src (set_pending cs r)) = Some (noErr, r1)"
    and init: "cipher_initialize P h g key iv w1 = Some (noErr, w2, g1)" "cipher_initialize P h' g' key iv r1 = Some (noErr, r2, g2)"
    and ends: "w' = w2\<lparr>ready := True\<rparr>" "r' = r2\<lparr>ready := True\<rparr>"
    using pend unfolding pend_init_def by blast
  have ctxs: "sslTslCalls x = calls" "sslTslCalls y = calls" "negProtocolVersion x = negProtocolVersion y"
      "writeCipher x = w2\<lparr>ready := b\<rparr>" "readCipher y = r2\<lparr>ready := b'\<rparr>"
    using ctxs' ends by simp_all
  have d: "?d = hmac_length (macAlgorithm cs)" by simp
  obtain a s where w1: "w1 = (with_secret ?d src (set_pending cs w))\<lparr>macCtx := a, macSecret := s\<rparr>"
    using call_initMac_frame [OF mac(1)] by blast
  obtain a' s' where r1: "r1 = (with_secret ?d src (set_pending cs r))\<lparr>macCtx := a', macSecret := s'\<rparr>"
    using call_initMac_frame [OF mac(2)] by blast
  have fields: "symCipher w1 = cipher cs" "symCipher r1 = cipher cs" "encrypting w1" "\<not> encrypting r1"
    "macRef w1 = macAlgorithm cs" "macRef r1 = macAlgorithm cs" "sequenceNum w1 = sequenceNum r1"
    using fresh by (simp_all add: w1 r1 with_secret_def set_pending_def fresh_pending_def)
  have null: "macAlgorithm cs = HA_Null \<longleftrightarrow> isGcm (cipher cs)"
    using KnownCipherSpecs_mac cs(1) by blast
  have holds: "mac_holds P calls w1 (take ?d src)" "mac_holds P calls r1 (take ?d src)" if "\<not> isGcm (cipher cs)"
    using call_initMac_secret [OF ok(1) _ _ mac(1)] call_initMac_secret [OF ok(1) _ _ mac(2)] that null len(1) fresh
    by (simp_all add: with_secret_def set_pending_def fresh_pending_def min_absorb1)
  show ?thesis
  proof (cases "isGcm (cipher cs)")
    case True
    then obtain g where "w2 = w1\<lparr>cc := CC_aes g\<rparr>" "r2 = r1\<lparr>cc := CC_aes g\<rparr>" "gcm_ctx_ok g"
      using cipher_initialize_gcm [OF _ _ len(2) init] fields by metis
    with True ctxs fields cs(3) null show ?thesis by (simp add: in_sync_def Let_def)
  next
    case False
    note pair = cipher_initialize_pair [OF ok(2) fields(3,4) _ _ _ init, simplified fields, OF refl False cs(2)]
    obtain u v where "w2 = w1\<lparr>cc := u\<rparr>" "r2 = r1\<lparr>cc := v\<rparr>" using pair by blast
    moreover have "ciphers_paired P (w2\<lparr>ready := b\<rparr>) (r2\<lparr>ready := b'\<rparr>)"
      using pair(1) by (auto simp: ciphers_paired_def)
    moreover have "mac_holds P calls (c\<lparr>cc := z, ready := q\<rparr>) k = mac_holds P calls c k" for c z q k
      by (simp add: mac_holds_def split: SslTlsCallouts.split)
    ultimately show ?thesis
      using False ctxs fields null holds [OF False] by (auto simp: in_sync_def Let_def)
  qed
qed

lemma KnownCipherSpecs_gcm: "\<forall>cs\<in>set KnownCipherSpecs. isGcm (cipher cs) \<longrightarrow> \<not> isExportable cs \<and> ivSize (cipher cs) = 4"
  by (simp add: KnownCipherSpecs_def isGcm_def ivSize_def)

lemma derived_keys_lengths:
  assumes "platform_ok P" "cs \<in> set KnownCipherSpecs" "derived_keys P cs ctx = Some (err, key, ckey, civ, skey, siv)"
  shows "length key = keyDataLen cs" "2 * digestSize (hash_of (macAlgorithm cs)) \<le> length key"
    "isGcm (cipher cs) \<Longrightarrow> length civ = 4 \<and> length siv = 4"
proof -
  show len: "length key = keyDataLen cs"
    using assms by (auto simp: derived_keys_def Let_def length_key_block elim!: bind_SomeE split: if_split_asm)
  then show "2 * digestSize (hash_of (macAlgorithm cs)) \<le> length key" by (simp add: keyDataLen_def)
  assume "isGcm (cipher cs)"
  with KnownCipherSpecs_gcm assms(2) have "\<not> isExportable cs" "ivSize (cipher cs) = 4" by auto
  with assms(3) len show "length civ = 4 \<and> length siv = 4"
    by (auto simp: derived_keys_def Let_def keyDataLen_def)
qed

lemma SSLInitPendingCiphers_noErr:
  assumes ok: "platform_ok P" and cs: "selectedCipherSpec ctx = Some cs" "cs \<in> set KnownCipherSpecs"
    and fresh: "fresh_pending e (clientPending ctx)" "fresh_pending e' (serverPending ctx)"
    and run: "SSLInitPendingCiphers P ctx = Some (noErr, ctx')"
  obtains key ckey civ skey siv where
    "derived_keys P cs ctx = Some (noErr, key, ckey, civ, skey, siv)"
    "pend_init P (sslTslCalls ctx) cs key ckey civ (clientPending ctx) (clientPending ctx')"
    "pend_init P (sslTslCalls ctx) cs (drop (digestSize (hash_of (macAlgorithm cs))) key) skey siv (serverPending ctx) (serverPending ctx')"
    "protocolSide ctx' = protocolSide ctx" "sslTslCalls ctx' = sslTslCalls ctx"
    "negProtocolVersion ctx' = negProtocolVersion ctx" "state ctx' = state ctx"
proof -
  let ?ctx = "start_pending cs ctx"
  define key where "key = key_block P (sslTslCalls ctx) (selectedCipher ctx) (masterSecret ctx) (serverRandom ctx)
    (clientRandom ctx) (keyDataLen cs)"
  have n: "keyDataLen cs \<le> 160" "digestSize (hash_of (macAlgorithm cs)) \<le> 32"
    using KnownCipherSpecs_lengths cs(2) by auto
  have "call_generateKeyMaterial P (keyDataLen cs) ?ctx = Some (noErr, key)"
    using call_generateKeyMaterial_ok [OF ok n(1), of ?ctx] by (simp add: key_def)
  with run cs(1) have run': "install_key_material P cs key ?ctx = Some (noErr, ctx')"
    by (simp add: SSLInitPendingCiphers_def Let_def SSLAllocBuffer_ok ok)
  have same: "derived_keys P cs ?ctx = derived_keys P cs ctx"
    using call_generateExportKeyAndIv_cong [of ?ctx ctx] by (simp add: derived_keys_def Let_def)
  have len: "length key = keyDataLen cs" by (simp add: key_def length_key_block ok)
  have secrets: "length (macSecret (clientPending ?ctx)) = 32" "length (macSecret (serverPending ?ctx)) = 32"
    using fresh by (simp_all add: set_pending_def fresh_pending_def)
  have key: "key = key_block P (sslTslCalls ?ctx) (selectedCipher ?ctx) (masterSecret ?ctx) (serverRandom ?ctx)
      (clientRandom ?ctx) (keyDataLen cs)" by (simp add: key_def)
  obtain ckey civ skey siv cp sp where mac: "derived_keys P cs ?ctx = Some (noErr, key, ckey, civ, skey, siv)"
    "call_initMac P (sslTslCalls ?ctx) (with_secret (digestSize (hash_of (macAlgorithm cs))) key (clientPending ?ctx)) = Some (noErr, cp)"
    "call_initMac P (sslTslCalls ?ctx) (with_secret (digestSize (hash_of (macAlgorithm cs)))
        (drop (digestSize (hash_of (macAlgorithm cs))) key) (serverPending ?ctx)) = Some (noErr, sp)"
    and pair: "init_pair P ckey civ skey siv cp sp ?ctx = Some (noErr, ctx')"
    by (rule install_key_material_noErr [OF len n(2) secrets key run'])
  obtain cp' sp' g g' where init: "cipher_initialize P (ctxCspHand ?ctx) (g_resolved ?ctx) ckey civ cp = Some (noErr, cp', g)"
    "cipher_initialize P (ctxCspHand ?ctx) g skey siv sp = Some (noErr, sp', g')"
    "ctx' = put_pending (cp'\<lparr>ready := True\<rparr>) (sp'\<lparr>ready := True\<rparr>) (?ctx\<lparr>g_resolved := g'\<rparr>)"
    by (rule init_pair_noErr [OF pair])
  show thesis
  proof (rule that [of key ckey civ skey siv])
    show "pend_init P (sslTslCalls ctx) cs key ckey civ (clientPending ctx) (clientPending ctx')"
      unfolding pend_init_def using mac(2) init(1,3) by auto
    show "pend_init P (sslTslCalls ctx) cs (drop (digestSize (hash_of (macAlgorithm cs))) key) skey siv
        (serverPending ctx) (serverPending ctx')"
      unfolding pend_init_def using mac(3) init(2,3) by auto
  qed (use mac(1) same init(3) in simp_all)
qed

text \<open>
  The main result: after both ends have run \<open>SSLInitPendingCiphers\<close> on the same secrets, each
  direction is in sync once its writer and its reader have taken the pending ciphers into use.
\<close>

lemma pending_in_sync:
  assumes ok: "platform_ok P" "cryptor_laws P" and same: "same_secrets c s"
    and cs: "selectedCipherSpec c = Some cs" "cs \<in> set KnownCipherSpecs" "\<not> isCDSA (cipher cs)"
      "isGcm (cipher cs) \<Longrightarrow> sslTslCalls c = Tls12Callouts"
    and fresh: "fresh_pending True (writePending c)" "fresh_pending False (readPending c)"
      "fresh_pending True (writePending s)" "fresh_pending False (readPending s)"
    and run: "SSLInitPendingCiphers P c = Some (noErr, c')" "SSLInitPendingCiphers P s = Some (noErr, s')"
  shows "in_sync P (install_writePending b c') (install_readPending s')"
    "in_sync P (install_writePending b s') (install_readPending c')"
proof -
  have sides: "protocolSide c = SSL_ClientSide" "protocolSide s = SSL_ServerSide" "sslTslCalls c = sslTslCalls s"
    "negProtocolVersion c = negProtocolVersion s" "selectedCipherSpec s = Some cs"
    using same cs(1) by (auto simp: same_secrets_def)
  have cf: "fresh_pending True (clientPending c)" "fresh_pending False (serverPending c)"
    and sf: "fresh_pending False (clientPending s)" "fresh_pending True (serverPending s)"
    using fresh sides by (simp_all add: clientPending_def serverPending_def)
  have keys: "derived_keys P cs c = derived_keys P cs s" by (rule derived_keys_cong [OF same])
  obtain key ckey civ skey siv where C: "derived_keys P cs c = Some (noErr, key, ckey, civ, skey, siv)"
    "pend_init P (sslTslCalls c) cs key ckey civ (clientPending c) (clientPending c')"
    "pend_init P (sslTslCalls c) cs (drop (digestSize (hash_of (macAlgorithm cs))) key) skey siv (serverPending c) (serverPending c')"
    "protocolSide c' = protocolSide c" "sslTslCalls c' = sslTslCalls c" "negProtocolVersion c' = negProtocolVersion c"
    by (rule SSLInitPendingCiphers_noErr [OF ok(1) cs(1,2) cf run(1)])
  obtain key' ckey' civ' skey' siv' where S0: "derived_keys P cs s = Some (noErr, key', ckey', civ', skey', siv')"
    "pend_init P (sslTslCalls s) cs key' ckey' civ' (clientPending s) (clientPending s')"
    "pend_init P (sslTslCalls s) cs (drop (digestSize (hash_of (macAlgorithm cs))) key') skey' siv' (serverPending s) (serverPending s')"
    "protocolSide s' = protocolSide s" "sslTslCalls s' = sslTslCalls s" "negProtocolVersion s' = negProtocolVersion s"
    by (rule SSLInitPendingCiphers_noErr [OF ok(1) sides(5) cs(2) sf run(2)])
  then have S: "pend_init P (sslTslCalls c) cs key ckey civ (clientPending s) (clientPending s')"
    "pend_init P (sslTslCalls c) cs (drop (digestSize (hash_of (macAlgorithm cs))) key) skey siv (serverPending s) (serverPending s')"
    using C(1) keys sides(3) by simp_all
  note len = derived_keys_lengths [OF ok(1) cs(2) C(1)]
  note pair = pending_pair_in_sync [OF ok cs(2-4)]
  show "in_sync P (install_writePending b c') (install_readPending s')"
    by (rule pair [OF _ cf(1) sf(1) _ _ C(2) S(1)])
      (use sides C S0 len in \<open>simp_all add: install_writePending_def install_readPending_def clientPending_def\<close>)
  show "in_sync P (install_writePending b s') (install_readPending c')"
    by (rule pair [OF _ sf(2) cf(2) _ _ S(2) C(3)])
      (use sides C S0 len in \<open>simp_all add: install_writePending_def install_readPending_def serverPending_def\<close>)
qed

section \<open>When a ChangeCipherSpec is accepted\<close>

lemma alert_return_effect:
  assumes "alert_return P desc err ctx = Some (e, ctx')"
  shows "e = err" "state ctx' = SSL_HdskStateErrorClose" "sentFatalAlert ctx'" "readCipher ctx' = readCipher ctx"
proof -
  obtain i where i: "SSLFatalSessionAlert P desc ctx = Some (i, ctx')" "e = err"
    using assms unfolding alert_return_def by (elim bind_SomeE) clarsimp
  show "e = err" by (fact i)
  show "state ctx' = SSL_HdskStateErrorClose" "sentFatalAlert ctx'" "readCipher ctx' = readCipher ctx"
    by (rule SSLFatalSessionAlert_effect [OF i(1)])+
qed

lemma resume_by_ticket_none:
  "sessionTicket ctx = None \<or> protocolSide ctx = SSL_ServerSide \<Longrightarrow> resume_by_ticket P ctx = Some (noErr, ctx)"
  by (auto simp: resume_by_ticket_def)

lemma SSLProcessChangeCipherSpec_noErr:
  assumes "SSLProcessChangeCipherSpec P rec ctx = Some (noErr, ctx')"
  obtains ctx1 where "resume_by_ticket P ctx = Some (noErr, ctx1)" "contents rec = [1]" "ready (readPending ctx1)"
    "state ctx1 = SSL_HdskStateChangeCipherSpec" "ctx' = install_readPending ctx1"
proof -
  have no: "alert_return P d e c \<noteq> Some (noErr, c')" if "e \<noteq> noErr" for d e c c'
    using alert_return_effect(1) that by metis
  have c: "contents rec = [1]"
    using assms no by (auto simp: SSLProcessChangeCipherSpec_def split: if_split_asm)
  with assms obtain ctx1 where r: "resume_by_ticket P ctx = Some (noErr, ctx1)"
    by (auto simp: SSLProcessChangeCipherSpec_def elim!: bind_SomeE split: if_split_asm)
  with assms c no have s: "ready (readPending ctx1)" "state ctx1 = SSL_HdskStateChangeCipherSpec"
    by (auto simp: SSLProcessChangeCipherSpec_def split: if_split_asm)
  with assms c r obtain err old where d: "SSLDisposeCipherSuite (sslTslCalls ctx1) (readCipher ctx1) = Some (err, old)"
    by (auto simp: SSLProcessChangeCipherSpec_def elim!: bind_SomeE)
  with assms c r s no have "ctx' = install_readPending ctx1"
    by (auto simp: SSLProcessChangeCipherSpec_def split: if_split_asm)
  with c r s show thesis by (intro that)
qed

text \<open>
  Outside its place in the handshake the message closes the session and leaves the read cipher alone. The only
  other place is the one of \<open>resume_by_ticket\<close>.
\<close>

lemma SSLProcessChangeCipherSpec_early:
  assumes "contents rec \<noteq> [1] \<or> (\<not> ready (readPending ctx) \<or> state ctx \<noteq> SSL_HdskStateChangeCipherSpec) \<and>
      \<not> (protocolSide ctx = SSL_ClientSide \<and> (\<exists>t. sessionTicket ctx = Some t \<and> t \<noteq> []) \<and>
         state ctx \<in> {SSL_HdskStateKeyExchange, SSL_HdskStateCert} \<and> masterSecretCallback ctx)"
    and "SSLProcessChangeCipherSpec P rec ctx = Some (err, ctx')"
  shows "err = errSSLProtocol" "state ctx' = SSL_HdskStateErrorClose" "readCipher ctx' = readCipher ctx"
proof -
  have "resume_by_ticket P ctx = Some (noErr, ctx)" if "contents rec = [1]"
    using assms(1) that unfolding resume_by_ticket_def by (intro if_not_P) blast
  then have "alert_return P SSL_AlertUnexpectedMsg errSSLProtocol ctx = Some (err, ctx')"
    using assms by (auto simp: SSLProcessChangeCipherSpec_def split: if_split_asm)
  from alert_return_effect [OF this] show "err = errSSLProtocol" "state ctx' = SSL_HdskStateErrorClose" "readCipher ctx' = readCipher ctx"
    by simp_all
qed

end
