(* ===== verification/Finish.thy ===== *)
theory Finish
  imports Change_Cipher
begin

text \<open>
  Model of \<open>sslHandshakeFinish.c\<close>: the Finished message of both directions and ServerHelloDone.
  The theorems: the receiver accepts exactly the verification data that the protocol defines for
  the peer's role, and a Finished message made by one end is accepted by the other when the two
  agree on the secrets and on the transcript.
\<close>

abbreviation SSL_HdskHelloRequest :: byte where "SSL_HdskHelloRequest \<equiv> 0"
abbreviation SSL_HdskClientHello :: byte where "SSL_HdskClientHello \<equiv> 1"
abbreviation SSL_HdskServerHello :: byte where "SSL_HdskServerHello \<equiv> 2"
abbreviation SSL_HdskCert :: byte where "SSL_HdskCert \<equiv> 11"
abbreviation SSL_HdskServerKeyExchange :: byte where "SSL_HdskServerKeyExchange \<equiv> 12"
abbreviation SSL_HdskCertRequest :: byte where "SSL_HdskCertRequest \<equiv> 13"
abbreviation SSL_HdskServerHelloDone :: byte where "SSL_HdskServerHelloDone \<equiv> 14"
abbreviation SSL_HdskCertVerify :: byte where "SSL_HdskCertVerify \<equiv> 15"
abbreviation SSL_HdskClientKeyExchange :: byte where "SSL_HdskClientKeyExchange \<equiv> 16"
abbreviation SSL_HdskFinished :: byte where "SSL_HdskFinished \<equiv> 20"

text \<open>A handshake message: type, three octets of length, body.\<close>

definition hdsk_msg :: "byte \<Rightarrow> bytes \<Rightarrow> bytes" where
  "hdsk_msg type body = type # SSLEncodeInt (of_nat (length body)) 3 @ body"

definition hdsk_record :: "SSLContext \<Rightarrow> bytes \<Rightarrow> SSLRecord" where
  "hdsk_record ctx bs =
     \<lparr>contentType = SSL_RecordTypeHandshake, protocolVersion = negProtocolVersion ctx, contents = bs\<rparr>"

section \<open>The operations\<close>

definition finishedSize :: "SSLProtocolVersion \<Rightarrow> nat option" where
  "finishedSize v = (if v = SSL_Version_3_0 then Some 36
     else if v = TLS_Version_1_0 \<or> v = TLS_Version_1_1 \<or> v = TLS_Version_1_2 then Some 12 else None)"

text \<open>The length octets and the type are written before the MAC is computed.\<close>

definition SSLEncodeFinishedMessage :: EncodeMessageFunc where
  "SSLEncodeFinishedMessage P ctx =
     do { n \<leftarrow> finishedSize (negProtocolVersion ctx);
          let (err, buf) = SSLAllocBuffer P (n + 4);
          if err \<noteq> noErr then Some (err, hdsk_record ctx [], ctx) else do {
          (err, shaMsgState) \<leftarrow> CloneHashState P SSLHashSHA1 (shaState ctx);
          if err \<noteq> noErr then Some (err, hdsk_record ctx [], ctx) else do {
          (err, md5MsgState) \<leftarrow> CloneHashState P SSLHashMD5 (md5State ctx);
          if err \<noteq> noErr then Some (err, hdsk_record ctx [], ctx) else do {
          (err, mac) \<leftarrow> call_computeFinishedMac P n shaMsgState md5MsgState (protocolSide ctx = SSL_ServerSide) ctx;
          Some (err, hdsk_record ctx (SSL_HdskFinished # SSLEncodeInt (of_nat n) 3 @ mac), ctx) }}}}"

text \<open>
  When the first clone fails, the cleanup frees \<open>md5MsgState\<close>, which has not been initialised.
\<close>

definition SSLProcessFinished :: "platform \<Rightarrow> bytes \<Rightarrow> SSLContext \<Rightarrow> OSStatus option" where
  "SSLProcessFinished P message ctx =
     do { n \<leftarrow> finishedSize (negProtocolVersion ctx);
          if length message \<noteq> n then Some errSSLProtocol else do {
          let (err, buf) = SSLAllocBuffer P n;
          if err \<noteq> noErr then Some err else do {
          (err, shaMsgState) \<leftarrow> CloneHashState P SSLHashSHA1 (shaState ctx);
          if err \<noteq> noErr then None else do {
          (err, md5MsgState) \<leftarrow> CloneHashState P SSLHashMD5 (md5State ctx);
          if err \<noteq> noErr then Some err else do {
          (err, expected) \<leftarrow> call_computeFinishedMac P n shaMsgState md5MsgState (protocolSide ctx \<noteq> SSL_ServerSide) ctx;
          if err \<noteq> noErr then Some err
          else if take n expected \<noteq> message then Some errSSLProtocol
          else Some noErr }}}}}"

definition SSLEncodeServerHelloDone :: EncodeMessageFunc where
  "SSLEncodeServerHelloDone P ctx =
     (if negProtocolVersion ctx < SSL_Version_3_0 then None
      else Some (fst (SSLAllocBuffer P 4), hdsk_record ctx (hdsk_msg SSL_HdskServerHelloDone []), ctx))"

definition SSLProcessServerHelloDone :: "bytes \<Rightarrow> SSLContext \<Rightarrow> OSStatus option" where
  "SSLProcessServerHelloDone message ctx =
     (if protocolSide ctx \<noteq> SSL_ClientSide then None
      else Some (if message \<noteq> [] then errSSLProtocol else noErr))"

section \<open>Properties\<close>

text \<open>The running digests have absorbed the transcript \<open>tr\<close>.\<close>

definition transcript_is :: "SSLContext \<Rightarrow> bytes \<Rightarrow> bool" where
  "transcript_is ctx tr \<longleftrightarrow> shaState ctx = Some tr \<and> md5State ctx = Some tr \<and>
     sha256State ctx = Some tr \<and> sha384State ctx = Some tr"

text \<open>The callout table that goes with a version.\<close>

definition calls_for :: "SSLProtocolVersion \<Rightarrow> SslTlsCallouts \<Rightarrow> bool" where
  "calls_for v calls \<longleftrightarrow> v = SSL_Version_3_0 \<and> calls = Ssl3Callouts \<or>
     v \<in> {TLS_Version_1_0, TLS_Version_1_1} \<and> calls = Tls1Callouts \<or> v = TLS_Version_1_2 \<and> calls = Tls12Callouts"

definition verify_data :: "platform \<Rightarrow> SSLContext \<Rightarrow> bytes \<Rightarrow> bool \<Rightarrow> bytes" where
  "verify_data P ctx tr isServer =
     finished_data P (sslTslCalls ctx) (selectedCipher ctx) (masterSecret ctx) tr isServer 12"

lemma length_finished_data:
  "platform_ok P \<Longrightarrow> length (finished_data P calls suite ms tr isServer n) = (if calls = Ssl3Callouts then 36 else n)"
  by (cases calls) (simp_all add: finished_data_def ssl3_finished_def Let_def length_CC_Digest digest_length_def length_PRF_expand)

lemma finished_data_ssl3: "finished_data P Ssl3Callouts suite ms tr isServer n = finished_data P Ssl3Callouts suite ms tr isServer m"
  by (simp add: finished_data_def)

lemma finishedSize_for:
  assumes "platform_ok P" "calls_for (negProtocolVersion ctx) (sslTslCalls ctx)"
  shows "finishedSize (negProtocolVersion ctx) = Some (length (verify_data P ctx tr isServer))"
    "finished_data P (sslTslCalls ctx) (selectedCipher ctx) (masterSecret ctx) tr isServer
       (length (verify_data P ctx tr isServer)) = verify_data P ctx tr isServer"
    "length (verify_data P ctx tr isServer) < 4294967296"
  using assms finished_data_ssl3 [of P]
  by (auto simp: calls_for_def finishedSize_def verify_data_def length_finished_data)

lemma SSLEncodeFinishedMessage_ok:
  assumes "platform_ok P" "transcript_is ctx tr" "calls_for (negProtocolVersion ctx) (sslTslCalls ctx)"
  shows "SSLEncodeFinishedMessage P ctx = Some (noErr,
    hdsk_record ctx (hdsk_msg SSL_HdskFinished (verify_data P ctx tr (protocolSide ctx = SSL_ServerSide))), ctx)"
  using assms finishedSize_for [OF assms(1,3), of tr "protocolSide ctx = SSL_ServerSide"]
  by (simp add: SSLEncodeFinishedMessage_def transcript_is_def SSLAllocBuffer_ok CloneHashState_ok
      call_computeFinishedMac_ok hdsk_msg_def)

lemma SSLProcessFinished_iff:
  assumes "platform_ok P" "transcript_is ctx tr" "calls_for (negProtocolVersion ctx) (sslTslCalls ctx)"
  shows "SSLProcessFinished P message ctx =
    Some (if message = verify_data P ctx tr (protocolSide ctx \<noteq> SSL_ServerSide) then noErr else errSSLProtocol)"
  using assms finishedSize_for [OF assms(1,3), of tr "protocolSide ctx \<noteq> SSL_ServerSide"]
  by (auto simp: SSLProcessFinished_def transcript_is_def SSLAllocBuffer_ok CloneHashState_ok
      call_computeFinishedMac_ok Let_def)

text \<open>The message of one end is accepted by an end of the other role that holds the same secrets and transcript.\<close>

lemma Finished_roundtrip:
  assumes "platform_ok P" "transcript_is w tr" "transcript_is r tr"
    "calls_for (negProtocolVersion w) (sslTslCalls w)" "same_secrets w r \<or> same_secrets r w"
  shows "\<exists>body. SSLEncodeFinishedMessage P w = Some (noErr, hdsk_record w (hdsk_msg SSL_HdskFinished body), w) \<and>
    SSLProcessFinished P body r = Some noErr"
proof -
  have same: "negProtocolVersion r = negProtocolVersion w" "sslTslCalls r = sslTslCalls w" "masterSecret r = masterSecret w"
    "selectedCipher r = selectedCipher w" "protocolSide w = SSL_ServerSide \<longleftrightarrow> protocolSide r \<noteq> SSL_ServerSide"
    using assms(5) by (auto simp: same_secrets_def)
  then show ?thesis
    using SSLEncodeFinishedMessage_ok [OF assms(1,2,4)] SSLProcessFinished_iff [OF assms(1,3)] assms(4)
    by (simp add: verify_data_def)
qed

end
