(* ===== verification/Key_Exchange.thy ===== *)
theory Key_Exchange
  imports Cdsa Finish
begin

text \<open>
  Model of \<open>sslKeyExchange.c\<close> but for \<open>SSLInitPendingCiphers\<close>, which is in \<open>Change_Cipher\<close>: the
  ServerKeyExchange and ClientKeyExchange messages for RSA, Diffie-Hellman and elliptic curves.

  A pointer into a message is an offset. Reading beyond the end of the message, which some of the
  decoders do before they test the length, is undefined behaviour and gives \<open>None\<close>.
\<close>

section \<open>Reading\<close>

definition rd_at :: "nat \<Rightarrow> nat \<Rightarrow> bytes \<Rightarrow> uint32 option" where
  "rd_at off n m = (if off + n \<le> length m then Some (SSLDecodeInt (drop off m) n) else None)"

text \<open>A vector with a length of two octets, as a buffer of its own.\<close>

definition vector16 :: "bytes \<Rightarrow> bytes" where
  "vector16 bs = SSLEncodeInt (of_nat (length bs)) 2 @ bs"

section \<open>Signatures of the ServerKeyExchange\<close>

text \<open>
  The octets before the digest in a PKCS 1 signature, four constant arrays in the code, by their DER
  structure: a sequence of an algorithm (its object identifier and a NULL) and the head of an octet
  string of \<open>n\<close> octets.
\<close>

definition digestInfoPrefix :: "bytes \<Rightarrow> nat \<Rightarrow> bytes" where
  "digestInfoPrefix oid n =
     [48, of_nat (8 + length oid + n), 48, of_nat (4 + length oid)] @ [6, of_nat (length oid)] @ oid @ [5, 0] @ [4, of_nat n]"

definition kSHA256DigestInfoPrefix :: bytes where
  "kSHA256DigestInfoPrefix = digestInfoPrefix [96, 134, 72, 1, 101, 3, 4, 2, 1] 32"
definition kSHA1DigestInfoPrefix :: bytes where
  "kSHA1DigestInfoPrefix = digestInfoPrefix [43, 14, 3, 2, 26] 20"
definition kSHA384DigestInfoPrefix :: bytes where
  "kSHA384DigestInfoPrefix = digestInfoPrefix [96, 134, 72, 1, 101, 3, 4, 2, 2] 48"
definition kSHA512DigestInfoPrefix :: bytes where
  "kSHA512DigestInfoPrefix = digestInfoPrefix [96, 134, 72, 1, 101, 3, 4, 2, 3] 64"

lemma digestInfo_octets:
  "kSHA1DigestInfoPrefix = [48, 33, 48, 9, 6, 5, 43, 14, 3, 2, 26, 5, 0, 4, 20]"
  "kSHA256DigestInfoPrefix = [48, 49, 48, 13, 6, 9, 96, 134, 72, 1, 101, 3, 4, 2, 1, 5, 0, 4, 32]"
  "kSHA384DigestInfoPrefix = [48, 65, 48, 13, 6, 9, 96, 134, 72, 1, 101, 3, 4, 2, 2, 5, 0, 4, 48]"
  "kSHA512DigestInfoPrefix = [48, 81, 48, 13, 6, 9, 96, 134, 72, 1, 101, 3, 4, 2, 3, 5, 0, 4, 64]"
  by (simp_all add: kSHA1DigestInfoPrefix_def kSHA256DigestInfoPrefix_def kSHA384DigestInfoPrefix_def
      kSHA512DigestInfoPrefix_def digestInfoPrefix_def)

definition sslVerifyTLS12SHA256 :: "platform \<Rightarrow> CSSM_KEY option \<Rightarrow> nat \<Rightarrow> bytes \<Rightarrow> bytes \<Rightarrow> OSStatus" where
  "sslVerifyTLS12SHA256 P pubKey csp hash32 sig = sslRawVerify P pubKey csp (kSHA256DigestInfoPrefix @ hash32) sig"
definition sslVerifyTLS12SHA384 :: "platform \<Rightarrow> CSSM_KEY option \<Rightarrow> nat \<Rightarrow> bytes \<Rightarrow> bytes \<Rightarrow> OSStatus" where
  "sslVerifyTLS12SHA384 P pubKey csp hash48 sig = sslRawVerify P pubKey csp (kSHA384DigestInfoPrefix @ hash48) sig"
definition sslVerifyTLS12SHA512 :: "platform \<Rightarrow> CSSM_KEY option \<Rightarrow> nat \<Rightarrow> bytes \<Rightarrow> bytes \<Rightarrow> OSStatus" where
  "sslVerifyTLS12SHA512 P pubKey csp hash64 sig = sslRawVerify P pubKey csp (kSHA512DigestInfoPrefix @ hash64) sig"
definition sslVerifyTLS12SHA1 :: "platform \<Rightarrow> CSSM_KEY option \<Rightarrow> nat \<Rightarrow> bytes \<Rightarrow> bytes \<Rightarrow> OSStatus" where
  "sslVerifyTLS12SHA1 P pubKey csp sha1Hash sig = sslRawVerify P pubKey csp (kSHA1DigestInfoPrefix @ sha1Hash) sig"

text \<open>The verifications with the key of the leaf certificate, the last one of the list.\<close>

definition sslVerifyTLS12RSA :: "platform \<Rightarrow> SSLContext \<Rightarrow> nat \<Rightarrow> bytes \<Rightarrow> bytes \<Rightarrow> OSStatus" where
  "sslVerifyTLS12RSA P ctx nid hash sig =
     (if \<not> libcryptoHandle P \<or> \<not> list_all (dlsym P) [''d2i_X509'', ''X509_free'', ''X509_get_pubkey'', ''EVP_PKEY_free'',
           ''EVP_PKEY_get1_RSA'', ''RSA_free'', ''RSA_verify''] \<or> peerCert ctx = [] then errSSLCrypto
      else case do { x \<leftarrow> d2i_X509 P (last (peerCert ctx)); pkey \<leftarrow> X509_get_pubkey P x; EVP_PKEY_get1_RSA P pkey } of
        None \<Rightarrow> errSSLCrypto
      | Some rsa \<Rightarrow> if RSA_verify P nid hash sig rsa = 1 then noErr else errSSLDecryptionFail)"

definition sslVerifyTLS12ECDSA :: "platform \<Rightarrow> SSLContext \<Rightarrow> bytes \<Rightarrow> bytes \<Rightarrow> OSStatus" where
  "sslVerifyTLS12ECDSA P ctx hash sig =
     (if \<not> libcryptoHandle P \<or> \<not> list_all (dlsym P) [''d2i_X509'', ''X509_free'', ''X509_get_pubkey'', ''EVP_PKEY_free'',
           ''EVP_PKEY_get1_EC_KEY'', ''EC_KEY_free'', ''ECDSA_verify''] \<or> peerCert ctx = [] then errSSLCrypto
      else case do { x \<leftarrow> d2i_X509 P (last (peerCert ctx)); pkey \<leftarrow> X509_get_pubkey P x; EVP_PKEY_get1_EC_KEY P pkey } of
        None \<Rightarrow> errSSLCrypto
      | Some ecKey \<Rightarrow> if ECDSA_verify P hash sig ecKey = 1 then noErr else errSSLDecryptionFail)"

text \<open>The digest of the two random values and the parameters.\<close>

definition ske_hash :: "platform \<Rightarrow> HashReference \<Rightarrow> bytes \<Rightarrow> SSLContext \<Rightarrow> (OSStatus \<times> bytes) option" where
  "ske_hash P h params ctx =
     do { (err, st) \<leftarrow> ReadyHash P h;
          if err \<noteq> noErr then Some (err, []) else do {
          (err, st) \<leftarrow> hash_updates h st [clientRandom ctx, serverRandom ctx, params];
          if err \<noteq> noErr then Some (err, []) else hash_final P h st (replicate (digestSize h) 0) }}"

text \<open>The digests that versions before TLS 1.2 sign: MD5 and SHA-1 for RSA, SHA-1 alone otherwise.\<close>

definition ske_md5_sha1 :: "platform \<Rightarrow> bool \<Rightarrow> bytes \<Rightarrow> SSLContext \<Rightarrow> (OSStatus \<times> bytes) option" where
  "ske_md5_sha1 P isRsa params ctx =
     do { (err, md5) \<leftarrow> (if isRsa then ske_hash P SSLHashMD5 params ctx else Some (noErr, []));
          if err \<noteq> noErr then Some (err, []) else do {
          (err, sha) \<leftarrow> ske_hash P SSLHashSHA1 params ctx;
          Some (err, md5 @ sha) }}"

section \<open>Diffie-Hellman parameters\<close>

definition zero_key :: CSSM_KEY where
  "zero_key = \<lparr>AlgorithmId = CSSM_ALGID_NONE, KeyClass = CSSM_KEYCLASS_PUBLIC_KEY, BlobType = CSSM_KEYBLOB_RAW,
     Format = CSSM_KEYFORMAT_other, LogicalKeySizeInBits = 0, KeyData = []\<rparr>"

definition octets :: "bytes option \<Rightarrow> bytes" where
  "octets b = (case b of None \<Rightarrow> [] | Some bs \<Rightarrow> bs)"

definition SSLInitServerDHParams :: "platform \<Rightarrow> bytes option \<times> bytes option \<times> bytes option" where
  "SSLInitServerDHParams P =
     (case CSSM_GenerateAlgorithmParams P 1024 of
        None \<Rightarrow> (None, None, None)
      | Some block \<Rightarrow> (case sslDecodeDhParams P block of (ortn, p, g) \<Rightarrow> (p, g, Some block)))"

definition copy_server_params :: "platform \<Rightarrow> SSLContext \<Rightarrow> (OSStatus \<times> SSLContext) option" where
  "copy_server_params P ctx =
     (if dhParamsGenerator ctx \<noteq> None then None
      else let ctx = (if serverDhParams ctx = None then ctx\<lparr>serverDhParams := Some (SSLInitServerDHParams P)\<rparr> else ctx) in
      case the (serverDhParams ctx) of (p, g, block) \<Rightarrow>
        (case SSLCopyBuffer P (octets p) of (ortn, p) \<Rightarrow>
           let ctx = ctx\<lparr>dhParamsPrime := p\<rparr> in if ortn \<noteq> noErr then Some (ortn, ctx)
           else case SSLCopyBuffer P (octets g) of (ortn, g) \<Rightarrow>
             let ctx = ctx\<lparr>dhParamsGenerator := g\<rparr> in if ortn \<noteq> noErr then Some (ortn, ctx)
             else case SSLCopyBuffer P (octets block) of (ortn, block) \<Rightarrow> Some (ortn, ctx\<lparr>dhParamsEncoded := block\<rparr>)))"

text \<open>The private key is allocated without a test for NULL.\<close>

definition SSLGenServerDHParamsAndKey :: "platform \<Rightarrow> SSLContext \<Rightarrow> (OSStatus \<times> SSLContext) option" where
  "SSLGenServerDHParamsAndKey P ctx =
     (if protocolSide ctx \<noteq> SSL_ServerSide then None
      else do {
        (ortn, ctx) \<leftarrow> (if dhParamsPrime ctx = None then copy_server_params P ctx else Some (noErr, ctx));
        if ortn \<noteq> noErr then Some (ortn, ctx)
        else if \<not> mallocOk P 200 then None
        else do {
          let ctx = ctx\<lparr>dhPrivate := Some zero_key, dhExchangePublic := None\<rparr>;
          (ortn, pair, ctx) \<leftarrow> sslDhGenerateKeyPair P (octets (dhParamsEncoded ctx)) (length (octets (dhParamsPrime ctx)) * 8) ctx;
          case pair of
            None \<Rightarrow> Some (ortn, ctx)
          | Some (pub, priv) \<Rightarrow> Some (noErr, ctx\<lparr>dhPrivate := Some priv, dhExchangePublic := Some (KeyData pub)\<rparr>) }})"

definition SSLEncodeDHKeyParams :: "SSLContext \<Rightarrow> bytes" where
  "SSLEncodeDHKeyParams ctx = vector16 (octets (dhParamsPrime ctx)) @ vector16 (octets (dhParamsGenerator ctx)) @
     vector16 (octets (dhExchangePublic ctx))"

text \<open>
  One vector of the message, copied into a new buffer. The length is compared with the end of the
  message for the prime and the generator only.
\<close>

definition dh_vector :: "platform \<Rightarrow> bool \<Rightarrow> nat \<Rightarrow> bytes \<Rightarrow> (OSStatus \<times> bytes option \<times> nat) option" where
  "dh_vector P checked off m =
     do { v \<leftarrow> rd_at off 2 m;
          let len = unat v;
          if checked \<and> off + 2 + len > length m then Some (errSSLProtocol, None, off + 2)
          else (case SSLAllocBuffer P len of (err, buf) \<Rightarrow>
                  if err \<noteq> noErr then Some (err, buf, off + 2)
                  else if off + 2 + len > length m then None
                  else Some (noErr, Some (take len (drop (off + 2) m)), off + 2 + len)) }"

definition SSLDecodeDHKeyParams :: "platform \<Rightarrow> bytes \<Rightarrow> SSLContext \<Rightarrow> (OSStatus \<times> nat \<times> SSLContext) option" where
  "SSLDecodeDHKeyParams P m ctx =
     (if protocolSide ctx \<noteq> SSL_ClientSide then None
      else do {
        let ctx = ctx\<lparr>dhParamsPrime := None, dhParamsGenerator := None, dhPeerPublic := None\<rparr>;
        (err, p, off) \<leftarrow> dh_vector P True 0 m;
        let ctx = ctx\<lparr>dhParamsPrime := p\<rparr>;
        if err \<noteq> noErr then Some (err, off, ctx) else do {
        (err, g, off) \<leftarrow> dh_vector P True off m;
        let ctx = ctx\<lparr>dhParamsGenerator := g\<rparr>;
        if err \<noteq> noErr then Some (err, off, ctx) else do {
        (err, pub, off) \<leftarrow> dh_vector P False off m;
        Some (err, off, ctx\<lparr>dhPeerPublic := pub\<rparr>) }}})"

section \<open>Elliptic-curve parameters\<close>

definition known_curve :: "int \<Rightarrow> bool" where
  "known_curve c \<longleftrightarrow> c \<in> {SSL_Curve_secp256r1, SSL_Curve_secp384r1, SSL_Curve_secp521r1}"

definition SSLDecodeECDHKeyParams :: "platform \<Rightarrow> bytes \<Rightarrow> SSLContext \<Rightarrow> (OSStatus \<times> nat \<times> SSLContext) option" where
  "SSLDecodeECDHKeyParams P m ctx =
     (if protocolSide ctx \<noteq> SSL_ClientSide then None
      else do {
        let ctx = ctx\<lparr>ecdhPeerPublic := None\<rparr>;
        curveType \<leftarrow> rd_at 0 1 m;
        if curveType \<noteq> 3 then Some (errSSLProtocol, 0, ctx) else do {
        curve \<leftarrow> rd_at 1 2 m;
        let ctx = ctx\<lparr>ecdhPeerCurve := uint curve\<rparr>;
        if \<not> known_curve (ecdhPeerCurve ctx) then Some (errSSLProtocol, 3, ctx) else do {
        v \<leftarrow> rd_at 3 1 m;
        let len = unat v;
        if 4 + len > length m then Some (errSSLProtocol, 4, ctx)
        else case SSLAllocBuffer P len of (err, buf) \<Rightarrow>
          if err \<noteq> noErr then Some (err, 4, ctx)
          else Some (noErr, 4 + len, ctx\<lparr>ecdhPeerPublic := Some (take len (drop 4 m))\<rparr>) }}})"

section \<open>RSA\<close>

text \<open>
  On an error of \<open>sslGetPubKeyBits\<close> both buffers are freed; when it has not set the second one,
  that is a pointer that was never initialised.
\<close>

definition SSLEncodeRSAKeyParams :: "platform \<Rightarrow> CSSM_KEY \<Rightarrow> SSLContext \<Rightarrow> (OSStatus \<times> bytes) option" where
  "SSLEncodeRSAKeyParams P key ctx =
     (if attachToCsp ctx \<noteq> noErr then Some (attachToCsp ctx, [])
      else if BlobType key \<noteq> CSSM_KEYBLOB_RAW then None
      else do {
        (err, modulus, exponent) \<leftarrow> sslGetPubKeyBits P key;
        modulus \<leftarrow> modulus;
        if err \<noteq> noErr then Some (err, []) else do {
        exponent \<leftarrow> exponent;
        case SSLAllocBuffer P (length modulus + length exponent + 4) of (err, buf) \<Rightarrow>
          Some (if err \<noteq> noErr then (err, []) else (noErr, vector16 modulus @ vector16 exponent)) }})"

text \<open>The status of \<open>sslGetMaxProtVersion\<close> is ignored: without an enabled version the variable is not set.\<close>

definition SSLEncodeRSAPremasterSecret :: "platform \<Rightarrow> SSLContext \<Rightarrow> (OSStatus \<times> SSLContext) option" where
  "SSLEncodeRSAPremasterSecret P ctx =
     (case SSLAllocBuffer P 48 of (err, buf) \<Rightarrow>
        if err \<noteq> noErr then Some (err, ctx\<lparr>preMasterSecret := buf\<rparr>)
        else do {
          maxVersion \<leftarrow> snd (sslGetMaxProtVersion ctx);
          case sslRand P 46 ctx of (err, r, ctx) \<Rightarrow>
            Some (err, ctx\<lparr>preMasterSecret := Some (SSLEncodeInt maxVersion 2 @ r)\<rparr>) })"

text \<open>The parameters the server signs; the flag tells whether the key is an RSA key.\<close>

definition server_params :: "platform \<Rightarrow> SSLContext \<Rightarrow> (OSStatus \<times> bytes \<times> bool \<times> SSLContext) option" where
  "server_params P ctx =
     do { cs \<leftarrow> selectedCipherSpec ctx;
          let kx = keyExchangeMethod cs;
          if kx \<in> {SSL_RSA, SSL_RSA_EXPORT}
          then (case encryptPubKey ctx of
                  None \<Rightarrow> Some (errSSLBadConfiguration, [], True, ctx)
                | Some key \<Rightarrow> do { (err, params) \<leftarrow> SSLEncodeRSAKeyParams P key ctx; Some (err, params, True, ctx) })
          else if kx \<in> {SSL_DHE_DSS, SSL_DHE_DSS_EXPORT, SSL_DHE_RSA, SSL_DHE_RSA_EXPORT}
          then do {
            (err, ctx) \<leftarrow> SSLGenServerDHParamsAndKey P ctx;
            let isRsa = (kx \<in> {SSL_DHE_RSA, SSL_DHE_RSA_EXPORT});
            if err \<noteq> noErr then Some (err, [], isRsa, ctx)
            else case SSLAllocBuffer P (length (SSLEncodeDHKeyParams ctx)) of (err, buf) \<Rightarrow>
              Some (if err \<noteq> noErr then (err, [], isRsa, ctx) else (noErr, SSLEncodeDHKeyParams ctx, isRsa, ctx)) }
          else None }"

definition SSLEncodeSignedServerKeyExchange :: EncodeMessageFunc where
  "SSLEncodeSignedServerKeyExchange P ctx =
     (if protocolSide ctx \<noteq> SSL_ServerSide \<or> signingPubKey ctx = None then None
      else do {
        (err, params, isRsa, ctx) \<leftarrow> server_params P ctx;
        if err \<noteq> noErr then Some (err, hdsk_record ctx [], ctx) else do {
        (err, dataToSign) \<leftarrow> ske_md5_sha1 P isRsa params ctx;
        if err \<noteq> noErr then Some (err, hdsk_record ctx [], ctx) else do {
        keyRef \<leftarrow> signingPrivKeyRef ctx;
        case keyRef of
          Inl err \<Rightarrow> Some (err, hdsk_record ctx [], ctx)
        | Inr key \<Rightarrow> do {
            (err, maxSigLen) \<leftarrow> sslGetMaxSigSize key;
            if err \<noteq> noErr then Some (err, hdsk_record ctx [], ctx)
            else if \<not> mallocOk P maxSigLen then Some (memFullErr, hdsk_record ctx [], ctx) else do {
            (err, sig) \<leftarrow> sslRawSign P ctx (Some keyRef) dataToSign maxSigLen;
            if err \<noteq> noErr then Some (err, hdsk_record ctx [], ctx)
            else if length sig > maxSigLen then None
            else if \<not> mallocOk P (length params + 6 + length sig) then Some (memFullErr, hdsk_record ctx [], ctx)
            else Some (noErr, hdsk_record ctx (hdsk_msg SSL_HdskServerKeyExchange (params @ vector16 sig)), ctx) }}}}})"

text \<open>
  The parameters at the start of a ServerKeyExchange: the offset where they end, the RSA modulus
  and exponent, and whether the server's key is an RSA key.
\<close>

definition rsa_params :: "bytes \<Rightarrow> (OSStatus \<times> nat \<times> bytes \<times> bytes) option" where
  "rsa_params m =
     do { v \<leftarrow> rd_at 0 2 m;
          let modulusLen = unat v;
          if 2 + modulusLen > length m then Some (errSSLProtocol, 2, [], []) else do {
          v \<leftarrow> rd_at (2 + modulusLen) 2 m;
          let exponentLen = unat v;
          if 4 + modulusLen + exponentLen > length m then Some (errSSLProtocol, 4 + modulusLen, [], [])
          else Some (noErr, 4 + modulusLen + exponentLen, take modulusLen (drop 2 m),
                 take exponentLen (drop (4 + modulusLen) m)) }}"

definition ske_params :: "platform \<Rightarrow> KeyExchangeMethod \<Rightarrow> bytes \<Rightarrow> SSLContext \<Rightarrow> (OSStatus \<times> nat \<times> (bytes \<times> bytes) \<times> SSLContext) option" where
  "ske_params P kx m ctx =
     (if kx \<in> {SSL_RSA, SSL_RSA_EXPORT}
      then do { (err, off, modulus, exponent) \<leftarrow> rsa_params m; Some (err, off, (modulus, exponent), ctx) }
      else if kx \<in> {SSL_DHE_DSS, SSL_DHE_DSS_EXPORT, SSL_DHE_RSA, SSL_DHE_RSA_EXPORT}
      then do { (err, off, ctx) \<leftarrow> SSLDecodeDHKeyParams P m ctx; Some (err, off, ([], []), ctx) }
      else if kx \<in> {SSL_ECDHE_ECDSA, SSL_ECDHE_RSA}
      then do { (err, off, ctx) \<leftarrow> SSLDecodeECDHKeyParams P m ctx; Some (err, off, ([], []), ctx) }
      else None)"

definition rsa_signed :: "KeyExchangeMethod \<Rightarrow> bool" where
  "rsa_signed kx \<longleftrightarrow> kx \<notin> {SSL_DHE_DSS, SSL_DHE_DSS_EXPORT, SSL_ECDHE_ECDSA}"

text \<open>The hash of an ECDSA signature under TLS 1.2: SHA-256 unless the server says SHA-384 or SHA-512.\<close>

definition ec_hash :: "byte \<Rightarrow> HashReference" where
  "ec_hash alg = (if alg = 6 then SSLHashSHA512 else if alg = 5 then SSLHashSHA384 else SSLHashSHA256)"

text \<open>An RSA signature under TLS 1.2: with libcrypto when no key could be extracted from the certificate.\<close>

definition verify_rsa12 ::
  "platform \<Rightarrow> HashReference \<Rightarrow> nat \<Rightarrow> (platform \<Rightarrow> CSSM_KEY option \<Rightarrow> nat \<Rightarrow> bytes \<Rightarrow> bytes \<Rightarrow> OSStatus) \<Rightarrow>
     bytes \<Rightarrow> bytes \<Rightarrow> SSLContext \<Rightarrow> OSStatus option" where
  "verify_rsa12 P h nid verify params sig ctx =
     do { (err, d) \<leftarrow> ske_hash P h params ctx;
          Some (if err \<noteq> noErr then err
                else if peerPubKey ctx = None then sslVerifyTLS12RSA P ctx nid d sig
                else verify P (peerPubKey ctx) (peerPubKeyCsp ctx) d sig) }"

definition verify_ske :: "platform \<Rightarrow> byte \<Rightarrow> bool \<Rightarrow> bytes \<Rightarrow> bytes \<Rightarrow> SSLContext \<Rightarrow> OSStatus option" where
  "verify_ske P tls12HashAlg isRsa params sig ctx =
     (if negProtocolVersion ctx = TLS_Version_1_2
      then if \<not> isRsa
           then do { (err, d) \<leftarrow> ske_hash P (ec_hash tls12HashAlg) params ctx;
                     Some (if err \<noteq> noErr then err else sslVerifyTLS12ECDSA P ctx d sig) }
           else if tls12HashAlg = 6 then verify_rsa12 P SSLHashSHA512 674 sslVerifyTLS12SHA512 params sig ctx
           else if tls12HashAlg = 5 then verify_rsa12 P SSLHashSHA384 673 sslVerifyTLS12SHA384 params sig ctx
           else if tls12HashAlg \<ge> 4 then verify_rsa12 P SSLHashSHA256 672 sslVerifyTLS12SHA256 params sig ctx
           else do { (err, d) \<leftarrow> ske_hash P SSLHashSHA1 params ctx;
                     Some (if err \<noteq> noErr then err
                           else sslVerifyTLS12SHA1 P (peerPubKey ctx) (peerPubKeyCsp ctx) d sig) }
      else do { (err, d) \<leftarrow> ske_md5_sha1 P isRsa params ctx;
                Some (if err \<noteq> noErr then err else sslRawVerify P (peerPubKey ctx) (peerPubKeyCsp ctx) d sig) })"

text \<open>What follows the parameters: under TLS 1.2 two octets for the algorithms, then the signature.\<close>

definition ske_signature :: "SSLProtocolVersion \<Rightarrow> nat \<Rightarrow> bytes \<Rightarrow> (OSStatus \<times> byte \<times> bytes) option" where
  "ske_signature v off m =
     (if v = TLS_Version_1_2 \<and> off + 4 > length m then Some (errSSLProtocol, 0, [])
      else do {
        let alg = (if v = TLS_Version_1_2 then m ! off else 0);
        let off = (if v = TLS_Version_1_2 then off + 2 else off);
        signatureLen \<leftarrow> rd_at off 2 m;
        if off + 2 + unat signatureLen \<noteq> length m then Some (errSSLProtocol, alg, [])
        else Some (noErr, alg, drop (off + 2) m) })"

definition SSLDecodeSignedServerKeyExchange :: "platform \<Rightarrow> bytes \<Rightarrow> SSLContext \<Rightarrow> (OSStatus \<times> SSLContext) option" where
  "SSLDecodeSignedServerKeyExchange P m ctx =
     (if protocolSide ctx \<noteq> SSL_ClientSide then None
      else if length m < 2 then Some (errSSLProtocol, ctx)
      else do {
        cs \<leftarrow> selectedCipherSpec ctx;
        let kx = keyExchangeMethod cs;
        (err, off, (modulus, exponent), ctx) \<leftarrow> ske_params P kx m ctx;
        if err \<noteq> noErr then Some (err, ctx) else do {
        (err, tls12HashAlg, signature) \<leftarrow> ske_signature (negProtocolVersion ctx) off m;
        if err \<noteq> noErr then Some (err, ctx) else do {
        err \<leftarrow> verify_ske P tls12HashAlg (rsa_signed kx) (take off m) signature ctx;
        if err \<noteq> noErr then Some (err, ctx)
        else if kx \<in> {SSL_RSA, SSL_RSA_EXPORT}
        then (case sslGetPubKeyFromBits P ctx modulus exponent of (err, key, csp) \<Rightarrow>
                Some (err, ctx\<lparr>peerPubKey := key, peerPubKeyCsp := csp\<rparr>))
        else Some (noErr, ctx) }}})"

text \<open>
  The server's side of RSA. Whatever goes wrong in the decryption, the routine reports success and
  replaces the secret by a random one, so that an attacker learns nothing about the padding.
\<close>

definition SSLDecodeRSAKeyExchange :: "platform \<Rightarrow> bytes \<Rightarrow> SSLContext \<Rightarrow> (OSStatus \<times> SSLContext) option" where
  "SSLDecodeRSAKeyExchange P m ctx =
     (if protocolSide ctx \<noteq> SSL_ServerSide then None
      else do {
        keyRef \<leftarrow> (if encryptPrivKeyRef ctx \<noteq> None then encryptPrivKeyRef ctx else signingPrivKeyRef ctx);
        case keyRef of
          Inl err \<Rightarrow> Some (err, ctx)
        | Inr key \<Rightarrow> do {
            let n = sslKeyLengthInBytes key;
            if length m \<noteq> n \<and> \<not> (length m = n + 2 \<and> negProtocolVersion ctx \<ge> TLS_Version_1_0)
            then Some (errSSLProtocol, ctx)
            else case SSLAllocBuffer P 48 of (err, buf) \<Rightarrow>
              if err \<noteq> noErr then Some (err, ctx\<lparr>preMasterSecret := buf\<rparr>) else do {
              (err, secret) \<leftarrow> sslRsaDecrypt P ctx (Some keyRef) CSSM_PADDING_PKCS1 (if length m = n then m else drop 2 m) 48;
              if err = noErr \<and> length secret = 48 \<and>
                 (SSLDecodeInt secret 2 = negProtocolVersion ctx \<or> SSLDecodeInt secret 2 = clientReqProtocol ctx)
              then Some (noErr, ctx\<lparr>preMasterSecret := Some secret\<rparr>)
              else case sslRand P 46 ctx of (ignored, r, ctx) \<Rightarrow>
                Some (noErr, ctx\<lparr>preMasterSecret := Some (SSLEncodeInt (negProtocolVersion ctx) 2 @ r)\<rparr>) }}})"

text \<open>
  The client's side: a key of the keychain goes through the CSP, a raw key (and a key for which that
  fails) through libcrypto. The result is written into a buffer of the size of the modulus.
\<close>

definition rsa_encrypt_ossl :: "platform \<Rightarrow> OSStatus \<Rightarrow> CSSM_KEY \<Rightarrow> nat \<Rightarrow> bytes \<Rightarrow> (OSStatus \<times> bytes) option" where
  "rsa_encrypt_ossl P err key n secret =
     (if \<not> libcryptoHandle P \<or> \<not> list_all (dlsym P) [''BN_bin2bn'', ''BN_free'', ''RSA_new'', ''RSA_free'', ''RSA_public_encrypt'']
      then Some (err, [])
      else do {
        (bitsErr, modulus, exponent) \<leftarrow> sslGetPubKeyBits P key;
        case (modulus, exponent) of
          (Some md, Some ex) \<Rightarrow>
            if bitsErr \<noteq> noErr then Some (err, [])
            else (case RSA_public_encrypt P md ex secret of (rc, out) \<Rightarrow>
                    if length out > n then None
                    else Some (if rc = int n then noErr else errSSLCrypto, out))
        | _ \<Rightarrow> Some (err, []) })"

definition SSLEncodeRSAKeyExchange :: EncodeMessageFunc where
  "SSLEncodeRSAKeyExchange P ctx =
     (if protocolSide ctx \<noteq> SSL_ClientSide then None
      else do {
        (err, ctx) \<leftarrow> SSLEncodeRSAPremasterSecret P ctx;
        if err \<noteq> noErr then Some (err, hdsk_record ctx [], ctx) else do {
        key \<leftarrow> peerPubKey ctx;
        let n = sslKeyLengthInBytes key;
        let prefix = (if negProtocolVersion ctx \<ge> TLS_Version_1_0 then SSLEncodeInt (of_nat n) 2 else []);
        if \<not> mallocOk P (n + 4 + length prefix) then Some (memFullErr, hdsk_record ctx [], ctx) else do {
        (err, out) \<leftarrow> (if BlobType key \<noteq> CSSM_KEYBLOB_RAW
           then sslRsaEncrypt P (peerPubKey ctx) (peerPubKeyCsp ctx) CSSM_PADDING_PKCS1 (octets (preMasterSecret ctx)) n
           else Some (errSSLCrypto, []));
        (err, out) \<leftarrow> (if err = noErr then Some (err, out) else rsa_encrypt_ossl P err key n (octets (preMasterSecret ctx)));
        Some (err, hdsk_record ctx (hdsk_msg SSL_HdskClientKeyExchange (prefix @ out @ replicate (n - length out) 0)), ctx) }}})"

section \<open>Diffie-Hellman\<close>

definition SSLGenClientDHKeyAndExchange :: "platform \<Rightarrow> SSLContext \<Rightarrow> (OSStatus \<times> SSLContext) option" where
  "SSLGenClientDHKeyAndExchange P ctx =
     (if protocolSide ctx \<noteq> SSL_ClientSide then None
      else case (dhParamsPrime ctx, dhParamsGenerator ctx, dhPeerPublic ctx) of
        (Some prime, Some generator, Some peer) \<Rightarrow>
          if \<not> mallocOk P 200 then None
          else do {
            (ortn, pair, ctx) \<leftarrow> sslDhGenKeyPairClient P prime generator ctx;
            case pair of
              None \<Rightarrow> Some (ortn, ctx\<lparr>dhPrivate := None\<rparr>)
            | Some (pub, priv) \<Rightarrow> do {
                let ctx = ctx\<lparr>dhPrivate := Some priv\<rparr>;
                (ortn, secret) \<leftarrow> sslDhKeyExchange P (length prime * 8) ctx;
                if ortn \<noteq> noErr then Some (ortn, ctx)
                else Some (noErr, ctx\<lparr>preMasterSecret := secret, dhExchangePublic := Some (KeyData pub)\<rparr>) }}
      | _ \<Rightarrow> Some (errSSLProtocol, ctx))"

definition SSLEncodeDHanonServerKeyExchange :: EncodeMessageFunc where
  "SSLEncodeDHanonServerKeyExchange P ctx =
     (if protocolSide ctx \<noteq> SSL_ServerSide then None
      else do {
        (ortn, ctx) \<leftarrow> SSLGenServerDHParamsAndKey P ctx;
        if ortn \<noteq> noErr then Some (ortn, hdsk_record ctx [], ctx)
        else if \<not> mallocOk P (length (SSLEncodeDHKeyParams ctx) + 4) then Some (memFullErr, hdsk_record ctx [], ctx)
        else Some (noErr, hdsk_record ctx (hdsk_msg SSL_HdskServerKeyExchange (SSLEncodeDHKeyParams ctx)), ctx) })"

definition SSLDecodeDHanonServerKeyExchange :: "platform \<Rightarrow> bytes \<Rightarrow> SSLContext \<Rightarrow> (OSStatus \<times> SSLContext) option" where
  "SSLDecodeDHanonServerKeyExchange P m ctx =
     (if protocolSide ctx \<noteq> SSL_ClientSide then None
      else if length m < 6 then Some (errSSLProtocol, ctx)
      else do {
        (err, off, ctx) \<leftarrow> SSLDecodeDHKeyParams P m ctx;
        Some (if err = noErr \<and> off \<noteq> length m then errSSLProtocol else err, ctx) })"

definition SSLDecodeDHClientKeyExchange :: "platform \<Rightarrow> bytes \<Rightarrow> SSLContext \<Rightarrow> (OSStatus \<times> SSLContext) option" where
  "SSLDecodeDHClientKeyExchange P m ctx =
     (if protocolSide ctx \<noteq> SSL_ServerSide then None
      else do {
        prime \<leftarrow> dhParamsPrime ctx;
        v \<leftarrow> rd_at 0 2 m;
        let publicLen = unat v;
        if length m \<noteq> publicLen + 2 \<or> publicLen > length prime then Some (errSSLProtocol, ctx)
        else case SSLAllocBuffer P publicLen of (ortn, buf) \<Rightarrow>
          if ortn \<noteq> noErr then Some (ortn, ctx\<lparr>dhPeerPublic := None\<rparr>) else do {
          let ctx = ctx\<lparr>dhPeerPublic := Some (drop 2 m), preMasterSecret := None\<rparr>;
          (ortn, secret) \<leftarrow> sslDhKeyExchange P (length prime * 8) ctx;
          Some (ortn, ctx\<lparr>preMasterSecret := secret\<rparr>) }})"

definition SSLEncodeDHClientKeyExchange :: EncodeMessageFunc where
  "SSLEncodeDHClientKeyExchange P ctx =
     (if protocolSide ctx \<noteq> SSL_ClientSide then None
      else do {
        (err, ctx) \<leftarrow> SSLGenClientDHKeyAndExchange P ctx;
        if err \<noteq> noErr then Some (err, hdsk_record ctx [], ctx)
        else let pub = octets (dhExchangePublic ctx) in
        if \<not> mallocOk P (length pub + 6) then Some (memFullErr, hdsk_record ctx [], ctx)
        else Some (noErr, hdsk_record ctx (hdsk_msg SSL_HdskClientKeyExchange (vector16 pub)), ctx) })"

section \<open>Elliptic curves\<close>

definition ec_symbols :: "string list" where
  "ec_symbols = [''EC_KEY_new_by_curve_name'', ''EC_KEY_free'', ''EC_KEY_generate_key'', ''EC_KEY_get0_public_key'',
     ''EC_KEY_get0_group'', ''EC_POINT_point2oct'', ''EC_POINT_oct2point'', ''EC_POINT_new'', ''EC_POINT_free'',
     ''ECDH_compute_key'']"

text \<open>The number libcrypto has for a curve, and the size of the shared secret.\<close>

definition curve_nid :: "int \<Rightarrow> (nat \<times> nat) option" where
  "curve_nid curve = (if curve = SSL_Curve_secp256r1 then Some (415, 32) else if curve = SSL_Curve_secp384r1 then Some (715, 48)
     else if curve = SSL_Curve_secp521r1 then Some (716, 66) else None)"

text \<open>An ephemeral key pair and the shared secret with the server's point.\<close>

definition ecdhe_exchange :: "platform \<Rightarrow> SSLContext \<Rightarrow> OSStatus \<times> SSLContext" where
  "ecdhe_exchange P ctx =
     (if \<not> libcryptoHandle P \<or> \<not> list_all (dlsym P) ec_symbols then (errSSLCrypto, ctx)
      else case curve_nid (ecdhPeerCurve ctx) of
        None \<Rightarrow> (errSSLCrypto, ctx)
      | Some (nid, secretLen) \<Rightarrow>
          (let generated = EC_KEY_generate P (rngPos ctx) nid; ctx = ctx\<lparr>rngPos := rngPos ctx + 1\<rparr> in
           case generated of
             None \<Rightarrow> (errSSLCrypto, ctx)
           | Some (pub, ecKey) \<Rightarrow>
               if pub = [] then (errSSLCrypto, ctx)
               else if \<not> mallocOk P (length pub) then (memFullErr, ctx\<lparr>ecdhExchangePublic := None\<rparr>)
               else let ctx = ctx\<lparr>ecdhExchangePublic := Some pub\<rparr> in
               (case EC_POINT_oct2point P nid (octets (ecdhPeerPublic ctx)) of
                  None \<Rightarrow> (errSSLProtocol, ctx)
                | Some peerPt \<Rightarrow>
                    if \<not> mallocOk P secretLen then (memFullErr, ctx\<lparr>preMasterSecret := None\<rparr>)
                    else (case ECDH_compute_key P peerPt ecKey secretLen of (rc, secret) \<Rightarrow>
                            if rc \<le> 0 then (errSSLCrypto, ctx\<lparr>preMasterSecret := None\<rparr>)
                            else (noErr, ctx\<lparr>preMasterSecret := Some (take (nat rc) secret)\<rparr>)))))"

definition fixed_ecdh :: "SSLContext \<Rightarrow> bool" where
  "fixed_ecdh ctx \<longleftrightarrow> negAuthType ctx \<in> {SSLClientAuth_RSAFixedECDH, SSLClientAuth_ECDSAFixedECDH}"

text \<open>The exchange with the key of the client's own certificate.\<close>

definition fixed_exchange :: "platform \<Rightarrow> SSLContext \<Rightarrow> (OSStatus \<times> SSLContext) option" where
  "fixed_exchange P ctx =
     (if ctxCspHand ctx = 0 then None
      else do {
        keyRef \<leftarrow> signingPrivKeyRef ctx;
        let ctx = ctx\<lparr>ecdhPrivate := None, ecdhExchangePublic := None\<rparr>;
        case keyRef of
          Inl ortn \<Rightarrow> Some (ortn, ctx)
        | Inr key \<Rightarrow>
            (let ctx = ctx\<lparr>ecdhPrivate := Some key\<rparr> in
             case SecKeyGetCSPHandle P key of
               Inl ortn \<Rightarrow> Some (ortn, ctx)
             | Inr h \<Rightarrow> do {
                 let ctx = ctx\<lparr>ecdhPrivCspHand := h\<rparr>;
                 (ortn, secret) \<leftarrow> sslEcdhKeyExchange P ctx;
                 Some (ortn, if ortn = noErr then ctx\<lparr>preMasterSecret := secret\<rparr> else ctx) }) })"

definition SSLGenClientECDHKeyAndExchange :: "platform \<Rightarrow> SSLContext \<Rightarrow> (OSStatus \<times> SSLContext) option" where
  "SSLGenClientECDHKeyAndExchange P ctx =
     (if protocolSide ctx \<noteq> SSL_ClientSide then None
      else do {
        cs \<leftarrow> selectedCipherSpec ctx;
        (ortn, ctx) \<leftarrow>
          (if keyExchangeMethod cs \<in> {SSL_ECDHE_ECDSA, SSL_ECDHE_RSA}
           then Some (if ecdhPeerPublic ctx = None then errSSLProtocol else noErr, ctx)
           else if keyExchangeMethod cs \<in> {SSL_ECDH_ECDSA, SSL_ECDH_RSA}
           then (case peerPubKey ctx of
                   None \<Rightarrow> Some (errSSLInternal, ctx)
                 | Some key \<Rightarrow> do { (ortn, curve) \<leftarrow> sslEcdsaPeerCurve P key;
                     Some (ortn, case curve of None \<Rightarrow> ctx | Some c \<Rightarrow> ctx\<lparr>ecdhPeerCurve := c\<rparr>) })
           else None);
        if ortn \<noteq> noErr then Some (ortn, ctx)
        else if fixed_ecdh ctx then fixed_exchange P ctx
        else Some (ecdhe_exchange P ctx) })"

definition SSLEncodeECDHClientKeyExchange :: EncodeMessageFunc where
  "SSLEncodeECDHClientKeyExchange P ctx =
     (if protocolSide ctx \<noteq> SSL_ClientSide then None
      else do {
        (err, ctx) \<leftarrow> SSLGenClientECDHKeyAndExchange P ctx;
        if err \<noteq> noErr then Some (err, hdsk_record ctx [], ctx)
        else let pub = octets (ecdhExchangePublic ctx);
                 body = (if fixed_ecdh ctx then [] else of_nat (length pub) # pub) in
        if \<not> mallocOk P (length body + 4) then Some (memFullErr, hdsk_record ctx [], ctx)
        else Some (noErr, hdsk_record ctx (hdsk_msg SSL_HdskClientKeyExchange body), ctx) })"

section \<open>The four public operations\<close>

definition SSLEncodeServerKeyExchange :: EncodeMessageFunc where
  "SSLEncodeServerKeyExchange P ctx =
     do { cs \<leftarrow> selectedCipherSpec ctx;
          let kx = keyExchangeMethod cs;
          if kx \<in> {SSL_RSA, SSL_RSA_EXPORT, SSL_DHE_RSA, SSL_DHE_RSA_EXPORT, SSL_DHE_DSS, SSL_DHE_DSS_EXPORT}
          then SSLEncodeSignedServerKeyExchange P ctx
          else if kx \<in> {SSL_DH_anon, SSL_DH_anon_EXPORT} then SSLEncodeDHanonServerKeyExchange P ctx
          else Some (unimpErr, hdsk_record ctx [], ctx) }"

definition SSLProcessServerKeyExchange :: "platform \<Rightarrow> bytes \<Rightarrow> SSLContext \<Rightarrow> (OSStatus \<times> SSLContext) option" where
  "SSLProcessServerKeyExchange P m ctx =
     do { cs \<leftarrow> selectedCipherSpec ctx;
          let kx = keyExchangeMethod cs;
          if kx \<in> {SSL_RSA, SSL_RSA_EXPORT, SSL_DHE_RSA, SSL_DHE_RSA_EXPORT, SSL_DHE_DSS, SSL_DHE_DSS_EXPORT,
                   SSL_ECDHE_ECDSA, SSL_ECDHE_RSA}
          then SSLDecodeSignedServerKeyExchange P m ctx
          else if kx \<in> {SSL_DH_anon, SSL_DH_anon_EXPORT} then SSLDecodeDHanonServerKeyExchange P m ctx
          else Some (unimpErr, ctx) }"

definition SSLEncodeKeyExchange :: EncodeMessageFunc where
  "SSLEncodeKeyExchange P ctx =
     (if protocolSide ctx \<noteq> SSL_ClientSide then None
      else do {
        cs \<leftarrow> selectedCipherSpec ctx;
        let kx = keyExchangeMethod cs;
        if kx \<in> {SSL_RSA, SSL_RSA_EXPORT} then SSLEncodeRSAKeyExchange P ctx
        else if kx \<in> {SSL_DHE_RSA, SSL_DHE_RSA_EXPORT, SSL_DHE_DSS, SSL_DHE_DSS_EXPORT, SSL_DH_anon, SSL_DH_anon_EXPORT}
        then SSLEncodeDHClientKeyExchange P ctx
        else if kx \<in> {SSL_ECDH_ECDSA, SSL_ECDHE_ECDSA, SSL_ECDH_RSA, SSL_ECDHE_RSA, SSL_ECDH_anon}
        then SSLEncodeECDHClientKeyExchange P ctx
        else Some (unimpErr, hdsk_record ctx [], ctx) })"

definition SSLProcessKeyExchange :: "platform \<Rightarrow> bytes \<Rightarrow> SSLContext \<Rightarrow> (OSStatus \<times> SSLContext) option" where
  "SSLProcessKeyExchange P m ctx =
     do { cs \<leftarrow> selectedCipherSpec ctx;
          let kx = keyExchangeMethod cs;
          if kx \<in> {SSL_RSA, SSL_RSA_EXPORT} then SSLDecodeRSAKeyExchange P m ctx
          else if kx \<in> {SSL_DH_anon, SSL_DHE_DSS, SSL_DHE_DSS_EXPORT, SSL_DHE_RSA, SSL_DHE_RSA_EXPORT, SSL_DH_anon_EXPORT}
          then SSLDecodeDHClientKeyExchange P m ctx
          else Some (unimpErr, ctx) }"

section \<open>An accepted ServerKeyExchange was signed by the server\<close>

lemma ske_hash_ok:
  assumes "platform_ok P" "h \<noteq> SSLHashNull"
  shows "ske_hash P h params ctx = Some (noErr, CC_Digest P h (clientRandom ctx @ serverRandom ctx @ params))"
  using assms by (simp add: ske_hash_def ReadyHash_ok hash_updates_Some)

lemma sslRawVerify_noErr:
  "sslRawVerify P pubKey csp d sig = noErr \<longleftrightarrow>
     (\<exists>key. pubKey = Some key \<and> csp \<noteq> 0 \<and> sslKeyToSigAlg key = noErr \<and>
        CSSM_CSP_CreateSignatureContext P csp (AlgorithmId key) key \<and> CSSM_VerifyData P key d sig)"
  by (auto simp: sslRawVerify_def split: option.split)

lemma sslVerifyTLS12ECDSA_noErr:
  assumes "sslVerifyTLS12ECDSA P ctx d sig = noErr"
  obtains x pkey key where "peerCert ctx \<noteq> []" "d2i_X509 P (last (peerCert ctx)) = Some x" "X509_get_pubkey P x = Some pkey"
    "EVP_PKEY_get1_EC_KEY P pkey = Some key" "ECDSA_verify P d sig key = 1"
  using assms unfolding sslVerifyTLS12ECDSA_def
  by (auto split: if_split_asm option.split_asm simp: bind_eq_Some_conv)

lemma sslVerifyTLS12RSA_noErr:
  assumes "sslVerifyTLS12RSA P ctx nid d sig = noErr"
  obtains x pkey key where "peerCert ctx \<noteq> []" "d2i_X509 P (last (peerCert ctx)) = Some x" "X509_get_pubkey P x = Some pkey"
    "EVP_PKEY_get1_RSA P pkey = Some key" "RSA_verify P nid d sig key = 1"
  using assms unfolding sslVerifyTLS12RSA_def
  by (auto split: if_split_asm option.split_asm simp: bind_eq_Some_conv)

text \<open>The hash an RSA signature under TLS 1.2 uses, its number in libcrypto, and its DigestInfo prefix.\<close>

definition rsa12_hash :: "byte \<Rightarrow> HashReference \<times> nat \<times> bytes" where
  "rsa12_hash alg = (if alg = 6 then (SSLHashSHA512, 674, kSHA512DigestInfoPrefix)
     else if alg = 5 then (SSLHashSHA384, 673, kSHA384DigestInfoPrefix)
     else if alg \<ge> 4 then (SSLHashSHA256, 672, kSHA256DigestInfoPrefix)
     else (SSLHashSHA1, 64, kSHA1DigestInfoPrefix))"

text \<open>
  What it means that the holder of the certified key has signed the octets: for ECDSA and for RSA
  without an extracted key, libcrypto accepts the signature with the key of the leaf certificate;
  otherwise the CSP accepts it with the key extracted from that certificate.
\<close>

definition server_signed :: "platform \<Rightarrow> SSLContext \<Rightarrow> bool \<Rightarrow> byte \<Rightarrow> bytes \<Rightarrow> bytes \<Rightarrow> bool" where
  "server_signed P ctx isRsa alg msg sig \<longleftrightarrow>
     (if \<not> isRsa
      then \<exists>x pkey key. peerCert ctx \<noteq> [] \<and> d2i_X509 P (last (peerCert ctx)) = Some x \<and> X509_get_pubkey P x = Some pkey \<and>
             EVP_PKEY_get1_EC_KEY P pkey = Some key \<and> ECDSA_verify P (CC_Digest P (if alg = 6 then SSLHashSHA512 else if alg = 5 then SSLHashSHA384 else SSLHashSHA256) msg) sig key = 1
      else case rsa12_hash alg of (h, nid, prefix) \<Rightarrow>
        case peerPubKey ctx of
          Some key \<Rightarrow> CSSM_VerifyData P key (prefix @ CC_Digest P h msg) sig
        | None \<Rightarrow> \<exists>x pkey key. peerCert ctx \<noteq> [] \<and> d2i_X509 P (last (peerCert ctx)) = Some x \<and> X509_get_pubkey P x = Some pkey \<and>
             EVP_PKEY_get1_RSA P pkey = Some key \<and> RSA_verify P nid (CC_Digest P h msg) sig key = 1)"

lemma server_signed_cong:
  assumes "peerCert c = peerCert d" "peerPubKey c = peerPubKey d"
  shows "server_signed P c isRsa alg msg sig = server_signed P d isRsa alg msg sig"
  unfolding server_signed_def assms ..

lemmas verify12_defs = sslVerifyTLS12SHA256_def sslVerifyTLS12SHA384_def sslVerifyTLS12SHA512_def sslVerifyTLS12SHA1_def

lemma ec_hash_not_Null: "ec_hash alg \<noteq> SSLHashNull"
  by (simp add: ec_hash_def)

lemma verify_ske_signed:
  assumes "platform_ok P" "negProtocolVersion ctx = TLS_Version_1_2" "verify_ske P alg isRsa params sig ctx = Some noErr"
  shows "server_signed P ctx isRsa alg (clientRandom ctx @ serverRandom ctx @ params) sig"
proof (cases isRsa)
  case False
  then have "sslVerifyTLS12ECDSA P ctx (CC_Digest P (ec_hash alg) (clientRandom ctx @ serverRandom ctx @ params)) sig = noErr"
    using assms by (simp add: verify_ske_def ske_hash_ok ec_hash_not_Null)
  then show ?thesis
    using False unfolding server_signed_def ec_hash_def by (auto elim!: sslVerifyTLS12ECDSA_noErr)
next
  case True
  then show ?thesis
    using assms unfolding server_signed_def
    by (auto simp: verify_ske_def verify_rsa12_def ske_hash_ok rsa12_hash_def verify12_defs sslRawVerify_noErr
        elim!: sslVerifyTLS12RSA_noErr split: if_split_asm option.split)
qed

text \<open>The shape of elliptic-curve parameters that are accepted.\<close>

lemma rd_at_Some: "rd_at off n m = Some v \<longleftrightarrow> off + n \<le> length m \<and> v = SSLDecodeInt (drop off m) n"
  by (auto simp: rd_at_def)

lemma unat_ucast_byte: "unat (ucast (b :: byte) :: uint32) = unat b"
proof -
  have "unat b < 256" using unsigned_less [of b] by simp
  then show ?thesis by (simp add: unsigned_ucast_eq take_bit_nat_eq_self)
qed

lemma SSLDecodeECDHKeyParams_noErr:
  assumes "SSLDecodeECDHKeyParams P m ctx = Some (noErr, off, ctx')"
  obtains c1 c2 len point rest where "m = [3, c1, c2, len] @ point @ rest" "unat len = length point" "off = 4 + length point"
    "known_curve (uint (SSLDecodeInt [c1, c2] 2))"
    "ctx' = ctx\<lparr>ecdhPeerPublic := Some point, ecdhPeerCurve := uint (SSLDecodeInt [c1, c2] 2)\<rparr>"
proof -
  have side: "protocolSide ctx = SSL_ClientSide" using assms by (auto simp: SSLDecodeECDHKeyParams_def split: if_split_asm)
  let ?len = "unat (SSLDecodeInt (drop 3 m) 1)" and ?curve = "uint (SSLDecodeInt (drop 1 m) 2)"
  have len: "4 + ?len \<le> length m" and type: "SSLDecodeInt m 1 = 3" and curve: "known_curve ?curve"
    and off: "off = 4 + ?len" and ctx': "ctx' = ctx\<lparr>ecdhPeerPublic := Some (take ?len (drop 4 m)), ecdhPeerCurve := ?curve\<rparr>"
    using assms side
    by (auto simp: SSLDecodeECDHKeyParams_def rd_at_Some Let_def elim!: bind_SomeE split: if_split_asm prod.split_asm)
  obtain t c1 c2 l tail where m: "m = t # c1 # c2 # l # tail"
    using len by (cases m; cases "tl m"; cases "tl (tl m)"; cases "tl (tl (tl m))") auto
  have one: "SSLDecodeInt (b # bs) (Suc 0) = ucast b" for b :: byte and bs by (simp add: SSLDecodeInt_def)
  have "(ucast t :: uint32) = 3" using type by (simp add: m one)
  then have "t = 3" using ucast_byte_id [of t] by simp
  moreover have "?curve = uint (SSLDecodeInt [c1, c2] 2)"
    using SSLDecodeInt_append [of 2 "[c1, c2]" "l # tail"] by (simp add: m)
  ultimately show ?thesis
    using that [of c1 c2 l "take (unat l) tail" "drop (unat l) tail"] len off ctx' curve by (simp add: m one unat_ucast_byte)
qed

text \<open>
  An accepted ServerKeyExchange of the ephemeral elliptic-curve suites under TLS 1.2 is what the server signed.
\<close>

lemma ske_signature_noErr:
  assumes "ske_signature TLS_Version_1_2 off m = Some (noErr, alg, sig)"
  obtains sigAlg lens where "m = take off m @ [alg, sigAlg] @ lens @ sig" "length lens = 2" "unat (SSLDecodeInt lens 2) = length sig"
proof -
  define tail where "tail = drop off m"
  have len: "off + 4 \<le> length m" and alg: "alg = m ! off" and sig: "sig = drop (4 + off) m"
    and n: "off + 4 + unat (SSLDecodeInt (drop (off + 2) m) 2) = length m"
    using assms by (auto simp: ske_signature_def rd_at_Some Let_def simp del: add_2_eq_Suc add_2_eq_Suc' elim!: bind_SomeE split: if_split_asm)
  have "4 \<le> length tail" using len by (simp add: tail_def)
  then obtain a b l1 l2 rest where tail: "tail = a # b # l1 # l2 # rest"
    by (cases tail; cases "tl tail"; cases "tl (tl tail)"; cases "tl (tl (tl tail))") auto
  have sig': "sig = drop 4 tail" "m ! off = tail ! 0" "drop (off + 2) m = drop 2 tail" "m = take off m @ tail"
    using len by (simp_all add: sig tail_def add.commute)
  moreover have "length m = off + 4 + length rest" using len arg_cong [OF tail, of length] by (simp add: tail_def)
  ultimately have "unat (SSLDecodeInt [l1, l2] 2) = length sig"
    using n SSLDecodeInt_append [of 2 "[l1, l2]" rest] by (simp add: tail sig)
  then show ?thesis using that [of b "[l1, l2]"] sig' by (simp add: tail alg)
qed

lemma accepted_ServerKeyExchange:
  assumes ok: "platform_ok P" "negProtocolVersion ctx = TLS_Version_1_2" "selectedCipherSpec ctx = Some cs"
    "keyExchangeMethod cs \<in> {SSL_ECDHE_ECDSA, SSL_ECDHE_RSA}"
    and run: "SSLProcessServerKeyExchange P m ctx = Some (noErr, ctx')"
  obtains c1 c2 len point alg sigAlg lens sig where
    "m = ([3, c1, c2, len] @ point) @ [alg, sigAlg] @ lens @ sig" "unat len = length point"
    "length lens = 2" "unat (SSLDecodeInt lens 2) = length sig"
    "known_curve (uint (SSLDecodeInt [c1, c2] 2))"
    "ctx' = ctx\<lparr>ecdhPeerPublic := Some point, ecdhPeerCurve := uint (SSLDecodeInt [c1, c2] 2)\<rparr>"
    "server_signed P ctx (keyExchangeMethod cs = SSL_ECDHE_RSA) alg
       (clientRandom ctx @ serverRandom ctx @ [3, c1, c2, len] @ point) sig"
proof -
  have "SSLDecodeSignedServerKeyExchange P m ctx = Some (noErr, ctx')"
    using run ok by (auto simp: SSLProcessServerKeyExchange_def)
  then obtain off ctx1 alg sig where p: "SSLDecodeECDHKeyParams P m ctx = Some (noErr, off, ctx1)"
    and s: "ske_signature (negProtocolVersion ctx1) off m = Some (noErr, alg, sig)"
    and v: "verify_ske P alg (rsa_signed (keyExchangeMethod cs)) (take off m) sig ctx1 = Some noErr" and ctx': "ctx' = ctx1"
    using ok(3,4) by (auto simp: SSLDecodeSignedServerKeyExchange_def ske_params_def Let_def elim!: bind_SomeE split: if_split_asm)
  obtain c1 c2 len point rest where m: "m = [3, c1, c2, len] @ point @ rest" "unat len = length point" "off = 4 + length point"
    "known_curve (uint (SSLDecodeInt [c1, c2] 2))"
    "ctx1 = ctx\<lparr>ecdhPeerPublic := Some point, ecdhPeerCurve := uint (SSLDecodeInt [c1, c2] 2)\<rparr>"
    by (rule SSLDecodeECDHKeyParams_noErr [OF p])
  have ver: "negProtocolVersion ctx1 = TLS_Version_1_2" using m(5) ok(2) by simp
  obtain sigAlg lens where sig: "m = take off m @ [alg, sigAlg] @ lens @ sig" "length lens = 2"
    "unat (SSLDecodeInt lens 2) = length sig"
    by (rule ske_signature_noErr [OF s [unfolded ver]])
  have "m = ([3, c1, c2, len] @ point) @ rest" "off = length ([3, c1, c2, len] @ point)" using m(1,3) by simp_all
  then have take: "take off m = [3, c1, c2, len] @ point" by (simp only: take_append_exact)
  have "server_signed P ctx1 (rsa_signed (keyExchangeMethod cs)) alg (clientRandom ctx1 @ serverRandom ctx1 @ take off m) sig"
    by (rule verify_ske_signed [OF ok(1) ver v])
  then have "server_signed P ctx (keyExchangeMethod cs = SSL_ECDHE_RSA) alg
      (clientRandom ctx @ serverRandom ctx @ [3, c1, c2, len] @ point) sig"
    using ok(4) take server_signed_cong [of ctx1 ctx P] by (auto simp: m(5) rsa_signed_def)
  then show ?thesis
    using that [of c1 c2 len point alg sigAlg lens sig] sig m(2,4,5) ctx' take by simp
qed

section \<open>RSA key exchange\<close>

text \<open>The decryption as the routine sees it: it has failed, or it has given at most 48 octets.\<close>

definition rsa_plaintext :: "platform \<Rightarrow> SSLContext \<Rightarrow> CSSM_KEY \<Rightarrow> bytes \<Rightarrow> bytes option" where
  "rsa_plaintext P ctx key m =
     (if (\<exists>csp. SecKeyGetCSPHandle P key = Inr csp \<and> CSSM_CSP_CreateAsymmetricContext P csp key CSSM_PADDING_PKCS1) \<and>
         SecKeyGetCredentials P key = noErr \<and>
         (rsaBlindingEnable ctx \<and> AlgorithmId key = CSSM_ALGID_RSA \<longrightarrow> CSSM_UpdateContextAttributes P key = noErr)
      then CSSM_DecryptData P key CSSM_PADDING_PKCS1 m else None)"

lemma sslRsaDecrypt_plaintext:
  assumes "KeyClass key = CSSM_KEYCLASS_PRIVATE_KEY"
  shows "\<exists>err out. sslRsaDecrypt P ctx (Some (Inr key)) CSSM_PADDING_PKCS1 m 48 = Some (err, out) \<and>
    (err = noErr \<and> length out = 48 \<longleftrightarrow> (\<exists>s. rsa_plaintext P ctx key m = Some s \<and> length s = 48)) \<and>
    (\<forall>s. rsa_plaintext P ctx key m = Some s \<longrightarrow> length s = 48 \<longrightarrow> out = s)"
  using assms
  by (cases "SecKeyGetCSPHandle P key"; cases "CSSM_DecryptData P key CSSM_PADDING_PKCS1 m")
    (auto simp: sslRsaDecrypt_def sslGetKeyParts_def rsa_plaintext_def sslAddBlindingAttr_def)

text \<open>What the server goes on with when the decrypted octets are not to be used.\<close>

definition random_secret :: "platform \<Rightarrow> SSLContext \<Rightarrow> SSLContext" where
  "random_secret P ctx = ctx\<lparr>preMasterSecret := Some (SSLEncodeInt (negProtocolVersion ctx) 2 @ the (devRandom P (rngPos ctx) 46)),
     rngPos := rngPos ctx + 1\<rparr>"

lemma rsa_no_oracle:
  assumes ok: "platform_ok P" and key: "protocolSide ctx = SSL_ServerSide" "(if encryptPrivKeyRef ctx \<noteq> None then encryptPrivKeyRef ctx else signingPrivKeyRef ctx) = Some (Inr key)"
      "KeyClass key = CSSM_KEYCLASS_PRIVATE_KEY"
    and len: "length m = sslKeyLengthInBytes key"
  shows "SSLDecodeRSAKeyExchange P m ctx = Some (noErr,
    case rsa_plaintext P ctx key m of
      Some secret \<Rightarrow> if length secret = 48 \<and> SSLDecodeInt secret 2 \<in> {negProtocolVersion ctx, clientReqProtocol ctx}
        then ctx\<lparr>preMasterSecret := Some secret\<rparr> else random_secret P ctx
    | None \<Rightarrow> random_secret P ctx)"
proof -
  obtain r where r: "devRandom P (rngPos ctx) 46 = Some r" "length r = 46" using devRandom_Some [OF ok] by blast
  obtain err out where d: "sslRsaDecrypt P ctx (Some (Inr key)) CSSM_PADDING_PKCS1 m 48 = Some (err, out)"
    "err = noErr \<and> length out = 48 \<longleftrightarrow> (\<exists>s. rsa_plaintext P ctx key m = Some s \<and> length s = 48)"
    "\<forall>s. rsa_plaintext P ctx key m = Some s \<longrightarrow> length s = 48 \<longrightarrow> out = s"
    using sslRsaDecrypt_plaintext [OF key(3), of P ctx m] by (elim exE conjE)
  have "SSLDecodeRSAKeyExchange P m ctx = Some (noErr,
      if err = noErr \<and> length out = 48 \<and> SSLDecodeInt out 2 \<in> {negProtocolVersion ctx, clientReqProtocol ctx}
      then ctx\<lparr>preMasterSecret := Some out\<rparr> else random_secret P ctx)"
    using key len d(1) r by (auto simp: SSLDecodeRSAKeyExchange_def SSLAllocBuffer_ok ok Let_def sslRand_def random_secret_def)
  then show ?thesis using d(2,3) by (cases "rsa_plaintext P ctx key m") auto
qed

text \<open>An RSA key pair: what either library encrypts under the public half fills the modulus and is decrypted by the CSP.\<close>

definition rsa_pair :: "platform \<Rightarrow> CSSM_KEY \<Rightarrow> CSSM_KEY \<Rightarrow> bool" where
  "rsa_pair P pub priv \<longleftrightarrow>
     KeyClass priv = CSSM_KEYCLASS_PRIVATE_KEY \<and> sslKeyLengthInBytes pub = sslKeyLengthInBytes priv \<and>
     (\<forall>m ct. CSSM_EncryptData P pub CSSM_PADDING_PKCS1 m = Some ct \<longrightarrow>
        length ct = sslKeyLengthInBytes priv \<and> CSSM_DecryptData P priv CSSM_PADDING_PKCS1 ct = Some m) \<and>
     (\<forall>md ex m ct err. sslGetPubKeyBits P pub = Some (err, Some md, Some ex) \<longrightarrow>
        RSA_public_encrypt P md ex m = (int (sslKeyLengthInBytes priv), ct) \<longrightarrow>
        length ct = sslKeyLengthInBytes priv \<and> CSSM_DecryptData P priv CSSM_PADDING_PKCS1 ct = Some m)"

text \<open>The private key can be used.\<close>

definition key_usable :: "platform \<Rightarrow> CSSM_KEY \<Rightarrow> bool" where
  "key_usable P key \<longleftrightarrow> (\<exists>csp. SecKeyGetCSPHandle P key = Inr csp \<and> CSSM_CSP_CreateAsymmetricContext P csp key CSSM_PADDING_PKCS1) \<and>
     SecKeyGetCredentials P key = noErr \<and> CSSM_UpdateContextAttributes P key = noErr"

lemma rsa_encrypted:
  assumes "rsa_pair P pub priv"
    and "(if BlobType pub \<noteq> CSSM_KEYBLOB_RAW then sslRsaEncrypt P (Some pub) csp CSSM_PADDING_PKCS1 secret n else Some (errSSLCrypto, [])) = Some (e0, out0)"
    and "(if e0 = noErr then Some (e0, out0) else rsa_encrypt_ossl P e0 pub n secret) = Some (noErr, out)"
    and "n = sslKeyLengthInBytes pub"
  shows "length out = n" "CSSM_DecryptData P priv CSSM_PADDING_PKCS1 out = Some secret"
proof -
  have "length out = n \<and> CSSM_DecryptData P priv CSSM_PADDING_PKCS1 out = Some secret"
  proof (cases "e0 = noErr")
    case True
    then have "CSSM_EncryptData P pub CSSM_PADDING_PKCS1 secret = Some out"
      using assms(2,3) by (auto simp: sslRsaEncrypt_def split: if_split_asm option.split_asm)
    then show ?thesis using assms(1,4) by (auto simp: rsa_pair_def)
  next
    case False
    then obtain err md ex where "sslGetPubKeyBits P pub = Some (err, Some md, Some ex)" "RSA_public_encrypt P md ex secret = (int n, out)"
      using assms(3) by (auto simp: rsa_encrypt_ossl_def elim!: bind_SomeE split: if_split_asm option.split_asm prod.split_asm)
    then show ?thesis using assms(1,4) unfolding rsa_pair_def by metis
  qed
  then show "length out = n" "CSSM_DecryptData P priv CSSM_PADDING_PKCS1 out = Some secret" by simp_all
qed

lemma sslRsaDecrypt_ok:
  assumes "key_usable P key" "KeyClass key = CSSM_KEYCLASS_PRIVATE_KEY" "CSSM_DecryptData P key CSSM_PADDING_PKCS1 ct = Some m" "length m \<le> n"
  shows "sslRsaDecrypt P ctx (Some (Inr key)) CSSM_PADDING_PKCS1 ct n = Some (noErr, m)"
  using assms by (auto simp: sslRsaDecrypt_def sslGetKeyParts_def key_usable_def sslAddBlindingAttr_def)

text \<open>What the client sends is what the server decrypts.\<close>

lemma SSLEncodeRSAPremasterSecret_noErr:
  assumes "platform_ok P" "SSLEncodeRSAPremasterSecret P ctx = Some (noErr, ctx')"
  obtains r v e where "sslGetMaxProtVersion ctx = (e, Some v)" "length r = 46"
    "ctx' = ctx\<lparr>preMasterSecret := Some (SSLEncodeInt v 2 @ r), rngPos := rngPos ctx + 1\<rparr>"
proof -
  obtain e v where v: "sslGetMaxProtVersion ctx = (e, v)" by fastforce
  obtain r where r: "devRandom P (rngPos ctx) 46 = Some r" "length r = 46" using devRandom_Some [OF assms(1)] by blast
  show ?thesis
    using assms(2) v r that by (auto simp: SSLEncodeRSAPremasterSecret_def SSLAllocBuffer_ok assms(1) sslRand_def elim!: bind_SomeE)
qed

lemma known_version_16: "knownVersion v \<Longrightarrow> take_bit 16 v = v"
  by (auto simp: knownVersion_def)

lemma SSLEncodeRSAKeyExchange_noErr:
  assumes ok: "platform_ok P" and run: "SSLEncodeRSAKeyExchange P c = Some (noErr, r, c')" and pair: "rsa_pair P pub priv" "peerPubKey c = Some pub"
  obtains out secret v e where "sslGetMaxProtVersion c = (e, Some v)" "length secret = 48" "SSLDecodeInt secret 2 = v"
    "c' = c\<lparr>preMasterSecret := Some secret, rngPos := rngPos c + 1\<rparr>"
    "length out = sslKeyLengthInBytes pub" "CSSM_DecryptData P priv CSSM_PADDING_PKCS1 out = Some secret"
    "contents r = hdsk_msg SSL_HdskClientKeyExchange ((if negProtocolVersion c \<ge> TLS_Version_1_0 then SSLEncodeInt (of_nat (sslKeyLengthInBytes pub)) 2 else []) @ out)"
proof -
  let ?n = "sslKeyLengthInBytes pub"
  obtain c1 where p: "SSLEncodeRSAPremasterSecret P c = Some (noErr, c1)"
    using run by (auto simp: SSLEncodeRSAKeyExchange_def elim!: bind_SomeE split: if_split_asm)
  obtain rnd v e where v: "sslGetMaxProtVersion c = (e, Some v)" "length rnd = 46"
    and c1: "c1 = c\<lparr>preMasterSecret := Some (SSLEncodeInt v 2 @ rnd), rngPos := rngPos c + 1\<rparr>"
    by (rule SSLEncodeRSAPremasterSecret_noErr [OF ok p])
  let ?secret = "SSLEncodeInt v 2 @ rnd"
  obtain e0 out0 out where e: "(if BlobType pub \<noteq> CSSM_KEYBLOB_RAW then sslRsaEncrypt P (Some pub) (peerPubKeyCsp c) CSSM_PADDING_PKCS1 ?secret ?n else Some (errSSLCrypto, [])) = Some (e0, out0)"
    "(if e0 = noErr then Some (e0, out0) else rsa_encrypt_ossl P e0 pub ?n ?secret) = Some (noErr, out)"
    and r: "r = hdsk_record c (hdsk_msg SSL_HdskClientKeyExchange ((if negProtocolVersion c \<ge> TLS_Version_1_0 then SSLEncodeInt (of_nat ?n) 2 else [])
       @ out @ replicate (?n - length out) 0))" "c' = c1"
    using run p pair(2) ok
    by (auto simp: SSLEncodeRSAKeyExchange_def c1 octets_def hdsk_record_def Let_def elim!: bind_SomeE split: if_split_asm)
  note out = rsa_encrypted [OF pair(1) e refl]
  show ?thesis
    using that [of e v ?secret out] v c1 r out sslGetMaxProtVersion_known [OF v(1)]
    by (simp add: hdsk_record_def SSLDecodeInt_SSLEncodeInt known_version_16)
qed

lemma RSA_exchange_roundtrip:
  assumes ok: "platform_ok P" and enc: "SSLEncodeRSAKeyExchange P c = Some (noErr, r, c')"
    and pair: "rsa_pair P pub priv" "peerPubKey c = Some pub" "key_usable P priv" "sslKeyLengthInBytes pub < 65536"
    and s: "protocolSide s = SSL_ServerSide" "(if encryptPrivKeyRef s \<noteq> None then encryptPrivKeyRef s else signingPrivKeyRef s) = Some (Inr priv)"
      "negProtocolVersion s = negProtocolVersion c" "sslGetMaxProtVersion c = (noErr, Some (clientReqProtocol s))"
  shows "SSLDecodeRSAKeyExchange P (drop 4 (contents r)) s = Some (noErr, s\<lparr>preMasterSecret := preMasterSecret c'\<rparr>)"
proof -
  let ?n = "sslKeyLengthInBytes pub"
  obtain out secret where o: "length secret = 48" "SSLDecodeInt secret 2 = clientReqProtocol s"
    "c' = c\<lparr>preMasterSecret := Some secret, rngPos := rngPos c + 1\<rparr>"
    "length out = ?n" "CSSM_DecryptData P priv CSSM_PADDING_PKCS1 out = Some secret"
    "contents r = hdsk_msg SSL_HdskClientKeyExchange ((if negProtocolVersion c \<ge> TLS_Version_1_0 then SSLEncodeInt (of_nat ?n) 2 else []) @ out)"
    by (rule SSLEncodeRSAKeyExchange_noErr [OF ok enc pair(1,2)]) (use s(4) in simp)
  have priv: "KeyClass priv = CSSM_KEYCLASS_PRIVATE_KEY" "sslKeyLengthInBytes priv = ?n" using pair(1) by (auto simp: rsa_pair_def)
  note d = sslRsaDecrypt_ok [OF pair(3) priv(1) o(5), of 48 s]
  show ?thesis
    using s o priv d by (simp add: SSLDecodeRSAKeyExchange_def hdsk_msg_def SSLAllocBuffer_ok ok Let_def)
qed

section \<open>Diffie-Hellman parameters\<close>

lemma decode_length:
  assumes "k < 2 ^ (8 * n)" "n \<le> 3"
  shows "unat (SSLDecodeInt (SSLEncodeInt (of_nat k) n) n) = k"
proof -
  have "k < 2 ^ 32" using assms(1) power_increasing [of "8 * n" 32 "2 :: nat"] assms(2) by simp
  then show ?thesis
    using assms(1) by (simp add: SSLDecodeInt_SSLEncodeInt take_bit_of_nat unat_of_nat take_bit_nat_eq_self)
qed

lemma dh_vector_vector16:
  assumes "platform_ok P" "m = pre @ vector16 bs @ post" "length bs < 65536" "off = length pre"
  shows "dh_vector P b off m = Some (noErr, Some bs, off + 2 + length bs)"
  using assms decode_length [of "length bs" 2]
  by (simp add: dh_vector_def rd_at_def vector16_def SSLAllocBuffer_ok Let_def del: SSLDecodeInt_SSLEncodeInt)

lemma DH_params_roundtrip:
  assumes ok: "platform_ok P" and c: "protocolSide c = SSL_ClientSide"
    and s: "dhParamsPrime s = Some p" "dhParamsGenerator s = Some g" "dhExchangePublic s = Some y"
      "length p < 65536" "length g < 65536" "length y < 65536"
  shows "SSLDecodeDHKeyParams P (SSLEncodeDHKeyParams s) c =
    Some (noErr, length (SSLEncodeDHKeyParams s), c\<lparr>dhParamsPrime := Some p, dhParamsGenerator := Some g, dhPeerPublic := Some y\<rparr>)"
proof -
  let ?m = "vector16 p @ vector16 g @ vector16 y"
  have l: "length (vector16 bs) = 2 + length bs" for bs by (simp add: vector16_def)
  have v: "dh_vector P True 0 ?m = Some (noErr, Some p, 2 + length p)"
    "dh_vector P True (2 + length p) ?m = Some (noErr, Some g, 4 + length p + length g)"
    "dh_vector P False (4 + length p + length g) ?m = Some (noErr, Some y, 6 + length p + length g + length y)"
    using dh_vector_vector16 [OF ok, of ?m "[]" p "vector16 g @ vector16 y" 0 True] s
      dh_vector_vector16 [OF ok, of ?m "vector16 p" g "vector16 y" "2 + length p" True]
      dh_vector_vector16 [OF ok, of ?m "vector16 p @ vector16 g" y "[]" "4 + length p + length g" False]
    by (simp_all add: l)
  then show ?thesis
    using c s by (simp add: SSLDecodeDHKeyParams_def SSLEncodeDHKeyParams_def octets_def l del: add_2_eq_Suc add_2_eq_Suc')
qed

end
