(* ===== verification/Cert.thy ===== *)
theory Cert
  imports Key_Exchange
begin

text \<open>
  Model of \<open>sslCert.c\<close>: the Certificate, CertificateRequest and CertificateVerify messages in both
  directions, and \<open>SSLUpdateNegotiatedClientAuthType\<close> of \<open>sslContext.c\<close>, which picks the way the
  client authenticates itself.

  The certificate lists of a connection (\<open>localCert\<close>, \<open>peerCert\<close>) are kept with the root first; the
  messages have the leaf first.
\<close>

section \<open>Certificate\<close>

definition vector24 :: "bytes \<Rightarrow> bytes" where
  "vector24 bs = SSLEncodeInt (of_nat (length bs)) 3 @ bs"

definition cert_list :: "bytes list \<Rightarrow> bytes" where
  "cert_list certs = concat (map vector24 (rev certs))"

definition SSLEncodeCertificate :: EncodeMessageFunc where
  "SSLEncodeCertificate P ctx =
     (let certs = cert_list (localCert ctx) in
      if negProtocolVersion ctx \<notin> {SSL_Version_3_0, TLS_Version_1_0, TLS_Version_1_1, TLS_Version_1_2} \<or>
         localCert ctx = [] \<and> negProtocolVersion ctx < TLS_Version_1_0 then None
      else if \<not> mallocOk P (length certs + 7) then Some (memFullErr, hdsk_record ctx [], ctx)
      else let r = hdsk_record ctx (hdsk_msg SSL_HdskCert (vector24 certs)) in
      if protocolSide ctx = SSL_ClientSide \<and> localCert ctx \<noteq> []
      then if clientCertState ctx \<noteq> kSSLClientCertRequested \<or> \<not> certRequested ctx then None
           else Some (noErr, r, ctx\<lparr>certSent := True, clientCertState := kSSLClientCertSent\<rparr>)
      else Some (noErr, r, ctx))"

text \<open>
  The loop over the list: each certificate is put in front of those before it. The length of a
  certificate is read before it is known that three octets are left. 16 stands for
  \<open>sizeof(SSLCertificate)\<close>.
\<close>

function add_certs :: "platform \<Rightarrow> bytes \<Rightarrow> bytes list \<Rightarrow> (OSStatus \<times> bytes list) option" where
  "add_certs P m certs =
     (if m = [] then Some (noErr, certs)
      else if length m < 3 then None
      else let certLen = unat (SSLDecodeInt m 3) in
      if length m < certLen + 3 then Some (errSSLProtocol, certs)
      else if \<not> mallocOk P 16 \<or> \<not> mallocOk P certLen then Some (memFullErr, certs)
      else add_certs P (drop (3 + certLen) m) (take certLen (drop 3 m) # certs))"
  by pat_completeness auto
termination
  by (relation "measure (length \<circ> fst \<circ> snd)") auto

declare add_certs.simps [simp del]

definition chain_alert :: "OSStatus \<Rightarrow> AlertDescription" where
  "chain_alert err =
     (if err \<in> {errSSLUnknownRootCert, errSSLNoRootCert} then SSL_AlertUnknownCA
      else if err \<in> {errSSLCertExpired, errSSLCertNotYetValid} then SSL_AlertCertExpired
      else SSL_AlertCertUnknown)"

definition kx_in :: "KeyExchangeMethod set \<Rightarrow> SSLContext \<Rightarrow> bool" where
  "kx_in kxs ctx \<longleftrightarrow> (case selectedCipherSpec ctx of None \<Rightarrow> False | Some cs \<Rightarrow> keyExchangeMethod cs \<in> kxs)"

text \<open>
  The server's key from its certificate. A failure does not count for the suites with ephemeral
  elliptic-curve keys; for RSA, libcrypto is tried.
\<close>

definition recover_rsa_key :: "platform \<Rightarrow> bytes \<Rightarrow> OSStatus \<Rightarrow> SSLContext \<Rightarrow> OSStatus \<times> SSLContext" where
  "recover_rsa_key P leaf keyErr ctx =
     (if keyErr \<noteq> noErr \<and> kx_in {SSL_ECDHE_RSA, SSL_RSA, SSL_RSA_EXPORT} ctx
      then (case tls12ExtractRSAPubKey P leaf of
              None \<Rightarrow> (keyErr, ctx)
            | Some (md, ex) \<Rightarrow>
                (case sslGetPubKeyFromBits P ctx md ex of (err, key, csp) \<Rightarrow>
                   if err = noErr \<and> key \<noteq> None then (noErr, ctx\<lparr>peerPubKey := key, peerPubKeyCsp := csp\<rparr>)
                   else (keyErr, ctx)))
      else (keyErr, ctx))"

text \<open>The conversion of an X.509 key into one that the CSP can use.\<close>

definition convert_key :: "platform \<Rightarrow> SSLContext \<Rightarrow> SSLContext option" where
  "convert_key P ctx =
     (case peerPubKey ctx of
        None \<Rightarrow> Some ctx
      | Some key \<Rightarrow> do {
          (bitsErr, modulus, exponent) \<leftarrow> sslGetPubKeyBits P key;
          if bitsErr = noErr \<and> octets modulus \<noteq> [] \<and> octets exponent \<noteq> []
          then (case sslGetPubKeyFromBits P ctx (octets modulus) (octets exponent) of (convErr, key', csp) \<Rightarrow>
                  Some (if convErr = noErr \<and> key' \<noteq> None then ctx\<lparr>peerPubKey := key', peerPubKeyCsp := csp\<rparr> else ctx))
          else Some ctx })"

definition extract_peer_key :: "platform \<Rightarrow> OSStatus \<Rightarrow> SSLContext \<Rightarrow> (OSStatus \<times> SSLContext) option" where
  "extract_peer_key P err ctx =
     (let leaf = last (peerCert ctx); (keyErr, key, csp) = sslPubKeyFromCert P ctx leaf;
          ctx = ctx\<lparr>peerPubKey := key, peerPubKeyCsp := csp\<rparr>;
          keyErr = (if kx_in {SSL_ECDHE_ECDSA, SSL_ECDHE_RSA} ctx then noErr else keyErr);
          (keyErr, ctx) = recover_rsa_key P leaf keyErr ctx
      in do { ctx \<leftarrow> (if keyErr = noErr then convert_key P ctx else Some ctx);
              Some (if err = noErr then keyErr else err, ctx) })"

definition peer_cert_state :: "OSStatus \<Rightarrow> SSLContext \<Rightarrow> SSLContext" where
  "peer_cert_state err ctx =
     (if protocolSide ctx = SSL_ServerSide
      then ctx\<lparr>clientCertState := (if err \<noteq> noErr then kSSLClientCertRejected else kSSLClientCertSent)\<rparr>
      else if breakOnServerAuth ctx then ctx\<lparr>signalServerAuth := True\<rparr> else ctx)"

definition SSLProcessCertificate :: "platform \<Rightarrow> bytes \<Rightarrow> SSLContext \<Rightarrow> (OSStatus \<times> SSLContext) option" where
  "SSLProcessCertificate P m ctx =
     do { listLen \<leftarrow> rd_at 0 3 m;
          if unat listLen + 3 \<noteq> length m then Some (errSSLProtocol, ctx) else do {
          (err, certs) \<leftarrow> add_certs P (drop 3 m) (peerCert ctx);
          let ctx = ctx\<lparr>peerCert := certs\<rparr>;
          if err \<noteq> noErr then Some (err, ctx)
          else if certs = []
          then if protocolSide ctx = SSL_ServerSide \<and> clientAuth ctx \<noteq> kAlwaysAuthenticate then Some (noErr, ctx)
               else alert_return P (if negProtocolVersion ctx = SSL_Version_3_0 then SSL_AlertBadCert else SSL_AlertCertUnknown)
                      errSSLXCertChainInvalid ctx
          else do {
            (err, ctx) \<leftarrow> sslVerifyCertChain P certs True ctx;
            (err, ctx) \<leftarrow> (if err \<noteq> noErr then alert_return P (chain_alert err) err ctx else Some (err, ctx));
            (err, ctx) \<leftarrow> extract_peer_key P err ctx;
            Some (err, peer_cert_state err ctx) }}}"

section \<open>CertificateRequest\<close>

definition dn_list :: "bytes list \<Rightarrow> bytes" where
  "dn_list dns = concat (map vector16 dns)"

definition SSLEncodeCertificateRequest :: EncodeMessageFunc where
  "SSLEncodeCertificateRequest P ctx =
     (let dns = dn_list (acceptableDNList ctx) in
      if protocolSide ctx \<noteq> SSL_ServerSide \<or> negProtocolVersion ctx \<notin> {SSL_Version_3_0, TLS_Version_1_0} then None
      else if \<not> mallocOk P (length dns + 9) then Some (memFullErr, hdsk_record ctx [], ctx)
      else Some (noErr, hdsk_record ctx (hdsk_msg SSL_HdskCertRequest ([2, 1, 64] @ vector16 dns)), ctx))"

text \<open>The first type of the server's list that fits the client's key; the fixed Diffie-Hellman types are compiled in.\<close>

definition auth_type_fits :: "CSSM_ALGORITHMS \<Rightarrow> CSSM_ALGORITHMS \<Rightarrow> SSLClientAuthenticationType \<Rightarrow> bool" where
  "auth_type_fits ourKeyAlg signerAlg t \<longleftrightarrow>
     (t = SSLClientAuth_RSASign \<and> ourKeyAlg = CSSM_ALGID_RSA \<or>
      t \<in> {SSLClientAuth_ECDSASign, SSLClientAuth_ECDSAFixedECDH} \<and> ourKeyAlg = CSSM_ALGID_ECDSA \<and> signerAlg = CSSM_ALGID_ECDSA \<or>
      t = SSLClientAuth_RSAFixedECDH \<and> ourKeyAlg = CSSM_ALGID_ECDSA \<and> signerAlg = CSSM_ALGID_RSA)"

definition SSLUpdateNegotiatedClientAuthType :: "SSLContext \<Rightarrow> SSLContext option" where
  "SSLUpdateNegotiatedClientAuthType ctx =
     (let ctx = ctx\<lparr>x509Requested := False, negAuthType := SSLClientAuthNone\<rparr> in
      if signingPrivKeyRef ctx = None then Some ctx
      else do {
        key \<leftarrow> signingPubKey ctx;
        Some (case find (auth_type_fits (AlgorithmId key) (ourSignerAlg ctx)) (clientAuthTypes ctx) of
                None \<Rightarrow> ctx
              | Some t \<Rightarrow> ctx\<lparr>x509Requested := True, negAuthType := t\<rparr>) })"

text \<open>12 stands for \<open>sizeof(DNListElem)\<close>.\<close>

function add_dns :: "platform \<Rightarrow> bytes \<Rightarrow> bytes list \<Rightarrow> OSStatus \<times> bytes list" where
  "add_dns P m dns =
     (if m = [] then (noErr, dns)
      else if length m < 2 then (errSSLProtocol, dns)
      else let dnLen = unat (SSLDecodeInt m 2) in
      if length m < dnLen + 2 then (errSSLProtocol, dns)
      else if \<not> mallocOk P 12 \<or> \<not> mallocOk P dnLen then (memFullErr, dns)
      else add_dns P (drop (2 + dnLen) m) (take dnLen (drop 2 m) # dns))"
  by pat_completeness auto
termination
  by (relation "measure (length \<circ> fst \<circ> snd)") auto

declare add_dns.simps [simp del]

text \<open>The offset of the list of names: behind the types and, for TLS 1.2, the signature algorithms.\<close>

definition dn_offset :: "SSLProtocolVersion \<Rightarrow> nat \<Rightarrow> bytes \<Rightarrow> (OSStatus \<times> nat) option" where
  "dn_offset v off m =
     (if v \<ge> TLS_Version_1_2
      then if off + 2 > length m then Some (errSSLProtocol, off)
           else do {
             n \<leftarrow> rd_at off 2 m;
             Some (if off + 2 + unat n > length m then errSSLProtocol else noErr, off + 2 + unat n) }
      else Some (noErr, off))"

definition SSLProcessCertificateRequest :: "platform \<Rightarrow> bytes \<Rightarrow> SSLContext \<Rightarrow> (OSStatus \<times> SSLContext) option" where
  "SSLProcessCertificateRequest P m ctx =
     (if length m < 3 then Some (errSSLProtocol, ctx)
      else let typeCount = unat (m ! 0) in
      if typeCount < 1 \<or> length m < 3 + typeCount then Some (errSSLProtocol, ctx)
      else if \<not> mallocOk P (4 * typeCount) then None
      else do {
        let ctx = ctx\<lparr>clientAuthTypes := map uint (take typeCount (drop 1 m))\<rparr>;
        (err, off) \<leftarrow> dn_offset (negProtocolVersion ctx) (1 + typeCount) m;
        if err \<noteq> noErr then Some (err, ctx) else do {
        ctx \<leftarrow> SSLUpdateNegotiatedClientAuthType ctx;
        dnListLen \<leftarrow> rd_at off 2 m;
        if off + 2 + unat dnListLen \<noteq> length m then Some (errSSLProtocol, ctx)
        else case add_dns P (drop (off + 2) m) (acceptableDNList ctx) of (err, dns) \<Rightarrow>
          Some (err, ctx\<lparr>acceptableDNList := dns\<rparr>) }})"

section \<open>CertificateVerify\<close>

text \<open>
  The digests of the transcript as the callout table computes them, 36 octets. A failing first
  clone leaves the second state uninitialised when the client frees it.
\<close>

definition SSLEncodeCertificateVerify :: EncodeMessageFunc where
  "SSLEncodeCertificateVerify P ctx =
     do { (err, shaMsgState) \<leftarrow> CloneHashState P SSLHashSHA1 (shaState ctx);
          if err \<noteq> noErr then None else do {
          (err, md5MsgState) \<leftarrow> CloneHashState P SSLHashMD5 (md5State ctx);
          if err \<noteq> noErr then Some (err, hdsk_record ctx [], ctx) else do {
          (err, hashData) \<leftarrow> call_computeCertVfyMac P 36 shaMsgState md5MsgState ctx;
          if err \<noteq> noErr then Some (err, hdsk_record ctx [], ctx) else do {
          keyRef \<leftarrow> signingPrivKeyRef ctx;
          case keyRef of
            Inl err \<Rightarrow> Some (err, hdsk_record ctx [], ctx)
          | Inr key \<Rightarrow> do {
              (len, dataToSign) \<leftarrow> (if negAuthType ctx = SSLClientAuth_RSASign then Some (sslKeyLengthInBytes key, take 36 hashData)
                 else if negAuthType ctx = SSLClientAuth_ECDSASign then Some (2 * sslKeyLengthInBytes key + 20, take 20 (drop 16 hashData))
                 else None);
              if negProtocolVersion ctx \<notin> {SSL_Version_3_0, TLS_Version_1_0} then None
              else if \<not> mallocOk P (len + 6) then Some (memFullErr, hdsk_record ctx [], ctx) else do {
              (err, sig) \<leftarrow> sslRawSign P ctx (Some keyRef) dataToSign len;
              if err \<noteq> noErr then Some (err, hdsk_record ctx [], ctx)
              else Some (noErr, hdsk_record ctx (hdsk_msg SSL_HdskCertVerify (vector16 sig)), ctx) }}}}}}"

definition SSLProcessCertificateVerify :: "platform \<Rightarrow> bytes \<Rightarrow> SSLContext \<Rightarrow> (OSStatus \<times> SSLContext) option" where
  "SSLProcessCertificateVerify P m ctx =
     (if length m < 2 \<or> length m \<noteq> 2 + unat (SSLDecodeInt m 2) then Some (errSSLProtocol, ctx)
      else do {
        key \<leftarrow> peerPubKey ctx;
        (err, shaMsgState) \<leftarrow> CloneHashState P SSLHashSHA1 (shaState ctx);
        if err \<noteq> noErr then Some (err, ctx) else do {
        (err, md5MsgState) \<leftarrow> CloneHashState P SSLHashMD5 (md5State ctx);
        if err \<noteq> noErr then Some (err, ctx) else do {
        (err, hashData) \<leftarrow> (if AlgorithmId key = CSSM_ALGID_ECDSA
           then do { (ignored, d) \<leftarrow> hash_final P SSLHashSHA1 shaMsgState (replicate 36 0); Some (noErr, take 20 d) }
           else call_computeCertVfyMac P 36 shaMsgState md5MsgState ctx);
        if err \<noteq> noErr then Some (err, ctx)
        else let err = sslRawVerify P (Some key) (peerPubKeyCsp ctx) hashData (drop 2 m) in
        if err \<noteq> noErr then alert_return P SSL_AlertDecryptError err ctx
        else Some (noErr, ctx) }}})"

section \<open>The list that is sent is the list that is received\<close>

lemma length_vector24 [simp]: "length (vector24 bs) = 3 + length bs"
  by (simp add: vector24_def)

lemma add_certs_Nil [simp]: "add_certs P [] acc = Some (noErr, acc)"
  by (simp add: add_certs.simps)

lemma add_certs_vector24:
  assumes "platform_ok P" "length c < 2 ^ 24"
  shows "add_certs P (vector24 c @ rest) acc = add_certs P rest (c # acc)"
proof -
  have "SSLEncodeInt (of_nat (length c)) 3 \<noteq> []" using length_SSLEncodeInt [of "of_nat (length c)" 3] by force
  then show ?thesis
    using assms decode_length [of "length c" 3]
    by (subst add_certs.simps) (simp add: vector24_def Let_def del: SSLDecodeInt_SSLEncodeInt)
qed

lemma add_certs_list:
  "platform_ok P \<Longrightarrow> \<forall>c\<in>set cs. length c < 2 ^ 24 \<Longrightarrow> add_certs P (concat (map vector24 cs)) acc = Some (noErr, rev cs @ acc)"
  by (induction cs arbitrary: acc) (simp_all add: add_certs_vector24)

lemma sslVerifyCertChain_frame:
  assumes "sslVerifyCertChain P chain b ctx = Some (err, ctx')"
  shows "ctx' = ctx\<lparr>peerSecTrust := peerSecTrust ctx'\<rparr>"
  using assms
  by (auto simp: sslVerifyCertChain_def Let_def elim!: bind_SomeE split: if_split_asm sum.split_asm option.split_asm)

lemma extract_peer_key_frame:
  assumes "extract_peer_key P err ctx = Some (err', ctx')"
  shows "peerCert ctx' = peerCert ctx \<and> (err' = noErr \<longrightarrow> err = noErr)"
  using assms
  by (auto simp: extract_peer_key_def recover_rsa_key_def convert_key_def Let_def elim!: bind_SomeE
      split: if_split_asm prod.split_asm option.split_asm)

lemma extract_peer_key_ok:
  assumes "sslPubKeyFromCert P ctx (last (peerCert ctx)) = (noErr, Some key, h)" "BlobType key = CSSM_KEYBLOB_RAW"
  shows "\<exists>ctx'. extract_peer_key P noErr ctx = Some (noErr, ctx')"
  using assms by (auto simp: extract_peer_key_def recover_rsa_key_def convert_key_def sslGetPubKeyBits_def Let_def split: prod.split)

text \<open>What an accepted Certificate message leaves: the certificates of the list, turned round, after
  those that were there.\<close>

lemma SSLProcessCertificate_noErr:
  assumes "platform_ok P" "\<forall>c\<in>set cs. length c < 2 ^ 24" "length (concat (map vector24 cs)) < 2 ^ 24" "cs \<noteq> []"
    and "SSLProcessCertificate P (vector24 (concat (map vector24 cs))) ctx = Some (noErr, ctx')"
  shows "peerCert ctx' = rev cs @ peerCert ctx"
proof -
  let ?list = "concat (map vector24 cs)"
  have hd: "rd_at 0 3 (vector24 ?list) = Some (SSLDecodeInt (vector24 ?list) 3)"
    "unat (SSLDecodeInt (vector24 ?list) 3) = length ?list" "drop 3 (vector24 ?list) = ?list"
    using decode_length [of "length ?list" 3] assms(3)
    by (simp_all add: rd_at_Some vector24_def del: SSLDecodeInt_SSLEncodeInt)
  have no: "alert_return P d e c \<noteq> Some (noErr, c')" if "e \<noteq> noErr" for d e c c'
    using alert_return_effect(1) that by metis
  from assms(5) hd obtain err c1 e2 c2 c3 where
    v: "sslVerifyCertChain P (rev cs @ peerCert ctx) True (ctx\<lparr>peerCert := rev cs @ peerCert ctx\<rparr>) = Some (err, c1)"
    and s: "(if err \<noteq> noErr then alert_return P (chain_alert err) err c1 else Some (err, c1)) = Some (e2, c2)"
    and x: "extract_peer_key P e2 c2 = Some (noErr, c3)" "ctx' = peer_cert_state noErr c3"
    using assms(4) add_certs_list [OF assms(1,2)] by (auto simp: SSLProcessCertificate_def elim!: bind_SomeE)
  have f: "peerCert c3 = peerCert c2" "e2 = noErr" using extract_peer_key_frame [OF x(1)] by simp_all
  with s no have "c2 = c1" by (auto split: if_split_asm)
  moreover have "peerCert c1 = rev cs @ peerCert ctx"
    using arg_cong [OF sslVerifyCertChain_frame [OF v], of peerCert] by simp
  ultimately show ?thesis using f x(2) by (simp add: peer_cert_state_def)
qed

end
