(* ===== verification/Hello.thy ===== *)
theory Hello
  imports Finish
begin

text \<open>
  Model of \<open>sslHandshakeHello.c\<close>: ClientHello and ServerHello in both directions, the random
  values, and the initialisation of the running digests.

  The theorems: the messages that the encoders build are decoded to the same version, random
  value, session identifier and cipher suites; the server settles on the first suite of the
  client's list that it has enabled; and every accepted hello leaves the connection with an
  enabled version, the callout table that goes with it, and a suite of its own list.

  Lengths of buffers are natural numbers: the C code adds lengths of buffers that exist in memory
  in 32-bit variables.
\<close>

section \<open>Randoms and digests\<close>

text \<open>\<open>sslTime\<close> truncates the clock to 32 bits and cannot fail.\<close>

definition SSLEncodeRandom :: "platform \<Rightarrow> SSLContext \<Rightarrow> OSStatus \<times> bytes \<times> SSLContext" where
  "SSLEncodeRandom P ctx =
     (case sslRand P 28 ctx of (err, r, ctx) \<Rightarrow> (err, SSLEncodeInt (of_int (now P)) 4 @ r, ctx))"

definition SSLInitMessageHashes :: "platform \<Rightarrow> SSLContext \<Rightarrow> (OSStatus \<times> SSLContext) option" where
  "SSLInitMessageHashes P ctx =
     (let (err, st) = CloseHash SSLHashSHA1 (shaState ctx); ctx = ctx\<lparr>shaState := st\<rparr> in
      if err \<noteq> noErr then Some (err, ctx) else
      let (err, st) = CloseHash SSLHashMD5 (md5State ctx); ctx = ctx\<lparr>md5State := st\<rparr> in
      if err \<noteq> noErr then Some (err, ctx) else
      let (err, st) = CloseHash SSLHashSHA256 (sha256State ctx); ctx = ctx\<lparr>sha256State := st\<rparr> in
      if err \<noteq> noErr then Some (err, ctx) else
      let (err, st) = CloseHash SSLHashSHA384 (sha384State ctx); ctx = ctx\<lparr>sha384State := st\<rparr> in
      if err \<noteq> noErr then Some (err, ctx) else do {
      (err, st) \<leftarrow> ReadyHash P SSLHashSHA1;
      let ctx = ctx\<lparr>shaState := st\<rparr>;
      if err \<noteq> noErr then Some (err, ctx) else do {
      (err, st) \<leftarrow> ReadyHash P SSLHashMD5;
      let ctx = ctx\<lparr>md5State := st\<rparr>;
      if err \<noteq> noErr then Some (err, ctx) else do {
      (err, st) \<leftarrow> ReadyHash P SSLHashSHA256;
      let ctx = ctx\<lparr>sha256State := st\<rparr>;
      if err \<noteq> noErr then Some (err, ctx) else do {
      (err, st) \<leftarrow> ReadyHash P SSLHashSHA384;
      Some (err, ctx\<lparr>sha384State := st\<rparr>) }}}})"

text \<open>The callout table of a version; \<open>None\<close> is the default branch of the switch.\<close>

definition callouts_of :: "SSLProtocolVersion \<Rightarrow> SslTlsCallouts option" where
  "callouts_of v = (if v = SSL_Version_3_0 then Some Ssl3Callouts
     else if v = TLS_Version_1_0 \<or> v = TLS_Version_1_1 then Some Tls1Callouts
     else if v = TLS_Version_1_2 then Some Tls12Callouts else None)"

section \<open>ServerHello\<close>

definition SSL_NULL_ID_LEN :: nat where "SSL_NULL_ID_LEN = 32"

text \<open>
  The length octet of the identifier: the low octet of its length, and 32 when that is zero. With
  an identifier present that many octets are copied from it.
\<close>

definition hello_id_len :: "bytes option \<Rightarrow> nat" where
  "hello_id_len sid = (let n = (case sid of None \<Rightarrow> 0 | Some s \<Rightarrow> length s mod 256) in
     if n = 0 then SSL_NULL_ID_LEN else n)"

definition server_hello_id :: "platform \<Rightarrow> SSLContext \<Rightarrow> (bytes \<times> SSLContext) option" where
  "server_hello_id P ctx =
     (case sessionID ctx of
        Some s \<Rightarrow> if hello_id_len (Some s) > length s then None else Some (take (hello_id_len (Some s)) s, ctx)
      | None \<Rightarrow> (case sslRand P SSL_NULL_ID_LEN ctx of (ignored, r, ctx) \<Rightarrow> Some (r, ctx)))"

definition SSLEncodeServerHello :: EncodeMessageFunc where
  "SSLEncodeServerHello P ctx =
     (let sessionIDLen = hello_id_len (sessionID ctx) in
      if negProtocolVersion ctx = SSL_Version_Undetermined \<or> negProtocolVersion ctx = SSL_Version_2_0 then None
      else let (err, buf) = SSLAllocBuffer P (42 + sessionIDLen) in
      if err \<noteq> noErr then Some (err, hdsk_record ctx [], ctx)
      else let (err, rand, ctx) = SSLEncodeRandom P ctx; ctx = ctx\<lparr>serverRandom := rand\<rparr> in
      if err \<noteq> noErr then Some (err, hdsk_record ctx [], ctx)
      else do {
        (sid, ctx) \<leftarrow> server_hello_id P ctx;
        Some (noErr, hdsk_record ctx (SSL_HdskServerHello # SSLEncodeInt (of_nat (38 + sessionIDLen)) 3 @
          SSLEncodeInt (negProtocolVersion ctx) 2 @ serverRandom ctx @ [of_nat sessionIDLen] @ sid @
          SSLEncodeInt (ucast (selectedCipher ctx)) 2 @ [0]), ctx) })"

text \<open>
  The identifier is kept when the application has set a peer ID; a failing allocation leaves the
  field empty and is otherwise ignored.
\<close>

definition keep_sessionID :: "platform \<Rightarrow> bytes \<Rightarrow> SSLContext \<Rightarrow> SSLContext" where
  "keep_sessionID P sid ctx =
     (if sid \<noteq> [] \<and> peerID ctx \<noteq> None
      then ctx\<lparr>sessionID := (if fst (SSLAllocBuffer P (length sid)) = noErr then Some sid else None)\<rparr>
      else ctx)"

definition SSLProcessServerHello :: "platform \<Rightarrow> bytes \<Rightarrow> SSLContext \<Rightarrow> (OSStatus \<times> SSLContext) option" where
  "SSLProcessServerHello P message ctx =
     (if protocolSide ctx \<noteq> SSL_ClientSide then None
      else if length message < 38 then Some (errSSLProtocol, ctx)
      else case sslVerifyProtVersion ctx (SSLDecodeInt message 2) of
        (err, None) \<Rightarrow> Some (err, ctx)
      | (err, Some negVersion) \<Rightarrow>
          (let ctx = ctx\<lparr>negProtocolVersion := negVersion\<rparr> in
           case callouts_of negVersion of
             None \<Rightarrow> Some (errSSLNegotiation, ctx)
           | Some calls \<Rightarrow>
               (let ctx = ctx\<lparr>sslTslCalls := calls, serverRandom := take 32 (drop 2 message)\<rparr>;
                    sessionIDLen = unat (message ! 34)
                in if length message < 38 + sessionIDLen then Some (errSSLProtocol, ctx)
                   else do {
                     let ctx = keep_sessionID P (take sessionIDLen (drop 35 message)) ctx;
                     let ctx = ctx\<lparr>selectedCipher := ucast (SSLDecodeInt (drop (35 + sessionIDLen) message) 2)\<rparr>;
                     (err, ctx) \<leftarrow> FindCipherSpec ctx;
                     if err \<noteq> noErr then Some (err, ctx)
                     else if message ! (37 + sessionIDLen) \<noteq> 0 then Some (unimpErr, ctx)
                     else Some (noErr, ctx) })))"

section \<open>ClientHello\<close>

text \<open>The extensions, each as the octets it adds to the message; \<open>[]\<close> when it is left out.\<close>

definition ext :: "uint32 \<Rightarrow> bytes \<Rightarrow> bytes" where
  "ext type body = SSLEncodeInt type 2 @ SSLEncodeInt (of_nat (length body)) 2 @ body"

definition ext_sessionTicket :: "SSLContext \<Rightarrow> bytes" where
  "ext_sessionTicket ctx = (case sessionTicket ctx of
       Some t \<Rightarrow> if t \<noteq> [] \<and> length t \<le> 0xFFFF then ext 35 t else []
     | None \<Rightarrow> [])"

definition ext_serverName :: "SSLProtocolVersion \<Rightarrow> SSLContext \<Rightarrow> bytes" where
  "ext_serverName v ctx = (case peerDomainName ctx of
       Some name \<Rightarrow> if v \<ge> TLS_Version_1_0 \<and> name \<noteq> []
         then SSLEncodeInt 0 2 @ SSLEncodeInt (of_nat (length name + 5)) 2 @ SSLEncodeInt (of_nat (length name + 3)) 2 @
              SSLEncodeInt 0 1 @ SSLEncodeInt (of_nat (length name)) 2 @ name
         else []
     | None \<Rightarrow> [])"

definition ext_curves :: "SSLProtocolVersion \<Rightarrow> SSLContext \<Rightarrow> bytes" where
  "ext_curves v ctx = (let len = 2 * length (ecdhCurves ctx) in
     if v \<ge> TLS_Version_1_0 \<and> ecdsaEnable ctx
     then SSLEncodeInt 10 2 @ SSLEncodeInt (of_nat (len + 2)) 2 @ SSLEncodeInt (of_nat len) 2 @
          concat (map (\<lambda>c. SSLEncodeInt (of_int c) 2) (ecdhCurves ctx))
     else [])"

definition ext_pointFormats :: "SSLProtocolVersion \<Rightarrow> SSLContext \<Rightarrow> bytes" where
  "ext_pointFormats v ctx =
     (if v \<ge> TLS_Version_1_0 \<and> ecdsaEnable ctx
      then SSLEncodeInt 11 2 @ SSLEncodeInt 2 2 @ SSLEncodeInt 1 1 @ SSLEncodeInt 0 1 else [])"

definition ext_sigAlgs :: "SSLProtocolVersion \<Rightarrow> bytes" where
  "ext_sigAlgs v =
     (if v \<ge> TLS_Version_1_2
      then SSLEncodeInt 0x000D 2 @ SSLEncodeInt 14 2 @ SSLEncodeInt 12 2 @ [4, 1, 5, 1, 6, 1, 4, 3, 5, 3, 2, 1] else [])"

text \<open>All of them are dropped when they do not fit into the two octets of their total length.\<close>

definition client_extensions :: "SSLProtocolVersion \<Rightarrow> SSLContext \<Rightarrow> bytes" where
  "client_extensions v ctx =
     (let body = ext_sessionTicket ctx @ ext_serverName v ctx @ ext_curves v ctx @ ext_pointFormats v ctx @ ext_sigAlgs v
      in if body = [] \<or> length body > 0xFFFF then [] else SSLEncodeInt (of_nat (length body)) 2 @ body)"

definition offered_specs :: "SSLContext \<Rightarrow> SSLCipherSpec list" where
  "offered_specs ctx = filter (\<lambda>s. \<not> CIPHER_SUITE_IS_SSLv2 (cipherSpec s))
     (case validCipherSpecs ctx of None \<Rightarrow> [] | Some specs \<Rightarrow> specs)"

definition resume_id :: "platform \<Rightarrow> SSLContext \<Rightarrow> (OSStatus \<times> bytes) option" where
  "resume_id P ctx = (case resumableSession ctx of
       None \<Rightarrow> Some (noErr, [])
     | Some sess \<Rightarrow> do { (err, sid) \<leftarrow> SSLRetrieveSessionID P sess;
                        Some (err, case sid of None \<Rightarrow> [] | Some s \<Rightarrow> s) })"

definition client_hello_body :: "SSLProtocolVersion \<Rightarrow> bytes \<Rightarrow> bytes \<Rightarrow> SSLContext \<Rightarrow> bytes" where
  "client_hello_body v rand sid ctx =
     SSLEncodeInt v 2 @ rand @ [of_nat (length sid)] @ sid @
     SSLEncodeInt (of_nat (2 * numValidNonSSLv2Specs ctx)) 2 @
     concat (map (\<lambda>s. SSLEncodeInt (cipherSpec s) 2) (offered_specs ctx)) @ [1, 0] @ client_extensions v ctx"

text \<open>
  The message is written into a buffer of the length computed beforehand; the final assertion
  compares the two lengths.
\<close>

definition SSLEncodeClientHello :: EncodeMessageFunc where
  "SSLEncodeClientHello P ctx =
     (if protocolSide ctx \<noteq> SSL_ClientSide then None
      else do {
        (err, sid) \<leftarrow> resume_id P ctx;
        if err \<noteq> noErr then Some (err, hdsk_record ctx [], ctx)
        else case sslGetMaxProtVersion ctx of
          (err, None) \<Rightarrow> Some (err, hdsk_record ctx [], ctx)
        | (err, Some v) \<Rightarrow>
            (let len = 39 + 2 * numValidNonSSLv2Specs ctx + length sid + length (client_extensions v ctx);
                 (err, buf) = SSLAllocBuffer P (len + 4)
             in if err \<noteq> noErr then Some (err, hdsk_record ctx [], ctx)
                else let (err, rand, ctx) = SSLEncodeRandom P ctx in
                if err \<noteq> noErr then Some (err, hdsk_record ctx [], ctx)
                else let ctx = ctx\<lparr>clientRandom := rand\<rparr>; body = client_hello_body v rand sid ctx in
                if length body \<noteq> len then None
                else do {
                  (err, ctx) \<leftarrow> SSLInitMessageHashes P ctx;
                  Some (err, \<lparr>contentType = SSL_RecordTypeHandshake, protocolVersion = v,
                    contents = (if err \<noteq> noErr then [] else SSL_HdskClientHello # SSLEncodeInt (of_nat len) 3 @ body)\<rparr>, ctx) }) })"

text \<open>
  The loop over the client's list. The value 0xFFFF marks \<open>not found yet\<close>, so that an entry with
  this number is passed over.
\<close>

fun pick_suite :: "SSLCipherSpec list \<Rightarrow> bytes \<Rightarrow> uint16 option" where
  "pick_suite specs (a # b # rest) =
     (let desiredSpec = ucast (SSLDecodeInt [a, b] 2) :: uint16 in
      if desiredSpec \<noteq> 0xFFFF \<and> (\<exists>s\<in>set specs. cipherSpec s = ucast desiredSpec) then Some desiredSpec
      else pick_suite specs rest)"
| "pick_suite specs _ = None"

definition SSLProcessClientHello :: "platform \<Rightarrow> bytes \<Rightarrow> SSLContext \<Rightarrow> (OSStatus \<times> SSLContext) option" where
  "SSLProcessClientHello P message ctx =
     (if length message < 41 then Some (errSSLProtocol, ctx)
      else let ctx = ctx\<lparr>clientReqProtocol := SSLDecodeInt message 2\<rparr> in
      case sslVerifyProtVersion ctx (SSLDecodeInt message 2) of
        (err, None) \<Rightarrow> Some (err, ctx)
      | (err, Some negVersion) \<Rightarrow>
          (case callouts_of negVersion of
             None \<Rightarrow> Some (errSSLNegotiation, ctx)
           | Some calls \<Rightarrow>
               (let ctx = ctx\<lparr>sslTslCalls := calls, negProtocolVersion := negVersion, clientRandom := take 32 (drop 2 message)\<rparr>;
                    sidLen = unat (message ! 34)
                in if length message < 41 + sidLen then Some (errSSLProtocol, ctx)
                   else let ctx = keep_sessionID P (take sidLen (drop 35 message)) ctx;
                            listLen = unat (SSLDecodeInt (drop (35 + sidLen) message) 2);
                            list = take listLen (drop (37 + sidLen) message)
                   in if 37 + sidLen + listLen > length message then Some (errSSLProtocol, ctx)
                   else if odd listLen \<or> listLen < 2 \<or> length message < 39 + sidLen + listLen
                   then Some (errSSLProtocol, ctx)
                   else case pick_suite (case validCipherSpecs ctx of None \<Rightarrow> [] | Some specs \<Rightarrow> specs) list of
                     None \<Rightarrow> Some (errSSLNegotiation, ctx)
                   | Some suite \<Rightarrow>
                       (let ctx = ctx\<lparr>selectedCipher := suite\<rparr>;
                            compressionCount = unat (message ! (37 + sidLen + listLen))
                        in if compressionCount < 1 \<or> length message < 38 + sidLen + listLen + compressionCount
                           then Some (errSSLProtocol, ctx)
                           else do {
                             (err, ctx) \<leftarrow> FindCipherSpec ctx;
                             if err \<noteq> noErr then Some (err, ctx)
                             else SSLInitMessageHashes P ctx }))))"

section \<open>What an accepted hello leaves behind\<close>

lemma callouts_of_iff: "callouts_of v = Some calls \<longleftrightarrow> calls_for v calls"
  by (auto simp: callouts_of_def calls_for_def)

lemma SSLInitMessageHashes_ok:
  assumes "platform_ok P"
  shows "SSLInitMessageHashes P ctx =
    Some (noErr, ctx\<lparr>shaState := Some [], md5State := Some [], sha256State := Some [], sha384State := Some []\<rparr>)"
  using assms by (simp add: SSLInitMessageHashes_def CloseHash_def hash_close_def SSLFreeBuffer_def ReadyHash_ok Let_def)

text \<open>The negotiated parameters are ones that this end has enabled.\<close>

definition hello_ok :: "SSLContext \<Rightarrow> bool" where
  "hello_ok ctx \<longleftrightarrow> versionEnabled ctx (negProtocolVersion ctx) \<and> calls_for (negProtocolVersion ctx) (sslTslCalls ctx) \<and>
     (\<exists>specs s. validCipherSpecs ctx = Some specs \<and> s \<in> set specs \<and> selectedCipherSpec ctx = Some s \<and>
        cipherSpec s = ucast (selectedCipher ctx))"

lemma sslVerifyProtVersion_cases:
  assumes "sslVerifyProtVersion ctx p = (err, Some v)"
  shows "err = noErr" "versionEnabled ctx v" "v \<le> p" "protocolSide ctx = SSL_ClientSide \<Longrightarrow> v = p"
proof -
  have "knownVersion p" using assms by (auto simp: sslVerifyProtVersion_def knownVersion_def Let_def split: if_split_asm)
  moreover show err: "err = noErr" using sslVerifyProtVersion_error [of ctx p] assms by auto
  ultimately show "versionEnabled ctx v" "v \<le> p" "protocolSide ctx = SSL_ClientSide \<Longrightarrow> v = p"
    using sslVerifyProtVersion_iff [of p ctx v] assms by auto
qed

lemma keep_sessionID_frame: "keep_sessionID P sid ctx = ctx\<lparr>sessionID := sessionID (keep_sessionID P sid ctx)\<rparr>"
  by (simp add: keep_sessionID_def)

lemma keep_sessionID_fields [simp]:
  "negProtocolVersion (keep_sessionID P sid ctx) = negProtocolVersion ctx"
  "sslTslCalls (keep_sessionID P sid ctx) = sslTslCalls ctx"
  "validCipherSpecs (keep_sessionID P sid ctx) = validCipherSpecs ctx"
  "serverRandom (keep_sessionID P sid ctx) = serverRandom ctx"
  "clientRandom (keep_sessionID P sid ctx) = clientRandom ctx"
  "protocolSide (keep_sessionID P sid ctx) = protocolSide ctx"
  "signingPrivKeyRef (keep_sessionID P sid ctx) = signingPrivKeyRef ctx"
  "versionSsl2Enable (keep_sessionID P sid ctx) = versionSsl2Enable ctx"
  "versionSsl3Enable (keep_sessionID P sid ctx) = versionSsl3Enable ctx"
  "versionTls1Enable (keep_sessionID P sid ctx) = versionTls1Enable ctx"
  "versionTls11Enable (keep_sessionID P sid ctx) = versionTls11Enable ctx"
  "versionTls12Enable (keep_sessionID P sid ctx) = versionTls12Enable ctx"
  by (simp_all add: keep_sessionID_def)

lemma SSLProcessServerHello_noErr:
  assumes "SSLProcessServerHello P m ctx = Some (noErr, ctx')"
  shows "hello_ok ctx'" "negProtocolVersion ctx' = SSLDecodeInt m 2" "serverRandom ctx' = take 32 (drop 2 m)"
    "validCipherSpecs ctx' = validCipherSpecs ctx" "38 \<le> length m"
proof -
  have side: "protocolSide ctx = SSL_ClientSide" and len: "38 \<le> length m"
    using assms by (auto simp: SSLProcessServerHello_def split: if_split_asm)
  obtain err v where v: "sslVerifyProtVersion ctx (SSLDecodeInt m 2) = (err, v)" by fastforce
  then obtain negVersion where neg: "v = Some negVersion"
    using assms side len sslVerifyProtVersion_error [of ctx "SSLDecodeInt m 2"]
    by (auto simp: SSLProcessServerHello_def Let_def split: option.split_asm)
  with assms side len v obtain calls where calls: "callouts_of negVersion = Some calls"
    by (auto simp: SSLProcessServerHello_def Let_def split: option.split_asm)
  define c where "c = keep_sessionID P (take (unat (m ! 34)) (drop 35 m))
      (ctx\<lparr>negProtocolVersion := negVersion, sslTslCalls := calls, serverRandom := take 32 (drop 2 m)\<rparr>)
      \<lparr>selectedCipher := ucast (SSLDecodeInt (drop (35 + unat (m ! 34)) m) 2)\<rparr>"
  have f: "FindCipherSpec c = Some (noErr, ctx')"
    using assms side len v neg calls
    by (auto simp: SSLProcessServerHello_def Let_def c_def elim!: bind_SomeE split: if_split_asm)
  note vc = sslVerifyProtVersion_cases [OF v [unfolded neg]]
  obtain s specs where s: "validCipherSpecs c = Some specs" "s \<in> set specs" "cipherSpec s = ucast (selectedCipher c)"
    "ctx' = c\<lparr>selectedCipherSpec := Some s\<rparr>"
    using FindCipherSpec_ok [OF f] by blast
  have "versionEnabled c negVersion" using vc(2) by (simp add: c_def versionEnabled_def)
  then show "hello_ok ctx'"
    using s calls by (simp add: hello_ok_def callouts_of_iff versionEnabled_def) (simp add: c_def)
  show "negProtocolVersion ctx' = SSLDecodeInt m 2" "serverRandom ctx' = take 32 (drop 2 m)"
    "validCipherSpecs ctx' = validCipherSpecs ctx" "38 \<le> length m"
    using s vc(4) [OF side] len by (simp_all add: c_def)
qed

text \<open>The client's list as numbers, and the server's choice from it.\<close>

fun suites_of :: "bytes \<Rightarrow> uint16 list" where
  "suites_of (a # b # rest) = ucast (SSLDecodeInt [a, b] 2) # suites_of rest"
| "suites_of _ = []"

definition acceptable :: "SSLCipherSpec list \<Rightarrow> uint16 \<Rightarrow> bool" where
  "acceptable specs d \<longleftrightarrow> d \<noteq> 0xFFFF \<and> (\<exists>s\<in>set specs. cipherSpec s = ucast d)"

lemma pick_suite_find: "pick_suite specs bs = find (acceptable specs) (suites_of bs)"
  by (induction specs bs rule: pick_suite.induct) (simp_all add: acceptable_def Let_def)

lemma SSLEncodeInt_two: "SSLEncodeInt v 2 = [ucast (drop_bit 8 v), ucast v]"
  using SSLEncodeInt.simps by (simp add: eval_nat_numeral)

lemma SSLDecodeInt_two [simp]: "SSLDecodeInt (SSLEncodeInt v 2) 2 = take_bit 16 v"
  using SSLDecodeInt_SSLEncodeInt [of v 2] by simp

lemma suites_of_encoded:
  "suites_of (concat (map (\<lambda>s. SSLEncodeInt (cipherSpec s) 2) specs)) = map (\<lambda>s. ucast (cipherSpec s)) specs"
proof (induction specs)
  case (Cons s specs)
  have "(ucast (take_bit 16 v) :: uint16) = ucast v" for v :: uint32
    by (rule bit_word_eqI) (simp add: bit_simps)
  then have "ucast (SSLDecodeInt [ucast (drop_bit 8 v), ucast v :: byte] 2) = (ucast v :: uint16)" for v :: uint32
    by (simp add: SSLDecodeInt_two [unfolded SSLEncodeInt_two])
  then show ?case using Cons by (simp add: SSLEncodeInt_two)
qed simp

text \<open>The server's view of an accepted ClientHello.\<close>

definition client_list :: "bytes \<Rightarrow> bytes" where
  "client_list m = (let sidLen = unat (m ! 34) in
     take (unat (SSLDecodeInt (drop (35 + sidLen) m) 2)) (drop (37 + sidLen) m))"

lemma SSLProcessClientHello_noErr:
  assumes ok: "platform_ok P" and run: "SSLProcessClientHello P m ctx = Some (noErr, ctx')"
  shows "hello_ok ctx'" "transcript_is ctx' []" "negProtocolVersion ctx' \<le> SSLDecodeInt m 2"
    "clientRandom ctx' = take 32 (drop 2 m)" "validCipherSpecs ctx' = validCipherSpecs ctx"
    "\<exists>specs. validCipherSpecs ctx = Some specs \<and> find (acceptable specs) (suites_of (client_list m)) = Some (selectedCipher ctx')"
proof -
  let ?n = "unat (m ! 34)" and ?specs = "case validCipherSpecs ctx of None \<Rightarrow> [] | Some specs \<Rightarrow> specs"
  have len: "41 \<le> length m" using run by (auto simp: SSLProcessClientHello_def split: if_split_asm)
  obtain err v where v: "sslVerifyProtVersion (ctx\<lparr>clientReqProtocol := SSLDecodeInt m 2\<rparr>) (SSLDecodeInt m 2) = (err, v)" by fastforce
  then obtain negVersion where neg: "v = Some negVersion"
    using run len sslVerifyProtVersion_error [of "ctx\<lparr>clientReqProtocol := SSLDecodeInt m 2\<rparr>" "SSLDecodeInt m 2"]
    by (auto simp: SSLProcessClientHello_def Let_def split: option.split_asm)
  with run len v obtain calls where calls: "callouts_of negVersion = Some calls"
    by (auto simp: SSLProcessClientHello_def Let_def split: option.split_asm)
  with run len v neg have len2: "41 + ?n \<le> length m" and
    len3: "37 + ?n + unat (SSLDecodeInt (drop (35 + ?n) m) 2) \<le> length m"
    by (auto simp: SSLProcessClientHello_def Let_def split: if_split_asm)
  with run len v neg calls obtain suite where suite: "pick_suite ?specs (client_list m) = Some suite"
    by (auto simp: SSLProcessClientHello_def Let_def client_list_def split: if_split_asm option.split_asm)
  define c where "c = keep_sessionID P (take ?n (drop 35 m))
      (ctx\<lparr>clientReqProtocol := SSLDecodeInt m 2, sslTslCalls := calls, negProtocolVersion := negVersion, clientRandom := take 32 (drop 2 m)\<rparr>)
      \<lparr>selectedCipher := suite\<rparr>"
  obtain c' where f: "FindCipherSpec c = Some (noErr, c')" "SSLInitMessageHashes P c' = Some (noErr, ctx')"
    using run len len2 len3 v neg calls suite
    by (auto simp: SSLProcessClientHello_def Let_def c_def client_list_def elim!: bind_SomeE split: if_split_asm)
  obtain s specs where s: "validCipherSpecs c = Some specs" "s \<in> set specs" "cipherSpec s = ucast (selectedCipher c)"
    "c' = c\<lparr>selectedCipherSpec := Some s\<rparr>"
    using FindCipherSpec_ok [OF f(1)] by blast
  have ctx': "ctx' = c'\<lparr>shaState := Some [], md5State := Some [], sha256State := Some [], sha384State := Some []\<rparr>"
    using f(2) SSLInitMessageHashes_ok [OF ok, of c'] by simp
  note vc = sslVerifyProtVersion_cases [OF v [unfolded neg]]
  have specs: "validCipherSpecs ctx = Some specs" using s(1) by (simp add: c_def)
  have "versionEnabled c negVersion" using vc(2) by (simp add: c_def versionEnabled_def)
  then show "hello_ok ctx'"
    using s calls by (simp add: hello_ok_def callouts_of_iff versionEnabled_def ctx') (simp add: c_def)
  show "transcript_is ctx' []" by (simp add: ctx' transcript_is_def)
  show "negProtocolVersion ctx' \<le> SSLDecodeInt m 2" "clientRandom ctx' = take 32 (drop 2 m)"
    "validCipherSpecs ctx' = validCipherSpecs ctx"
    using vc(3) by (simp_all add: ctx' s c_def)
  show "\<exists>specs. validCipherSpecs ctx = Some specs \<and> find (acceptable specs) (suites_of (client_list m)) = Some (selectedCipher ctx')"
    using suite specs by (simp add: pick_suite_find ctx' s(4) c_def)
qed

section \<open>Round trips\<close>

text \<open>The common shape of the two messages.\<close>

lemma hello_layout:
  assumes "length V = 2" "length R = 32" "m = V @ R @ [n] @ sid @ rest"
  shows "SSLDecodeInt m 2 = SSLDecodeInt V 2" "take 32 (drop 2 m) = R" "m ! 34 = n"
    "take (length sid) (drop 35 m) = sid" "drop (35 + length sid) m = rest" "length m = 35 + length sid + length rest"
    "m ! (35 + length sid + i) = rest ! i"
proof -
  have m: "m = (V @ R) @ n # sid @ rest" "length (V @ R) = 34" using assms by simp_all
  show "SSLDecodeInt m 2 = SSLDecodeInt V 2" "take 32 (drop 2 m) = R" using assms by simp_all
  show "m ! 34 = n" unfolding m(1) using m(2) by (metis nth_append_length)
  have d: "drop 35 m = sid @ rest" using assms by simp
  then show "take (length sid) (drop 35 m) = sid" by simp
  show r: "drop (35 + length sid) m = rest"
    using d by (metis append_eq_conv_conj drop_drop add.commute)
  show "length m = 35 + length sid + length rest" using assms by simp
  show "m ! (35 + length sid + i) = rest ! i" using assms by (simp add: nth_append)
qed

lemma hello_id_len_bounds: "1 \<le> hello_id_len sid" "hello_id_len sid < 256"
  by (simp_all add: hello_id_len_def SSL_NULL_ID_LEN_def Let_def split: option.split)

lemma server_hello_id_ok:
  assumes "platform_ok P" "server_hello_id P ctx = Some (sid, ctx')"
  shows "length sid = hello_id_len (sessionID ctx)" "ctx' = ctx\<lparr>rngPos := rngPos ctx'\<rparr>"
    "sessionID ctx = Some i \<Longrightarrow> length i < 256 \<Longrightarrow> sid = i"
    "sessionID ctx = None \<Longrightarrow> devRandom P (rngPos ctx) SSL_NULL_ID_LEN = Some sid"
proof -
  show "length sid = hello_id_len (sessionID ctx)" "ctx' = ctx\<lparr>rngPos := rngPos ctx'\<rparr>"
    using assms length_sslRand [OF assms(1), of SSL_NULL_ID_LEN ctx]
    by (auto simp: server_hello_id_def hello_id_len_def sslRand_def split: option.split_asm prod.split_asm if_split_asm)
  show "sid = i" if "sessionID ctx = Some i" "length i < 256"
    using assms(2) that by (auto simp: server_hello_id_def hello_id_len_def Let_def SSL_NULL_ID_LEN_def split: if_split_asm)
  obtain r where r: "devRandom P (rngPos ctx) SSL_NULL_ID_LEN = Some r" using devRandom_Some [OF assms(1)] by blast
  show "devRandom P (rngPos ctx) SSL_NULL_ID_LEN = Some sid" if "sessionID ctx = None"
    using assms(2) that r by (simp add: server_hello_id_def sslRand_def SSL_NULL_ID_LEN_def)
qed

lemma SSLEncodeRandom_ok:
  assumes "platform_ok P"
  obtains rand where "SSLEncodeRandom P ctx = (noErr, rand, ctx\<lparr>rngPos := rngPos ctx + 1\<rparr>)" "length rand = 32"
proof -
  obtain bs where "devRandom P (rngPos ctx) 28 = Some bs" "length bs = 28"
    using assms devRandom_Some by blast
  then show thesis by (intro that [of "SSLEncodeInt (of_int (now P)) 4 @ bs"]) (simp_all add: SSLEncodeRandom_def sslRand_def)
qed

lemma SSLEncodeServerHello_layout:
  assumes ok: "platform_ok P" and enc: "SSLEncodeServerHello P s = Some (err, r, s')"
  obtains sid where "err = noErr" "length sid = hello_id_len (sessionID s)" "length (serverRandom s') = 32"
    "contents r = SSL_HdskServerHello # SSLEncodeInt (of_nat (38 + length sid)) 3 @
       SSLEncodeInt (negProtocolVersion s) 2 @ serverRandom s' @ [of_nat (length sid)] @ sid @
       SSLEncodeInt (ucast (selectedCipher s)) 2 @ [0]"
    "s' = s\<lparr>serverRandom := serverRandom s', rngPos := rngPos s'\<rparr>" "negProtocolVersion s \<noteq> SSL_Version_2_0"
    "\<forall>i. sessionID s = Some i \<longrightarrow> length i < 256 \<longrightarrow> sid = i"
    "sessionID s = None \<longrightarrow> devRandom P (rngPos s + 1) SSL_NULL_ID_LEN = Some sid"
proof -
  obtain rand where rand: "SSLEncodeRandom P s = (noErr, rand, s\<lparr>rngPos := rngPos s + 1\<rparr>)" "length rand = 32"
    by (rule SSLEncodeRandom_ok [OF ok])
  let ?c = "s\<lparr>rngPos := rngPos s + 1, serverRandom := rand\<rparr>"
  obtain sid where sid: "server_hello_id P ?c = Some (sid, s')" and v: "negProtocolVersion s \<noteq> SSL_Version_2_0" and "err = noErr"
    and r: "r = hdsk_record s' (SSL_HdskServerHello # SSLEncodeInt (of_nat (38 + hello_id_len (sessionID s))) 3 @
       SSLEncodeInt (negProtocolVersion s') 2 @ serverRandom s' @ [of_nat (hello_id_len (sessionID s))] @ sid @
       SSLEncodeInt (ucast (selectedCipher s')) 2 @ [0])"
    using enc ok by (auto simp: SSLEncodeServerHello_def Let_def rand SSLAllocBuffer_def platform_ok_def elim!: bind_SomeE split: if_split_asm)
  note s = server_hello_id_ok [OF ok sid]
  have s': "s' = s\<lparr>serverRandom := rand, rngPos := rngPos s'\<rparr>" by (subst s(2)) simp
  have f: "negProtocolVersion s' = negProtocolVersion s" "serverRandom s' = rand" "selectedCipher s' = selectedCipher s"
    by (subst s', simp)+
  show thesis using s s' r f rand(2) v \<open>err = noErr\<close> by (intro that [of sid]) (simp_all add: hdsk_record_def)
qed

lemma FindCipherSpec_client:
  assumes "protocolSide ctx = SSL_ClientSide" "validCipherSpecs ctx = Some specs"
    "find (\<lambda>x. cipherSpec x = ucast (selectedCipher ctx)) specs = Some x"
  shows "FindCipherSpec ctx = Some (noErr, ctx\<lparr>selectedCipherSpec := Some x\<rparr>)"
  using assms by (simp add: FindCipherSpec_def sslVerifySelectedCipher_def)

lemma sslVerifyProtVersion_client:
  assumes "protocolSide ctx = SSL_ClientSide" "versionEnabled ctx v"
  shows "sslVerifyProtVersion ctx v = (noErr, Some v)"
  using assms by (subst sslVerifyProtVersion_iff) (auto intro: versionEnabled_known)

lemma take_bit_version: "knownVersion v \<Longrightarrow> take_bit 16 v = v"
  by (auto simp: knownVersion_def)

text \<open>
  What the server writes the client reads: version, random value, suite and (for an application
  that has set a peer ID) session identifier.
\<close>

lemma ServerHello_roundtrip:
  assumes ok: "platform_ok P" and enc: "SSLEncodeServerHello P s = Some (err, r, s')"
    and client: "protocolSide c = SSL_ClientSide" "versionEnabled c (negProtocolVersion s)"
    and suite: "validCipherSpecs c = Some specs" "find (\<lambda>x. cipherSpec x = ucast (selectedCipher s)) specs = Some x"
  shows "\<exists>calls sid. SSLProcessServerHello P (drop 4 (contents r)) c =
      Some (noErr, c\<lparr>negProtocolVersion := negProtocolVersion s, sslTslCalls := calls, serverRandom := serverRandom s',
        sessionID := (if peerID c = None then sessionID c else Some sid), selectedCipher := selectedCipher s,
        selectedCipherSpec := Some x\<rparr>) \<and> calls_for (negProtocolVersion s) calls \<and>
      (\<forall>i. sessionID s = Some i \<longrightarrow> length i < 256 \<longrightarrow> sid = i) \<and>
      (sessionID s = None \<longrightarrow> devRandom P (rngPos s + 1) SSL_NULL_ID_LEN = Some sid)"
proof -
  obtain sid where l: "length sid = hello_id_len (sessionID s)" "length (serverRandom s') = 32"
    and r: "contents r = SSL_HdskServerHello # SSLEncodeInt (of_nat (38 + length sid)) 3 @
       SSLEncodeInt (negProtocolVersion s) 2 @ serverRandom s' @ [of_nat (length sid)] @ sid @
       SSLEncodeInt (ucast (selectedCipher s)) 2 @ [0]" and v2: "negProtocolVersion s \<noteq> SSL_Version_2_0"
    and sid: "\<forall>i. sessionID s = Some i \<longrightarrow> length i < 256 \<longrightarrow> sid = i"
      "sessionID s = None \<longrightarrow> devRandom P (rngPos s + 1) SSL_NULL_ID_LEN = Some sid"
    by (rule SSLEncodeServerHello_layout [OF ok enc])
  define m where "m = SSLEncodeInt (negProtocolVersion s) 2 @ serverRandom s' @ [of_nat (length sid)] @ sid @
       SSLEncodeInt (ucast (selectedCipher s)) 2 @ [0]"
  have m: "drop 4 (contents r) = m" by (simp add: r m_def)
  note lay = hello_layout [OF length_SSLEncodeInt l(2) m_def]
  have n: "unat (m ! 34) = length sid" "sid \<noteq> []"
    using hello_id_len_bounds [of "sessionID s"] l(1) by (auto simp: lay(3) unat_of_nat)
  have v: "SSLDecodeInt m 2 = negProtocolVersion s"
    using client(2) by (simp add: lay(1) take_bit_version versionEnabled_known)
  obtain calls where calls: "callouts_of (negProtocolVersion s) = Some calls"
    using client(2) v2 by (auto simp: callouts_of_def versionEnabled_def)
  have suite_m: "ucast (SSLDecodeInt (drop (35 + length sid) m) 2) = selectedCipher s"
    by (simp add: lay(5) ucast_take_bit_16)
  have last: "m ! (37 + length sid) = 0" using lay(7) [of 2] by (simp add: nth_append)
  have keep: "keep_sessionID P sid c0 = (if peerID c0 = None then c0 else c0\<lparr>sessionID := Some sid\<rparr>)" for c0
    using n(2) ok by (simp add: keep_sessionID_def SSLAllocBuffer_def platform_ok_def)
  have "SSLProcessServerHello P m c = Some (noErr, c\<lparr>negProtocolVersion := negProtocolVersion s, sslTslCalls := calls,
      serverRandom := serverRandom s', sessionID := (if peerID c = None then sessionID c else Some sid),
      selectedCipher := selectedCipher s, selectedCipherSpec := Some x\<rparr>)"
    using client(1) sslVerifyProtVersion_client [OF client] calls n(1) suite
    by (simp add: SSLProcessServerHello_def Let_def v lay(2,4,6) suite_m last keep FindCipherSpec_client)
  then show ?thesis using calls sid unfolding m callouts_of_iff by (intro exI [of _ calls] exI [of _ sid] conjI) simp_all
qed

lemma SSLEncodeClientHello_layout:
  assumes ok: "platform_ok P" and enc: "SSLEncodeClientHello P c = Some (noErr, r, c')"
  obtains sid where "resume_id P c = Some (noErr, sid)" "length (clientRandom c') = 32"
    "contents r = SSL_HdskClientHello # SSLEncodeInt (of_nat (39 + 2 * length (offered_specs c) + length sid +
       length (client_extensions (protocolVersion r) c))) 3 @ SSLEncodeInt (protocolVersion r) 2 @ clientRandom c' @
       [of_nat (length sid)] @ sid @ SSLEncodeInt (of_nat (2 * length (offered_specs c))) 2 @
       concat (map (\<lambda>s. SSLEncodeInt (cipherSpec s) 2) (offered_specs c)) @ [1, 0] @ client_extensions (protocolVersion r) c"
    "sslGetMaxProtVersion c = (noErr, Some (protocolVersion r))"
    "c' = c\<lparr>clientRandom := clientRandom c', rngPos := rngPos c', shaState := Some [], md5State := Some [],
       sha256State := Some [], sha384State := Some []\<rparr>"
proof -
  obtain rand where rand: "SSLEncodeRandom P c = (noErr, rand, c\<lparr>rngPos := rngPos c + 1\<rparr>)" "length rand = 32"
    by (rule SSLEncodeRandom_ok [OF ok])
  obtain sid where sid: "resume_id P c = Some (noErr, sid)"
    using enc by (auto simp: SSLEncodeClientHello_def elim!: bind_SomeE split: if_split_asm)
  have "sslGetMaxProtVersion c = (paramErr, None) \<or> (\<exists>v. sslGetMaxProtVersion c = (noErr, Some v))"
    by (simp add: sslGetMaxProtVersion_def)
  then obtain v where v: "sslGetMaxProtVersion c = (noErr, Some v)"
    using enc sid by (auto simp: SSLEncodeClientHello_def split: if_split_asm)
  let ?c = "c\<lparr>rngPos := rngPos c + 1, clientRandom := rand\<rparr>"
  have same: "offered_specs (c\<lparr>rngPos := n, clientRandom := rand\<rparr>) = offered_specs c"
      "client_extensions v (c\<lparr>rngPos := n, clientRandom := rand\<rparr>) = client_extensions v c" for n
    by (simp_all add: offered_specs_def client_extensions_def ext_sessionTicket_def ext_serverName_def ext_curves_def
        ext_pointFormats_def Let_def cong: if_cong option.case_cong)
  have run: "numValidNonSSLv2Specs c = length (offered_specs c)"
      "c' = ?c\<lparr>shaState := Some [], md5State := Some [], sha256State := Some [], sha384State := Some []\<rparr>"
      "r = \<lparr>contentType = SSL_RecordTypeHandshake, protocolVersion = v,
         contents = SSL_HdskClientHello # SSLEncodeInt (of_nat (39 + 2 * numValidNonSSLv2Specs c + length sid +
           length (client_extensions v c))) 3 @ client_hello_body v rand sid ?c\<rparr>"
    using enc sid v rand ok
    by (auto simp: SSLEncodeClientHello_def Let_def SSLAllocBuffer_ok SSLInitMessageHashes_ok client_hello_body_def same
        length_concat comp_def sum_list_triv split: if_split_asm)
  show thesis using sid rand(2) v run by (intro that [of sid]) (simp_all add: client_hello_body_def same)
qed

lemma resume_id_length: "resume_id P c = Some (noErr, sid) \<Longrightarrow> length sid \<le> 32"
  by (auto simp: resume_id_def SSLRetrieveSessionID_def Let_def elim!: bind_SomeE
      split: option.split_asm if_split_asm prod.split_asm)

lemma sslVerifySelectedCipher_cong:
  "protocolSide c = protocolSide s \<Longrightarrow> signingPrivKeyRef c = signingPrivKeyRef s \<Longrightarrow>
   sslVerifySelectedCipher c x = sslVerifySelectedCipher s x"
  by (simp add: sslVerifySelectedCipher_def)

lemma unat_of_nat_16_32: "n < 65536 \<Longrightarrow> unat (take_bit 16 (of_nat n :: uint32)) = n"
  by (simp add: unsigned_take_bit_eq take_bit_nat_eq_self unat_of_nat)

text \<open>
  The client's offer reaches the server: the server answers with the version the negotiation rule
  gives for the offered one and with the first offered suite that it has enabled itself.
\<close>

lemma ClientHello_roundtrip:
  assumes ok: "platform_ok P" and enc: "SSLEncodeClientHello P c = Some (noErr, r, c')"
    and fits: "2 * length (offered_specs c) < 65536"
    and version: "sslVerifyProtVersion s (protocolVersion r) = (noErr, Some v)" "callouts_of v = Some calls"
    and specs: "validCipherSpecs s = Some specs"
    and suite: "find (acceptable specs) (map (\<lambda>x. ucast (cipherSpec x)) (offered_specs c)) = Some d"
    and usable: "find (\<lambda>x. cipherSpec x = ucast d) specs = Some x" "sslVerifySelectedCipher s x = Some noErr"
  shows "\<exists>sid. resume_id P c = Some (noErr, sid) \<and> SSLProcessClientHello P (drop 4 (contents r)) s =
      Some (noErr, s\<lparr>clientReqProtocol := protocolVersion r, sslTslCalls := calls, negProtocolVersion := v,
        clientRandom := clientRandom c', sessionID := (if sid = [] \<or> peerID s = None then sessionID s else Some sid),
        selectedCipher := d, selectedCipherSpec := Some x,
        shaState := Some [], md5State := Some [], sha256State := Some [], sha384State := Some []\<rparr>)"
proof -
  let ?n = "length (offered_specs c)" and ?V = "protocolVersion r"
    and ?L = "concat (map (\<lambda>s. SSLEncodeInt (cipherSpec s) 2) (offered_specs c))"
  obtain sid where sid: "resume_id P c = Some (noErr, sid)" and l: "length (clientRandom c') = 32"
    and r: "contents r = SSL_HdskClientHello # SSLEncodeInt (of_nat (39 + 2 * ?n + length sid +
       length (client_extensions ?V c))) 3 @ SSLEncodeInt ?V 2 @ clientRandom c' @
       [of_nat (length sid)] @ sid @ SSLEncodeInt (of_nat (2 * ?n)) 2 @ ?L @ [1, 0] @ client_extensions ?V c"
    and max: "sslGetMaxProtVersion c = (noErr, Some ?V)"
    by (rule SSLEncodeClientHello_layout [OF ok enc])
  define m where "m = SSLEncodeInt ?V 2 @ clientRandom c' @ [of_nat (length sid)] @ sid @
       SSLEncodeInt (of_nat (2 * ?n)) 2 @ ?L @ [1, 0] @ client_extensions ?V c"
  have m: "drop 4 (contents r) = m" by (simp add: r m_def)
  note lay = hello_layout [OF length_SSLEncodeInt l m_def]
  have len: "length ?L = 2 * ?n" by (simp add: length_concat comp_def sum_list_triv)
  have pos: "offered_specs c \<noteq> []" using suite by (cases "offered_specs c") simp_all
  then have "1 \<le> ?n" by (cases "offered_specs c") simp_all
  then have two: "2 \<le> 2 * ?n + k" "2 \<le> j + (2 * ?n + k)" for j k by linarith+
  have n: "unat (m ! 34) = length sid" using resume_id_length [OF sid] by (simp add: lay(3) unat_of_nat)
  have V: "SSLDecodeInt m 2 = ?V" using sslGetMaxProtVersion_known [OF max] by (simp add: lay(1) take_bit_version)
  have count: "unat (SSLDecodeInt (drop (35 + length sid) m) 2) = 2 * ?n"
    using fits by (simp add: lay(5) unat_of_nat_16_32 del: of_nat_mult)
  have "drop 2 (drop (35 + length sid) m) = ?L @ [1, 0] @ client_extensions ?V c" by (simp add: lay(5))
  then have list: "take (2 * ?n) (drop (37 + length sid) m) = ?L" using len by simp
  have pick: "pick_suite specs ?L = Some d" by (simp add: pick_suite_find suites_of_encoded suite)
  have comp: "m ! (37 + length sid + 2 * ?n) = 1"
    using lay(7) [of "2 + 2 * ?n"] len by (simp add: nth_append ac_simps)
  have keep: "keep_sessionID P sid c0 = (if sid = [] \<or> peerID c0 = None then c0 else c0\<lparr>sessionID := Some sid\<rparr>)" for c0
    using ok by (simp add: keep_sessionID_def SSLAllocBuffer_ok)
  have ver: "sslVerifyProtVersion (s\<lparr>clientReqProtocol := ?V\<rparr>) ?V = (noErr, Some v)"
    using version(1) sslVerifyProtVersion_iff [OF sslGetMaxProtVersion_known [OF max]] by (simp add: versionEnabled_def)
  have find: "FindCipherSpec c1 = Some (noErr, c1\<lparr>selectedCipherSpec := Some x\<rparr>)"
    if "validCipherSpecs c1 = Some specs" "selectedCipher c1 = d" "protocolSide c1 = protocolSide s"
      "signingPrivKeyRef c1 = signingPrivKeyRef s" for c1
    using that usable sslVerifySelectedCipher_cong [OF that(3,4), of x] by (simp add: FindCipherSpec_def)
  have lm: "length m = 39 + length sid + 2 * ?n + length (client_extensions ?V c)" using lay(6) len by simp
  have "SSLProcessClientHello P m s = Some (noErr, s\<lparr>clientReqProtocol := ?V, sslTslCalls := calls, negProtocolVersion := v,
        clientRandom := clientRandom c', sessionID := (if sid = [] \<or> peerID s = None then sessionID s else Some sid),
        selectedCipher := d, selectedCipherSpec := Some x,
        shaState := Some [], md5State := Some [], sha256State := Some [], sha384State := Some []\<rparr>)"
    using pos two [THEN leD]
    by (simp add: SSLProcessClientHello_def Let_def lm V ver version(2) n lay(2,4) count list specs pick comp keep find
        SSLInitMessageHashes_ok ok)
  then show ?thesis using sid unfolding m by blast
qed

end
