(* ===== verification/Handshake.thy ===== *)
theory Handshake
  imports Cert Hello
begin

text \<open>
  Model of \<open>sslHandshake.c\<close>: a handshake record is cut into messages, each message is accepted or
  refused by the state of the connection and handed to its decoder, absorbed by the running
  digests, and the answer is queued and the state advanced.

  Every message type is one definition (\<open>advance_ClientHello\<close> and so on) of the switch in
  \<open>SSLAdvanceHandshake\<close>. \<open>SSL_PAC_SERVER_ENABLE\<close> is off.
\<close>

section \<open>Digests and outgoing messages\<close>

text \<open>The four running digests; the newer two only once they exist.\<close>

definition absorb :: "platform \<Rightarrow> bytes \<Rightarrow> SSLContext \<Rightarrow> (OSStatus \<times> SSLContext) option" where
  "absorb P bs ctx =
     do { (err, st) \<leftarrow> hash_update SSLHashSHA1 (shaState ctx) bs;
          let ctx = ctx\<lparr>shaState := st\<rparr>;
          if err \<noteq> noErr then alert_return P SSL_AlertInternalError err ctx else do {
          (err, st) \<leftarrow> hash_update SSLHashMD5 (md5State ctx) bs;
          let ctx = ctx\<lparr>md5State := st\<rparr>;
          if err \<noteq> noErr then alert_return P SSL_AlertInternalError err ctx else do {
          (err, st) \<leftarrow> (if sha256State ctx = None then Some (noErr, None) else hash_update SSLHashSHA256 (sha256State ctx) bs);
          let ctx = ctx\<lparr>sha256State := st\<rparr>;
          if err \<noteq> noErr then alert_return P SSL_AlertInternalError err ctx else do {
          (err, st) \<leftarrow> (if sha384State ctx = None then Some (noErr, None) else hash_update SSLHashSHA384 (sha384State ctx) bs);
          let ctx = ctx\<lparr>sha384State := st\<rparr>;
          if err \<noteq> noErr then alert_return P SSL_AlertInternalError err ctx else Some (noErr, ctx) }}}}"

definition SSLPrepareAndQueueMessage :: "platform \<Rightarrow> EncodeMessageFunc \<Rightarrow> SSLContext \<Rightarrow> (OSStatus \<times> SSLContext) option" where
  "SSLPrepareAndQueueMessage P msgFunc ctx =
     do { (err, rec, ctx) \<leftarrow> msgFunc P ctx;
          if err \<noteq> noErr then alert_return P SSL_AlertCloseNotify err ctx else do {
          (err, ctx) \<leftarrow> (if contentType rec = SSL_RecordTypeHandshake then absorb P (contents rec) ctx else Some (noErr, ctx));
          if err \<noteq> noErr then Some (err, ctx) else call_writeRecord P rec ctx }}"

text \<open>
  ChangeCipherSpec, the switch to the pending write cipher, and Finished. One of the three places
  sets \<open>encrypting\<close> in the new pending cipher.
\<close>

definition send_finished :: "platform \<Rightarrow> bool \<Rightarrow> SSLContext \<Rightarrow> (OSStatus \<times> SSLContext) option" where
  "send_finished P enc ctx =
     do { (err, ctx) \<leftarrow> SSLPrepareAndQueueMessage P SSLEncodeChangeCipherSpec ctx;
          if err \<noteq> noErr then Some (err, ctx) else do {
          (err, old) \<leftarrow> SSLDisposeCipherSuite (sslTslCalls ctx) (writeCipher ctx);
          if err \<noteq> noErr then alert_return P SSL_AlertInternalError err (ctx\<lparr>writeCipher := old\<rparr>) else do {
          (err, ctx) \<leftarrow> SSLPrepareAndQueueMessage P SSLEncodeFinishedMessage (install_writePending enc ctx);
          Some (err, if err \<noteq> noErr then ctx else ctx\<lparr>writeCipher := (writeCipher ctx)\<lparr>ready := True\<rparr>\<rparr>) }}}"

definition SSLResumeServerSide :: "platform \<Rightarrow> SSLContext \<Rightarrow> (OSStatus \<times> SSLContext) option" where
  "SSLResumeServerSide P ctx =
     do { (err, ctx) \<leftarrow> SSLPrepareAndQueueMessage P SSLEncodeServerHello ctx;
          if err \<noteq> noErr then Some (err, ctx) else do {
          (err, ctx) \<leftarrow> SSLInitPendingCiphers P ctx;
          if err \<noteq> noErr then alert_return P SSL_AlertInternalError err ctx else do {
          (err, ctx) \<leftarrow> send_finished P False ctx;
          Some (err, if err \<noteq> noErr then ctx else ctx\<lparr>state := SSL_HdskStateChangeCipherSpec\<rparr>) }}}"

section \<open>The steps of the state machine\<close>

definition advance_HelloRequest :: "platform \<Rightarrow> SSLContext \<Rightarrow> (OSStatus \<times> SSLContext) option" where
  "advance_HelloRequest P ctx =
     do { let ctx = ctx\<lparr>certRequested := False, certSent := False, certReceived := False, x509Requested := False,
            clientCertState := kSSLClientCertNone, readCipher := (readCipher ctx)\<lparr>ready := False\<rparr>,
            writeCipher := (writeCipher ctx)\<lparr>ready := False\<rparr>\<rparr>;
          (err, ctx) \<leftarrow> SSLPrepareAndQueueMessage P SSLEncodeClientHello ctx;
          Some (err, if err \<noteq> noErr then ctx else ctx\<lparr>state := SSL_HdskStateServerHello\<rparr>) }"

text \<open>Whether the stored session is the one named in the hello, with the negotiated version.\<close>

definition session_matches :: "platform \<Rightarrow> bytes \<Rightarrow> SSLContext \<Rightarrow> (OSStatus \<times> bool) option" where
  "session_matches P sess ctx =
     do { (err, sid) \<leftarrow> SSLRetrieveSessionID P sess;
          if err \<noteq> noErr then Some (err, False) else do {
          (err, sessionProt) \<leftarrow> SSLRetrieveSessionProtocolVersion sess;
          Some (err, sid = sessionID ctx \<and> sessionProt = negProtocolVersion ctx) }}"

text \<open>The first flight of the server when no session is resumed.\<close>

definition needs_server_key :: "SSLContext \<Rightarrow> KeyExchangeMethod \<Rightarrow> bool" where
  "needs_server_key ctx kx \<longleftrightarrow>
     (kx \<in> {SSL_RSA_EXPORT, SSL_RSA} \<and> encryptPrivKeyRef ctx \<noteq> None \<or>
      kx \<in> {SSL_DH_anon, SSL_DH_anon_EXPORT, SSL_DHE_RSA, SSL_DHE_RSA_EXPORT, SSL_DHE_DSS, SSL_DHE_DSS_EXPORT})"

definition server_certificate :: "platform \<Rightarrow> KeyExchangeMethod \<Rightarrow> SSLContext \<Rightarrow> (OSStatus \<times> SSLContext) option" where
  "server_certificate P kx ctx =
     (if kx \<in> {SSL_NULL_auth, SSL_DH_anon, SSL_DH_anon_EXPORT}
      then if clientAuth ctx = kAlwaysAuthenticate then alert_return P SSL_AlertHandshakeFail errSSLNegotiation ctx
           else Some (noErr, ctx\<lparr>tryClientAuth := False\<rparr>)
      else if localCert ctx = [] then Some (errSSLBadConfiguration, ctx)
      else SSLPrepareAndQueueMessage P SSLEncodeCertificate ctx)"

definition server_flight :: "platform \<Rightarrow> SSLContext \<Rightarrow> (OSStatus \<times> SSLContext) option" where
  "server_flight P ctx =
     do { (err, ctx) \<leftarrow> SSLPrepareAndQueueMessage P SSLEncodeServerHello ctx;
          if err \<noteq> noErr then Some (err, ctx) else do {
          cs \<leftarrow> selectedCipherSpec ctx;
          (err, ctx) \<leftarrow> server_certificate P (keyExchangeMethod cs) ctx;
          if err \<noteq> noErr then Some (err, ctx) else do {
          (err, ctx) \<leftarrow> (if needs_server_key ctx (keyExchangeMethod cs)
             then SSLPrepareAndQueueMessage P SSLEncodeServerKeyExchange ctx else Some (noErr, ctx));
          if err \<noteq> noErr then Some (err, ctx) else do {
          (err, ctx) \<leftarrow> (if tryClientAuth ctx
             then do { (err, ctx) \<leftarrow> SSLPrepareAndQueueMessage P SSLEncodeCertificateRequest ctx;
                       Some (err, if err \<noteq> noErr then ctx
                         else ctx\<lparr>certRequested := True, clientCertState := kSSLClientCertRequested\<rparr>) }
             else Some (noErr, ctx));
          if err \<noteq> noErr then Some (err, ctx) else do {
          (err, ctx) \<leftarrow> SSLPrepareAndQueueMessage P SSLEncodeServerHelloDone ctx;
          Some (err, if err \<noteq> noErr then ctx
            else ctx\<lparr>state := (if certRequested ctx then SSL_HdskStateClientCert else SSL_HdskStateClientKeyExchange)\<rparr>) }}}}}"

text \<open>A fresh session identifier, when the application wants sessions kept.\<close>

definition new_sessionID :: "platform \<Rightarrow> SSLContext \<Rightarrow> (OSStatus \<times> SSLContext) option" where
  "new_sessionID P ctx =
     (if peerID ctx = None then Some (noErr, ctx)
      else if sessionID ctx \<noteq> None then None
      else if \<not> mallocOk P 16 then Some (noErr, ctx)
      else case sslRand P 16 ctx of (err, r, ctx) \<Rightarrow>
        if err \<noteq> noErr then alert_return P SSL_AlertInternalError err (ctx\<lparr>sessionID := Some r\<rparr>)
        else Some (noErr, ctx\<lparr>sessionID := Some r\<rparr>))"

definition full_handshake :: "platform \<Rightarrow> SSLContext \<Rightarrow> (OSStatus \<times> SSLContext) option" where
  "full_handshake P ctx =
     do { (err, ctx) \<leftarrow> new_sessionID P ctx;
          if err \<noteq> noErr then Some (err, ctx) else server_flight P ctx }"

definition advance_ClientHello :: "platform \<Rightarrow> SSLContext \<Rightarrow> (OSStatus \<times> SSLContext) option" where
  "advance_ClientHello P ctx =
     (if protocolSide ctx \<noteq> SSL_ServerSide then None
      else let ctx = ctx\<lparr>sessionMatch := 0\<rparr> in
      if sessionID ctx = None then full_handshake P ctx
      else case resumableSession ctx of
        None \<Rightarrow> full_handshake P (ctx\<lparr>sessionID := None\<rparr>)
      | Some sess \<Rightarrow> do {
          (err, same) \<leftarrow> session_matches P sess ctx;
          if err \<noteq> noErr then Some (err, ctx)
          else if same
          then do {
            (err, ctx) \<leftarrow> SSLInstallSessionFromData P sess ctx;
            if err \<noteq> noErr then alert_return P SSL_AlertInternalError err ctx
            else SSLResumeServerSide P (ctx\<lparr>sessionMatch := 1\<rparr>) }
          else (case SSLDeleteSessionData ctx of (err, ctx) \<Rightarrow>
                  if err \<noteq> noErr then alert_return P SSL_AlertInternalError err ctx
                  else full_handshake P (ctx\<lparr>sessionID := None\<rparr>)) })"

text \<open>The state in which the client waits after a ServerHello that starts a full handshake.\<close>

definition after_ServerHello :: "KeyExchangeMethod \<Rightarrow> SSLHandshakeState \<Rightarrow> SSLHandshakeState" where
  "after_ServerHello kx st =
     (if kx \<in> {SSL_NULL_auth, SSL_DH_anon, SSL_DH_anon_EXPORT} then SSL_HdskStateKeyExchange
      else if kx = SSL_ECDH_anon then st else SSL_HdskStateCert)"

definition advance_ServerHello :: "platform \<Rightarrow> SSLContext \<Rightarrow> (OSStatus \<times> SSLContext) option" where
  "advance_ServerHello P ctx =
     do { let ctx = ctx\<lparr>sessionMatch := 0\<rparr>;
          (err, same) \<leftarrow> (case resumableSession ctx of
              None \<Rightarrow> Some (noErr, False)
            | Some sess \<Rightarrow> if sessionID ctx = None then Some (noErr, False) else session_matches P sess ctx);
          if err \<noteq> noErr then alert_return P SSL_AlertInternalError err ctx
          else if same
          then do {
            sess \<leftarrow> resumableSession ctx;
            (err, ctx) \<leftarrow> SSLInstallSessionFromData P sess ctx;
            if err \<noteq> noErr then alert_return P SSL_AlertInternalError err ctx else do {
            (err, ctx) \<leftarrow> SSLInitPendingCiphers P ctx;
            if err \<noteq> noErr then alert_return P SSL_AlertInternalError err ctx
            else Some (noErr, ctx\<lparr>sessionMatch := 1, state := SSL_HdskStateChangeCipherSpec\<rparr>) }}
          else do {
            cs \<leftarrow> selectedCipherSpec ctx;
            Some (noErr, ctx\<lparr>state := after_ServerHello (keyExchangeMethod cs) (state ctx)\<rparr>) }}"

definition advance_Cert :: "SSLContext \<Rightarrow> (OSStatus \<times> SSLContext) option" where
  "advance_Cert ctx =
     (if state ctx = SSL_HdskStateCert
      then do {
        cs \<leftarrow> selectedCipherSpec ctx;
        let kx = keyExchangeMethod cs;
        Some (noErr, if kx \<in> {SSL_RSA, SSL_RSA_EXPORT, SSL_DH_DSS, SSL_DH_DSS_EXPORT, SSL_DH_RSA, SSL_DH_RSA_EXPORT,
                              SSL_ECDH_ECDSA, SSL_ECDH_RSA}
                     then ctx\<lparr>state := SSL_HdskStateHelloDone\<rparr>
                     else if kx \<in> {SSL_DHE_DSS, SSL_DHE_DSS_EXPORT, SSL_DHE_RSA, SSL_DHE_RSA_EXPORT, SSL_Fortezza,
                              SSL_ECDHE_ECDSA, SSL_ECDHE_RSA}
                     then ctx\<lparr>state := SSL_HdskStateKeyExchange\<rparr> else ctx) }
      else if state ctx = SSL_HdskStateClientCert
      then Some (noErr, ctx\<lparr>state := SSL_HdskStateClientKeyExchange, certReceived := certReceived ctx \<or> peerCert ctx \<noteq> []\<rparr>)
      else Some (noErr, ctx))"

definition advance_CertRequest :: "platform \<Rightarrow> SSLContext \<Rightarrow> (OSStatus \<times> SSLContext) option" where
  "advance_CertRequest P ctx =
     (if peerCert ctx = [] then alert_return P SSL_AlertHandshakeFail errSSLProtocol ctx
      else if protocolSide ctx \<noteq> SSL_ClientSide then None
      else Some (noErr, ctx\<lparr>certRequested := True, clientCertState := kSSLClientCertRequested\<rparr>))"

text \<open>The keys of the connection, from the premaster secret, which is then erased.\<close>

definition make_keys :: "platform \<Rightarrow> SSLContext \<Rightarrow> (OSStatus \<times> SSLContext) option" where
  "make_keys P ctx =
     do { (err, ctx) \<leftarrow> call_generateMasterSecret P ctx;
          if err \<noteq> noErr then alert_return P SSL_AlertInternalError err ctx else do {
          (err, ctx) \<leftarrow> SSLInitPendingCiphers P ctx;
          if err \<noteq> noErr then alert_return P SSL_AlertInternalError err ctx
          else Some (noErr, ctx\<lparr>preMasterSecret := None\<rparr>) }}"

definition client_certificate :: "platform \<Rightarrow> SSLContext \<Rightarrow> (OSStatus \<times> SSLContext) option" where
  "client_certificate P ctx =
     (if clientCertState ctx \<noteq> kSSLClientCertRequested then Some (noErr, ctx)
      else if localCert ctx \<noteq> [] \<and> x509Requested ctx \<or> negProtocolVersion ctx \<ge> TLS_Version_1_0
      then SSLPrepareAndQueueMessage P SSLEncodeCertificate ctx
      else SSLSendAlert P SSL_AlertLevelWarning SSL_AlertNoCert ctx)"

text \<open>
  The client's second flight. A client that wants to look at the server's certificate or at a
  certificate request first gets control back; it continues in the state \<open>ClientCert\<close>, which the
  source leaves through a message type used as a state (14, the number of \<open>ChangeCipherSpec\<close>).
\<close>

definition client_flight :: "platform \<Rightarrow> SSLContext \<Rightarrow> (OSStatus \<times> SSLContext) option" where
  "client_flight P ctx =
     do { (err, ctx) \<leftarrow> client_certificate P ctx;
          if err \<noteq> noErr then Some (err, ctx) else do {
          (err, ctx) \<leftarrow> SSLPrepareAndQueueMessage P SSLEncodeKeyExchange ctx;
          if err \<noteq> noErr then Some (err, ctx) else do {
          (err, ctx) \<leftarrow> make_keys P ctx;
          if err \<noteq> noErr then Some (err, ctx) else do {
          (err, ctx) \<leftarrow> (if certSent ctx \<and> negAuthType ctx \<in> {SSLClientAuth_RSASign, SSLClientAuth_ECDSASign}
             then SSLPrepareAndQueueMessage P SSLEncodeCertificateVerify ctx else Some (noErr, ctx));
          if err \<noteq> noErr then Some (err, ctx) else do {
          (err, ctx) \<leftarrow> send_finished P True ctx;
          Some (err, if err \<noteq> noErr then ctx else ctx\<lparr>state := SSL_HdskStateChangeCipherSpec\<rparr>) }}}}}"

definition advance_ServerHelloDone :: "platform \<Rightarrow> SSLContext \<Rightarrow> (OSStatus \<times> SSLContext) option" where
  "advance_ServerHelloDone P ctx =
     (if state ctx = SSL_HdskStateClientCert then client_flight P (ctx\<lparr>state := SSL_HdskStateChangeCipherSpec\<rparr>)
      else if signalServerAuth ctx
      then Some (errSSLServerAuthCompleted, ctx\<lparr>signalServerAuth := False, state := SSL_HdskStateClientCert\<rparr>)
      else if signalCertRequest ctx
      then Some (errSSLClientCertRequested, ctx\<lparr>signalCertRequest := False, state := SSL_HdskStateClientCert\<rparr>)
      else client_flight P ctx)"

definition advance_ClientKeyExchange :: "platform \<Rightarrow> SSLContext \<Rightarrow> (OSStatus \<times> SSLContext) option" where
  "advance_ClientKeyExchange P ctx =
     do { (err, ctx) \<leftarrow> make_keys P ctx;
          Some (err, if err \<noteq> noErr then ctx
            else ctx\<lparr>state := (if certReceived ctx then SSL_HdskStateClientCertVerify else SSL_HdskStateChangeCipherSpec)\<rparr>) }"

text \<open>The status of \<open>SSLAddSessionData\<close> is ignored.\<close>

definition advance_Finished :: "platform \<Rightarrow> SSLContext \<Rightarrow> (OSStatus \<times> SSLContext) option" where
  "advance_Finished P ctx =
     do { let ctx = ctx\<lparr>readCipher := (readCipher ctx)\<lparr>ready := True\<rparr>\<rparr>;
          (err, ctx) \<leftarrow> (if ready (writePending ctx) then send_finished P False ctx else Some (noErr, ctx));
          if err \<noteq> noErr then Some (err, ctx) else do {
          let ctx = ctx\<lparr>state := (if protocolSide ctx = SSL_ServerSide then SSL_HdskStateServerReady else SSL_HdskStateClientReady)\<rparr>;
          if peerID ctx \<noteq> None \<and> sessionTicket ctx = None
          then do { (ignored, ctx) \<leftarrow> SSLAddSessionData P ctx; Some (noErr, ctx) }
          else Some (noErr, ctx) }}"

definition SSLAdvanceHandshake :: "platform \<Rightarrow> byte \<Rightarrow> SSLContext \<Rightarrow> (OSStatus \<times> SSLContext) option" where
  "SSLAdvanceHandshake P processed ctx =
     (if processed = SSL_HdskHelloRequest then advance_HelloRequest P ctx
      else if processed = SSL_HdskClientHello then advance_ClientHello P ctx
      else if processed = SSL_HdskServerHello then advance_ServerHello P ctx
      else if processed = SSL_HdskCert then advance_Cert ctx
      else if processed = SSL_HdskCertRequest then advance_CertRequest P ctx
      else if processed = SSL_HdskServerKeyExchange then Some (noErr, ctx\<lparr>state := SSL_HdskStateHelloDone\<rparr>)
      else if processed = SSL_HdskServerHelloDone then advance_ServerHelloDone P ctx
      else if processed = SSL_HdskCertVerify then Some (noErr, ctx\<lparr>state := SSL_HdskStateChangeCipherSpec\<rparr>)
      else if processed = SSL_HdskClientKeyExchange then advance_ClientKeyExchange P ctx
      else if processed = SSL_HdskFinished then advance_Finished P ctx
      else Some (noErr, ctx))"

section \<open>Incoming messages\<close>

text \<open>In which states a message of a type is expected.\<close>

definition expected :: "byte \<Rightarrow> SSLContext \<Rightarrow> bool" where
  "expected type ctx =
     (if type = SSL_HdskHelloRequest then protocolSide ctx = SSL_ClientSide
      else if type = SSL_HdskClientHello then state ctx = SSL_HdskStateServerUninit
      else if type = SSL_HdskServerHello then state ctx \<in> {SSL_HdskStateServerHello, SSL_HdskStateServerHelloUnknownVersion}
      else if type = SSL_HdskCert then state ctx \<in> {SSL_HdskStateCert, SSL_HdskStateClientCert}
      else if type = SSL_HdskCertRequest
      then state ctx \<in> {SSL_HdskStateHelloDone, SSL_HdskStateKeyExchange} \<and> \<not> certRequested ctx
      else if type = SSL_HdskServerKeyExchange then state ctx \<in> {SSL_HdskStateKeyExchange, SSL_HdskStateHelloDone}
      else if type = SSL_HdskServerHelloDone then state ctx = SSL_HdskStateHelloDone
      else if type = SSL_HdskCertVerify then state ctx = SSL_HdskStateClientCertVerify
      else if type = SSL_HdskClientKeyExchange then state ctx = SSL_HdskStateClientKeyExchange
      else if type = SSL_HdskFinished then state ctx = SSL_HdskStateFinished
      else False)"

definition with_ctx :: "SSLContext \<Rightarrow> OSStatus option \<Rightarrow> (OSStatus \<times> SSLContext) option" where
  "with_ctx ctx r = do { err \<leftarrow> r; Some (err, ctx) }"

definition decode_message :: "platform \<Rightarrow> byte \<Rightarrow> bytes \<Rightarrow> SSLContext \<Rightarrow> (OSStatus \<times> SSLContext) option" where
  "decode_message P type body ctx =
     (if type = SSL_HdskHelloRequest then Some (if body \<noteq> [] then errSSLProtocol else noErr, ctx)
      else if type = SSL_HdskClientHello then SSLProcessClientHello P body ctx
      else if type = SSL_HdskServerHello then SSLProcessServerHello P body ctx
      else if type = SSL_HdskCert then SSLProcessCertificate P body ctx
      else if type = SSL_HdskCertRequest then SSLProcessCertificateRequest P body ctx
      else if type = SSL_HdskServerKeyExchange then SSLProcessServerKeyExchange P body ctx
      else if type = SSL_HdskServerHelloDone then with_ctx ctx (SSLProcessServerHelloDone body ctx)
      else if type = SSL_HdskCertVerify
      then do { (err, ctx) \<leftarrow> SSLProcessCertificateVerify P body ctx;
                if protocolSide ctx \<noteq> SSL_ServerSide then None
                else Some (err, if err \<noteq> noErr then ctx\<lparr>clientCertState := kSSLClientCertRejected\<rparr> else ctx) }
      else if type = SSL_HdskClientKeyExchange then SSLProcessKeyExchange P body ctx
      else with_ctx ctx (SSLProcessFinished P body ctx))"

text \<open>The alert for an error of a decoder that has not sent one.\<close>

definition message_alert :: "OSStatus \<Rightarrow> AlertDescription option" where
  "message_alert err =
     (if err = noErr then None
      else if err = errSSLProtocol then Some SSL_AlertIllegalParam
      else if err = errSSLNegotiation then Some SSL_AlertHandshakeFail
      else if err \<in> {errSSLWouldBlock, errSSLServerAuthCompleted, errSSLClientCertRequested} then None
      else Some SSL_AlertCloseNotify)"

definition SSLProcessHandshakeMessage :: "platform \<Rightarrow> byte \<Rightarrow> bytes \<Rightarrow> SSLContext \<Rightarrow> (OSStatus \<times> SSLContext) option" where
  "SSLProcessHandshakeMessage P type body ctx =
     (if \<not> expected type ctx then alert_return P SSL_AlertUnexpectedMsg errSSLProtocol ctx
      else do {
        (err, ctx) \<leftarrow> decode_message P type body ctx;
        case (if sentFatalAlert ctx then None else message_alert err) of
          None \<Rightarrow> Some (err, ctx)
        | Some desc \<Rightarrow> alert_return P desc err ctx })"

text \<open>
  The loop over a record. It returns the octets that are left when no complete message remains. A
  length of 24 bits plus four is never negative as an \<open>int\<close>.
\<close>

definition process_one :: "platform \<Rightarrow> bytes \<Rightarrow> nat \<Rightarrow> SSLContext \<Rightarrow> (OSStatus \<times> SSLContext) option" where
  "process_one P p n ctx =
     do { (err, ctx) \<leftarrow> SSLProcessHandshakeMessage P (hd p) (take n (drop 4 p)) ctx;
          if err \<noteq> noErr then Some (err, ctx) else do {
          (err, ctx) \<leftarrow> (if hd p \<noteq> SSL_HdskHelloRequest then absorb P (take (4 + n) p) ctx else Some (noErr, ctx));
          if err \<noteq> noErr then Some (err, ctx) else SSLAdvanceHandshake P (hd p) ctx }}"

definition message_length :: "bytes \<Rightarrow> nat" where
  "message_length p = unat (SSLDecodeInt (drop 1 p) 3)"

function process_messages :: "platform \<Rightarrow> bytes \<Rightarrow> SSLContext \<Rightarrow> (OSStatus \<times> bytes \<times> SSLContext) option" where
  "process_messages P p ctx =
     (if length p < 4 \<or> message_length p + 4 > length p then Some (noErr, p, ctx)
      else do {
        (err, ctx) \<leftarrow> process_one P p (message_length p) ctx;
        if err \<noteq> noErr then Some (err, p, ctx) else process_messages P (drop (4 + message_length p) p) ctx })"
  by pat_completeness auto
termination
  by (relation "measure (length \<circ> fst \<circ> snd)") auto

declare process_messages.simps [simp del]

text \<open>
  A rest is kept for the next record. What is kept is the \<^emph>\<open>start\<close> of the octets that were looked
  at, not the rest itself: \<open>startingP\<close> is not advanced with \<open>p\<close>.
\<close>

definition keep_fragment :: "platform \<Rightarrow> bytes \<Rightarrow> bytes \<Rightarrow> SSLContext \<Rightarrow> (OSStatus \<times> SSLContext) option" where
  "keep_fragment P start rest ctx =
     (if rest = [] then Some (noErr, ctx\<lparr>fragmentedMessageCache := None\<rparr>)
      else if fragmentedMessageCache ctx \<noteq> None then Some (noErr, ctx)
      else case SSLAllocBuffer P (length rest) of (err, buf) \<Rightarrow>
        if err \<noteq> noErr then alert_return P SSL_AlertInternalError err ctx
        else Some (noErr, ctx\<lparr>fragmentedMessageCache := Some (take (length rest) start)\<rparr>))"

definition SSLProcessHandshakeRecord :: "platform \<Rightarrow> SSLRecord \<Rightarrow> SSLContext \<Rightarrow> (OSStatus \<times> SSLContext) option" where
  "SSLProcessHandshakeRecord P rec ctx =
     do { (err, start, ctx) \<leftarrow>
            (case fragmentedMessageCache ctx of
               None \<Rightarrow> Some (noErr, contents rec, ctx)
             | Some old \<Rightarrow>
                 if fst (SSLReallocBuffer P (Some old) (length old + length (contents rec))) \<noteq> noErr
                 then do { (ignored, ctx) \<leftarrow> SSLFatalSessionAlert P SSL_AlertInternalError ctx; Some (memFullErr, [], ctx) }
                 else Some (noErr, old @ contents rec, ctx\<lparr>fragmentedMessageCache := Some (old @ contents rec)\<rparr>));
          if err \<noteq> noErr then Some (err, ctx) else do {
          (err, rest, ctx) \<leftarrow> process_messages P start ctx;
          if err \<noteq> noErr then Some (err, ctx) else keep_fragment P start rest ctx }}"

definition SSL3ReceiveSSL2ClientHello :: "platform \<Rightarrow> SSLRecord \<Rightarrow> SSLContext \<Rightarrow> (OSStatus \<times> SSLContext) option" where
  "SSL3ReceiveSSL2ClientHello P rec ctx =
     do { (err, ctx) \<leftarrow> SSLInitMessageHashes P ctx;
          if err \<noteq> noErr then Some (err, ctx) else do {
          (err, ctx) \<leftarrow> absorb P (contents rec) ctx;
          if err \<noteq> noErr then Some (err, ctx) else SSLAdvanceHandshake P SSL_HdskClientHello ctx }}"

end
