(* ===== verification/Write_Queue.thy ===== *)
theory Write_Queue
  imports Alert
begin

text \<open>
  The write queue and the orderly close of \<open>sslTransport.c\<close>. The loop over the queue calls the
  application's write callback, which may take as little as it likes of what it is offered; when
  it keeps reporting success without taking anything the loop does not end, and the value is \<open>None\<close>.
  A callback that claims to have taken more than it was offered violates an assertion (\<open>None\<close>).
\<close>

partial_function (option) SSLServiceWriteQueue :: "platform \<Rightarrow> SSLContext \<Rightarrow> (OSStatus \<times> SSLContext) option" where
  "SSLServiceWriteQueue P ctx =
     (case recordWriteQueue ctx of
        [] \<Rightarrow> Some (noErr, ctx)
      | rec # rest \<Rightarrow>
          (case sslIoWrite P (drop (sent rec) (wdata rec)) ctx of (werr, written, ctx) \<Rightarrow>
             if sent rec + written > length (wdata rec) then None
             else let ctx = ctx\<lparr>recordWriteQueue := (if sent rec + written = length (wdata rec) then rest
                              else rec\<lparr>sent := sent rec + written\<rparr> # rest)\<rparr>
             in if werr \<noteq> noErr then Some (werr, ctx) else SSLServiceWriteQueue P ctx))"

definition SSLClose :: "platform \<Rightarrow> SSLContext \<Rightarrow> (OSStatus \<times> SSLContext) option" where
  "SSLClose P ctx =
     do { (err, ctx) \<leftarrow> (if negProtocolVersion ctx \<ge> SSL_Version_3_0
            then SSLSendAlert P SSL_AlertLevelWarning SSL_AlertCloseNotify ctx else Some (noErr, ctx));
          (err, ctx) \<leftarrow> (if err = noErr then SSLServiceWriteQueue P ctx else Some (err, ctx));
          Some (if err = ioErr then noErr else err, ctx\<lparr>state := SSL_HdskStateGracefulClose\<rparr>) }"

section \<open>The queue is written out\<close>

text \<open>The octets still to be written.\<close>

definition unsent :: "WaitingRecord list \<Rightarrow> bytes" where
  "unsent q = concat (map (\<lambda>r. drop (sent r) (wdata r)) q)"

lemma unsent_simps [simp]: "unsent [] = []" "unsent (r # q) = drop (sent r) (wdata r) @ unsent q"
  by (simp_all add: unsent_def)

text \<open>Whatever the callback does, nothing else of the connection changes.\<close>

lemma SSLServiceWriteQueue_frame:
  assumes "SSLServiceWriteQueue P ctx = Some (err, ctx')"
  obtains i w q where "ctx' = ctx\<lparr>ioPos := i, wireOut := w, recordWriteQueue := q\<rparr>"
proof -
  let ?rest = "\<lambda>c. c\<lparr>ioPos := 0, wireOut := [], recordWriteQueue := []\<rparr>"
  have "(\<lambda>(P, ctx) y. ?rest (snd y) = ?rest ctx) (P, ctx) (err, ctx')"
    using assms
    by (rule SSLServiceWriteQueue.raw_induct [rotated])
      (auto simp: sslIoWrite_def Let_def split: list.split_asm prod.split_asm if_split_asm)
  then have "?rest ctx' = ?rest ctx" by simp
  then have "(?rest ctx')\<lparr>ioPos := ioPos ctx', wireOut := wireOut ctx', recordWriteQueue := recordWriteQueue ctx'\<rparr> =
      (?rest ctx)\<lparr>ioPos := ioPos ctx', wireOut := wireOut ctx', recordWriteQueue := recordWriteQueue ctx'\<rparr>" by simp
  then show thesis using that by simp
qed

text \<open>A callback that takes what it reports, at most what it was offered.\<close>

definition write_ok :: "platform \<Rightarrow> bool" where
  "write_ok P \<longleftrightarrow> (\<forall>i buf. snd (ioWrite P i buf) \<le> length buf)"

definition queue_wf :: "WaitingRecord list \<Rightarrow> bool" where
  "queue_wf q \<longleftrightarrow> (\<forall>r\<in>set q. sent r \<le> length (wdata r))"

text \<open>One round of the loop: the callback is offered what is left of the first record.\<close>

lemma SSLServiceWriteQueue_step:
  assumes "write_ok P" "queue_wf (rec # rest)" "recordWriteQueue ctx = rec # rest"
    "ioWrite P (ioPos ctx) (drop (sent rec) (wdata rec)) = (werr, n)"
  defines "q \<equiv> (if sent rec + n = length (wdata rec) then rest else rec\<lparr>sent := sent rec + n\<rparr> # rest)"
    and "out \<equiv> take n (drop (sent rec) (wdata rec))"
  shows "SSLServiceWriteQueue P ctx =
      (let ctx' = ctx\<lparr>ioPos := ioPos ctx + 1, wireOut := wireOut ctx @ out, recordWriteQueue := q\<rparr> in
       if werr \<noteq> noErr then Some (werr, ctx') else SSLServiceWriteQueue P ctx')"
    and "unsent (rec # rest) = out @ unsent q" "queue_wf q"
    "sent rec + n \<le> length (wdata rec)"
proof -
  have "n \<le> length (drop (sent rec) (wdata rec))" using assms(1,4) by (metis snd_conv write_ok_def)
  moreover have "sent rec \<le> length (wdata rec)" using assms(2) by (simp add: queue_wf_def)
  ultimately show le: "sent rec + n \<le> length (wdata rec)" by simp
  show "SSLServiceWriteQueue P ctx =
      (let ctx' = ctx\<lparr>ioPos := ioPos ctx + 1, wireOut := wireOut ctx @ out, recordWriteQueue := q\<rparr> in
       if werr \<noteq> noErr then Some (werr, ctx') else SSLServiceWriteQueue P ctx')"
    using assms le by (subst SSLServiceWriteQueue.simps) (simp add: sslIoWrite_def q_def out_def)
  have "drop (sent rec) (wdata rec) = take n (drop (sent rec) (wdata rec)) @ drop (sent rec + n) (wdata rec)"
    by (metis add.commute append_take_drop_id drop_drop)
  then show "unsent (rec # rest) = out @ unsent q"
    using le by (auto simp: q_def out_def)
  show "queue_wf q" using assms(2) le by (auto simp: q_def queue_wf_def)
qed

text \<open>
  When every call takes at least one octet or reports an error, the loop ends: after at most as
  many calls as there are octets. What the callback has taken and what still waits are, put together, what
  waited before; on success nothing waits any more.
\<close>

definition write_progress :: "platform \<Rightarrow> bool" where
  "write_progress P \<longleftrightarrow> (\<forall>i buf. buf \<noteq> [] \<longrightarrow> fst (ioWrite P i buf) = noErr \<longrightarrow> 0 < snd (ioWrite P i buf))"

lemma SSLServiceWriteQueue_terminates:
  assumes "write_ok P" "write_progress P" "queue_wf (recordWriteQueue ctx)" "\<forall>r\<in>set (recordWriteQueue ctx). sent r < length (wdata r)"
  shows "\<exists>err ctx' out. SSLServiceWriteQueue P ctx = Some (err, ctx') \<and>
    wireOut ctx' = wireOut ctx @ out \<and> unsent (recordWriteQueue ctx) = out @ unsent (recordWriteQueue ctx') \<and>
    ctx' = ctx\<lparr>ioPos := ioPos ctx', wireOut := wireOut ctx', recordWriteQueue := recordWriteQueue ctx'\<rparr> \<and>
    (err = noErr \<longrightarrow> recordWriteQueue ctx' = []) \<and> queue_wf (recordWriteQueue ctx')"
  using assms(3,4)
proof (induction "length (unsent (recordWriteQueue ctx))" arbitrary: ctx rule: less_induct)
  case less
  show ?case
  proof (cases "recordWriteQueue ctx")
    case Nil
    then show ?thesis by (subst SSLServiceWriteQueue.simps) (simp add: queue_wf_def)
  next
    case (Cons rec rest)
    let ?buf = "drop (sent rec) (wdata rec)"
    obtain werr n where io: "ioWrite P (ioPos ctx) ?buf = (werr, n)" by fastforce
    define q where "q = (if sent rec + n = length (wdata rec) then rest else rec\<lparr>sent := sent rec + n\<rparr> # rest)"
    define out where "out = take n ?buf"
    note step = SSLServiceWriteQueue_step [OF assms(1) less.prems(1) [unfolded Cons] Cons io, folded q_def out_def]
    define ctx' where "ctx' = ctx\<lparr>ioPos := ioPos ctx + 1, wireOut := wireOut ctx @ out, recordWriteQueue := q\<rparr>"
    note eq = step(1) [folded ctx'_def, unfolded Let_def]
    show ?thesis
    proof (cases "werr = noErr")
      case False
      with eq step(2,3) Cons show ?thesis by (auto simp: ctx'_def)
    next
      case True
      have "0 < n" using assms(2) [unfolded write_progress_def, rule_format, of ?buf "ioPos ctx"] io True less.prems(2) Cons by simp
      then have "length (unsent q) < length (unsent (recordWriteQueue ctx))"
        using arg_cong [OF step(2), of length] step(4) Cons by (simp add: out_def)
      moreover have "\<forall>r\<in>set q. sent r < length (wdata r)" using less.prems(2) step(4) Cons by (auto simp: q_def)
      ultimately obtain err c more where c: "SSLServiceWriteQueue P ctx' = Some (err, c)"
        "wireOut c = wireOut ctx' @ more" "unsent q = more @ unsent (recordWriteQueue c)"
        "c = ctx'\<lparr>ioPos := ioPos c, wireOut := wireOut c, recordWriteQueue := recordWriteQueue c\<rparr>"
        "err = noErr \<longrightarrow> recordWriteQueue c = []" "queue_wf (recordWriteQueue c)"
        using less.hyps [of ctx'] step(3) by (auto simp: ctx'_def)
      have "c = ctx\<lparr>ioPos := ioPos c, wireOut := wireOut c, recordWriteQueue := recordWriteQueue c\<rparr>"
        by (subst c(4)) (simp add: ctx'_def)
      moreover have "wireOut c = wireOut ctx @ out @ more" using c(2) by (simp add: ctx'_def)
      moreover have "unsent (recordWriteQueue ctx) = (out @ more) @ unsent (recordWriteQueue c)" using step(2) c(3) Cons by simp
      ultimately show ?thesis using eq True c(1,5,6) by auto
    qed
  qed
qed

end
