(* ===== verification/Alert_Receive.thy ===== *)
theory Alert_Receive
  imports Handshake Write_Queue
begin

text \<open>
  Model of the receiving half of \<open>sslAlertMessage.c\<close>: \<open>SSLProcessAlert\<close> goes through the alerts of a
  record until one is fatal, by its level or by implication.
\<close>

text \<open>The descriptions that are fatal whatever their level.\<close>

definition implied_fatal :: "AlertDescription \<Rightarrow> bool" where
  "implied_fatal desc \<longleftrightarrow>
     desc \<in> {SSL_AlertUnexpectedMsg, SSL_AlertBadRecordMac, SSL_AlertDecryptionFail, SSL_AlertRecordOverflow,
             SSL_AlertDecompressFail, SSL_AlertHandshakeFail, SSL_AlertIllegalParam}"

text \<open>The status for each description that is an error of the peer.\<close>

definition peer_alert :: "AlertDescription \<Rightarrow> OSStatus option" where
  "peer_alert desc = map_of
     [(SSL_AlertUnexpectedMsg, errSSLPeerUnexpectedMsg), (SSL_AlertBadRecordMac, errSSLPeerBadRecordMac),
      (SSL_AlertDecryptionFail, errSSLPeerDecryptionFail), (SSL_AlertRecordOverflow, errSSLPeerRecordOverflow),
      (SSL_AlertDecompressFail, errSSLPeerDecompressFail), (SSL_AlertHandshakeFail, errSSLPeerHandshakeFail),
      (SSL_AlertIllegalParam, errSSLIllegalParam), (SSL_AlertBadCert, errSSLPeerBadCert),
      (SSL_AlertUnsupportedCert, errSSLPeerUnsupportedCert), (SSL_AlertCertRevoked, errSSLPeerCertRevoked),
      (SSL_AlertCertExpired, errSSLPeerCertExpired), (SSL_AlertCertUnknown, errSSLPeerCertUnknown),
      (SSL_AlertUnknownCA, errSSLPeerUnknownCA), (SSL_AlertAccessDenied, errSSLPeerAccessDenied),
      (SSL_AlertDecodeError, errSSLPeerDecodeError), (SSL_AlertDecryptError, errSSLPeerDecryptError),
      (SSL_AlertExportRestriction, errSSLPeerExportRestriction), (SSL_AlertProtocolVersion, errSSLPeerProtocolVersion),
      (SSL_AlertInsufficientSecurity, errSSLPeerInsufficientSecurity), (SSL_AlertInternalError, errSSLPeerInternalError),
      (SSL_AlertUserCancelled, errSSLPeerUserCancelled), (SSL_AlertNoRenegotiation, errSSLPeerNoRenegotiation)] desc"

text \<open>
  One alert; the flag says that the operation returns at once. A \<open>NoCert\<close> alert that is not
  tolerated leaves the status of the alert before it.
\<close>

definition alert_action ::
  "platform \<Rightarrow> byte \<Rightarrow> AlertDescription \<Rightarrow> OSStatus \<Rightarrow> SSLContext \<Rightarrow> (OSStatus \<times> bool \<times> SSLContext) option" where
  "alert_action P level desc err ctx =
     (case peer_alert desc of
        Some e \<Rightarrow> Some (e, False, ctx)
      | None \<Rightarrow>
          if desc = SSL_AlertCloseNotify then do { (ignored, ctx) \<leftarrow> SSLClose P ctx; Some (noErr, False, ctx) }
          else if desc = SSL_AlertNoCert
          then if state ctx = SSL_HdskStateClientCert \<and> protocolSide ctx = SSL_ServerSide \<and> clientAuth ctx \<noteq> kAlwaysAuthenticate
               then do { (err, ctx) \<leftarrow> SSLAdvanceHandshake P SSL_HdskCert ctx; Some (err, err \<noteq> noErr, ctx) }
               else Some (err, False, ctx)
          else Some (if level = SSL_AlertLevelFatal then errSSLFatalAlert else noErr, False, ctx))"

fun process_alerts :: "platform \<Rightarrow> bytes \<Rightarrow> OSStatus \<Rightarrow> SSLContext \<Rightarrow> (OSStatus \<times> bool \<times> SSLContext) option" where
  "process_alerts P (level # desc # rest) err ctx =
     do { (err, stop, ctx) \<leftarrow> alert_action P level desc err (SSLDetectCertRejected ctx desc);
          if stop then Some (err, False, ctx)
          else if level = SSL_AlertLevelFatal \<or> implied_fatal desc then Some (err, True, ctx)
          else process_alerts P rest err ctx }"
| "process_alerts P _ err ctx = Some (err, False, ctx)"

definition SSLProcessAlert :: "platform \<Rightarrow> SSLRecord \<Rightarrow> SSLContext \<Rightarrow> (OSStatus \<times> SSLContext) option" where
  "SSLProcessAlert P rec ctx =
     (if odd (length (contents rec))
      then do { (err, ctx) \<leftarrow> SSLFatalSessionAlert P SSL_AlertIllegalParam ctx;
                Some (if err = noErr then errSSLProtocol else err, ctx) }
      else do { (err, fatal, ctx) \<leftarrow> process_alerts P (contents rec) noErr ctx;
                Some (err, if fatal then snd (SSLDeleteSessionData ctx) else ctx) })"

section \<open>What the peer's alerts do\<close>

text \<open>
  A fatal alert that is an error of the peer ends the processing of the record: the status is the
  one of the table, and the session is removed from the cache, so that it cannot be resumed.
\<close>

lemma SSLProcessAlert_fatal:
  assumes "contents rec = level # desc # rest" "even (length rest)" "peer_alert desc = Some e"
    "level = SSL_AlertLevelFatal \<or> implied_fatal desc"
  shows "SSLProcessAlert P rec ctx = Some (e, snd (SSLDeleteSessionData (SSLDetectCertRejected ctx desc)))"
  using assms by (simp add: SSLProcessAlert_def alert_action_def)

lemma SSLProcessAlert_warning:
  assumes "contents rec = [SSL_AlertLevelWarning, desc]" "peer_alert desc = Some e" "\<not> implied_fatal desc"
  shows "SSLProcessAlert P rec ctx = Some (e, SSLDetectCertRejected ctx desc)"
  using assms by (simp add: SSLProcessAlert_def alert_action_def)

lemma peer_alert_not_noErr: "peer_alert desc = Some e \<Longrightarrow> e \<noteq> noErr"
  unfolding peer_alert_def by (drule map_of_SomeD) auto

lemma implied_fatal_peer_alert: "implied_fatal desc \<Longrightarrow> \<exists>e. peer_alert desc = Some e"
  by (auto simp: implied_fatal_def peer_alert_def)

end
