(* ===== verification/Ssl2.thy ===== *)
theory Ssl2
  imports Handshake
begin

text \<open>
  Model of the SSL 2.0 handshake: the messages of \<open>ssl2Message.c\<close>, the state machine of
  \<open>ssl2Protocol.c\<close> and the table of \<open>ssl2CipherMap.c\<close>. A server also comes here with a client that
  sends an SSL 2.0 hello but can do better; the connection is then handed to the SSL 3 state machine.

  \<open>None\<close> stands, as elsewhere, for a failed assertion and for memory accesses out of bounds: the clear
  part of a master key may be longer than the array it is copied to.
\<close>

section \<open>The cipher map\<close>

type_synonym SSL2CipherKind = uint32

text \<open>The suite numbers of SSL 2.0 and the suites they stand for.\<close>

definition SSL2CipherMap :: "(SSL2CipherKind \<times> uint32) list" where
  "SSL2CipherMap = [(0x010080, 0x0004), (0x020080, 0x0003), (0x030080, 0xFF80), (0x040080, 0x0006),
     (0x050080, 0xFF81), (0x060040, 0xFF82), (0x0700C0, 0xFF83)]"

abbreviation SSL_NO_SUCH_CIPHERSUITE :: uint32 where "SSL_NO_SUCH_CIPHERSUITE \<equiv> 0xFFFF"

definition kind_of_suite :: "uint32 \<Rightarrow> SSL2CipherKind option" where
  "kind_of_suite suite = map_option fst (find (\<lambda>p. snd p = suite) SSL2CipherMap)"

definition valid_suite :: "SSLContext \<Rightarrow> uint32 \<Rightarrow> bool" where
  "valid_suite ctx suite \<longleftrightarrow>
     (\<exists>s\<in>set (case validCipherSpecs ctx of None \<Rightarrow> [] | Some specs \<Rightarrow> specs). cipherSpec s = suite)"

text \<open>The list of three-octet kinds in a hello.\<close>

definition cipher_kinds :: "nat \<Rightarrow> bytes \<Rightarrow> SSL2CipherKind list" where
  "cipher_kinds n bs = map (\<lambda>i. SSLDecodeInt (drop (3 * i) bs) 3) [0..<n]"

section \<open>Messages\<close>

abbreviation SSL2_MsgClientHello :: byte where "SSL2_MsgClientHello \<equiv> 1"
abbreviation SSL2_MsgClientMasterKey :: byte where "SSL2_MsgClientMasterKey \<equiv> 2"
abbreviation SSL2_MsgClientFinished :: byte where "SSL2_MsgClientFinished \<equiv> 3"
abbreviation SSL2_MsgServerHello :: byte where "SSL2_MsgServerHello \<equiv> 4"
abbreviation SSL2_MsgServerVerify :: byte where "SSL2_MsgServerVerify \<equiv> 5"
abbreviation SSL2_MsgServerFinished :: byte where "SSL2_MsgServerFinished \<equiv> 6"
abbreviation SSL2_MsgRequestCert :: byte where "SSL2_MsgRequestCert \<equiv> 7"
abbreviation SSL2_MsgClientCert :: byte where "SSL2_MsgClientCert \<equiv> 8"
abbreviation SSL2_MsgKickstart :: byte where "SSL2_MsgKickstart \<equiv> 99"
abbreviation SSL2_CertTypeX509 :: byte where "SSL2_CertTypeX509 \<equiv> 1"
abbreviation SSL2_ErrNoCert :: uint32 where "SSL2_ErrNoCert \<equiv> 2"

text \<open>\<open>memcpy\<close> to an offset of an array.\<close>

definition put_at :: "nat \<Rightarrow> bytes \<Rightarrow> bytes \<Rightarrow> bytes" where
  "put_at off new old = take off old @ new @ drop (off + length new) old"

text \<open>The challenge is kept at the end of \<open>clientRandom\<close>.\<close>

definition ssl2_challenge :: "SSLContext \<Rightarrow> bytes" where
  "ssl2_challenge ctx = drop (32 - ssl2ChallengeLength ctx) (clientRandom ctx)"

subsection \<open>ClientHello\<close>

text \<open>
  The suite a hello selects: the first SSL 3 suite that is enabled, unless SSL 2.0 was negotiated;
  otherwise the first of any kind.
\<close>

definition ssl2_candidate :: "SSLContext \<Rightarrow> SSL2CipherKind \<Rightarrow> uint32" where
  "ssl2_candidate ctx kind =
     (if kind AND 0xFF0000 \<noteq> 0
      then (case map_of SSL2CipherMap kind of None \<Rightarrow> SSL_NO_SUCH_CIPHERSUITE | Some suite \<Rightarrow> suite)
      else if negProtocolVersion ctx < SSL_Version_3_0 \<and> kind_of_suite (kind AND 0x00FFFF) = None
      then SSL_NO_SUCH_CIPHERSUITE
      else kind AND 0x00FFFF)"

definition ssl2_select :: "SSLContext \<Rightarrow> SSL2CipherKind list \<Rightarrow> uint32 option" where
  "ssl2_select ctx kinds =
     (let usable = (\<lambda>suite. suite \<noteq> SSL_NO_SUCH_CIPHERSUITE \<and> valid_suite ctx suite);
          ssl3 = map (\<lambda>k. k AND 0x00FFFF) (filter (\<lambda>k. k AND 0xFF0000 = 0) kinds)
      in case (if negProtocolVersion ctx \<ge> SSL_Version_3_0 then find usable ssl3 else None) of
           Some suite \<Rightarrow> Some suite
         | None \<Rightarrow> find usable (map (ssl2_candidate ctx) kinds))"

definition SSL2ProcessClientHello :: "platform \<Rightarrow> bytes \<Rightarrow> SSLContext \<Rightarrow> (OSStatus \<times> SSLContext) option" where
  "SSL2ProcessClientHello P m ctx =
     (if length m < 27 then Some (errSSLProtocol, ctx)
      else let ctx = ctx\<lparr>clientReqProtocol := SSLDecodeInt m 2\<rparr> in
      case sslVerifyProtVersion ctx (SSLDecodeInt m 2) of
        (err, None) \<Rightarrow> Some (err, ctx)
      | (err, Some negVersion) \<Rightarrow> do {
          ctx \<leftarrow> (if negProtocolVersion ctx \<noteq> SSL_Version_Undetermined then Some ctx
                 else if negVersion \<ge> TLS_Version_1_0
                 then Some (ctx\<lparr>negProtocolVersion := negVersion, sslTslCalls := Tls1Callouts\<rparr>)
                 else if sslTslCalls ctx \<noteq> Ssl3Callouts then None
                 else Some (ctx\<lparr>negProtocolVersion := negVersion\<rparr>));
          let cipherLen = unat (SSLDecodeInt (drop 2 m) 2);
          let sessionIDLen = unat (SSLDecodeInt (drop 4 m) 2);
          let challengeLen = unat (SSLDecodeInt (drop 6 m) 2);
          if cipherLen mod 3 \<noteq> 0 \<or> length m \<noteq> 8 + cipherLen + sessionIDLen + challengeLen \<or>
             sessionIDLen \<noteq> 0 \<and> sessionIDLen \<noteq> 16 \<or> challengeLen < 16 \<or> challengeLen > 32
          then Some (errSSLProtocol, ctx)
          else case ssl2_select ctx (cipher_kinds (cipherLen div 3) (drop 8 m)) of
            None \<Rightarrow> Some (errSSLNegotiation, ctx)
          | Some suite \<Rightarrow> do {
              (err, ctx) \<leftarrow> FindCipherSpec (ctx\<lparr>selectedCipher := ucast suite\<rparr>);
              if err \<noteq> noErr then Some (err, ctx)
              else let rest = drop (8 + cipherLen) m;
                       ctx = (if sessionIDLen > 0 \<and> peerID ctx \<noteq> None
                              then ctx\<lparr>sessionID := (case SSLAllocBuffer P sessionIDLen of (e, buf) \<Rightarrow>
                                       if e = noErr then Some (take sessionIDLen rest) else buf)\<rparr>
                              else ctx)
              in Some (noErr, ctx\<lparr>ssl2ChallengeLength := challengeLen,
                   clientRandom := replicate (32 - challengeLen) 0 @ drop sessionIDLen rest\<rparr>) }})"

type_synonym EncodeSSL2MessageFunc = "platform \<Rightarrow> SSLContext \<Rightarrow> (OSStatus \<times> bytes \<times> SSLContext) option"

text \<open>The kinds a client offers: its SSL 3 suites when it can upgrade, and those of the map.\<close>

definition ssl2_offer :: "bool \<Rightarrow> SSLContext \<Rightarrow> SSL2CipherKind list" where
  "ssl2_offer useSSL3Ciphers ctx =
     (if useSSL3Ciphers then map cipherSpec (offered_specs ctx) else []) @
     map fst (filter (\<lambda>p. valid_suite ctx (snd p)) SSL2CipherMap)"

definition SSL2EncodeClientHello :: EncodeSSL2MessageFunc where
  "SSL2EncodeClientHello P ctx =
     (if \<not> versionSsl2Enable ctx then None
      else case sslGetMaxProtVersion ctx of
        (err, None) \<Rightarrow> Some (err, [], ctx)
      | (err, Some version) \<Rightarrow> do {
          let kinds = ssl2_offer (version > SSL_Version_2_0) ctx;
          let count = (if version > SSL_Version_2_0 then numValidNonSSLv2Specs ctx else 0) +
            length (filter (\<lambda>p. valid_suite ctx (snd p)) SSL2CipherMap);
          if count = 0 then Some (errSSLBadConfiguration, [], ctx) else do {
          (err, sid) \<leftarrow> resume_id P ctx;
          if err \<noteq> noErr then Some (err, [], ctx)
          else if \<not> mallocOk P (9 + 3 * count + length sid + 16) then Some (memFullErr, [], ctx)
          else if length kinds \<noteq> count then None
          else case sslRand P 16 ctx of (err, challenge, ctx) \<Rightarrow>
            if err \<noteq> noErr then Some (err, [], ctx)
            else Some (noErr,
              SSL2_MsgClientHello # SSLEncodeInt version 2 @ SSLEncodeInt (of_nat (3 * count)) 2 @
                SSLEncodeInt (of_nat (length sid)) 2 @ SSLEncodeInt 16 2 @
                concat (map (\<lambda>k. SSLEncodeInt k 3) kinds) @ sid @ challenge,
              ctx\<lparr>clientRandom := replicate 16 0 @ challenge, ssl2ChallengeLength := 16\<rparr>) }})"

subsection \<open>ClientMasterKey\<close>

text \<open>
  The padding that shows the peer that better than SSL 2.0 was wanted, so that a rollback is noticed.
\<close>

definition ssl2_padding :: "SSLContext \<Rightarrow> CSSM_PADDING" where
  "ssl2_padding ctx = (if versionSsl3Enable ctx \<or> versionTls1Enable ctx then CSSM_PADDING_APPLE_SSLv2 else CSSM_PADDING_PKCS1)"

definition SSL2ProcessClientMasterKey :: "platform \<Rightarrow> bytes \<Rightarrow> SSLContext \<Rightarrow> (OSStatus \<times> SSLContext) option" where
  "SSL2ProcessClientMasterKey P m ctx =
     (if length m < 9 then Some (errSSLProtocol, ctx)
      else if protocolSide ctx \<noteq> SSL_ServerSide then None
      else
        (let clearLength = unat (SSLDecodeInt (drop 3 m) 2);
             encryptedLength = unat (SSLDecodeInt (drop 5 m) 2);
             keyArgLength = unat (SSLDecodeInt (drop 7 m) 2)
         in
         if length m \<noteq> 9 + clearLength + encryptedLength + keyArgLength then Some (errSSLProtocol, ctx)
         else if clearLength > length (masterSecret ctx) then None
         else
           (let ctx = ctx\<lparr>masterSecret := put_at 0 (take clearLength (drop 9 m)) (masterSecret ctx)\<rparr> in
            case (if encryptPrivKeyRef ctx \<noteq> None then encryptPrivKeyRef ctx else signingPrivKeyRef ctx) of
              None \<Rightarrow> Some (errSSLBadConfiguration, ctx)
            | Some (Inl err) \<Rightarrow> Some (err, ctx)
            | Some (Inr key) \<Rightarrow>
                if encryptedLength \<noteq> sslKeyLengthInBytes key then Some (errSSLProtocol, ctx)
                else if \<not> mallocOk P encryptedLength then Some (memFullErr, ctx)
                else do {
                  (err, secret) \<leftarrow> sslRsaDecrypt P ctx (Some (Inr key)) (ssl2_padding ctx)
                     (take encryptedLength (drop (9 + clearLength) m)) encryptedLength;
                  if err \<noteq> noErr then Some (err, ctx) else do {
                  cs \<leftarrow> selectedCipherSpec ctx;
                  if clearLength + length secret \<noteq> keySize (cipher cs) then Some (errSSLProtocol, ctx)
                  else
                    (let ctx = ctx\<lparr>masterSecret := put_at clearLength secret (masterSecret ctx)\<rparr> in
                     if keyArgLength \<noteq> ivSize (cipher cs) then Some (errSSLProtocol, ctx)
                     else Some (noErr, ctx\<lparr>masterSecret := put_at (keySize (cipher cs))
                            (drop (9 + clearLength + encryptedLength) m) (masterSecret ctx)\<rparr>)) }})))"

definition SSL2EncodeClientMasterKey :: EncodeSSL2MessageFunc where
  "SSL2EncodeClientMasterKey P ctx =
     do { key \<leftarrow> peerPubKey ctx;
          cs \<leftarrow> selectedCipherSpec ctx;
          let n = sslKeyLengthInBytes key;
          let ks = keySize (cipher cs);
          let clearLen = ks - secretKeySize (cipher cs);
          let iv = ivSize (cipher cs);
          if \<not> mallocOk P (10 + clearLen + n + iv) then Some (memFullErr, [], ctx) else do {
          kind \<leftarrow> kind_of_suite (ucast (selectedCipher ctx));
          if ks + iv > 48 then None
          else case sslRand P (ks + iv) ctx of (err, r, ctx) \<Rightarrow> do {
            let ctx = ctx\<lparr>masterSecret := put_at 0 r (masterSecret ctx)\<rparr>;
            if err \<noteq> noErr then Some (err, [], ctx) else do {
            (err, out) \<leftarrow> sslRsaEncrypt P (peerPubKey ctx) (peerPubKeyCsp ctx) (ssl2_padding ctx)
               (drop clearLen (take ks (masterSecret ctx))) n;
            if err \<noteq> noErr then Some (err, [], ctx)
            else if length out \<noteq> n then None
            else Some (noErr,
              SSL2_MsgClientMasterKey # SSLEncodeInt kind 3 @ SSLEncodeInt (of_nat clearLen) 2 @
                SSLEncodeInt (of_nat n) 2 @ SSLEncodeInt (of_nat iv) 2 @
                take clearLen (masterSecret ctx) @ out @ take iv (drop ks (masterSecret ctx)), ctx) }}}}"

subsection \<open>ServerHello\<close>

text \<open>
  The client's choice from the server's list. The suite looked up for one entry stays in place for
  the following ones that are not in the map.
\<close>

fun ssl2_choose :: "SSLContext \<Rightarrow> uint32 \<Rightarrow> SSL2CipherKind list \<Rightarrow> uint32 option" where
  "ssl2_choose ctx matching [] = None"
| "ssl2_choose ctx matching (k # ks) =
     (let matching = (case map_of SSL2CipherMap k of None \<Rightarrow> matching | Some suite \<Rightarrow> suite)
      in if valid_suite ctx matching then Some matching else ssl2_choose ctx matching ks)"

definition ssl2_server_cert ::
  "platform \<Rightarrow> bytes \<Rightarrow> SSLContext \<Rightarrow> (OSStatus \<times> SSLContext) option" where
  "ssl2_server_cert P der ctx =
     (if \<not> mallocOk P 16 \<or> \<not> mallocOk P (length der) then Some (memFullErr, ctx)
      else do {
        (err, ctx) \<leftarrow> sslVerifyCertChain P [der] True (ctx\<lparr>peerCert := [der]\<rparr>);
        if err \<noteq> noErr then Some (err, ctx)
        else case sslPubKeyFromCert P ctx der of (err, key, csp) \<Rightarrow>
          Some (err, ctx\<lparr>peerPubKey := key, peerPubKeyCsp := csp\<rparr>) })"

definition SSL2ProcessServerHello :: "platform \<Rightarrow> bytes \<Rightarrow> SSLContext \<Rightarrow> (OSStatus \<times> SSLContext) option" where
  "SSL2ProcessServerHello P m ctx =
     (if length m < 10 \<or> SSLDecodeInt (drop 2 m) 2 \<noteq> SSL_Version_2_0 then Some (errSSLProtocol, ctx)
      else
        (let ctx = ctx\<lparr>negProtocolVersion := SSL_Version_2_0\<rparr>;
             certLen = unat (SSLDecodeInt (drop 4 m) 2);
             cipherSpecsLen = unat (SSLDecodeInt (drop 6 m) 2);
             connectionIDLen = unat (SSLDecodeInt (drop 8 m) 2);
             connectionID = drop (10 + certLen + cipherSpecsLen) m;
             connected = (\<lambda>ctx. ctx\<lparr>ssl2ConnectionIDLength := connectionIDLen,
                                   serverRandom := put_at 0 connectionID (serverRandom ctx)\<rparr>)
         in
         if connectionIDLen < 16 \<or> connectionIDLen > 32 \<or> cipherSpecsLen mod 3 \<noteq> 0 \<or>
            length m \<noteq> 10 + certLen + cipherSpecsLen + connectionIDLen
         then Some (errSSLProtocol, ctx)
         else if m ! 0 \<noteq> 0
         then if certLen \<noteq> 0 \<or> cipherSpecsLen \<noteq> 0 then Some (errSSLProtocol, ctx)
              else Some (noErr, connected (ctx\<lparr>sessionMatch := 1\<rparr>))
         else if m ! 1 \<noteq> SSL2_CertTypeX509 then Some (errSSLNegotiation, ctx)
         else do {
           (err, ctx) \<leftarrow> ssl2_server_cert P (take certLen (drop 10 m)) ctx;
           if err \<noteq> noErr then Some (err, ctx)
           else case ssl2_choose ctx 0 (cipher_kinds (cipherSpecsLen div 3) (drop (10 + certLen) m)) of
             None \<Rightarrow> Some (errSSLNegotiation, ctx)
           | Some suite \<Rightarrow> do {
               (err, ctx) \<leftarrow> FindCipherSpec (ctx\<lparr>selectedCipher := ucast suite\<rparr>);
               Some (err, if err \<noteq> noErr then ctx else connected ctx) }}))"

definition SSL2EncodeServerHello :: EncodeSSL2MessageFunc where
  "SSL2EncodeServerHello P ctx =
     (case sslRand P 16 (ctx\<lparr>ssl2ConnectionIDLength := 16\<rparr>) of (err, r, ctx) \<Rightarrow>
       (let ctx = ctx\<lparr>serverRandom := put_at 0 r (serverRandom ctx)\<rparr>;
            sidLen = length (octets (sessionID ctx));
            hello = (\<lambda>certType certLen specsLen. [SSL2_MsgServerHello, of_nat (sessionMatch ctx), certType] @
              SSLEncodeInt (negProtocolVersion ctx) 2 @ SSLEncodeInt (of_nat certLen) 2 @ SSLEncodeInt specsLen 2 @ SSLEncodeInt 16 2)
        in
        if err \<noteq> noErr then Some (err, [], ctx)
        else if sessionMatch ctx \<noteq> 0
        then if \<not> mallocOk P (11 + sidLen) then Some (memFullErr, [], ctx)
             else if sidLen \<noteq> 16 then None
             else Some (noErr, hello 0 0 0 @ take 16 (serverRandom ctx), ctx)
        else if encryptCert ctx = [] \<and> localCert ctx = [] then Some (badReqErr, [], ctx)
        else
          (let cert = last (if encryptCert ctx \<noteq> [] then encryptCert ctx else localCert ctx) in
           if \<not> mallocOk P (14 + length cert + sidLen) then Some (memFullErr, [], ctx)
           else do {
             kind \<leftarrow> kind_of_suite (ucast (selectedCipher ctx));
             if sidLen \<noteq> 16 then None
             else Some (noErr, hello SSL2_CertTypeX509 (length cert) 3 @ cert @ SSLEncodeInt kind 3 @ take 16 (serverRandom ctx), ctx) })))"

subsection \<open>Verify and Finished\<close>

text \<open>The comparison reads \<open>ssl2ConnectionIDLength\<close> octets of a message as long as the session identifier.\<close>

definition SSL2ProcessClientFinished :: "bytes \<Rightarrow> SSLContext \<Rightarrow> OSStatus option" where
  "SSL2ProcessClientFinished m ctx =
     (let n = ssl2ConnectionIDLength ctx in
      if length m \<noteq> length (octets (sessionID ctx)) then Some errSSLProtocol
      else if n > length m then None
      else Some (if take n m \<noteq> take n (serverRandom ctx) then errSSLProtocol else noErr))"

definition SSL2EncodeClientFinished :: EncodeSSL2MessageFunc where
  "SSL2EncodeClientFinished P ctx =
     (let n = ssl2ConnectionIDLength ctx in
      if \<not> mallocOk P (n + 1) then Some (memFullErr, [], ctx)
      else Some (noErr, SSL2_MsgClientFinished # take n (serverRandom ctx), ctx))"

definition SSL2ProcessServerVerify :: "bytes \<Rightarrow> SSLContext \<Rightarrow> OSStatus" where
  "SSL2ProcessServerVerify m ctx =
     (if length m \<noteq> ssl2ChallengeLength ctx \<or> m \<noteq> ssl2_challenge ctx then errSSLProtocol else noErr)"

definition SSL2EncodeServerVerify :: EncodeSSL2MessageFunc where
  "SSL2EncodeServerVerify P ctx =
     (if \<not> mallocOk P (1 + ssl2ChallengeLength ctx) then Some (memFullErr, [], ctx)
      else Some (noErr, SSL2_MsgServerVerify # ssl2_challenge ctx, ctx))"

definition SSL2ProcessServerFinished :: "platform \<Rightarrow> bytes \<Rightarrow> SSLContext \<Rightarrow> OSStatus \<times> SSLContext" where
  "SSL2ProcessServerFinished P m ctx =
     (case SSLAllocBuffer P (length m) of (err, buf) \<Rightarrow>
        (err, ctx\<lparr>sessionID := (if err = noErr then Some m else buf)\<rparr>))"

definition SSL2EncodeServerFinished :: EncodeSSL2MessageFunc where
  "SSL2EncodeServerFinished P ctx =
     (let sid = octets (sessionID ctx) in
      if \<not> mallocOk P (1 + length sid) then Some (memFullErr, [], ctx)
      else Some (noErr, SSL2_MsgServerFinished # sid, ctx))"

section \<open>The protocol engine\<close>

text \<open>The message has been queued when the digests absorb it.\<close>

definition SSL2PrepareAndQueueMessage :: "platform \<Rightarrow> EncodeSSL2MessageFunc \<Rightarrow> SSLContext \<Rightarrow> (OSStatus \<times> SSLContext) option" where
  "SSL2PrepareAndQueueMessage P encodeFunc ctx =
     do { (err, m, ctx) \<leftarrow> encodeFunc P ctx;
          if err \<noteq> noErr then Some (err, ctx) else do {
          (err, ctx) \<leftarrow> call_writeRecord P \<lparr>contentType = SSL_RecordTypeV2_0, protocolVersion = SSL_Version_2_0, contents = m\<rparr> ctx;
          if err \<noteq> noErr then Some (err, ctx)
          else if negProtocolVersion ctx \<noteq> SSL_Version_Undetermined \<and> negProtocolVersion ctx \<noteq> SSL_Version_2_0 then None
          else if negProtocolVersion ctx = SSL_Version_Undetermined \<and> (versionSsl3Enable ctx \<or> versionTls1Enable ctx)
          then do {
            (err, st) \<leftarrow> hash_update SSLHashSHA1 (shaState ctx) m;
            let ctx = ctx\<lparr>shaState := st\<rparr>;
            if err \<noteq> noErr then Some (err, ctx) else do {
            (err, st) \<leftarrow> hash_update SSLHashMD5 (md5State ctx) m;
            Some (err, ctx\<lparr>md5State := st\<rparr>) }}
          else Some (noErr, ctx) }}"

definition SSL2CompareSessionIDs :: "platform \<Rightarrow> SSLContext \<Rightarrow> (OSStatus \<times> SSLContext) option" where
  "SSL2CompareSessionIDs P ctx =
     (let ctx = ctx\<lparr>sessionMatch := 0\<rparr> in
      case resumableSession ctx of
        None \<Rightarrow> Some (noErr, ctx)
      | Some sess \<Rightarrow> do {
          (err, sid) \<leftarrow> SSLRetrieveSessionID P sess;
          Some (err, if err = noErr \<and> octets sid = octets (sessionID ctx) then ctx\<lparr>sessionMatch := 1\<rparr> else ctx) })"

definition SSL2InstallSessionKey :: "platform \<Rightarrow> SSLContext \<Rightarrow> (OSStatus \<times> SSLContext) option" where
  "SSL2InstallSessionKey P ctx =
     (if sessionMatch ctx = 0 then None
      else do { sess \<leftarrow> resumableSession ctx; SSLInstallSessionFromData P sess ctx })"

definition SSL2GenerateSessionID :: "platform \<Rightarrow> SSLContext \<Rightarrow> OSStatus \<times> SSLContext" where
  "SSL2GenerateSessionID P ctx =
     (case SSLAllocBuffer P 16 of (err, buf) \<Rightarrow>
        if err \<noteq> noErr then (err, ctx\<lparr>sessionID := buf\<rparr>)
        else case sslRand P 16 ctx of (err, r, ctx) \<Rightarrow> (err, ctx\<lparr>sessionID := Some r\<rparr>))"

text \<open>The key material: MD5 digests of the master key, the digit \<open>0\<close>, \<open>1\<close>, \dots, the challenge and the connection identifier.\<close>

fun ssl2_key_loop :: "platform \<Rightarrow> digestCtx \<Rightarrow> bytes \<Rightarrow> bytes \<Rightarrow> byte \<Rightarrow> nat \<Rightarrow> bytes \<Rightarrow> (OSStatus \<times> bytes) option" where
  "ssl2_key_loop P st masterKey tail variantChar n key =
     (if n = 0 then Some (noErr, key)
      else if n < 16 then None
      else do {
        (err, d, st) \<leftarrow> digest_run P SSLHashMD5 st [masterKey, [variantChar], tail];
        if err \<noteq> noErr then Some (err, key)
        else ssl2_key_loop P st masterKey tail (variantChar + 1) (n - 16) (key @ d) })"

declare ssl2_key_loop.simps [simp del]

definition ssl2_pending :: "SSLCipherSpec \<Rightarrow> CipherContext \<Rightarrow> CipherContext \<Rightarrow> CipherContext" where
  "ssl2_pending cs current pending =
     pending\<lparr>macRef := macAlgorithm cs, symCipher := cipher cs, sequenceNum := sequenceNum current\<rparr>"

definition ssl2_install :: "platform \<Rightarrow> SSLCipherSpec \<Rightarrow> bytes \<Rightarrow> SSLContext \<Rightarrow> (OSStatus \<times> SSLContext) option" where
  "ssl2_install P cs key ctx =
     do { let n = keySize (cipher cs);
          let readKey = (if protocolSide ctx = SSL_ServerSide then drop n key else take n key);
          let writeKey = (if protocolSide ctx = SSL_ServerSide then take n key else drop n key);
          let iv = take (ivSize (cipher cs)) (drop n (masterSecret ctx));
          (err, rp, g) \<leftarrow> cipher_initialize P (ctxCspHand ctx) (g_resolved ctx) readKey iv (readPending ctx);
          let ctx = ctx\<lparr>readPending := rp, g_resolved := g\<rparr>;
          if err \<noteq> noErr then Some (err, ctx) else do {
          (err, wp, g) \<leftarrow> cipher_initialize P (ctxCspHand ctx) (g_resolved ctx) writeKey iv (writePending ctx);
          let ctx = ctx\<lparr>writePending := wp, g_resolved := g\<rparr>;
          if err \<noteq> noErr then Some (err, ctx) else do {
          rp \<leftarrow> copy_macSecret n readKey (readPending ctx);
          wp \<leftarrow> copy_macSecret n writeKey (writePending ctx);
          Some (noErr, ctx\<lparr>readCipher := rp, writeCipher := wp, readPending := zeroed_cipher, writePending := zeroed_cipher\<rparr>) }}}"

definition SSL2InitCiphers :: "platform \<Rightarrow> SSLContext \<Rightarrow> (OSStatus \<times> SSLContext) option" where
  "SSL2InitCiphers P ctx =
     do { cs \<leftarrow> selectedCipherSpec ctx;
          let n = keySize (cipher cs);
          if \<not> mallocOk P (2 * n) then Some (memFullErr, ctx)
          else case SSLAllocBuffer P (contextSize P SSLHashMD5) of (err, st) \<Rightarrow>
            if err \<noteq> noErr then Some (err, ctx) else do {
            (err, key) \<leftarrow> ssl2_key_loop P st (take n (masterSecret ctx))
               (ssl2_challenge ctx @ take (ssl2ConnectionIDLength ctx) (serverRandom ctx)) 0x30 (2 * n) [];
            if err \<noteq> noErr then Some (err, ctx)
            else ssl2_install P cs key (ctx\<lparr>readPending := ssl2_pending cs (readCipher ctx) (readPending ctx),
                   writePending := ssl2_pending cs (writeCipher ctx) (writePending ctx)\<rparr>) }}"

text \<open>The server's answer to a client whose keys are known.\<close>

definition ssl2_server_keys :: "platform \<Rightarrow> SSLContext \<Rightarrow> (OSStatus \<times> SSLContext) option" where
  "ssl2_server_keys P ctx =
     do { (err, ctx) \<leftarrow> SSL2InitCiphers P ctx;
          if err \<noteq> noErr then Some (err, ctx) else do {
          (err, ctx) \<leftarrow> SSL2PrepareAndQueueMessage P SSL2EncodeServerVerify ctx;
          if err \<noteq> noErr then Some (err, ctx) else do {
          (err, ctx) \<leftarrow> SSL2PrepareAndQueueMessage P SSL2EncodeServerFinished ctx;
          Some (err, if err \<noteq> noErr then ctx else ctx\<lparr>state := SSL2_HdskStateClientFinished\<rparr>) }}}"

definition ssl2_after_ClientHello :: "platform \<Rightarrow> SSLContext \<Rightarrow> (OSStatus \<times> SSLContext) option" where
  "ssl2_after_ClientHello P ctx =
     do { (err, ctx) \<leftarrow> SSL2CompareSessionIDs P ctx;
          if err \<noteq> noErr then Some (err, ctx)
          else case (if sessionMatch ctx = 0 then SSL2GenerateSessionID P ctx else (noErr, ctx)) of (err, ctx) \<Rightarrow>
            if err \<noteq> noErr then Some (err, ctx) else do {
            (err, ctx) \<leftarrow> SSL2PrepareAndQueueMessage P SSL2EncodeServerHello ctx;
            if err \<noteq> noErr then Some (err, ctx)
            else if sessionMatch ctx = 0 then Some (noErr, ctx\<lparr>state := SSL2_HdskStateClientMasterKey\<rparr>)
            else do {
              (err, ctx) \<leftarrow> SSL2InstallSessionKey P ctx;
              if err \<noteq> noErr then Some (err, ctx) else ssl2_server_keys P ctx }}}"

definition ssl2_after_ServerHello :: "platform \<Rightarrow> SSLContext \<Rightarrow> (OSStatus \<times> SSLContext) option" where
  "ssl2_after_ServerHello P ctx =
     do { (err, ctx) \<leftarrow> (if sessionMatch ctx = 0 then SSL2PrepareAndQueueMessage P SSL2EncodeClientMasterKey ctx
                        else SSL2InstallSessionKey P ctx);
          if err \<noteq> noErr then Some (err, ctx) else do {
          (err, ctx) \<leftarrow> SSL2InitCiphers P ctx;
          if err \<noteq> noErr then Some (err, ctx) else do {
          (err, ctx) \<leftarrow> SSL2PrepareAndQueueMessage P SSL2EncodeClientFinished ctx;
          Some (err, if err \<noteq> noErr then ctx else ctx\<lparr>state := SSL2_HdskStateServerVerify\<rparr>) }}}"

text \<open>The handshake is complete; the status of \<open>SSLAddSessionData\<close> is ignored.\<close>

definition ssl2_complete ::
  "platform \<Rightarrow> SSLProtocolSide \<Rightarrow> SSLHandshakeState \<Rightarrow> SSLContext \<Rightarrow> (OSStatus \<times> SSLContext) option" where
  "ssl2_complete P side st ctx =
     (if protocolSide ctx \<noteq> side then None
      else do {
        let ctx = ctx\<lparr>writeCipher := (writeCipher ctx)\<lparr>ready := True\<rparr>, readCipher := (readCipher ctx)\<lparr>ready := True\<rparr>, state := st\<rparr>;
        if peerID ctx \<noteq> None then do { (ignored, ctx) \<leftarrow> SSLAddSessionData P ctx; Some (noErr, ctx) }
        else Some (noErr, ctx) })"

definition ssl2_kickstart :: "platform \<Rightarrow> SSLContext \<Rightarrow> (OSStatus \<times> SSLContext) option" where
  "ssl2_kickstart P ctx =
     (if negProtocolVersion ctx \<noteq> SSL_Version_Undetermined \<or> \<not> versionSsl2Enable ctx then None
      else do {
        let upgrade = (versionSsl3Enable ctx \<or> versionTls1Enable ctx);
        (err, ctx) \<leftarrow> (if upgrade then SSLInitMessageHashes P ctx else Some (noErr, ctx));
        if err \<noteq> noErr then Some (err, ctx) else do {
        (err, ctx) \<leftarrow> SSL2PrepareAndQueueMessage P SSL2EncodeClientHello ctx;
        Some (err, if err \<noteq> noErr then ctx
          else ctx\<lparr>state := (if upgrade then SSL_HdskStateServerHelloUnknownVersion else SSL2_HdskStateServerHello)\<rparr>) }})"

definition SSL2AdvanceHandshake :: "platform \<Rightarrow> byte \<Rightarrow> SSLContext \<Rightarrow> (OSStatus \<times> SSLContext) option" where
  "SSL2AdvanceHandshake P msg ctx =
     (if msg = SSL2_MsgKickstart then ssl2_kickstart P ctx
      else if msg = SSL2_MsgClientHello then ssl2_after_ClientHello P ctx
      else if msg = SSL2_MsgClientMasterKey then ssl2_server_keys P ctx
      else if msg = SSL2_MsgServerHello then ssl2_after_ServerHello P ctx
      else if msg = SSL2_MsgClientFinished then ssl2_complete P SSL_ServerSide SSL_HdskStateServerReady ctx
      else if msg = SSL2_MsgServerVerify then Some (noErr, ctx\<lparr>state := SSL2_HdskStateServerFinished\<rparr>)
      else if msg = SSL2_MsgRequestCert then SSL2SendError P SSL2_ErrNoCert ctx
      else if msg = SSL2_MsgServerFinished then ssl2_complete P SSL_ClientSide SSL_HdskStateClientReady ctx
      else if msg = SSL2_MsgError \<or> msg = SSL2_MsgClientCert then Some (errSSLProtocol, ctx)
      else Some (noErr, ctx))"

text \<open>A refusal for want of a common suite is also told to the peer.\<close>

definition ssl2_hello_error :: "platform \<Rightarrow> OSStatus \<times> SSLContext \<Rightarrow> (OSStatus \<times> SSLContext) option" where
  "ssl2_hello_error P r =
     (case r of (err, ctx) \<Rightarrow>
        if err = errSSLNegotiation then do { (ignored, ctx) \<leftarrow> SSL2SendError P SSL2_ErrNoCipher ctx; Some (err, ctx) }
        else Some (err, ctx))"

definition ssl2_expected :: "byte \<Rightarrow> SSLContext \<Rightarrow> bool" where
  "ssl2_expected msg ctx =
     (if msg = SSL2_MsgError \<or> msg = SSL2_MsgRequestCert then True
      else if msg = SSL2_MsgClientHello then state ctx = SSL_HdskStateServerUninit
      else if msg = SSL2_MsgClientMasterKey then state ctx = SSL2_HdskStateClientMasterKey
      else if msg = SSL2_MsgClientFinished then state ctx = SSL2_HdskStateClientFinished
      else if msg = SSL2_MsgServerHello then state ctx \<in> {SSL2_HdskStateServerHello, SSL_HdskStateServerHelloUnknownVersion}
      else if msg = SSL2_MsgServerVerify then state ctx = SSL2_HdskStateServerVerify
      else if msg = SSL2_MsgServerFinished then state ctx = SSL2_HdskStateServerFinished
      else False)"

definition ssl2_decode :: "platform \<Rightarrow> byte \<Rightarrow> bytes \<Rightarrow> SSLContext \<Rightarrow> (OSStatus \<times> SSLContext) option" where
  "ssl2_decode P msg body ctx =
     (if msg = SSL2_MsgError then Some (errSSLClosedAbort, ctx)
      else if msg = SSL2_MsgClientHello then do { r \<leftarrow> SSL2ProcessClientHello P body ctx; ssl2_hello_error P r }
      else if msg = SSL2_MsgClientMasterKey then SSL2ProcessClientMasterKey P body ctx
      else if msg = SSL2_MsgClientFinished then with_ctx ctx (SSL2ProcessClientFinished body ctx)
      else if msg = SSL2_MsgServerHello then do { r \<leftarrow> SSL2ProcessServerHello P body ctx; ssl2_hello_error P r }
      else if msg = SSL2_MsgServerVerify then Some (SSL2ProcessServerVerify body ctx, ctx)
      else if msg = SSL2_MsgServerFinished then Some (SSL2ProcessServerFinished P body ctx)
      else Some (noErr, ctx))"

definition SSL2ProcessMessage :: "platform \<Rightarrow> SSLRecord \<Rightarrow> SSLContext \<Rightarrow> (OSStatus \<times> SSLContext) option" where
  "SSL2ProcessMessage P rec ctx =
     (let msg = contents rec ! 0 in
      if length (contents rec) < 2 \<or> \<not> ssl2_expected msg ctx then Some (errSSLProtocol, ctx)
      else do {
        (err, ctx) \<leftarrow> ssl2_decode P msg (drop 1 (contents rec)) ctx;
        if err \<noteq> noErr then Some (err, ctx)
        else if msg = SSL2_MsgClientHello \<and> negProtocolVersion ctx \<ge> SSL_Version_3_0
        then SSL3ReceiveSSL2ClientHello P rec ctx
        else SSL2AdvanceHandshake P msg ctx })"

end
