(* ===== verification/Transport.thy ===== *)
theory Transport
  imports Alert_Receive Ssl2
begin

text \<open>
  Model of \<open>sslTransport.c\<close>, the interface of the application: \<open>SSLHandshake\<close>, \<open>SSLRead\<close>, \<open>SSLWrite\<close>
  (\<open>SSLClose\<close> and the write queue are in \<open>Write_Queue\<close>). Their loops end when the connection makes
  progress; a loop that does not end has the value \<open>None\<close>.

  \<open>SSLRead\<close> returns the octets it has written to the application's buffer, whose length is
  \<open>*processed\<close>. \<open>SSL_ECDSA_HACK\<close> is off.
\<close>

definition SSLProcessProtocolMessage :: "platform \<Rightarrow> SSLRecord \<Rightarrow> SSLContext \<Rightarrow> (OSStatus \<times> SSLContext) option" where
  "SSLProcessProtocolMessage P rec ctx =
     (if contentType rec = SSL_RecordTypeHandshake then SSLProcessHandshakeRecord P rec ctx
      else if contentType rec = SSL_RecordTypeAlert then SSLProcessAlert P rec ctx
      else if contentType rec = SSL_RecordTypeChangeCipher then SSLProcessChangeCipherSpec P rec ctx
      else if contentType rec = SSL_RecordTypeV2_0 then SSL2ProcessMessage P rec ctx
      else Some (errSSLProtocol, ctx))"

section \<open>Handshaking\<close>

text \<open>A stored session is used only when its version is enabled; an unknown version is an assertion.\<close>

definition drop_disabled_session :: "SSLContext \<Rightarrow> (OSStatus \<times> SSLContext) option" where
  "drop_disabled_session ctx =
     (case resumableSession ctx of
        None \<Rightarrow> Some (noErr, ctx)
      | Some sess \<Rightarrow> do {
          (err, savedVersion) \<leftarrow> SSLRetrieveSessionProtocolVersion sess;
          if err \<noteq> noErr then Some (err, ctx)
          else if \<not> knownVersion savedVersion then None
          else Some (noErr, if versionEnabled ctx savedVersion then ctx else ctx\<lparr>resumableSession := None\<rparr>) })"

definition SSLInitConnection :: "platform \<Rightarrow> SSLContext \<Rightarrow> (OSStatus \<times> SSLContext) option" where
  "SSLInitConnection P ctx =
     do { let ctx = ctx\<lparr>state := (if protocolSide ctx = SSL_ClientSide then SSL_HdskStateClientUninit else SSL_HdskStateServerUninit)\<rparr>;
          let ctx = (if peerID ctx = None then ctx
                     else case SSLGetSessionData P ctx of (ignored, sess, ctx) \<Rightarrow> ctx\<lparr>resumableSession := sess\<rparr>);
          (err, ctx) \<leftarrow> drop_disabled_session ctx;
          if err \<noteq> noErr then Some (err, ctx)
          else if state ctx = SSL_HdskStateClientUninit \<and> \<not> ready (writeCipher ctx)
          then if negProtocolVersion ctx \<noteq> SSL_Version_Undetermined then None
               else SSLAdvanceHandshake P SSL_HdskHelloRequest ctx
          else Some (noErr, ctx) }"

text \<open>The part of a step that comes before reading: what the application waits for, the first hello, the client's flight.\<close>

definition before_reading :: "platform \<Rightarrow> SSLContext \<Rightarrow> (OSStatus \<times> SSLContext) option" where
  "before_reading P ctx =
     (if signalServerAuth ctx then Some (errSSLServerAuthCompleted, ctx\<lparr>signalServerAuth := False\<rparr>)
      else if signalCertRequest ctx then Some (errSSLClientCertRequested, ctx\<lparr>signalCertRequest := False\<rparr>)
      else do {
        (err, ctx) \<leftarrow> (if state ctx = SSL_HdskStateUninit then SSLInitConnection P ctx else Some (noErr, ctx));
        if err \<noteq> noErr then Some (err, ctx) else do {
        (err, ctx) \<leftarrow> (if protocolSide ctx = SSL_ClientSide \<and> state ctx = SSL_HdskStateClientCert
           then SSLAdvanceHandshake P SSL_HdskServerHelloDone ctx else Some (noErr, ctx));
        if err \<noteq> noErr then Some (err, ctx) else SSLServiceWriteQueue P ctx }})"

definition SSLHandshakeProceed :: "platform \<Rightarrow> SSLContext \<Rightarrow> (OSStatus \<times> SSLContext) option" where
  "SSLHandshakeProceed P ctx =
     do { (err, ctx) \<leftarrow> before_reading P ctx;
          if err \<noteq> noErr then Some (err, ctx)
          else if ready (readCipher ctx) then None
          else do {
            (err, rec, ctx) \<leftarrow> SSLReadRecord P ctx;
            if err \<noteq> noErr then Some (err, ctx)
            else do { r \<leftarrow> rec; SSLProcessProtocolMessage P r ctx } }}"

partial_function (option) proceed_until ::
  "platform \<Rightarrow> (SSLContext \<Rightarrow> bool) \<Rightarrow> SSLContext \<Rightarrow> (OSStatus \<times> SSLContext) option" where
  "proceed_until P finished ctx =
     (if finished ctx then Some (noErr, ctx)
      else do { (err, ctx) \<leftarrow> SSLHandshakeProceed P ctx;
                if err \<noteq> noErr then Some (err, ctx) else proceed_until P finished ctx })"

definition SSLHandshake :: "platform \<Rightarrow> SSLContext \<Rightarrow> (OSStatus \<times> SSLContext) option" where
  "SSLHandshake P ctx =
     (if state ctx = SSL_HdskStateGracefulClose then Some (errSSLClosedGraceful, ctx)
      else if state ctx = SSL_HdskStateErrorClose then Some (errSSLClosedAbort, ctx)
      else do {
        (err, ctx) \<leftarrow> (if validCipherSpecs ctx = None then sslBuildCipherSpecArray P ctx else Some (noErr, ctx));
        if err \<noteq> noErr then Some (err, ctx) else do {
        (err, ctx) \<leftarrow> proceed_until P (\<lambda>ctx. ready (readCipher ctx) \<and> ready (writeCipher ctx)) ctx;
        if err \<noteq> noErr then Some (err, ctx) else SSLServiceWriteQueue P ctx }})"

section \<open>Writing\<close>

text \<open>\<open>MAX_RECORD_LENGTH\<close>.\<close>

definition MAX_RECORD_LENGTH :: nat where
  "MAX_RECORD_LENGTH = 16300"

function queue_data :: "platform \<Rightarrow> bytes \<Rightarrow> SSLContext \<Rightarrow> (OSStatus \<times> SSLContext) option" where
  "queue_data P data ctx =
     (if data = [] then Some (noErr, ctx)
      else do {
        (err, ctx) \<leftarrow> call_writeRecord P \<lparr>contentType = SSL_RecordTypeAppData, protocolVersion = negProtocolVersion ctx,
           contents = take MAX_RECORD_LENGTH data\<rparr> ctx;
        if err \<noteq> noErr then Some (err, ctx) else queue_data P (drop MAX_RECORD_LENGTH data) ctx })"
  by pat_completeness auto
termination
  by (relation "measure (\<lambda>(P, data, ctx). length data)") (auto simp: MAX_RECORD_LENGTH_def)

declare queue_data.simps [simp del]

text \<open>Errors after which the connection can still be used.\<close>

definition harmless :: "OSStatus set" where
  "harmless = {noErr, errSSLWouldBlock, errSSLServerAuthCompleted, errSSLClientCertRequested, errSSLClosedGraceful}"

definition error_close :: "OSStatus set \<Rightarrow> OSStatus \<Rightarrow> SSLContext \<Rightarrow> SSLContext" where
  "error_close ok err ctx = (if err \<in> ok then ctx else ctx\<lparr>state := SSL_HdskStateErrorClose\<rparr>)"

text \<open>The states below \<open>SSL_HdskStateServerHello\<close> in the enumeration.\<close>

definition before_handshake :: "SSLHandshakeState \<Rightarrow> bool" where
  "before_handshake st \<longleftrightarrow>
     st \<in> {SSL_HdskStateUninit, SSL_HdskStateServerUninit, SSL_HdskStateClientUninit, SSL_HdskStateGracefulClose,
           SSL_HdskStateErrorClose, SSL_HdskStateNoNotifyClose}"

definition SSLWrite :: "platform \<Rightarrow> bytes \<Rightarrow> SSLContext \<Rightarrow> (OSStatus \<times> nat \<times> SSLContext) option" where
  "SSLWrite P data ctx =
     (if state ctx = SSL_HdskStateGracefulClose then Some (errSSLClosedGraceful, 0, ctx)
      else if state ctx = SSL_HdskStateErrorClose then Some (errSSLClosedAbort, 0, ctx)
      else if before_handshake (state ctx) then Some (badReqErr, 0, ctx)
      else do {
        (err, ctx) \<leftarrow> proceed_until P (ready \<circ> writeCipher) ctx;
        if err \<noteq> noErr then Some (err, 0, error_close harmless err ctx) else do {
        (err, ctx) \<leftarrow> SSLServiceWriteQueue P ctx;
        if err \<noteq> noErr then Some (err, 0, ctx) else do {
        (err, ctx) \<leftarrow> queue_data P data ctx;
        if err \<noteq> noErr then Some (err, 0, error_close harmless err ctx) else do {
        (err, ctx) \<leftarrow> SSLServiceWriteQueue P ctx;
        Some (err, length data, error_close harmless err ctx) }}}})"

section \<open>Reading\<close>

text \<open>Octets of an earlier record that the application has not taken yet.\<close>

definition take_buffered :: "nat \<Rightarrow> SSLContext \<Rightarrow> (bytes \<times> SSLContext) option" where
  "take_buffered n ctx =
     (case receivedDataBuffer ctx of
        None \<Rightarrow> if receivedDataPos ctx \<noteq> 0 then None else Some ([], ctx)
      | Some buf \<Rightarrow>
          if receivedDataPos ctx > length buf then None
          else let got = take n (drop (receivedDataPos ctx) buf); pos = receivedDataPos ctx + length got in
               Some (got, if pos \<ge> length buf then ctx\<lparr>receivedDataBuffer := None, receivedDataPos := 0\<rparr>
                          else ctx\<lparr>receivedDataPos := pos\<rparr>))"

text \<open>One more record, when there is room: data, or a message of the protocol.\<close>

definition read_more :: "platform \<Rightarrow> nat \<Rightarrow> SSLContext \<Rightarrow> (OSStatus \<times> bytes \<times> SSLContext) option" where
  "read_more P remaining ctx =
     (if remaining = 0 \<or> state ctx = SSL_HdskStateGracefulClose then Some (noErr, [], ctx)
      else if receivedDataBuffer ctx \<noteq> None then None
      else do {
        (err, rec, ctx) \<leftarrow> SSLReadRecord P ctx;
        if err \<noteq> noErr then Some (err, [], ctx) else do {
        r \<leftarrow> rec;
        if contentType r = SSL_RecordTypeAppData \<or> contentType r = SSL_RecordTypeV2_0
        then Some (noErr, take remaining (contents r),
               if length (contents r) \<le> remaining then ctx
               else ctx\<lparr>receivedDataBuffer := Some (contents r), receivedDataPos := remaining\<rparr>)
        else do { (err, ctx) \<leftarrow> SSLProcessProtocolMessage P r ctx; Some (err, [], ctx) } }})"

definition read_data :: "platform \<Rightarrow> nat \<Rightarrow> SSLContext \<Rightarrow> (OSStatus \<times> bytes \<times> SSLContext) option" where
  "read_data P n ctx =
     do { (err, ctx) \<leftarrow> proceed_until P (ready \<circ> readCipher) ctx;
          if err \<noteq> noErr then Some (err, [], ctx) else do {
          (err, ctx) \<leftarrow> SSLServiceWriteQueue P ctx;
          if err \<noteq> noErr \<and> err \<noteq> errSSLWouldBlock then Some (err, [], ctx) else do {
          (got, ctx) \<leftarrow> take_buffered n ctx;
          (err, fresh, ctx) \<leftarrow> read_more P (n - length got) ctx;
          Some (err, got @ fresh, ctx) }}}"

text \<open>The whole operation starts again when a record has brought no data.\<close>

partial_function (option) SSLRead :: "platform \<Rightarrow> nat \<Rightarrow> SSLContext \<Rightarrow> (OSStatus \<times> bytes \<times> SSLContext) option" where
  "SSLRead P n ctx =
     (if state ctx = SSL_HdskStateGracefulClose then Some (errSSLClosedGraceful, [], ctx)
      else if state ctx = SSL_HdskStateErrorClose then Some (errSSLClosedAbort, [], ctx)
      else if state ctx = SSL_HdskStateNoNotifyClose then Some (errSSLClosedNoNotify, [], ctx)
      else do {
        (err, got, ctx) \<leftarrow> read_data P n ctx;
        if err = noErr \<and> got = [] \<and> n \<noteq> 0 then SSLRead P n ctx
        else Some (err, got, error_close (insert errSSLClosedNoNotify harmless) err ctx) })"

definition SSLGetBufferedReadSize :: "SSLContext \<Rightarrow> nat option" where
  "SSLGetBufferedReadSize ctx =
     (case receivedDataBuffer ctx of
        None \<Rightarrow> Some 0
      | Some buf \<Rightarrow> if receivedDataPos ctx > length buf then None else Some (length buf - receivedDataPos ctx))"

end
