(* ===== verification/Frames.thy ===== *)
theory Frames
  imports Handshake
begin

text \<open>
  What the messages of a peer cannot change. The configuration of a connection is what the
  application has set: role, enabled versions and suites, keys, certificates, trust anchors and
  options. Every operation that runs during a handshake leaves it as it was, and the application
  data that waits to be read; with three exceptions (a new hello, ChangeCipherSpec, Finished) also
  the cipher that protects incoming records.
\<close>

section \<open>The view of a connection\<close>

definition configuration where
  "configuration ctx = (
     ioReadFunc ctx, ioWriteFunc ctx, ioRef ctx,
     protocolSide ctx, versionSsl2Enable ctx, versionSsl3Enable ctx, versionTls1Enable ctx,
     versionTls11Enable ctx, versionTls12Enable ctx, maxProtocolVersion ctx, signingPrivKeyRef ctx,
     signingPubKey ctx, encryptPrivKeyRef ctx, encryptPubKey ctx, localCert ctx, encryptCert ctx,
     ourSignerAlg ctx, localCertArray ctx, encryptCertArray ctx, trustedCerts ctx, trustedLeafCerts ctx,
     ctxCspHand ctx, tpHand ctx, clHand ctx, ecdhCurves ctx,
     allowExpiredCerts ctx, allowExpiredRoots ctx, enableCertVerify ctx, peerID ctx, peerDomainName ctx,
     peerDomainNameLen ctx, acceptableCAs ctx, masterSecretArg ctx,
     validCipherSpecs ctx, numValidNonSSLv2Specs ctx, clientAuth ctx, allowAnyRoot ctx, rsaBlindingEnable ctx,
     sessionCacheTimeout ctx, sessionTicket ctx, masterSecretCallback ctx, anonCipherEnable ctx,
     weakCipherEnable ctx, breakOnServerAuth ctx, breakOnCertRequest ctx, ecdsaEnable ctx)"

text \<open>With the application data that has been read and not yet handed out.\<close>

definition steady where
  "steady ctx = (configuration ctx, receivedDataBuffer ctx, receivedDataPos ctx)"

definition view where
  "view ctx = (steady ctx, readCipher ctx)"

text \<open>The fields that the handshake works on are not part of it.\<close>

lemma view_update [simp]:
  "view (ctx\<lparr>negProtocolVersion := v0\<rparr>) = view ctx" "view (ctx\<lparr>clientReqProtocol := v1\<rparr>) = view ctx"
  "view (ctx\<lparr>sslTslCalls := v2\<rparr>) = view ctx" "view (ctx\<lparr>peerPubKey := v3\<rparr>) = view ctx"
  "view (ctx\<lparr>peerPubKeyCsp := v4\<rparr>) = view ctx" "view (ctx\<lparr>peerCert := v5\<rparr>) = view ctx"
  "view (ctx\<lparr>peerSecTrust := v6\<rparr>) = view ctx" "view (ctx\<lparr>dhParamsPrime := v7\<rparr>) = view ctx"
  "view (ctx\<lparr>dhParamsGenerator := v8\<rparr>) = view ctx" "view (ctx\<lparr>dhParamsEncoded := v9\<rparr>) = view ctx"
  "view (ctx\<lparr>dhPeerPublic := v10\<rparr>) = view ctx" "view (ctx\<lparr>dhExchangePublic := v11\<rparr>) = view ctx"
  "view (ctx\<lparr>dhPrivate := v12\<rparr>) = view ctx" "view (ctx\<lparr>ecdhPeerPublic := v13\<rparr>) = view ctx"
  "view (ctx\<lparr>ecdhPeerCurve := v14\<rparr>) = view ctx" "view (ctx\<lparr>ecdhExchangePublic := v15\<rparr>) = view ctx"
  "view (ctx\<lparr>ecdhPrivate := v16\<rparr>) = view ctx" "view (ctx\<lparr>ecdhPrivCspHand := v17\<rparr>) = view ctx"
  "view (ctx\<lparr>sessionID := v18\<rparr>) = view ctx" "view (ctx\<lparr>resumableSession := v19\<rparr>) = view ctx"
  "view (ctx\<lparr>writeCipher := v20\<rparr>) = view ctx" "view (ctx\<lparr>readPending := v21\<rparr>) = view ctx"
  "view (ctx\<lparr>writePending := v22\<rparr>) = view ctx" "view (ctx\<lparr>selectedCipher := v23\<rparr>) = view ctx"
  "view (ctx\<lparr>selectedCipherSpec := v24\<rparr>) = view ctx" "view (ctx\<lparr>state := v25\<rparr>) = view ctx"
  "view (ctx\<lparr>tryClientAuth := v26\<rparr>) = view ctx" "view (ctx\<lparr>clientCertState := v27\<rparr>) = view ctx"
  "view (ctx\<lparr>acceptableDNList := v28\<rparr>) = view ctx" "view (ctx\<lparr>certRequested := v29\<rparr>) = view ctx"
  "view (ctx\<lparr>certSent := v30\<rparr>) = view ctx" "view (ctx\<lparr>certReceived := v31\<rparr>) = view ctx"
  "view (ctx\<lparr>x509Requested := v32\<rparr>) = view ctx" "view (ctx\<lparr>clientRandom := v33\<rparr>) = view ctx"
  "view (ctx\<lparr>serverRandom := v34\<rparr>) = view ctx" "view (ctx\<lparr>preMasterSecret := v35\<rparr>) = view ctx"
  "view (ctx\<lparr>masterSecret := v36\<rparr>) = view ctx" "view (ctx\<lparr>shaState := v37\<rparr>) = view ctx"
  "view (ctx\<lparr>md5State := v38\<rparr>) = view ctx" "view (ctx\<lparr>sha256State := v39\<rparr>) = view ctx"
  "view (ctx\<lparr>sha384State := v40\<rparr>) = view ctx" "view (ctx\<lparr>fragmentedMessageCache := v41\<rparr>) = view ctx"
  "view (ctx\<lparr>sessionMatch := v42\<rparr>) = view ctx" "view (ctx\<lparr>partialReadBuffer := v43\<rparr>) = view ctx"
  "view (ctx\<lparr>amountRead := v44\<rparr>) = view ctx" "view (ctx\<lparr>recordWriteQueue := v45\<rparr>) = view ctx"
  "view (ctx\<lparr>sentFatalAlert := v48\<rparr>) = view ctx" "view (ctx\<lparr>signalServerAuth := v49\<rparr>) = view ctx"
  "view (ctx\<lparr>signalCertRequest := v50\<rparr>) = view ctx" "view (ctx\<lparr>clientAuthTypes := v51\<rparr>) = view ctx"
  "view (ctx\<lparr>negAuthType := v52\<rparr>) = view ctx" "view (ctx\<lparr>serverDhParams := v53\<rparr>) = view ctx"
  "view (ctx\<lparr>sessionCache := v54\<rparr>) = view ctx" "view (ctx\<lparr>g_resolved := v55\<rparr>) = view ctx"
  "view (ctx\<lparr>ioPos := v56\<rparr>) = view ctx" "view (ctx\<lparr>rngPos := v57\<rparr>) = view ctx"
  "view (ctx\<lparr>wireOut := v58\<rparr>) = view ctx"
  by (simp_all add: view_def steady_def configuration_def)

lemma view_eqD: "view c = view d \<Longrightarrow> steady c = steady d" "view c = view d \<Longrightarrow> readCipher c = readCipher d"
  "view c = view d \<Longrightarrow> protocolSide c = protocolSide d" "view c = view d \<Longrightarrow> peerID c = peerID d"
  by (simp_all add: view_def steady_def configuration_def)

named_theorems keeps "operations that leave the view as it was"

section \<open>Records, alerts, sessions\<close>

lemma sslRand_view [keeps]: "sslRand P n ctx = (err, bs, ctx') \<Longrightarrow> view ctx' = view ctx"
  by (auto dest!: sslRand_frame)

lemma write_frame_view: "write_frame ctx ctx' \<Longrightarrow> view ctx' = view ctx"
  by (erule write_frame_proj) simp

lemma call_writeRecord_view [keeps]: "call_writeRecord P rec ctx = Some (err, ctx') \<Longrightarrow> view ctx' = view ctx"
  by (rule write_frame_view, rule call_writeRecord_frame)

lemma SSLSendAlert_view [keeps]: "SSLSendAlert P level desc ctx = Some (err, ctx') \<Longrightarrow> view ctx' = view ctx"
  by (drule SSLSendAlert_frame, drule write_frame_view) simp

lemma SSLDeleteSessionData_view [keeps]: "SSLDeleteSessionData ctx = (err, ctx') \<Longrightarrow> view ctx' = view ctx"
  using SSLDeleteSessionData_frame [of ctx] view_update by (metis snd_conv)

lemma SSLFatalSessionAlert_view [keeps]: "SSLFatalSessionAlert P desc ctx = Some (err, ctx') \<Longrightarrow> view ctx' = view ctx"
  unfolding SSLFatalSessionAlert_def Let_def
  by (auto elim!: bind_SomeE dest!: keeps split: prod.split_asm)

lemma alert_return_view [keeps]: "alert_return P desc e ctx = Some (err, ctx') \<Longrightarrow> view ctx' = view ctx"
  unfolding alert_return_def by (auto elim!: bind_SomeE dest!: keeps)

lemma SSLAddSessionData_view [keeps]: "SSLAddSessionData P ctx = Some (err, ctx') \<Longrightarrow> view ctx' = view ctx"
  unfolding SSLAddSessionData_def Let_def by (auto elim!: bind_SomeE split: option.split_asm if_split_asm prod.split_asm)

lemma FindCipherSpec_view [keeps]: "FindCipherSpec ctx = Some (err, ctx') \<Longrightarrow> view ctx' = view ctx"
  unfolding FindCipherSpec_def by (auto elim!: bind_SomeE split: option.split_asm)

lemma SSLInstallSessionFromData_view [keeps]: "SSLInstallSessionFromData P sess ctx = Some (err, ctx') \<Longrightarrow> view ctx' = view ctx"
  unfolding SSLInstallSessionFromData_def Let_def
  by (auto elim!: bind_SomeE dest!: keeps split: if_split_asm)

section \<open>Keys\<close>

lemma call_generateMasterSecret_view [keeps]: "call_generateMasterSecret P ctx = Some (err, ctx') \<Longrightarrow> view ctx' = view ctx"
  unfolding call_generateMasterSecret_def ssl3GenerateMasterSecret_def tls1GenerateMasterSecret_def
    tls12GenerateMasterSecret_def tls_master_secret_def store_master_def Let_def
  by (auto elim!: bind_SomeE split: SslTlsCallouts.split_asm if_split_asm prod.split_asm)

lemma pending_view [simp]: "view (put_pending cp sp ctx) = view ctx" "view (start_pending cs ctx) = view ctx"
  "view (install_writePending b ctx) = view ctx"
  by (simp_all add: put_pending_def start_pending_def install_writePending_def)

lemma init_pair_view [keeps]: "init_pair P ck civ sk siv cp sp ctx = Some (err, ctx') \<Longrightarrow> view ctx' = view ctx"
  unfolding init_pair_def Let_def by (auto elim!: bind_SomeE split: if_split_asm)

lemma SSLInitPendingCiphers_view [keeps]: "SSLInitPendingCiphers P ctx = Some (err, ctx') \<Longrightarrow> view ctx' = view ctx"
  unfolding SSLInitPendingCiphers_def install_key_material_def Let_def
  by (auto elim!: bind_SomeE dest!: keeps split: if_split_asm prod.split_asm)

lemma absorb_view [keeps]: "absorb P bs ctx = Some (err, ctx') \<Longrightarrow> view ctx' = view ctx"
  unfolding absorb_def Let_def by (auto elim!: bind_SomeE dest!: keeps split: if_split_asm)

lemma SSLInitMessageHashes_view [keeps]: "SSLInitMessageHashes P ctx = Some (err, ctx') \<Longrightarrow> view ctx' = view ctx"
  unfolding SSLInitMessageHashes_def Let_def by (auto elim!: bind_SomeE split: if_split_asm prod.split_asm)

section \<open>Outgoing messages\<close>

text \<open>
  The contract of the function pointers that \<open>SSLPrepareAndQueueMessage\<close> is called with, and what
  it gives: queueing the message leaves the view as it was.
\<close>

locale message_encoder =
  fixes enc :: EncodeMessageFunc
  assumes enc_view: "enc P ctx = Some (err, rec, ctx') \<Longrightarrow> view ctx' = view ctx"
begin

lemma queue_view: "SSLPrepareAndQueueMessage P enc ctx = Some (err, ctx') \<Longrightarrow> view ctx' = view ctx"
  unfolding SSLPrepareAndQueueMessage_def
  by (auto elim!: bind_SomeE dest!: keeps enc_view split: if_split_asm)

end

lemma SSLEncodeRandom_view [keeps]: "SSLEncodeRandom P ctx = (err, bs, ctx') \<Longrightarrow> view ctx' = view ctx"
  unfolding SSLEncodeRandom_def by (auto dest!: keeps split: prod.split_asm)

interpretation ccs: message_encoder SSLEncodeChangeCipherSpec
  by unfold_locales (auto simp: SSLEncodeChangeCipherSpec_def split: if_split_asm)

interpretation finished: message_encoder SSLEncodeFinishedMessage
  by unfold_locales (auto simp: SSLEncodeFinishedMessage_def Let_def elim!: bind_SomeE split: if_split_asm prod.split_asm)

interpretation hello_done: message_encoder SSLEncodeServerHelloDone
  by unfold_locales (auto simp: SSLEncodeServerHelloDone_def split: if_split_asm)

interpretation server_hello: message_encoder SSLEncodeServerHello
  by unfold_locales
    (auto simp: SSLEncodeServerHello_def server_hello_id_def Let_def elim!: bind_SomeE dest!: keeps
      split: if_split_asm prod.split_asm option.split_asm)

interpretation client_hello: message_encoder SSLEncodeClientHello
  by unfold_locales
    (auto simp: SSLEncodeClientHello_def Let_def elim!: bind_SomeE dest!: keeps
      split: if_split_asm prod.split_asm option.split_asm)

interpretation certificate: message_encoder SSLEncodeCertificate
  by unfold_locales (auto simp: SSLEncodeCertificate_def Let_def split: if_split_asm)

interpretation cert_request: message_encoder SSLEncodeCertificateRequest
  by unfold_locales (auto simp: SSLEncodeCertificateRequest_def Let_def split: if_split_asm)

interpretation cert_verify: message_encoder SSLEncodeCertificateVerify
  by unfold_locales
    (auto simp: SSLEncodeCertificateVerify_def Let_def elim!: bind_SomeE split: if_split_asm sum.split_asm)

lemma sslDhGenerateKeyPair_view [keeps]: "sslDhGenerateKeyPair P blob n ctx = Some (err, pair, ctx') \<Longrightarrow> view ctx' = view ctx"
  by (auto simp: sslDhGenerateKeyPair_def Let_def split: if_split_asm)

lemma sslDhGenKeyPairClient_view [keeps]: "sslDhGenKeyPairClient P p g ctx = Some (err, pair, ctx') \<Longrightarrow> view ctx' = view ctx"
  by (auto simp: sslDhGenKeyPairClient_def dest!: keeps split: prod.split_asm option.split_asm if_split_asm)

lemma copy_server_params_view [keeps]: "copy_server_params P ctx = Some (err, ctx') \<Longrightarrow> view ctx' = view ctx"
  by (auto simp: copy_server_params_def Let_def split: if_split_asm prod.split_asm)

lemma SSLGenServerDHParamsAndKey_view [keeps]: "SSLGenServerDHParamsAndKey P ctx = Some (err, ctx') \<Longrightarrow> view ctx' = view ctx"
  by (auto simp: SSLGenServerDHParamsAndKey_def Let_def elim!: bind_SomeE dest!: keeps split: if_split_asm option.split_asm)

lemma server_params_view [keeps]: "server_params P ctx = Some (err, params, b, ctx') \<Longrightarrow> view ctx' = view ctx"
  by (auto simp: server_params_def Let_def elim!: bind_SomeE dest!: keeps split: if_split_asm option.split_asm prod.split_asm)

interpretation signed_key: message_encoder SSLEncodeSignedServerKeyExchange
  by unfold_locales
    (auto simp: SSLEncodeSignedServerKeyExchange_def elim!: bind_SomeE dest!: keeps split: if_split_asm sum.split_asm)

interpretation anon_key: message_encoder SSLEncodeDHanonServerKeyExchange
  by unfold_locales (auto simp: SSLEncodeDHanonServerKeyExchange_def elim!: bind_SomeE dest!: keeps split: if_split_asm)

interpretation server_key: message_encoder SSLEncodeServerKeyExchange
  by unfold_locales
    (auto simp: SSLEncodeServerKeyExchange_def Let_def elim!: bind_SomeE dest!: signed_key.enc_view anon_key.enc_view split: if_split_asm)

lemma SSLEncodeRSAPremasterSecret_view [keeps]: "SSLEncodeRSAPremasterSecret P ctx = Some (err, ctx') \<Longrightarrow> view ctx' = view ctx"
  by (auto simp: SSLEncodeRSAPremasterSecret_def elim!: bind_SomeE dest!: keeps split: if_split_asm prod.split_asm)

interpretation rsa_key: message_encoder SSLEncodeRSAKeyExchange
  by unfold_locales (auto simp: SSLEncodeRSAKeyExchange_def Let_def elim!: bind_SomeE dest!: keeps split: if_split_asm)

lemma SSLGenClientDHKeyAndExchange_view [keeps]: "SSLGenClientDHKeyAndExchange P ctx = Some (err, ctx') \<Longrightarrow> view ctx' = view ctx"
  by (auto simp: SSLGenClientDHKeyAndExchange_def Let_def elim!: bind_SomeE dest!: keeps split: if_split_asm option.split_asm)

interpretation dh_key: message_encoder SSLEncodeDHClientKeyExchange
  by unfold_locales (auto simp: SSLEncodeDHClientKeyExchange_def Let_def elim!: bind_SomeE dest!: keeps split: if_split_asm)

lemma ecdhe_exchange_view [keeps]: "ecdhe_exchange P ctx = (err, ctx') \<Longrightarrow> view ctx' = view ctx"
  by (auto simp: ecdhe_exchange_def Let_def split: if_split_asm option.split_asm prod.split_asm)

lemma fixed_exchange_view [keeps]: "fixed_exchange P ctx = Some (err, ctx') \<Longrightarrow> view ctx' = view ctx"
  by (auto simp: fixed_exchange_def Let_def elim!: bind_SomeE split: if_split_asm sum.split_asm)

lemma SSLGenClientECDHKeyAndExchange_view [keeps]: "SSLGenClientECDHKeyAndExchange P ctx = Some (err, ctx') \<Longrightarrow> view ctx' = view ctx"
  by (auto simp: SSLGenClientECDHKeyAndExchange_def elim!: bind_SomeE dest!: keeps split: if_split_asm option.split_asm)

interpretation ecdh_key: message_encoder SSLEncodeECDHClientKeyExchange
  by unfold_locales (auto simp: SSLEncodeECDHClientKeyExchange_def Let_def elim!: bind_SomeE dest!: keeps split: if_split_asm)

interpretation client_key: message_encoder SSLEncodeKeyExchange
  by unfold_locales
    (auto simp: SSLEncodeKeyExchange_def Let_def elim!: bind_SomeE
      dest!: rsa_key.enc_view dh_key.enc_view ecdh_key.enc_view split: if_split_asm)

lemmas queued = ccs.queue_view finished.queue_view hello_done.queue_view server_hello.queue_view client_hello.queue_view
  certificate.queue_view cert_request.queue_view cert_verify.queue_view server_key.queue_view client_key.queue_view

section \<open>Incoming messages\<close>

lemma keep_sessionID_view [simp]: "view (keep_sessionID P sid ctx) = view ctx"
  by (simp add: keep_sessionID_def)

lemma SSLProcessServerHello_view [keeps]: "SSLProcessServerHello P m ctx = Some (err, ctx') \<Longrightarrow> view ctx' = view ctx"
  by (auto simp: SSLProcessServerHello_def Let_def elim!: bind_SomeE dest!: keeps split: if_split_asm prod.split_asm option.split_asm)

lemma SSLProcessClientHello_view [keeps]: "SSLProcessClientHello P m ctx = Some (err, ctx') \<Longrightarrow> view ctx' = view ctx"
  by (auto simp: SSLProcessClientHello_def Let_def elim!: bind_SomeE dest!: keeps split: if_split_asm prod.split_asm option.split_asm)

lemma sslVerifyCertChain_view [keeps]: "sslVerifyCertChain P chain b ctx = Some (err, ctx') \<Longrightarrow> view ctx' = view ctx"
  by (auto simp: sslVerifyCertChain_def Let_def elim!: bind_SomeE split: if_split_asm sum.split_asm option.split_asm)

lemma recover_rsa_key_view [keeps]: "recover_rsa_key P leaf e ctx = (err, ctx') \<Longrightarrow> view ctx' = view ctx"
  by (auto simp: recover_rsa_key_def split: if_split_asm option.split_asm prod.split_asm)

lemma convert_key_view [keeps]: "convert_key P ctx = Some ctx' \<Longrightarrow> view ctx' = view ctx"
  by (auto simp: convert_key_def elim!: bind_SomeE split: if_split_asm option.split_asm prod.split_asm)

lemma extract_peer_key_view [keeps]: "extract_peer_key P e ctx = Some (err, ctx') \<Longrightarrow> view ctx' = view ctx"
  by (auto simp: extract_peer_key_def Let_def elim!: bind_SomeE dest!: keeps split: if_split_asm prod.split_asm)

lemma peer_cert_state_view [simp]: "view (peer_cert_state err ctx) = view ctx"
  by (simp add: peer_cert_state_def)

lemma SSLProcessCertificate_view [keeps]: "SSLProcessCertificate P m ctx = Some (err, ctx') \<Longrightarrow> view ctx' = view ctx"
  by (auto simp: SSLProcessCertificate_def Let_def elim!: bind_SomeE dest!: keeps split: if_split_asm)

lemma SSLUpdateNegotiatedClientAuthType_view [keeps]: "SSLUpdateNegotiatedClientAuthType ctx = Some ctx' \<Longrightarrow> view ctx' = view ctx"
  by (auto simp: SSLUpdateNegotiatedClientAuthType_def Let_def elim!: bind_SomeE split: if_split_asm option.split_asm)

lemma SSLProcessCertificateRequest_view [keeps]: "SSLProcessCertificateRequest P m ctx = Some (err, ctx') \<Longrightarrow> view ctx' = view ctx"
  by (auto simp: SSLProcessCertificateRequest_def Let_def elim!: bind_SomeE dest!: keeps split: if_split_asm prod.split_asm)

lemma SSLProcessCertificateVerify_view [keeps]: "SSLProcessCertificateVerify P m ctx = Some (err, ctx') \<Longrightarrow> view ctx' = view ctx"
  by (auto simp: SSLProcessCertificateVerify_def Let_def elim!: bind_SomeE dest!: keeps split: if_split_asm)

lemma SSLDecodeDHKeyParams_view [keeps]: "SSLDecodeDHKeyParams P m ctx = Some (err, off, ctx') \<Longrightarrow> view ctx' = view ctx"
  by (auto simp: SSLDecodeDHKeyParams_def Let_def elim!: bind_SomeE split: if_split_asm)

lemma SSLDecodeECDHKeyParams_view [keeps]: "SSLDecodeECDHKeyParams P m ctx = Some (err, off, ctx') \<Longrightarrow> view ctx' = view ctx"
  by (auto simp: SSLDecodeECDHKeyParams_def Let_def elim!: bind_SomeE split: if_split_asm prod.split_asm)

lemma ske_params_view [keeps]: "ske_params P kx m ctx = Some (err, off, me, ctx') \<Longrightarrow> view ctx' = view ctx"
  by (auto simp: ske_params_def elim!: bind_SomeE dest!: keeps split: if_split_asm)

lemma SSLProcessServerKeyExchange_view [keeps]: "SSLProcessServerKeyExchange P m ctx = Some (err, ctx') \<Longrightarrow> view ctx' = view ctx"
  by (auto simp: SSLProcessServerKeyExchange_def SSLDecodeSignedServerKeyExchange_def SSLDecodeDHanonServerKeyExchange_def Let_def
      elim!: bind_SomeE dest!: keeps split: if_split_asm prod.split_asm)

lemma SSLProcessKeyExchange_view [keeps]: "SSLProcessKeyExchange P m ctx = Some (err, ctx') \<Longrightarrow> view ctx' = view ctx"
  by (auto simp: SSLProcessKeyExchange_def SSLDecodeRSAKeyExchange_def SSLDecodeDHClientKeyExchange_def Let_def
      elim!: bind_SomeE dest!: keeps split: if_split_asm prod.split_asm sum.split_asm)

lemma decode_message_view [keeps]: "decode_message P type body ctx = Some (err, ctx') \<Longrightarrow> view ctx' = view ctx"
  by (auto simp: decode_message_def with_ctx_def elim!: bind_SomeE dest!: keeps split: if_split_asm)

lemma SSLProcessHandshakeMessage_view [keeps]: "SSLProcessHandshakeMessage P type body ctx = Some (err, ctx') \<Longrightarrow> view ctx' = view ctx"
  by (auto simp: SSLProcessHandshakeMessage_def elim!: bind_SomeE dest!: keeps split: if_split_asm option.split_asm)

section \<open>The steps\<close>

lemma send_finished_view [keeps]: "send_finished P b ctx = Some (err, ctx') \<Longrightarrow> view ctx' = view ctx"
  by (auto simp: send_finished_def elim!: bind_SomeE dest!: keeps queued split: if_split_asm)

lemma SSLResumeServerSide_view [keeps]: "SSLResumeServerSide P ctx = Some (err, ctx') \<Longrightarrow> view ctx' = view ctx"
  by (auto simp: SSLResumeServerSide_def elim!: bind_SomeE dest!: keeps queued split: if_split_asm)

lemma server_certificate_view [keeps]: "server_certificate P kx ctx = Some (err, ctx') \<Longrightarrow> view ctx' = view ctx"
  by (auto simp: server_certificate_def dest!: keeps queued split: if_split_asm)

lemma server_flight_view [keeps]: "server_flight P ctx = Some (err, ctx') \<Longrightarrow> view ctx' = view ctx"
  by (auto simp: server_flight_def elim!: bind_SomeE dest!: keeps queued split: if_split_asm)

lemma new_sessionID_view [keeps]: "new_sessionID P ctx = Some (err, ctx') \<Longrightarrow> view ctx' = view ctx"
  by (auto simp: new_sessionID_def dest!: keeps split: if_split_asm prod.split_asm)

lemma full_handshake_view [keeps]: "full_handshake P ctx = Some (err, ctx') \<Longrightarrow> view ctx' = view ctx"
  by (auto simp: full_handshake_def elim!: bind_SomeE dest!: keeps split: if_split_asm)

lemma advance_ClientHello_view [keeps]: "advance_ClientHello P ctx = Some (err, ctx') \<Longrightarrow> view ctx' = view ctx"
  by (auto simp: advance_ClientHello_def Let_def elim!: bind_SomeE dest!: keeps split: if_split_asm option.split_asm prod.split_asm)

lemma advance_ServerHello_view [keeps]: "advance_ServerHello P ctx = Some (err, ctx') \<Longrightarrow> view ctx' = view ctx"
  by (auto simp: advance_ServerHello_def Let_def elim!: bind_SomeE dest!: keeps split: if_split_asm)

lemma advance_Cert_view [keeps]: "advance_Cert ctx = Some (err, ctx') \<Longrightarrow> view ctx' = view ctx"
  by (auto simp: advance_Cert_def Let_def elim!: bind_SomeE split: if_split_asm)

lemma advance_CertRequest_view [keeps]: "advance_CertRequest P ctx = Some (err, ctx') \<Longrightarrow> view ctx' = view ctx"
  by (auto simp: advance_CertRequest_def dest!: keeps split: if_split_asm)

lemma make_keys_view [keeps]: "make_keys P ctx = Some (err, ctx') \<Longrightarrow> view ctx' = view ctx"
  by (auto simp: make_keys_def elim!: bind_SomeE dest!: keeps split: if_split_asm)

lemma client_certificate_view [keeps]: "client_certificate P ctx = Some (err, ctx') \<Longrightarrow> view ctx' = view ctx"
  by (auto simp: client_certificate_def dest!: keeps queued split: if_split_asm)

lemma client_flight_view [keeps]: "client_flight P ctx = Some (err, ctx') \<Longrightarrow> view ctx' = view ctx"
  by (auto simp: client_flight_def elim!: bind_SomeE dest!: keeps queued split: if_split_asm)

lemma advance_ServerHelloDone_view [keeps]: "advance_ServerHelloDone P ctx = Some (err, ctx') \<Longrightarrow> view ctx' = view ctx"
  by (auto simp: advance_ServerHelloDone_def dest!: keeps split: if_split_asm)

lemma advance_ClientKeyExchange_view [keeps]: "advance_ClientKeyExchange P ctx = Some (err, ctx') \<Longrightarrow> view ctx' = view ctx"
  by (auto simp: advance_ClientKeyExchange_def elim!: bind_SomeE dest!: keeps split: if_split_asm)

text \<open>A new hello makes the read cipher unready, Finished makes it ready; the configuration stays.\<close>

lemma view_readCipher [simp]: "view (ctx\<lparr>readCipher := c\<rparr>) = (fst (view ctx), c)"
  by (simp add: view_def steady_def configuration_def)

lemma advance_HelloRequest_view:
  "advance_HelloRequest P ctx = Some (err, ctx') \<Longrightarrow> view ctx' = (steady ctx, (readCipher ctx)\<lparr>ready := False\<rparr>)"
  by (auto simp: advance_HelloRequest_def Let_def view_def [of ctx] elim!: bind_SomeE dest!: queued split: if_split_asm)

lemma advance_Finished_view:
  "advance_Finished P ctx = Some (err, ctx') \<Longrightarrow> view ctx' = (steady ctx, (readCipher ctx)\<lparr>ready := True\<rparr>)"
  by (auto simp: advance_Finished_def Let_def view_def [of ctx] elim!: bind_SomeE dest!: keeps split: if_split_asm)

text \<open>A session ticket that the server accepts with its ChangeCipherSpec.\<close>

lemma resume_by_ticket_view [keeps]: "resume_by_ticket P ctx = Some (err, ctx') \<Longrightarrow> view ctx' = view ctx"
  by (auto simp: resume_by_ticket_def Let_def elim!: bind_SomeE dest!: keeps split: if_split_asm)

end
