(* ===== verification/Connection.thy ===== *)
theory Connection
  imports Transport Frames
begin

text \<open>
  A connection as a state machine. A step is what \<open>SSLHandshake\<close>, \<open>SSLRead\<close> and \<open>SSLWrite\<close> do
  between two points where they look at the connection: read a record, process a message of the
  handshake, an alert or a ChangeCipherSpec, send what is queued. What a record makes the connection do is a
  sequence of steps, so what every step keeps holds after any number of calls, whatever the peer sends.
  Messages of SSL 2.0 are not steps. The last section follows the run of \<open>SSLHandshake\<close> itself.
\<close>

section \<open>What reading a record keeps\<close>

text \<open>The steady part, and whether the cipher for incoming records is in force.\<close>

definition guard where
  "guard ctx = (fst (view ctx), ready (snd (view ctx)))"

lemma readCipher_view: "readCipher ctx = snd (view ctx)"
  by (simp add: view_def)

named_theorems guards "operations that leave the guard as it was"

lemma cipher_decrypt_ready: "cipher_decrypt P src dest c = Some (err, out, c') \<Longrightarrow> ready c' = ready c"
  by (auto simp: cipher_decrypt_def NullCrypt_def sslGcmCipherCryptStub_def CDSASymmDecrypt_def CCSymmEncryptDecrypt_def Let_def
      elim!: bind_SomeE split: if_split_asm option.split_asm prod.split_asm cc_union.split_asm)

lemma call_computeMac_ready: "call_computeMac P calls v type data c s = Some (err, mac, c') \<Longrightarrow> ready c' = ready c"
  by (auto simp: call_computeMac_def ssl3ComputeMac_def tls1ComputeMac_def tls12ComputeMac_def tls_compute_mac_def Let_def
      elim!: bind_SomeE split: if_split_asm SslTlsCallouts.split_asm prod.split_asm)

lemma sslIoRead_view [keeps]: "sslIoRead P n ctx = (err, bs, ctx') \<Longrightarrow> view ctx' = view ctx"
  by (auto simp: sslIoRead_def Let_def split: prod.split_asm)

lemma store_read_view [keeps]: "store_read bs ctx = Some ctx' \<Longrightarrow> view ctx' = view ctx"
  by (auto simp: store_read_def split: option.split_asm if_split_asm)

lemma got_view [simp]: "view (got bs ctx) = view ctx"
  by (simp add: got_def)

lemma fatal_return_view [keeps]: "fatal_return P desc e x ctx = Some (err, y, ctx') \<Longrightarrow> view ctx' = view ctx"
  by (auto simp: fatal_return_def elim!: bind_SomeE dest!: keeps)

lemma SSLVerifyMac_guard: "SSLVerifyMac P type data m ctx = Some (err, ctx') \<Longrightarrow> guard ctx' = guard ctx"
  by (auto simp: SSLVerifyMac_def Let_def guard_def readCipher_view elim!: bind_SomeE dest!: call_computeMac_ready split: if_split_asm)

lemma check_mac_return_guard: "check_mac_return P type content m ctx = Some (err, out, ctx') \<Longrightarrow> guard ctx' = guard ctx"
  by (auto simp: check_mac_return_def guard_def elim!: bind_SomeE dest!: SSLVerifyMac_guard keeps split: if_split_asm)

lemmas decrypting = cipher_decrypt_ready check_mac_return_guard keeps

lemma tls12DecryptGcmRecord_guard: "tls12DecryptGcmRecord P type payload ctx = Some (err, out, ctx') \<Longrightarrow> guard ctx' = guard ctx"
  by (auto simp: tls12DecryptGcmRecord_def Let_def guard_def dest!: keeps split: if_split_asm option.split_asm cc_union.split_asm)

lemma ssl3DecryptRecord_guard: "ssl3DecryptRecord P type payload ctx = Some (err, out, ctx') \<Longrightarrow> guard ctx' = guard ctx"
  by (auto simp: ssl3DecryptRecord_def Let_def guard_def readCipher_view elim!: bind_SomeE dest!: decrypting split: if_split_asm)

lemma tls1DecryptRecord_guard: "tls1DecryptRecord P type payload ctx = Some (err, out, ctx') \<Longrightarrow> guard ctx' = guard ctx"
  by (auto simp: tls1DecryptRecord_def Let_def guard_def readCipher_view elim!: bind_SomeE dest!: decrypting split: if_split_asm)

lemma SSL2DecryptRecord_guard: "SSL2DecryptRecord P payload ctx = Some (err, out, ctx') \<Longrightarrow> guard ctx' = guard ctx"
  by (auto simp: SSL2DecryptRecord_def Let_def guard_def readCipher_view elim!: bind_SomeE dest!: decrypting split: if_split_asm)

lemma tls12DecryptRecord_guard: "tls12DecryptRecord P type payload ctx = Some (err, out, ctx') \<Longrightarrow> guard ctx' = guard ctx"
  by (auto simp: tls12DecryptRecord_def Let_def guard_def readCipher_view elim!: bind_SomeE dest!: tls12DecryptGcmRecord_guard decrypting split: if_split_asm)

lemma call_decryptRecord_guard: "call_decryptRecord P type payload ctx = Some (err, out, ctx') \<Longrightarrow> guard ctx' = guard ctx"
  by (auto simp: call_decryptRecord_def dest!: ssl3DecryptRecord_guard tls1DecryptRecord_guard tls12DecryptRecord_guard split: SslTlsCallouts.split_asm)

lemma ready_buffer_view [keeps]: "ready_buffer P ctx = Some (err, ctx') \<Longrightarrow> view ctx' = view ctx"
  by (auto simp: ready_buffer_def Let_def elim!: bind_SomeE dest!: keeps split: if_split_asm prod.split_asm)

lemma read_first_octet_view [keeps]: "read_first_octet P ctx = Some (err, ctx') \<Longrightarrow> view ctx' = view ctx"
  by (auto simp: read_first_octet_def Let_def elim!: bind_SomeE dest!: keeps split: if_split_asm prod.split_asm)

lemma read_header_view [keeps]: "read_header P ctx = Some (err, ctx') \<Longrightarrow> view ctx' = view ctx"
  by (auto simp: read_header_def Let_def elim!: bind_SomeE dest!: keeps split: if_split_asm prod.split_asm)

lemma read_body_view [keeps]: "read_body P n ctx = Some (err, ctx') \<Longrightarrow> view ctx' = view ctx"
  by (auto simp: read_body_def Let_def elim!: bind_SomeE dest!: keeps split: if_split_asm prod.split_asm)

lemma bump_read_seq_guard [simp]: "guard (bump_read_seq ctx) = guard ctx"
  by (simp add: bump_read_seq_def guard_def readCipher_view)

lemma guard_view: "view c = view d \<Longrightarrow> guard c = guard d"
  by (simp add: guard_def)

lemma guard_update [simp]: "guard (ctx\<lparr>partialReadBuffer := b\<rparr>) = guard ctx" "guard (ctx\<lparr>amountRead := n\<rparr>) = guard ctx"
  "guard (got bs ctx) = guard ctx"
  by (simp_all add: guard_def)

lemma SSL2SendError_view [keeps]: "SSL2SendError P e ctx = Some (err, ctx') \<Longrightarrow> view ctx' = view ctx"
  unfolding SSL2SendError_def by (rule write_frame_view, rule SSL2WriteRecord_frame)

lemma ssl2_ready_buffer_view [keeps]: "ssl2_ready_buffer P ctx = Some (err, ctx') \<Longrightarrow> view ctx' = view ctx"
  by (auto simp: ssl2_ready_buffer_def Let_def elim!: bind_SomeE dest!: keeps split: if_split_asm prod.split_asm)

lemma ssl2_read_header_view [keeps]: "ssl2_read_header P ctx = Some (err, ctx') \<Longrightarrow> view ctx' = view ctx"
  by (auto simp: ssl2_read_header_def Let_def elim!: bind_SomeE dest!: keeps split: if_split_asm prod.split_asm)

lemma ssl2_read_body_view [keeps]: "ssl2_read_body P n ctx = Some (err, ctx') \<Longrightarrow> view ctx' = view ctx"
  by (auto simp: ssl2_read_body_def Let_def elim!: bind_SomeE dest!: keeps split: if_split_asm prod.split_asm)

lemma SSL2ReadRecord_guard: "SSL2ReadRecord P ctx = Some (err, rec, ctx') \<Longrightarrow> guard ctx' = guard ctx"
  unfolding SSL2ReadRecord_def Let_def
  by (elim if_SomeE bind_SomeE; clarsimp elim!: bind_SomeE dest!: keeps guard_view SSL2DecryptRecord_guard split: if_split_asm prod.split_asm)

lemma SSLReadRecord_guard: "SSLReadRecord P ctx = Some (err, rec, ctx') \<Longrightarrow> guard ctx' = guard ctx"
  unfolding SSLReadRecord_def Let_def
  by (auto elim!: bind_SomeE dest!: keeps guard_view call_decryptRecord_guard SSL2ReadRecord_guard split: if_split_asm prod.split_asm)

section \<open>What sending keeps\<close>

lemma SSLServiceWriteQueue_view [keeps]: "SSLServiceWriteQueue P ctx = Some (err, ctx') \<Longrightarrow> view ctx' = view ctx"
proof -
  assume "SSLServiceWriteQueue P ctx = Some (err, ctx')"
  then have "(\<lambda>(P, ctx) y. view (snd y) = view ctx) (P, ctx) (err, ctx')"
    by (rule SSLServiceWriteQueue.raw_induct [rotated])
      (auto simp: sslIoWrite_def Let_def split: list.split_asm prod.split_asm if_split_asm)
  then show ?thesis by simp
qed

lemma SSLClose_view [keeps]: "SSLClose P ctx = Some (err, ctx') \<Longrightarrow> view ctx' = view ctx"
  by (auto simp: SSLClose_def elim!: bind_SomeE dest!: keeps split: if_split_asm)

lemma SSLDetectCertRejected_view [simp]: "view (SSLDetectCertRejected ctx desc) = view ctx"
  by (simp add: SSLDetectCertRejected_def)

lemma SSLAdvanceHandshake_Cert: "SSLAdvanceHandshake P SSL_HdskCert ctx = advance_Cert ctx"
  by (simp add: SSLAdvanceHandshake_def)

lemma alert_action_view [keeps]: "alert_action P level desc e ctx = Some (err, stop, ctx') \<Longrightarrow> view ctx' = view ctx"
  by (auto simp: alert_action_def SSLAdvanceHandshake_Cert elim!: bind_SomeE dest!: keeps split: option.split_asm if_split_asm)

lemma process_alerts_view [keeps]: "process_alerts P bs e ctx = Some (err, stop, ctx') \<Longrightarrow> view ctx' = view ctx"
proof (induction P bs e ctx rule: process_alerts.induct)
  case (1 P level desc rest e ctx)
  from "1.prems" obtain e1 stop1 ctx1 where a: "alert_action P level desc e (SSLDetectCertRejected ctx desc) = Some (e1, stop1, ctx1)"
    by (auto elim!: bind_SomeE)
  with "1.prems" "1.IH" [OF a refl refl] have "view ctx' = view ctx1" by (auto split: if_split_asm)
  with a show ?case by (auto dest!: keeps)
qed auto

lemma SSLProcessAlert_view [keeps]: "SSLProcessAlert P rec ctx = Some (err, ctx') \<Longrightarrow> view ctx' = view ctx"
  by (auto simp: SSLProcessAlert_def SSLDeleteSessionData_view [OF surjective_pairing] elim!: bind_SomeE dest!: keeps split: if_split_asm)

lemma cipher_finish_ready: "cipher_finish c = Some (err, c') \<Longrightarrow> ready c' = ready c"
  by (auto simp: cipher_finish_def CCSymmFinish_def CDSASymmFinish_def disposeCipherCtx_def sslGcmCipherFinish_def Let_def
      elim!: bind_SomeE split: if_split_asm option.split_asm cc_union.split_asm)

lemma call_freeMac_ready: "call_freeMac calls c = Some (err, c') \<Longrightarrow> ready c' = ready c"
  by (auto simp: call_freeMac_def ssl3FreeMac_def tls1FreeMac_def tls12FreeMac_def
      elim!: bind_SomeE split: SslTlsCallouts.split_asm if_split_asm option.split_asm)

lemma SSLDisposeCipherSuite_ready: "SSLDisposeCipherSuite calls c = Some (err, c') \<Longrightarrow> ready c' = ready c"
  by (auto simp: SSLDisposeCipherSuite_def elim!: bind_SomeE dest!: cipher_finish_ready call_freeMac_ready split: if_split_asm)

text \<open>The steady part stays, and the read cipher comes into force only if \<open>Q\<close>.\<close>

definition guarded :: "bool \<Rightarrow> SSLContext \<Rightarrow> SSLContext \<Rightarrow> bool" where
  "guarded Q c c' \<longleftrightarrow> steady c' = steady c \<and> (ready (readCipher c') \<longrightarrow> ready (readCipher c) \<or> Q)"

lemma guarded_view: "view c' = view c \<Longrightarrow> guarded Q c c'"
  by (simp add: guarded_def view_def)

lemma guarded_guard: "guard c' = guard c \<Longrightarrow> guarded Q c c'"
  by (simp add: guarded_def guard_def view_def)

lemma guarded_from: "guarded Q d c' \<Longrightarrow> view d = view c \<Longrightarrow> guarded Q c c'"
  by (simp add: guarded_def view_def)

lemma SSLProcessChangeCipherSpec_guarded:
  assumes "SSLProcessChangeCipherSpec P rec ctx = Some (err, ctx')"
  shows "guarded Q ctx ctx'"
proof -
  have "guard ctx' = guard ctx \<or> guard ctx' = (fst (view ctx), False)"
    using assms by (auto simp: SSLProcessChangeCipherSpec_def install_readPending_def guard_def readCipher_view
        elim!: bind_SomeE dest!: keeps SSLDisposeCipherSuite_ready split: if_split_asm)
  then show ?thesis by (auto simp: guarded_def guard_def view_def)
qed

section \<open>The state machine\<close>

text \<open>
  A step of a connection. The messages of the handshake are those the loop of
  \<open>SSLProcessHandshakeRecord\<close> finds in the octets it has.
\<close>

inductive conn_step :: "platform \<Rightarrow> SSLContext \<Rightarrow> SSLContext \<Rightarrow> bool" for P where
  handshake: "message_length p + 4 \<le> length p \<Longrightarrow> process_one P p (message_length p) ctx = Some (err, ctx') \<Longrightarrow> conn_step P ctx ctx'"
| alert: "SSLProcessAlert P rec ctx = Some (err, ctx') \<Longrightarrow> conn_step P ctx ctx'"
| change: "SSLProcessChangeCipherSpec P rec ctx = Some (err, ctx') \<Longrightarrow> conn_step P ctx ctx'"
| keep: "keep_fragment P start rest ctx = Some (err, ctx') \<Longrightarrow> conn_step P ctx ctx'"
| join: "conn_step P ctx (ctx\<lparr>fragmentedMessageCache := frag\<rparr>)"
| refuse: "SSLFatalSessionAlert P desc ctx = Some (err, ctx') \<Longrightarrow> conn_step P ctx ctx'"
| receive: "SSLReadRecord P ctx = Some (err, rec, ctx') \<Longrightarrow> conn_step P ctx ctx'"
| prepare: "before_reading P ctx = Some (err, ctx') \<Longrightarrow> conn_step P ctx ctx'"

inductive_cases conn_stepE: "conn_step P ctx ctx'"

abbreviation conn_steps :: "platform \<Rightarrow> SSLContext \<Rightarrow> SSLContext \<Rightarrow> bool" where
  "conn_steps P \<equiv> (conn_step P)\<^sup>*\<^sup>*"

lemma conn_step_steps: "conn_step P ctx ctx' \<Longrightarrow> conn_steps P ctx ctx'"
  by (rule r_into_rtranclp)

subsection \<open>Runs are sequences of steps\<close>

lemma process_messages_steps: "process_messages P p ctx = Some (err, rest, ctx') \<Longrightarrow> conn_steps P ctx ctx'"
proof (induction P p ctx rule: process_messages.induct)
  case (1 P p ctx)
  show ?case
  proof (cases "length p < 4 \<or> message_length p + 4 > length p")
    case False
    with "1.prems" obtain e c where one: "process_one P p (message_length p) ctx = Some (e, c)"
      by (subst (asm) process_messages.simps) (auto elim!: bind_SomeE)
    with False have "conn_step P ctx c" by (intro conn_step.handshake [of p]) auto
    moreover have "conn_steps P c ctx'"
      using False "1.prems" one "1.IH" [OF False one refl]
      by (subst (asm) process_messages.simps) (auto split: if_split_asm)
    ultimately show ?thesis by (rule converse_rtranclp_into_rtranclp)
  qed (use "1.prems" in \<open>subst (asm) process_messages.simps, auto\<close>)
qed

lemma join_steps: "conn_steps P (ctx\<lparr>fragmentedMessageCache := frag\<rparr>) c \<Longrightarrow> conn_steps P ctx c"
  by (rule converse_rtranclp_into_rtranclp, rule conn_step.join)

lemma keep_steps: "keep_fragment P start rest b = Some (err, c) \<Longrightarrow> conn_steps P ctx b \<Longrightarrow> conn_steps P ctx c"
  by (erule rtranclp.rtrancl_into_rtrancl, erule conn_step.keep)

lemma SSLProcessHandshakeRecord_steps: "SSLProcessHandshakeRecord P rec ctx = Some (err, ctx') \<Longrightarrow> conn_steps P ctx ctx'"
  unfolding SSLProcessHandshakeRecord_def
  by (auto elim!: bind_SomeE split: option.split_asm if_split_asm dest!: process_messages_steps join_steps
      elim: keep_steps dest: conn_step.refuse)

lemma SSLProcessProtocolMessage_steps:
  "SSLProcessProtocolMessage P rec ctx = Some (err, ctx') \<Longrightarrow> contentType rec \<noteq> SSL_RecordTypeV2_0 \<Longrightarrow> conn_steps P ctx ctx'"
  by (auto simp: SSLProcessProtocolMessage_def intro: SSLProcessHandshakeRecord_steps conn_step_steps conn_step.alert conn_step.change
      split: if_split_asm)

subsection \<open>What every step keeps\<close>

text \<open>The message that brings the read cipher into force: a Finished message, at its place, that verifies.\<close>

definition verifies_finished :: "platform \<Rightarrow> bytes \<Rightarrow> SSLContext \<Rightarrow> bool" where
  "verifies_finished P p ctx \<longleftrightarrow> hd p = SSL_HdskFinished \<and> state ctx = SSL_HdskStateFinished \<and>
     SSLProcessFinished P (take (message_length p) (drop 4 p)) ctx = Some noErr"

lemma SSLProcessHandshakeMessage_noErr:
  assumes "SSLProcessHandshakeMessage P type body ctx = Some (noErr, ctx')"
  shows "expected type ctx" "decode_message P type body ctx = Some (noErr, ctx')"
proof -
  have no: "alert_return P d e c \<noteq> Some (noErr, c')" if "e \<noteq> noErr" for d e c c'
    using alert_return_effect(1) that by metis
  show e: "expected type ctx" using assms no by (auto simp: SSLProcessHandshakeMessage_def split: if_split_asm)
  with assms no show "decode_message P type body ctx = Some (noErr, ctx')"
    by (auto simp: SSLProcessHandshakeMessage_def message_alert_def elim!: bind_SomeE split: if_split_asm)
qed

lemma advance_other_view:
  "SSLAdvanceHandshake P type ctx = Some (err, ctx') \<Longrightarrow> type \<noteq> SSL_HdskHelloRequest \<Longrightarrow> type \<noteq> SSL_HdskFinished \<Longrightarrow> view ctx' = view ctx"
  by (auto simp: SSLAdvanceHandshake_def dest!: keeps split: if_split_asm)

lemma advance_guarded:
  assumes adv: "SSLAdvanceHandshake P type ctx = Some (err, ctx')"
  shows "guarded (type = SSL_HdskFinished) ctx ctx'"
proof -
  consider "type = SSL_HdskHelloRequest" | "type = SSL_HdskFinished" | "type \<noteq> SSL_HdskHelloRequest" "type \<noteq> SSL_HdskFinished"
    by blast
  then show ?thesis
  proof cases
    case 1
    with adv have "view ctx' = (steady ctx, (readCipher ctx)\<lparr>ready := False\<rparr>)"
      by (intro advance_HelloRequest_view) (simp add: SSLAdvanceHandshake_def)
    then show ?thesis by (simp add: guarded_def view_def)
  next
    case 2
    with adv have "view ctx' = (steady ctx, (readCipher ctx)\<lparr>ready := True\<rparr>)"
      by (intro advance_Finished_view) (simp add: SSLAdvanceHandshake_def)
    with 2 show ?thesis by (simp add: guarded_def view_def)
  qed (use adv advance_other_view in \<open>blast intro: guarded_view\<close>)
qed

lemma process_one_guarded:
  assumes one: "process_one P p (message_length p) ctx = Some (err, ctx')"
  shows "guarded (verifies_finished P p ctx) ctx ctx'"
proof -
  from one obtain e1 c1 where m: "SSLProcessHandshakeMessage P (hd p) (take (message_length p) (drop 4 p)) ctx = Some (e1, c1)"
    by (auto simp: process_one_def elim!: bind_SomeE)
  then have v1: "view c1 = view ctx" by (rule SSLProcessHandshakeMessage_view)
  have "view ctx' = view ctx \<or> e1 = noErr \<and> (\<exists>c2. view c2 = view ctx \<and> SSLAdvanceHandshake P (hd p) c2 = Some (err, ctx'))"
    using one m v1 by (auto simp: process_one_def elim!: bind_SomeE dest!: absorb_view split: if_split_asm)
  then consider "view ctx' = view ctx"
    | c2 where "e1 = noErr" "view c2 = view ctx" "SSLAdvanceHandshake P (hd p) c2 = Some (err, ctx')" by blast
  then show ?thesis
  proof cases
    case 2
    from advance_guarded [OF 2(3)] 2(2) have g: "guarded (hd p = SSL_HdskFinished) ctx ctx'" by (rule guarded_from)
    have "verifies_finished P p ctx" if "hd p = SSL_HdskFinished"
      using SSLProcessHandshakeMessage_noErr [OF m [unfolded 2(1)]] that
      by (auto simp: verifies_finished_def expected_def decode_message_def with_ctx_def elim!: bind_SomeE)
    with g show ?thesis by (auto simp: guarded_def)
  qed (rule guarded_view)
qed

lemma keep_fragment_view [keeps]: "keep_fragment P start rest ctx = Some (err, ctx') \<Longrightarrow> view ctx' = view ctx"
  by (auto simp: keep_fragment_def dest!: keeps split: if_split_asm prod.split_asm)

lemma SSLGetSessionData_view [keeps]: "SSLGetSessionData P ctx = (err, sess, ctx') \<Longrightarrow> view ctx' = view ctx"
  by (auto simp: SSLGetSessionData_def Let_def split: if_split_asm prod.split_asm option.split_asm)

lemma drop_disabled_session_view [keeps]: "drop_disabled_session ctx = Some (err, ctx') \<Longrightarrow> view ctx' = view ctx"
  by (auto simp: drop_disabled_session_def elim!: bind_SomeE split: if_split_asm option.split_asm)

lemma SSLInitConnection_guarded:
  assumes "SSLInitConnection P ctx = Some (err, ctx')"
  shows "guarded Q ctx ctx'"
proof -
  have "view ctx' = view ctx \<or> (\<exists>c. view c = view ctx \<and> SSLAdvanceHandshake P SSL_HdskHelloRequest c = Some (err, ctx'))"
    using assms by (auto simp: SSLInitConnection_def Let_def elim!: bind_SomeE dest!: keeps split: if_split_asm prod.split_asm)
  then show ?thesis
  proof
    assume "\<exists>c. view c = view ctx \<and> SSLAdvanceHandshake P SSL_HdskHelloRequest c = Some (err, ctx')"
    then obtain c where c: "view c = view ctx" "SSLAdvanceHandshake P SSL_HdskHelloRequest c = Some (err, ctx')" by blast
    from guarded_from [OF advance_guarded [OF c(2)] c(1)] show ?thesis by (simp add: guarded_def)
  qed (rule guarded_view)
qed

lemma before_reading_guarded:
  assumes "before_reading P ctx = Some (err, ctx')"
  shows "guarded Q ctx ctx'"
proof -
  have adv: "view c' = view c" if "SSLAdvanceHandshake P SSL_HdskServerHelloDone c = Some (e, c')" for c c' e
    using that by (rule advance_other_view) simp_all
  have "view ctx' = view ctx \<or> (\<exists>e c. SSLInitConnection P ctx = Some (e, c) \<and> view ctx' = view c)"
    using assms by (auto simp: before_reading_def elim!: bind_SomeE dest!: keeps adv split: if_split_asm)
  then show ?thesis
    by (auto simp: guarded_def view_def dest!: SSLInitConnection_guarded [where Q = Q])
qed

lemma conn_step_guarded:
  assumes "conn_step P ctx ctx'"
  shows "guarded (\<exists>p. message_length p + 4 \<le> length p \<and> verifies_finished P p ctx) ctx ctx'"
  using assms
proof cases
  case (handshake p err)
  with process_one_guarded [OF handshake(2)] show ?thesis by (auto simp: guarded_def)
next
  case (receive err rec)
  then show ?thesis by (intro guarded_guard SSLReadRecord_guard)
next
  case (change rec err)
  then show ?thesis by (rule SSLProcessChangeCipherSpec_guarded)
next
  case (prepare err)
  then show ?thesis by (rule before_reading_guarded)
qed (auto intro!: guarded_view dest: keeps)

section \<open>No message changes the configuration\<close>

lemma conn_steps_steady: "conn_steps P ctx ctx' \<Longrightarrow> steady ctx' = steady ctx"
  by (induction rule: rtranclp_induct) (auto dest!: conn_step_guarded simp: guarded_def)

section \<open>Only Finished completes the handshake\<close>

text \<open>
  The run of \<open>SSLHandshake\<close>, call by call and message by message. Both relations are functions of their first
  argument: a call that succeeds has one outcome, and so has a message of the octets that a record has brought.
\<close>

definition proceeds :: "platform \<Rightarrow> SSLContext \<Rightarrow> SSLContext \<Rightarrow> bool" where
  "proceeds P c d \<longleftrightarrow> SSLHandshakeProceed P c = Some (noErr, d)"

definition next_message :: "platform \<Rightarrow> bytes \<times> SSLContext \<Rightarrow> bytes \<times> SSLContext \<Rightarrow> bool" where
  "next_message P = (\<lambda>(p, c) (q, d). 4 \<le> length p \<and> message_length p + 4 \<le> length p \<and>
     process_one P p (message_length p) c = Some (noErr, d) \<and> q = drop (4 + message_length p) p)"

text \<open>The octets that wait for their message to be complete, with those of the record, and the connection that has them.\<close>

definition handshake_octets :: "SSLRecord \<Rightarrow> SSLContext \<Rightarrow> bytes" where
  "handshake_octets rec c = (case fragmentedMessageCache c of None \<Rightarrow> [] | Some old \<Rightarrow> old) @ contents rec"

definition joined :: "SSLRecord \<Rightarrow> SSLContext \<Rightarrow> SSLContext" where
  "joined rec c = (case fragmentedMessageCache c of None \<Rightarrow> c | Some old \<Rightarrow> c\<lparr>fragmentedMessageCache := Some (old @ contents rec)\<rparr>)"

text \<open>
  Among the messages of a record, taken one after the other, is a Finished message that comes at its place and
  verifies; before it the cipher for incoming records is not in force, after it it is.
\<close>

definition finished_in :: "platform \<Rightarrow> SSLRecord \<Rightarrow> SSLContext \<Rightarrow> bool" where
  "finished_in P rec c \<longleftrightarrow> (\<exists>p c1 q c2.
     (next_message P)\<^sup>*\<^sup>* (handshake_octets rec c, joined rec c) (p, c1) \<and>
     verifies_finished P p c1 \<and> \<not> ready (readCipher c1) \<and> next_message P (p, c1) (q, c2) \<and> ready (readCipher c2))"

text \<open>A run from a state without a property to one that has it crosses over in one of its steps.\<close>

lemma rtranclp_crossing:
  assumes "R\<^sup>*\<^sup>* x y" "\<not> Q x" "Q y"
  shows "\<exists>a b. R\<^sup>*\<^sup>* x a \<and> \<not> Q a \<and> R a b \<and> Q b \<and> R\<^sup>*\<^sup>* b y"
  using assms
proof (induction rule: converse_rtranclp_induct)
  case (step x z)
  then show ?case
    by (cases "Q z") (blast intro: converse_rtranclp_into_rtranclp)+
qed simp

lemma process_messages_run:
  "process_messages P p ctx = Some (noErr, rest, ctx') \<Longrightarrow> (next_message P)\<^sup>*\<^sup>* (p, ctx) (rest, ctx')"
proof (induction P p ctx rule: process_messages.induct)
  case (1 P p ctx)
  show ?case
  proof (cases "length p < 4 \<or> message_length p + 4 > length p")
    case False
    with "1.prems" obtain e c where one: "process_one P p (message_length p) ctx = Some (e, c)"
      by (subst (asm) process_messages.simps) (auto elim!: bind_SomeE)
    with False "1.prems" have e: "e = noErr" and more: "process_messages P (drop (4 + message_length p) p) c = Some (noErr, rest, ctx')"
      by (subst (asm) process_messages.simps, auto split: if_split_asm)+
    from False one e have "next_message P (p, ctx) (drop (4 + message_length p) p, c)" by (auto simp: next_message_def)
    with "1.IH" [OF False one refl _ more] e show ?thesis by (auto intro: converse_rtranclp_into_rtranclp)
  qed (use "1.prems" in \<open>subst (asm) process_messages.simps, auto\<close>)
qed

lemma next_message_finished:
  "next_message P (p, c) (q, d) \<Longrightarrow> \<not> ready (readCipher c) \<Longrightarrow> ready (readCipher d) \<Longrightarrow> verifies_finished P p c"
  using process_one_guarded [of P p c noErr d] by (auto simp: next_message_def guarded_def)

lemma SSLProcessHandshakeRecord_finished:
  assumes "SSLProcessHandshakeRecord P rec c = Some (noErr, d)" "\<not> ready (readCipher c)" "ready (readCipher d)"
  shows "finished_in P rec c"
proof -
  from assms(1) obtain rest c' where run: "process_messages P (handshake_octets rec c) (joined rec c) = Some (noErr, rest, c')"
    and keep: "keep_fragment P (handshake_octets rec c) rest c' = Some (noErr, d)"
    unfolding SSLProcessHandshakeRecord_def handshake_octets_def joined_def
    by (cases "fragmentedMessageCache c") (auto elim!: bind_SomeE split: if_split_asm)
  from keep have "readCipher c' = readCipher d" by (auto simp: readCipher_view dest!: keeps)
  moreover have "readCipher (joined rec c) = readCipher c" by (simp add: joined_def split: option.split)
  ultimately obtain p c1 q c2 where "(next_message P)\<^sup>*\<^sup>* (handshake_octets rec c, joined rec c) (p, c1)"
      "\<not> ready (readCipher c1)" "next_message P (p, c1) (q, c2)" "ready (readCipher c2)"
    using rtranclp_crossing [OF process_messages_run [OF run], of "\<lambda>(p, c). ready (readCipher c)"] assms(2,3) by auto
  with next_message_finished [of P p c1 q c2] show ?thesis unfolding finished_in_def by blast
qed

lemma SSLProcessProtocolMessage_finished:
  assumes "SSLProcessProtocolMessage P rec c = Some (noErr, d)" "\<not> ready (readCipher c)" "ready (readCipher d)"
  shows "contentType rec = SSL_RecordTypeV2_0 \<or> contentType rec = SSL_RecordTypeHandshake \<and> finished_in P rec c"
proof -
  have "\<not> ready (readCipher d)" if "SSLProcessAlert P rec c = Some (noErr, d)"
    using SSLProcessAlert_view [OF that] assms(2) by (simp add: readCipher_view)
  moreover have "\<not> ready (readCipher d)" if "SSLProcessChangeCipherSpec P rec c = Some (noErr, d)"
    using SSLProcessChangeCipherSpec_guarded [OF that, of False] assms(2) by (simp add: guarded_def)
  ultimately show ?thesis
    using assms SSLProcessHandshakeRecord_finished [of P rec c d]
    by (auto simp: SSLProcessProtocolMessage_def split: if_split_asm)
qed

text \<open>The call in which the cipher for incoming records comes into force.\<close>

lemma proceeds_finished:
  assumes "proceeds P c d" "\<not> ready (readCipher c)" "ready (readCipher d)"
  shows "\<exists>b rec b'. before_reading P c = Some (noErr, b) \<and> SSLReadRecord P b = Some (noErr, Some rec, b') \<and>
    SSLProcessProtocolMessage P rec b' = Some (noErr, d) \<and>
    (contentType rec = SSL_RecordTypeV2_0 \<or> contentType rec = SSL_RecordTypeHandshake \<and> finished_in P rec b')"
proof -
  from assms(1) obtain b rec b' where b: "before_reading P c = Some (noErr, b)" "\<not> ready (readCipher b)"
      "SSLReadRecord P b = Some (noErr, Some rec, b')" "SSLProcessProtocolMessage P rec b' = Some (noErr, d)"
    by (auto simp: proceeds_def SSLHandshakeProceed_def elim!: bind_SomeE split: if_split_asm)
  from SSLReadRecord_guard [OF b(3)] b(2) have "\<not> ready (readCipher b')" by (simp add: guard_def readCipher_view)
  with SSLProcessProtocolMessage_finished [OF b(4) _ assms(3)] b show ?thesis by blast
qed

lemma proceed_until_proceeds:
  assumes "proceed_until P fin ctx = Some (noErr, ctx')"
  shows "(proceeds P)\<^sup>*\<^sup>* ctx ctx' \<and> fin ctx'"
proof -
  have "(\<lambda>((P, fin), ctx) y. fst y = noErr \<longrightarrow> (proceeds P)\<^sup>*\<^sup>* ctx (snd y) \<and> fin (snd y)) ((P, fin), ctx) (noErr, ctx')"
    using assms
  proof (rule proceed_until.raw_induct [rotated], goal_cases)
    case (1 rec P fin ctx y)
    show ?case
    proof (cases "fin ctx")
      case False
      with 1(2) obtain e c where p: "SSLHandshakeProceed P ctx = Some (e, c)"
        by (auto elim!: bind_SomeE)
      have "y = (e, c) \<and> e \<noteq> noErr \<or> e = noErr \<and> rec P fin c = Some y"
        using 1(2) False p by (auto split: if_split_asm)
      then show ?thesis
        using p 1(1) [of P fin c y] by (auto simp: proceeds_def intro: converse_rtranclp_into_rtranclp)
    qed (use 1(2) in auto)
  qed
  then show ?thesis by simp
qed

end
