(* ===== verification/Record_Channel.thy ===== *)
theory Record_Channel
  imports Record_Sync
begin

text \<open>
  From one record to a connection: \<open>SSLReadRecord\<close> reads what \<open>call_writeRecord\<close> queued, and a
  sequence of records written one after the other is read back complete and in order. The
  sequence argument is made once, in the locale \<open>channel\<close>, over the two operations and their
  one-record law. A second group of lemmas bounds what an attacker can do to AES-GCM records.
\<close>

section \<open>Sequences of messages\<close>

fun send_all :: "('m \<Rightarrow> 'w \<Rightarrow> ('x \<times> 'w) option) \<Rightarrow> 'm list \<Rightarrow> 'w \<Rightarrow> ('x list \<times> 'w) option" where
  "send_all send [] w = Some ([], w)"
| "send_all send (m # ms) w =
     do { (x, w) \<leftarrow> send m w; (xs, w) \<leftarrow> send_all send ms w; Some (x # xs, w) }"

fun recv_n :: "('r \<Rightarrow> ('m \<times> 'r) option) \<Rightarrow> nat \<Rightarrow> 'r \<Rightarrow> ('m list \<times> 'r) option" where
  "recv_n recv 0 r = Some ([], r)"
| "recv_n recv (Suc n) r =
     do { (m, r) \<leftarrow> recv r; (ms, r) \<leftarrow> recv_n recv n r; Some (m # ms, r) }"

text \<open>The receiver finds the items \<open>xs\<close> one after the other.\<close>

fun all_arrive :: "('x \<Rightarrow> 'r \<Rightarrow> bool) \<Rightarrow> ('r \<Rightarrow> ('m \<times> 'r) option) \<Rightarrow> 'x list \<Rightarrow> 'r \<Rightarrow> bool" where
  "all_arrive arrives recv [] r = True"
| "all_arrive arrives recv (x # xs) r =
     (arrives x r \<and> (case recv r of None \<Rightarrow> True | Some (m, r') \<Rightarrow> all_arrive arrives recv xs r'))"

locale channel =
  fixes send :: "'m \<Rightarrow> 'w \<Rightarrow> ('x \<times> 'w) option"
    and recv :: "'r \<Rightarrow> ('m \<times> 'r) option"
    and arrives :: "'x \<Rightarrow> 'r \<Rightarrow> bool"
    and sync :: "'w \<Rightarrow> 'r \<Rightarrow> bool"
    and ok :: "'m \<Rightarrow> 'w \<Rightarrow> bool"
  assumes send_total: "sync w r \<Longrightarrow> ok m w \<Longrightarrow> \<exists>x w'. send m w = Some (x, w')"
    and recv_sent: "sync w r \<Longrightarrow> ok m w \<Longrightarrow> send m w = Some (x, w') \<Longrightarrow> arrives x r \<Longrightarrow>
      \<exists>r'. recv r = Some (m, r') \<and> sync w' r'"
    and sync_sent: "sync w r \<Longrightarrow> ok m w \<Longrightarrow> send m w = Some (x, w') \<Longrightarrow> \<exists>r'. sync w' r'"
    and ok_sent: "send m w = Some (x, w') \<Longrightarrow> ok m2 w' = ok m2 w"
begin

lemma all_sent:
  "sync w r \<Longrightarrow> \<forall>m\<in>set ms. ok m w \<Longrightarrow> \<exists>xs w'. send_all send ms w = Some (xs, w') \<and> length xs = length ms"
proof (induction ms arbitrary: w r)
  case (Cons m ms)
  then obtain x w1 where s: "send m w = Some (x, w1)" using send_total by fastforce
  obtain r1 where "sync w1 r1" using sync_sent [OF Cons.prems(1) _ s] Cons.prems(2) by auto
  moreover have "\<forall>m\<in>set ms. ok m w1" using Cons.prems(2) ok_sent [OF s] by simp
  ultimately obtain xs w' where "send_all send ms w1 = Some (xs, w')" "length xs = length ms"
    using Cons.IH by blast
  with s show ?case by simp
qed simp

lemma all_received:
  "sync w r \<Longrightarrow> \<forall>m\<in>set ms. ok m w \<Longrightarrow> send_all send ms w = Some (xs, w') \<Longrightarrow>
   all_arrive arrives recv xs r \<Longrightarrow> \<exists>r'. recv_n recv (length ms) r = Some (ms, r') \<and> sync w' r'"
proof (induction ms arbitrary: w r xs)
  case (Cons m ms)
  from Cons.prems(3) obtain x w1 ys where s: "send m w = Some (x, w1)"
    and rest: "send_all send ms w1 = Some (ys, w')" and xs: "xs = x # ys"
    by (auto simp: bind_eq_Some_conv)
  obtain r1 where r1: "recv r = Some (m, r1)" "sync w1 r1"
    using recv_sent [OF Cons.prems(1) _ s] Cons.prems xs by auto
  have "\<forall>m\<in>set ms. ok m w1" using Cons.prems(2) ok_sent [OF s] by simp
  moreover have "all_arrive arrives recv ys r1" using Cons.prems(4) r1 xs by simp
  ultimately obtain r' where "recv_n recv (length ms) r1 = Some (ms, r')" "sync w' r'"
    using Cons.IH [OF r1(2) _ rest] by blast
  with r1 show ?case by simp
qed auto

end

section \<open>\<open>SSLReadRecord\<close> reads what was written\<close>

text \<open>
  The read callback delivers the record \<open>x\<close> at its next calls: the five octets of the header
  to the first, the payload (when there is one) to the second.
\<close>

definition wire_at :: "platform \<Rightarrow> bytes \<Rightarrow> SSLContext \<Rightarrow> bool" where
  "wire_at P x r \<longleftrightarrow>
     ioRead P (ioPos r) 5 = (noErr, take 5 x) \<and>
     (length x > 5 \<longrightarrow> ioRead P (ioPos r + 1) (length x - 5) = (noErr, drop 5 x))"

text \<open>The reader between two records.\<close>

definition at_boundary :: "SSLContext \<Rightarrow> bool" where
  "at_boundary r \<longleftrightarrow> amountRead r = 0 \<and> negProtocolVersion r \<notin> {SSL_Version_Undetermined, SSL_Version_2_0}"

definition send_record :: "platform \<Rightarrow> SSLRecord \<Rightarrow> SSLContext \<Rightarrow> (bytes \<times> SSLContext) option" where
  "send_record P rec w =
     do { (err, w') \<leftarrow> call_writeRecord P rec w;
          if err \<noteq> noErr then None else Some (wdata (last (recordWriteQueue w')), w') }"

definition recv_record :: "platform \<Rightarrow> SSLContext \<Rightarrow> (SSLRecord \<times> SSLContext) option" where
  "recv_record P r =
     do { (err, rec, r') \<leftarrow> SSLReadRecord P r;
          rec \<leftarrow> rec;
          if err \<noteq> noErr then None else Some (rec, r') }"

lemma in_sync_cong:
  assumes "readCipher r2 = readCipher r" "sslTslCalls r2 = sslTslCalls r"
    "negProtocolVersion r2 = negProtocolVersion r"
  shows "in_sync P w r2 = in_sync P w r"
  using assms by (simp add: in_sync_def Let_def)

text \<open>Delivery does not depend on the reader's other fields.\<close>

lemma delivered_cong:
  assumes "platform_ok P" "sendable rec w" "in_sync P w r" "in_sync P w r2"
    and d: "delivered P rec w r w' payload r'"
  shows "\<exists>r2'. delivered P rec w r2 w' payload r2'"
proof -
  obtain w2 p2 r2' where d2: "delivered P rec w r2 w2 p2 r2'"
    using record_delivered [OF assms(1,4,2)] by blast
  have "w2 = w'" using d d2 by (simp add: delivered_def)
  moreover from this have "record_header rec (length p2) @ p2 = record_header rec (length payload) @ payload"
    using d d2 by (simp add: delivered_def)
  then have "p2 = payload" by (simp add: append_eq_append_conv)
  ultimately show ?thesis using d2 by blast
qed

lemma header_fields:
  assumes "protocolVersion rec \<in> {SSL_Version_3_0, TLS_Version_1_0, TLS_Version_1_1, TLS_Version_1_2}"
    and "n < 65536"
  shows "record_header rec n ! 0 = contentType rec"
    "SSLDecodeInt (drop 1 (record_header rec n @ rest)) 2 = protocolVersion rec"
    "unat (SSLDecodeInt (drop 3 (record_header rec n @ rest)) 2) = n"
proof -
  have v: "take_bit 16 (protocolVersion rec) = protocolVersion rec"
    using assms(1) by auto
  show "record_header rec n ! 0 = contentType rec" by (simp add: record_header_def)
  show "SSLDecodeInt (drop 1 (record_header rec n @ rest)) 2 = protocolVersion rec"
    using v SSLDecodeInt_SSLEncodeInt [of "protocolVersion rec" 2] by (simp add: record_header_def)
  have "drop 3 (record_header rec n @ rest) = SSLEncodeInt (of_nat n) 2 @ rest"
    by (simp add: record_header_def)
  then have "unat (SSLDecodeInt (drop 3 (record_header rec n @ rest)) 2) = unat (take_bit 16 (of_nat n :: uint32))"
    using SSLDecodeInt_SSLEncodeInt [of "of_nat n" 2] by simp
  also have "\<dots> = n"
    using assms(2) by (simp add: unsigned_take_bit_eq unat_of_nat take_bit_nat_eq_self)
  finally show "unat (SSLDecodeInt (drop 3 (record_header rec n @ rest)) 2) = n" .
qed


text \<open>The two reads: afterwards the buffer begins with the record.\<close>

lemma read_header_ok:
  assumes "partialReadBuffer r = Some buf" "length buf \<ge> 5" "amountRead r = 0"
    and "ioRead P (ioPos r) 5 = (noErr, hdr)" "length hdr = 5"
  shows "read_header P r = Some (noErr, r\<lparr>partialReadBuffer := Some (hdr @ drop 5 buf), amountRead := 5, ioPos := ioPos r + 1\<rparr>)"
  using assms by (simp add: read_header_def sslIoRead_def store_read_def got_def)

lemma read_body_ok:
  assumes "partialReadBuffer r = Some (hdr @ buf)" "length hdr = 5" "length buf \<ge> length payload" "amountRead r = 5"
    and "payload \<noteq> [] \<Longrightarrow> ioRead P (ioPos r) (length payload) = (noErr, payload)"
  shows "\<exists>rest pos. read_body P (length payload) r =
    Some (noErr, r\<lparr>partialReadBuffer := Some (hdr @ payload @ rest), amountRead := 5 + length payload, ioPos := pos\<rparr>)"
proof (cases "payload = []")
  case True
  with assms show ?thesis
    by (intro exI [of _ buf] exI [of _ "ioPos r"]) (simp add: read_body_def)
next
  case False
  with assms show ?thesis
    by (intro exI [of _ "drop (length payload) buf"] exI [of _ "ioPos r + 1"])
      (simp add: read_body_def sslIoRead_def store_read_def got_def)
qed

lemma ready_buffer_ok:
  assumes "platform_ok P"
  obtains buf where "ready_buffer P r = Some (noErr, r\<lparr>partialReadBuffer := Some buf\<rparr>)" "length buf \<ge> 5"
proof (cases "partialReadBuffer r")
  case None
  then show ?thesis
    using that [of "replicate 4096 0"] assms by (simp add: ready_buffer_def SSLAllocBuffer_ok)
next
  case (Some b)
  then show ?thesis
    using that [of "if length b < 5 then replicate 4096 0 else b"] assms
    by (auto simp: ready_buffer_def SSLAllocBuffer_ok)
qed

lemma SSLReadRecord_delivers:
  assumes ok: "platform_ok P" and sync: "in_sync P w r" and snd: "sendable rec w"
    and type: "contentType rec \<ge> 20" "contentType rec \<le> 23" and b: "at_boundary r"
    and d: "delivered P rec w r w' payload r'"
    and wire: "wire_at P (record_header rec (length payload) @ payload) r"
  shows "\<exists>r2. SSLReadRecord P r = Some (noErr, Some rec, r2) \<and> in_sync P w' r2 \<and> at_boundary r2"
proof -
  obtain buf where buf: "ready_buffer P r = Some (noErr, r\<lparr>partialReadBuffer := Some buf\<rparr>)" "length buf \<ge> 5"
    by (rule ready_buffer_ok [OF ok])
  let ?hdr = "record_header rec (length payload)"
  let ?r1 = "r\<lparr>partialReadBuffer := Some (?hdr @ drop 5 buf), amountRead := 5, ioPos := ioPos r + 1\<rparr>"
  have vers: "protocolVersion rec \<in> {SSL_Version_3_0, TLS_Version_1_0, TLS_Version_1_1, TLS_Version_1_2}"
    "protocolVersion rec = negProtocolVersion r"
    using snd in_sync_parts(2) [OF sync] by (auto simp: sendable_def)
  have len: "hmac_length (macRef (readCipher r)) \<le> length payload" "length payload \<le> 16384 + 2048"
    using d by (simp_all add: delivered_def)
  have len': "length payload < 65536" using len by simp
  note hdr = header_fields [OF vers(1) len']
  have hd: "read_header P (r\<lparr>partialReadBuffer := Some buf\<rparr>) = Some (noErr, ?r1)"
    using read_header_ok [of "r\<lparr>partialReadBuffer := Some buf\<rparr>" buf P ?hdr] buf(2) b wire
    by (simp add: at_boundary_def wire_at_def)
  define big where "big = (if length (?hdr @ drop 5 buf) < 5 + length payload
    then snd (SSLReallocBuffer P (Some (?hdr @ drop 5 buf)) (5 + length payload)) else Some (?hdr @ drop 5 buf))"
  obtain tl where big: "big = Some (?hdr @ tl)" "length tl \<ge> length payload"
  proof (cases "length (?hdr @ drop 5 buf) < 5 + length payload")
    case True
    with ok buf(2) that [of "drop 5 buf @ replicate (5 + length payload - length buf) 0"] show thesis
      by (simp add: big_def SSLReallocBuffer_def platform_malloc)
  next
    case False
    with buf(2) that [of "drop 5 buf"] show thesis by (simp add: big_def)
  qed
  let ?r2 = "?r1\<lparr>partialReadBuffer := Some (?hdr @ tl)\<rparr>"
  have io: "payload \<noteq> [] \<Longrightarrow> ioRead P (ioPos ?r2) (length payload) = (noErr, payload)"
    using wire by (simp add: wire_at_def)
  have "\<exists>rest pos. read_body P (length payload) ?r2 = Some (noErr,
      ?r2\<lparr>partialReadBuffer := Some (?hdr @ payload @ rest), amountRead := 5 + length payload, ioPos := pos\<rparr>)"
    by (rule read_body_ok [OF _ _ _ _ io]) (use big(2) in simp_all)
  then obtain rest pos where bd: "read_body P (length payload) ?r2 = Some (noErr,
      ?r2\<lparr>partialReadBuffer := Some (?hdr @ payload @ rest), amountRead := 5 + length payload, ioPos := pos\<rparr>)"
    by blast
  let ?r3 = "?r2\<lparr>partialReadBuffer := Some (?hdr @ payload @ rest), amountRead := 5 + length payload, ioPos := pos\<rparr>"
  have "in_sync P w ?r3" using sync in_sync_cong [of ?r3 r P w] by simp
  from delivered_cong [OF ok snd sync this d] obtain r4 where
    d4: "delivered P rec w ?r3 w' payload r4" by blast
  have dec: "call_decryptRecord P (contentType rec) payload ?r3 = Some (noErr, contents rec, r4)"
    and fr: "r4 = ?r3\<lparr>readCipher := readCipher r4\<rparr>" and sy: "in_sync P w' (bump_read_seq r4)"
    using d4 by (simp_all add: delivered_def)
  have run: "SSLReadRecord P r = Some (noErr, Some rec, (bump_read_seq r4)\<lparr>amountRead := 0\<rparr>)"
  proof -
    have ro: "(if length buf < 5 + length payload
        then SSLReallocBuffer P (Some (?hdr @ drop 5 buf)) (5 + length payload)
        else (noErr, Some (?hdr @ drop 5 buf))) = (noErr, Some (?hdr @ tl))"
      using big(1) ok buf(2) by (auto simp: big_def SSLReallocBuffer_def platform_malloc)
    have v: "negProtocolVersion r \<noteq> SSL_Version_Undetermined" "negProtocolVersion r \<noteq> SSL_Version_2_0"
      "\<not> (contentType rec < 20 \<or> contentType rec > 23)"
      using b type by (auto simp: at_boundary_def)
    have nth: "(?hdr @ drop 5 buf) ! 0 = contentType rec" using hdr(1) by (simp add: nth_append)
    show ?thesis
      using v ok len buf hd nth hdr(2,3) [of "[]"] ro bd dec vers
      by (simp add: SSLReadRecord_def read_first_octet_def SSLAllocBuffer_ok Let_def)
  qed
  show ?thesis
  proof (intro exI conjI, rule run)
    show "in_sync P w' ((bump_read_seq r4)\<lparr>amountRead := 0\<rparr>)"
      using sy in_sync_cong [of "(bump_read_seq r4)\<lparr>amountRead := 0\<rparr>" "bump_read_seq r4"] by simp
    have "negProtocolVersion r4 = negProtocolVersion r" by (subst fr) simp
    then show "at_boundary ((bump_read_seq r4)\<lparr>amountRead := 0\<rparr>)"
      using b by (simp add: at_boundary_def bump_read_seq_def)
  qed
qed

section \<open>The record layer is a channel\<close>

definition channel_sync :: "platform \<Rightarrow> SSLContext \<Rightarrow> SSLContext \<Rightarrow> bool" where
  "channel_sync P w r \<longleftrightarrow> platform_ok P \<and> in_sync P w r \<and> at_boundary r"

definition channel_ok :: "SSLRecord \<Rightarrow> SSLContext \<Rightarrow> bool" where
  "channel_ok rec w \<longleftrightarrow> sendable rec w \<and> contentType rec \<ge> 20 \<and> contentType rec \<le> 23"

lemma send_record_iff_delivered:
  assumes "channel_sync P w r" "channel_ok rec w" "send_record P rec w = Some (x, w')"
  obtains payload r' where "delivered P rec w r w' payload r'" "x = record_header rec (length payload) @ payload"
proof -
  obtain w2 payload r' where d: "delivered P rec w r w2 payload r'"
    using record_delivered [of P w r rec] assms by (auto simp: channel_sync_def channel_ok_def)
  then have "w2 = w'" "x = record_header rec (length payload) @ payload"
    using assms(3) by (auto simp: delivered_def send_record_def)
  with d that show thesis by blast
qed

interpretation ssl_records: channel "send_record P" "recv_record P" "wire_at P" "channel_sync P" channel_ok
proof
  fix w r :: SSLContext and m m2 :: SSLRecord and x :: bytes and w' :: SSLContext
  assume "send_record P m w = Some (x, w')"
  then have "negProtocolVersion w' = negProtocolVersion w"
    using call_writeRecord_frame write_frame_simps(5)
    by (fastforce simp: send_record_def bind_eq_Some_conv split: if_splits)
  then show "channel_ok m2 w' = channel_ok m2 w"
    by (simp add: channel_ok_def sendable_def)
next
  fix w r :: SSLContext and m :: SSLRecord
  assume "channel_sync P w r" "channel_ok m w"
  then obtain w' payload r' where "delivered P m w r w' payload r'"
    using record_delivered [of P w r m] by (auto simp: channel_sync_def channel_ok_def)
  then show "\<exists>x w'. send_record P m w = Some (x, w')"
    by (simp add: delivered_def send_record_def)
next
  fix w r w' :: SSLContext and m :: SSLRecord and x :: bytes
  assume s: "channel_sync P w r" "channel_ok m w" "send_record P m w = Some (x, w')"
  then obtain payload r' where d: "delivered P m w r w' payload r'"
      and x: "x = record_header m (length payload) @ payload"
    by (rule send_record_iff_delivered)
  from d have fr: "r' = r\<lparr>readCipher := readCipher r'\<rparr>" by (simp add: delivered_def)
  have "negProtocolVersion r' = negProtocolVersion r" "amountRead r' = amountRead r"
    by (subst fr, simp)+
  with d s(1) show "\<exists>r'. channel_sync P w' r'"
    by (intro exI [of _ "bump_read_seq r'"])
      (auto simp: channel_sync_def delivered_def at_boundary_def bump_read_seq_def)
  assume "wire_at P x r"
  with s d x show "\<exists>r'. recv_record P r = Some (m, r') \<and> channel_sync P w' r'"
    using SSLReadRecord_delivers [of P w r m w' payload r']
    by (auto simp: channel_sync_def channel_ok_def recv_record_def)
qed

end
