(* ===== verification/App_Data.thy ===== *)
theory App_Data
  imports Connection Record_Channel
begin

text \<open>
  The data of the application: what \<open>SSLWrite\<close> puts on the wire is, for a peer in sync, the data in
  records of at most \<open>MAX_RECORD_LENGTH\<close> octets, and \<open>SSLRead\<close> hands out the contents of the records
  it reads as a stream, whatever the sizes of the application's buffers.
\<close>

section \<open>Writing\<close>

text \<open>The reference: cutting the data into pieces.\<close>

function fragments :: "bytes \<Rightarrow> bytes list" where
  "fragments data = (if data = [] then [] else take MAX_RECORD_LENGTH data # fragments (drop MAX_RECORD_LENGTH data))"
  by pat_completeness auto
termination
  by (relation "measure length") (auto simp: MAX_RECORD_LENGTH_def)

declare fragments.simps [simp del]

lemma concat_fragments [simp]: "concat (fragments data) = data"
  by (induction data rule: fragments.induct) (subst fragments.simps, simp)

lemma fragments_length: "f \<in> set (fragments data) \<Longrightarrow> f \<noteq> [] \<and> length f \<le> MAX_RECORD_LENGTH"
proof (induction data rule: fragments.induct)
  case (1 data)
  then show ?case
    by (subst (asm) (2) fragments.simps) (auto simp: MAX_RECORD_LENGTH_def split: if_split_asm)
qed

definition app_record :: "SSLProtocolVersion \<Rightarrow> bytes \<Rightarrow> SSLRecord" where
  "app_record v bs = \<lparr>contentType = SSL_RecordTypeAppData, protocolVersion = v, contents = bs\<rparr>"

lemma contents_app_record [simp]: "contents (app_record v bs) = bs"
  by (simp add: app_record_def)

definition record_version_ok :: "SSLContext \<Rightarrow> bool" where
  "record_version_ok w \<longleftrightarrow> negProtocolVersion w \<in> {SSL_Version_3_0, TLS_Version_1_0, TLS_Version_1_1, TLS_Version_1_2}"

lemma app_record_ok:
  "record_version_ok w \<Longrightarrow> length bs \<le> MAX_RECORD_LENGTH \<Longrightarrow> channel_ok (app_record (negProtocolVersion w) bs) w"
  by (simp add: channel_ok_def sendable_def app_record_def record_version_ok_def MAX_RECORD_LENGTH_def)

definition waiting :: "bytes \<Rightarrow> WaitingRecord" where
  "waiting x = \<lparr>sent = 0, wdata = x\<rparr>"

lemma queue_data_send_all:
  assumes "channel_sync P w r" "record_version_ok w"
  shows "\<exists>xs w'. send_all (send_record P) (map (app_record (negProtocolVersion w)) (fragments data)) w = Some (xs, w') \<and>
    queue_data P data w = Some (noErr, w') \<and> recordWriteQueue w' = recordWriteQueue w @ map waiting xs \<and> [] \<notin> set xs \<and>
    state w' = state w \<and> wireOut w' = wireOut w"
  using assms
proof (induction data arbitrary: w r rule: fragments.induct)
  case (1 data)
  show ?case
  proof (cases "data = []")
    case True
    then show ?thesis by (simp add: fragments.simps queue_data.simps)
  next
    case False
    let ?rec = "app_record (negProtocolVersion w) (take MAX_RECORD_LENGTH data)"
    have ok: "channel_ok ?rec w" using "1.prems"(2) by (simp add: app_record_ok)
    obtain x w1 where s: "send_record P ?rec w = Some (x, w1)"
      using ssl_records.send_total [OF "1.prems"(1) ok] by blast
    obtain payload r1 where d: "delivered P ?rec w r w1 payload r1" "x = record_header ?rec (length payload) @ payload"
      by (rule send_record_iff_delivered [OF "1.prems"(1) ok s])
    then have q: "recordWriteQueue w1 = recordWriteQueue w @ [waiting x]" "x \<noteq> []"
      and c: "call_writeRecord P ?rec w = Some (noErr, w1)"
      by (auto simp: delivered_def waiting_def record_header_def)
    note fr = write_frame_simps [OF call_writeRecord_frame [OF c]]
    obtain r2 where "channel_sync P w1 r2" using ssl_records.sync_sent [OF "1.prems"(1) ok s] by blast
    moreover have "record_version_ok w1" using "1.prems"(2) fr by (simp add: record_version_ok_def)
    ultimately obtain xs w' where IH:
      "send_all (send_record P) (map (app_record (negProtocolVersion w1)) (fragments (drop MAX_RECORD_LENGTH data))) w1 = Some (xs, w')"
      "queue_data P (drop MAX_RECORD_LENGTH data) w1 = Some (noErr, w')" "recordWriteQueue w' = recordWriteQueue w1 @ map waiting xs"
      "[] \<notin> set xs" "state w' = state w1" "wireOut w' = wireOut w1"
      using "1.IH" [OF False] by blast
    have "queue_data P data w = Some (noErr, w')"
      using False c IH(2) by (subst queue_data.simps) (simp add: app_record_def)
    moreover have "send_all (send_record P) (map (app_record (negProtocolVersion w)) (fragments data)) w = Some (x # xs, w')"
      using False s IH(1) fr by (subst fragments.simps) simp
    ultimately show ?thesis using q IH fr by (intro exI [of _ "x # xs"] exI [of _ w']) simp
  qed
qed

text \<open>The octets of records that are queued whole.\<close>

lemma waiting_queue: "[] \<notin> set xs \<Longrightarrow> queue_wf (map waiting xs)" "[] \<notin> set xs \<Longrightarrow> \<forall>r\<in>set (map waiting xs). sent r < length (wdata r)"
  "unsent (map waiting xs) = concat xs"
  by (auto simp: queue_wf_def waiting_def unsent_def comp_def)

lemma proceed_until_done: "fin ctx \<Longrightarrow> proceed_until P fin ctx = Some (noErr, ctx)"
  by (subst proceed_until.simps) simp

lemma SSLServiceWriteQueue_empty: "recordWriteQueue ctx = [] \<Longrightarrow> SSLServiceWriteQueue P ctx = Some (noErr, ctx)"
  by (subst SSLServiceWriteQueue.simps) simp

text \<open>A connection on which the application can write: open, with its write cipher in force and nothing queued.\<close>

definition open_for_writing :: "SSLContext \<Rightarrow> bool" where
  "open_for_writing w \<longleftrightarrow> \<not> before_handshake (state w) \<and> ready (writeCipher w) \<and> recordWriteQueue w = []"

lemma SSLWrite_returns:
  assumes sync: "channel_sync P w r" "record_version_ok w" and io: "write_ok P" "write_progress P" and w: "open_for_writing w"
  shows "\<exists>err w' w1 xs out. SSLWrite P data w = Some (err, length data, w') \<and>
    send_all (send_record P) (map (app_record (negProtocolVersion w)) (fragments data)) w = Some (xs, w1) \<and>
    wireOut w' = wireOut w @ out \<and> concat xs = out @ unsent (recordWriteQueue w') \<and> (err = noErr \<longrightarrow> recordWriteQueue w' = [])"
proof -
  obtain xs w1 where s: "send_all (send_record P) (map (app_record (negProtocolVersion w)) (fragments data)) w = Some (xs, w1)"
    "queue_data P data w = Some (noErr, w1)" "recordWriteQueue w1 = map waiting xs" "[] \<notin> set xs" "wireOut w1 = wireOut w"
    using queue_data_send_all [OF sync, of data] w by (auto simp: open_for_writing_def)
  obtain err w' out where e: "SSLServiceWriteQueue P w1 = Some (err, w')"
    "wireOut w' = wireOut w1 @ out" "concat xs = out @ unsent (recordWriteQueue w')" "err = noErr \<longrightarrow> recordWriteQueue w' = []"
    using SSLServiceWriteQueue_terminates [OF io, of w1] s waiting_queue by (auto simp: waiting_queue)
  have "SSLWrite P data w = Some (err, length data, error_close harmless err w')"
    using w s(2) e(1) by (auto simp: SSLWrite_def open_for_writing_def before_handshake_def proceed_until_done SSLServiceWriteQueue_empty)
  moreover have "recordWriteQueue (error_close harmless err w') = recordWriteQueue w'" "wireOut (error_close harmless err w') = wireOut w'"
    by (simp_all add: error_close_def)
  ultimately show ?thesis using s(1,5) e by auto
qed

section \<open>Reading\<close>

text \<open>The octets that have been read and not yet handed out; there is no empty buffer.\<close>

definition unread :: "SSLContext \<Rightarrow> bytes" where
  "unread ctx = (case receivedDataBuffer ctx of None \<Rightarrow> [] | Some buf \<Rightarrow> drop (receivedDataPos ctx) buf)"

definition buffer_wf :: "SSLContext \<Rightarrow> bool" where
  "buffer_wf ctx \<longleftrightarrow> (case receivedDataBuffer ctx of None \<Rightarrow> receivedDataPos ctx = 0 | Some buf \<Rightarrow> receivedDataPos ctx < length buf)"

lemma unread_Nil: "buffer_wf ctx \<Longrightarrow> unread ctx = [] \<longleftrightarrow> receivedDataBuffer ctx = None"
  by (auto simp: unread_def buffer_wf_def split: option.splits)

lemma take_buffered_ok:
  assumes "buffer_wf ctx"
  shows "\<exists>ctx'. take_buffered n ctx = Some (take n (unread ctx), ctx') \<and> unread ctx' = drop n (unread ctx) \<and> buffer_wf ctx' \<and>
    ctx' = ctx\<lparr>receivedDataBuffer := receivedDataBuffer ctx', receivedDataPos := receivedDataPos ctx'\<rparr>"
proof (cases "receivedDataBuffer ctx")
  case None
  with assms show ?thesis by (simp add: take_buffered_def buffer_wf_def unread_def)
next
  case (Some buf)
  with assms have "receivedDataPos ctx < length buf" by (simp add: buffer_wf_def)
  with Some show ?thesis
    by (cases "n < length buf - receivedDataPos ctx")
      (auto simp: take_buffered_def unread_def buffer_wf_def Let_def min_def add.commute)
qed

lemma SSLReadRecord_steady: "SSLReadRecord P ctx = Some (err, rec, ctx') \<Longrightarrow> steady ctx' = steady ctx"
  using SSLReadRecord_guard [of P ctx err rec ctx'] by (simp add: guard_def view_def)

lemma SSLGetBufferedReadSize_unread: "buffer_wf ctx \<Longrightarrow> SSLGetBufferedReadSize ctx = Some (length (unread ctx))"
  by (auto simp: SSLGetBufferedReadSize_def buffer_wf_def unread_def split: option.splits)

text \<open>
  A connection on which the application can read. Before reading, \<open>SSLRead\<close> tries to send what is queued; that
  the callback cannot take all of it does no harm.
\<close>

definition open_for_reading :: "SSLContext \<Rightarrow> bool" where
  "open_for_reading r \<longleftrightarrow> state r \<in> {SSL_HdskStateClientReady, SSL_HdskStateServerReady} \<and> ready (readCipher r) \<and> buffer_wf r"

definition flushed :: "platform \<Rightarrow> SSLContext \<Rightarrow> SSLContext \<Rightarrow> bool" where
  "flushed P r r0 \<longleftrightarrow> (\<exists>err. SSLServiceWriteQueue P r = Some (err, r0) \<and> (err = noErr \<or> err = errSSLWouldBlock))"

lemma flushed_keeps:
  assumes "flushed P r r0"
  shows "state r0 = state r" "readCipher r0 = readCipher r" "receivedDataBuffer r0 = receivedDataBuffer r"
    "receivedDataPos r0 = receivedDataPos r" "unread r0 = unread r" "open_for_reading r0 = open_for_reading r"
proof -
  obtain i w q where "r0 = r\<lparr>ioPos := i, wireOut := w, recordWriteQueue := q\<rparr>"
    using assms unfolding flushed_def by (blast elim: SSLServiceWriteQueue_frame)
  then show "state r0 = state r" "readCipher r0 = readCipher r" "receivedDataBuffer r0 = receivedDataBuffer r"
    "receivedDataPos r0 = receivedDataPos r" "unread r0 = unread r" "open_for_reading r0 = open_for_reading r"
    by (simp_all add: unread_def open_for_reading_def buffer_wf_def split: option.split)
qed

text \<open>What \<open>SSLRead\<close> does in one round: octets that wait come first.\<close>

lemma SSLRead_round:
  assumes "open_for_reading r" "flushed P r r0" "take_buffered n r0 = Some (bs, r1)"
    "read_more P (n - length bs) r1 = Some (err, fresh, r2)" "bs @ fresh \<noteq> [] \<or> err \<noteq> noErr \<or> n = 0"
  shows "SSLRead P n r = Some (err, bs @ fresh, error_close (insert errSSLClosedNoNotify harmless) err r2)"
proof -
  have "read_data P n r = Some (err, bs @ fresh, r2)"
    using assms(1-4) by (auto simp: read_data_def open_for_reading_def proceed_until_done flushed_def)
  with assms(1,5) show ?thesis
    by (subst SSLRead.simps) (auto simp: open_for_reading_def)
qed

lemma error_close_unread [simp]: "unread (error_close ok err r) = unread r"
  by (simp add: error_close_def unread_def split: option.split)

text \<open>When enough octets wait, no record is read.\<close>

lemma SSLRead_buffered:
  assumes r: "open_for_reading r" "flushed P r r0" and n: "0 < n" "n \<le> length (unread r)"
  shows "\<exists>r'. SSLRead P n r = Some (noErr, take n (unread r), r') \<and> unread r' = drop n (unread r) \<and> open_for_reading r'"
proof -
  note r0 = flushed_keeps [OF r(2)]
  have "buffer_wf r0" using r r0 by (simp add: open_for_reading_def)
  then obtain r' where t: "take_buffered n r0 = Some (take n (unread r), r')" "unread r' = drop n (unread r)" "buffer_wf r'"
    "r' = r0\<lparr>receivedDataBuffer := receivedDataBuffer r', receivedDataPos := receivedDataPos r'\<rparr>"
    using take_buffered_ok [of r0 n] r0 by auto
  have "take n (unread r) \<noteq> []" using n by auto
  with SSLRead_round [OF r t(1), of noErr "[]" r'] n
  have "SSLRead P n r = Some (noErr, take n (unread r), r')" by (simp add: read_more_def error_close_def harmless_def)
  moreover have "state r' = state r0" "readCipher r' = readCipher r0" by (subst t(4), simp)+
  ultimately show ?thesis using t(2,3) r(1) r0 by (simp add: open_for_reading_def)
qed

text \<open>Otherwise all that waits is handed out and a record is read behind it.\<close>

definition emptied :: "SSLContext \<Rightarrow> SSLContext" where
  "emptied r = r\<lparr>receivedDataBuffer := None, receivedDataPos := 0\<rparr>"

lemma take_buffered_all:
  assumes "open_for_reading r" "length (unread r) < n"
  shows "take_buffered n r = Some (unread r, emptied r)"
proof (cases "receivedDataBuffer r")
  case None
  then have "r = emptied r" using assms(1) by (cases r) (simp add: emptied_def open_for_reading_def buffer_wf_def)
  with None assms show ?thesis by (simp add: take_buffered_def unread_def open_for_reading_def buffer_wf_def)
qed (use assms in \<open>auto simp: take_buffered_def unread_def open_for_reading_def buffer_wf_def emptied_def Let_def\<close>)

lemma SSLRead_record:
  assumes r: "open_for_reading r" "flushed P r r0" and n: "length (unread r) < n"
    and rec: "SSLReadRecord P (emptied r0) = Some (noErr, Some m, r1)" "contentType m = SSL_RecordTypeAppData" "unread r @ contents m \<noteq> []"
  shows "\<exists>r'. SSLRead P n r = Some (noErr, take n (unread r @ contents m), r') \<and> unread r' = drop n (unread r @ contents m) \<and> buffer_wf r'"
proof -
  note r0 = flushed_keeps [OF r(2)]
  let ?k = "n - length (unread r)"
  have r1: "receivedDataBuffer r1 = None" "receivedDataPos r1 = 0"
    using SSLReadRecord_steady [OF rec(1)] by (simp_all add: steady_def emptied_def)
  have t: "take_buffered n r0 = Some (unread r, emptied r0)" using take_buffered_all [of r0 n] r n r0 by simp
  define r' where "r' = (if length (contents m) \<le> ?k then r1 else r1\<lparr>receivedDataBuffer := Some (contents m), receivedDataPos := ?k\<rparr>)"
  have "read_more P ?k (emptied r0) = Some (noErr, take ?k (contents m), r')"
    using r n rec r0 by (auto simp: read_more_def open_for_reading_def r'_def emptied_def)
  moreover have "unread r @ take ?k (contents m) \<noteq> []" using n rec(3) by (cases "unread r") auto
  moreover have "take n (unread r @ contents m) = unread r @ take ?k (contents m)" using n by simp
  ultimately have "SSLRead P n r = Some (noErr, take n (unread r @ contents m), r')"
    using SSLRead_round [OF r t] by (simp add: error_close_def harmless_def)
  moreover have "unread r' = drop n (unread r @ contents m)" "buffer_wf r'"
    using r1 n by (auto simp: r'_def unread_def buffer_wf_def)
  ultimately show ?thesis by blast
qed

text \<open>When no record can be read, what waited is handed out with the error.\<close>

lemma SSLRead_error:
  assumes r: "open_for_reading r" "flushed P r r0" and n: "length (unread r) < n"
    and rec: "SSLReadRecord P (emptied r0) = Some (err, m, r1)" "err \<noteq> noErr"
  shows "\<exists>r'. SSLRead P n r = Some (err, unread r, r') \<and> unread r' = []"
proof -
  note r0 = flushed_keeps [OF r(2)]
  have t: "take_buffered n r0 = Some (unread r, emptied r0)" using take_buffered_all [of r0 n] r n r0 by simp
  have "read_more P (n - length (unread r)) (emptied r0) = Some (err, [], r1)"
    using r n rec r0 by (auto simp: read_more_def open_for_reading_def emptied_def)
  from SSLRead_round [OF r t this] rec(2)
  have "SSLRead P n r = Some (err, unread r, error_close (insert errSSLClosedNoNotify harmless) err r1)" by simp
  moreover have "unread r1 = []"
    using SSLReadRecord_steady [OF rec(1)] by (auto simp: steady_def emptied_def unread_def)
  ultimately show ?thesis by simp
qed

end
