(* ===== verification/Record_Integrity.thy ===== *)
theory Record_Integrity
  imports Record_Channel
begin

text \<open>
  What the record layer refuses. A record is accepted only when its MAC or its GCM tag is the
  one the writer's algorithm gives for the reader's own sequence number, and the explicit nonces
  of the AES-GCM records of a connection never repeat.
\<close>

section \<open>A fatal alert is never a success\<close>

lemma fatal_return_err: "fatal_return P desc err x ctx = Some (e, y, ctx') \<Longrightarrow> e = err"
  by (auto simp: fatal_return_def bind_eq_Some_conv)

lemma fatal_return_noErr [simp]: "err \<noteq> noErr \<Longrightarrow> fatal_return P desc err x ctx \<noteq> Some (noErr, y, ctx')"
  by (auto dest: fatal_return_err)

lemma hmac_length_gt0 [simp]: "0 < hmac_length a \<longleftrightarrow> a \<noteq> HA_Null"
  using hmac_length_eq_0 [of a] by linarith

section \<open>MACs are checked\<close>

text \<open>\<open>content\<close> is followed in \<open>tail\<close> by the MAC computed for it with the reader's sequence number.\<close>

definition mac_checked :: "platform \<Rightarrow> byte \<Rightarrow> bytes \<Rightarrow> bytes \<Rightarrow> SSLContext \<Rightarrow> bool" where
  "mac_checked P type content tail ctx \<longleftrightarrow>
     (\<exists>mac r rest. call_computeMac P (sslTslCalls ctx) (negProtocolVersion ctx) type content (readCipher ctx)
        (sequenceNum (readCipher ctx)) = Some (noErr, mac, r) \<and> tail = mac @ rest)"

lemma check_mac_return_noErr:
  assumes "check_mac_return P type content tail ctx = Some (noErr, content', ctx')"
    and "macRef (readCipher ctx) \<noteq> HA_Null"
  shows "content' = content \<and> mac_checked P type content tail ctx"
proof -
  obtain err c where v: "SSLVerifyMac P type content tail ctx = Some (err, c)"
    and r: "(if err \<noteq> noErr then fatal_return P SSL_AlertBadRecordMac errSSLBadRecordMac [] c
      else Some (noErr, content, c)) = Some (noErr, content', ctx')"
    using assms by (simp add: check_mac_return_def) (elim bind_SomeE, auto)
  from r have "err = noErr" "content' = content" by (auto split: if_splits)
  with v obtain mac r' where m: "call_computeMac P (sslTslCalls ctx) (negProtocolVersion ctx) type content (readCipher ctx)
        (sequenceNum (readCipher ctx)) = Some (noErr, mac, r')" "mac = take (length mac) tail"
    by (auto simp: SSLVerifyMac_def Let_def elim!: bind_SomeE if_SomeE)
  then have "tail = mac @ drop (length mac) tail" by (metis append_take_drop_id)
  with m \<open>content' = content\<close> show ?thesis unfolding mac_checked_def by blast
qed

definition mac_accepted :: "platform \<Rightarrow> byte \<Rightarrow> bytes \<Rightarrow> bytes \<Rightarrow> SSLContext \<Rightarrow> bool" where
  "mac_accepted P type payload content ctx \<longleftrightarrow>
     (\<exists>plain c iv tail. cipher_decrypt P payload payload (readCipher ctx) = Some (noErr, plain, c) \<and>
        plain = iv @ content @ tail \<and> mac_checked P type content tail (ctx\<lparr>readCipher := c\<rparr>))"

lemma cipher_decrypt_keeps:
  "cipher_decrypt P src dest c = Some (err, out, c') \<Longrightarrow> macRef c' = macRef c"
  by (auto simp: cipher_decrypt_def NullCrypt_def sslGcmCipherCryptStub_def CDSASymmDecrypt_def
      CCSymmEncryptDecrypt_def Let_def split: if_splits option.splits prod.splits cc_union.splits)

lemma take_drop_split3: "xs = take a xs @ take b (drop a xs) @ drop (a + b) xs"
  by (metis append_take_drop_id drop_drop add.commute)

lemma mac_acceptedI:
  assumes "cipher_decrypt P payload payload (readCipher ctx) = Some (noErr, plain, c)"
    and "check_mac_return P type (take n (drop k plain)) (drop m plain) (ctx\<lparr>readCipher := c\<rparr>) = Some (noErr, content, ctx')"
    and "macRef (readCipher ctx) \<noteq> HA_Null" "m = k + n"
  shows "mac_accepted P type payload content ctx"
proof -
  have c: "content = take n (drop k plain)" "mac_checked P type content (drop (k + n) plain) (ctx\<lparr>readCipher := c\<rparr>)"
    using check_mac_return_noErr [OF assms(2)] assms(3) cipher_decrypt_keeps [OF assms(1)] assms(4) by auto
  moreover have "plain = take k plain @ take n (drop k plain) @ drop (k + n) plain"
    by (rule take_drop_split3)
  ultimately show ?thesis using assms(1) unfolding mac_accepted_def by blast
qed

lemmas mac_acceptedI0 = mac_acceptedI [where k = 0, simplified]

lemma ssl3_accepts:
  "ssl3DecryptRecord P type payload ctx = Some (noErr, content, ctx') \<Longrightarrow>
   macRef (readCipher ctx) \<noteq> HA_Null \<Longrightarrow> mac_accepted P type payload content ctx"
  unfolding ssl3DecryptRecord_def Let_def
  by (elim if_SomeE bind_SomeE case_SomeE; clarsimp split: if_split_asm; erule mac_acceptedI0; simp)

lemma tls1_accepts:
  "tls1DecryptRecord P type payload ctx = Some (noErr, content, ctx') \<Longrightarrow>
   macRef (readCipher ctx) \<noteq> HA_Null \<Longrightarrow> mac_accepted P type payload content ctx"
  unfolding tls1DecryptRecord_def Let_def
  by (elim if_SomeE bind_SomeE case_SomeE; clarsimp split: if_split_asm; erule mac_acceptedI0; simp)

lemma tls12_accepts:
  "tls12DecryptRecord P type payload ctx = Some (noErr, content, ctx') \<Longrightarrow>
   \<not> isGcm (symCipher (readCipher ctx)) \<Longrightarrow>
   macRef (readCipher ctx) \<noteq> HA_Null \<Longrightarrow> mac_accepted P type payload content ctx"
  unfolding tls12DecryptRecord_def Let_def
  by (elim if_SomeE bind_SomeE case_SomeE; clarsimp split: if_split_asm;
      (erule (2) mac_acceptedI0 | erule (2) mac_acceptedI); simp)

lemma decrypt_accepts:
  assumes "call_decryptRecord P type payload ctx = Some (noErr, content, ctx')"
    and "\<not> isGcm (symCipher (readCipher ctx))" "macRef (readCipher ctx) \<noteq> HA_Null"
  shows "mac_accepted P type payload content ctx"
  using assms ssl3_accepts tls1_accepts tls12_accepts
  by (auto simp: call_decryptRecord_def split: SslTlsCallouts.splits)

section \<open>AES-GCM records\<close>

text \<open>
  An accepted record is one that encryption under the reader's key produces for the reader's
  own sequence number, the record type and the negotiated version.
\<close>

lemma gcm_accepts:
  assumes ok: "platform_ok P"
    and acc: "call_decryptRecord P type payload ctx = Some (noErr, pt, ctx')"
    and ctx: "sslTslCalls ctx = Tls12Callouts" "isGcm (symCipher (readCipher ctx))"
      "cc (readCipher ctx) = CC_aes g" "gcm_ctx_ok g"
  shows "ctx' = ctx \<and> (\<exists>nonce ct tag. payload = nonce @ ct @ tag \<and> length nonce = 8 \<and> length tag = 16 \<and>
    sslGcmEncrypt P (Some g) nonce (tls12GcmBuildAad (sequenceNum (readCipher ctx)) type
      (negProtocolVersion ctx) (of_nat (length pt))) pt = Some (ct, tag))"
proof -
  have big: "length payload \<ge> 24"
    using acc ctx by (auto simp: call_decryptRecord_def tls12DecryptRecord_def tls12DecryptGcmRecord_def split: if_splits)
  define nonce ct tag where "nonce = take 8 payload" and "ct = take (length payload - 24) (drop 8 payload)"
    and "tag = drop (8 + (length payload - 24)) payload"
  have parts: "payload = nonce @ ct @ tag" "length nonce = 8" "length tag = 16" "length ct = length payload - 24"
    using big take_drop_split3 [of payload 8 "length payload - 24"] by (simp_all add: nonce_def ct_def tag_def)
  let ?aad = "tls12GcmBuildAad (sequenceNum (readCipher ctx)) type (negProtocolVersion ctx) (of_nat (length ct))"
  have dec: "sslGcmDecrypt P (Some g) nonce ?aad ct tag = Some pt" and c: "ctx' = ctx"
  proof -
    have "call_decryptRecord P type payload ctx = (case sslGcmDecrypt P (Some g) nonce ?aad ct tag of
        None \<Rightarrow> fatal_return P SSL_AlertBadRecordMac errSSLBadRecordMac [] ctx
      | Some pt \<Rightarrow> Some (noErr, pt, ctx))"
      unfolding parts(4) using ctx big
      by (simp add: call_decryptRecord_def tls12DecryptRecord_def tls12DecryptGcmRecord_def Let_def
          nonce_def ct_def tag_def)
    with acc show "sslGcmDecrypt P (Some g) nonce ?aad ct tag = Some pt" "ctx' = ctx"
      by (simp_all split: option.splits)
  qed
  have enc: "sslGcmEncrypt P (Some g) nonce ?aad pt = Some (ct, tag)"
    by (rule sslGcmDecrypt_authentic [OF ok ctx(4) parts(2,3) dec])
  have "length ct = length pt" by (rule sslGcmEncrypt_lengths [OF ok ctx(4) parts(2) enc])
  with enc c show ?thesis using parts(1-3) by metis
qed

section \<open>Nonces\<close>

text \<open>The explicit nonce of a record on the wire.\<close>

definition wire_nonce :: "bytes \<Rightarrow> bytes" where
  "wire_nonce x = take 8 (drop 5 x)"

lemma gcm_send:
  assumes "send_record P rec w = Some (x, w')" "sslTslCalls w = Tls12Callouts" "isGcm (symCipher (writeCipher w))"
  shows "wire_nonce x = SSLEncodeUInt64 (sequenceNum (writeCipher w))"
    "sequenceNum (writeCipher w') = IncrementUInt64 (sequenceNum (writeCipher w))"
    "sslTslCalls w' = Tls12Callouts" "isGcm (symCipher (writeCipher w'))"
  using assms
  by (auto simp: send_record_def call_writeRecord_def tls12WriteRecord_def tls12WriteGcmRecord_def Let_def
      wire_nonce_def bump_write_seq_def enqueue_def split: if_splits option.splits cc_union.splits)

lemma gcm_nonces:
  assumes "send_all (send_record P) recs w = Some (xs, w')"
    and "sslTslCalls w = Tls12Callouts" "isGcm (symCipher (writeCipher w))"
  shows "map wire_nonce xs = map (\<lambda>i. SSLEncodeUInt64 ((IncrementUInt64 ^^ i) (sequenceNum (writeCipher w)))) [0..<length recs]"
  using assms
proof (induction recs arbitrary: w xs)
  case (Cons rec recs)
  from Cons.prems(1) obtain x w1 ys where s: "send_record P rec w = Some (x, w1)"
    and rest: "send_all (send_record P) recs w1 = Some (ys, w')" and xs: "xs = x # ys"
    by (auto simp: bind_eq_Some_conv)
  note g = gcm_send [OF s Cons.prems(2,3)]
  show ?case
    using Cons.IH [OF rest g(3,4)] g(1,2) xs
    by (simp add: upt_conv_Cons map_Suc_upt [symmetric] funpow_Suc_right comp_def del: upt_Suc funpow.simps)
qed simp

lemma counter_inj:
  assumes "(IncrementUInt64 ^^ i) s = (IncrementUInt64 ^^ j) s" "i < 2 ^ 64" "j < 2 ^ 64"
  shows "i = j"
proof -
  have "uint64_of s + of_nat i = uint64_of s + of_nat j"
    using assms(1) by (metis uint64_of_iterate)
  then have "(of_nat i :: uint64) = of_nat j" by simp
  then have "unat (of_nat i :: uint64) = unat (of_nat j :: uint64)" by simp
  with assms(2,3) show ?thesis by (simp add: unat_of_nat)
qed

lemma gcm_nonces_distinct:
  assumes "send_all (send_record P) recs w = Some (xs, w')" "length recs \<le> 2 ^ 64"
    and "sslTslCalls w = Tls12Callouts" "isGcm (symCipher (writeCipher w))"
  shows "distinct (map wire_nonce xs)"
  unfolding gcm_nonces [OF assms(1,3,4)] distinct_map
  using assms(2) by (auto simp: inj_on_def SSLEncodeUInt64_inject intro: counter_inj)

section \<open>A refused record closes the session\<close>

lemma fatal_return_effect:
  assumes "fatal_return P desc err x ctx = Some (e, y, ctx')"
  shows "e = err \<and> y = x \<and> state ctx' = SSL_HdskStateErrorClose \<and> sentFatalAlert ctx'"
  using assms SSLFatalSessionAlert_effect(1,2) by (fastforce simp: fatal_return_def elim!: bind_SomeE)

definition closed_by :: "OSStatus \<Rightarrow> bytes \<Rightarrow> SSLContext \<Rightarrow> bool" where
  "closed_by err out ctx \<longleftrightarrow> err = noErr \<or> out = [] \<and> state ctx = SSL_HdskStateErrorClose \<and> sentFatalAlert ctx"

lemma closed_by_simps [simp]:
  "closed_by noErr out ctx"
  "fatal_return P desc e [] c = Some (err, out, ctx') \<Longrightarrow> closed_by err out ctx'"
  by (auto simp: closed_by_def dest: fatal_return_effect)

lemma check_mac_closed: "check_mac_return P type content tail ctx = Some (err, out, ctx') \<Longrightarrow> closed_by err out ctx'"
  unfolding check_mac_return_def
  by (elim if_SomeE bind_SomeE; clarsimp split: if_split_asm)

lemma ssl3_closed: "ssl3DecryptRecord P type payload ctx = Some (err, out, ctx') \<Longrightarrow> closed_by err out ctx'"
  unfolding ssl3DecryptRecord_def Let_def
  by (elim if_SomeE bind_SomeE case_SomeE; clarsimp simp: check_mac_closed split: if_split_asm)

lemma tls1_closed: "tls1DecryptRecord P type payload ctx = Some (err, out, ctx') \<Longrightarrow> closed_by err out ctx'"
  unfolding tls1DecryptRecord_def Let_def
  by (elim if_SomeE bind_SomeE case_SomeE; clarsimp simp: check_mac_closed split: if_split_asm)

lemma gcm_closed: "tls12DecryptGcmRecord P type payload ctx = Some (err, out, ctx') \<Longrightarrow> closed_by err out ctx'"
  unfolding tls12DecryptGcmRecord_def Let_def
  by (simp split: cc_union.split_asm if_split_asm option.split_asm; clarsimp)

lemma tls12_closed: "tls12DecryptRecord P type payload ctx = Some (err, out, ctx') \<Longrightarrow> closed_by err out ctx'"
  unfolding tls12DecryptRecord_def Let_def
  by (elim if_SomeE bind_SomeE case_SomeE; clarsimp simp: check_mac_closed gcm_closed split: if_split_asm)

lemma decrypt_closed: "call_decryptRecord P type payload ctx = Some (err, out, ctx') \<Longrightarrow> closed_by err out ctx'"
  by (auto simp: call_decryptRecord_def ssl3_closed tls1_closed tls12_closed split: SslTlsCallouts.splits)

section \<open>A padding length that is too large\<close>

text \<open>
  The two TLS routines compare the padding length with the length of the payload only. When the
  octets agree with it but it leaves no room for the MAC, the length of the content wraps around
  and the code reads far outside the record, before any MAC has been checked.
\<close>

lemma tls_padding_underflow:
  assumes "cipher_decrypt P payload payload (readCipher ctx) = Some (noErr, replicate (unat p) p, c)" "p \<noteq> 0"
    and "blockSize (symCipher (readCipher ctx)) > 0" "blockSize (symCipher (readCipher ctx)) dvd length payload"
  shows "tls1DecryptRecord P type payload ctx = None"
proof -
  have "last (replicate (unat p) p) = p" "replicate (unat p) p \<noteq> []"
    using assms(2) by (simp_all add: last_replicate unat_eq_0)
  then show ?thesis
    using assms by (simp add: tls1DecryptRecord_def tls_padding_ok_def list_all_iff Let_def)
qed

end
