(* ===== verification/Agreement.thy ===== *)
theory Agreement
  imports Frames
begin

text \<open>
  From one message to a protected connection: the client's key exchange message, the decryption by
  the server, the derivation of the master secret and of the pending ciphers at both ends
  (\<open>make_keys\<close>, the sequence of calls in \<open>SSLAdvanceHandshake\<close>), and the Finished messages. The
  lemmas put the results on \<open>sslKeyExchange.c\<close>, on the key derivation, on \<open>sslChangeCipher.c\<close> and on
  \<open>sslHandshakeFinish.c\<close> together.
\<close>

text \<open>What the hellos have settled: everything that the keys depend on but the master secret.\<close>

definition negotiated :: "SSLContext \<Rightarrow> SSLContext \<Rightarrow> bool" where
  "negotiated c s \<longleftrightarrow> protocolSide c = SSL_ClientSide \<and> protocolSide s = SSL_ServerSide \<and>
     sslTslCalls c = sslTslCalls s \<and> negProtocolVersion c = negProtocolVersion s \<and>
     selectedCipher c = selectedCipher s \<and> selectedCipherSpec c = selectedCipherSpec s \<and>
     clientRandom c = clientRandom s \<and> serverRandom c = serverRandom s"

text \<open>The fields that the derivation of the ciphers leaves as they are.\<close>

definition agreed where
  "agreed ctx = (protocolSide ctx, sslTslCalls ctx, negProtocolVersion ctx, selectedCipher ctx, selectedCipherSpec ctx,
     masterSecret ctx, clientRandom ctx, serverRandom ctx)"

lemma same_secrets_agreed: "agreed c' = agreed c \<Longrightarrow> agreed s' = agreed s \<Longrightarrow> same_secrets c' s' = same_secrets c s"
  by (auto simp: agreed_def same_secrets_def)

lemma pending_agreed [simp]: "agreed (put_pending cp sp ctx) = agreed ctx" "agreed (start_pending cs ctx) = agreed ctx"
  by (simp_all add: agreed_def put_pending_def start_pending_def)

lemma agreed_update [simp]: "agreed (ctx\<lparr>g_resolved := g\<rparr>) = agreed ctx" "agreed (ctx\<lparr>preMasterSecret := b\<rparr>) = agreed ctx"
  "agreed (ctx\<lparr>writePending := w, readPending := r\<rparr>) = agreed ctx"
  by (simp_all add: agreed_def)

lemma init_pair_agreed: "init_pair P ck civ sk siv cp sp ctx = Some (err, ctx') \<Longrightarrow> agreed ctx' = agreed ctx"
  unfolding init_pair_def Let_def by (auto elim!: bind_SomeE split: if_split_asm)

lemma SSLInitPendingCiphers_agreed: "SSLInitPendingCiphers P ctx = Some (err, ctx') \<Longrightarrow> agreed ctx' = agreed ctx"
  unfolding SSLInitPendingCiphers_def install_key_material_def Let_def
  by (auto elim!: bind_SomeE dest!: init_pair_agreed split: if_split_asm prod.split_asm)

text \<open>A successful derivation: the master secret of the protocol, and the pending ciphers from it.\<close>

lemma make_keys_noErr:
  assumes "platform_ok P" "length (masterSecret ctx) = 48" "make_keys P ctx = Some (noErr, ctx')"
  obtains k where "SSLInitPendingCiphers P (ctx\<lparr>masterSecret := master_secret P (sslTslCalls ctx) (selectedCipher ctx) (preMaster ctx)
      (clientRandom ctx) (serverRandom ctx)\<rparr>) = Some (noErr, k)" "ctx' = k\<lparr>preMasterSecret := None\<rparr>"
  using assms by (auto simp: make_keys_def call_generateMasterSecret_ok alert_return_def elim!: bind_SomeE split: if_split_asm)

lemma in_sync_preMaster [simp]:
  "in_sync P (install_writePending b (w\<lparr>preMasterSecret := x\<rparr>)) (install_readPending (r\<lparr>preMasterSecret := y\<rparr>)) =
   in_sync P (install_writePending b w) (install_readPending r)"
  by (simp add: in_sync_def install_writePending_def install_readPending_def)

text \<open>A transcript of the handshake that both ends have hashed.\<close>

definition with_transcript :: "bytes \<Rightarrow> SSLContext \<Rightarrow> SSLContext" where
  "with_transcript tr ctx = ctx\<lparr>shaState := Some tr, md5State := Some tr, sha256State := Some tr, sha384State := Some tr\<rparr>"

lemma with_transcript_simps [simp]: "transcript_is (with_transcript tr ctx) tr" "agreed (with_transcript tr ctx) = agreed ctx"
  by (simp_all add: transcript_is_def with_transcript_def agreed_def)

lemma agreed_calls_for: "agreed c' = agreed c \<Longrightarrow> calls_for (negProtocolVersion c') (sslTslCalls c') = calls_for (negProtocolVersion c) (sslTslCalls c)"
  by (simp add: agreed_def)

text \<open>One Finished message from \<open>w\<close> to \<open>r\<close>, over any transcript.\<close>

definition finished_delivered :: "platform \<Rightarrow> SSLContext \<Rightarrow> SSLContext \<Rightarrow> bool" where
  "finished_delivered P w r \<longleftrightarrow>
     (\<forall>tr. \<exists>body rec w'. SSLEncodeFinishedMessage P (with_transcript tr w) = Some (noErr, rec, w') \<and>
        contents rec = hdsk_msg SSL_HdskFinished body \<and> SSLProcessFinished P body (with_transcript tr r) = Some noErr)"

lemma finished_delivered_same:
  assumes "platform_ok P" "calls_for (negProtocolVersion w) (sslTslCalls w)" "same_secrets w r \<or> same_secrets r w"
  shows "finished_delivered P w r"
  unfolding finished_delivered_def
proof
  fix tr
  have ag: "agreed (with_transcript tr w) = agreed w" "agreed (with_transcript tr r) = agreed r" by simp_all
  have "same_secrets (with_transcript tr w) (with_transcript tr r) \<or> same_secrets (with_transcript tr r) (with_transcript tr w)"
    using assms(3) same_secrets_agreed [OF ag] same_secrets_agreed [OF ag(2,1)] by simp
  with Finished_roundtrip [OF assms(1) with_transcript_simps(1) with_transcript_simps(1)] agreed_calls_for [OF ag(1)] assms(2)
  show "\<exists>body rec w'. SSLEncodeFinishedMessage P (with_transcript tr w) = Some (noErr, rec, w') \<and>
      contents rec = hdsk_msg SSL_HdskFinished body \<and> SSLProcessFinished P body (with_transcript tr r) = Some noErr"
    by (fastforce simp: hdsk_record_def)
qed

text \<open>
  Equal premaster secrets at both ends are enough: after \<open>make_keys\<close> both directions are in sync
  and both Finished messages are accepted.
\<close>

lemma make_keys_agree:
  assumes ok: "platform_ok P" "cryptor_laws P" and n: "negotiated c s"
    and pm: "preMasterSecret c = preMasterSecret s" "length (masterSecret c) = 48" "length (masterSecret s) = 48"
    and cs: "selectedCipherSpec c = Some cs" "cs \<in> set KnownCipherSpecs" "\<not> isCDSA (cipher cs)"
      "isGcm (cipher cs) \<Longrightarrow> sslTslCalls c = Tls12Callouts" "calls_for (negProtocolVersion c) (sslTslCalls c)"
    and fresh: "fresh_pending True (writePending c)" "fresh_pending False (readPending c)"
      "fresh_pending True (writePending s)" "fresh_pending False (readPending s)"
    and run: "make_keys P c = Some (noErr, c')" "make_keys P s = Some (noErr, s')"
  shows "same_secrets c' s'" "in_sync P (install_writePending b c') (install_readPending s')"
    "in_sync P (install_writePending b s') (install_readPending c')"
    "finished_delivered P c' s'" "finished_delivered P s' c'"
proof -
  let ?ms = "\<lambda>x. master_secret P (sslTslCalls x) (selectedCipher x) (preMaster x) (clientRandom x) (serverRandom x)"
  obtain kc where kc: "SSLInitPendingCiphers P (c\<lparr>masterSecret := ?ms c\<rparr>) = Some (noErr, kc)" "c' = kc\<lparr>preMasterSecret := None\<rparr>"
    by (rule make_keys_noErr [OF ok(1) pm(2) run(1)])
  obtain ks where ks: "SSLInitPendingCiphers P (s\<lparr>masterSecret := ?ms s\<rparr>) = Some (noErr, ks)" "s' = ks\<lparr>preMasterSecret := None\<rparr>"
    by (rule make_keys_noErr [OF ok(1) pm(3) run(2)])
  have "?ms c = ?ms s" using n pm(1) by (simp add: negotiated_def preMaster_def)
  then have same: "same_secrets (c\<lparr>masterSecret := ?ms c\<rparr>) (s\<lparr>masterSecret := ?ms s\<rparr>)"
    using n by (simp add: negotiated_def same_secrets_def)
  have ag: "agreed c' = agreed (c\<lparr>masterSecret := ?ms c\<rparr>)" "agreed s' = agreed (s\<lparr>masterSecret := ?ms s\<rparr>)"
    using SSLInitPendingCiphers_agreed [OF kc(1)] SSLInitPendingCiphers_agreed [OF ks(1)] kc(2) ks(2) by simp_all
  show ss: "same_secrets c' s'" using same same_secrets_agreed [OF ag] by simp
  have sync: "in_sync P (install_writePending b kc) (install_readPending ks)" "in_sync P (install_writePending b ks) (install_readPending kc)"
    using pending_in_sync [OF ok same _ cs(2,3) _ _ _ _ _ kc(1) ks(1)] cs(1,4) fresh by simp_all
  then show "in_sync P (install_writePending b c') (install_readPending s')" "in_sync P (install_writePending b s') (install_readPending c')"
    by (simp_all add: kc(2) ks(2))
  have calls: "calls_for (negProtocolVersion c') (sslTslCalls c')" using agreed_calls_for [OF ag(1)] cs(5) by simp
  moreover have "calls_for (negProtocolVersion s') (sslTslCalls s')" using calls ss by (simp add: same_secrets_def)
  ultimately show "finished_delivered P c' s'" "finished_delivered P s' c'"
    using finished_delivered_same ok(1) ss by blast+
qed

end
