(* ===== verification/Demo_Platform.thy ===== *)
theory Demo_Platform
  imports Context
begin

text \<open>
  A concrete platform that meets the documented behaviour \<open>platform_ok\<close> and \<open>cryptor_laws\<close>:
  small executable functions in place of the cryptographic primitives. It shows that the
  hypotheses of the properties can hold together, and the witnesses are stated on it.
\<close>

definition demo_hash :: "nat \<Rightarrow> bytes \<Rightarrow> bytes" where
  "demo_hash n m = map (\<lambda>i. foldr (+) m (of_nat i)) [0..<n]"

definition demo_platform :: platform where
  "demo_platform = \<lparr>
     CC_Digest = (\<lambda>h m. demo_hash (digest_length h) m),
     sizeof_CC_CTX = (\<lambda>h. 208),
     CCHmac = (\<lambda>a k m. demo_hash (hmac_length a) (k @ m)),
     CCCryptorCreate = (\<lambda>enc alg key iv. Some \<lparr>cryptorEncrypting = enc, cryptorAlg = alg, cryptorState = key\<rparr>),
     CCCryptorUpdate = (\<lambda>s m. (map (\<lambda>b. b XOR 0x55) m, s)),
     CSSM_CreateSymmetricContext = (\<lambda>alg key iv. Some \<lparr>cryptorEncrypting = True, cryptorAlg = alg, cryptorState = key\<rparr>),
     CSSM_DataInit = (\<lambda>enc s. Some (s\<lparr>cryptorEncrypting := enc\<rparr>)),
     CSSM_DataUpdate = (\<lambda>enc s m n. Some (map (\<lambda>b. b XOR 0x55) m, s)),
     libcryptoHandle = True,
     libcryptoAesSyms = True,
     AES_set_encrypt_key = (\<lambda>key bits. Some key),
     AES_encrypt = (\<lambda>key b. map (\<lambda>x. x XOR 0xA7) b),
     mallocOk = (\<lambda>n. True),
     devRandom = (\<lambda>i n. Some (replicate n (of_nat i))),
     ioRead = (\<lambda>i n. (noErr, replicate n 0)),
     ioWrite = (\<lambda>i bs. (noErr, length bs)),
     now = 1000,
     masterSecretFn = (\<lambda>ms. ms),
     SecKeyGetCSPHandle = (\<lambda>k. Inr 1),
     SecKeyGetCredentials = (\<lambda>k. noErr),
     CSSM_CSP_CreateSignatureContext = (\<lambda>h a k. True),
     CSSM_UpdateContextAttributes = (\<lambda>k. noErr),
     CSSM_SignData = (\<lambda>k m n. Some (take n m)),
     CSSM_VerifyData = (\<lambda>k m s. s = m),
     CSSM_CSP_CreateAsymmetricContext = (\<lambda>h k p. True),
     CSSM_EncryptData = (\<lambda>k p m. Some m),
     CSSM_DecryptData = (\<lambda>k p m. Some m),
     CSSM_QueryKeySizeInBits = (\<lambda>k. Some (8 * length (KeyData k))),
     CSSM_CL_CertGetKeyInfo = (\<lambda>c. Some \<lparr>AlgorithmId = CSSM_ALGID_RSA, KeyClass = CSSM_KEYCLASS_PUBLIC_KEY,
       BlobType = CSSM_KEYBLOB_RAW, Format = CSSM_KEYBLOB_RAW_FORMAT_X509, LogicalKeySizeInBits = 384, KeyData = c\<rparr>),
     CSSM_GenerateAlgorithmParams = (\<lambda>n. Some [23, 5]),
     CSSM_GenerateKeyPair = (\<lambda>i blob n. let k = (\<lambda>c. \<lparr>AlgorithmId = CSSM_ALGID_NONE, KeyClass = c, BlobType = CSSM_KEYBLOB_RAW,
       Format = CSSM_KEYFORMAT_other, LogicalKeySizeInBits = 8, KeyData = [of_nat (i + 2)]\<rparr>)
       in Some (k CSSM_KEYCLASS_PUBLIC_KEY, k CSSM_KEYCLASS_PRIVATE_KEY)),
     CSSM_CSP_CreateDeriveKeyContext = (\<lambda>h k n. True),
     CSSM_DeriveKey = (\<lambda>k pub n. Some (map2 (*) (KeyData k) pub)),
     CSSM_CSP_CreateNullContext = (\<lambda>h. True),
     CSSM_WrapKey = (\<lambda>h key. Inr key),
     SEC_ASN1Decode_RSA = (\<lambda>b. Some (b, [3])),
     SEC_ASN1Encode_RSA = (\<lambda>m e. Some m),
     SEC_ASN1Decode_DHParameter = (\<lambda>b. None),
     SEC_ASN1Decode_DHParameterBlock = (\<lambda>b. None),
     SEC_ASN1Encode_DHParameter = (\<lambda>p g. Some (p @ g)),
     SecAsn1Decode_SPKI = (\<lambda>b. Inl paramErr),
     SecCertificateCreateFromData = (\<lambda>c. noErr),
     SecTrustCall = (\<lambda>call. noErr),
     SecTrustEvaluate = (\<lambda>r. Inr kSecTrustResultUnspecified),
     SecTrustGetCssmResultCode = (\<lambda>r. Inr CSSM_OK),
     dlsym = (\<lambda>s. True),
     d2i_X509 = (\<lambda>der. if der = [] then None else Some der),
     X509_get_pubkey = Some,
     EVP_PKEY_get1_RSA = Some,
     EVP_PKEY_get1_EC_KEY = Some,
     RSA_verify = (\<lambda>nid h s k. if s = h then 1 else 0),
     ECDSA_verify = (\<lambda>h s k. if s = h then 1 else 0),
     i2d_RSAPublicKey = Some,
     RSA_public_encrypt = (\<lambda>m e msg. (int (length msg), msg)),
     anchorBundle = Some [[48, 9]],
     X509_STORE_ok = True,
     X509_STORE_add_cert = (\<lambda>st c. True),
     X509_STORE_CTX_ok = True,
     X509_verify_cert = (\<lambda>st c. if \<exists>a\<in>set st. take 1 (drop 1 a) = take 1 (drop 1 c) then 1 else 0),
     subjectAltName = (\<lambda>c. None),
     EC_KEY_generate = (\<lambda>nid i. Some ([of_nat i], [4, of_nat i])),
     EC_POINT_oct2point = (\<lambda>nid bs. Some bs),
     ECDH_compute_key = (\<lambda>k p n. (int n, replicate n (last p))) \<rparr>"

definition demo_gcm :: SslGcmCtx where
  "demo_gcm = \<lparr>aesKey = replicate 16 7, fixedIV = [1, 2, 3, 4], valid = True\<rparr>"

lemma length_demo_hash [simp]: "length (demo_hash n m) = n"
  by (simp add: demo_hash_def)

lemma platform_ok_demo: "platform_ok demo_platform"
  by (simp add: platform_ok_def demo_platform_def)

lemma xor_byte_twice: "((b :: byte) XOR k) XOR k = b"
  by (simp add: xor.assoc)

lemma cryptors_paired_demo:
  "cryptorAlg e = cryptorAlg d \<Longrightarrow> cryptors_paired demo_platform e d"
proof -
  have run: "cryptor_run demo_platform s ms = map (map (\<lambda>b. b XOR 0x55)) ms" for s ms
    by (induction ms arbitrary: s) (simp_all add: demo_platform_def)
  show "cryptorAlg e = cryptorAlg d \<Longrightarrow> ?thesis"
    by (simp add: cryptors_paired_def run xor_byte_twice comp_def)
qed

lemma cryptor_laws_demo: "cryptor_laws demo_platform"
  unfolding cryptor_laws_def
proof (intro allI impI)
  fix alg key iv e d
  assume "CCCryptorCreate demo_platform True alg key iv = Some e"
    and "CCCryptorCreate demo_platform False alg key iv = Some d"
  then have "cryptorAlg e = alg" "cryptorAlg d = alg"
    by (auto simp: demo_platform_def)
  then show "cryptorAlg e = alg \<and> cryptors_paired demo_platform e d"
    by (simp add: cryptors_paired_demo)
qed

section \<open>A concrete connection\<close>

definition demo_cipher :: CipherContext where
  "demo_cipher = \<lparr>macRef = HA_Null, symCipher = SSLCipherNull, macCtx = NoMacCtx, symKey = None, cspHand = 0,
     ccHand = None, cc = NoCC, encrypting = True, sequenceNum = \<lparr>high = 0, low = 0\<rparr>, ready = True,
     macSecret = replicate 32 5\<rparr>"

text \<open>An established TLS 1.2 connection that still uses the null cipher.\<close>

definition demo_ctx :: SSLContext where
  "demo_ctx = \<lparr>
     ioReadFunc = 0, ioWriteFunc = 0, ioRef = 0,
     negProtocolVersion = TLS_Version_1_2, clientReqProtocol = TLS_Version_1_2,
     versionSsl2Enable = False, versionSsl3Enable = True, versionTls1Enable = True,
     versionTls11Enable = True, versionTls12Enable = True, maxProtocolVersion = TLS_Version_1_2,
     protocolSide = SSL_ClientSide, sslTslCalls = Tls12Callouts, signingPrivKeyRef = None,
     signingPubKey = None, encryptPrivKeyRef = None, encryptPubKey = None, peerPubKey = None, peerPubKeyCsp = 0, localCert = [], encryptCert = [],
     peerCert = [[48, 1, 2], [48, 3]], ourSignerAlg = CSSM_ALGID_NONE, localCertArray = None, encryptCertArray = None, peerSecTrust = None,
     trustedCerts = None, trustedLeafCerts = None, ctxCspHand = 1, tpHand = 1, clHand = 1, dhParamsPrime = None, dhParamsGenerator = None,
     dhParamsEncoded = None, dhPeerPublic = None, dhExchangePublic = None, dhPrivate = None,
     ecdhCurves = [SSL_Curve_secp256r1, SSL_Curve_secp384r1, SSL_Curve_secp521r1], ecdhPeerPublic = None,
     ecdhPeerCurve = SSL_Curve_None, ecdhExchangePublic = None, ecdhPrivate = None, ecdhPrivCspHand = 0,
     allowExpiredCerts = False, allowExpiredRoots = False, enableCertVerify = True, sessionID = Some [1, 2, 3, 4],
     peerID = Some [112, 101, 101, 114], resumableSession = None, peerDomainName = Some [97, 46, 98], peerDomainNameLen = 3,
     readCipher = demo_cipher, writeCipher = demo_cipher, readPending = demo_cipher, writePending = demo_cipher,
     selectedCipher = 0x009C,
     selectedCipherSpec = None,
     validCipherSpecs = None, numValidNonSSLv2Specs = 0, state = SSL_HdskStateClientReady,
     clientAuth = kNeverAuthenticate, tryClientAuth = False, clientCertState = kSSLClientCertNone, acceptableDNList = [], acceptableCAs = None,
     certRequested = False, certSent = False, certReceived = False, x509Requested = False,
     clientRandom = replicate 32 1, serverRandom = replicate 32 2, preMasterSecret = None,
     masterSecret = replicate 48 9, shaState = None, md5State = None, sha256State = None, sha384State = None,
     fragmentedMessageCache = None, ssl2ChallengeLength = 0, ssl2ConnectionIDLength = 0, sessionMatch = 0,
     partialReadBuffer = Some [0, 0, 0, 0, 0, 0, 0, 0], amountRead = 0,
     recordWriteQueue = [], receivedDataBuffer = None, receivedDataPos = 0, allowAnyRoot = False,
     sentFatalAlert = False, rsaBlindingEnable = True, sessionCacheTimeout = 0, sessionTicket = None, masterSecretCallback = False, masterSecretArg = 0,
     anonCipherEnable = False, weakCipherEnable = False, breakOnServerAuth = False, breakOnCertRequest = False,
     signalServerAuth = False, signalCertRequest = False, ecdsaEnable = True,
     clientAuthTypes = [], negAuthType = SSLClientAuthNone, serverDhParams = None, sessionCache = [], g_resolved = 0,
     ioPos = 0, wireOut = [], rngPos = 0\<rparr>"

text \<open>The same connection with the AES-128-GCM keys in place.\<close>

definition demo_gcm_ctx :: SSLContext where
  "demo_gcm_ctx = demo_ctx\<lparr>
     readCipher := demo_cipher\<lparr>symCipher := SSLCipherAES_128_GCM, cc := CC_aes demo_gcm\<rparr>,
     writeCipher := demo_cipher\<lparr>symCipher := SSLCipherAES_128_GCM, cc := CC_aes demo_gcm\<rparr>\<rparr>"

text \<open>The same connection with the null cipher and HMAC-MD5.\<close>

definition demo_mac_cipher :: CipherContext where
  "demo_mac_cipher = demo_cipher\<lparr>macRef := HA_MD5, macCtx := HmacCtx (Some \<lparr>hmacRef = HA_MD5,
     ccHmacTemplate = [1, 2, 3], ccHmac = [], hmacMacSize = 16\<rparr>)\<rparr>"

definition demo_mac_ctx :: SSLContext where
  "demo_mac_ctx = demo_ctx\<lparr>readCipher := demo_mac_cipher, writeCipher := demo_mac_cipher\<rparr>"

text \<open>The same platform with a read callback that hands out the given records.\<close>

definition demo_reader :: "bytes list \<Rightarrow> platform" where
  "demo_reader xs = demo_platform\<lparr>ioRead := (\<lambda>i n. (noErr, take n (if i < length xs then xs ! i else [])))\<rparr>"

text \<open>Two records and the reads that deliver them.\<close>

definition demo_records :: "SSLRecord list" where
  "demo_records = [\<lparr>contentType = 23, protocolVersion = TLS_Version_1_2, contents = [104, 105]\<rparr>,
     \<lparr>contentType = 21, protocolVersion = TLS_Version_1_2, contents = [1, 0]\<rparr>]"

definition demo_wire :: platform where
  "demo_wire = demo_reader [[23, 3, 3, 0, 2], [104, 105], [21, 3, 3, 0, 2], [1, 0]]"

lemma demo_ctx_fields [simp]:
  "negProtocolVersion demo_ctx = TLS_Version_1_2"
  "versionSsl2Enable demo_ctx = False"
  "versionSsl3Enable demo_ctx = True"
  "versionTls1Enable demo_ctx = True"
  "versionTls11Enable demo_ctx = True"
  "versionTls12Enable demo_ctx = True"
  "protocolSide demo_ctx = SSL_ClientSide"
  "sslTslCalls demo_ctx = Tls12Callouts"
  "peerCert demo_ctx = [[48, 1, 2], [48, 3]]"
  "sessionID demo_ctx = Some [1, 2, 3, 4]"
  "peerID demo_ctx = Some [112, 101, 101, 114]"
  "readCipher demo_ctx = demo_cipher"
  "writeCipher demo_ctx = demo_cipher"
  "selectedCipher demo_ctx = 0x009C"
  "selectedCipherSpec demo_ctx = None"
  "validCipherSpecs demo_ctx = None"
  "state demo_ctx = SSL_HdskStateClientReady"
  "masterSecret demo_ctx = replicate 48 9"
  "partialReadBuffer demo_ctx = Some [0, 0, 0, 0, 0, 0, 0, 0]"
  "amountRead demo_ctx = 0"
  "recordWriteQueue demo_ctx = []"
  "sentFatalAlert demo_ctx = False"
  "sessionCacheTimeout demo_ctx = 0"
  "sessionCache demo_ctx = []"
  "ioPos demo_ctx = 0"
  "wireOut demo_ctx = []"
  "rngPos demo_ctx = 0"
  by (simp_all add: demo_ctx_def)

lemma demo_gcm_ctx_fields [simp]:
  "negProtocolVersion demo_gcm_ctx = TLS_Version_1_2" "sslTslCalls demo_gcm_ctx = Tls12Callouts"
  "readCipher demo_gcm_ctx = demo_cipher\<lparr>symCipher := SSLCipherAES_128_GCM, cc := CC_aes demo_gcm\<rparr>"
  "writeCipher demo_gcm_ctx = demo_cipher\<lparr>symCipher := SSLCipherAES_128_GCM, cc := CC_aes demo_gcm\<rparr>"
  "recordWriteQueue demo_gcm_ctx = []" "amountRead demo_gcm_ctx = 0" "sentFatalAlert demo_gcm_ctx = False"
  by (simp_all add: demo_gcm_ctx_def)

lemma demo_mac_ctx_fields [simp]:
  "negProtocolVersion demo_mac_ctx = TLS_Version_1_2" "sslTslCalls demo_mac_ctx = Tls12Callouts"
  "readCipher demo_mac_ctx = demo_mac_cipher" "writeCipher demo_mac_ctx = demo_mac_cipher"
  by (simp_all add: demo_mac_ctx_def)

lemma platform_ok_demo_reader: "platform_ok (demo_reader xs)"
  using platform_ok_demo unfolding platform_ok_def demo_reader_def by (simp add: demo_platform_def)

lemma gcm_ctx_ok_demo: "gcm_ctx_ok demo_gcm"
  by (simp add: demo_gcm_def gcm_ctx_ok_def)

end
