(* ===== verification/Demo_Handshake.thy ===== *)
theory Demo_Handshake
  imports App_Data Record_Integrity Agreement Demo_Platform
begin

text \<open>
  Concrete connections on the demonstration platform, evaluated: what the witnesses of the
  properties rest on.
\<close>

section \<open>The demonstration connections\<close>

lemma demo_in_sync:
  "in_sync (demo_reader xs) demo_ctx demo_ctx" "in_sync P demo_gcm_ctx demo_gcm_ctx" "in_sync P demo_mac_ctx demo_mac_ctx"
  "in_sync P (demo_gcm_ctx\<lparr>state := st\<rparr>) demo_gcm_ctx"
  by (simp_all add: in_sync_def Let_def demo_cipher_def demo_mac_cipher_def ciphers_paired_def
      isGcm_def blockSize_def gcm_ctx_ok_demo mac_holds_def hmac_fed_def hmac_length_def)

abbreviation demo_rec :: SSLRecord where
  "demo_rec \<equiv> \<lparr>contentType = 23, protocolVersion = TLS_Version_1_2, contents = [1, 2, 3]\<rparr>"

lemma demo_sendable: "sendable demo_rec demo_gcm_ctx" "sendable demo_rec demo_mac_ctx"
  by (simp_all add: sendable_def)

text \<open>A fatal alert can be sent on the connection.\<close>

lemma demo_fatal_alert: "\<exists>ctx'. SSLFatalSessionAlert demo_platform desc demo_gcm_ctx = Some (noErr, ctx')"
proof -
  have "SSLDeleteSessionData (demo_gcm_ctx\<lparr>state := SSL_HdskStateErrorClose\<rparr>) =
      (noErr, demo_gcm_ctx\<lparr>state := SSL_HdskStateErrorClose\<rparr>)"
    by (simp add: SSLDeleteSessionData_def demo_gcm_ctx_def sslDeleteSession_def)
  moreover have "\<exists>ctx'. SSLSendAlert demo_platform SSL_AlertLevelFatal desc
      (demo_gcm_ctx\<lparr>state := SSL_HdskStateErrorClose\<rparr>) = Some (noErr, ctx')"
    using record_delivered [OF platform_ok_demo, of "demo_gcm_ctx\<lparr>state := SSL_HdskStateErrorClose\<rparr>"
        demo_gcm_ctx "\<lparr>contentType = SSL_RecordTypeAlert, protocolVersion = TLS_Version_1_2,
           contents = [SSL_AlertLevelFatal, desc]\<rparr>"] demo_in_sync(4)
    by (auto simp: SSLSendAlert_def SSLEncodeAlert_def SSLAllocBuffer_ok platform_ok_demo sendable_def
        delivered_def)
  ultimately show ?thesis by (auto simp: SSLFatalSessionAlert_def)
qed

text \<open>A payload that is too short for AES-GCM is refused.\<close>

lemma demo_refused:
  "\<exists>ctx'. call_decryptRecord demo_platform 23 [] demo_gcm_ctx = Some (errSSLDecryptionFail, [], ctx')"
  using demo_fatal_alert [of SSL_AlertDecodeError]
  by (auto simp: call_decryptRecord_def tls12DecryptRecord_def tls12DecryptGcmRecord_def fatal_return_def isGcm_def)

text \<open>A computation is evaluated from its beginning: the continuation waits for its argument.\<close>

lemma bind_weak_cong: "m = m' \<Longrightarrow> Option.bind m f = Option.bind m' f"
  by simp

lemma two_octets:
  "SSLDecodeInt (a # b # p) 2 = push_bit 8 (ucast a) OR ucast b"
  "SSLEncodeInt v 2 = [ucast (drop_bit 8 v), ucast v]"
  "SSLEncodeInt v 4 = [ucast (drop_bit 8 (drop_bit 8 (drop_bit 8 v))), ucast (drop_bit 8 (drop_bit 8 v)), ucast (drop_bit 8 v), ucast v]"
  by (simp_all add: SSLDecodeInt_def eval_nat_numeral del: drop_bit_drop_bit)

text \<open>The steps of a write and of a read, for the evaluation of the examples.\<close>

lemmas write_steps = call_writeRecord_def tls12WriteRecord_def Let_def demo_cipher_def mac_record_def
  encrypt_and_queue_def isGcm_def blockSize_def cbc_padding_def cipher_encrypt_def NullCrypt_def enqueue_def
  bump_write_seq_def record_header_def two_octets IncrementUInt64_def demo_wire_def demo_reader_def
  demo_platform_def

lemmas read_steps = SSLReadRecord_def ready_buffer_def read_first_octet_def read_header_def read_body_def
  sslIoRead_def store_read_def got_def SSLAllocBuffer_def call_decryptRecord_def
  tls12DecryptRecord_def cipher_decrypt_def NullCrypt_def check_mac_return_def bump_read_seq_def
  isGcm_def blockSize_def IncrementUInt64_def Let_def demo_cipher_def demo_wire_def demo_reader_def
  demo_platform_def two_octets

section \<open>The end of a handshake\<close>

text \<open>A client that waits for the server's Finished message, and the reads that deliver it.\<close>

definition demo_fin_ctx :: SSLContext where
  "demo_fin_ctx = demo_ctx\<lparr>state := SSL_HdskStateFinished, readCipher := demo_cipher\<lparr>ready := False\<rparr>, writePending := demo_cipher\<lparr>ready := False\<rparr>,
     peerID := None, validCipherSpecs := Some [], shaState := Some [], md5State := Some [], sha256State := Some [], sha384State := Some []\<rparr>"

definition demo_fin_wire where
  "demo_fin_wire = demo_reader [[22, 3, 3, 0, 16], [20, 0, 0, 12, 177, 178, 179, 180, 181, 182, 183, 184, 185, 186, 187, 188]]"

text \<open>A request that the first chunk covers.\<close>

lemma PRF_expand_first:
  assumes "n \<le> length (mac secret (mac secret seed @ seed))"
  shows "PRF_expand mac secret seed n = take n (mac secret (mac secret seed @ seed))"
proof -
  obtain r where "P_hash mac secret seed (Suc n) = P_hash mac secret seed 1 @ r"
    using P_hash_prefix [of 1 "Suc n" mac secret seed] by auto
  with assms show ?thesis by (simp add: PRF_expand_def P_hash_def A_of_def)
qed

lemma demo_verify_data: "verify_data demo_platform demo_fin_ctx [] True = [177, 178, 179, 180, 181, 182, 183, 184, 185, 186, 187, 188]"
proof -
  define mac where "mac = CCHmac demo_platform HA_SHA256"
  define seed where "seed = finish_label True @ CC_Digest demo_platform SSLHashSHA256 []"
  have "verify_data demo_platform demo_fin_ctx [] True = PRF_expand mac (replicate 48 9) seed 12"
    by (simp add: verify_data_def finished_data_def demo_fin_ctx_def tls12PrfHmac_def tls12SuiteUsesSHA384_def mac_def seed_def tls12FinishedHash_def)
  also have "\<dots> = take 12 (mac (replicate 48 9) (mac (replicate 48 9) seed @ seed))"
    by (rule PRF_expand_first) (simp add: mac_def demo_platform_def hmac_length_def)
  also have "\<dots> = [177, 178, 179, 180, 181, 182, 183, 184, 185, 186, 187, 188]"
    unfolding mac_def seed_def by code_simp
  finally show ?thesis .
qed

lemma demo_reader_fields [simp]: "CC_Digest (demo_reader xs) = CC_Digest demo_platform" "CCHmac (demo_reader xs) = CCHmac demo_platform"
  "mallocOk (demo_reader xs) = mallocOk demo_platform"
  by (simp_all add: demo_reader_def)

lemma demo_finished: "SSLProcessFinished (demo_reader xs) [177, 178, 179, 180, 181, 182, 183, 184, 185, 186, 187, 188]
     (demo_fin_ctx\<lparr>ioPos := i, partialReadBuffer := b, readCipher := r\<rparr>) = Some noErr"
proof -
  have "verify_data (demo_reader xs) (demo_fin_ctx\<lparr>ioPos := i, partialReadBuffer := b, readCipher := r\<rparr>) [] True =
      [177, 178, 179, 180, 181, 182, 183, 184, 185, 186, 187, 188]"
    using demo_verify_data by (simp add: verify_data_def finished_data_def demo_fin_ctx_def)
  moreover have "protocolSide demo_fin_ctx = SSL_ClientSide" by (simp add: demo_fin_ctx_def)
  ultimately show ?thesis
    using SSLProcessFinished_iff [OF platform_ok_demo_reader, of "demo_fin_ctx\<lparr>ioPos := i, partialReadBuffer := b, readCipher := r\<rparr>" "[]" xs "[177, 178, 179, 180, 181, 182, 183, 184, 185, 186, 187, 188]"]
    by (simp add: transcript_is_def calls_for_def demo_fin_ctx_def)
qed

lemma demo_fin_read: "SSLReadRecord demo_fin_wire demo_fin_ctx = Some (noErr, Some \<lparr>contentType = 22, protocolVersion = TLS_Version_1_2, contents = [20, 0, 0, 12, 177, 178, 179, 180, 181, 182, 183, 184, 185, 186, 187, 188]\<rparr>, demo_fin_ctx\<lparr>ioPos := 2, partialReadBuffer := Some [22, 3, 3, 0, 16, 20, 0, 0, 12, 177, 178, 179, 180, 181, 182, 183, 184, 185, 186, 187, 188], readCipher := demo_cipher\<lparr>ready := False, sequenceNum := \<lparr>high = 0, low = 1\<rparr>\<rparr>\<rparr>)"
  by (simp add: demo_fin_wire_def demo_fin_ctx_def read_steps SSLReallocBuffer_def cong: bind_weak_cong prod.case_cong_weak option.case_cong_weak)

lemma demo_fin_done: "\<exists>ctx'. SSLHandshake demo_fin_wire demo_fin_ctx = Some (noErr, ctx') \<and> ready (readCipher ctx')"
proof -
  let ?m = "[20, 0, 0, 12, 177, 178, 179, 180, 181, 182, 183, 184, 185, 186, 187, 188] :: bytes"
  define r where "r = demo_fin_ctx\<lparr>ioPos := 2, partialReadBuffer := Some [22, 3, 3, 0, 16, 20, 0, 0, 12, 177, 178, 179, 180, 181, 182, 183, 184, 185, 186, 187, 188],
     readCipher := demo_cipher\<lparr>ready := False, sequenceNum := \<lparr>high = 0, low = 1\<rparr>\<rparr>\<rparr>"
  have len: "message_length ?m = 12" by (simp add: message_length_def SSLDecodeInt_def numeral_3_eq_3)
  have f: "SSLProcessFinished demo_fin_wire (drop 4 ?m) r = Some noErr"
    unfolding demo_fin_wire_def r_def by (simp add: demo_finished)
  have q: "recordWriteQueue r = []" "fragmentedMessageCache r = None" "state r = SSL_HdskStateFinished" "protocolSide r = SSL_ClientSide"
     "peerID r = None" "\<not> ready (writePending r)" "ready (writeCipher r)" "sentFatalAlert r = False"
     "shaState r = Some []" "md5State r = Some []" "sha256State r = Some []" "sha384State r = Some []"
    by (simp_all add: r_def demo_fin_ctx_def demo_ctx_def demo_cipher_def)
  obtain r1 where a: "absorb demo_fin_wire ?m r = Some (noErr, r1)" "r1 = r\<lparr>shaState := shaState r1, md5State := md5State r1, sha256State := sha256State r1, sha384State := sha384State r1\<rparr>"
    using q by (simp add: absorb_def hash_updates_Some)
  have r1: "peerID r1 = None" "\<not> ready (writePending r1)" "protocolSide r1 = SSL_ClientSide" "fragmentedMessageCache r1 = None"
    "writeCipher r1 = writeCipher r" "recordWriteQueue r1 = []"
    by (subst a(2), simp add: q)+
  define r2 where "r2 = r1\<lparr>readCipher := (readCipher r1)\<lparr>ready := True\<rparr>, state := SSL_HdskStateClientReady\<rparr>"
  have "SSLProcessHandshakeMessage demo_fin_wire 20 (drop 4 ?m) r = Some (noErr, r)"
    using q f by (simp add: SSLProcessHandshakeMessage_def expected_def decode_message_def with_ctx_def message_alert_def)
  then have "process_one demo_fin_wire ?m 12 r = Some (noErr, r2)"
    using a r1 by (simp add: process_one_def SSLAdvanceHandshake_def advance_Finished_def r2_def)
  then have "process_messages demo_fin_wire ?m r = Some (noErr, [], r2)"
    using len by (subst process_messages.simps) (simp add: process_messages.simps [of _ "[]"])
  then have p: "SSLProcessProtocolMessage demo_fin_wire \<lparr>contentType = 22, protocolVersion = TLS_Version_1_2, contents = ?m\<rparr> r =
      Some (noErr, r2\<lparr>fragmentedMessageCache := None\<rparr>)"
    using q by (simp add: SSLProcessProtocolMessage_def SSLProcessHandshakeRecord_def keep_fragment_def)
  have b: "before_reading demo_fin_wire demo_fin_ctx = Some (noErr, demo_fin_ctx)"
    by (simp add: before_reading_def demo_fin_ctx_def demo_ctx_def SSLServiceWriteQueue_empty)
  have "\<not> ready (readCipher demo_fin_ctx)" by (simp add: demo_fin_ctx_def)
  with b p demo_fin_read have "SSLHandshakeProceed demo_fin_wire demo_fin_ctx = Some (noErr, r2\<lparr>fragmentedMessageCache := None\<rparr>)"
    by (simp add: SSLHandshakeProceed_def r_def)
  then have "SSLHandshake demo_fin_wire demo_fin_ctx = Some (noErr, r2\<lparr>fragmentedMessageCache := None\<rparr>)"
    unfolding SSLHandshake_def
    by (subst proceed_until.simps) (simp add: proceed_until_done SSLServiceWriteQueue_empty r2_def r1 q demo_fin_ctx_def)
  then show ?thesis by (simp add: r2_def)
qed

section \<open>Keys and hellos\<close>

definition demo_gcm_spec :: SSLCipherSpec where
  "demo_gcm_spec = \<lparr>cipherSpec = 0x009C, isExportable = False, keyExchangeMethod = SSL_RSA, macAlgorithm = HA_Null,
     cipher = SSLCipherAES_128_GCM\<rparr>"

text \<open>A client and a server that have agreed on a suite and a master secret, with fresh pending ciphers.\<close>

definition demo_keyed :: "SSLProtocolSide \<Rightarrow> SSLContext" where
  "demo_keyed side = demo_ctx\<lparr>protocolSide := side, selectedCipherSpec := Some demo_gcm_spec,
     writePending := zeroed_cipher\<lparr>encrypting := True\<rparr>, readPending := zeroed_cipher\<rparr>"

text \<open>The derivation of AES-GCM ciphers succeeds, whatever the RSA encryption of the platform does.\<close>

lemma demo_gcm_pending:
  assumes ctx: "sslTslCalls ctx = Tls12Callouts" "selectedCipherSpec ctx = Some demo_gcm_spec" "g_resolved ctx = 0"
      "writePending ctx = zeroed_cipher\<lparr>encrypting := True\<rparr>" "readPending ctx = zeroed_cipher"
  shows "\<exists>ctx'. SSLInitPendingCiphers (demo_platform\<lparr>CSSM_EncryptData := f\<rparr>) ctx = Some (noErr, ctx')"
proof -
  let ?P = "demo_platform\<lparr>CSSM_EncryptData := f\<rparr>"
  have ok: "platform_ok ?P" by (simp add: platform_ok_def demo_platform_def)
  have n: "keyDataLen demo_gcm_spec = 40" by (simp add: keyDataLen_def demo_gcm_spec_def secretKeySize_def ivSize_def keySize_def)
  let ?ctx = "start_pending demo_gcm_spec ctx"
  obtain key where key: "call_generateKeyMaterial ?P 40 ?ctx = Some (noErr, key)" "length key = 40"
    using call_generateKeyMaterial_ok [OF ok, of 40 ?ctx] by (simp add: length_key_block ok)
  have "\<exists>ctx'. install_key_material ?P demo_gcm_spec key ?ctx = Some (noErr, ctx')"
    using key(2) ctx by (cases "protocolSide ctx") (simp_all add: install_key_material_def demo_gcm_spec_def zeroed_cipher_def start_pending_def
        clientPending_def serverPending_def set_pending_def copy_macSecret_def call_initMac_def tls12InitMac_def Let_def
        demo_platform_def init_pair_def cipher_initialize_def isGcm_def sslGcmCipherInit_def sslGcmInit_def resolveAesSyms_def
        secretKeySize_def ivSize_def keySize_def put_pending_def hmac_alloc_def HMAC_AllocNull_def hmacCtx_of_def cong: bind_weak_cong prod.case_cong_weak option.case_cong_weak)
  then show ?thesis
    using n key(1) ctx(2) by (simp add: SSLInitPendingCiphers_def SSLAllocBuffer_ok ok)
qed

lemma demo_pending: "\<exists>ctx'. SSLInitPendingCiphers demo_platform (demo_keyed side) = Some (noErr, ctx')"
proof -
  have "g_resolved demo_ctx = 0" by (simp add: demo_ctx_def)
  then show ?thesis
    using demo_gcm_pending [of "demo_keyed side" "CSSM_EncryptData demo_platform"] by (simp add: demo_keyed_def)
qed

abbreviation demo_rsa_key :: CSSM_KEY where
  "demo_rsa_key \<equiv> \<lparr>AlgorithmId = CSSM_ALGID_RSA, KeyClass = CSSM_KEYCLASS_PRIVATE_KEY, BlobType = CSSM_KEYBLOB_RAW,
     Format = CSSM_KEYFORMAT_other, LogicalKeySizeInBits = 384, KeyData = []\<rparr>"

text \<open>A client that offers one suite and a server that has it enabled and has a key.\<close>

definition demo_hello :: "SSLProtocolSide \<Rightarrow> SSLContext" where
  "demo_hello side = demo_ctx\<lparr>protocolSide := side, validCipherSpecs := Some [demo_gcm_spec], numValidNonSSLv2Specs := 1,
     signingPrivKeyRef := Some (Inr demo_rsa_key)\<rparr>"

lemma demo_ClientHello: "\<exists>r c'. SSLEncodeClientHello demo_platform (demo_hello SSL_ClientSide) = Some (noErr, r, c')"
proof -
  let ?c = "demo_hello SSL_ClientSide"
  obtain rand where rand: "SSLEncodeRandom demo_platform ?c = (noErr, rand, ?c\<lparr>rngPos := rngPos ?c + 1\<rparr>)" "length rand = 32"
    by (rule SSLEncodeRandom_ok [OF platform_ok_demo])
  have o: "length (offered_specs (?c\<lparr>rngPos := n, clientRandom := x\<rparr>)) = 1" for n x
    by (simp add: offered_specs_def demo_hello_def CIPHER_SUITE_IS_SSLv2_def demo_gcm_spec_def)
  have ext: "client_extensions v (?c\<lparr>rngPos := n, clientRandom := x\<rparr>) = client_extensions v ?c" for v n x
    by (simp add: client_extensions_def ext_sessionTicket_def ext_serverName_def ext_curves_def
        ext_pointFormats_def Let_def cong: if_cong option.case_cong)
  have c: "protocolSide ?c = SSL_ClientSide" "resumableSession ?c = None" "numValidNonSSLv2Specs ?c = 1"
     "sslGetMaxProtVersion ?c = (noErr, Some TLS_Version_1_2)"
    by (simp_all add: demo_hello_def demo_ctx_def sslGetMaxProtVersion_def)
  show ?thesis
    using rand o by (simp add: SSLEncodeClientHello_def resume_id_def c Let_def SSLAllocBuffer_ok platform_ok_demo client_hello_body_def ext
      length_concat comp_def sum_list_triv SSLInitMessageHashes_ok)
qed

lemma demo_ServerHello: "\<exists>r s'. SSLEncodeServerHello demo_platform (demo_hello SSL_ServerSide) = Some (noErr, r, s')"
proof -
  let ?c = "demo_hello SSL_ServerSide"
  obtain rand where rand: "SSLEncodeRandom demo_platform ?c = (noErr, rand, ?c\<lparr>rngPos := rngPos ?c + 1\<rparr>)" "length rand = 32"
    by (rule SSLEncodeRandom_ok [OF platform_ok_demo])
  have c: "sessionID ?c = Some [1, 2, 3, 4]" "negProtocolVersion ?c = TLS_Version_1_2" by (simp_all add: demo_hello_def)
  show ?thesis
    using rand by (simp add: SSLEncodeServerHello_def c Let_def SSLAllocBuffer_ok platform_ok_demo server_hello_id_def hello_id_len_def)
qed

text \<open>A signed ServerKeyExchange.\<close>

definition demo_ecdhe_spec :: SSLCipherSpec where
  "demo_ecdhe_spec = \<lparr>cipherSpec = 0xC02B, isExportable = False, keyExchangeMethod = SSL_ECDHE_ECDSA, macAlgorithm = HA_Null,
     cipher = SSLCipherAES_128_GCM\<rparr>"

definition demo_ecdhe_ctx :: SSLContext where
  "demo_ecdhe_ctx = demo_ctx\<lparr>selectedCipherSpec := Some demo_ecdhe_spec\<rparr>"

definition demo_ske :: bytes where
  "demo_ske = [3, 0, 23, 2, 4, 9] @ [4, 3] @ [0, 32] @
     CC_Digest demo_platform SSLHashSHA256 (replicate 32 1 @ replicate 32 2 @ [3, 0, 23, 2, 4, 9])"

lemma demo_ske_accepted: "\<exists>ctx'. SSLProcessServerKeyExchange demo_platform demo_ske demo_ecdhe_ctx = Some (noErr, ctx')"
proof -
  define sig where "sig = CC_Digest demo_platform SSLHashSHA256 (replicate 32 1 @ replicate 32 2 @ [3, 0, 23, 2, 4, 9])"
  have len: "length sig = 32" by (simp add: sig_def demo_platform_def digest_length_def)
  have c: "clientRandom demo_ecdhe_ctx = replicate 32 1" "serverRandom demo_ecdhe_ctx = replicate 32 2"
    "protocolSide demo_ecdhe_ctx = SSL_ClientSide" "negProtocolVersion demo_ecdhe_ctx = TLS_Version_1_2"
    "peerCert demo_ecdhe_ctx = [[48, 1, 2], [48, 3]]"
    "selectedCipherSpec demo_ecdhe_ctx = Some demo_ecdhe_spec" "2 \<le> length demo_ske"
    by (simp_all add: demo_ecdhe_ctx_def demo_ctx_def demo_ske_def)
  have p: "SSLDecodeECDHKeyParams demo_platform demo_ske demo_ecdhe_ctx =
      Some (noErr, 6, demo_ecdhe_ctx\<lparr>ecdhPeerPublic := Some [4, 9], ecdhPeerCurve := 23\<rparr>)"
  proof -
    have d: "demo_ske = 3 # 0 # 23 # 2 # 4 # 9 # 4 # 3 # 0 # 32 # sig" by (simp add: demo_ske_def sig_def)
    have "rd_at 0 1 demo_ske = Some 3" "rd_at 1 2 demo_ske = Some 23" "rd_at 3 1 demo_ske = Some 2"
      by (simp_all add: rd_at_def d two_octets SSLDecodeInt_def [of _ "Suc 0"])
    then show ?thesis
      using len by (simp add: SSLDecodeECDHKeyParams_def c known_curve_def SSLAllocBuffer_ok platform_ok_demo Let_def d)
  qed
  have s: "ske_signature TLS_Version_1_2 6 demo_ske = Some (noErr, 4, sig)"
    using len by (simp add: ske_signature_def demo_ske_def rd_at_def sig_def [symmetric] two_octets)
  have "verify_ske demo_platform 4 False (take 6 demo_ske) sig (demo_ecdhe_ctx\<lparr>ecdhPeerPublic := Some [4, 9], ecdhPeerCurve := 23\<rparr>) = Some noErr"
    by (simp add: verify_ske_def c ske_hash_ok platform_ok_demo ec_hash_def demo_ske_def sig_def sslVerifyTLS12ECDSA_def)
      (simp add: demo_platform_def)
  with p s c show ?thesis
    by (simp add: SSLProcessServerKeyExchange_def SSLDecodeSignedServerKeyExchange_def ske_params_def rsa_signed_def demo_ecdhe_spec_def)
qed

section \<open>An exchange of keys with RSA\<close>

text \<open>Encryption with the key of 48 octets takes messages of that length.\<close>

definition demo_rsa :: platform where
  "demo_rsa = demo_platform\<lparr>CSSM_EncryptData := (\<lambda>k p m. if length m = 48 then Some m else None)\<rparr>"

definition demo_rsa_pub :: CSSM_KEY where
  "demo_rsa_pub = demo_rsa_key\<lparr>KeyClass := CSSM_KEYCLASS_PUBLIC_KEY, BlobType := CSSM_KEYBLOB_REFERENCE\<rparr>"

definition demo_rsa_client :: SSLContext where
  "demo_rsa_client = (demo_keyed SSL_ClientSide)\<lparr>peerPubKey := Some demo_rsa_pub, peerPubKeyCsp := 1\<rparr>"

definition demo_rsa_server :: SSLContext where
  "demo_rsa_server = (demo_keyed SSL_ServerSide)\<lparr>encryptPrivKeyRef := Some (Inr demo_rsa_key)\<rparr>"

lemma platform_ok_demo_rsa: "platform_ok demo_rsa"
  by (simp add: platform_ok_def demo_rsa_def demo_platform_def)

lemma cryptor_laws_demo_rsa: "cryptor_laws demo_rsa"
proof -
  have "cryptor_run demo_rsa c ms = cryptor_run demo_platform c ms" for c ms
    by (induction ms arbitrary: c) (simp_all add: demo_rsa_def)
  moreover have "CCCryptorCreate demo_rsa = CCCryptorCreate demo_platform" by (simp add: demo_rsa_def)
  ultimately have "cryptor_laws demo_rsa = cryptor_laws demo_platform" unfolding cryptor_laws_def cryptors_paired_def by presburger
  with cryptor_laws_demo show ?thesis by simp
qed

lemma demo_rsa_pair: "rsa_pair demo_rsa demo_rsa_pub demo_rsa_key" "key_usable demo_rsa demo_rsa_key"
  by (auto simp: rsa_pair_def key_usable_def demo_rsa_def demo_platform_def demo_rsa_pub_def sslKeyLengthInBytes_def split: if_split_asm)

text \<open>The client's message, and the derivation of the keys on both sides.\<close>

lemma demo_rsa_exchange:
  "\<exists>r. SSLEncodeRSAKeyExchange demo_rsa demo_rsa_client =
     Some (noErr, r, demo_rsa_client\<lparr>preMasterSecret := Some (SSLEncodeInt TLS_Version_1_2 2 @ replicate 46 (of_nat (rngPos demo_ctx))),
       rngPos := rngPos demo_ctx + 1\<rparr>)"
proof -
  have p: "SSLEncodeRSAPremasterSecret demo_rsa demo_rsa_client = Some (noErr, demo_rsa_client\<lparr>preMasterSecret :=
      Some (SSLEncodeInt TLS_Version_1_2 2 @ replicate 46 (of_nat (rngPos demo_ctx))), rngPos := rngPos demo_ctx + 1\<rparr>)"
    unfolding SSLEncodeRSAPremasterSecret_def SSLAllocBuffer_ok [OF platform_ok_demo_rsa]
    by (simp add: demo_rsa_client_def demo_keyed_def sslGetMaxProtVersion_def sslRand_def demo_rsa_def demo_platform_def)
  show ?thesis
    unfolding SSLEncodeRSAKeyExchange_def p
    by (simp add: demo_rsa_client_def demo_keyed_def demo_rsa_def demo_platform_def demo_rsa_pub_def sslRsaEncrypt_def
        sslKeyLengthInBytes_def octets_def)
qed

lemma demo_make_keys:
  assumes "sslTslCalls ctx = Tls12Callouts" "selectedCipherSpec ctx = Some demo_gcm_spec" "g_resolved ctx = 0"
    "writePending ctx = zeroed_cipher\<lparr>encrypting := True\<rparr>" "readPending ctx = zeroed_cipher" "length (masterSecret ctx) = 48"
  shows "\<exists>ctx'. make_keys demo_rsa ctx = Some (noErr, ctx')"
proof -
  let ?ctx = "ctx\<lparr>masterSecret := master_secret demo_rsa (sslTslCalls ctx) (selectedCipher ctx) (preMaster ctx) (clientRandom ctx) (serverRandom ctx)\<rparr>"
  have "\<exists>ctx'. SSLInitPendingCiphers demo_rsa ?ctx = Some (noErr, ctx')"
    unfolding demo_rsa_def using assms by (intro demo_gcm_pending) simp_all
  then show ?thesis
    using call_generateMasterSecret_ok [OF platform_ok_demo_rsa assms(6)] by (auto simp: make_keys_def)
qed

end
