(* ===== verification/Modules.thy ===== *)
theory Modules
  imports Cdsa
begin

text \<open>
  The attachment to the CDSA modules (\<open>ModuleAttacher.c\<close>) and the remaining operations of
  \<open>appleCdsa.c\<close>: the checks of the three handles, key set-up and disposal, \<open>CSSM_DATA\<close> buffers and
  the generation of an ECDH key pair by the CSP.

  The three handles are variables of the process. They are set together, by the first connection
  that attaches, and never change again; that is the invariant \<open>handles_ok\<close>, stated once as the
  interface \<open>attachment\<close> that the construction of a context relies on.
\<close>

section \<open>Services of CSSM\<close>

datatype CSSM_SERVICE_TYPE = CSSM_SERVICE_CSP | CSSM_SERVICE_CL | CSSM_SERVICE_TP

text \<open>A handle of 0 is \<open>CSSM_INVALID_HANDLE\<close>. A context handle that is created and used once is
  folded into the call that uses it.\<close>

record cssm =
  CSSM_Init :: bool
  CSSM_ModuleLoad :: "CSSM_SERVICE_TYPE \<Rightarrow> bool"
  CSSM_ModuleAttach :: "CSSM_SERVICE_TYPE \<Rightarrow> nat option"
  CSSM_CSP_CreateKeyGenContext :: "nat \<Rightarrow> nat \<Rightarrow> bool"
  CSSM_SetPublicKeyFormat :: "nat \<Rightarrow> bool"
  CSSM_GenerateECKeyPair :: "nat \<Rightarrow> nat \<Rightarrow> (bytes \<times> CSSM_KEY) option"

record module_handles =
  gCSPHandle :: nat
  gCLHandle :: nat
  gTPHandle :: nat

section \<open>\<open>ModuleAttacher.c\<close>\<close>

definition loadModule :: "cssm \<Rightarrow> CSSM_SERVICE_TYPE \<Rightarrow> nat" where
  "loadModule S svcType =
     (if \<not> CSSM_ModuleLoad S svcType then 0
      else case CSSM_ModuleAttach S svcType of None \<Rightarrow> 0 | Some hand \<Rightarrow> hand)"

text \<open>The result says whether \<open>CSSM_OK\<close> is returned.\<close>

definition doAttachToModules :: "cssm \<Rightarrow> module_handles \<Rightarrow> bool \<times> module_handles" where
  "doAttachToModules S g =
     (if gCSPHandle g \<noteq> 0 then (True, g)
      else if \<not> CSSM_Init S then (False, g)
      else let csp = loadModule S CSSM_SERVICE_CSP in
      if csp = 0 then (False, g)
      else let cl = loadModule S CSSM_SERVICE_CL in
      if cl = 0 then (False, g)
      else let tp = loadModule S CSSM_SERVICE_TP in
      if tp = 0 then (False, g)
      else (True, g\<lparr>gCSPHandle := csp, gCLHandle := cl, gTPHandle := tp\<rparr>))"

definition attachToModules :: "cssm \<Rightarrow> module_handles \<Rightarrow> bool \<times> (nat \<times> nat \<times> nat) \<times> module_handles" where
  "attachToModules S g =
     (let (result, g) = (if gCSPHandle g \<noteq> 0 \<and> gCLHandle g \<noteq> 0 \<and> gTPHandle g \<noteq> 0 then (True, g)
                         else doAttachToModules S g)
      in (result, (gCSPHandle g, gCLHandle g, gTPHandle g), g))"

section \<open>Attachment in \<open>appleCdsa.c\<close>\<close>

definition attachToTp :: "SSLContext \<Rightarrow> OSStatus" where
  "attachToTp ctx = (if tpHand ctx \<noteq> 0 then noErr else errSSLModuleAttach)"

definition attachToAll :: "cssm \<Rightarrow> module_handles \<Rightarrow> SSLContext \<Rightarrow> OSStatus \<times> SSLContext \<times> module_handles" where
  "attachToAll S g ctx =
     (case attachToModules S g of (crtn, (csp, cl, tp), g) \<Rightarrow>
        (if crtn then noErr else errSSLModuleAttach, ctx\<lparr>ctxCspHand := csp, clHand := cl, tpHand := tp\<rparr>, g))"

definition detachFromAll :: "SSLContext \<Rightarrow> OSStatus" where
  "detachFromAll ctx = noErr"

section \<open>Keys and \<open>CSSM_DATA\<close>\<close>

definition sslFreeKey :: "CSSM_KEY option \<Rightarrow> OSStatus \<times> CSSM_KEY option" where
  "sslFreeKey key = (noErr, None)"

text \<open>A \<open>CSSM_DATA\<close> whose length is 0 has no buffer to keep.\<close>

definition stSetUpCssmData :: "platform \<Rightarrow> nat \<Rightarrow> bytes \<Rightarrow> OSStatus \<times> bytes" where
  "stSetUpCssmData P n data =
     (if data = [] then (if mallocOk P n then (noErr, replicate n 0) else (memFullErr, []))
      else if length data < n then (memFullErr, data)
      else (noErr, take n data))"

text \<open>The length and the buffer, which is not tested: a \<open>CSSM_DATA\<close> may have a length and no buffer.\<close>

definition stMallocCssmData :: "platform \<Rightarrow> nat \<Rightarrow> nat \<Rightarrow> (nat \<times> bytes option) option" where
  "stMallocCssmData P sizeof_CSSM_DATA n =
     (if \<not> mallocOk P sizeof_CSSM_DATA then None
      else Some (n, if n = 0 then None else if mallocOk P n then Some (replicate n 0) else None))"

definition stFreeCssmData :: "nat \<times> bytes option \<Rightarrow> nat \<times> bytes option" where
  "stFreeCssmData data = (0, None)"

text \<open>A raw session key; the header fields that the library never reads are left out.\<close>

definition zeroed_key :: CSSM_KEY where
  "zeroed_key = \<lparr>AlgorithmId = CSSM_ALGID_NONE, KeyClass = CSSM_KEYCLASS_PUBLIC_KEY, BlobType = CSSM_KEYBLOB_RAW,
     Format = CSSM_KEYFORMAT_other, LogicalKeySizeInBits = 0, KeyData = []\<rparr>"

definition sslSetUpSymmKey :: "platform \<Rightarrow> CSSM_ALGORITHMS \<Rightarrow> bool \<Rightarrow> bytes \<Rightarrow> OSStatus \<times> CSSM_KEY" where
  "sslSetUpSymmKey P alg copyKey keyData =
     (let serr = (if copyKey then fst (stSetUpCssmData P (length keyData) []) else noErr) in
      if serr \<noteq> noErr then (serr, zeroed_key)
      else (noErr, \<lparr>AlgorithmId = alg, KeyClass = CSSM_KEYCLASS_other, BlobType = CSSM_KEYBLOB_RAW,
              Format = CSSM_KEYFORMAT_other, LogicalKeySizeInBits = length keyData * 8, KeyData = keyData\<rparr>))"

section \<open>ECDH key pairs of the CSP\<close>

definition curve_bits :: "int \<Rightarrow> nat option" where
  "curve_bits namedCurve =
     (if namedCurve = SSL_Curve_secp256r1 then Some 256
      else if namedCurve = SSL_Curve_secp384r1 then Some 384
      else if namedCurve = SSL_Curve_secp521r1 then Some 521
      else None)"

text \<open>
  The result of \<open>sslMalloc\<close> is not tested before \<open>memset\<close>: \<open>None\<close> then. On an error after that the
  context keeps a key that has been cleared.
\<close>

definition sslEcdhGenerateKeyPair ::
  "platform \<Rightarrow> cssm \<Rightarrow> nat \<Rightarrow> int \<Rightarrow> SSLContext \<Rightarrow> (OSStatus \<times> SSLContext) option" where
  "sslEcdhGenerateKeyPair P S sizeof_CSSM_KEY namedCurve ctx =
     (let ctx = ctx\<lparr>ecdhPrivate := snd (sslFreeKey (ecdhPrivate ctx)),
                    ecdhExchangePublic := snd (SSLFreeBuffer (ecdhExchangePublic ctx))\<rparr> in
      case curve_bits namedCurve of
        None \<Rightarrow> Some (errSSLInternal, ctx)
      | Some bits \<Rightarrow>
          if \<not> mallocOk P sizeof_CSSM_KEY then None
          else let ctx = ctx\<lparr>ecdhPrivate := Some zeroed_key\<rparr> in
          if \<not> CSSM_CSP_CreateKeyGenContext S (ctxCspHand ctx) bits then Some (errSSLCrypto, ctx)
          else if \<not> CSSM_SetPublicKeyFormat S (ctxCspHand ctx) then Some (errSSLCrypto, ctx)
          else case CSSM_GenerateECKeyPair S (ctxCspHand ctx) bits of
            None \<Rightarrow> Some (errSSLCrypto, ctx)
          | Some (pub, priv) \<Rightarrow>
              case SSLCopyBuffer P pub of (ortn, buf) \<Rightarrow>
                Some (ortn, ctx\<lparr>ecdhPrivate := Some priv, ecdhPrivCspHand := ctxCspHand ctx, ecdhExchangePublic := buf\<rparr>))"

section \<open>The handles are set once\<close>

definition attached :: "module_handles \<Rightarrow> bool" where
  "attached g \<longleftrightarrow> gCSPHandle g \<noteq> 0 \<and> gCLHandle g \<noteq> 0 \<and> gTPHandle g \<noteq> 0"

definition handles_ok :: "module_handles \<Rightarrow> bool" where
  "handles_ok g \<longleftrightarrow> attached g \<or> g = \<lparr>gCSPHandle = 0, gCLHandle = 0, gTPHandle = 0\<rparr>"

text \<open>
  What a client of the attachment relies on: the invariant holds at start and is kept, success
  means that every handle is valid, and handles once handed out stay.
\<close>

locale attachment =
  fixes attach :: "'g \<Rightarrow> bool \<times> 'h \<times> 'g"
    and ok :: "'g \<Rightarrow> bool" and valid :: "'h \<Rightarrow> bool"
  assumes keeps_ok: "ok g \<Longrightarrow> attach g = (r, h, g') \<Longrightarrow> ok g'"
    and success: "ok g \<Longrightarrow> attach g = (r, h, g') \<Longrightarrow> r \<longleftrightarrow> valid h"
    and stable: "ok g \<Longrightarrow> attach g = (True, h, g') \<Longrightarrow> attach g' = (True, h, g')"
begin

lemma once_attached: "ok g \<Longrightarrow> attach g = (True, h, g') \<Longrightarrow> ((\<lambda>g. snd (snd (attach g))) ^^ n) g' = g'"
  using stable [of g h g'] by (induction n) auto

lemma same_handles:
  assumes "ok g" "attach g = (True, h, g')" "attach (((\<lambda>g. snd (snd (attach g))) ^^ n) g') = (r, h', g'')"
  shows "r \<and> h' = h \<and> g'' = g'"
  using once_attached [OF assms(1,2)] stable [OF assms(1,2)] assms(3) by auto

end

lemma loadModule_attach:
  "attachToModules S g = (r, h, g') \<Longrightarrow> handles_ok g \<Longrightarrow>
     handles_ok g' \<and> h = (gCSPHandle g', gCLHandle g', gTPHandle g') \<and> (r \<longleftrightarrow> attached g')"
  by (auto simp: attachToModules_def doAttachToModules_def handles_ok_def attached_def Let_def split: if_split_asm)

interpretation modules: attachment "attachToModules S" handles_ok "\<lambda>(csp, cl, tp). csp \<noteq> 0 \<and> cl \<noteq> 0 \<and> tp \<noteq> 0"
proof
  show "handles_ok g'" if "handles_ok g" "attachToModules S g = (r, h, g')" for g r h g'
    using loadModule_attach that by blast
  show "r \<longleftrightarrow> (case h of (csp, cl, tp) \<Rightarrow> csp \<noteq> 0 \<and> cl \<noteq> 0 \<and> tp \<noteq> 0)"
    if "handles_ok g" "attachToModules S g = (r, h, g')" for g r h g'
    using loadModule_attach [OF that(2,1)] by (auto simp: attached_def)
  show "attachToModules S g' = (True, h, g')" if "handles_ok g" "attachToModules S g = (True, h, g')" for g h g'
    using loadModule_attach [OF that(2,1)] by (simp add: attachToModules_def attached_def)
qed

lemma attachToAll_handles:
  assumes "handles_ok g" "attachToAll S g ctx = (err, ctx', g')"
  shows "handles_ok g'" "err = noErr \<longleftrightarrow> attachToCsp ctx' = noErr \<and> attachToCl ctx' = noErr \<and> attachToTp ctx' = noErr"
    "ctx' = ctx\<lparr>ctxCspHand := ctxCspHand ctx', clHand := clHand ctx', tpHand := tpHand ctx'\<rparr>"
proof -
  obtain r csp cl tp where a: "attachToModules S g = (r, (csp, cl, tp), g')"
    and e: "err = (if r then noErr else errSSLModuleAttach)" "ctx' = ctx\<lparr>ctxCspHand := csp, clHand := cl, tpHand := tp\<rparr>"
    using assms(2) by (auto simp: attachToAll_def split: prod.split_asm)
  show "handles_ok g'" by (rule modules.keeps_ok [OF assms(1) a])
  show "err = noErr \<longleftrightarrow> attachToCsp ctx' = noErr \<and> attachToCl ctx' = noErr \<and> attachToTp ctx' = noErr"
    using modules.success [OF assms(1) a] e by (simp add: attachToCsp_def attachToCl_def attachToTp_def)
  show "ctx' = ctx\<lparr>ctxCspHand := ctxCspHand ctx', clHand := clHand ctx', tpHand := tpHand ctx'\<rparr>"
    using e by simp
qed

text \<open>A key pair is generated for a known curve; an unknown one leaves no key behind.\<close>

lemma sslEcdhGenerateKeyPair_noErr:
  "sslEcdhGenerateKeyPair P S n curve ctx = Some (noErr, ctx') \<Longrightarrow>
     \<exists>bits pub priv. curve_bits curve = Some bits \<and> CSSM_GenerateECKeyPair S (ctxCspHand ctx) bits = Some (pub, priv) \<and>
       ecdhPrivate ctx' = Some priv \<and> ecdhExchangePublic ctx' = Some pub \<and> ecdhPrivCspHand ctx' = ctxCspHand ctx"
  by (auto simp: sslEcdhGenerateKeyPair_def Let_def SSLCopyBuffer_def sslAllocCopy_def
      split: option.split_asm if_split_asm prod.split_asm)

lemma sslEcdhGenerateKeyPair_unknown:
  "curve_bits curve = None \<Longrightarrow> sslEcdhGenerateKeyPair P S n curve ctx =
     Some (errSSLInternal, ctx\<lparr>ecdhPrivate := None, ecdhExchangePublic := None\<rparr>)"
  by (simp add: sslEcdhGenerateKeyPair_def sslFreeKey_def SSLFreeBuffer_def)

end
