(* ===== verification/Config.thy ===== *)
theory Config
  imports Modules Cert
begin

text \<open>
  The application's side of a connection (\<open>sslContext.c\<close>): construction and disposal of a
  context, and the setters and getters for I/O, protocol versions, options, identifiers, curves
  and secrets. Certificates and trust are in \<open>Credentials\<close>.

  A \<open>SSLContextRef\<close> that may be NULL is an option. A setter returns the status and the context, a
  getter the status (\<open>Inl\<close>) or the value that it writes through the result pointer (\<open>Inr\<close>, with
  status \<open>noErr\<close>). The argument \<open>out\<close> of a getter says whether the result pointers that the code
  tests are different from NULL; pointers that it does not test are taken to be valid. A result
  \<open>None\<close> is a NULL dereference.

  Most setters share one contract, the locale \<open>guarded_setter\<close>: a NULL context is refused, and so
  is every change while a session is active.
\<close>

section \<open>Enumerations of \<open>SecureTransport.h\<close>\<close>

datatype SSLProtocol =
    kSSLProtocolUnknown | kSSLProtocol2 | kSSLProtocol3 | kSSLProtocol3Only | kTLSProtocol1
  | kTLSProtocol1Only | kSSLProtocolAll | kTLSProtocol11 | kTLSProtocol12 | SSLProtocol_other int

datatype SSLSessionOption =
  kSSLSessionOptionBreakOnServerAuth | kSSLSessionOptionBreakOnCertRequested | SSLSessionOption_other int

datatype SSLSessionState = kSSLIdle | kSSLHandshake | kSSLConnected | kSSLClosed | kSSLAborted

type_synonym SSLContextRef = "SSLContext option"

section \<open>Access to a context\<close>

definition on_context :: "(SSLContext \<Rightarrow> OSStatus \<times> SSLContext) \<Rightarrow> SSLContextRef \<Rightarrow> OSStatus \<times> SSLContextRef" where
  "on_context f ref = (case ref of None \<Rightarrow> (paramErr, None) | Some ctx \<Rightarrow> map_prod id Some (f ctx))"

definition on_idle :: "(SSLContext \<Rightarrow> OSStatus \<times> SSLContext) \<Rightarrow> SSLContextRef \<Rightarrow> OSStatus \<times> SSLContextRef" where
  "on_idle f = on_context (\<lambda>ctx. if sslIsSessionActive ctx then (badReqErr, ctx) else f ctx)"

definition get_from :: "(SSLContext \<Rightarrow> OSStatus + 'a) \<Rightarrow> SSLContextRef \<Rightarrow> OSStatus + 'a" where
  "get_from f ref = (case ref of None \<Rightarrow> Inl paramErr | Some ctx \<Rightarrow> f ctx)"

section \<open>Construction\<close>

text \<open>The variables of the process that a context refers to.\<close>

record process =
  handles :: module_handles
  cacheOf :: SessionCache
  resolvedOf :: int
  dhParamsOf :: "(bytes option \<times> bytes option \<times> bytes option) option"
  ioCalls :: nat
  rngCalls :: nat

text \<open>What \<open>memset\<close> leaves: all pointers NULL, all flags off, all enumerations at their first value.\<close>

definition zeroed_context :: "process \<Rightarrow> SSLContext" where
  "zeroed_context p = \<lparr>
     ioReadFunc = 0, ioWriteFunc = 0, ioRef = 0, negProtocolVersion = 0, clientReqProtocol = 0,
     versionSsl2Enable = False, versionSsl3Enable = False, versionTls1Enable = False,
     versionTls11Enable = False, versionTls12Enable = False, maxProtocolVersion = 0,
     protocolSide = SSL_ServerSide, sslTslCalls = Ssl3Callouts, signingPrivKeyRef = None,
     signingPubKey = None, encryptPrivKeyRef = None, encryptPubKey = None, peerPubKey = None,
     peerPubKeyCsp = 0, localCert = [], encryptCert = [], peerCert = [], ourSignerAlg = CSSM_ALGID_NONE,
     localCertArray = None, encryptCertArray = None, peerSecTrust = None, trustedCerts = None,
     trustedLeafCerts = None, ctxCspHand = 0, tpHand = 0, clHand = 0, dhParamsPrime = None,
     dhParamsGenerator = None, dhParamsEncoded = None, dhPeerPublic = None, dhExchangePublic = None,
     dhPrivate = None, ecdhCurves = [], ecdhPeerPublic = None, ecdhPeerCurve = 0,
     ecdhExchangePublic = None, ecdhPrivate = None, ecdhPrivCspHand = 0, allowExpiredCerts = False,
     allowExpiredRoots = False, enableCertVerify = False, sessionID = None, peerID = None,
     resumableSession = None, peerDomainName = None, peerDomainNameLen = 0,
     readCipher = zeroed_cipher, writeCipher = zeroed_cipher, readPending = zeroed_cipher,
     writePending = zeroed_cipher, selectedCipher = 0, selectedCipherSpec = None,
     validCipherSpecs = None, numValidNonSSLv2Specs = 0, state = SSL_HdskStateUninit,
     clientAuth = kNeverAuthenticate, tryClientAuth = False, clientCertState = kSSLClientCertNone,
     acceptableDNList = [], acceptableCAs = None, certRequested = False, certSent = False,
     certReceived = False, x509Requested = False, clientRandom = replicate 32 0,
     serverRandom = replicate 32 0, preMasterSecret = None, masterSecret = replicate 48 0,
     shaState = None, md5State = None, sha256State = None, sha384State = None,
     fragmentedMessageCache = None, ssl2ChallengeLength = 0, ssl2ConnectionIDLength = 0,
     sessionMatch = 0, partialReadBuffer = None, amountRead = 0, recordWriteQueue = [],
     receivedDataBuffer = None, receivedDataPos = 0, allowAnyRoot = False, sentFatalAlert = False,
     rsaBlindingEnable = False, sessionCacheTimeout = 0, sessionTicket = None,
     masterSecretCallback = False, masterSecretArg = 0, anonCipherEnable = False,
     weakCipherEnable = False, breakOnServerAuth = False, breakOnCertRequest = False,
     signalServerAuth = False, signalCertRequest = False, ecdsaEnable = False, clientAuthTypes = [],
     negAuthType = 0, serverDhParams = dhParamsOf p, sessionCache = cacheOf p, g_resolved = resolvedOf p,
     ioPos = ioCalls p, wireOut = [], rngPos = rngCalls p\<rparr>"

text \<open>The assignments up to the attachment, and those after it.\<close>

definition init_context :: "bool \<Rightarrow> SSLContext \<Rightarrow> SSLContext" where
  "init_context isServer ctx =
     (let spec = SSL_NULL_WITH_NULL_NULL_CipherSpec in
      ctx\<lparr>state := SSL_HdskStateUninit, clientCertState := kSSLClientCertNone,
        versionSsl2Enable := False, versionSsl3Enable := True, versionTls1Enable := True,
        versionTls11Enable := True, versionTls12Enable := True,
        maxProtocolVersion := TLS_Version_1_2, negProtocolVersion := SSL_Version_Undetermined,
        protocolSide := (if isServer then SSL_ServerSide else SSL_ClientSide),
        sslTslCalls := Ssl3Callouts, selectedCipherSpec := Some spec, selectedCipher := ucast (cipherSpec spec),
        writeCipher := (writeCipher ctx)\<lparr>macRef := macAlgorithm spec, symCipher := cipher spec, encrypting := True\<rparr>,
        readCipher := (readCipher ctx)\<lparr>macRef := macAlgorithm spec, symCipher := cipher spec\<rparr>,
        writePending := (writePending ctx)\<lparr>encrypting := True\<rparr>,
        validCipherSpecs := None, numValidNonSSLv2Specs := 0, peerDomainName := None, peerDomainNameLen := 0\<rparr>)"

definition default_options :: "SSLContext \<Rightarrow> SSLContext" where
  "default_options ctx =
     ctx\<lparr>enableCertVerify := True, rsaBlindingEnable := True, anonCipherEnable := False, weakCipherEnable := False,
       breakOnServerAuth := False, breakOnCertRequest := False, signalServerAuth := False,
       signalCertRequest := False, allowAnyRoot := True, ecdsaEnable := True,
       ecdhCurves := [SSL_Curve_secp256r1, SSL_Curve_secp384r1, SSL_Curve_secp521r1],
       ecdhPeerCurve := SSL_Curve_None, negAuthType := SSLClientAuthNone\<rparr>"

text \<open>\<open>n\<close> is \<open>sizeof(SSLContext)\<close>. The second component is what \<open>*contextPtr\<close> holds afterwards.\<close>

definition SSLNewContext ::
  "platform \<Rightarrow> cssm \<Rightarrow> nat \<Rightarrow> bool \<Rightarrow> bool \<Rightarrow> process \<Rightarrow> (OSStatus \<times> SSLContextRef \<times> process) option" where
  "SSLNewContext P S n isServer contextPtr p =
     (if \<not> contextPtr then Some (paramErr, None, p)
      else if \<not> mallocOk P n then Some (memFullErr, None, p)
      else case attachToAll S (handles p) (init_context isServer (zeroed_context p)) of (serr, ctx, g) \<Rightarrow>
        let p = p\<lparr>handles := g\<rparr> in
        if serr \<noteq> noErr then Some (serr, None, p) else do {
          let ctx = default_options ctx;
          (serr, h) \<leftarrow> ReadyHash P SSLHashSHA256;
          if serr \<noteq> noErr then Some (serr, None, p) else do {
          let ctx = ctx\<lparr>sha256State := h\<rparr>;
          (serr, h) \<leftarrow> ReadyHash P SSLHashSHA384;
          if serr \<noteq> noErr then Some (serr, None, p)
          else Some (noErr, Some (ctx\<lparr>sha384State := h\<rparr>), p) }})"

definition sslFreeDnList :: "SSLContext \<Rightarrow> SSLContext" where
  "sslFreeDnList ctx = ctx\<lparr>acceptableDNList := []\<rparr>"

text \<open>
  The context is gone afterwards; what is left of the call is that the four cipher contexts are
  disposed of, with the MAC table of the context, and that the session cache loses its stale
  entries. The results of the calls on the way are ignored.
\<close>

definition SSLDisposeContext :: "platform \<Rightarrow> SSLContextRef \<Rightarrow> (OSStatus \<times> SessionCache option) option" where
  "SSLDisposeContext P ref =
     (case ref of
        None \<Rightarrow> Some (paramErr, None)
      | Some ctx \<Rightarrow> do {
          let ctx = (sslFreeDnList ctx)\<lparr>
            shaState := snd (CloseHash SSLHashSHA1 (shaState ctx)), md5State := snd (CloseHash SSLHashMD5 (md5State ctx)),
            sha256State := snd (CloseHash SSLHashSHA256 (sha256State ctx)),
            sha384State := snd (CloseHash SSLHashSHA384 (sha384State ctx))\<rparr>;
          r \<leftarrow> SSLDisposeCipherSuite (sslTslCalls ctx) (readCipher ctx);
          r \<leftarrow> SSLDisposeCipherSuite (sslTslCalls ctx) (writeCipher ctx);
          r \<leftarrow> SSLDisposeCipherSuite (sslTslCalls ctx) (readPending ctx);
          r \<leftarrow> SSLDisposeCipherSuite (sslTslCalls ctx) (writePending ctx);
          Some (noErr, Some (snd (snd (sslCleanupSession P (sessionCache ctx))))) })"

section \<open>State and options\<close>

definition SSLGetSessionState :: "SSLContextRef \<Rightarrow> OSStatus + SSLSessionState" where
  "SSLGetSessionState = get_from (\<lambda>ctx. Inr
     (if state ctx \<in> {SSL_HdskStateUninit, SSL_HdskStateServerUninit, SSL_HdskStateClientUninit} then kSSLIdle
      else if state ctx = SSL_HdskStateGracefulClose then kSSLClosed
      else if state ctx \<in> {SSL_HdskStateErrorClose, SSL_HdskStateNoNotifyClose} then kSSLAborted
      else if state ctx \<in> {SSL_HdskStateServerReady, SSL_HdskStateClientReady} then kSSLConnected
      else kSSLHandshake))"

definition SSLSetSessionOption :: "SSLSessionOption \<Rightarrow> bool \<Rightarrow> SSLContextRef \<Rightarrow> OSStatus \<times> SSLContextRef" where
  "SSLSetSessionOption option value = on_idle (\<lambda>ctx. case option of
       kSSLSessionOptionBreakOnServerAuth \<Rightarrow> (noErr, ctx\<lparr>breakOnServerAuth := value\<rparr>)
     | kSSLSessionOptionBreakOnCertRequested \<Rightarrow> (noErr, ctx\<lparr>breakOnCertRequest := value\<rparr>)
     | SSLSessionOption_other _ \<Rightarrow> (paramErr, ctx))"

definition SSLGetSessionOption :: "SSLSessionOption \<Rightarrow> bool \<Rightarrow> SSLContextRef \<Rightarrow> OSStatus + bool" where
  "SSLGetSessionOption option out = get_from (\<lambda>ctx. if \<not> out then Inl paramErr else case option of
       kSSLSessionOptionBreakOnServerAuth \<Rightarrow> Inr (breakOnServerAuth ctx)
     | kSSLSessionOptionBreakOnCertRequested \<Rightarrow> Inr (breakOnCertRequest ctx)
     | SSLSessionOption_other _ \<Rightarrow> Inl paramErr)"

definition SSLSetIOFuncs :: "nat \<Rightarrow> nat \<Rightarrow> SSLContextRef \<Rightarrow> OSStatus \<times> SSLContextRef" where
  "SSLSetIOFuncs read write = on_idle (\<lambda>ctx. (noErr, ctx\<lparr>ioReadFunc := read, ioWriteFunc := write\<rparr>))"

definition SSLSetConnection :: "nat \<Rightarrow> SSLContextRef \<Rightarrow> OSStatus \<times> SSLContextRef" where
  "SSLSetConnection connection = on_idle (\<lambda>ctx. (noErr, ctx\<lparr>ioRef := connection\<rparr>))"

definition SSLGetConnection :: "bool \<Rightarrow> SSLContextRef \<Rightarrow> OSStatus + nat" where
  "SSLGetConnection out = get_from (\<lambda>ctx. if \<not> out then Inl paramErr else Inr (ioRef ctx))"

text \<open>The length is kept in 32 bits; when the allocation fails the old length stays.\<close>

definition SSLSetPeerDomainName :: "platform \<Rightarrow> bytes \<Rightarrow> SSLContextRef \<Rightarrow> OSStatus \<times> SSLContextRef" where
  "SSLSetPeerDomainName P peerName = on_idle (\<lambda>ctx.
     if mallocOk P (length peerName)
     then (noErr, ctx\<lparr>peerDomainName := Some peerName, peerDomainNameLen := length peerName mod 2 ^ 32\<rparr>)
     else (memFullErr, ctx\<lparr>peerDomainName := None\<rparr>))"

definition SSLGetPeerDomainNameLength :: "SSLContextRef \<Rightarrow> OSStatus + nat" where
  "SSLGetPeerDomainNameLength = get_from (\<lambda>ctx. Inr (peerDomainNameLen ctx))"

text \<open>\<open>n\<close> is the size of the caller's buffer; the octets are read from the name, which must be there
  unless none is read.\<close>

definition SSLGetPeerDomainName :: "nat \<Rightarrow> SSLContextRef \<Rightarrow> (OSStatus + bytes) option" where
  "SSLGetPeerDomainName n ref =
     (case ref of
        None \<Rightarrow> Some (Inl paramErr)
      | Some ctx \<Rightarrow>
          if n < peerDomainNameLen ctx then Some (Inl errSSLBufferOverflow)
          else (case peerDomainName ctx of
                  None \<Rightarrow> if peerDomainNameLen ctx = 0 then Some (Inr []) else None
                | Some name \<Rightarrow> Some (Inr (take (peerDomainNameLen ctx) name))))"

section \<open>Protocol versions\<close>

definition convertProtToExtern :: "SSLProtocolVersion \<Rightarrow> SSLProtocol" where
  "convertProtToExtern prot =
     (if prot = SSL_Version_Undetermined then kSSLProtocolUnknown
      else if prot = SSL_Version_2_0 then kSSLProtocol2
      else if prot = SSL_Version_3_0 then kSSLProtocol3
      else if prot = TLS_Version_1_0 then kTLSProtocol1
      else if prot = TLS_Version_1_1 then kTLSProtocol11
      else if prot = TLS_Version_1_2 then kTLSProtocol12
      else kSSLProtocolUnknown)"

text \<open>The five flags, from SSL 2.0 to TLS 1.2, and the last step of the setters.\<close>

definition enable_versions :: "bool \<Rightarrow> bool \<Rightarrow> bool \<Rightarrow> bool \<Rightarrow> bool \<Rightarrow> SSLContext \<Rightarrow> SSLContext" where
  "enable_versions ssl2 ssl3 tls1 tls11 tls12 ctx =
     ctx\<lparr>versionSsl2Enable := ssl2, versionSsl3Enable := ssl3, versionTls1Enable := tls1,
       versionTls11Enable := tls11, versionTls12Enable := tls12\<rparr>"

definition force_tls12 :: "SSLContext \<Rightarrow> OSStatus \<times> SSLContext" where
  "force_tls12 ctx = (noErr, ctx\<lparr>versionTls12Enable := True, maxProtocolVersion := TLS_Version_1_2\<rparr>)"

definition SSLSetProtocolVersionEnabled :: "SSLProtocol \<Rightarrow> bool \<Rightarrow> SSLContextRef \<Rightarrow> OSStatus \<times> SSLContextRef" where
  "SSLSetProtocolVersionEnabled protocol enable = on_idle (\<lambda>ctx. case protocol of
       kSSLProtocol2 \<Rightarrow> force_tls12 (ctx\<lparr>versionSsl2Enable := enable\<rparr>)
     | kSSLProtocol3 \<Rightarrow> force_tls12 (ctx\<lparr>versionSsl3Enable := enable\<rparr>)
     | kTLSProtocol1 \<Rightarrow> force_tls12 (ctx\<lparr>versionTls1Enable := enable\<rparr>)
     | kTLSProtocol11 \<Rightarrow> force_tls12 (ctx\<lparr>versionTls11Enable := enable\<rparr>)
     | kTLSProtocol12 \<Rightarrow> force_tls12 (ctx\<lparr>versionTls12Enable := enable\<rparr>)
     | kSSLProtocolAll \<Rightarrow> force_tls12 (enable_versions False enable enable enable enable ctx)
     | _ \<Rightarrow> (paramErr, ctx))"

definition SSLGetProtocolVersionEnabled :: "SSLProtocol \<Rightarrow> SSLContextRef \<Rightarrow> OSStatus + bool" where
  "SSLGetProtocolVersionEnabled protocol = get_from (\<lambda>ctx. case protocol of
       kSSLProtocol2 \<Rightarrow> Inr (versionSsl2Enable ctx)
     | kSSLProtocol3 \<Rightarrow> Inr (versionSsl3Enable ctx)
     | kTLSProtocol1 \<Rightarrow> Inr (versionTls1Enable ctx)
     | kTLSProtocol11 \<Rightarrow> Inr (versionTls11Enable ctx)
     | kTLSProtocol12 \<Rightarrow> Inr (versionTls12Enable ctx)
     | kSSLProtocolAll \<Rightarrow> Inr (versionTls12Enable ctx \<and> versionTls11Enable ctx \<and> versionTls1Enable ctx \<and>
         versionSsl3Enable ctx \<and> versionSsl2Enable ctx)
     | _ \<Rightarrow> Inl paramErr)"

definition SSLSetProtocolVersion :: "SSLProtocol \<Rightarrow> SSLContextRef \<Rightarrow> OSStatus \<times> SSLContextRef" where
  "SSLSetProtocolVersion version = on_idle (\<lambda>ctx. case version of
       kSSLProtocolUnknown \<Rightarrow> force_tls12 (enable_versions False True True True True ctx)
     | kSSLProtocol2 \<Rightarrow> force_tls12 (enable_versions True False False False False ctx)
     | kSSLProtocol3 \<Rightarrow> force_tls12 (enable_versions True True False False False ctx)
     | kSSLProtocol3Only \<Rightarrow> force_tls12 (enable_versions False True False False False ctx)
     | kTLSProtocol1 \<Rightarrow> force_tls12 (enable_versions True True True False False ctx)
     | kTLSProtocol1Only \<Rightarrow> force_tls12 (enable_versions False False True False False ctx)
     | kTLSProtocol11 \<Rightarrow> force_tls12 (enable_versions True True True True False ctx)
     | kTLSProtocol12 \<Rightarrow> force_tls12 (enable_versions True True True True True ctx)
     | kSSLProtocolAll \<Rightarrow> force_tls12 (enable_versions True True True True True ctx)
     | SSLProtocol_other _ \<Rightarrow> (paramErr, ctx))"

definition SSLGetProtocolVersion :: "SSLContextRef \<Rightarrow> OSStatus + SSLProtocol" where
  "SSLGetProtocolVersion = get_from (\<lambda>ctx.
     if versionTls12Enable ctx
     then (if versionTls11Enable ctx \<and> versionTls1Enable ctx \<and> versionSsl3Enable ctx \<and> versionSsl2Enable ctx
           then Inr kTLSProtocol12 else Inl paramErr)
     else if versionTls11Enable ctx
     then (if versionTls1Enable ctx \<and> versionSsl3Enable ctx \<and> versionSsl2Enable ctx
           then Inr kTLSProtocol11 else Inl paramErr)
     else if versionTls1Enable ctx
     then (if versionSsl2Enable ctx then (if versionSsl3Enable ctx then Inr kTLSProtocol1 else Inl paramErr)
           else if versionSsl3Enable ctx then Inl paramErr
           else Inr kTLSProtocol1Only)
     else if versionSsl3Enable ctx then Inr (if versionSsl2Enable ctx then kSSLProtocol3 else kSSLProtocol3Only)
     else if versionSsl2Enable ctx then Inr kSSLProtocol2
     else Inl paramErr)"

definition SSLGetNegotiatedProtocolVersion :: "SSLContextRef \<Rightarrow> OSStatus + SSLProtocol" where
  "SSLGetNegotiatedProtocolVersion = get_from (\<lambda>ctx. Inr (convertProtToExtern (negProtocolVersion ctx)))"

definition SSLSetProtocolVersionMax :: "SSLProtocol \<Rightarrow> SSLContextRef \<Rightarrow> OSStatus \<times> SSLContextRef" where
  "SSLSetProtocolVersionMax maxVersion = on_idle (\<lambda>ctx. case maxVersion of
       kSSLProtocol3 \<Rightarrow> force_tls12 (ctx\<lparr>versionTls12Enable := False, versionTls11Enable := False,
         versionTls1Enable := False, versionSsl3Enable := True, maxProtocolVersion := SSL_Version_3_0\<rparr>)
     | kTLSProtocol1 \<Rightarrow> force_tls12 (ctx\<lparr>versionTls12Enable := False, versionTls11Enable := False,
         versionTls1Enable := True, maxProtocolVersion := TLS_Version_1_0\<rparr>)
     | kTLSProtocol11 \<Rightarrow> force_tls12 (ctx\<lparr>versionTls12Enable := False, versionTls11Enable := True,
         versionTls1Enable := True, maxProtocolVersion := TLS_Version_1_1\<rparr>)
     | kTLSProtocol12 \<Rightarrow> force_tls12 (ctx\<lparr>versionTls12Enable := True, versionTls11Enable := True,
         versionTls1Enable := True, maxProtocolVersion := TLS_Version_1_2\<rparr>)
     | kSSLProtocolAll \<Rightarrow> force_tls12 (ctx\<lparr>versionTls12Enable := True, versionTls11Enable := True,
         versionTls1Enable := True, maxProtocolVersion := TLS_Version_1_2\<rparr>)
     | _ \<Rightarrow> (paramErr, ctx))"

definition SSLGetProtocolVersionMax :: "bool \<Rightarrow> SSLContextRef \<Rightarrow> OSStatus + SSLProtocol" where
  "SSLGetProtocolVersionMax out = get_from (\<lambda>ctx.
     if \<not> out then Inl paramErr else Inr (convertProtToExtern (maxProtocolVersion ctx)))"

definition SSLSetProtocolVersionMin :: "SSLProtocol \<Rightarrow> SSLContextRef \<Rightarrow> OSStatus \<times> SSLContextRef" where
  "SSLSetProtocolVersionMin minVersion = on_idle (\<lambda>ctx. case minVersion of
       kSSLProtocol2 \<Rightarrow> (noErr, ctx\<lparr>versionSsl2Enable := True\<rparr>)
     | kSSLProtocol3 \<Rightarrow> (noErr, ctx\<lparr>versionSsl2Enable := False, versionSsl3Enable := True\<rparr>)
     | kTLSProtocol1 \<Rightarrow> (noErr, ctx\<lparr>versionSsl2Enable := False, versionSsl3Enable := False, versionTls1Enable := True\<rparr>)
     | kTLSProtocol11 \<Rightarrow> (noErr, ctx\<lparr>versionSsl2Enable := False, versionSsl3Enable := False,
         versionTls1Enable := False, versionTls11Enable := True\<rparr>)
     | kTLSProtocol12 \<Rightarrow> (noErr, enable_versions False False False False True ctx)
     | _ \<Rightarrow> (paramErr, ctx))"

definition SSLGetProtocolVersionMin :: "bool \<Rightarrow> SSLContextRef \<Rightarrow> OSStatus + SSLProtocol" where
  "SSLGetProtocolVersionMin out = get_from (\<lambda>ctx.
     if \<not> out then Inl paramErr
     else if versionSsl2Enable ctx then Inr kSSLProtocol2
     else if versionSsl3Enable ctx then Inr kSSLProtocol3
     else if versionTls1Enable ctx then Inr kTLSProtocol1
     else if versionTls11Enable ctx then Inr kTLSProtocol11
     else if versionTls12Enable ctx then Inr kTLSProtocol12
     else Inl paramErr)"

section \<open>Identifiers, curves, secrets\<close>

text \<open>\<open>peerID\<close> is \<open>None\<close> when the pointer is NULL.\<close>

definition SSLSetPeerID :: "platform \<Rightarrow> bytes option \<Rightarrow> SSLContextRef \<Rightarrow> OSStatus \<times> SSLContextRef" where
  "SSLSetPeerID P ident ref =
     (case ident of
        None \<Rightarrow> (paramErr, ref)
      | Some bs \<Rightarrow>
          if bs = [] then (paramErr, ref)
          else on_idle (\<lambda>ctx. case SSLAllocBuffer P (length bs) of (serr, buf) \<Rightarrow>
                 if serr \<noteq> noErr then (serr, ctx\<lparr>peerID := buf\<rparr>) else (noErr, ctx\<lparr>peerID := Some bs\<rparr>)) ref)"

text \<open>The context is not tested.\<close>

definition SSLGetPeerID :: "SSLContextRef \<Rightarrow> (OSStatus + bytes option) option" where
  "SSLGetPeerID ref = map_option (\<lambda>ctx. Inr (peerID ctx)) ref"

definition SSLGetNegotiatedCipher :: "SSLContextRef \<Rightarrow> OSStatus + uint16" where
  "SSLGetNegotiatedCipher = get_from (\<lambda>ctx.
     if \<not> sslIsSessionActive ctx then Inl badReqErr else Inr (selectedCipher ctx))"

definition SSLSetDiffieHellmanParams :: "platform \<Rightarrow> bytes \<Rightarrow> SSLContextRef \<Rightarrow> OSStatus \<times> SSLContextRef" where
  "SSLSetDiffieHellmanParams P dhParams = on_idle (\<lambda>ctx.
     let ctx = ctx\<lparr>dhParamsPrime := None, dhParamsGenerator := None, dhParamsEncoded := None\<rparr> in
     case SSLCopyBuffer P dhParams of (ortn, buf) \<Rightarrow>
       if ortn \<noteq> noErr then (ortn, ctx\<lparr>dhParamsEncoded := buf\<rparr>)
       else case sslDecodeDhParams P dhParams of (ortn, prime, generator) \<Rightarrow>
         (ortn, ctx\<lparr>dhParamsEncoded := buf, dhParamsPrime := prime, dhParamsGenerator := generator\<rparr>))"

definition SSLGetDiffieHellmanParams :: "SSLContextRef \<Rightarrow> OSStatus + bytes option" where
  "SSLGetDiffieHellmanParams = get_from (\<lambda>ctx. Inr (dhParamsEncoded ctx))"

definition SSLSetRsaBlinding :: "bool \<Rightarrow> SSLContextRef \<Rightarrow> OSStatus \<times> SSLContextRef" where
  "SSLSetRsaBlinding blinding = on_context (\<lambda>ctx. (noErr, ctx\<lparr>rsaBlindingEnable := blinding\<rparr>))"

definition SSLGetRsaBlinding :: "SSLContextRef \<Rightarrow> OSStatus + bool" where
  "SSLGetRsaBlinding = get_from (\<lambda>ctx. Inr (rsaBlindingEnable ctx))"

text \<open>The three getters for secrets: \<open>n\<close> is the size of the caller's buffer.\<close>

definition SSLInternalMasterSecret :: "bool \<Rightarrow> nat \<Rightarrow> SSLContextRef \<Rightarrow> OSStatus + bytes" where
  "SSLInternalMasterSecret out n = get_from (\<lambda>ctx.
     if \<not> out then Inl paramErr else if n < 48 then Inl paramErr else Inr (take 48 (masterSecret ctx)))"

definition SSLInternalServerRandom :: "bool \<Rightarrow> nat \<Rightarrow> SSLContextRef \<Rightarrow> OSStatus + bytes" where
  "SSLInternalServerRandom out n = get_from (\<lambda>ctx.
     if \<not> out then Inl paramErr else if n < 32 then Inl paramErr else Inr (take 32 (serverRandom ctx)))"

definition SSLInternalClientRandom :: "bool \<Rightarrow> nat \<Rightarrow> SSLContextRef \<Rightarrow> OSStatus + bytes" where
  "SSLInternalClientRandom out n = get_from (\<lambda>ctx.
     if \<not> out then Inl paramErr else if n < 32 then Inl paramErr else Inr (take 32 (clientRandom ctx)))"

definition SSLGetCipherSizes :: "bool \<Rightarrow> SSLContextRef \<Rightarrow> (OSStatus + nat \<times> nat \<times> nat) option" where
  "SSLGetCipherSizes out ref =
     (case ref of
        None \<Rightarrow> Some (Inl paramErr)
      | Some ctx \<Rightarrow>
          if \<not> out then Some (Inl paramErr)
          else do { c \<leftarrow> selectedCipherSpec ctx;
                    Some (Inr (digestSize (hash_of (macAlgorithm c)), secretKeySize (cipher c), ivSize (cipher c))) })"

text \<open>The flag and the identifier; \<open>n\<close> is the size of the caller's buffer. When the identifier does
  not fit, the flag has been written already.\<close>

definition SSLGetResumableSessionInfo ::
  "bool \<Rightarrow> nat \<Rightarrow> SSLContextRef \<Rightarrow> OSStatus \<times> (bool \<times> bytes option) option" where
  "SSLGetResumableSessionInfo out n ref =
     (case ref of
        None \<Rightarrow> (paramErr, None)
      | Some ctx \<Rightarrow>
          if \<not> out \<or> n < 32 then (paramErr, None)
          else if sessionMatch ctx \<noteq> 0
          then (let ident = (case sessionID ctx of None \<Rightarrow> [] | Some bs \<Rightarrow> bs) in
                if length ident > n then (paramErr, Some (True, None)) else (noErr, Some (True, Some ident)))
          else (noErr, Some (False, Some [])))"

definition SSLSetAllowAnonymousCiphers :: "bool \<Rightarrow> SSLContextRef \<Rightarrow> OSStatus \<times> SSLContextRef" where
  "SSLSetAllowAnonymousCiphers enable = on_idle (\<lambda>ctx.
     if validCipherSpecs ctx \<noteq> None then (badReqErr, ctx) else (noErr, ctx\<lparr>anonCipherEnable := enable\<rparr>))"

definition SSLGetAllowAnonymousCiphers :: "bool \<Rightarrow> SSLContextRef \<Rightarrow> OSStatus + bool" where
  "SSLGetAllowAnonymousCiphers out = get_from (\<lambda>ctx.
     if \<not> out then Inl paramErr else if sslIsSessionActive ctx then Inl badReqErr else Inr (anonCipherEnable ctx))"

definition SSLSetSessionCacheTimeout :: "uint32 \<Rightarrow> SSLContextRef \<Rightarrow> OSStatus \<times> SSLContextRef" where
  "SSLSetSessionCacheTimeout timeoutInSeconds = on_context (\<lambda>ctx. (noErr, ctx\<lparr>sessionCacheTimeout := timeoutInSeconds\<rparr>))"

definition SSLInternalSetMasterSecretFunction :: "bool \<Rightarrow> nat \<Rightarrow> SSLContextRef \<Rightarrow> OSStatus \<times> SSLContextRef" where
  "SSLInternalSetMasterSecretFunction mFunc arg =
     on_context (\<lambda>ctx. (noErr, ctx\<lparr>masterSecretCallback := mFunc, masterSecretArg := arg\<rparr>))"

definition SSLInternalSetSessionTicket :: "platform \<Rightarrow> bytes \<Rightarrow> SSLContextRef \<Rightarrow> OSStatus \<times> SSLContextRef" where
  "SSLInternalSetSessionTicket P ticket = on_idle (\<lambda>ctx.
     if length ticket > 0xffff then (paramErr, ctx)
     else case SSLCopyBuffer P ticket of (ortn, buf) \<Rightarrow> (ortn, ctx\<lparr>sessionTicket := buf\<rparr>))"

definition SSLGetNegotiatedCurve :: "bool \<Rightarrow> SSLContextRef \<Rightarrow> OSStatus + int" where
  "SSLGetNegotiatedCurve out = get_from (\<lambda>ctx.
     if \<not> out then Inl paramErr else if ecdhPeerCurve ctx = SSL_Curve_None then Inl paramErr
     else Inr (ecdhPeerCurve ctx))"

text \<open>\<open>ecdhNumCurves\<close> is the length of the list of curves.\<close>

definition SSLGetNumberOfECDSACurves :: "bool \<Rightarrow> SSLContextRef \<Rightarrow> OSStatus + nat" where
  "SSLGetNumberOfECDSACurves out = get_from (\<lambda>ctx.
     if \<not> out then Inl paramErr else Inr (length (ecdhCurves ctx)))"

definition SSLGetECDSACurves :: "bool \<Rightarrow> nat \<Rightarrow> SSLContextRef \<Rightarrow> OSStatus + int list" where
  "SSLGetECDSACurves out n = get_from (\<lambda>ctx.
     if \<not> out then Inl paramErr else if n < length (ecdhCurves ctx) then Inl paramErr else Inr (ecdhCurves ctx))"

definition SSLSetECDSACurves :: "int list option \<Rightarrow> SSLContextRef \<Rightarrow> OSStatus \<times> SSLContextRef" where
  "SSLSetECDSACurves namedCurves ref =
     (case namedCurves of
        None \<Rightarrow> (paramErr, ref)
      | Some cs \<Rightarrow> if cs = [] \<or> length cs > 3 then (paramErr, ref)
                   else on_idle (\<lambda>ctx. (noErr, ctx\<lparr>ecdhCurves := cs\<rparr>)) ref)"

definition SSLGetNumberOfClientAuthTypes :: "SSLContextRef \<Rightarrow> OSStatus + nat" where
  "SSLGetNumberOfClientAuthTypes = get_from (\<lambda>ctx.
     if clientCertState ctx = kSSLClientCertNone then Inl paramErr else Inr (length (clientAuthTypes ctx)))"

definition SSLGetClientAuthTypes :: "SSLContextRef \<Rightarrow> OSStatus + SSLClientAuthenticationType list" where
  "SSLGetClientAuthTypes = get_from (\<lambda>ctx.
     if clientCertState ctx = kSSLClientCertNone then Inl paramErr else Inr (clientAuthTypes ctx))"

definition SSLGetNegotiatedClientAuthType :: "SSLContextRef \<Rightarrow> OSStatus + SSLClientAuthenticationType" where
  "SSLGetNegotiatedClientAuthType = get_from (\<lambda>ctx. Inr (negAuthType ctx))"

section \<open>The contract of the setters\<close>

locale guarded_setter =
  fixes set :: "SSLContextRef \<Rightarrow> OSStatus \<times> SSLContextRef"
  assumes null: "set None = (paramErr, None)"
    and active: "sslIsSessionActive ctx \<Longrightarrow> fst (set (Some ctx)) \<noteq> noErr \<and> snd (set (Some ctx)) = Some ctx"
    and present: "snd (set (Some ctx)) \<noteq> None"
begin

lemma changed_only_when_idle:
  assumes "set ref = (err, ref')" "ref' \<noteq> ref \<or> err = noErr"
  shows "\<exists>ctx ctx'. ref = Some ctx \<and> ref' = Some ctx' \<and> \<not> sslIsSessionActive ctx"
proof (cases ref)
  case None
  then show ?thesis using assms null by simp
next
  case (Some ctx)
  then show ?thesis using assms active [of ctx] present [of ctx] by fastforce
qed

lemma frozen: "set (Some ctx) = (err, Some ctx') \<Longrightarrow> sslIsSessionActive ctx \<Longrightarrow> err \<noteq> noErr \<and> ctx' = ctx"
  using active [of ctx] by simp

end

lemma on_idle_guarded: "guarded_setter (on_idle f)"
  by unfold_locales (auto simp: on_idle_def on_context_def)

lemma guarded_with_check: "guarded_setter (\<lambda>ref. if bad then (paramErr, ref) else on_idle f ref)"
  by unfold_locales (auto simp: on_idle_def on_context_def)

interpretation set_option: guarded_setter "SSLSetSessionOption opt v"
  unfolding SSLSetSessionOption_def by (rule on_idle_guarded)

interpretation set_io: guarded_setter "SSLSetIOFuncs read write"
  unfolding SSLSetIOFuncs_def by (rule on_idle_guarded)

interpretation set_connection: guarded_setter "SSLSetConnection conn"
  unfolding SSLSetConnection_def by (rule on_idle_guarded)

interpretation set_peer_name: guarded_setter "SSLSetPeerDomainName P name"
  unfolding SSLSetPeerDomainName_def by (rule on_idle_guarded)

interpretation set_version_enabled: guarded_setter "SSLSetProtocolVersionEnabled v b"
  unfolding SSLSetProtocolVersionEnabled_def by (rule on_idle_guarded)

interpretation set_version: guarded_setter "SSLSetProtocolVersion v"
  unfolding SSLSetProtocolVersion_def by (rule on_idle_guarded)

interpretation set_version_max: guarded_setter "SSLSetProtocolVersionMax v"
  unfolding SSLSetProtocolVersionMax_def by (rule on_idle_guarded)

interpretation set_version_min: guarded_setter "SSLSetProtocolVersionMin v"
  unfolding SSLSetProtocolVersionMin_def by (rule on_idle_guarded)

interpretation set_peer_id: guarded_setter "SSLSetPeerID P ident"
proof -
  have "SSLSetPeerID P ident = (\<lambda>ref. if ident = None \<or> ident = Some [] then (paramErr, ref)
      else on_idle (\<lambda>ctx. case SSLAllocBuffer P (length (the ident)) of (serr, buf) \<Rightarrow>
        if serr \<noteq> noErr then (serr, ctx\<lparr>peerID := buf\<rparr>) else (noErr, ctx\<lparr>peerID := ident\<rparr>)) ref)"
    by (auto simp: SSLSetPeerID_def fun_eq_iff split: option.split)
  then show "guarded_setter (SSLSetPeerID P ident)" by (simp only: guarded_with_check)
qed

interpretation set_dh_params: guarded_setter "SSLSetDiffieHellmanParams P params"
  unfolding SSLSetDiffieHellmanParams_def by (rule on_idle_guarded)

interpretation set_anonymous: guarded_setter "SSLSetAllowAnonymousCiphers b"
  unfolding SSLSetAllowAnonymousCiphers_def by (rule on_idle_guarded)

interpretation set_ticket: guarded_setter "SSLInternalSetSessionTicket P ticket"
  unfolding SSLInternalSetSessionTicket_def by (rule on_idle_guarded)

interpretation set_curves: guarded_setter "SSLSetECDSACurves cs"
proof -
  have "SSLSetECDSACurves cs = (\<lambda>ref. if cs = None \<or> cs = Some [] \<or> length (the cs) > 3 then (paramErr, ref)
      else on_idle (\<lambda>ctx. (noErr, ctx\<lparr>ecdhCurves := the cs\<rparr>)) ref)"
    by (auto simp: SSLSetECDSACurves_def fun_eq_iff split: option.split)
  then show "guarded_setter (SSLSetECDSACurves cs)" by (simp only: guarded_with_check)
qed

section \<open>A new context\<close>

lemma SSLNewContext_cases:
  assumes "SSLNewContext P S n isServer ptr p = Some (err, ref, p')" "handles_ok (handles p)"
  shows "handles_ok (handles p') \<and> (err = noErr \<longleftrightarrow> ref \<noteq> None) \<and> p' = p\<lparr>handles := handles p'\<rparr>"
  using assms attachToAll_handles(1) [OF assms(2)]
  by (auto simp: SSLNewContext_def Let_def elim!: bind_SomeE split: if_split_asm prod.split_asm)

text \<open>With memory and with the modules at hand the construction succeeds.\<close>

lemma SSLNewContext_total:
  assumes "platform_ok P" "handles_ok (handles p)" "attachToModules S (handles p) = (True, h, g)"
  shows "\<exists>ctx. SSLNewContext P S n isServer True p = Some (noErr, Some ctx, p\<lparr>handles := g\<rparr>)"
  using assms ReadyHash_ok [OF assms(1)]
  by (auto simp: SSLNewContext_def attachToAll_def Let_def split: prod.split)

definition fresh_context :: "bool \<Rightarrow> SSLContext \<Rightarrow> bool" where
  "fresh_context isServer ctx \<longleftrightarrow>
     state ctx = SSL_HdskStateUninit \<and> protocolSide ctx = (if isServer then SSL_ServerSide else SSL_ClientSide) \<and>
     attachToCsp ctx = noErr \<and> attachToCl ctx = noErr \<and> attachToTp ctx = noErr \<and>
     readCipher ctx = zeroed_cipher \<and> writeCipher ctx = zeroed_cipher\<lparr>encrypting := True\<rparr> \<and>
     readPending ctx = zeroed_cipher \<and> writePending ctx = zeroed_cipher\<lparr>encrypting := True\<rparr> \<and>
     sslTslCalls ctx = Ssl3Callouts \<and> negProtocolVersion ctx = SSL_Version_Undetermined \<and>
     recordWriteQueue ctx = [] \<and> amountRead ctx = 0 \<and> receivedDataBuffer ctx = None \<and>
     \<not> sslIsSessionActive ctx \<and> versionTls12Enable ctx \<and> maxProtocolVersion ctx = TLS_Version_1_2 \<and>
     \<not> versionSsl2Enable ctx \<and> enableCertVerify ctx \<and> allowAnyRoot ctx \<and> localCert ctx = [] \<and>
     peerDomainName ctx = None \<and> peerDomainNameLen ctx = 0"

lemma SSLNewContext_fresh:
  assumes "SSLNewContext P S n isServer ptr p = Some (err, Some ctx, p')" "handles_ok (handles p)"
  shows "err = noErr \<and> fresh_context isServer ctx \<and> sessionCache ctx = cacheOf p"
proof -
  obtain c g where a: "attachToAll S (handles p) (init_context isServer (zeroed_context p)) = (noErr, c, g)"
    and ctx: "err = noErr" "\<exists>h1 h2. ctx = default_options c\<lparr>sha256State := h1, sha384State := h2\<rparr>"
    using assms(1) by (force simp: SSLNewContext_def Let_def elim!: bind_SomeE split: if_split_asm prod.split_asm)
  note h = attachToAll_handles [OF assms(2) a]
  have "ctxCspHand c \<noteq> 0" "clHand c \<noteq> 0" "tpHand c \<noteq> 0"
    using h(2) by (auto simp: attachToCsp_def attachToCl_def attachToTp_def split: if_split_asm)
  with h(3) obtain csp cl tp where "csp \<noteq> 0" "cl \<noteq> 0" "tp \<noteq> 0"
      "c = init_context isServer (zeroed_context p)\<lparr>ctxCspHand := csp, clHand := cl, tpHand := tp\<rparr>" by blast
  then show ?thesis using ctx
    by (auto simp: fresh_context_def default_options_def init_context_def zeroed_context_def Let_def
        sslIsSessionActive_def attachToCsp_def attachToCl_def attachToTp_def SSL_NULL_WITH_NULL_NULL_CipherSpec_def
        zeroed_cipher_def)
qed

text \<open>Disposing of it again succeeds and leaves the entries of the cache that have not run out.\<close>

lemma SessionCacheCleanup_keeps_fresh: "snd (SessionCacheCleanup_loop t cache b) = filter (\<lambda>e. \<not> SessionCacheEntryIsStale e t) cache"
  by (induction t cache b rule: SessionCacheCleanup_loop.induct) (auto split: prod.split)

lemma SSLDisposeContext_fresh:
  assumes "fresh_context isServer ctx"
  shows "SSLDisposeContext P (Some ctx) =
    Some (noErr, Some (filter (\<lambda>e. \<not> SessionCacheEntryIsStale e (now P)) (sessionCache ctx)))"
  using assms
  by (simp add: SSLDisposeContext_def fresh_context_def sslFreeDnList_def SSLDisposeCipherSuite_def cipher_finish_def
      call_freeMac_def ssl3FreeMac_def hashCtx_of_def zeroed_cipher_def sslCleanupSession_def SessionCacheCleanup_def case_prod_beta SessionCacheCleanup_keeps_fresh)

section \<open>What is set is what is reported\<close>

lemmas setter_simps = on_idle_def on_context_def get_from_def force_tls12_def enable_versions_def

lemma min_version_roundtrip:
  assumes "SSLSetProtocolVersionMin v ref = (noErr, ref')"
  shows "SSLGetProtocolVersionMin True ref' = Inr v"
  using assms
  by (auto simp: SSLSetProtocolVersionMin_def SSLGetProtocolVersionMin_def setter_simps
      split: option.split_asm if_split_asm SSLProtocol.split_asm)

lemma version_enabled_roundtrip:
  assumes "SSLSetProtocolVersionEnabled v b ref = (noErr, ref')" "v \<notin> {kTLSProtocol12, kSSLProtocolAll}"
  shows "SSLGetProtocolVersionEnabled v ref' = Inr b"
  using assms
  by (auto simp: SSLSetProtocolVersionEnabled_def SSLGetProtocolVersionEnabled_def setter_simps
      split: option.split_asm if_split_asm SSLProtocol.split_asm)

lemma version_max_forced:
  assumes "SSLSetProtocolVersionMax v ref = (noErr, ref')"
  shows "SSLGetProtocolVersionMax True ref' = Inr kTLSProtocol12"
  using assms
  by (auto simp: SSLSetProtocolVersionMax_def SSLGetProtocolVersionMax_def convertProtToExtern_def setter_simps
      split: option.split_asm if_split_asm SSLProtocol.split_asm)

text \<open>The name and its length agree: every connection starts so, and a setter that succeeds on a
  name of fewer than 2^32 octets makes it so.\<close>

definition name_ok :: "SSLContext \<Rightarrow> bool" where
  "name_ok ctx \<longleftrightarrow> peerDomainNameLen ctx = (case peerDomainName ctx of None \<Rightarrow> 0 | Some name \<Rightarrow> length name)"

lemma peer_name_roundtrip:
  assumes "SSLSetPeerDomainName P name ref = (noErr, Some ctx)" "length name < 2 ^ 32"
  shows "name_ok ctx" "SSLGetPeerDomainNameLength (Some ctx) = Inr (length name)"
    "length name \<le> n \<Longrightarrow> SSLGetPeerDomainName n (Some ctx) = Some (Inr name)"
    "n < length name \<Longrightarrow> SSLGetPeerDomainName n (Some ctx) = Some (Inl errSSLBufferOverflow)"
  using assms
  by (auto simp: SSLSetPeerDomainName_def SSLGetPeerDomainNameLength_def SSLGetPeerDomainName_def name_ok_def
      setter_simps split: option.split_asm if_split_asm)

text \<open>After a failed allocation the length is that of the old name, and reading the name dereferences NULL.\<close>

lemma stale_name_length:
  assumes "\<not> mallocOk P (length name)" "\<not> sslIsSessionActive ctx" "0 < peerDomainNameLen ctx" "peerDomainNameLen ctx \<le> n"
  shows "\<exists>ctx'. SSLSetPeerDomainName P name (Some ctx) = (memFullErr, Some ctx') \<and> \<not> name_ok ctx' \<and>
    SSLGetPeerDomainName n (Some ctx') = None"
  using assms by (simp add: SSLSetPeerDomainName_def SSLGetPeerDomainName_def name_ok_def setter_simps)

lemma peer_id_roundtrip:
  "SSLSetPeerID P ident ref = (noErr, ref') \<Longrightarrow> ident \<noteq> None \<and> SSLGetPeerID ref' = Some (Inr ident)"
  by (auto simp: SSLSetPeerID_def SSLGetPeerID_def SSLAllocBuffer_def setter_simps split: option.split_asm if_split_asm)

lemma curves_roundtrip:
  "SSLSetECDSACurves cs ref = (noErr, ref') \<Longrightarrow> \<exists>l. cs = Some l \<and> 0 < length l \<and> length l \<le> 3 \<and>
     SSLGetNumberOfECDSACurves True ref' = Inr (length l) \<and> SSLGetECDSACurves True (length l) ref' = Inr l"
  by (auto simp: SSLSetECDSACurves_def SSLGetECDSACurves_def SSLGetNumberOfECDSACurves_def setter_simps
      split: option.split_asm if_split_asm)

lemma dh_params_roundtrip:
  "SSLSetDiffieHellmanParams P params ref = (noErr, ref') \<Longrightarrow> SSLGetDiffieHellmanParams ref' = Inr (Some params)"
  by (auto simp: SSLSetDiffieHellmanParams_def SSLGetDiffieHellmanParams_def SSLCopyBuffer_def sslAllocCopy_def setter_simps Let_def
      split: option.split_asm if_split_asm prod.split_asm)

text \<open>The session state that is reported and the activity test agree, except for one of the closing states.\<close>

lemma session_state_active:
  assumes "state ctx \<noteq> SSL_HdskStateNoNotifyClose"
  shows "sslIsSessionActive ctx \<longleftrightarrow> SSLGetSessionState (Some ctx) \<in> {Inr kSSLHandshake, Inr kSSLConnected}"
  using assms by (cases "state ctx") (simp_all add: sslIsSessionActive_def SSLGetSessionState_def get_from_def)

end
