(* ===== verification/Credentials.thy ===== *)
theory Credentials
  imports Config
begin

text \<open>
  Certificates, keys and trust as the application sets them: the conversion of keychain references
  (\<open>sslKeychain.c\<close>) and the setters and getters of \<open>sslContext.c\<close> for identities, trusted roots,
  verification, client authentication and certificate authorities.

  The second half puts all setters together: \<open>setting\<close> is the step relation of a context in the
  hands of the application, with one rule per setter, and \<open>configured\<close> are the contexts that can be
  reached from a new one.
\<close>

section \<open>Services of the keychain\<close>

datatype CSSM_SIG_ALGORITHMS =
    SIG_RSA | SIG_MD2WithRSA | SIG_MD5WithRSA | SIG_SHA1WithRSA | SIG_SHA224WithRSA | SIG_SHA256WithRSA
  | SIG_SHA384WithRSA | SIG_SHA512WithRSA | SIG_SHA1WithECDSA | SIG_SHA224WithECDSA | SIG_SHA256WithECDSA
  | SIG_SHA384WithECDSA | SIG_SHA512WithECDSA | SIG_ECDSA | SIG_ECDSA_SPECIFIED | SIG_DSA | SIG_SHA1WithDSA
  | SIG_other

text \<open>
  Every call returns an error (\<open>Inl\<close>) or its result. The value of the signature algorithm field of a
  certificate is its length and the object identifier in it.
\<close>

record keychain =
  SecCertificateGetData :: "bytes \<Rightarrow> OSStatus + bytes"
  SecIdentityCopyCertificate :: "nat \<Rightarrow> OSStatus + bytes"
  SecIdentityCopyPrivateKey :: "nat \<Rightarrow> OSStatus + SecKeyRef"
  SecCertificateGetCLHandle :: "bytes \<Rightarrow> OSStatus"
  CertGetKeyInfo :: "bytes \<Rightarrow> OSStatus + CSSM_KEY"
  CopySignatureAlgorithm :: "bytes \<Rightarrow> OSStatus + nat \<times> bytes"
  sizeof_ALGORITHM_IDENTIFIER :: nat
  sizeof_SSLCertificate :: nat
  sizeof_DNListElem :: nat
  cssmOidToAlg :: "bytes \<Rightarrow> CSSM_SIG_ALGORITHMS option"
  CopySubjectName :: "bytes \<Rightarrow> OSStatus + bytes"
  SecTrustSettingsCopyQualifiedCerts :: "bytes option \<Rightarrow> nat \<Rightarrow> bool \<Rightarrow> OSStatus + bytes list"
  CFArrayCreateOk :: bool

text \<open>An error is not the status of success.\<close>

definition keychain_ok :: "keychain \<Rightarrow> bool" where
  "keychain_ok K \<longleftrightarrow> (\<forall>c. SecCertificateGetData K c \<noteq> Inl noErr) \<and> (\<forall>i. SecIdentityCopyCertificate K i \<noteq> Inl noErr) \<and>
     (\<forall>i. SecIdentityCopyPrivateKey K i \<noteq> Inl noErr) \<and> (\<forall>c. CertGetKeyInfo K c \<noteq> Inl noErr) \<and>
     (\<forall>c. CopySignatureAlgorithm K c \<noteq> Inl noErr) \<and> (\<forall>c. CopySubjectName K c \<noteq> Inl noErr) \<and>
     (\<forall>d n s. SecTrustSettingsCopyQualifiedCerts K d n s \<noteq> Inl noErr)"

section \<open>\<open>sslKeychain.c\<close>\<close>

definition secCertToSslCert :: "platform \<Rightarrow> keychain \<Rightarrow> bytes \<Rightarrow> OSStatus + bytes" where
  "secCertToSslCert P K certRef =
     (case SecCertificateGetData K certRef of
        Inl ortn \<Rightarrow> Inl ortn
      | Inr certData \<Rightarrow>
          if \<not> mallocOk P (sizeof_SSLCertificate K) then Inl memFullErr
          else if fst (SSLAllocBuffer P (length certData)) \<noteq> noErr then Inl memFullErr
          else Inr certData)"

definition sslCertSignerAlg :: "keychain \<Rightarrow> bytes \<Rightarrow> OSStatus \<times> CSSM_ALGORITHMS" where
  "sslCertSignerAlg K certRef =
     (case CopySignatureAlgorithm K certRef of
        Inl ortn \<Rightarrow> (ortn, CSSM_ALGID_NONE)
      | Inr (len, oid) \<Rightarrow>
          if len \<noteq> sizeof_ALGORITHM_IDENTIFIER K then (errSSLCrypto, CSSM_ALGID_NONE)
          else (case cssmOidToAlg K oid of
                  None \<Rightarrow> (paramErr, CSSM_ALGID_NONE)
                | Some sigAlg \<Rightarrow>
                    if sigAlg \<in> {SIG_RSA, SIG_MD2WithRSA, SIG_MD5WithRSA, SIG_SHA1WithRSA, SIG_SHA224WithRSA,
                                 SIG_SHA256WithRSA, SIG_SHA384WithRSA, SIG_SHA512WithRSA}
                    then (noErr, CSSM_ALGID_RSA)
                    else if sigAlg \<in> {SIG_SHA1WithECDSA, SIG_SHA224WithECDSA, SIG_SHA256WithECDSA, SIG_SHA384WithECDSA,
                                      SIG_SHA512WithECDSA, SIG_ECDSA, SIG_ECDSA_SPECIFIED}
                    then (noErr, CSSM_ALGID_ECDSA)
                    else if sigAlg \<in> {SIG_DSA, SIG_SHA1WithDSA} then (noErr, CSSM_ALGID_DSA)
                    else (paramErr, CSSM_ALGID_NONE)))"

text \<open>The certificates after the first, pushed onto the chain one by one.\<close>

fun parse_chain :: "platform \<Rightarrow> keychain \<Rightarrow> CFItem list \<Rightarrow> bytes list \<Rightarrow> OSStatus + bytes list" where
  "parse_chain P K [] certChain = Inr certChain"
| "parse_chain P K (item # rest) certChain =
     (case item of
        CertificateItem certRef \<Rightarrow>
          (case secCertToSslCert P K certRef of
             Inl ortn \<Rightarrow> Inl ortn
           | Inr der \<Rightarrow> parse_chain P K rest (der # certChain))
      | _ \<Rightarrow> Inl paramErr)"

text \<open>What the call leaves in its four destinations; the last, the signer algorithm, is \<open>None\<close> when it has not been written.\<close>

record parsed =
  destCert :: "bytes list"
  pubKey :: "CSSM_KEY option"
  privKeyRef :: "SecKeyRef option"
  signerAlg :: "CSSM_ALGORITHMS option"

definition parseIncomingCerts ::
  "platform \<Rightarrow> keychain \<Rightarrow> bool \<Rightarrow> CFItem list option \<Rightarrow> OSStatus \<times> parsed" where
  "parseIncomingCerts P K wantAlg certs =
     (let out = \<lparr>destCert = [], pubKey = None, privKeyRef = None, signerAlg = None\<rparr> in
      case certs of
        None \<Rightarrow> (errSSLBadCert, out)
      | Some [] \<Rightarrow> (errSSLBadCert, out)
      | Some (IdentityItem identity # rest) \<Rightarrow>
          (case SecIdentityCopyCertificate K identity of
             Inl ortn \<Rightarrow> (ortn, out)
           | Inr certRef \<Rightarrow>
          (case secCertToSslCert P K certRef of
             Inl ortn \<Rightarrow> (ortn, out)
           | Inr der \<Rightarrow>
          (let alg = sslCertSignerAlg K certRef; out = (if wantAlg then out\<lparr>signerAlg := Some (snd alg)\<rparr> else out) in
           if wantAlg \<and> fst alg \<noteq> noErr then (fst alg, out)
           else case SecIdentityCopyPrivateKey K identity of
             Inl ortn \<Rightarrow> (ortn, out)
           | Inr keyRef \<Rightarrow>
          (let out = out\<lparr>privKeyRef := Some keyRef\<rparr> in
           if SecCertificateGetCLHandle K certRef \<noteq> noErr then (SecCertificateGetCLHandle K certRef, out)
           else case CertGetKeyInfo K der of
             Inl crtn \<Rightarrow> (crtn, out)
           | Inr key \<Rightarrow>
          (let out = out\<lparr>pubKey := Some key\<rparr> in
           case parse_chain P K rest [der] of
             Inl ortn \<Rightarrow> (ortn, out)
           | Inr chain \<Rightarrow> (noErr, out\<lparr>destCert := chain\<rparr>))))))
      | Some (_ # rest) \<Rightarrow> (paramErr, out))"

section \<open>Identities\<close>

definition SSLSetCertificate ::
  "platform \<Rightarrow> keychain \<Rightarrow> CFItem list option \<Rightarrow> SSLContextRef \<Rightarrow> (OSStatus \<times> SSLContextRef) option" where
  "SSLSetCertificate P K certRefs ref =
     (case ref of
        None \<Rightarrow> Some (paramErr, None)
      | Some ctx \<Rightarrow>
          if sslIsSessionActive ctx \<and> clientCertState ctx \<noteq> kSSLClientCertRequested then Some (badReqErr, Some ctx)
          else let ctx = ctx\<lparr>localCertArray := None, negAuthType := SSLClientAuthNone\<rparr> in
          if certRefs = None then Some (noErr, Some ctx)
          else case parseIncomingCerts P K True certRefs of (ortn, out) \<Rightarrow>
            let ctx = ctx\<lparr>localCert := destCert out, signingPubKey := pubKey out, signingPrivKeyRef := privKeyRef out,
                  ourSignerAlg := (case signerAlg out of None \<Rightarrow> ourSignerAlg ctx | Some a \<Rightarrow> a)\<rparr> in
            if ortn \<noteq> noErr then Some (ortn, Some ctx)
            else do { ctx \<leftarrow> SSLUpdateNegotiatedClientAuthType (ctx\<lparr>localCertArray := certRefs\<rparr>);
                      Some (noErr, Some ctx) })"

definition SSLSetEncryptionCertificate ::
  "platform \<Rightarrow> keychain \<Rightarrow> CFItem list option \<Rightarrow> SSLContextRef \<Rightarrow> OSStatus \<times> SSLContextRef" where
  "SSLSetEncryptionCertificate P K certRefs = on_idle (\<lambda>ctx.
     case parseIncomingCerts P K False certRefs of (ortn, out) \<Rightarrow>
       (ortn, ctx\<lparr>encryptCert := destCert out, encryptPubKey := pubKey out, encryptPrivKeyRef := privKeyRef out,
                 encryptCertArray := (if ortn = noErr then certRefs else None)\<rparr>))"

definition SSLGetCertificate :: "SSLContextRef \<Rightarrow> OSStatus + CFItem list option" where
  "SSLGetCertificate = get_from (\<lambda>ctx. Inr (localCertArray ctx))"

definition SSLGetEncryptionCertificate :: "SSLContextRef \<Rightarrow> OSStatus + CFItem list option" where
  "SSLGetEncryptionCertificate = get_from (\<lambda>ctx. Inr (encryptCertArray ctx))"

section \<open>Verification and trust\<close>

definition SSLSetEnableCertVerify :: "bool \<Rightarrow> SSLContextRef \<Rightarrow> OSStatus \<times> SSLContextRef" where
  "SSLSetEnableCertVerify enableVerify = on_context (\<lambda>ctx. (noErr, ctx\<lparr>enableCertVerify := False\<rparr>))"

definition SSLGetEnableCertVerify :: "SSLContextRef \<Rightarrow> OSStatus + bool" where
  "SSLGetEnableCertVerify = get_from (\<lambda>ctx. Inr (enableCertVerify ctx))"

definition SSLSetAllowsExpiredCerts :: "bool \<Rightarrow> SSLContextRef \<Rightarrow> OSStatus \<times> SSLContextRef" where
  "SSLSetAllowsExpiredCerts b = on_idle (\<lambda>ctx. (noErr, ctx\<lparr>allowExpiredCerts := b\<rparr>))"

definition SSLGetAllowsExpiredCerts :: "SSLContextRef \<Rightarrow> OSStatus + bool" where
  "SSLGetAllowsExpiredCerts = get_from (\<lambda>ctx. Inr (allowExpiredCerts ctx))"

definition SSLSetAllowsExpiredRoots :: "bool \<Rightarrow> SSLContextRef \<Rightarrow> OSStatus \<times> SSLContextRef" where
  "SSLSetAllowsExpiredRoots b = on_idle (\<lambda>ctx. (noErr, ctx\<lparr>allowExpiredRoots := b\<rparr>))"

definition SSLGetAllowsExpiredRoots :: "SSLContextRef \<Rightarrow> OSStatus + bool" where
  "SSLGetAllowsExpiredRoots = get_from (\<lambda>ctx. Inr (allowExpiredRoots ctx))"

definition SSLSetAllowsAnyRoot :: "bool \<Rightarrow> SSLContextRef \<Rightarrow> OSStatus \<times> SSLContextRef" where
  "SSLSetAllowsAnyRoot anyRoot = on_context (\<lambda>ctx. (noErr, ctx\<lparr>allowAnyRoot := True\<rparr>))"

definition SSLGetAllowsAnyRoot :: "SSLContextRef \<Rightarrow> OSStatus + bool" where
  "SSLGetAllowsAnyRoot = get_from (\<lambda>ctx. Inr (allowAnyRoot ctx))"

definition sslDefaultSystemRoots :: "keychain \<Rightarrow> SSLContext \<Rightarrow> OSStatus + bytes list" where
  "sslDefaultSystemRoots K ctx =
     SecTrustSettingsCopyQualifiedCerts K (peerDomainName ctx) (peerDomainNameLen ctx) (protocolSide ctx = SSL_ServerSide)"

definition SSLSetTrustedRoots :: "keychain \<Rightarrow> bytes list \<Rightarrow> bool \<Rightarrow> SSLContextRef \<Rightarrow> OSStatus \<times> SSLContextRef" where
  "SSLSetTrustedRoots K trustedRoots replaceExisting = on_idle (\<lambda>ctx.
     if replaceExisting then (noErr, ctx\<lparr>trustedCerts := Some trustedRoots\<rparr>)
     else case (case trustedCerts ctx of Some roots \<Rightarrow> Inr roots | None \<Rightarrow> sslDefaultSystemRoots K ctx) of
            Inl ortn \<Rightarrow> (ortn, ctx)
          | Inr existingRoots \<Rightarrow> (noErr, ctx\<lparr>trustedCerts := Some (trustedRoots @ existingRoots)\<rparr>))"

definition SSLCopyTrustedRoots :: "keychain \<Rightarrow> SSLContextRef \<Rightarrow> OSStatus + bytes list" where
  "SSLCopyTrustedRoots K = get_from (\<lambda>ctx.
     case trustedCerts ctx of Some roots \<Rightarrow> Inr roots | None \<Rightarrow> sslDefaultSystemRoots K ctx)"

definition SSLGetTrustedRoots :: "keychain \<Rightarrow> bool \<Rightarrow> SSLContextRef \<Rightarrow> OSStatus + bytes list" where
  "SSLGetTrustedRoots K out ref = (if ref = None \<or> \<not> out then Inl paramErr else SSLCopyTrustedRoots K ref)"

definition SSLSetTrustedLeafCertificates :: "bytes list \<Rightarrow> SSLContextRef \<Rightarrow> OSStatus \<times> SSLContextRef" where
  "SSLSetTrustedLeafCertificates certs = on_idle (\<lambda>ctx. (noErr, ctx\<lparr>trustedLeafCerts := Some certs\<rparr>))"

text \<open>The code retains the trusted roots instead of the leaf certificates; retaining NULL is a crash.\<close>

definition SSLCopyTrustedLeafCertificates :: "SSLContextRef \<Rightarrow> (OSStatus + bytes list option) option" where
  "SSLCopyTrustedLeafCertificates ref =
     (case ref of
        None \<Rightarrow> Some (Inl paramErr)
      | Some ctx \<Rightarrow>
          (case trustedLeafCerts ctx of
             None \<Rightarrow> Some (Inr None)
           | Some certs \<Rightarrow> if trustedCerts ctx = None then None else Some (Inr (Some certs))))"

section \<open>Client authentication and certificate authorities\<close>

definition SSLSetClientSideAuthenticate :: "SSLAuthenticate \<Rightarrow> SSLContextRef \<Rightarrow> OSStatus \<times> SSLContextRef" where
  "SSLSetClientSideAuthenticate auth =
     on_idle (\<lambda>ctx. (noErr, ctx\<lparr>clientAuth := auth, tryClientAuth := (auth \<noteq> kNeverAuthenticate)\<rparr>))"

definition SSLGetClientSideAuthenticate :: "bool \<Rightarrow> SSLContextRef \<Rightarrow> OSStatus + SSLAuthenticate" where
  "SSLGetClientSideAuthenticate out = get_from (\<lambda>ctx. if \<not> out then Inl paramErr else Inr (clientAuth ctx))"

definition SSLGetClientCertificateState :: "SSLContextRef \<Rightarrow> OSStatus + SSLClientCertificateState" where
  "SSLGetClientCertificateState = get_from (\<lambda>ctx. Inr (clientCertState ctx))"

definition SSLAddDistinguishedName ::
  "platform \<Rightarrow> keychain \<Rightarrow> bytes \<Rightarrow> SSLContextRef \<Rightarrow> OSStatus \<times> SSLContextRef" where
  "SSLAddDistinguishedName P K derDN = on_idle (\<lambda>ctx.
     if \<not> mallocOk P (sizeof_DNListElem K) then (memFullErr, ctx)
     else case SSLAllocBuffer P (length derDN) of (err, buf) \<Rightarrow>
       if err \<noteq> noErr then (err, ctx) else (noErr, ctx\<lparr>acceptableDNList := derDN # acceptableDNList ctx\<rparr>))"

text \<open>The certificate stays in the list of authorities when its name cannot be added.\<close>

definition sslAddCA :: "platform \<Rightarrow> keychain \<Rightarrow> bytes \<Rightarrow> SSLContext \<Rightarrow> OSStatus \<times> SSLContext" where
  "sslAddCA P K cert ctx =
     (if acceptableCAs ctx = None \<and> \<not> CFArrayCreateOk K then (memFullErr, ctx)
      else let cas = (case acceptableCAs ctx of None \<Rightarrow> [] | Some l \<Rightarrow> l);
               ctx = ctx\<lparr>acceptableCAs := Some (cas @ [cert])\<rparr> in
      case CopySubjectName K cert of
        Inl ortn \<Rightarrow> (ortn, ctx)
      | Inr subjectName \<Rightarrow>
          (case SSLAddDistinguishedName P K subjectName (Some ctx) of
             (ortn, ref) \<Rightarrow> (ortn, case ref of None \<Rightarrow> ctx | Some ctx \<Rightarrow> ctx)))"

text \<open>The loop over an array; asking NULL for its type is a crash.\<close>

fun add_CAs :: "platform \<Rightarrow> keychain \<Rightarrow> CFItem list \<Rightarrow> SSLContext \<Rightarrow> (OSStatus \<times> SSLContext) option" where
  "add_CAs P K [] ctx = Some (noErr, ctx)"
| "add_CAs P K (item # rest) ctx =
     (case item of
        NullItem \<Rightarrow> None
      | CertificateItem cert \<Rightarrow>
          (case sslAddCA P K cert ctx of (ortn, ctx) \<Rightarrow>
             if ortn \<noteq> noErr then Some (ortn, ctx) else add_CAs P K rest ctx)
      | _ \<Rightarrow> Some (paramErr, ctx))"

datatype CFTypeRef = OneItem CFItem | ItemArray "CFItem list"

definition SSLSetCertificateAuthorities ::
  "platform \<Rightarrow> keychain \<Rightarrow> CFTypeRef \<Rightarrow> bool \<Rightarrow> SSLContextRef \<Rightarrow> (OSStatus \<times> SSLContextRef) option" where
  "SSLSetCertificateAuthorities P K certificateOrArray replaceExisting ref =
     (case ref of
        None \<Rightarrow> Some (paramErr, None)
      | Some ctx \<Rightarrow>
          if sslIsSessionActive ctx \<or> protocolSide ctx \<noteq> SSL_ServerSide then Some (paramErr, Some ctx)
          else let ctx = (if replaceExisting then (sslFreeDnList ctx)\<lparr>acceptableCAs := None\<rparr> else ctx) in
          map_option (map_prod id Some)
            (case certificateOrArray of
               OneItem NullItem \<Rightarrow> None
             | OneItem (CertificateItem cert) \<Rightarrow> Some (sslAddCA P K cert ctx)
             | OneItem _ \<Rightarrow> Some (paramErr, ctx)
             | ItemArray items \<Rightarrow> add_CAs P K items ctx))"

definition SSLCopyCertificateAuthorities :: "bool \<Rightarrow> SSLContextRef \<Rightarrow> OSStatus + bytes list option" where
  "SSLCopyCertificateAuthorities out = get_from (\<lambda>ctx. if \<not> out then Inl paramErr else Inr (acceptableCAs ctx))"

definition SSLCopyDistinguishedNames :: "bool \<Rightarrow> SSLContextRef \<Rightarrow> OSStatus + bytes list option" where
  "SSLCopyDistinguishedNames out = get_from (\<lambda>ctx.
     if \<not> out then Inl paramErr
     else if acceptableDNList ctx = [] then Inr None else Inr (Some (acceptableDNList ctx)))"

section \<open>The peer\<close>

text \<open>The chain is kept with the root first; inserting each certificate at the front turns it round.\<close>

fun copy_certs :: "platform \<Rightarrow> bytes list \<Rightarrow> bytes list \<Rightarrow> OSStatus + bytes list" where
  "copy_certs P [] ca = Inr ca"
| "copy_certs P (der # rest) ca =
     (let ortn = SecCertificateCreateFromData P der in
      if ortn \<noteq> noErr then Inl ortn else copy_certs P rest (der # ca))"

definition sslCopyPeerCertificates :: "platform \<Rightarrow> keychain \<Rightarrow> SSLContextRef \<Rightarrow> OSStatus + bytes list option" where
  "sslCopyPeerCertificates P K = get_from (\<lambda>ctx.
     if peerCert ctx = [] then Inr None
     else if \<not> CFArrayCreateOk K then Inl memFullErr
     else case copy_certs P (peerCert ctx) [] of Inl ortn \<Rightarrow> Inl ortn | Inr ca \<Rightarrow> Inr (Some ca))"

text \<open>\<open>SSLGetPeerCertificates\<close> differs in the reference counts only.\<close>

definition SSLCopyPeerCertificates :: "platform \<Rightarrow> keychain \<Rightarrow> SSLContextRef \<Rightarrow> OSStatus + bytes list option" where
  "SSLCopyPeerCertificates P K ref = sslCopyPeerCertificates P K ref"

definition SSLGetPeerCertificates :: "platform \<Rightarrow> keychain \<Rightarrow> SSLContextRef \<Rightarrow> OSStatus + bytes list option" where
  "SSLGetPeerCertificates P K ref = sslCopyPeerCertificates P K ref"

definition SSLGetPeerSecTrust :: "bool \<Rightarrow> SSLContextRef \<Rightarrow> OSStatus + trust_request option" where
  "SSLGetPeerSecTrust out = get_from (\<lambda>ctx. if \<not> out then Inl paramErr else Inr (peerSecTrust ctx))"

definition SSLCopyPeerTrust :: "bool \<Rightarrow> SSLContextRef \<Rightarrow> OSStatus + trust_request option" where
  "SSLCopyPeerTrust out = get_from (\<lambda>ctx. if \<not> out then Inl paramErr else Inr (peerSecTrust ctx))"

section \<open>The contract of the setters\<close>

interpretation set_encryption_cert: guarded_setter "SSLSetEncryptionCertificate P K certs"
  unfolding SSLSetEncryptionCertificate_def by (rule on_idle_guarded)

interpretation set_expired_certs: guarded_setter "SSLSetAllowsExpiredCerts b"
  unfolding SSLSetAllowsExpiredCerts_def by (rule on_idle_guarded)

interpretation set_expired_roots: guarded_setter "SSLSetAllowsExpiredRoots b"
  unfolding SSLSetAllowsExpiredRoots_def by (rule on_idle_guarded)

interpretation set_trusted_roots: guarded_setter "SSLSetTrustedRoots K roots b"
  unfolding SSLSetTrustedRoots_def by (rule on_idle_guarded)

interpretation set_trusted_leafs: guarded_setter "SSLSetTrustedLeafCertificates certs"
  unfolding SSLSetTrustedLeafCertificates_def by (rule on_idle_guarded)

interpretation set_client_auth: guarded_setter "SSLSetClientSideAuthenticate auth"
  unfolding SSLSetClientSideAuthenticate_def by (rule on_idle_guarded)

interpretation add_dn: guarded_setter "SSLAddDistinguishedName P K dn"
  unfolding SSLAddDistinguishedName_def by (rule on_idle_guarded)

section \<open>Identities are installed whole\<close>

text \<open>The certificates of an array of certificate references, and the chain that is made of them.\<close>

definition item_certs :: "CFItem list \<Rightarrow> bytes list option" where
  "item_certs items = those (map (\<lambda>i. case i of CertificateItem c \<Rightarrow> Some c | _ \<Rightarrow> None) items)"

lemma item_certs_simps [simp]:
  "item_certs [] = Some []"
  "item_certs (i # xs) = (case i of CertificateItem c \<Rightarrow> map_option ((#) c) (item_certs xs) | _ \<Rightarrow> None)"
  by (simp_all add: item_certs_def split: CFItem.split)

lemma parse_chain_Inr:
  "parse_chain P K items acc = Inr chain \<Longrightarrow>
     \<exists>cs ders. item_certs items = Some cs \<and> map (secCertToSslCert P K) cs = map Inr ders \<and> chain = rev ders @ acc"
proof (induction items arbitrary: acc)
  case (Cons i xs)
  then obtain c der where i: "i = CertificateItem c" "secCertToSslCert P K c = Inr der" "parse_chain P K xs (der # acc) = Inr chain"
    by (auto split: CFItem.split_asm sum.split_asm)
  from Cons.IH [OF i(3)] obtain cs ders where "item_certs xs = Some cs" "map (secCertToSslCert P K) cs = map Inr ders"
      "chain = rev ders @ der # acc" by blast
  with i(1,2) show ?case by (intro exI [of _ "c # cs"] exI [of _ "der # ders"]) simp
qed simp

text \<open>The errors on the way are errors.\<close>

lemma parse_chain_error:
  assumes "keychain_ok K" shows "parse_chain P K items acc \<noteq> Inl noErr"
proof -
  have "secCertToSslCert P K c \<noteq> Inl noErr" for c
    using assms by (auto simp: secCertToSslCert_def keychain_ok_def split: sum.split)
  then show ?thesis by (induction items arbitrary: acc) (auto split: CFItem.split sum.split)
qed

lemma parseIncomingCerts_noErr:
  assumes "keychain_ok K" "parseIncomingCerts P K wantAlg certs = (noErr, out)"
  shows "\<exists>i rest c der key priv cs ders. certs = Some (IdentityItem i # rest) \<and> SecIdentityCopyCertificate K i = Inr c \<and>
    secCertToSslCert P K c = Inr der \<and> SecIdentityCopyPrivateKey K i = Inr priv \<and> CertGetKeyInfo K der = Inr key \<and>
    item_certs rest = Some cs \<and> map (secCertToSslCert P K) cs = map Inr ders \<and>
    destCert out = rev (der # ders) \<and> pubKey out = Some key \<and> privKeyRef out = Some priv \<and>
    (wantAlg \<longrightarrow> fst (sslCertSignerAlg K c) = noErr \<and> signerAlg out = Some (snd (sslCertSignerAlg K c)))"
proof -
  have "secCertToSslCert P K c \<noteq> Inl noErr" for c
    using assms(1) by (auto simp: secCertToSslCert_def keychain_ok_def split: sum.split)
  note no = this parse_chain_error [OF assms(1)] assms(1) [unfolded keychain_ok_def]
  from assms(2) no obtain i rest c der key priv chain where
    r: "certs = Some (IdentityItem i # rest)" "SecIdentityCopyCertificate K i = Inr c"
      "secCertToSslCert P K c = Inr der" "SecIdentityCopyPrivateKey K i = Inr priv" "CertGetKeyInfo K der = Inr key"
      "parse_chain P K rest [der] = Inr chain" "destCert out = chain" "pubKey out = Some key" "privKeyRef out = Some priv"
      "wantAlg \<longrightarrow> fst (sslCertSignerAlg K c) = noErr \<and> signerAlg out = Some (snd (sslCertSignerAlg K c))"
    by (auto simp: parseIncomingCerts_def Let_def
        split: option.split_asm list.split_asm CFItem.split_asm sum.split_asm if_split_asm)
  from parse_chain_Inr [OF r(6)] obtain cs ders where
    "item_certs rest = Some cs" "map (secCertToSslCert P K) cs = map Inr ders" "chain = rev ders @ [der]" by blast
  with r show ?thesis by fastforce
qed

lemma SSLSetCertificate_noErr:
  assumes "keychain_ok K" "SSLSetCertificate P K (Some items) (Some c) = Some (noErr, Some c')"
  shows "\<exists>i rest cert der certs ders key priv. items = IdentityItem i # rest \<and> SecIdentityCopyCertificate K i = Inr cert \<and>
    item_certs rest = Some certs \<and> map (secCertToSslCert P K) (cert # certs) = map Inr (der # ders) \<and>
    localCert c' = rev (der # ders) \<and> SecIdentityCopyPrivateKey K i = Inr priv \<and> signingPrivKeyRef c' = Some priv \<and>
    CertGetKeyInfo K der = Inr key \<and> signingPubKey c' = Some key \<and> sslCertSignerAlg K cert = (noErr, ourSignerAlg c') \<and>
    SSLGetCertificate (Some c') = Inr (Some items) \<and>
    (negAuthType c' = SSLClientAuthNone \<or>
     negAuthType c' \<in> set (clientAuthTypes c) \<and> auth_type_fits (AlgorithmId key) (ourSignerAlg c') (negAuthType c'))"
proof -
  obtain out where out: "parseIncomingCerts P K True (Some items) = (noErr, out)"
    using assms(2) by (auto simp: SSLSetCertificate_def Let_def elim!: bind_SomeE split: if_split_asm prod.split_asm)
  from parseIncomingCerts_noErr [OF assms(1) out] obtain i rest cert der key priv certs ders where
    r: "items = IdentityItem i # rest" "SecIdentityCopyCertificate K i = Inr cert" "secCertToSslCert P K cert = Inr der"
      "SecIdentityCopyPrivateKey K i = Inr priv" "CertGetKeyInfo K der = Inr key" "item_certs rest = Some certs"
      "map (secCertToSslCert P K) certs = map Inr ders" "destCert out = rev (der # ders)" "pubKey out = Some key"
      "privKeyRef out = Some priv" "fst (sslCertSignerAlg K cert) = noErr" "signerAlg out = Some (snd (sslCertSignerAlg K cert))"
    by auto
  then have upd: "SSLUpdateNegotiatedClientAuthType (c\<lparr>negAuthType := SSLClientAuthNone, localCert := destCert out,
        signingPubKey := pubKey out, signingPrivKeyRef := privKeyRef out,
        ourSignerAlg := snd (sslCertSignerAlg K cert), localCertArray := Some items\<rparr>) = Some c'"
    using assms(2) out by (auto simp: SSLSetCertificate_def Let_def elim!: bind_SomeE split: if_split_asm)
  have "localCert c' = destCert out \<and> signingPubKey c' = pubKey out \<and> signingPrivKeyRef c' = privKeyRef out \<and>
      localCertArray c' = Some items \<and> Some (ourSignerAlg c') = signerAlg out \<and>
      (negAuthType c' = SSLClientAuthNone \<or>
       negAuthType c' \<in> set (clientAuthTypes c) \<and> auth_type_fits (AlgorithmId key) (ourSignerAlg c') (negAuthType c'))"
    using upd r(9,10,12)
    by (auto simp: SSLUpdateNegotiatedClientAuthType_def Let_def find_Some_iff in_set_conv_nth split: option.split_asm)
  with r show ?thesis
    by (intro exI [of _ i] exI [of _ rest] exI [of _ cert] exI [of _ der] exI [of _ certs] exI [of _ ders] exI [of _ key] exI [of _ priv])
      (auto simp: SSLGetCertificate_def get_from_def prod_eq_iff)
qed

section \<open>The setters as steps\<close>

inductive setting :: "platform \<Rightarrow> keychain \<Rightarrow> SSLContext \<Rightarrow> SSLContext \<Rightarrow> bool" for P K where
  option: "SSLSetSessionOption opt b (Some c) = (err, Some c') \<Longrightarrow> setting P K c c'"
| io_funcs: "SSLSetIOFuncs r w (Some c) = (err, Some c') \<Longrightarrow> setting P K c c'"
| connection: "SSLSetConnection n (Some c) = (err, Some c') \<Longrightarrow> setting P K c c'"
| peer_name: "SSLSetPeerDomainName P bs (Some c) = (err, Some c') \<Longrightarrow> setting P K c c'"
| version_enabled: "SSLSetProtocolVersionEnabled v b (Some c) = (err, Some c') \<Longrightarrow> setting P K c c'"
| version: "SSLSetProtocolVersion v (Some c) = (err, Some c') \<Longrightarrow> setting P K c c'"
| version_max: "SSLSetProtocolVersionMax v (Some c) = (err, Some c') \<Longrightarrow> setting P K c c'"
| version_min: "SSLSetProtocolVersionMin v (Some c) = (err, Some c') \<Longrightarrow> setting P K c c'"
| peer_id: "SSLSetPeerID P ident (Some c) = (err, Some c') \<Longrightarrow> setting P K c c'"
| dh_params: "SSLSetDiffieHellmanParams P bs (Some c) = (err, Some c') \<Longrightarrow> setting P K c c'"
| anonymous: "SSLSetAllowAnonymousCiphers b (Some c) = (err, Some c') \<Longrightarrow> setting P K c c'"
| ticket: "SSLInternalSetSessionTicket P bs (Some c) = (err, Some c') \<Longrightarrow> setting P K c c'"
| curves: "SSLSetECDSACurves cs (Some c) = (err, Some c') \<Longrightarrow> setting P K c c'"
| encryption_cert: "SSLSetEncryptionCertificate P K certs (Some c) = (err, Some c') \<Longrightarrow> setting P K c c'"
| expired_certs: "SSLSetAllowsExpiredCerts b (Some c) = (err, Some c') \<Longrightarrow> setting P K c c'"
| expired_roots: "SSLSetAllowsExpiredRoots b (Some c) = (err, Some c') \<Longrightarrow> setting P K c c'"
| trusted_roots: "SSLSetTrustedRoots K roots b (Some c) = (err, Some c') \<Longrightarrow> setting P K c c'"
| trusted_leafs: "SSLSetTrustedLeafCertificates roots (Some c) = (err, Some c') \<Longrightarrow> setting P K c c'"
| client_auth: "SSLSetClientSideAuthenticate auth (Some c) = (err, Some c') \<Longrightarrow> setting P K c c'"
| dn: "SSLAddDistinguishedName P K bs (Some c) = (err, Some c') \<Longrightarrow> setting P K c c'"
| cert_verify: "SSLSetEnableCertVerify b (Some c) = (err, Some c') \<Longrightarrow> setting P K c c'"
| any_root: "SSLSetAllowsAnyRoot b (Some c) = (err, Some c') \<Longrightarrow> setting P K c c'"
| blinding: "SSLSetRsaBlinding b (Some c) = (err, Some c') \<Longrightarrow> setting P K c c'"
| cache_timeout: "SSLSetSessionCacheTimeout t (Some c) = (err, Some c') \<Longrightarrow> setting P K c c'"
| secret_fn: "SSLInternalSetMasterSecretFunction b n (Some c) = (err, Some c') \<Longrightarrow> setting P K c c'"
| ciphers: "SSLSetEnabledCiphers P c suites = (err, c') \<Longrightarrow> setting P K c c'"
| certificate: "SSLSetCertificate P K certs (Some c) = Some (err, Some c') \<Longrightarrow> setting P K c c'"
| authorities: "SSLSetCertificateAuthorities P K arg b (Some c) = Some (err, Some c') \<Longrightarrow> setting P K c c'"

text \<open>A context as an application can have made it.\<close>

inductive configured :: "platform \<Rightarrow> cssm \<Rightarrow> keychain \<Rightarrow> bool \<Rightarrow> SSLContext \<Rightarrow> bool" for P S K isServer where
  new: "handles_ok (handles p) \<Longrightarrow> SSLNewContext P S n isServer True p = Some (noErr, Some c, p') \<Longrightarrow> configured P S K isServer c"
| set: "configured P S K isServer c \<Longrightarrow> setting P K c c' \<Longrightarrow> configured P S K isServer c'"

section \<open>What no setter can change\<close>

text \<open>The state of the protocol, which the application reaches by the calls of the transport only.\<close>

definition machine where
  "machine c = (protocolSide c, state c, readCipher c, writeCipher c, readPending c, writePending c,
     recordWriteQueue c, receivedDataBuffer c, masterSecret c, peerCert c, sessionCache c)"

definition forced :: "SSLContext \<Rightarrow> bool" where
  "forced c \<longleftrightarrow> versionTls12Enable c \<and> maxProtocolVersion c = TLS_Version_1_2 \<and> allowAnyRoot c"

text \<open>The invariant that one setter keeps.\<close>

definition kept :: "SSLContext \<Rightarrow> SSLContext \<Rightarrow> bool" where
  "kept c c' \<longleftrightarrow> machine c' = machine c \<and> (forced c \<longrightarrow> forced c') \<and> (enableCertVerify c' \<longrightarrow> enableCertVerify c)"

lemmas kept_defs = kept_def machine_def forced_def

lemma kept_refl [simp]: "kept c c" by (simp add: kept_def)

lemma kept_trans: "kept c d \<Longrightarrow> kept d e \<Longrightarrow> kept c e" by (simp add: kept_def)

lemma SSLAddDistinguishedName_kept: "SSLAddDistinguishedName P K bs (Some c) = (err, Some c') \<Longrightarrow> kept c c'"
  by (auto simp: SSLAddDistinguishedName_def setter_simps kept_defs split: if_split_asm prod.split_asm)

lemma sslAddCA_kept:
  assumes "sslAddCA P K cert c = (err, c')" shows "kept c c'"
proof -
  have k: "kept c (c\<lparr>acceptableCAs := l\<rparr>)" for l by (simp add: kept_defs)
  show ?thesis using assms k
    by (auto simp: sslAddCA_def Let_def intro: kept_trans [OF k SSLAddDistinguishedName_kept]
        split: if_split_asm sum.split_asm prod.split_asm option.split_asm)
qed

lemma add_CAs_kept: "add_CAs P K items c = Some (err, c') \<Longrightarrow> kept c c'"
  by (induction items arbitrary: c) (auto split: CFItem.split_asm prod.split_asm if_split_asm
      dest!: sslAddCA_kept intro: kept_trans)

lemma SSLSetCertificateAuthorities_kept:
  assumes "SSLSetCertificateAuthorities P K arg b (Some c) = Some (err, Some c')" shows "kept c c'"
proof -
  have k: "kept c ((sslFreeDnList c)\<lparr>acceptableCAs := l\<rparr>)" for l by (simp add: kept_defs sslFreeDnList_def)
  show ?thesis using assms
    by (auto simp: SSLSetCertificateAuthorities_def Let_def split: if_split_asm CFTypeRef.split_asm CFItem.split_asm
        dest!: sslAddCA_kept add_CAs_kept intro: kept_trans [OF k] k)
qed

lemma SSLSetCertificate_kept: "SSLSetCertificate P K certs (Some c) = Some (err, Some c') \<Longrightarrow> kept c c'"
  by (auto simp: SSLSetCertificate_def SSLUpdateNegotiatedClientAuthType_def Let_def kept_defs elim!: bind_SomeE
      split: if_split_asm prod.split_asm option.split_asm)

lemma SSLSetEnabledCiphers_kept: "SSLSetEnabledCiphers P c suites = (err, c') \<Longrightarrow> kept c c'"
  by (auto simp: SSLSetEnabledCiphers_def sslAnalyzeCipherSpecs_def Let_def kept_defs split: if_split_asm option.split_asm)

lemma version_setters_kept:
  "SSLSetProtocolVersionEnabled v b (Some c) = (err, Some c') \<Longrightarrow> kept c c'"
  "SSLSetProtocolVersion v (Some c) = (err, Some c') \<Longrightarrow> kept c c'"
  "SSLSetProtocolVersionMax v (Some c) = (err, Some c') \<Longrightarrow> kept c c'"
  "SSLSetProtocolVersionMin v (Some c) = (err, Some c') \<Longrightarrow> kept c c'"
  by (auto simp: SSLSetProtocolVersionEnabled_def SSLSetProtocolVersion_def SSLSetProtocolVersionMax_def
      SSLSetProtocolVersionMin_def setter_simps kept_defs split: if_split_asm SSLProtocol.split_asm)

lemmas plain_setter_defs = SSLSetSessionOption_def SSLSetIOFuncs_def SSLSetConnection_def SSLSetPeerDomainName_def
  SSLSetPeerID_def SSLSetDiffieHellmanParams_def SSLSetAllowAnonymousCiphers_def SSLInternalSetSessionTicket_def
  SSLSetECDSACurves_def SSLSetEncryptionCertificate_def SSLSetAllowsExpiredCerts_def SSLSetAllowsExpiredRoots_def
  SSLSetTrustedRoots_def SSLSetTrustedLeafCertificates_def SSLSetClientSideAuthenticate_def SSLSetEnableCertVerify_def
  SSLSetAllowsAnyRoot_def SSLSetRsaBlinding_def SSLSetSessionCacheTimeout_def SSLInternalSetMasterSecretFunction_def

lemma setting_kept: "setting P K c c' \<Longrightarrow> kept c c'"
proof (induction rule: setting.induct)
  case dn
  then show ?case by (rule SSLAddDistinguishedName_kept)
next
  case ciphers
  then show ?case by (rule SSLSetEnabledCiphers_kept)
next
  case certificate
  then show ?case by (rule SSLSetCertificate_kept)
next
  case authorities
  then show ?case by (rule SSLSetCertificateAuthorities_kept)
qed (auto simp: plain_setter_defs setter_simps kept_defs Let_def dest: version_setters_kept
    split: if_split_asm prod.split_asm option.split_asm SSLSessionOption.split_asm sum.split_asm)

lemma configured_forced: "configured P S K isServer c \<Longrightarrow> forced c \<and> state c = SSL_HdskStateUninit"
proof (induction rule: configured.induct)
  case (new p n c p')
  then show ?case using SSLNewContext_fresh by (auto simp: forced_def fresh_context_def)
next
  case (set c c')
  then show ?case using setting_kept [OF set(2)] by (simp add: kept_def machine_def)
qed

text \<open>Once verification has been switched off it stays off.\<close>

lemma settings_verify: "(setting P K)\<^sup>*\<^sup>* c c' \<Longrightarrow> \<not> enableCertVerify c \<Longrightarrow> \<not> enableCertVerify c'"
  by (induction rule: rtranclp_induct) (auto dest: setting_kept simp: kept_def)

section \<open>An active session is frozen\<close>

text \<open>The settings that do not ask whether a session is active, reset to fixed values.\<close>

definition unguarded_reset :: "SSLContext \<Rightarrow> SSLContext" where
  "unguarded_reset c = c\<lparr>enableCertVerify := False, allowAnyRoot := True, rsaBlindingEnable := False,
     sessionCacheTimeout := 0, masterSecretCallback := False, masterSecretArg := 0\<rparr>"

lemma setting_frozen:
  "setting P K c c' \<Longrightarrow> sslIsSessionActive c \<Longrightarrow> clientCertState c \<noteq> kSSLClientCertRequested \<Longrightarrow>
     unguarded_reset c' = unguarded_reset c"
proof (induction rule: setting.induct)
  case ciphers
  then show ?case by (auto simp: SSLSetEnabledCiphers_def split: if_split_asm)
next
  case certificate
  then show ?case by (auto simp: SSLSetCertificate_def)
next
  case authorities
  then show ?case by (auto simp: SSLSetCertificateAuthorities_def)
qed (auto simp: plain_setter_defs(16-) on_context_def unguarded_reset_def
    dest!: set_option.frozen set_io.frozen set_connection.frozen set_peer_name.frozen set_version_enabled.frozen
      set_version.frozen set_version_max.frozen set_version_min.frozen set_peer_id.frozen set_dh_params.frozen
      set_anonymous.frozen set_ticket.frozen set_curves.frozen set_encryption_cert.frozen set_expired_certs.frozen
      set_expired_roots.frozen set_trusted_roots.frozen set_trusted_leafs.frozen set_client_auth.frozen add_dn.frozen)

section \<open>Authorities and roots\<close>

lemma add_CAs_all:
  assumes "platform_ok P" "keychain_ok K" "CFArrayCreateOk K" "\<not> sslIsSessionActive c"
    and "map (CopySubjectName K) certs = map Inr names"
  shows "\<exists>c'. add_CAs P K (map CertificateItem certs) c = Some (noErr, c') \<and>
    acceptableDNList c' = rev names @ acceptableDNList c \<and>
    (certs \<noteq> [] \<longrightarrow> acceptableCAs c' = Some ((case acceptableCAs c of None \<Rightarrow> [] | Some l \<Rightarrow> l) @ certs))"
  using assms(4,5)
proof (induction certs arbitrary: c names)
  case (Cons cert certs)
  then obtain n ns where n: "names = n # ns" "CopySubjectName K cert = Inr n" "map (CopySubjectName K) certs = map Inr ns" by (cases names) auto
  let ?c = "c\<lparr>acceptableCAs := Some ((case acceptableCAs c of None \<Rightarrow> [] | Some l \<Rightarrow> l) @ [cert]), acceptableDNList := n # acceptableDNList c\<rparr>"
  have "sslAddCA P K cert c = (noErr, ?c)"
    using n(2) assms(1,3) Cons.prems(1)
    by (auto simp: sslAddCA_def SSLAddDistinguishedName_def setter_simps SSLAllocBuffer_ok sslIsSessionActive_def Let_def)
  moreover have "\<not> sslIsSessionActive ?c" using Cons.prems(1) by (simp add: sslIsSessionActive_def)
  ultimately show ?case using Cons.IH [of ?c ns] n by (auto split: option.split_asm)
qed simp

lemma copy_certs_rev:
  "copy_certs P certs acc = Inr ca \<Longrightarrow> ca = rev certs @ acc"
  by (induction certs arbitrary: acc) (auto simp: Let_def split: if_split_asm)

lemma copy_certs_ok:
  "\<forall>der\<in>set certs. SecCertificateCreateFromData P der = noErr \<Longrightarrow> copy_certs P certs acc = Inr (rev certs @ acc)"
  by (induction certs arbitrary: acc) simp_all

lemma peer_certificates_leaf_first:
  "SSLCopyPeerCertificates P K (Some ctx) = Inr r \<Longrightarrow>
     r = (if peerCert ctx = [] then None else Some (rev (peerCert ctx)))"
  by (auto simp: SSLCopyPeerCertificates_def sslCopyPeerCertificates_def get_from_def dest: copy_certs_rev
      split: if_split_asm sum.split_asm)

text \<open>Roots are replaced, or put before those that were there: the system's when none had been set.\<close>

lemma trusted_roots_roundtrip:
  assumes "keychain_ok K" "SSLSetTrustedRoots K roots b (Some c) = (noErr, ref')"
  shows "\<exists>old. SSLCopyTrustedRoots K ref' = Inr (roots @ old) \<and> (b \<longrightarrow> old = []) \<and>
    (\<not> b \<longrightarrow> SSLCopyTrustedRoots K (Some c) = Inr old)"
proof (cases b)
  case True
  then show ?thesis using assms(2)
    by (auto simp: SSLSetTrustedRoots_def SSLCopyTrustedRoots_def setter_simps split: if_split_asm)
next
  case False
  have "sslDefaultSystemRoots K c \<noteq> Inl noErr" using assms(1) by (simp add: sslDefaultSystemRoots_def keychain_ok_def)
  with False show ?thesis using assms(2)
    by (auto simp: SSLSetTrustedRoots_def SSLCopyTrustedRoots_def setter_simps split: if_split_asm option.split_asm sum.split_asm)
qed

end
