(* ===== verification/Patcher.thy ===== *)
theory Patcher
  imports Platform
begin

text \<open>
  The patcher (\<open>tls12_patcher.c\<close>), which redirects the SSL functions of the loaded Security framework
  to those of this library, and the overrides of \<open>tls12_trust.c\<close>, which it does not install.

  The memory of the process is a function from 64-bit addresses to octets. The dynamic linker and
  the two calls that change the protection of pages are parameters; the protection itself is not
  part of the state (a page that could be made writable is written, and the call that makes it
  read-only again is not checked by the code).

  The result is that after the constructor has run every function that could be patched starts with a
  jump to its replacement, and no other octet has changed.
\<close>

section \<open>The environment\<close>

type_synonym addr = "64 word"

type_synonym memory = "addr \<Rightarrow> byte"

record patch_env =
  dlopen_library :: bool
  dlopen_self :: bool
  dlopen_security :: bool
  dlsym_self :: "string \<Rightarrow> addr option"
  dlsym_default :: "string \<Rightarrow> addr option"
  dlsym_security :: "string \<Rightarrow> addr option"
  vm_protect :: "addr \<Rightarrow> addr \<Rightarrow> bool"
  mprotect :: "addr \<Rightarrow> addr \<Rightarrow> bool"
  vm_page_size :: addr

fun store :: "memory \<Rightarrow> addr \<Rightarrow> bytes \<Rightarrow> memory" where
  "store mem a [] = mem"
| "store mem a (b # bs) = store (mem(a := b)) (a + 1) bs"

definition load :: "memory \<Rightarrow> addr \<Rightarrow> nat \<Rightarrow> bytes" where
  "load mem a n = map (\<lambda>i. mem (a + of_nat i)) [0..<n]"

text \<open>An address in memory, the least significant octet first.\<close>

definition le64 :: "addr \<Rightarrow> bytes" where
  "le64 a = map (\<lambda>i. ucast (drop_bit (8 * i) a)) [0..<8]"

section \<open>The trampoline\<close>

unbundle bit_operations_syntax

definition page_start :: "addr \<Rightarrow> addr \<Rightarrow> addr" where
  "page_start page target = target AND NOT (page - 1)"

definition page_end :: "addr \<Rightarrow> addr \<Rightarrow> addr" where
  "page_end page target = (target + 14 + page - 1) AND NOT (page - 1)"

definition trampoline :: "addr \<Rightarrow> bytes" where
  "trampoline dest = [0xFF, 0x25, 0, 0, 0, 0] @ le64 dest"

text \<open>The result says whether 0 is returned.\<close>

definition write_trampoline :: "patch_env \<Rightarrow> addr \<Rightarrow> addr \<Rightarrow> memory \<Rightarrow> bool \<times> memory" where
  "write_trampoline E target dest mem =
     (let start = page_start (vm_page_size E) target; plen = page_end (vm_page_size E) target - start in
      if \<not> vm_protect E start plen \<and> \<not> mprotect E start plen then (False, mem)
      else (True, store mem target (trampoline dest)))"

section \<open>The constructor\<close>

definition ssl_syms :: "string list" where
  "ssl_syms = [''SSLHandshake'', ''SSLRead'', ''SSLWrite'', ''SSLClose'', ''SSLNewContext'', ''SSLDisposeContext'',
     ''SSLSetIOFuncs'', ''SSLSetConnection'', ''SSLGetConnection'', ''SSLGetSessionState'',
     ''SSLGetNegotiatedProtocolVersion'', ''SSLGetNegotiatedCipher'', ''SSLSetProtocolVersionEnabled'',
     ''SSLGetProtocolVersionEnabled'', ''SSLSetProtocolVersion'', ''SSLGetProtocolVersion'',
     ''SSLGetNumberEnabledCiphers'', ''SSLGetEnabledCiphers'', ''SSLSetEnabledCiphers'', ''SSLGetBufferedReadSize'',
     ''SSLSetEnableCertVerify'', ''SSLGetEnableCertVerify'', ''SSLSetAllowsExpiredCerts'',
     ''SSLGetAllowsExpiredCerts'', ''SSLSetAllowsExpiredRoots'', ''SSLGetAllowsExpiredRoots'',
     ''SSLSetAllowsAnyRoot'', ''SSLGetAllowsAnyRoot'', ''SSLSetPeerDomainName'', ''SSLGetPeerDomainNameLength'',
     ''SSLGetPeerDomainName'', ''SSLCopyPeerCertificates'', ''SSLGetPeerCertificates'', ''SSLCopyPeerTrust'']"

text \<open>The table of trust functions has no entry; its loop is kept for the symbols it would have.\<close>

definition trust_syms :: "(string \<times> string) list" where
  "trust_syms = []"

text \<open>What the loop finds for one symbol: the address in the framework and the replacement, unless
  one is missing or they are the same.\<close>

definition patch_target :: "patch_env \<Rightarrow> string \<Rightarrow> (addr \<times> addr) option" where
  "patch_target E name =
     (let our = (case dlsym_self E name of Some a \<Rightarrow> Some a | None \<Rightarrow> dlsym_default E name) in
      case dlsym_security E name of
        None \<Rightarrow> None
      | Some sec \<Rightarrow> (case our of None \<Rightarrow> None | Some a \<Rightarrow> if a = sec then None else Some (sec, a)))"

text \<open>The loop with its two counters.\<close>

fun patch_all :: "patch_env \<Rightarrow> string list \<Rightarrow> nat \<times> nat \<times> memory \<Rightarrow> nat \<times> nat \<times> memory" where
  "patch_all E [] st = st"
| "patch_all E (name # rest) (patched, failed, mem) =
     (case patch_target E name of
        None \<Rightarrow> patch_all E rest (patched, failed, mem)
      | Some (sec, our) \<Rightarrow>
          (case write_trampoline E sec our mem of (ok, mem) \<Rightarrow>
             patch_all E rest (if ok then patched + 1 else patched, if ok then failed else failed + 1, mem)))"

fun patch_trust :: "patch_env \<Rightarrow> (string \<times> string) list \<Rightarrow> memory \<Rightarrow> memory" where
  "patch_trust E [] mem = mem"
| "patch_trust E ((sec_sym, our_sym) # rest) mem =
     (case (dlsym_self E our_sym, dlsym_security E sec_sym) of
        (Some our, Some sec) \<Rightarrow> patch_trust E rest (snd (write_trampoline E sec our mem))
      | _ \<Rightarrow> patch_trust E rest mem)"

definition tls12_init :: "patch_env \<Rightarrow> memory \<Rightarrow> nat \<times> nat \<times> memory" where
  "tls12_init E mem =
     (if \<not> dlopen_library E \<and> \<not> dlopen_self E then (0, 0, mem)
      else if \<not> dlopen_security E then (0, 0, mem)
      else case patch_all E ssl_syms (0, 0, mem) of
             (patched, failed, mem) \<Rightarrow> (patched, failed, patch_trust E trust_syms mem))"

section \<open>The overrides of \<open>tls12_trust.c\<close>\<close>

text \<open>Each writes through the result pointers that are not NULL.\<close>

definition tls12_SecTrustEvaluate :: "bool \<Rightarrow> OSStatus \<times> SecTrustResultType option" where
  "tls12_SecTrustEvaluate result = (noErr, if result then Some kSecTrustResultProceed else None)"

definition tls12_SecTrustGetResult :: "bool \<Rightarrow> OSStatus \<times> SecTrustResultType option" where
  "tls12_SecTrustGetResult result = (noErr, if result then Some kSecTrustResultProceed else None)"

definition tls12_SecTrustGetCssmResultCode :: "bool \<Rightarrow> OSStatus \<times> OSStatus option" where
  "tls12_SecTrustGetCssmResultCode resultCode = (noErr, if resultCode then Some noErr else None)"

section \<open>Stores and loads\<close>

lemma of_nat_addr_eq: "i < 2 ^ 64 \<Longrightarrow> j < 2 ^ 64 \<Longrightarrow> (of_nat i :: addr) = of_nat j \<longleftrightarrow> i = j"
  by (simp add: of_nat_inverse word_of_nat_eq_iff take_bit_nat_eq_self)

text \<open>The addresses that a store of \<open>n\<close> octets writes.\<close>

definition window :: "addr \<Rightarrow> nat \<Rightarrow> addr set" where
  "window a n = (\<lambda>i. a + of_nat i) ` {..<n}"

lemma window_Suc: "window a (Suc n) = insert a (window (a + 1) n)"
  unfolding window_def lessThan_Suc_eq_insert_0 by (simp add: image_image add.assoc)

lemma store_outside: "x \<notin> window a (length bs) \<Longrightarrow> store mem a bs x = mem x"
  by (induction bs arbitrary: a mem) (auto simp: window_Suc)

lemma store_inside:
  "length bs \<le> 2 ^ 64 \<Longrightarrow> i < length bs \<Longrightarrow> store mem a bs (a + of_nat i) = bs ! i"
proof (induction bs arbitrary: a mem i)
  case (Cons b bs)
  show ?case
  proof (cases i)
    case 0
    have "a \<notin> window (a + 1) (length bs)"
    proof
      assume "a \<in> window (a + 1) (length bs)"
      then obtain j where "j < length bs" "of_nat (Suc j) = (of_nat 0 :: addr)"
        by (auto simp: window_def add.assoc)
      then show False using Cons.prems(1) of_nat_addr_eq [of "Suc j" 0] by simp
    qed
    with 0 show ?thesis using store_outside by simp
  next
    case (Suc j)
    have "store (mem(a := b)) (a + 1) bs ((a + 1) + of_nat j) = bs ! j"
      using Cons.prems Suc by (intro Cons.IH) simp_all
    then show ?thesis using Suc by (simp add: add.assoc)
  qed
qed simp

lemma load_store: "length bs \<le> 2 ^ 64 \<Longrightarrow> load (store mem a bs) a (length bs) = bs"
  by (rule nth_equalityI) (simp_all add: load_def store_inside)

lemma load_outside: "window a n \<inter> window b (length bs) = {} \<Longrightarrow> load (store mem b bs) a n = load mem a n"
  by (fastforce simp: load_def window_def disjoint_iff intro!: store_outside)

lemma length_trampoline [simp]: "length (trampoline d) = 14"
  by (simp add: trampoline_def le64_def)

section \<open>The pages that are made writable\<close>

lemma page_start_eq:
  assumes "k < 64"
  shows "unat (page_start (2 ^ k) target) = unat target div 2 ^ k * 2 ^ k"
proof -
  have "page_start (2 ^ k) target = push_bit k (drop_bit k target)"
    unfolding page_start_def mask_eq_exp_minus_1 [symmetric] by (rule bit_eqI) (auto simp: bit_simps)
  moreover have "unat (push_bit k (drop_bit k target)) = push_bit k (drop_bit k (unat target))"
  proof -
    have "push_bit k (drop_bit k (unat target)) \<le> unat target" by (simp add: push_bit_eq_mult drop_bit_eq_div)
    also have "\<dots> < 2 ^ 64" using unsigned_less [of target] by simp
    finally show ?thesis by (simp add: unsigned_push_bit_eq unat_drop_bit_eq take_bit_nat_eq_self)
  qed
  ultimately show ?thesis by (simp add: push_bit_eq_mult drop_bit_eq_div)
qed

text \<open>The range is made of whole pages and covers the trampoline, unless it reaches the end of the address space.\<close>

lemma pages_cover:
  assumes "k < 64" "unat target + 14 + 2 ^ k \<le> 2 ^ 64"
  shows "unat (page_start (2 ^ k) target) \<le> unat target" "unat target + 14 \<le> unat (page_end (2 ^ k) target)"
    "2 ^ k dvd unat (page_start (2 ^ k) target)" "2 ^ k dvd unat (page_end (2 ^ k) target)"
proof -
  have "target + 14 + 2 ^ k - 1 = word_of_nat (unat target + 13 + 2 ^ k)" by simp
  also have "unat \<dots> = unat target + 13 + 2 ^ k"
    using assms(2) by (subst unat_of_nat) simp
  finally have e: "unat (page_end (2 ^ k) target) = (unat target + 13 + 2 ^ k) div 2 ^ k * 2 ^ k"
    using page_start_eq [OF assms(1), of "target + 14 + 2 ^ k - 1"] by (simp add: page_end_def page_start_def)
  show "unat target + 14 \<le> unat (page_end (2 ^ k) target)"
  proof -
    have "(unat target + 13 + 2 ^ k) mod 2 ^ k < (2 ^ k :: nat)" by simp
    then show ?thesis
      unfolding e using div_mult_mod_eq [of "unat target + 13 + 2 ^ k" "2 ^ k"] by linarith
  qed
  show "2 ^ k dvd unat (page_end (2 ^ k) target)" by (simp add: e)
qed (simp_all add: page_start_eq assms(1))

section \<open>What the constructor has patched\<close>

definition writable :: "patch_env \<Rightarrow> addr \<Rightarrow> bool" where
  "writable E target \<longleftrightarrow>
     (let start = page_start (vm_page_size E) target; plen = page_end (vm_page_size E) target - start
      in vm_protect E start plen \<or> mprotect E start plen)"

definition targets :: "patch_env \<Rightarrow> string list \<Rightarrow> (addr \<times> addr) list" where
  "targets E names = List.map_filter (patch_target E) names"

text \<open>The functions of the framework are at least 14 octets apart.\<close>

definition separate :: "(addr \<times> addr) list \<Rightarrow> bool" where
  "separate ts \<longleftrightarrow> sorted_wrt (\<lambda>s t. window (fst s) 14 \<inter> window (fst t) 14 = {}) ts"

lemma targets_simps [simp]:
  "targets E [] = []"
  "targets E (n # ns) = (case patch_target E n of None \<Rightarrow> targets E ns | Some t \<Rightarrow> t # targets E ns)"
  by (simp_all add: targets_def List.map_filter_def split: option.split)

lemma write_trampoline_eq:
  "write_trampoline E sec our mem = (writable E sec, if writable E sec then store mem sec (trampoline our) else mem)"
  by (simp add: write_trampoline_def writable_def Let_def)

lemma patch_all_outside:
  "patch_all E names (p, f, mem) = (p', f', mem') \<Longrightarrow>
     \<forall>t\<in>set (targets E names). writable E (fst t) \<longrightarrow> x \<notin> window (fst t) 14 \<Longrightarrow> mem' x = mem x"
  by (induction names arbitrary: p f mem)
    (auto simp: write_trampoline_eq store_outside split: option.split_asm prod.split_asm if_split_asm)

lemma patch_all_keeps:
  assumes "patch_all E names (p, f, mem) = (p', f', mem')" "\<And>t. t \<in> set (targets E names) \<Longrightarrow> window a n \<inter> window (fst t) 14 = {}"
  shows "load mem' a n = load mem a n"
proof -
  have "a + of_nat i \<notin> window (fst t) 14" if "i < n" "t \<in> set (targets E names)" for i t
    using assms(2) that by (fastforce simp: window_def)
  then show ?thesis using patch_all_outside [OF assms(1)] by (simp add: load_def)
qed

lemma patch_all_patched:
  assumes "patch_all E names (p, f, mem) = (p', f', mem')" "separate (targets E names)"
  shows "(\<forall>(sec, our) \<in> set (targets E names). writable E sec \<longrightarrow> load mem' sec 14 = trampoline our) \<and>
    p' = p + length (filter (writable E \<circ> fst) (targets E names)) \<and>
    f' = f + length (filter (Not \<circ> writable E \<circ> fst) (targets E names))"
  using assms
proof (induction names arbitrary: p f mem)
  case (Cons n ns)
  show ?case
  proof (cases "patch_target E n")
    case None
    then show ?thesis using Cons by simp
  next
    case (Some t)
    obtain sec our where t: "t = (sec, our)" by (cases t)
    let ?ok = "writable E sec"
    let ?mem = "if ?ok then store mem sec (trampoline our) else mem"
    have run: "patch_all E ns (if ?ok then p + 1 else p, if ?ok then f else f + 1, ?mem) = (p', f', mem')"
      using Cons.prems(1) Some t by (simp add: write_trampoline_eq)
    have sep: "separate (targets E ns)" and away: "\<And>u. u \<in> set (targets E ns) \<Longrightarrow> window sec 14 \<inter> window (fst u) 14 = {}"
      using Cons.prems(2) Some t by (simp_all add: separate_def)
    have "load mem' sec 14 = load ?mem sec 14" by (rule patch_all_keeps [OF run away])
    then have "?ok \<Longrightarrow> load mem' sec 14 = trampoline our"
      using load_store [of "trampoline our" mem sec] by simp
    with Cons.IH [OF run sep] Some t show ?thesis by auto
  qed
qed simp

subsection \<open>The functions to be redirected\<close>

text \<open>
  What the table is meant to bring about, in terms of the dynamic linker: the framework has the function at
  \<open>sec\<close>, this library (or, failing that, any loaded image) has it at \<open>our\<close>, and the two are different.
\<close>

definition redirected :: "patch_env \<Rightarrow> string \<Rightarrow> addr \<Rightarrow> addr \<Rightarrow> bool" where
  "redirected E name sec our \<longleftrightarrow> dlsym_security E name = Some sec \<and>
     (dlsym_self E name = Some our \<or> dlsym_self E name = None \<and> dlsym_default E name = Some our) \<and> our \<noteq> sec"

text \<open>The names whose function is to be redirected and has, or has not, pages that can be made writable.\<close>

definition redirected_names :: "patch_env \<Rightarrow> (addr \<Rightarrow> bool) \<Rightarrow> string set" where
  "redirected_names E Q = {name \<in> set ssl_syms. \<exists>sec our. redirected E name sec our \<and> Q sec}"

definition apart :: "patch_env \<Rightarrow> bool" where
  "apart E \<longleftrightarrow> (\<forall>m\<in>set ssl_syms. \<forall>n\<in>set ssl_syms. \<forall>s t a b. m \<noteq> n \<longrightarrow> redirected E m s a \<longrightarrow> redirected E n t b \<longrightarrow>
     window s 14 \<inter> window t 14 = {})"

lemma patch_target_iff: "patch_target E name = Some (sec, our) \<longleftrightarrow> redirected E name sec our"
  by (auto simp: patch_target_def redirected_def Let_def split: option.split)

lemma set_targets: "(sec, our) \<in> set (targets E names) \<longleftrightarrow> (\<exists>name\<in>set names. redirected E name sec our)"
  by (auto simp: targets_def List.map_filter_def patch_target_iff [symmetric] image_iff)

lemma separate_targets:
  assumes "distinct names" "\<And>m n s t a b. m \<in> set names \<Longrightarrow> n \<in> set names \<Longrightarrow> m \<noteq> n \<Longrightarrow> redirected E m s a \<Longrightarrow> redirected E n t b \<Longrightarrow>
     window s 14 \<inter> window t 14 = {}"
  shows "separate (targets E names)"
  using assms
proof (induction names)
  case (Cons name names)
  have "separate (targets E names)" by (rule Cons.IH) (use Cons.prems in \<open>simp, meson list.set_intros(2)\<close>)
  moreover have "window s 14 \<inter> window t 14 = {}" if "patch_target E name = Some (s, a)" "(t, b) \<in> set (targets E names)" for s a t b
    using that Cons.prems by (fastforce simp: set_targets patch_target_iff)
  ultimately show ?case by (fastforce simp: separate_def split: option.split)
qed (simp add: separate_def)

lemma count_targets:
  "distinct names \<Longrightarrow> length (filter (Q \<circ> fst) (targets E names)) = card {name \<in> set names. \<exists>sec our. redirected E name sec our \<and> Q sec}"
proof (induction names)
  case (Cons name names)
  have "{n \<in> set (name # names). \<exists>sec our. redirected E n sec our \<and> Q sec} =
      (if \<exists>sec our. redirected E name sec our \<and> Q sec then insert name else id) {n \<in> set names. \<exists>sec our. redirected E n sec our \<and> Q sec}"
    by auto
  moreover have "redirected E name sec our \<Longrightarrow> redirected E name s b \<Longrightarrow> sec = s \<and> our = b" for sec our s b
    by (auto simp: redirected_def)
  ultimately show ?case
    using Cons by (auto simp: patch_target_iff split: option.split) (metis patch_target_iff option.distinct(1))+
qed simp

lemma distinct_ssl_syms: "distinct ssl_syms"
  by (simp add: ssl_syms_def)

lemma tls12_init_runs:
  assumes "dlopen_library E \<or> dlopen_self E" "dlopen_security E"
  shows "tls12_init E mem = patch_all E ssl_syms (0, 0, mem)"
  using assms by (auto simp: tls12_init_def trust_syms_def split: prod.split)

text \<open>Without one of the libraries nothing happens.\<close>

lemma tls12_init_stops:
  "\<not> dlopen_library E \<and> \<not> dlopen_self E \<or> \<not> dlopen_security E \<Longrightarrow> tls12_init E mem = (0, 0, mem)"
  by (auto simp: tls12_init_def)

end
