(* ===== verification/Demo_Config.thy ===== *)
theory Demo_Config
  imports Credentials Patcher Demo_Platform
begin

text \<open>Concrete services of CSSM and of the keychain, and contexts made with them.\<close>

definition demo_cssm :: cssm where
  "demo_cssm = \<lparr>CSSM_Init = True, CSSM_ModuleLoad = (\<lambda>s. True),
     CSSM_ModuleAttach = (\<lambda>s. Some (case s of CSSM_SERVICE_CSP \<Rightarrow> 1 | CSSM_SERVICE_CL \<Rightarrow> 2 | CSSM_SERVICE_TP \<Rightarrow> 3)),
     CSSM_CSP_CreateKeyGenContext = (\<lambda>h n. True), CSSM_SetPublicKeyFormat = (\<lambda>h. True),
     CSSM_GenerateECKeyPair = (\<lambda>h n. None)\<rparr>"

definition demo_key :: CSSM_KEY where
  "demo_key = \<lparr>AlgorithmId = CSSM_ALGID_RSA, KeyClass = CSSM_KEYCLASS_PUBLIC_KEY, BlobType = CSSM_KEYBLOB_RAW,
     Format = CSSM_KEYBLOB_RAW_FORMAT_PKCS1, LogicalKeySizeInBits = 2048, KeyData = [7]\<rparr>"

definition demo_keychain :: keychain where
  "demo_keychain = \<lparr>SecCertificateGetData = Inr, SecIdentityCopyCertificate = (\<lambda>i. Inr [48, of_nat i]),
     SecIdentityCopyPrivateKey = (\<lambda>i. Inr (Inr demo_key)), SecCertificateGetCLHandle = (\<lambda>c. noErr),
     CertGetKeyInfo = (\<lambda>c. Inr demo_key), CopySignatureAlgorithm = (\<lambda>c. Inr (32, [42])),
     sizeof_ALGORITHM_IDENTIFIER = 32, sizeof_SSLCertificate = 24, sizeof_DNListElem = 24,
     cssmOidToAlg = (\<lambda>oid. Some SIG_SHA256WithRSA), CopySubjectName = Inr,
     SecTrustSettingsCopyQualifiedCerts = (\<lambda>d n s. Inr [[48, 9]]), CFArrayCreateOk = True\<rparr>"

definition demo_process :: process where
  "demo_process = \<lparr>handles = \<lparr>gCSPHandle = 0, gCLHandle = 0, gTPHandle = 0\<rparr>, cacheOf = [], resolvedOf = 0, dhParamsOf = None,
     ioCalls = 0, rngCalls = 0\<rparr>"

lemma demo_keychain_fields [simp]:
  "SecCertificateGetData demo_keychain c = Inr c" "SecIdentityCopyCertificate demo_keychain i = Inr [48, of_nat i]"
  "SecIdentityCopyPrivateKey demo_keychain i = Inr (Inr demo_key)" "SecCertificateGetCLHandle demo_keychain c = noErr"
  "CertGetKeyInfo demo_keychain c = Inr demo_key" "CopySignatureAlgorithm demo_keychain c = Inr (32, [42])"
  "sizeof_ALGORITHM_IDENTIFIER demo_keychain = 32" "cssmOidToAlg demo_keychain oid = Some SIG_SHA256WithRSA"
  "CFArrayCreateOk demo_keychain"
  by (simp_all add: demo_keychain_def)

lemma keychain_ok_demo: "keychain_ok demo_keychain"
  by (simp add: keychain_ok_def demo_keychain_def)

lemma handles_ok_demo: "handles_ok (handles demo_process)"
  by (simp add: handles_ok_def demo_process_def)

lemma demo_attached:
  "attachToModules demo_cssm (handles demo_process) = (True, (1, 2, 3), \<lparr>gCSPHandle = 1, gCLHandle = 2, gTPHandle = 3\<rparr>)"
  by (simp add: attachToModules_def doAttachToModules_def loadModule_def demo_cssm_def demo_process_def)

lemma demo_new:
  obtains ctx p' where "SSLNewContext demo_platform demo_cssm 4096 isServer True demo_process = Some (noErr, Some ctx, p')"
    "fresh_context isServer ctx"
  using SSLNewContext_total [OF platform_ok_demo handles_ok_demo demo_attached] SSLNewContext_fresh [OF _ handles_ok_demo]
  by metis

text \<open>A server that has been given an identity with one more certificate, and a client that gets both.\<close>

definition demo_server :: SSLContext where
  "demo_server = demo_ctx\<lparr>state := SSL_HdskStateUninit, protocolSide := SSL_ServerSide\<rparr>"

lemma demo_secCert: "secCertToSslCert demo_platform demo_keychain x = Inr x"
  by (simp add: secCertToSslCert_def demo_keychain_def SSLAllocBuffer_ok platform_ok_demo)

lemma demo_identity_cert: "SecIdentityCopyCertificate demo_keychain 5 = Inr [48, 5]"
  by (simp add: demo_keychain_def)

lemma demo_identity:
  obtains s1 where "SSLSetCertificate demo_platform demo_keychain (Some [IdentityItem 5, CertificateItem [48, 6]]) (Some demo_server) = Some (noErr, Some s1)"
    "localCert s1 = [[48, 6], [48, 5]]" "protocolSide s1 = SSL_ServerSide" "negProtocolVersion s1 = TLS_Version_1_2"
proof -
  have "parseIncomingCerts demo_platform demo_keychain True (Some [IdentityItem 5, CertificateItem [48, 6]]) =
      (noErr, \<lparr>destCert = [[48, 6], [48, 5]], pubKey = Some demo_key, privKeyRef = Some (Inr demo_key), signerAlg = Some CSSM_ALGID_RSA\<rparr>)"
    by (simp add: parseIncomingCerts_def sslCertSignerAlg_def demo_secCert)
  then have "\<exists>s1. SSLSetCertificate demo_platform demo_keychain (Some [IdentityItem 5, CertificateItem [48, 6]]) (Some demo_server) = Some (noErr, Some s1) \<and>
    localCert s1 = [[48, 6], [48, 5]] \<and> protocolSide s1 = SSL_ServerSide \<and> negProtocolVersion s1 = TLS_Version_1_2"
    by (simp add: SSLSetCertificate_def SSLUpdateNegotiatedClientAuthType_def sslIsSessionActive_def demo_server_def Let_def)
      (simp add: demo_ctx_def)
  then show thesis using that by blast
qed

lemma demo_certificate:
  obtains c' where "SSLProcessCertificate demo_platform (vector24 (cert_list [[48, 6], [48, 5]])) (demo_ctx\<lparr>peerCert := []\<rparr>) = Some (noErr, c')"
proof -
  have "add_certs demo_platform (cert_list [[48, 6], [48, 5]]) [] = Some (noErr, [[48, 6], [48, 5]])"
    using add_certs_list [OF platform_ok_demo, of "[[48, 5], [48, 6]]" "[]"] by (simp add: cert_list_def)
  moreover have "length (cert_list [[48, 6], [48, 5]]) = 10" by (simp add: cert_list_def)
  moreover obtain c where v: "sslVerifyCertChain demo_platform [[48, 6], [48, 5]] True (demo_ctx\<lparr>peerCert := [[48, 6], [48, 5]]\<rparr>) = Some (noErr, c)"
  proof -
    let ?c = "demo_ctx\<lparr>peerCert := [[48, 6], [48, 5]]\<rparr>"
    have "errors_are_errors demo_platform" by (simp add: errors_are_errors_def demo_platform_def)
    moreover have "trust_ready demo_platform ?c [[48, 6], [48, 5]]"
      by (simp add: trust_ready_def demo_platform_def demo_ctx_def trust_calls_def)
    moreover have "trust_passes demo_platform ?c [[48, 6], [48, 5]] req" for req
      by (simp add: trust_passes_def demo_platform_def)
    ultimately show thesis using sslVerifyCertChain_accepts [of demo_platform "[[48, 6], [48, 5]]" ?c] that by blast
  qed
  moreover have x: "\<exists>c'. extract_peer_key demo_platform noErr (demo_ctx\<lparr>peerCert := [[48, 6], [48, 5]], peerSecTrust := t\<rparr>) = Some (noErr, c')" for t
    by (rule extract_peer_key_ok)
      (simp add: sslPubKeyFromCert_def attachToCl_def attachToCsp_def demo_platform_def demo_ctx_def, simp)
  moreover obtain c' where "extract_peer_key demo_platform noErr c = Some (noErr, c')"
    using x sslVerifyCertChain_frame [OF v] by metis
  moreover have "rd_at 0 3 (vector24 (cert_list [[48, 6], [48, 5]])) = Some (SSLDecodeInt (vector24 (cert_list [[48, 6], [48, 5]])) 3)"
    "unat (SSLDecodeInt (vector24 (cert_list [[48, 6], [48, 5]])) 3) = 10" "drop 3 (vector24 (cert_list [[48, 6], [48, 5]])) = cert_list [[48, 6], [48, 5]]"
    using decode_length [of 10 3] \<open>length (cert_list [[48, 6], [48, 5]]) = 10\<close>
    by (simp_all add: rd_at_Some vector24_def del: SSLDecodeInt_SSLEncodeInt)
  ultimately show thesis using that by (simp add: SSLProcessCertificate_def)
qed

text \<open>A process in which one function of the framework has a replacement.\<close>

definition demo_patch_env :: patch_env where
  "demo_patch_env = \<lparr>dlopen_library = True, dlopen_self = True, dlopen_security = True,
     dlsym_self = (\<lambda>name. Some 0x9000), dlsym_default = (\<lambda>name. None),
     dlsym_security = (\<lambda>name. if name = ''SSLRead'' then Some 0x1000 else if name = ''SSLWrite'' then Some 0x2000 else None),
     vm_protect = (\<lambda>a n. a \<noteq> 0x2000), mprotect = (\<lambda>a n. False), vm_page_size = 4096\<rparr>"

lemma demo_opens: "dlopen_library demo_patch_env" "dlopen_security demo_patch_env"
  by (simp_all add: demo_patch_env_def)

lemma demo_redirected: "redirected demo_patch_env name sec our \<longleftrightarrow>
    our = 0x9000 \<and> (name = ''SSLRead'' \<and> sec = 0x1000 \<or> name = ''SSLWrite'' \<and> sec = 0x2000)"
  by (auto simp: redirected_def demo_patch_env_def)

lemma demo_writable: "writable demo_patch_env 0x1000" "\<not> writable demo_patch_env 0x2000"
  by (simp_all add: writable_def demo_patch_env_def page_start_def Let_def)

lemma demo_apart: "apart demo_patch_env"
  by (auto simp: apart_def demo_redirected window_def lessThan_nat_numeral lessThan_Suc)

end
