(* ===== verification/Libcrypto.thy ===== *)
theory Libcrypto
  imports Chain_Verify "HOL-Library.Sublist"
begin

text \<open>
  Model of the part of \<open>src/src/tls12_chainverify.c\<close> that every user of libcrypto goes through:
  the initialisation of the library, once per process, the lock callback that it installs, and the
  verification by hand of one ECDSA-SHA2 signature and of one validity period. The routines of
  \<open>src/src/tls12_trusteval.c\<close> that repeat these checks are here too.

  The functions that the code resolves with \<open>dlsym\<close> are the fields of the record \<open>libcrypto\<close>; they
  have the names of the function pointers in the source. The lemmas show that two certificates are linked exactly when
  the signature of one verifies under the EC key of the other, and, over all interleavings of
  threads, that a handle is only given out when libcrypto is protected by locks.
\<close>

section \<open>Certificates as the code sees them\<close>

text \<open>
  The heads of the structures of libcrypto 0.9.8; a pointer that may be NULL is an option, and
  the members that the code never reads are one opaque field.
\<close>

record tls12_val =
  notBefore :: "bytes option"
  notAfter :: "bytes option"

record tls12_cinf_head =
  cinf_rest :: bytes
  validity :: "tls12_val option"

record tls12_algor =
  algor_algorithm :: "bytes option"
  algor_parameter :: "bytes option"

record tls12_x509_head =
  cert_info :: "tls12_cinf_head option"
  sig_alg :: "tls12_algor option"
  x509_signature :: "bytes option"
  x509_rest :: bytes

type_synonym X509 = tls12_x509_head

text \<open>
  The library. Calls that may be made twice in one evaluation and that depend on the world (the
  allocation of a context, the reading of the anchors) have the number of the call as an argument;
  \<open>pVerify\<close> gives the return value of \<open>X509_verify_cert\<close> together with the error in the context.
\<close>

record libcrypto =
  dlopen_ok :: bool
  hasSymbol :: "string \<Rightarrow> bool"
  pNumLocks :: int
  callocOk :: "int \<Rightarrow> bool"
  mutexInitOk :: "nat \<Rightarrow> bool"
  pCmp :: "bytes \<Rightarrow> int"
  pi2d_cinf :: "tls12_cinf_head \<Rightarrow> bytes option"
  pObj2nid :: "bytes \<Rightarrow> int"
  CC_SHA256 :: "bytes \<Rightarrow> bytes"
  CC_SHA384 :: "bytes \<Rightarrow> bytes"
  CC_SHA512 :: "bytes \<Rightarrow> bytes"
  pStrData :: "bytes \<Rightarrow> bytes option"
  pGetPub :: "X509 \<Rightarrow> bytes option"
  pGetEC :: "bytes \<Rightarrow> bytes option"
  pECDSA :: "bytes \<Rightarrow> bytes \<Rightarrow> bytes \<Rightarrow> int"
  pd2i :: "bytes \<Rightarrow> X509 option"
  psk_new :: bool
  psk_push :: "X509 list \<Rightarrow> X509 \<Rightarrow> bool"
  pStore_new :: bool
  pStore_add :: "X509 list \<Rightarrow> X509 \<Rightarrow> bool"
  pBIO_new_file :: "nat \<Rightarrow> X509 list option"
  pCtx_new :: "nat \<Rightarrow> bool"
  pCtx_init :: "X509 list \<Rightarrow> X509 \<Rightarrow> X509 list option \<Rightarrow> bool"
  pVerify :: "X509 list \<Rightarrow> X509 \<Rightarrow> X509 list option \<Rightarrow> int \<times> int"
  pExtByNID :: "X509 \<Rightarrow> int \<Rightarrow> int"
  pGetExt :: "X509 \<Rightarrow> int \<Rightarrow> bytes option"
  pExtData :: "bytes \<Rightarrow> bytes option"

section \<open>Initialisation, once per process\<close>

text \<open>A mutex of the array: zeroed by \<open>calloc\<close>, ready and free, held by a thread, destroyed.\<close>

datatype mutex = Zeroed | Free | Held nat | Destroyed

text \<open>The lock callback that libcrypto has: one of another library, or the one of this program.\<close>

datatype locking_callback = OtherCallback | Tls12Callback

text \<open>\<open>registered\<close> says whether algorithms have been registered and which lock callback libcrypto had at that moment.\<close>

record libcrypto_globals =
  once_done :: bool
  g_libcrypto_h :: bool
  g_libcrypto_ok :: bool
  g_openssl_locks :: "mutex list option"
  g_openssl_nlocks :: int
  locking_cb :: "locking_callback option"
  id_cb :: bool
  registered :: "locking_callback option option"

definition process_start :: libcrypto_globals where
  "process_start = \<lparr>once_done = False, g_libcrypto_h = False, g_libcrypto_ok = False, g_openssl_locks = None,
     g_openssl_nlocks = 0, locking_cb = None, id_cb = False, registered = None\<rparr>"

text \<open>The rollback \<open>while (i > 0) pthread_mutex_destroy(&g_openssl_locks[--i])\<close>.\<close>

fun destroy_locks :: "nat \<Rightarrow> mutex list \<Rightarrow> mutex list" where
  "destroy_locks 0 locks = locks"
| "destroy_locks (Suc i) locks = destroy_locks i (locks[i := Destroyed])"

text \<open>
  The loop that initialises the array: \<open>Inr\<close> is the array when all mutexes could be initialised,
  \<open>Inl\<close> the array as it is freed after a failure.
\<close>

function init_locks :: "(nat \<Rightarrow> bool) \<Rightarrow> nat \<Rightarrow> mutex list \<Rightarrow> mutex list + mutex list" where
  "init_locks ok i locks =
     (if i < length locks
      then (if \<not> ok i then Inl (destroy_locks i locks) else init_locks ok (i + 1) (locks[i := Free]))
      else Inr locks)"
  by pat_completeness auto
termination
  by (relation "measure (\<lambda>(ok, i, locks). length locks - i)") auto

declare init_locks.simps [simp del]

definition lock_symbols :: "string list" where
  "lock_symbols = [''CRYPTO_num_locks'', ''CRYPTO_set_locking_callback'', ''CRYPTO_set_id_callback'',
     ''CRYPTO_get_locking_callback'']"

definition install_locks :: "libcrypto \<Rightarrow> libcrypto_globals \<Rightarrow> libcrypto_globals" where
  "install_locks L g =
     (if \<not> list_all (hasSymbol L) lock_symbols then g
      else if locking_cb g \<noteq> None then g\<lparr>g_libcrypto_ok := True\<rparr>
      else (let n = pNumLocks L; g = g\<lparr>g_openssl_nlocks := n\<rparr> in
            if n > 0 \<and> callocOk L n
            then (case init_locks (mutexInitOk L) 0 (replicate (nat n) Zeroed) of
                    Inl _ \<Rightarrow> g\<lparr>g_openssl_locks := None\<rparr>
                  | Inr locks \<Rightarrow> g\<lparr>g_openssl_locks := Some locks, locking_cb := Some Tls12Callback, id_cb := True,
                      g_libcrypto_ok := True\<rparr>)
            else g))"

definition register_algorithms :: "libcrypto \<Rightarrow> libcrypto_globals \<Rightarrow> libcrypto_globals" where
  "register_algorithms L g =
     (let all = hasSymbol L ''OpenSSL_add_all_algorithms'' \<or> hasSymbol L ''OPENSSL_add_all_algorithms_noconf'';
          dig = hasSymbol L ''OpenSSL_add_all_digests''
      in if all \<or> dig then g\<lparr>registered := Some (locking_cb g)\<rparr> else g)"

definition tls12_init_libcrypto_once :: "libcrypto \<Rightarrow> libcrypto_globals \<Rightarrow> libcrypto_globals" where
  "tls12_init_libcrypto_once L g =
     (if \<not> dlopen_ok L then g\<lparr>g_libcrypto_h := False\<rparr>
      else register_algorithms L (install_locks L (g\<lparr>g_libcrypto_h := True\<rparr>)))"

text \<open>The accessor: a handle or NULL. The state \<open>once_done\<close> is that of \<open>g_libcrypto_once\<close>.\<close>

definition tls12_libcrypto_handle :: "libcrypto \<Rightarrow> libcrypto_globals \<Rightarrow> bool \<times> libcrypto_globals" where
  "tls12_libcrypto_handle L g =
     (let g = (if once_done g then g else (tls12_init_libcrypto_once L g)\<lparr>once_done := True\<rparr>)
      in if \<not> g_libcrypto_ok g then (False, g) else (g_libcrypto_h g, g))"

section \<open>The lock callback\<close>

text \<open>
  Locking a mutex that is held has to wait and unlocking a mutex is allowed to its holder; a mutex
  that has not been initialised, or that has been destroyed, must not be used. In these cases there is no result.
\<close>

fun pthread_mutex_lock :: "nat \<Rightarrow> mutex \<Rightarrow> mutex option" where
  "pthread_mutex_lock t Free = Some (Held t)"
| "pthread_mutex_lock t _ = None"

fun pthread_mutex_unlock :: "nat \<Rightarrow> mutex \<Rightarrow> mutex option" where
  "pthread_mutex_unlock t (Held u) = (if t = u then Some Free else None)"
| "pthread_mutex_unlock t _ = None"

definition TLS12_CRYPTO_LOCK :: "32 word" where
  "TLS12_CRYPTO_LOCK = 0x01"

text \<open>The callback, run by thread \<open>t\<close>; an index outside of the array has no result.\<close>

definition tls12_openssl_locking_cb :: "nat \<Rightarrow> 32 word \<Rightarrow> nat \<Rightarrow> libcrypto_globals \<Rightarrow> libcrypto_globals option" where
  "tls12_openssl_locking_cb t mode n g =
     (case g_openssl_locks g of
        None \<Rightarrow> Some g
      | Some locks \<Rightarrow>
          if n \<ge> length locks then None
          else do { m \<leftarrow> (if mode AND TLS12_CRYPTO_LOCK \<noteq> 0 then pthread_mutex_lock t (locks ! n)
                          else pthread_mutex_unlock t (locks ! n));
                    Some (g\<lparr>g_openssl_locks := Some (locks[n := m])\<rparr>) })"

text \<open>
  What the threads of a process do with libcrypto: ask for the handle (with the answer), enter and leave a critical
  section of libcrypto through the callback of this program, install the callback of another
  library. \<open>pthread_once\<close> makes a call of the accessor one step.
\<close>

datatype event = Handle nat bool | Enter nat nat | Leave nat nat | Install

inductive lc_step :: "libcrypto \<Rightarrow> libcrypto_globals \<Rightarrow> event \<Rightarrow> libcrypto_globals \<Rightarrow> bool" for L where
  handle: "tls12_libcrypto_handle L g = (r, g') \<Longrightarrow> lc_step L g (Handle t r) g'"
| enter: "locking_cb g = Some Tls12Callback \<Longrightarrow> int n < g_openssl_nlocks g \<Longrightarrow>
    tls12_openssl_locking_cb t TLS12_CRYPTO_LOCK n g = Some g' \<Longrightarrow> lc_step L g (Enter t n) g'"
| leave: "locking_cb g = Some Tls12Callback \<Longrightarrow> int n < g_openssl_nlocks g \<Longrightarrow>
    tls12_openssl_locking_cb t 0 n g = Some g' \<Longrightarrow> lc_step L g (Leave t n) g'"
| install: "lc_step L g Install (g\<lparr>locking_cb := Some OtherCallback\<rparr>)"

inductive lc_run :: "libcrypto \<Rightarrow> libcrypto_globals \<Rightarrow> event list \<Rightarrow> libcrypto_globals \<Rightarrow> bool" for L where
  start: "lc_run L g [] g"
| snoc: "lc_run L g es g' \<Longrightarrow> lc_step L g' e g'' \<Longrightarrow> lc_run L g (es @ [e]) g''"

inductive_cases lc_stepE: "lc_step L g e g'"

inductive_cases lc_run_NilE: "lc_run L g [] g'"

section \<open>One validity period\<close>

definition tls12_cert_time_ok :: "libcrypto \<Rightarrow> X509 \<Rightarrow> bool" where
  "tls12_cert_time_ok L x =
     (if \<not> hasSymbol L ''X509_cmp_current_time'' then False
      else case cert_info x of
        None \<Rightarrow> False
      | Some ci \<Rightarrow>
          (case validity ci of
             None \<Rightarrow> False
           | Some v \<Rightarrow>
               (case (notBefore v, notAfter v) of
                  (Some b, Some a) \<Rightarrow> (let nb = pCmp L b; na = pCmp L a in if nb \<ge> 0 \<or> na \<le> 0 then False else True)
                | _ \<Rightarrow> False)))"

definition tls12_trust_time_ok :: "libcrypto \<Rightarrow> X509 \<Rightarrow> bool" where
  "tls12_trust_time_ok L x =
     (hasSymbol L ''X509_cmp_current_time'' \<and>
      (case cert_info x of
         Some ci \<Rightarrow>
           (case validity ci of
              Some v \<Rightarrow>
                (case (notBefore v, notAfter v) of
                   (Some b, Some a) \<Rightarrow> (let nb = pCmp L b; na = pCmp L a in \<not> (nb \<ge> 0 \<or> na \<le> 0))
                 | _ \<Rightarrow> False)
            | None \<Rightarrow> False)
       | None \<Rightarrow> False))"

section \<open>One ECDSA-SHA2 signature\<close>

definition NID_ecdsa_with_SHA256 :: int where "NID_ecdsa_with_SHA256 = 794"
definition NID_ecdsa_with_SHA384 :: int where "NID_ecdsa_with_SHA384 = 795"
definition NID_ecdsa_with_SHA512 :: int where "NID_ecdsa_with_SHA512 = 796"

definition ecdsa_symbols :: "string list" where
  "ecdsa_symbols = [''i2d_X509_CINF'', ''X509_get_pubkey'', ''EVP_PKEY_free'', ''EVP_PKEY_get1_EC_KEY'', ''EC_KEY_free'',
     ''ECDSA_verify'', ''OBJ_obj2nid'', ''ASN1_STRING_data'', ''ASN1_STRING_length'']"

text \<open>The two \<open>switch\<close> statements over the signature algorithm.\<close>

definition ecdsa_digest :: "libcrypto \<Rightarrow> int \<Rightarrow> (bytes \<Rightarrow> bytes) option" where
  "ecdsa_digest L signid =
     (if signid = NID_ecdsa_with_SHA256 then Some (CC_SHA256 L)
      else if signid = NID_ecdsa_with_SHA384 then Some (CC_SHA384 L)
      else if signid = NID_ecdsa_with_SHA512 then Some (CC_SHA512 L)
      else None)"

text \<open>The last part of the routine: the EC key of the issuer and the verification itself.\<close>

definition issuer_verify :: "libcrypto \<Rightarrow> bytes \<Rightarrow> bytes \<Rightarrow> X509 \<Rightarrow> int" where
  "issuer_verify L md sig issuer =
     (case pGetPub L issuer of
        None \<Rightarrow> - 1
      | Some pkey \<Rightarrow>
          (case pGetEC L pkey of
             None \<Rightarrow> - 1
           | Some eckey \<Rightarrow> if pECDSA L md sig eckey = 1 then 1 else - 1))"

definition tls12_verify_ecdsa_sha2 :: "libcrypto \<Rightarrow> X509 \<Rightarrow> X509 \<Rightarrow> int" where
  "tls12_verify_ecdsa_sha2 L subject issuer =
     (if \<not> list_all (hasSymbol L) ecdsa_symbols then 0
      else case (cert_info subject, sig_alg subject, x509_signature subject) of
        (Some cinf, Some alg, Some bitstring) \<Rightarrow>
          (case algor_algorithm alg of
             None \<Rightarrow> 0
           | Some obj \<Rightarrow>
               (case ecdsa_digest L (pObj2nid L obj) of
                  None \<Rightarrow> 0
                | Some CC_SHA \<Rightarrow>
                    (case pi2d_cinf L cinf of
                       None \<Rightarrow> - 1
                     | Some tbs \<Rightarrow>
                         if tbs = [] then - 1
                         else (let md = CC_SHA tbs in
                               case pStrData L bitstring of
                                 None \<Rightarrow> - 1
                               | Some sig \<Rightarrow> if sig = [] then - 1 else issuer_verify L md sig issuer))))
      | _ \<Rightarrow> 0)"

text \<open>The routine of \<open>tls12_trusteval.c\<close>, with the steps in the order of that file.\<close>

definition tls12_trust_verify_ecdsa :: "libcrypto \<Rightarrow> X509 \<Rightarrow> X509 \<Rightarrow> int" where
  "tls12_trust_verify_ecdsa L subject issuer =
     (if \<not> list_all (hasSymbol L) ecdsa_symbols then 0
      else case (cert_info subject, sig_alg subject, x509_signature subject) of
        (Some cinf, Some alg, Some bitstring) \<Rightarrow>
          (case algor_algorithm alg of
             None \<Rightarrow> 0
           | Some obj \<Rightarrow>
               (let signid = pObj2nid L obj in
                if signid \<notin> {NID_ecdsa_with_SHA256, NID_ecdsa_with_SHA384, NID_ecdsa_with_SHA512} then 0
                else case pi2d_cinf L cinf of
                  None \<Rightarrow> - 1
                | Some tbs \<Rightarrow>
                    if tbs = [] then - 1
                    else (let md = (if signid = NID_ecdsa_with_SHA256 then CC_SHA256 L tbs
                                    else if signid = NID_ecdsa_with_SHA384 then CC_SHA384 L tbs else CC_SHA512 L tbs)
                          in case pStrData L bitstring of
                            None \<Rightarrow> - 1
                          | Some sig \<Rightarrow>
                              if sig = [] then - 1
                              else (case pGetPub L issuer of
                                      None \<Rightarrow> - 1
                                    | Some pkey \<Rightarrow>
                                        (case pGetEC L pkey of
                                           None \<Rightarrow> - 1
                                         | Some eckey \<Rightarrow>
                                             (let vr = pECDSA L md sig eckey in if vr = 1 then 1 else - 1))))))
      | _ \<Rightarrow> 0)"

section \<open>The array of mutexes\<close>

lemma length_destroy_locks [simp]: "length (destroy_locks i locks) = length locks"
  by (induction i locks rule: destroy_locks.induct) simp_all

lemma nth_destroy_locks:
  "j < length locks \<Longrightarrow> destroy_locks i locks ! j = (if j < i then Destroyed else locks ! j)"
proof (induction i locks rule: destroy_locks.induct)
  case (2 i locks)
  then show ?case by (auto simp: nth_list_update less_Suc_eq)
qed simp

definition usable :: "mutex \<Rightarrow> bool" where
  "usable m \<longleftrightarrow> m = Free \<or> (\<exists>t. m = Held t)"

lemma usable_simps [simp]: "usable Free" "usable (Held t)" "\<not> usable Zeroed" "\<not> usable Destroyed"
  by (simp_all add: usable_def)

text \<open>
  When the loop has begun with the first \<open>i\<close> mutexes initialised, it ends with all of them
  initialised, or it frees an array in which none is left initialised.
\<close>

lemma init_locks_result:
  assumes "\<forall>j < length locks. locks ! j = (if j < i then Free else Zeroed)" "i \<le> length locks"
  shows "(\<forall>ms. init_locks ok i locks = Inr ms \<longrightarrow> ms = replicate (length locks) Free \<and> (\<forall>j. i \<le> j \<and> j < length locks \<longrightarrow> ok j)) \<and>
    (\<forall>ms. init_locks ok i locks = Inl ms \<longrightarrow> (\<forall>m\<in>set ms. \<not> usable m))"
  using assms
proof (induction ok i locks rule: init_locks.induct)
  case (1 ok i locks)
  show ?case
  proof (cases "i < length locks \<and> ok i")
    case True
    have inv: "\<forall>j < length (locks[i := Free]). locks[i := Free] ! j = (if j < i + 1 then Free else Zeroed)"
      using 1(2) True by (auto simp: nth_list_update less_Suc_eq)
    have eq: "init_locks ok i locks = init_locks ok (i + 1) (locks[i := Free])"
      using True by (subst init_locks.simps) simp
    have from_i: "(\<forall>j. i \<le> j \<and> j < length locks \<longrightarrow> ok j) \<longleftrightarrow> (\<forall>j. i + 1 \<le> j \<and> j < length locks \<longrightarrow> ok j)"
      using True by (metis Suc_eq_plus1 le_eq_less_or_eq less_eq_Suc_le)
    show ?thesis
      unfolding eq from_i using 1(1) [OF _ _ inv] True by simp
  next
    case False
    have "locks = replicate (length locks) Free" if "\<not> i < length locks"
      using 1(2) that by (intro nth_equalityI) auto
    moreover have "\<not> usable m" if "m \<in> set (destroy_locks i locks)" for m
      using that 1(2) by (auto simp: in_set_conv_nth nth_destroy_locks split: if_split_asm)
    ultimately show ?thesis
      using False by (subst init_locks.simps, subst init_locks.simps) auto
  qed
qed

lemma init_locks_Inr:
  "init_locks ok 0 (replicate n Zeroed) = Inr ms \<Longrightarrow> ms = replicate n Free \<and> (\<forall>j<n. ok j)"
  using init_locks_result [of "replicate n Zeroed" 0 ok] by simp

lemma init_locks_Inl:
  "init_locks ok 0 (replicate n Zeroed) = Inl ms \<Longrightarrow> m \<in> set ms \<Longrightarrow> \<not> usable m"
  using init_locks_result [of "replicate n Zeroed" 0 ok] by simp

section \<open>Runs of a process\<close>

text \<open>
  The invariant: before the initialisation nothing is installed; a positive verdict comes with a
  callback, which was there when the algorithms were registered; the callback of this program comes with an array of usable mutexes.
\<close>

definition lc_inv :: "libcrypto_globals \<Rightarrow> bool" where
  "lc_inv g \<longleftrightarrow>
     (\<not> once_done g \<longrightarrow> \<not> g_libcrypto_ok g \<and> g_openssl_locks g = None \<and> locking_cb g \<noteq> Some Tls12Callback \<and> registered g = None) \<and>
     (g_libcrypto_ok g \<longrightarrow> g_libcrypto_h g \<and> locking_cb g \<noteq> None \<and> registered g \<noteq> Some None) \<and>
     (locking_cb g = Some Tls12Callback \<longrightarrow> g_openssl_locks g \<noteq> None) \<and>
     (\<forall>ms. g_openssl_locks g = Some ms \<longrightarrow> int (length ms) = g_openssl_nlocks g \<and> (\<forall>m\<in>set ms. usable m))"

lemma lc_inv_process_start: "lc_inv process_start"
  by (simp add: lc_inv_def process_start_def)

lemma lc_inv_install_locks:
  assumes "lc_inv g" "g_libcrypto_h g" "\<not> once_done g"
  shows "lc_inv ((install_locks L g)\<lparr>once_done := True\<rparr>)"
  using assms by (auto simp: lc_inv_def install_locks_def Let_def dest!: init_locks_Inr split: sum.split)

lemma lc_inv_register: "lc_inv (g\<lparr>once_done := True\<rparr>) \<Longrightarrow> lc_inv ((register_algorithms L g)\<lparr>once_done := True\<rparr>)"
  by (auto simp: register_algorithms_def lc_inv_def Let_def)

lemma lc_inv_init:
  assumes "lc_inv g" "\<not> once_done g"
  shows "lc_inv ((tls12_init_libcrypto_once L g)\<lparr>once_done := True\<rparr>)"
proof (cases "dlopen_ok L")
  case True
  have "lc_inv (g\<lparr>g_libcrypto_h := True\<rparr>)" using assms by (simp add: lc_inv_def)
  from lc_inv_register [OF lc_inv_install_locks [OF this, of L]] True assms(2) show ?thesis
    by (simp add: tls12_init_libcrypto_once_def)
next
  case False
  with assms show ?thesis by (simp add: tls12_init_libcrypto_once_def lc_inv_def)
qed

lemma tls12_libcrypto_handle_inv:
  assumes "lc_inv g" "tls12_libcrypto_handle L g = (r, g')"
  shows "lc_inv g' \<and> once_done g' \<and> r = g_libcrypto_ok g'"
proof -
  define g1 where "g1 = (if once_done g then g else (tls12_init_libcrypto_once L g)\<lparr>once_done := True\<rparr>)"
  have "lc_inv g1 \<and> once_done g1" using assms(1) lc_inv_init by (simp add: g1_def)
  moreover have "g' = g1 \<and> r = (g_libcrypto_ok g1 \<and> g_libcrypto_h g1)"
    using assms(2) by (auto simp: tls12_libcrypto_handle_def g1_def [symmetric] split: if_split_asm)
  ultimately show ?thesis by (auto simp: lc_inv_def)
qed

text \<open>After the first call the accessor changes nothing.\<close>

lemma tls12_libcrypto_handle_again:
  "once_done g \<Longrightarrow> tls12_libcrypto_handle L g = (g_libcrypto_ok g \<and> g_libcrypto_h g, g)"
  by (simp add: tls12_libcrypto_handle_def)

lemma mutex_result_usable:
  "pthread_mutex_lock t m = Some m' \<Longrightarrow> usable m'" "pthread_mutex_unlock t m = Some m' \<Longrightarrow> usable m'"
  by (cases m; auto split: if_split_asm)+

lemma tls12_openssl_locking_cb_Some:
  assumes "tls12_openssl_locking_cb t mode n g = Some g'" "g_openssl_locks g = Some ms"
  obtains m where "n < length ms" "g' = g\<lparr>g_openssl_locks := Some (ms[n := m])\<rparr>" "usable m"
    "(if mode AND TLS12_CRYPTO_LOCK \<noteq> 0 then pthread_mutex_lock t (ms ! n) else pthread_mutex_unlock t (ms ! n)) = Some m"
  using assms by (auto simp: tls12_openssl_locking_cb_def dest: mutex_result_usable elim!: bind_SomeE split: if_split_asm)

lemma tls12_openssl_locking_cb_None:
  "g_openssl_locks g = None \<Longrightarrow> tls12_openssl_locking_cb t mode n g = Some g' \<Longrightarrow> g' = g"
  by (simp add: tls12_openssl_locking_cb_def)

lemma lc_inv_locking_cb:
  assumes "lc_inv g" "tls12_openssl_locking_cb t mode n g = Some g'"
  shows "lc_inv g'"
proof (cases "g_openssl_locks g")
  case None
  with assms tls12_openssl_locking_cb_None show ?thesis by metis
next
  case (Some ms)
  from tls12_openssl_locking_cb_Some [OF assms(2) Some] obtain m
    where g': "g' = g\<lparr>g_openssl_locks := Some (ms[n := m])\<rparr>" and m: "usable m" by metis
  have "set (ms[n := m]) \<subseteq> insert m (set ms)" by (rule set_update_subset_insert)
  with assms(1) Some m show ?thesis by (auto simp: lc_inv_def g')
qed

lemma lc_inv_step: "lc_step L g e g' \<Longrightarrow> lc_inv g \<Longrightarrow> lc_inv g'"
proof (induction rule: lc_step.induct)
  case (install g)
  then show ?case by (auto simp: lc_inv_def)
qed (auto dest: tls12_libcrypto_handle_inv lc_inv_locking_cb)

lemma lc_inv_run: "lc_run L g es g' \<Longrightarrow> lc_inv g \<Longrightarrow> lc_inv g'"
  by (induction rule: lc_run.induct) (auto intro: lc_inv_step)

text \<open>Once initialised, the verdict of the process stays, and so does every answer.\<close>

lemma lc_step_verdict:
  assumes "lc_step L g e g'" "once_done g"
  shows "once_done g' \<and> g_libcrypto_ok g' = g_libcrypto_ok g \<and> g_openssl_nlocks g' = g_openssl_nlocks g"
  using assms
  by (cases rule: lc_step.cases)
    (auto simp: tls12_libcrypto_handle_again tls12_openssl_locking_cb_def elim!: bind_SomeE split: option.split_asm if_split_asm)

lemma lc_run_answers:
  "lc_run L g es g' \<Longrightarrow> lc_inv g \<Longrightarrow> Handle t r \<in> set es \<Longrightarrow> once_done g' \<and> r = g_libcrypto_ok g'"
proof (induction rule: lc_run.induct)
  case (snoc g es g' e g'')
  have inv: "lc_inv g'" using lc_inv_run snoc.hyps(1) snoc.prems(1) by blast
  show ?case
  proof (cases "Handle t r \<in> set es")
    case True
    with snoc lc_step_verdict [OF snoc.hyps(2)] show ?thesis by simp
  next
    case False
    with snoc.prems have "e = Handle t r" by simp
    with snoc.hyps(2) tls12_libcrypto_handle_inv [OF inv] show ?thesis by (auto elim: lc_stepE)
  qed
qed simp

text \<open>A mutex that a thread holds stays with it until that thread leaves.\<close>

definition holds :: "nat \<Rightarrow> nat \<Rightarrow> libcrypto_globals \<Rightarrow> bool" where
  "holds t n g \<longleftrightarrow> once_done g \<and> (\<exists>ms. g_openssl_locks g = Some ms \<and> n < length ms \<and> ms ! n = Held t)"

lemma holds_step:
  assumes "lc_step L g e g'" "holds t n g" "e \<noteq> Leave t n"
  shows "holds t n g' \<and> (\<forall>u. e \<noteq> Enter u n)"
proof -
  from assms(2) obtain ms where ms: "g_openssl_locks g = Some ms" "n < length ms" "ms ! n = Held t" and o: "once_done g"
    by (auto simp: holds_def)
  from assms(1) show ?thesis
  proof (cases rule: lc_step.cases)
    case (handle r u)
    with o assms(2) show ?thesis by (simp add: tls12_libcrypto_handle_again)
  next
    case (enter k u)
    from tls12_openssl_locking_cb_Some [OF enter(4) ms(1)] obtain m where
      "g' = g\<lparr>g_openssl_locks := Some (ms[k := m])\<rparr>" "pthread_mutex_lock u (ms ! k) = Some m"
      by (auto simp: TLS12_CRYPTO_LOCK_def)
    with ms o enter(1) show ?thesis by (cases "k = n") (auto simp: holds_def)
  next
    case (leave k u)
    from tls12_openssl_locking_cb_Some [OF leave(4) ms(1)] obtain m where
      "g' = g\<lparr>g_openssl_locks := Some (ms[k := m])\<rparr>" "pthread_mutex_unlock u (ms ! k) = Some m"
      by (auto simp: TLS12_CRYPTO_LOCK_def)
    with ms o leave(1) assms(3) show ?thesis by (cases "k = n") (auto simp: holds_def split: if_split_asm)
  next
    case install
    with assms(2) show ?thesis by (simp add: holds_def)
  qed
qed

lemma holds_run:
  "lc_run L g es g' \<Longrightarrow> holds t n g \<Longrightarrow> Leave t n \<notin> set es \<Longrightarrow> holds t n g' \<and> (\<forall>u. Enter u n \<notin> set es)"
  by (induction rule: lc_run.induct) (auto dest: holds_step)

lemma lc_run_append: "lc_run L g (us @ vs) g' \<longleftrightarrow> (\<exists>m. lc_run L g us m \<and> lc_run L m vs g')"
proof (induction vs arbitrary: g' rule: rev_induct)
  case Nil
  then show ?case by (auto intro: lc_run.start elim: lc_run_NilE)
next
  case (snoc e vs)
  have ext: "lc_run L g (xs @ [e]) g' \<longleftrightarrow> (\<exists>m. lc_run L g xs m \<and> lc_step L m e g')" for g xs
    by (auto intro: lc_run.snoc elim: lc_run.cases)
  show ?case unfolding append_assoc [symmetric] ext snoc.IH by blast
qed

lemma lc_run_Cons: "lc_run L g (e # es) g' \<longleftrightarrow> (\<exists>m. lc_step L g e m \<and> lc_run L m es g')"
proof -
  have "lc_run L g [e] m \<longleftrightarrow> lc_step L g e m" for m
  proof
    assume "lc_run L g [e] m"
    then show "lc_step L g e m" by cases (auto elim: lc_run_NilE)
  next
    assume "lc_step L g e m"
    then show "lc_run L g [e] m" using lc_run.snoc [OF lc_run.start, of L g e m] by simp
  qed
  then show ?thesis using lc_run_append [of L g "[e]" es g'] by simp
qed

lemma enter_holds:
  assumes "lc_step L g (Enter t n) g'" "lc_inv g"
  shows "holds t n g'"
  using assms(1)
proof (cases rule: lc_step.cases)
  case enter
  with assms(2) obtain ms where ms: "g_openssl_locks g = Some ms" and o: "once_done g" by (auto simp: lc_inv_def)
  from tls12_openssl_locking_cb_Some [OF enter(3) ms] obtain m where
    "n < length ms" "g' = g\<lparr>g_openssl_locks := Some (ms[n := m])\<rparr>" "pthread_mutex_lock t (ms ! n) = Some m"
    by (auto simp: TLS12_CRYPTO_LOCK_def)
  moreover from this have "m = Held t" by (cases "ms ! n") auto
  ultimately show ?thesis using o by (simp add: holds_def)
qed

text \<open>Two threads are never in the same critical section.\<close>

lemma critical_sections_exclude:
  assumes "lc_run L g (us @ Enter t n # vs) g'" "lc_inv g" "Leave t n \<notin> set vs"
  shows "Enter u n \<notin> set vs"
proof -
  from assms(1) obtain a b where r: "lc_run L g us a" "lc_step L a (Enter t n) b" "lc_run L b vs g'"
    by (auto simp: lc_run_append lc_run_Cons)
  from enter_holds [OF r(2)] lc_inv_run [OF r(1) assms(2)] have "holds t n b" by simp
  from holds_run [OF r(3) this assms(3)] show ?thesis by simp
qed

section \<open>Links between certificates\<close>

lemma tls12_trust_time_ok_eq: "tls12_trust_time_ok L x = tls12_cert_time_ok L x"
  by (auto simp: tls12_trust_time_ok_def tls12_cert_time_ok_def Let_def split: option.split)

lemma tls12_trust_verify_ecdsa_eq: "tls12_trust_verify_ecdsa L x y = tls12_verify_ecdsa_sha2 L x y"
  by (auto simp: tls12_trust_verify_ecdsa_def tls12_verify_ecdsa_sha2_def ecdsa_digest_def issuer_verify_def Let_def
      NID_ecdsa_with_SHA256_def NID_ecdsa_with_SHA384_def NID_ecdsa_with_SHA512_def split: option.split)

text \<open>What a positive answer means: the signature covers the re-encoded certificate, under the issuer's EC key.\<close>

definition ecdsa_signed :: "libcrypto \<Rightarrow> X509 \<Rightarrow> X509 \<Rightarrow> bool" where
  "ecdsa_signed L subject issuer \<longleftrightarrow>
     (\<exists>cinf alg bits obj md tbs sig pkey eckey.
        cert_info subject = Some cinf \<and> sig_alg subject = Some alg \<and> x509_signature subject = Some bits \<and>
        algor_algorithm alg = Some obj \<and> ecdsa_digest L (pObj2nid L obj) = Some md \<and>
        pi2d_cinf L cinf = Some tbs \<and> tbs \<noteq> [] \<and> pStrData L bits = Some sig \<and> sig \<noteq> [] \<and>
        pGetPub L issuer = Some pkey \<and> pGetEC L pkey = Some eckey \<and> pECDSA L (md tbs) sig eckey = 1)"

lemma tls12_verify_ecdsa_sha2_iff:
  "tls12_verify_ecdsa_sha2 L x y = 1 \<longleftrightarrow> list_all (hasSymbol L) ecdsa_symbols \<and> ecdsa_signed L x y"
proof -
  have "issuer_verify L md sig y = 1 \<longleftrightarrow> (\<exists>pkey eckey. pGetPub L y = Some pkey \<and> pGetEC L pkey = Some eckey \<and> pECDSA L md sig eckey = 1)"
    for md sig by (auto simp: issuer_verify_def split: option.split)
  then show ?thesis
    by (auto simp: tls12_verify_ecdsa_sha2_def ecdsa_signed_def Let_def split: option.split if_split)
qed

lemma tls12_verify_ecdsa_sha2_values: "tls12_verify_ecdsa_sha2 L x y \<in> {1, 0, - 1}"
  by (auto simp: tls12_verify_ecdsa_sha2_def issuer_verify_def Let_def split: option.split if_split)

end
