(* ===== verification/Trust_Eval.thy ===== *)
theory Trust_Eval
  imports Libcrypto
begin

text \<open>
  Model of \<open>src/src/tls12_trusteval.c\<close>, of \<open>sslVerifyCertChainOpenSSL\<close> of
  \<open>src/src/tls12_chainverify.c\<close> (the version with the manual verification of ECDSA-SHA2
  signatures that the framework is built with), and of the call that the patch of \<open>Trust.cpp\<close>
  adds to \<open>Trust::evaluate\<close>.

  Both verifications have the same second chance: when libcrypto reports a failed signature, every
  certificate but one must be signed by some other certificate of the list and the remaining one
  by an anchor. The locale \<open>link_check\<close> holds what follows from that test alone, and is
  interpreted on both routines that check a signature. The lemmas give the exact conditions of
  acceptance.
\<close>

section \<open>Names in a certificate\<close>

text \<open>The copies in \<open>tls12_trusteval.c\<close> of the two routines on names.\<close>

definition tls12_hostname_matches :: "bytes \<Rightarrow> bytes \<Rightarrow> bool" where
  "tls12_hostname_matches pattern host =
     (if length pattern = length host \<and> eq_nocase pattern host then True
      else if length pattern \<ge> 2 \<and> pattern ! 0 = 0x2A \<and> pattern ! 1 = 0x2E
      then (let psuf = drop 1 pattern; dot = dropWhile (\<lambda>b. b \<noteq> 0x2E) host in
            if dot \<noteq> [] \<and> length dot = length psuf \<and> eq_nocase psuf dot \<and> length host - length dot \<ge> 1
            then True else False)
      else False)"

function tls12_san_scan :: "bytes \<Rightarrow> bytes \<Rightarrow> nat \<Rightarrow> bool" where
  "tls12_san_scan der host i =
     (if i + 2 \<le> length der
      then (case der_length der i of
              None \<Rightarrow> tls12_san_scan der host (i + 1)
            | Some (len, lenbytes) \<Rightarrow>
                if der ! i = 0x82
                then (let off = i + 1 + lenbytes in
                      if off + len \<le> length der \<and> len > 0 \<and> tls12_hostname_matches (take len (drop off der)) host
                      then True
                      else tls12_san_scan der host (i + 1 + lenbytes + (if len > 0 then len else 0)))
                else if der ! i = 0x30 \<or> der ! i = 0xA0 then tls12_san_scan der host (i + 1 + lenbytes)
                else tls12_san_scan der host (i + 1 + lenbytes + (if len > 0 then len else 0)))
      else False)"
  by pat_completeness auto
termination
  by (relation "measure (\<lambda>(der, host, i). length der - i)") auto

declare tls12_san_scan.simps [simp del]

definition tls12_san_matches :: "bytes \<Rightarrow> bytes \<Rightarrow> bool" where
  "tls12_san_matches der host = tls12_san_scan der host 0"

definition NID_subject_alt_name :: int where "NID_subject_alt_name = 85"

text \<open>The contents of the subjectAltName extension of a certificate, when there are any.\<close>

definition san_of :: "libcrypto \<Rightarrow> X509 \<Rightarrow> bytes option" where
  "san_of L x =
     (let idx = pExtByNID L x NID_subject_alt_name in
      if idx < 0 then None
      else do { ext \<leftarrow> pGetExt L x idx; os \<leftarrow> pExtData L ext; der \<leftarrow> pStrData L os; if der = [] then None else Some der })"

section \<open>The kind of key in the leaf certificate\<close>

definition EC_OID :: bytes where
  "EC_OID = [0x06, 0x07, 0x2A, 0x86, 0x48, 0xCE, 0x3D, 0x02, 0x01]"

function ec_oid_scan :: "bytes \<Rightarrow> nat \<Rightarrow> bool" where
  "ec_oid_scan p i =
     (if i + length EC_OID \<le> length p
      then (if p ! i = EC_OID ! 0 \<and> take (length EC_OID) (drop i p) = EC_OID then True else ec_oid_scan p (i + 1))
      else False)"
  by pat_completeness auto
termination
  by (relation "measure (\<lambda>(p, i). length p - i)") (auto simp: EC_OID_def)

declare ec_oid_scan.simps [simp del]

text \<open>An array of references that may be NULL, itself possibly NULL; \<open>getData\<close> is \<open>SecCertificateGetData\<close>.\<close>

definition tls12LeafIsEC :: "('c \<Rightarrow> int \<times> bytes option) \<Rightarrow> 'c option list option \<Rightarrow> bool" where
  "tls12LeafIsEC getData certs =
     (case certs of
        Some (Some cr # _) \<Rightarrow>
          (case getData cr of
             (status, Some d) \<Rightarrow> if status \<noteq> 0 \<or> length d < 9 then False else ec_oid_scan d 0
           | _ \<Rightarrow> False)
      | _ \<Rightarrow> False)"

section \<open>The second chance\<close>

text \<open>For every certificate, whether some other certificate of the list verifies it.\<close>

definition verified_flags :: "('x \<Rightarrow> 'x \<Rightarrow> int) \<Rightarrow> 'x list \<Rightarrow> bool list" where
  "verified_flags verify certs =
     map (\<lambda>i. list_ex (\<lambda>j. i \<noteq> j \<and> verify (certs ! i) (certs ! j) = 1) [0..<length certs]) [0..<length certs]"

text \<open>The number of links that have been found, and the loop that counts the rest.\<close>

definition ec_links :: "bool list \<Rightarrow> nat" where
  "ec_links verified = length (filter (\<lambda>v. v) verified)"

definition unverified :: "bool list \<Rightarrow> nat \<times> int" where
  "unverified verified =
     foldl (\<lambda>(unver, topIdx) i. if \<not> verified ! i then (unver + 1, int i) else (unver, topIdx)) (0, - 1) [0..<length verified]"

text \<open>
  Whether the top of the chain is issued by an anchor: for libcrypto, or, when libcrypto reports a
  failed signature again, by the ECDSA-SHA2 signature under the key of an anchor of the bundle.
  The routine of \<open>tls12_trusteval.c\<close> does without the error code when libcrypto does not export it.
\<close>

definition top_is_anchored :: "libcrypto \<Rightarrow> (X509 \<Rightarrow> X509 \<Rightarrow> int) \<Rightarrow> X509 list \<Rightarrow> X509 \<Rightarrow> bool" where
  "top_is_anchored L verify store topCert =
     (if \<not> pCtx_new L 1 \<or> \<not> pCtx_init L store topCert None then False
      else (let (tvr, terr) = pVerify L store topCert None;
                terr = (if hasSymbol L ''X509_STORE_CTX_get_error'' then terr else 0)
            in if tvr = 1 then True
               else if terr = 7
               then (case pBIO_new_file L 1 of
                       None \<Rightarrow> False
                     | Some bundle \<Rightarrow> list_ex (\<lambda>ax. verify topCert ax = 1) bundle)
               else False))"

section \<open>The evaluation for SecTrust\<close>

definition trust_symbols :: "string list" where
  "trust_symbols = [''d2i_X509'', ''X509_free'', ''X509_STORE_new'', ''X509_STORE_free'', ''X509_STORE_add_cert'',
     ''X509_STORE_CTX_new'', ''X509_STORE_CTX_free'', ''X509_STORE_CTX_init'', ''X509_verify_cert'',
     ''sk_new_null'', ''sk_push'', ''sk_free'', ''BIO_new_file'', ''BIO_free'', ''PEM_read_bio_X509'',
     ''X509_get_ext_by_NID'', ''X509_get_ext'', ''X509_EXTENSION_get_data'', ''ASN1_STRING_data'', ''ASN1_STRING_length'']"

record parsed_certs =
  leafX :: "X509 option"
  owned :: "X509 list"
  untrusted :: "X509 list"

text \<open>The loop over the array, from index \<open>i\<close>; \<open>None\<close> is the jump to the error exit.\<close>

fun parse_certs :: "libcrypto \<Rightarrow> ('c \<Rightarrow> int \<times> bytes option) \<Rightarrow> nat \<Rightarrow> 'c option list \<Rightarrow> parsed_certs \<Rightarrow> parsed_certs option" where
  "parse_certs L getData i [] s = Some s"
| "parse_certs L getData i (cr # crs) s =
     (if length (owned s) \<ge> 64 then Some s
      else case cr of
        None \<Rightarrow> parse_certs L getData (i + 1) crs s
      | Some cr \<Rightarrow>
          (case getData cr of
             (status, Some d) \<Rightarrow>
               if status \<noteq> 0 \<or> d = [] then None
               else (case pd2i L d of
                       None \<Rightarrow> None
                     | Some x \<Rightarrow>
                         let s = s\<lparr>owned := owned s @ [x]\<rparr>;
                             s = (if i = 0 then s\<lparr>leafX := Some x\<rparr>
                                  else if psk_push L (untrusted s) x then s\<lparr>untrusted := untrusted s @ [x]\<rparr> else s)
                         in parse_certs L getData (i + 1) crs s)
           | _ \<Rightarrow> None))"

text \<open>The anchors that could be added to the store.\<close>

fun load_store :: "libcrypto \<Rightarrow> X509 list \<Rightarrow> X509 list \<Rightarrow> X509 list" where
  "load_store L store [] = store"
| "load_store L store (x # xs) = load_store L (if pStore_add L store x then store @ [x] else store) xs"

definition anchor_store :: "libcrypto \<Rightarrow> X509 list option" where
  "anchor_store L =
     (if \<not> pStore_new L then None
      else case pBIO_new_file L 0 of
        None \<Rightarrow> None
      | Some bundle \<Rightarrow> (let store = load_store L [] bundle in if store = [] then None else Some store))"

definition trust_by_hand :: "libcrypto \<Rightarrow> X509 list \<Rightarrow> X509 list \<Rightarrow> bool" where
  "trust_by_hand L store certs =
     (let verified = verified_flags (tls12_trust_verify_ecdsa L) certs;
          ecLinks = ec_links verified;
          (unver, topIdx) = unverified verified;
          ok = (unver = 1);
          ok = (ok \<and> list_all (tls12_trust_time_ok L) certs)
      in if ok \<and> ecLinks > 0 \<and> topIdx \<ge> 0
         then top_is_anchored L (tls12_trust_verify_ecdsa L) store (certs ! nat topIdx)
         else False)"

definition trust_verdict_by_libcrypto :: "libcrypto \<Rightarrow> X509 list \<Rightarrow> X509 \<Rightarrow> parsed_certs \<Rightarrow> int" where
  "trust_verdict_by_libcrypto L store leaf s =
     (let (vr, err) = pVerify L store leaf (Some (untrusted s)) in
      if vr = 1 then 0
      else (let err = (if hasSymbol L ''X509_STORE_CTX_get_error'' then err else 0)
            in if err = 7 then (if trust_by_hand L store (owned s) then 0 else - 1) else - 1))"

text \<open>The check of the host name: some certificate of the list has to present a matching name.\<close>

definition any_san_matches :: "libcrypto \<Rightarrow> X509 list \<Rightarrow> bytes \<Rightarrow> bool" where
  "any_san_matches L certs host =
     list_ex (\<lambda>x. case san_of L x of None \<Rightarrow> False | Some der \<Rightarrow> tls12_san_matches der host) certs"

definition trust_evaluate :: "libcrypto \<Rightarrow> ('c \<Rightarrow> int \<times> bytes option) \<Rightarrow> 'c option list \<Rightarrow> bytes option \<Rightarrow> int" where
  "trust_evaluate L getData certs hostname =
     (if certs = [] \<or> \<not> psk_new L then - 1
      else case parse_certs L getData 0 certs \<lparr>leafX = None, owned = [], untrusted = []\<rparr> of
        None \<Rightarrow> - 1
      | Some s \<Rightarrow>
          (case (leafX s, anchor_store L) of
             (Some leaf, Some store) \<Rightarrow>
               if \<not> pCtx_new L 0 \<or> \<not> pCtx_init L store leaf (Some (untrusted s)) then - 1
               else (let result = trust_verdict_by_libcrypto L store leaf s in
                     case hostname of
                       None \<Rightarrow> result
                     | Some host \<Rightarrow>
                         if result = 0 \<and> host \<noteq> [] then (if any_san_matches L (owned s) host then result else - 1)
                         else result)
           | _ \<Rightarrow> - 1))"

definition tls12TrustEvaluateOpenSSL ::
  "libcrypto \<Rightarrow> ('c \<Rightarrow> int \<times> bytes option) \<Rightarrow> libcrypto_globals \<Rightarrow> 'c option list option \<Rightarrow> bytes option \<Rightarrow>
   int \<times> libcrypto_globals" where
  "tls12TrustEvaluateOpenSSL L getData g certs hostname =
     (let (h, g) = tls12_libcrypto_handle L g in
      if \<not> h then (- 1, g)
      else if \<not> list_all (hasSymbol L) trust_symbols then (- 1, g)
      else case certs of
        None \<Rightarrow> (- 1, g)
      | Some certs \<Rightarrow> (trust_evaluate L getData certs hostname, g))"

section \<open>The verification in the handshake\<close>

fun parse_chain_ec :: "libcrypto \<Rightarrow> bytes list \<Rightarrow> X509 list option" where
  "parse_chain_ec L [] = Some []"
| "parse_chain_ec L (c # cs) = do { x \<leftarrow> pd2i L c; xs \<leftarrow> parse_chain_ec L cs; Some (x # xs) }"

definition swap :: "'x list \<Rightarrow> nat \<Rightarrow> nat \<Rightarrow> 'x list" where
  "swap xs i j = xs[i := xs ! j, j := xs ! i]"

text \<open>The unverified certificate is swapped to the end of the array \<open>all\<close>, and checked there.\<close>

definition chain_by_hand :: "libcrypto \<Rightarrow> X509 list \<Rightarrow> X509 list \<Rightarrow> bool" where
  "chain_by_hand L store all =
     (let nall = length all;
          verified = verified_flags (tls12_verify_ecdsa_sha2 L) all;
          ecLinks = ec_links verified;
          (unver, topIdx) = unverified verified;
          ok = (unver = 1);
          all = (if unver \<noteq> 1 then all else swap all (nall - 1) (nat topIdx));
          ok = (ok \<and> list_all (tls12_cert_time_ok L) all)
      in if ok \<and> ecLinks > 0
         then top_is_anchored L (tls12_verify_ecdsa_sha2 L) store (all ! (nall - 1))
         else False)"

definition san_self_check_ec :: "libcrypto \<Rightarrow> SSLContext \<Rightarrow> X509 \<Rightarrow> bool" where
  "san_self_check_ec L ctx leaf =
     (case (peerDomainName ctx, san_of L leaf) of
        (Some host, Some der) \<Rightarrow> host \<noteq> [] \<and> san_der_matches_host der host
      | _ \<Rightarrow> False)"

text \<open>The verdict for a parsed list; the outcome of the check of the host name is only logged.\<close>

definition chain_verdict_ec :: "libcrypto \<Rightarrow> SSLContext \<Rightarrow> X509 \<Rightarrow> X509 list \<Rightarrow> OSStatus" where
  "chain_verdict_ec L ctx leaf rest =
     (case anchor_store L of
        None \<Rightarrow> errSSLXCertChainInvalid
      | Some store \<Rightarrow>
          (let intermediates = take 62 rest; store = load_store L store intermediates in
           if \<not> pCtx_new L 0 \<or> \<not> pCtx_init L store leaf None then errSSLXCertChainInvalid
           else (let (vr, err) = pVerify L store leaf None;
                     result = (if vr = 1 then noErr
                               else if err = 7 then (if chain_by_hand L store (leaf # intermediates) then noErr else errSSLXCertChainInvalid)
                               else errSSLXCertChainInvalid);
                     hostOK = (result = noErr \<and> san_self_check_ec L ctx leaf)
                 in if \<not> hostOK then result else result)))"

definition sslVerifyCertChainOpenSSL_ec ::
  "libcrypto \<Rightarrow> libcrypto_globals \<Rightarrow> SSLContext \<Rightarrow> bytes list \<Rightarrow> OSStatus \<times> libcrypto_globals" where
  "sslVerifyCertChainOpenSSL_ec L g ctx certChain =
     (let (h, g) = tls12_libcrypto_handle L g in
      if \<not> h \<or> \<not> list_all (hasSymbol L) verify_symbols then (errSSLXCertChainInvalid, g)
      else case parse_chain_ec L certChain of
        Some (leaf # rest) \<Rightarrow> (chain_verdict_ec L ctx leaf rest, g)
      | _ \<Rightarrow> (errSSLXCertChainInvalid, g))"

section \<open>The call in \<open>Trust::evaluate\<close>\<close>

text \<open>
  A policy as the code reads it: its OID, and the size and the server name of its value. \<open>sz\<close> is
  \<open>sizeof(CSSM_APPLE_TP_SSL_OPTIONS)\<close>: 16 when pointers have 32 bits and 24 when they have 64.
\<close>

record trust_policy =
  policyOID :: "int \<times> bytes"
  policyValue :: "int \<times> (nat \<times> bytes option) option"

definition CSSMOID_APPLE_TP_SSL :: bytes where
  "CSSMOID_APPLE_TP_SSL = [0x2A, 0x86, 0x48, 0x86, 0xF7, 0x63, 0x64, 0x01, 0x03]"

fun ssl_server_name :: "nat \<Rightarrow> trust_policy option list \<Rightarrow> bytes option" where
  "ssl_server_name sz [] = None"
| "ssl_server_name sz (None # pols) = ssl_server_name sz pols"
| "ssl_server_name sz (Some pol # pols) =
     (if fst (policyOID pol) = 0 \<and> snd (policyOID pol) = CSSMOID_APPLE_TP_SSL
      then (case policyValue pol of
              (status, Some (len, Some name)) \<Rightarrow> if status = 0 \<and> len \<ge> sz \<and> name \<noteq> [] then Some name else None
            | _ \<Rightarrow> None)
      else ssl_server_name sz pols)"

definition trust_fallback ::
  "nat \<Rightarrow> libcrypto \<Rightarrow> ('c \<Rightarrow> int \<times> bytes option) \<Rightarrow> libcrypto_globals \<Rightarrow> trust_policy option list option \<Rightarrow>
   'c option list option \<Rightarrow> CSSM_RETURN \<Rightarrow> CSSM_RETURN \<times> libcrypto_globals" where
  "trust_fallback sz L getData g mPolicies mFilteredCerts mTpReturn =
     (if mTpReturn \<noteq> CSSM_OK \<and> mFilteredCerts \<noteq> None
      then (let hn = (case mPolicies of None \<Rightarrow> None | Some pols \<Rightarrow> ssl_server_name sz pols);
                (r, g) = tls12TrustEvaluateOpenSSL L getData g mFilteredCerts hn
            in (if r = 0 then CSSM_OK else mTpReturn, g))
      else (mTpReturn, g))"

section \<open>The copies agree with the originals\<close>

lemma tls12_hostname_matches_eq: "tls12_hostname_matches pattern host = hostname_matches pattern host"
  by (auto simp: tls12_hostname_matches_def hostname_matches_def Let_def)

lemma tls12_san_scan_eq: "tls12_san_scan der host i = san_scan der host i"
proof (induction der host i rule: san_scan.induct)
  case (1 der host i)
  show ?case
  proof (cases "i + 2 \<le> length der")
    case True
    have zero: "(if len > 0 then len else 0) = len" for len :: nat by simp
    from True 1 show ?thesis
      unfolding tls12_san_scan.simps [of der host i] san_scan.simps [of der host i] zero
      by (auto simp: tls12_hostname_matches_eq Let_def split: option.split)
  next
    case False
    then show ?thesis by (simp add: tls12_san_scan.simps san_scan.simps)
  qed
qed

lemma tls12_san_matches_eq: "tls12_san_matches der host = san_der_matches_host der host"
  by (simp add: tls12_san_matches_def san_der_matches_host_def tls12_san_scan_eq)

section \<open>The search for the OID\<close>

lemma ec_oid_scan_iff: "ec_oid_scan p i \<longleftrightarrow> (\<exists>j \<ge> i. j + length EC_OID \<le> length p \<and> take (length EC_OID) (drop j p) = EC_OID)"
proof (induction p i rule: ec_oid_scan.induct)
  case (1 p i)
  have first: "p ! i = EC_OID ! 0" if "i + length EC_OID \<le> length p" "take (length EC_OID) (drop i p) = EC_OID"
  proof -
    have "EC_OID \<noteq> []" by (simp add: EC_OID_def)
    with that show ?thesis by (metis (no_types) add_0_right length_greater_0_conv nth_drop nth_take le_add1 le_trans)
  qed
  have split: "(\<exists>j \<ge> i. P j) \<longleftrightarrow> P i \<or> (\<exists>j \<ge> i + 1. P j)" for P :: "nat \<Rightarrow> bool"
    by (metis Suc_eq_plus1 Suc_leD le_eq_less_or_eq less_eq_Suc_le)
  show ?case
  proof (cases "i + length EC_OID \<le> length p")
    case True
    then show ?thesis
      unfolding split [of "\<lambda>j. j + length EC_OID \<le> length p \<and> take (length EC_OID) (drop j p) = EC_OID"]
      using 1 first by (subst ec_oid_scan.simps) auto
  next
    case False
    then show ?thesis by (subst ec_oid_scan.simps) auto
  qed
qed

lemma take_drop_sublist_iff: "(\<exists>j. j + length xs \<le> length p \<and> take (length xs) (drop j p) = xs) \<longleftrightarrow> sublist xs p"
proof
  assume "\<exists>j. j + length xs \<le> length p \<and> take (length xs) (drop j p) = xs"
  then obtain j where "take (length xs) (drop j p) = xs" by blast
  then have "p = take j p @ xs @ drop (length xs) (drop j p)" by (metis append_take_drop_id)
  then show "sublist xs p" by (metis sublist_appendI)
next
  assume "sublist xs p"
  then obtain ps ss where "p = ps @ xs @ ss" by (auto simp: sublist_def)
  then have "length ps + length xs \<le> length p \<and> take (length xs) (drop (length ps) p) = xs" by simp
  then show "\<exists>j. j + length xs \<le> length p \<and> take (length xs) (drop j p) = xs" by blast
qed

lemma ec_oid_scan_sublist: "ec_oid_scan p 0 \<longleftrightarrow> sublist EC_OID p"
  using ec_oid_scan_iff [of p 0] take_drop_sublist_iff [of EC_OID p] by simp

lemma sublist_EC_OID_length: "sublist EC_OID p \<Longrightarrow> 9 \<le> length p"
  using sublist_length_le [of EC_OID p] by (simp add: EC_OID_def)

section \<open>What the second chance tests\<close>

lemma length_verified_flags [simp]: "length (verified_flags verify certs) = length certs"
  by (simp add: verified_flags_def)

lemma nth_verified_flags:
  "i < length certs \<Longrightarrow>
   verified_flags verify certs ! i \<longleftrightarrow> (\<exists>j < length certs. i \<noteq> j \<and> verify (certs ! i) (certs ! j) = 1)"
  by (auto simp: verified_flags_def list_ex_iff)

lemma unverified_snoc:
  "unverified (vs @ [v]) = (if v then unverified vs else (fst (unverified vs) + 1, int (length vs)))"
proof -
  have "foldl (\<lambda>(unver, topIdx) i. if \<not> (vs @ [v]) ! i then (unver + 1, int i) else (unver, topIdx)) s [0..<length vs] =
    foldl (\<lambda>(unver, topIdx) i. if \<not> vs ! i then (unver + 1, int i) else (unver, topIdx)) s [0..<length vs]" for s :: "nat \<times> int"
    by (intro foldl_cong) (auto simp: nth_append)
  then show ?thesis by (auto simp: unverified_def split: prod.split)
qed

lemma unverified_none: "fst (unverified vs) = 0 \<longleftrightarrow> (\<forall>i < length vs. vs ! i)"
  by (induction vs rule: rev_induct)
    (auto simp: unverified_snoc unverified_def [of "[]"] nth_append less_Suc_eq)

text \<open>The loop counts one unverified certificate exactly when there is one, and remembers it.\<close>

lemma unverified_one:
  "unverified vs = (1, topIdx) \<longleftrightarrow>
   (\<exists>i. topIdx = int i \<and> i < length vs \<and> (\<forall>j < length vs. vs ! j \<longleftrightarrow> j \<noteq> i))"
proof (induction vs rule: rev_induct)
  case Nil
  then show ?case by (simp add: unverified_def)
next
  case (snoc v vs)
  show ?case
  proof (cases v)
    case True
    with snoc show ?thesis by (auto simp: unverified_snoc nth_append less_Suc_eq)
  next
    case False
    then have "unverified (vs @ [v]) = (1, topIdx) \<longleftrightarrow> (\<forall>i < length vs. vs ! i) \<and> topIdx = int (length vs)"
      using unverified_none [of vs] by (auto simp: unverified_snoc)
    also have "\<dots> \<longleftrightarrow> (\<exists>i. topIdx = int i \<and> i < length (vs @ [v]) \<and> (\<forall>j < length (vs @ [v]). (vs @ [v]) ! j \<longleftrightarrow> j \<noteq> i))"
      using False by (auto simp: nth_append less_Suc_eq)
    finally show ?thesis .
  qed
qed

lemma ec_links_pos: "ec_links vs > 0 \<longleftrightarrow> (\<exists>i < length vs. vs ! i)"
proof -
  have "ec_links vs > 0 \<longleftrightarrow> (\<exists>v\<in>set vs. v)" by (simp add: ec_links_def filter_empty_conv)
  then show ?thesis by (simp only: set_conv_nth) blast
qed

text \<open>The links between the certificates of a list, by their indices.\<close>

definition issuer_graph :: "('x \<Rightarrow> 'x \<Rightarrow> bool) \<Rightarrow> 'x list \<Rightarrow> (nat \<times> nat) set" where
  "issuer_graph link certs =
     {(i, j). i < length certs \<and> j < length certs \<and> i \<noteq> j \<and> link (certs ! i) (certs ! j)}"

text \<open>The set of certificates is complete for the top \<open>t\<close>: all others are signed within the list.\<close>

definition single_top :: "('x \<Rightarrow> 'x \<Rightarrow> bool) \<Rightarrow> 'x list \<Rightarrow> nat \<Rightarrow> bool" where
  "single_top link certs t \<longleftrightarrow>
     t < length certs \<and> (\<forall>i < length certs. (\<exists>j. (i, j) \<in> issuer_graph link certs) \<longleftrightarrow> i \<noteq> t)"

lemma finite_issuer_graph: "finite (issuer_graph link certs)"
  by (rule finite_subset [of _ "{..<length certs} \<times> {..<length certs}"]) (auto simp: issuer_graph_def)

text \<open>
  What the second chance offers to its callers, for any routine that checks one signature: the
  certificates, when no signatures go round in a circle, all lead to the top.
\<close>

locale link_check =
  fixes verify :: "'x \<Rightarrow> 'x \<Rightarrow> int" and link :: "'x \<Rightarrow> 'x \<Rightarrow> bool"
  assumes verify_iff: "verify x y = 1 \<longleftrightarrow> link x y"
begin

lemma flag_iff:
  "i < length certs \<Longrightarrow> verified_flags verify certs ! i \<longleftrightarrow> (\<exists>j. (i, j) \<in> issuer_graph link certs)"
  by (auto simp: nth_verified_flags verify_iff issuer_graph_def)

lemma unverified_single_top:
  "unverified (verified_flags verify certs) = (1, topIdx) \<longleftrightarrow> (\<exists>t. topIdx = int t \<and> single_top link certs t)"
  unfolding unverified_one single_top_def by (simp add: flag_iff)

lemma links_of_single_top:
  assumes "single_top link certs t"
  shows "ec_links (verified_flags verify certs) > 0 \<longleftrightarrow> 1 < length certs"
proof
  assume "ec_links (verified_flags verify certs) > 0"
  then obtain i where i: "i < length certs" "\<exists>j. (i, j) \<in> issuer_graph link certs"
    by (auto simp: ec_links_pos flag_iff)
  with assms have "i \<noteq> t" "t < length certs" by (auto simp: single_top_def)
  with i show "1 < length certs" by linarith
next
  assume n: "1 < length certs"
  obtain i where "i < length certs" "i \<noteq> t" using n by (metis less_trans nat_neq_iff zero_less_one)
  with assms show "ec_links (verified_flags verify certs) > 0"
    by (auto simp: ec_links_pos flag_iff single_top_def)
qed

text \<open>The test itself, with whatever else is asked of the unverified certificate.\<close>

lemma second_chance:
  assumes "unverified (verified_flags verify certs) = (u, k)"
  shows "u = 1 \<and> ec_links (verified_flags verify certs) > 0 \<and> Q k \<longleftrightarrow>
    1 < length certs \<and> (\<exists>t. single_top link certs t \<and> Q (int t))"
proof -
  have "u = 1 \<longleftrightarrow> (\<exists>t. k = int t \<and> single_top link certs t)" "single_top link certs t \<Longrightarrow> u = 1 \<and> k = int t" for t
    using unverified_single_top [of certs] assms by auto
  then show ?thesis using links_of_single_top by metis
qed

lemma all_lead_to_top:
  assumes "single_top link certs t" "acyclic (issuer_graph link certs)" "i < length certs"
  shows "(i, t) \<in> (issuer_graph link certs)\<^sup>*"
proof -
  have "wf ((issuer_graph link certs)\<inverse>)"
    using finite_acyclic_wf_converse [OF finite_issuer_graph assms(2)] .
  then show ?thesis
    using assms(3)
  proof (induction i rule: wf_induct_rule)
    case (less i)
    show ?case
    proof (cases "i = t")
      case False
      then obtain j where j: "(i, j) \<in> issuer_graph link certs" using assms(1) less.prems by (auto simp: single_top_def)
      then have "j < length certs" by (simp add: issuer_graph_def)
      with less.IH j have "(j, t) \<in> (issuer_graph link certs)\<^sup>*" by simp
      with j show ?thesis by (rule converse_rtrancl_into_rtrancl)
    qed simp
  qed
qed

end

text \<open>Both routines that check a signature by hand meet the contract.\<close>

definition ec_signed :: "libcrypto \<Rightarrow> X509 \<Rightarrow> X509 \<Rightarrow> bool" where
  "ec_signed L x y \<longleftrightarrow> list_all (hasSymbol L) ecdsa_symbols \<and> ecdsa_signed L x y"

interpretation ssl: link_check "tls12_verify_ecdsa_sha2 L" "ec_signed L" for L
  by unfold_locales (simp add: tls12_verify_ecdsa_sha2_iff ec_signed_def)

interpretation sec: link_check "tls12_trust_verify_ecdsa L" "ec_signed L" for L
  by unfold_locales (simp add: tls12_trust_verify_ecdsa_eq tls12_verify_ecdsa_sha2_iff ec_signed_def)

section \<open>When a chain is accepted by hand\<close>

text \<open>The specification of the second chance: one top, anchored, and everything valid now.\<close>

definition accepted_by_hand :: "libcrypto \<Rightarrow> X509 list \<Rightarrow> X509 list \<Rightarrow> nat \<Rightarrow> bool" where
  "accepted_by_hand L store certs t \<longleftrightarrow>
     1 < length certs \<and> single_top (ec_signed L) certs t \<and> (\<forall>x\<in>set certs. tls12_cert_time_ok L x) \<and>
     top_is_anchored L (tls12_verify_ecdsa_sha2 L) store (certs ! t)"

lemma trust_by_hand_iff: "trust_by_hand L store certs \<longleftrightarrow> (\<exists>t. accepted_by_hand L store certs t)"
proof -
  obtain u k where u: "unverified (verified_flags (tls12_trust_verify_ecdsa L) certs) = (u, k)" by fastforce
  have eq: "tls12_trust_verify_ecdsa L = tls12_verify_ecdsa_sha2 L" "tls12_trust_time_ok L = tls12_cert_time_ok L"
    by (intro ext, simp add: tls12_trust_verify_ecdsa_eq tls12_trust_time_ok_eq)+
  let ?Q = "\<lambda>k. k \<ge> 0 \<and> (\<forall>x\<in>set certs. tls12_cert_time_ok L x) \<and>
    top_is_anchored L (tls12_verify_ecdsa_sha2 L) store (certs ! nat k)"
  have "trust_by_hand L store certs \<longleftrightarrow> u = 1 \<and> ec_links (verified_flags (tls12_trust_verify_ecdsa L) certs) > 0 \<and> ?Q k"
    unfolding trust_by_hand_def Let_def u by (auto simp: eq list_all_iff)
  also have "\<dots> \<longleftrightarrow> 1 < length certs \<and> (\<exists>t. single_top (ec_signed L) certs t \<and> ?Q (int t))"
    by (rule sec.second_chance [OF u])
  finally show ?thesis by (auto simp: accepted_by_hand_def)
qed

lemma swap_last:
  assumes "t < length xs"
  shows "set (swap xs (length xs - 1) t) = set xs" "swap xs (length xs - 1) t ! (length xs - 1) = xs ! t"
  using assms by (simp_all add: swap_def nth_list_update)

lemma chain_by_hand_iff: "chain_by_hand L store certs \<longleftrightarrow> (\<exists>t. accepted_by_hand L store certs t)"
proof -
  obtain u k where u: "unverified (verified_flags (tls12_verify_ecdsa_sha2 L) certs) = (u, k)" by fastforce
  define sw where "sw k = swap certs (length certs - 1) (nat k)" for k
  let ?Q = "\<lambda>k. (\<forall>x\<in>set (sw k). tls12_cert_time_ok L x) \<and>
    top_is_anchored L (tls12_verify_ecdsa_sha2 L) store (sw k ! (length certs - 1))"
  have "chain_by_hand L store certs \<longleftrightarrow> u = 1 \<and> ec_links (verified_flags (tls12_verify_ecdsa_sha2 L) certs) > 0 \<and> ?Q k"
    unfolding chain_by_hand_def Let_def u by (auto simp: list_all_iff sw_def)
  also have "\<dots> \<longleftrightarrow> 1 < length certs \<and> (\<exists>t. single_top (ec_signed L) certs t \<and> ?Q (int t))"
    by (rule ssl.second_chance [OF u])
  finally show ?thesis
    using swap_last [of _ certs] by (auto simp: accepted_by_hand_def single_top_def sw_def)
qed

section \<open>When a chain is accepted\<close>

lemma parse_certs_owned:
  "parse_certs L getData i crs s = Some s' \<Longrightarrow> length (owned s) \<le> 64 \<Longrightarrow>
   length (owned s') \<le> 64 \<and> (\<exists>xs. owned s' = owned s @ xs \<and> length xs \<le> length crs)"
proof (induction L getData i crs s rule: parse_certs.induct)
  case (2 L getData i cr crs s)
  show ?case
  proof (cases "length (owned s) \<ge> 64")
    case True
    with "2.prems" show ?thesis by auto
  next
    case False
    note IH = "2.IH" [OF False]
    show ?thesis
    proof (cases cr)
      case None
      with "2.prems" False IH(1) [OF None] show ?thesis by fastforce
    next
      case (Some c)
      with "2.prems" False obtain d x where d: "getData c = (0, Some d)" "d \<noteq> []" "pd2i L d = Some x"
        by (auto simp: Let_def split: prod.split_asm option.split_asm if_split_asm)
      show ?thesis
        using "2.prems" False Some d IH(2) [OF Some d(1) [symmetric] refl _ d(3) refl refl] by (fastforce simp: Let_def split: if_split_asm)
    qed
  qed
qed auto

text \<open>The exact condition of the SecTrust path, with the second chance as it is specified.\<close>

definition trust_accepts :: "libcrypto \<Rightarrow> X509 list \<Rightarrow> X509 \<Rightarrow> parsed_certs \<Rightarrow> bytes option \<Rightarrow> bool" where
  "trust_accepts L store leaf s hostname \<longleftrightarrow>
     (fst (pVerify L store leaf (Some (untrusted s))) = 1 \<or>
      hasSymbol L ''X509_STORE_CTX_get_error'' \<and> snd (pVerify L store leaf (Some (untrusted s))) = 7 \<and>
      (\<exists>t. accepted_by_hand L store (owned s) t)) \<and>
     (\<forall>host. hostname = Some host \<and> host \<noteq> [] \<longrightarrow> (\<exists>x\<in>set (owned s). \<exists>der. san_of L x = Some der \<and> san_der_matches_host der host))"

lemma any_san_matches_iff:
  "any_san_matches L certs host \<longleftrightarrow> (\<exists>x\<in>set certs. \<exists>der. san_of L x = Some der \<and> san_der_matches_host der host)"
  by (auto simp: any_san_matches_def list_ex_iff tls12_san_matches_eq split: option.split)

lemma trust_verdict_iff:
  "trust_verdict_by_libcrypto L store leaf s = 0 \<longleftrightarrow>
     fst (pVerify L store leaf (Some (untrusted s))) = 1 \<or>
     hasSymbol L ''X509_STORE_CTX_get_error'' \<and> snd (pVerify L store leaf (Some (untrusted s))) = 7 \<and>
     (\<exists>t. accepted_by_hand L store (owned s) t)"
  by (auto simp: trust_verdict_by_libcrypto_def trust_by_hand_iff Let_def split: prod.split)

lemma trust_evaluate_iff:
  "trust_evaluate L getData certs hostname = 0 \<longleftrightarrow>
     certs \<noteq> [] \<and> psk_new L \<and> pCtx_new L 0 \<and>
     (\<exists>s leaf store. parse_certs L getData 0 certs \<lparr>leafX = None, owned = [], untrusted = []\<rparr> = Some s \<and>
        leafX s = Some leaf \<and> anchor_store L = Some store \<and> pCtx_init L store leaf (Some (untrusted s)) \<and>
        trust_accepts L store leaf s hostname)"
  unfolding trust_evaluate_def trust_accepts_def any_san_matches_iff trust_verdict_iff [symmetric] Let_def
  by (cases hostname) (auto simp: any_san_matches_iff split: option.split)

lemma trust_evaluate_values: "trust_evaluate L getData certs hostname \<in> {0, - 1}"
  by (auto simp: trust_evaluate_def trust_verdict_by_libcrypto_def Let_def split: option.split prod.split)

lemma tls12TrustEvaluateOpenSSL_iff:
  "fst (tls12TrustEvaluateOpenSSL L getData g certs hostname) = 0 \<longleftrightarrow>
     fst (tls12_libcrypto_handle L g) \<and> list_all (hasSymbol L) trust_symbols \<and>
     (\<exists>crs. certs = Some crs \<and> trust_evaluate L getData crs hostname = 0)"
  by (auto simp: tls12TrustEvaluateOpenSSL_def Let_def split: prod.split option.split)

lemma chain_verdict_ec_iff:
  "chain_verdict_ec L ctx leaf rest = noErr \<longleftrightarrow>
     pCtx_new L 0 \<and>
     (\<exists>store. anchor_store L = Some store \<and>
        (let store = load_store L store (take 62 rest) in
         pCtx_init L store leaf None \<and>
         (fst (pVerify L store leaf None) = 1 \<or>
          snd (pVerify L store leaf None) = 7 \<and> (\<exists>t. accepted_by_hand L store (leaf # take 62 rest) t))))"
  by (auto simp: chain_verdict_ec_def chain_by_hand_iff Let_def split: option.split prod.split)

section \<open>The verdict of \<open>Trust::evaluate\<close>\<close>

text \<open>The conditions under which the library answers at all; the rest is up to the certificates.\<close>

definition libcrypto_works :: "libcrypto \<Rightarrow> libcrypto_globals \<Rightarrow> bool" where
  "libcrypto_works L g \<longleftrightarrow>
     fst (tls12_libcrypto_handle L g) \<and> (\<forall>s. hasSymbol L s) \<and> psk_new L \<and> (\<forall>k. pCtx_new L k) \<and>
     (\<forall>store x chain. pCtx_init L store x chain)"

lemma trust_fallback_iff:
  "fst (trust_fallback sz L getData g pols certs tp) = CSSM_OK \<longleftrightarrow>
     tp = CSSM_OK \<or> certs \<noteq> None \<and>
     fst (tls12TrustEvaluateOpenSSL L getData g certs (Option.bind pols (ssl_server_name sz))) = 0"
proof -
  have "(case pols of None \<Rightarrow> None | Some pols \<Rightarrow> ssl_server_name sz pols) = Option.bind pols (ssl_server_name sz)"
    by (cases pols) simp_all
  then show ?thesis
    by (auto simp: trust_fallback_def Let_def split: prod.split)
qed

lemma ssl_server_name_nonempty: "ssl_server_name sz pols \<noteq> Some []"
  by (induction sz pols rule: ssl_server_name.induct) (auto split: prod.split option.split)

text \<open>What stands behind an accepted evaluation.\<close>

lemma trust_fallback_accepts:
  assumes "fst (trust_fallback sz L getData g pols certs tp) = CSSM_OK" "tp \<noteq> CSSM_OK"
  obtains crs s leaf store where "certs = Some crs" "fst (tls12_libcrypto_handle L g)"
    "parse_certs L getData 0 crs \<lparr>leafX = None, owned = [], untrusted = []\<rparr> = Some s" "leafX s = Some leaf"
    "anchor_store L = Some store" "trust_accepts L store leaf s (Option.bind pols (ssl_server_name sz))"
  using assms by (auto simp: trust_fallback_iff tls12TrustEvaluateOpenSSL_iff trust_evaluate_iff)

lemma trust_fallback_accepted:
  assumes "libcrypto_works L g" "crs \<noteq> []"
    and "parse_certs L getData 0 crs \<lparr>leafX = None, owned = [], untrusted = []\<rparr> = Some s" "leafX s = Some leaf"
    and "anchor_store L = Some store" "trust_accepts L store leaf s (Option.bind pols (ssl_server_name sz))"
  shows "fst (trust_fallback sz L getData g pols (Some crs) tp) = CSSM_OK"
  using assms
  by (auto simp: trust_fallback_iff tls12TrustEvaluateOpenSSL_iff trust_evaluate_iff libcrypto_works_def list_all_iff)

text \<open>Two certificates that have signed each other, and a third one that is anchored.\<close>

lemma two_and_one_single_top:
  assumes "link A B" "link B A" "\<not> link C A" "\<not> link C B"
  shows "single_top link [A, B, C] 2"
  using assms by (auto simp: single_top_def issuer_graph_def nth_Cons' less_Suc_eq numeral_2_eq_2 numeral_3_eq_3)

lemma two_and_one_unconnected:
  assumes "\<not> link A C" "\<not> link B C"
  shows "(0, 2) \<notin> (issuer_graph link [A, B, C])\<^sup>*"
proof
  assume "(0, 2) \<in> (issuer_graph link [A, B, C])\<^sup>*"
  then obtain j where "(j, 2) \<in> issuer_graph link [A, B, C]"
    by (cases rule: rtrancl.cases) auto
  with assms show False
    by (auto simp: issuer_graph_def nth_Cons' less_Suc_eq numeral_2_eq_2 numeral_3_eq_3)
qed

lemma parse_chain_ec_append:
  "parse_chain_ec L (xs @ ys) = do { as \<leftarrow> parse_chain_ec L xs; bs \<leftarrow> parse_chain_ec L ys; Some (as @ bs) }"
  by (induction xs) (auto split: Option.bind_split)

lemma parse_chain_ec_rev: "parse_chain_ec L (rev xs) = map_option rev (parse_chain_ec L xs)"
  by (induction xs) (auto simp: parse_chain_ec_append split: Option.bind_split)

lemma sslVerifyCertChainOpenSSL_ec_iff:
  "fst (sslVerifyCertChainOpenSSL_ec L g ctx chain) = noErr \<longleftrightarrow>
     fst (tls12_libcrypto_handle L g) \<and> list_all (hasSymbol L) verify_symbols \<and>
     (\<exists>leaf rest. parse_chain_ec L chain = Some (leaf # rest) \<and> chain_verdict_ec L ctx leaf rest = noErr)"
  by (auto simp: sslVerifyCertChainOpenSSL_ec_def Let_def split: prod.split option.split list.split)

end
