(* ===== verification/Demo_Trust.thy ===== *)
theory Demo_Trust
  imports Trust_Eval
begin

text \<open>
  A concrete libcrypto and concrete certificates for the properties of the trust evaluation. Keys
  are named by one octet, the signature of a certificate is the name of the key that signed it followed by the signed
  octets, and certificates with an ECDSA-SHA2 signature are refused by \<open>X509_verify_cert\<close> with
  error 7, as libcrypto 0.9.8 does; all other signatures have to be of an anchor in the store.
\<close>

definition demo_cert :: "bool \<Rightarrow> byte \<Rightarrow> byte \<Rightarrow> X509" where
  "demo_cert ec key issuer =
     \<lparr>cert_info = Some \<lparr>cinf_rest = [key], validity = Some \<lparr>notBefore = Some [0], notAfter = Some [1]\<rparr>\<rparr>,
      sig_alg = Some \<lparr>algor_algorithm = Some [if ec then 1 else 0], algor_parameter = None\<rparr>,
      x509_signature = Some [issuer, 0x30, key], x509_rest = [key]\<rparr>"

definition demo_verify :: "X509 list \<Rightarrow> X509 \<Rightarrow> X509 list option \<Rightarrow> int \<times> int" where
  "demo_verify store x chain =
     (if sig_alg x = Some \<lparr>algor_algorithm = Some [1], algor_parameter = None\<rparr> then (0, 7)
      else if list_ex (\<lambda>a. x509_signature x = Some (x509_rest a @ 0x30 # x509_rest x)) store then (1, 0)
      else (0, 20))"

definition demo_anchor :: X509 where
  "demo_anchor = demo_cert False 9 9"

text \<open>Certificates by their encoding: the second octet is the key and the third the issuer's key.\<close>

definition demo_d2i :: "bytes \<Rightarrow> X509 option" where
  "demo_d2i der = (case der of [ec, key, issuer] \<Rightarrow> Some (demo_cert (ec = 1) key issuer) | _ \<Rightarrow> None)"

definition demo_host :: bytes where
  "demo_host = [0x61, 0x2E, 0x62]"

definition demo_libcrypto :: libcrypto where
  "demo_libcrypto =
     \<lparr>dlopen_ok = True, hasSymbol = (\<lambda>s. True), pNumLocks = 2, callocOk = (\<lambda>n. True), mutexInitOk = (\<lambda>i. True),
      pCmp = (\<lambda>t. if t = [0] then - 1 else 1),
      pi2d_cinf = (\<lambda>ci. Some (0x30 # cinf_rest ci)),
      pObj2nid = (\<lambda>obj. if obj = [1] then 794 else 6),
      CC_SHA256 = (\<lambda>m. m), CC_SHA384 = (\<lambda>m. m), CC_SHA512 = (\<lambda>m. m),
      pStrData = Some, pGetPub = (\<lambda>x. Some (x509_rest x)), pGetEC = Some,
      pECDSA = (\<lambda>md sig key. if sig = key @ md then 1 else 0),
      pd2i = demo_d2i, psk_new = True, psk_push = (\<lambda>st x. True), pStore_new = True, pStore_add = (\<lambda>st x. True),
      pBIO_new_file = (\<lambda>k. Some [demo_anchor]), pCtx_new = (\<lambda>k. True), pCtx_init = (\<lambda>store x chain. True),
      pVerify = demo_verify,
      pExtByNID = (\<lambda>x nid. if x509_rest x = [1] then 0 else - 1),
      pGetExt = (\<lambda>x idx. Some [0]), pExtData = (\<lambda>e. Some (san_extension [demo_host]))\<rparr>"

lemma demo_libcrypto_fields [simp]:
  "dlopen_ok demo_libcrypto" "hasSymbol demo_libcrypto s" "pNumLocks demo_libcrypto = 2" "callocOk demo_libcrypto n"
  "mutexInitOk demo_libcrypto i" "psk_new demo_libcrypto" "psk_push demo_libcrypto st x" "pStore_new demo_libcrypto"
  "pStore_add demo_libcrypto st x" "pBIO_new_file demo_libcrypto k = Some [demo_anchor]" "pCtx_new demo_libcrypto k"
  "pCtx_init demo_libcrypto store x chain" "pVerify demo_libcrypto = demo_verify" "pd2i demo_libcrypto = demo_d2i"
  by (simp_all add: demo_libcrypto_def)

text \<open>References to certificates are their encodings.\<close>

definition demo_getData :: "bytes \<Rightarrow> int \<times> bytes option" where
  "demo_getData der = (0, Some der)"

definition demo_policies :: "trust_policy option list" where
  "demo_policies = [None, Some \<lparr>policyOID = (0, CSSMOID_APPLE_TP_SSL), policyValue = (0, Some (24, Some demo_host))\<rparr>]"

lemma demo_verify_issued:
  assumes "demo_cert ec issuer i \<in> set store"
  shows "demo_verify store (demo_cert False key issuer) chain = (1, 0)"
proof -
  have "x509_signature (demo_cert False key issuer) =
      Some (x509_rest (demo_cert ec issuer i) @ 0x30 # x509_rest (demo_cert False key issuer))" by (simp add: demo_cert_def)
  with assms have "list_ex (\<lambda>a. x509_signature (demo_cert False key issuer) = Some (x509_rest a @ 0x30 # x509_rest (demo_cert False key issuer))) store"
    unfolding list_ex_iff by blast
  moreover have "sig_alg (demo_cert False key issuer) \<noteq> Some \<lparr>algor_algorithm = Some [1], algor_parameter = None\<rparr>" by (simp add: demo_cert_def)
  ultimately show ?thesis unfolding demo_verify_def by simp
qed

lemma demo_server_name: "ssl_server_name 24 demo_policies = Some demo_host"
  by (simp add: demo_policies_def demo_host_def)

lemma demo_ec_signed: "ec_signed demo_libcrypto (demo_cert ec key issuer) (demo_cert ec' key' issuer') \<longleftrightarrow> ec \<and> issuer = key'"
  by (auto simp: ec_signed_def list_all_iff ecdsa_signed_def demo_libcrypto_def demo_cert_def ecdsa_digest_def
      NID_ecdsa_with_SHA256_def NID_ecdsa_with_SHA384_def NID_ecdsa_with_SHA512_def)

lemma demo_time_ok: "tls12_cert_time_ok demo_libcrypto (demo_cert ec key issuer)"
  by (simp add: tls12_cert_time_ok_def demo_libcrypto_def demo_cert_def)

text \<open>The process after the initialisation, with the two mutexes \<open>ms\<close>.\<close>

definition demo_globals :: "mutex list \<Rightarrow> libcrypto_globals" where
  "demo_globals ms = \<lparr>once_done = True, g_libcrypto_h = True, g_libcrypto_ok = True, g_openssl_locks = Some ms,
     g_openssl_nlocks = 2, locking_cb = Some Tls12Callback, id_cb = True, registered = Some (Some Tls12Callback)\<rparr>"

lemma demo_first_handle: "tls12_libcrypto_handle demo_libcrypto process_start = (True, demo_globals [Free, Free])"
proof -
  have "init_locks (mutexInitOk demo_libcrypto) 0 [Zeroed, Zeroed] = Inr [Free, Free]"
    by (simp add: init_locks.simps)
  then show ?thesis
    by (simp add: tls12_libcrypto_handle_def tls12_init_libcrypto_once_def install_locks_def register_algorithms_def
        process_start_def list_all_iff Let_def numeral_2_eq_2 demo_globals_def)
qed

lemma demo_handle: "fst (tls12_libcrypto_handle demo_libcrypto process_start)"
  by (simp add: demo_first_handle)

lemma demo_steps:
  "lc_step demo_libcrypto process_start (Handle t True) (demo_globals [Free, Free])"
  "lc_step demo_libcrypto (demo_globals ms) (Handle t True) (demo_globals ms)"
  "lc_step demo_libcrypto (demo_globals [Free, m]) (Enter t 0) (demo_globals [Held t, m])"
  "lc_step demo_libcrypto (demo_globals [Held t, m]) (Leave t 0) (demo_globals [Free, m])"
proof -
  show "lc_step demo_libcrypto process_start (Handle t True) (demo_globals [Free, Free])"
    by (rule lc_step.handle [OF demo_first_handle])
qed (auto simp: demo_globals_def tls12_libcrypto_handle_def tls12_openssl_locking_cb_def
      TLS12_CRYPTO_LOCK_def intro!: lc_step.intros)

lemma demo_anchor_store: "anchor_store demo_libcrypto = Some [demo_anchor]"
  by (simp add: anchor_store_def)

lemma demo_san:
  "san_of demo_libcrypto (demo_cert ec 1 issuer) = Some (san_extension [demo_host])"
  "san_der_matches_host (san_extension [demo_host]) demo_host"
proof -
  show "san_of demo_libcrypto (demo_cert ec 1 issuer) = Some (san_extension [demo_host])"
    by (simp add: san_of_def demo_libcrypto_def demo_cert_def san_extension_def Let_def)
  show "san_der_matches_host (san_extension [demo_host]) demo_host"
    using san_der_matches_host_extension [of "[demo_host]" demo_host]
    by (simp add: demo_host_def dns_name_def hostname_matches_iff)
qed

end
