(* ===== verification/Rijndael_Tables.thy ===== *)
theory Rijndael_Tables
  imports Prelude
begin

text \<open>
  The tables of \<open>boxes-ref.c\<close> of the cryptographic service provider, number by number: the S-box and
  its inverse, the round constants, the products with the six constants of the column mixing, and the
  logarithms and powers that an alternative build multiplies with. The lemmas say what the tables
  are: multiplication in GF(2^8), written with the doubling \<open>gf_double\<close>, and two permutations that
  invert each other.
\<close>

definition S_box :: bytes where
  "S_box = [
     99, 124, 119, 123, 242, 107, 111, 197, 48, 1, 103, 43, 254, 215, 171, 118,
     202, 130, 201, 125, 250, 89, 71, 240, 173, 212, 162, 175, 156, 164, 114, 192,
     183, 253, 147, 38, 54, 63, 247, 204, 52, 165, 229, 241, 113, 216, 49, 21,
     4, 199, 35, 195, 24, 150, 5, 154, 7, 18, 128, 226, 235, 39, 178, 117,
     9, 131, 44, 26, 27, 110, 90, 160, 82, 59, 214, 179, 41, 227, 47, 132,
     83, 209, 0, 237, 32, 252, 177, 91, 106, 203, 190, 57, 74, 76, 88, 207,
     208, 239, 170, 251, 67, 77, 51, 133, 69, 249, 2, 127, 80, 60, 159, 168,
     81, 163, 64, 143, 146, 157, 56, 245, 188, 182, 218, 33, 16, 255, 243, 210,
     205, 12, 19, 236, 95, 151, 68, 23, 196, 167, 126, 61, 100, 93, 25, 115,
     96, 129, 79, 220, 34, 42, 144, 136, 70, 238, 184, 20, 222, 94, 11, 219,
     224, 50, 58, 10, 73, 6, 36, 92, 194, 211, 172, 98, 145, 149, 228, 121,
     231, 200, 55, 109, 141, 213, 78, 169, 108, 86, 244, 234, 101, 122, 174, 8,
     186, 120, 37, 46, 28, 166, 180, 198, 232, 221, 116, 31, 75, 189, 139, 138,
     112, 62, 181, 102, 72, 3, 246, 14, 97, 53, 87, 185, 134, 193, 29, 158,
     225, 248, 152, 17, 105, 217, 142, 148, 155, 30, 135, 233, 206, 85, 40, 223,
     140, 161, 137, 13, 191, 230, 66, 104, 65, 153, 45, 15, 176, 84, 187, 22]"

definition Si_box :: bytes where
  "Si_box = [
     82, 9, 106, 213, 48, 54, 165, 56, 191, 64, 163, 158, 129, 243, 215, 251,
     124, 227, 57, 130, 155, 47, 255, 135, 52, 142, 67, 68, 196, 222, 233, 203,
     84, 123, 148, 50, 166, 194, 35, 61, 238, 76, 149, 11, 66, 250, 195, 78,
     8, 46, 161, 102, 40, 217, 36, 178, 118, 91, 162, 73, 109, 139, 209, 37,
     114, 248, 246, 100, 134, 104, 152, 22, 212, 164, 92, 204, 93, 101, 182, 146,
     108, 112, 72, 80, 253, 237, 185, 218, 94, 21, 70, 87, 167, 141, 157, 132,
     144, 216, 171, 0, 140, 188, 211, 10, 247, 228, 88, 5, 184, 179, 69, 6,
     208, 44, 30, 143, 202, 63, 15, 2, 193, 175, 189, 3, 1, 19, 138, 107,
     58, 145, 17, 65, 79, 103, 220, 234, 151, 242, 207, 206, 240, 180, 230, 115,
     150, 172, 116, 34, 231, 173, 53, 133, 226, 249, 55, 232, 28, 117, 223, 110,
     71, 241, 26, 113, 29, 41, 197, 137, 111, 183, 98, 14, 170, 24, 190, 27,
     252, 86, 62, 75, 198, 210, 121, 32, 154, 219, 192, 254, 120, 205, 90, 244,
     31, 221, 168, 51, 136, 7, 199, 49, 177, 18, 16, 89, 39, 128, 236, 95,
     96, 81, 127, 169, 25, 181, 74, 13, 45, 229, 122, 159, 147, 201, 156, 239,
     160, 224, 59, 77, 174, 42, 245, 176, 200, 235, 187, 60, 131, 83, 153, 97,
     23, 43, 4, 126, 186, 119, 214, 38, 225, 105, 20, 99, 85, 33, 12, 125]"

definition rcon :: bytes where
  "rcon = [
     1, 2, 4, 8, 16, 32, 64, 128, 27, 54, 108, 216, 171, 77, 154, 47,
     94, 188, 99, 198, 151, 53, 106, 212, 179, 125, 250, 239, 197, 145]"

definition mulBy0x02 :: bytes where
  "mulBy0x02 = [
     0, 2, 4, 6, 8, 10, 12, 14, 16, 18, 20, 22, 24, 26, 28, 30,
     32, 34, 36, 38, 40, 42, 44, 46, 48, 50, 52, 54, 56, 58, 60, 62,
     64, 66, 68, 70, 72, 74, 76, 78, 80, 82, 84, 86, 88, 90, 92, 94,
     96, 98, 100, 102, 104, 106, 108, 110, 112, 114, 116, 118, 120, 122, 124, 126,
     128, 130, 132, 134, 136, 138, 140, 142, 144, 146, 148, 150, 152, 154, 156, 158,
     160, 162, 164, 166, 168, 170, 172, 174, 176, 178, 180, 182, 184, 186, 188, 190,
     192, 194, 196, 198, 200, 202, 204, 206, 208, 210, 212, 214, 216, 218, 220, 222,
     224, 226, 228, 230, 232, 234, 236, 238, 240, 242, 244, 246, 248, 250, 252, 254,
     27, 25, 31, 29, 19, 17, 23, 21, 11, 9, 15, 13, 3, 1, 7, 5,
     59, 57, 63, 61, 51, 49, 55, 53, 43, 41, 47, 45, 35, 33, 39, 37,
     91, 89, 95, 93, 83, 81, 87, 85, 75, 73, 79, 77, 67, 65, 71, 69,
     123, 121, 127, 125, 115, 113, 119, 117, 107, 105, 111, 109, 99, 97, 103, 101,
     155, 153, 159, 157, 147, 145, 151, 149, 139, 137, 143, 141, 131, 129, 135, 133,
     187, 185, 191, 189, 179, 177, 183, 181, 171, 169, 175, 173, 163, 161, 167, 165,
     219, 217, 223, 221, 211, 209, 215, 213, 203, 201, 207, 205, 195, 193, 199, 197,
     251, 249, 255, 253, 243, 241, 247, 245, 235, 233, 239, 237, 227, 225, 231, 229]"

definition mulBy0x03 :: bytes where
  "mulBy0x03 = [
     0, 3, 6, 5, 12, 15, 10, 9, 24, 27, 30, 29, 20, 23, 18, 17,
     48, 51, 54, 53, 60, 63, 58, 57, 40, 43, 46, 45, 36, 39, 34, 33,
     96, 99, 102, 101, 108, 111, 106, 105, 120, 123, 126, 125, 116, 119, 114, 113,
     80, 83, 86, 85, 92, 95, 90, 89, 72, 75, 78, 77, 68, 71, 66, 65,
     192, 195, 198, 197, 204, 207, 202, 201, 216, 219, 222, 221, 212, 215, 210, 209,
     240, 243, 246, 245, 252, 255, 250, 249, 232, 235, 238, 237, 228, 231, 226, 225,
     160, 163, 166, 165, 172, 175, 170, 169, 184, 187, 190, 189, 180, 183, 178, 177,
     144, 147, 150, 149, 156, 159, 154, 153, 136, 139, 142, 141, 132, 135, 130, 129,
     155, 152, 157, 158, 151, 148, 145, 146, 131, 128, 133, 134, 143, 140, 137, 138,
     171, 168, 173, 174, 167, 164, 161, 162, 179, 176, 181, 182, 191, 188, 185, 186,
     251, 248, 253, 254, 247, 244, 241, 242, 227, 224, 229, 230, 239, 236, 233, 234,
     203, 200, 205, 206, 199, 196, 193, 194, 211, 208, 213, 214, 223, 220, 217, 218,
     91, 88, 93, 94, 87, 84, 81, 82, 67, 64, 69, 70, 79, 76, 73, 74,
     107, 104, 109, 110, 103, 100, 97, 98, 115, 112, 117, 118, 127, 124, 121, 122,
     59, 56, 61, 62, 55, 52, 49, 50, 35, 32, 37, 38, 47, 44, 41, 42,
     11, 8, 13, 14, 7, 4, 1, 2, 19, 16, 21, 22, 31, 28, 25, 26]"

definition mulBy0x0e :: bytes where
  "mulBy0x0e = [
     0, 14, 28, 18, 56, 54, 36, 42, 112, 126, 108, 98, 72, 70, 84, 90,
     224, 238, 252, 242, 216, 214, 196, 202, 144, 158, 140, 130, 168, 166, 180, 186,
     219, 213, 199, 201, 227, 237, 255, 241, 171, 165, 183, 185, 147, 157, 143, 129,
     59, 53, 39, 41, 3, 13, 31, 17, 75, 69, 87, 89, 115, 125, 111, 97,
     173, 163, 177, 191, 149, 155, 137, 135, 221, 211, 193, 207, 229, 235, 249, 247,
     77, 67, 81, 95, 117, 123, 105, 103, 61, 51, 33, 47, 5, 11, 25, 23,
     118, 120, 106, 100, 78, 64, 82, 92, 6, 8, 26, 20, 62, 48, 34, 44,
     150, 152, 138, 132, 174, 160, 178, 188, 230, 232, 250, 244, 222, 208, 194, 204,
     65, 79, 93, 83, 121, 119, 101, 107, 49, 63, 45, 35, 9, 7, 21, 27,
     161, 175, 189, 179, 153, 151, 133, 139, 209, 223, 205, 195, 233, 231, 245, 251,
     154, 148, 134, 136, 162, 172, 190, 176, 234, 228, 246, 248, 210, 220, 206, 192,
     122, 116, 102, 104, 66, 76, 94, 80, 10, 4, 22, 24, 50, 60, 46, 32,
     236, 226, 240, 254, 212, 218, 200, 198, 156, 146, 128, 142, 164, 170, 184, 182,
     12, 2, 16, 30, 52, 58, 40, 38, 124, 114, 96, 110, 68, 74, 88, 86,
     55, 57, 43, 37, 15, 1, 19, 29, 71, 73, 91, 85, 127, 113, 99, 109,
     215, 217, 203, 197, 239, 225, 243, 253, 167, 169, 187, 181, 159, 145, 131, 141]"

definition mulBy0x0b :: bytes where
  "mulBy0x0b = [
     0, 11, 22, 29, 44, 39, 58, 49, 88, 83, 78, 69, 116, 127, 98, 105,
     176, 187, 166, 173, 156, 151, 138, 129, 232, 227, 254, 245, 196, 207, 210, 217,
     123, 112, 109, 102, 87, 92, 65, 74, 35, 40, 53, 62, 15, 4, 25, 18,
     203, 192, 221, 214, 231, 236, 241, 250, 147, 152, 133, 142, 191, 180, 169, 162,
     246, 253, 224, 235, 218, 209, 204, 199, 174, 165, 184, 179, 130, 137, 148, 159,
     70, 77, 80, 91, 106, 97, 124, 119, 30, 21, 8, 3, 50, 57, 36, 47,
     141, 134, 155, 144, 161, 170, 183, 188, 213, 222, 195, 200, 249, 242, 239, 228,
     61, 54, 43, 32, 17, 26, 7, 12, 101, 110, 115, 120, 73, 66, 95, 84,
     247, 252, 225, 234, 219, 208, 205, 198, 175, 164, 185, 178, 131, 136, 149, 158,
     71, 76, 81, 90, 107, 96, 125, 118, 31, 20, 9, 2, 51, 56, 37, 46,
     140, 135, 154, 145, 160, 171, 182, 189, 212, 223, 194, 201, 248, 243, 238, 229,
     60, 55, 42, 33, 16, 27, 6, 13, 100, 111, 114, 121, 72, 67, 94, 85,
     1, 10, 23, 28, 45, 38, 59, 48, 89, 82, 79, 68, 117, 126, 99, 104,
     177, 186, 167, 172, 157, 150, 139, 128, 233, 226, 255, 244, 197, 206, 211, 216,
     122, 113, 108, 103, 86, 93, 64, 75, 34, 41, 52, 63, 14, 5, 24, 19,
     202, 193, 220, 215, 230, 237, 240, 251, 146, 153, 132, 143, 190, 181, 168, 163]"

definition mulBy0x0d :: bytes where
  "mulBy0x0d = [
     0, 13, 26, 23, 52, 57, 46, 35, 104, 101, 114, 127, 92, 81, 70, 75,
     208, 221, 202, 199, 228, 233, 254, 243, 184, 181, 162, 175, 140, 129, 150, 155,
     187, 182, 161, 172, 143, 130, 149, 152, 211, 222, 201, 196, 231, 234, 253, 240,
     107, 102, 113, 124, 95, 82, 69, 72, 3, 14, 25, 20, 55, 58, 45, 32,
     109, 96, 119, 122, 89, 84, 67, 78, 5, 8, 31, 18, 49, 60, 43, 38,
     189, 176, 167, 170, 137, 132, 147, 158, 213, 216, 207, 194, 225, 236, 251, 246,
     214, 219, 204, 193, 226, 239, 248, 245, 190, 179, 164, 169, 138, 135, 144, 157,
     6, 11, 28, 17, 50, 63, 40, 37, 110, 99, 116, 121, 90, 87, 64, 77,
     218, 215, 192, 205, 238, 227, 244, 249, 178, 191, 168, 165, 134, 139, 156, 145,
     10, 7, 16, 29, 62, 51, 36, 41, 98, 111, 120, 117, 86, 91, 76, 65,
     97, 108, 123, 118, 85, 88, 79, 66, 9, 4, 19, 30, 61, 48, 39, 42,
     177, 188, 171, 166, 133, 136, 159, 146, 217, 212, 195, 206, 237, 224, 247, 250,
     183, 186, 173, 160, 131, 142, 153, 148, 223, 210, 197, 200, 235, 230, 241, 252,
     103, 106, 125, 112, 83, 94, 73, 68, 15, 2, 21, 24, 59, 54, 33, 44,
     12, 1, 22, 27, 56, 53, 34, 47, 100, 105, 126, 115, 80, 93, 74, 71,
     220, 209, 198, 203, 232, 229, 242, 255, 180, 185, 174, 163, 128, 141, 154, 151]"

definition mulBy0x09 :: bytes where
  "mulBy0x09 = [
     0, 9, 18, 27, 36, 45, 54, 63, 72, 65, 90, 83, 108, 101, 126, 119,
     144, 153, 130, 139, 180, 189, 166, 175, 216, 209, 202, 195, 252, 245, 238, 231,
     59, 50, 41, 32, 31, 22, 13, 4, 115, 122, 97, 104, 87, 94, 69, 76,
     171, 162, 185, 176, 143, 134, 157, 148, 227, 234, 241, 248, 199, 206, 213, 220,
     118, 127, 100, 109, 82, 91, 64, 73, 62, 55, 44, 37, 26, 19, 8, 1,
     230, 239, 244, 253, 194, 203, 208, 217, 174, 167, 188, 181, 138, 131, 152, 145,
     77, 68, 95, 86, 105, 96, 123, 114, 5, 12, 23, 30, 33, 40, 51, 58,
     221, 212, 207, 198, 249, 240, 235, 226, 149, 156, 135, 142, 177, 184, 163, 170,
     236, 229, 254, 247, 200, 193, 218, 211, 164, 173, 182, 191, 128, 137, 146, 155,
     124, 117, 110, 103, 88, 81, 74, 67, 52, 61, 38, 47, 16, 25, 2, 11,
     215, 222, 197, 204, 243, 250, 225, 232, 159, 150, 141, 132, 187, 178, 169, 160,
     71, 78, 85, 92, 99, 106, 113, 120, 15, 6, 29, 20, 43, 34, 57, 48,
     154, 147, 136, 129, 190, 183, 172, 165, 210, 219, 192, 201, 246, 255, 228, 237,
     10, 3, 24, 17, 46, 39, 60, 53, 66, 75, 80, 89, 102, 111, 116, 125,
     161, 168, 179, 186, 133, 140, 151, 158, 233, 224, 251, 242, 205, 196, 223, 214,
     49, 56, 35, 42, 21, 28, 7, 14, 121, 112, 107, 98, 93, 84, 79, 70]"

definition Logtable :: bytes where
  "Logtable = [
     0, 0, 25, 1, 50, 2, 26, 198, 75, 199, 27, 104, 51, 238, 223, 3,
     100, 4, 224, 14, 52, 141, 129, 239, 76, 113, 8, 200, 248, 105, 28, 193,
     125, 194, 29, 181, 249, 185, 39, 106, 77, 228, 166, 114, 154, 201, 9, 120,
     101, 47, 138, 5, 33, 15, 225, 36, 18, 240, 130, 69, 53, 147, 218, 142,
     150, 143, 219, 189, 54, 208, 206, 148, 19, 92, 210, 241, 64, 70, 131, 56,
     102, 221, 253, 48, 191, 6, 139, 98, 179, 37, 226, 152, 34, 136, 145, 16,
     126, 110, 72, 195, 163, 182, 30, 66, 58, 107, 40, 84, 250, 133, 61, 186,
     43, 121, 10, 21, 155, 159, 94, 202, 78, 212, 172, 229, 243, 115, 167, 87,
     175, 88, 168, 80, 244, 234, 214, 116, 79, 174, 233, 213, 231, 230, 173, 232,
     44, 215, 117, 122, 235, 22, 11, 245, 89, 203, 95, 176, 156, 169, 81, 160,
     127, 12, 246, 111, 23, 196, 73, 236, 216, 67, 31, 45, 164, 118, 123, 183,
     204, 187, 62, 90, 251, 96, 177, 134, 59, 82, 161, 108, 170, 85, 41, 157,
     151, 178, 135, 144, 97, 190, 220, 252, 188, 149, 207, 205, 55, 63, 91, 209,
     83, 57, 132, 60, 65, 162, 109, 71, 20, 42, 158, 93, 86, 242, 211, 171,
     68, 17, 146, 217, 35, 32, 46, 137, 180, 124, 184, 38, 119, 153, 227, 165,
     103, 74, 237, 222, 197, 49, 254, 24, 13, 99, 140, 128, 192, 247, 112, 7]"

definition Alogtable :: bytes where
  "Alogtable = [
     1, 3, 5, 15, 17, 51, 85, 255, 26, 46, 114, 150, 161, 248, 19, 53,
     95, 225, 56, 72, 216, 115, 149, 164, 247, 2, 6, 10, 30, 34, 102, 170,
     229, 52, 92, 228, 55, 89, 235, 38, 106, 190, 217, 112, 144, 171, 230, 49,
     83, 245, 4, 12, 20, 60, 68, 204, 79, 209, 104, 184, 211, 110, 178, 205,
     76, 212, 103, 169, 224, 59, 77, 215, 98, 166, 241, 8, 24, 40, 120, 136,
     131, 158, 185, 208, 107, 189, 220, 127, 129, 152, 179, 206, 73, 219, 118, 154,
     181, 196, 87, 249, 16, 48, 80, 240, 11, 29, 39, 105, 187, 214, 97, 163,
     254, 25, 43, 125, 135, 146, 173, 236, 47, 113, 147, 174, 233, 32, 96, 160,
     251, 22, 58, 78, 210, 109, 183, 194, 93, 231, 50, 86, 250, 21, 63, 65,
     195, 94, 226, 61, 71, 201, 64, 192, 91, 237, 44, 116, 156, 191, 218, 117,
     159, 186, 213, 100, 172, 239, 42, 126, 130, 157, 188, 223, 122, 142, 137, 128,
     155, 182, 193, 88, 232, 35, 101, 175, 234, 37, 111, 177, 200, 67, 197, 84,
     252, 31, 33, 99, 165, 244, 7, 9, 27, 45, 119, 153, 176, 203, 70, 202,
     69, 207, 74, 222, 121, 139, 134, 145, 168, 227, 62, 66, 198, 81, 243, 14,
     18, 54, 90, 238, 41, 123, 141, 140, 143, 138, 133, 148, 167, 242, 13, 23,
     57, 75, 221, 124, 132, 151, 162, 253, 28, 36, 108, 180, 199, 82, 246, 1]"

section \<open>Multiplication by logarithms\<close>

text \<open>The routines of the build without lookup tables; \<open>mod255\<close> is only used for sums up to 508.\<close>

definition mod255 :: "nat \<Rightarrow> byte" where
  "mod255 b = of_nat (if b \<ge> 255 then b - 255 else b)"

definition mul :: "byte \<Rightarrow> byte \<Rightarrow> byte" where
  "mul a b =
     (if a \<noteq> 0 \<and> b \<noteq> 0
      then Alogtable ! unat (mod255 (unat (Logtable ! unat a) + unat (Logtable ! unat b))) else 0)"

section \<open>Doubling\<close>

definition gf_double :: "byte \<Rightarrow> byte" where
  "gf_double b = push_bit 1 b XOR (if bit b 7 then 0x1B else 0)"

lemma gf_double_xor: "gf_double (a XOR b) = gf_double a XOR gf_double b"
  by (auto simp: gf_double_def push_bit_xor bit_xor_iff xor.assoc xor.left_commute xor.commute)

lemma gf_double_0 [simp]: "gf_double 0 = 0"
  by (simp add: gf_double_def)

section \<open>What the tables are\<close>

definition all_octets :: bytes where
  "all_octets = [
     0, 1, 2, 3, 4, 5, 6, 7, 8, 9, 10, 11, 12, 13, 14, 15,
     16, 17, 18, 19, 20, 21, 22, 23, 24, 25, 26, 27, 28, 29, 30, 31,
     32, 33, 34, 35, 36, 37, 38, 39, 40, 41, 42, 43, 44, 45, 46, 47,
     48, 49, 50, 51, 52, 53, 54, 55, 56, 57, 58, 59, 60, 61, 62, 63,
     64, 65, 66, 67, 68, 69, 70, 71, 72, 73, 74, 75, 76, 77, 78, 79,
     80, 81, 82, 83, 84, 85, 86, 87, 88, 89, 90, 91, 92, 93, 94, 95,
     96, 97, 98, 99, 100, 101, 102, 103, 104, 105, 106, 107, 108, 109, 110, 111,
     112, 113, 114, 115, 116, 117, 118, 119, 120, 121, 122, 123, 124, 125, 126, 127,
     128, 129, 130, 131, 132, 133, 134, 135, 136, 137, 138, 139, 140, 141, 142, 143,
     144, 145, 146, 147, 148, 149, 150, 151, 152, 153, 154, 155, 156, 157, 158, 159,
     160, 161, 162, 163, 164, 165, 166, 167, 168, 169, 170, 171, 172, 173, 174, 175,
     176, 177, 178, 179, 180, 181, 182, 183, 184, 185, 186, 187, 188, 189, 190, 191,
     192, 193, 194, 195, 196, 197, 198, 199, 200, 201, 202, 203, 204, 205, 206, 207,
     208, 209, 210, 211, 212, 213, 214, 215, 216, 217, 218, 219, 220, 221, 222, 223,
     224, 225, 226, 227, 228, 229, 230, 231, 232, 233, 234, 235, 236, 237, 238, 239,
     240, 241, 242, 243, 244, 245, 246, 247, 248, 249, 250, 251, 252, 253, 254, 255]"

lemma unat_octet: "unat (b :: byte) < 256"
proof -
  have "unat b < 2 ^ LENGTH(8)" by (rule unsigned_less)
  then show ?thesis by simp
qed

lemma all_octets_upt: "all_octets = map of_nat [0..<256]"
proof -
  have "[0..<256] = 0 # 1 # [2..<256 :: nat]" by (simp add: upt_conv_Cons numeral_2_eq_2)
  then show ?thesis by (simp add: all_octets_def upt_rec_numeral)
qed

text \<open>A table for all octets, by its entries.\<close>

lemma table_lookup:
  assumes "table = map f all_octets"
  shows "table ! unat (b :: byte) = f b"
  by (simp add: assms all_octets_upt unat_octet)

named_theorems table_entries

lemma mulBy0x02_entry [table_entries]: "mulBy0x02 ! unat b = gf_double b"
  by (rule table_lookup) (simp add: mulBy0x02_def all_octets_def gf_double_def)

lemma mulBy0x03_entry [table_entries]: "mulBy0x03 ! unat b = gf_double b XOR b"
  by (rule table_lookup) (simp add: mulBy0x03_def all_octets_def gf_double_def)

lemma mulBy0x0e_entry [table_entries]:
  "mulBy0x0e ! unat b = gf_double (gf_double (gf_double b)) XOR gf_double (gf_double b) XOR gf_double b"
  by (rule table_lookup) (simp add: mulBy0x0e_def all_octets_def gf_double_def)

lemma mulBy0x0b_entry [table_entries]: "mulBy0x0b ! unat b = gf_double (gf_double (gf_double b)) XOR gf_double b XOR b"
  by (rule table_lookup) (simp add: mulBy0x0b_def all_octets_def gf_double_def)

lemma mulBy0x0d_entry [table_entries]: "mulBy0x0d ! unat b = gf_double (gf_double (gf_double b)) XOR gf_double (gf_double b) XOR b"
  by (rule table_lookup) (simp add: mulBy0x0d_def all_octets_def gf_double_def)

lemma mulBy0x09_entry [table_entries]: "mulBy0x09 ! unat b = gf_double (gf_double (gf_double b)) XOR b"
  by (rule table_lookup) (simp add: mulBy0x09_def all_octets_def gf_double_def)

lemma length_tables [simp]: "length S_box = 256" "length Si_box = 256" "length rcon = 30"
  by (simp_all add: S_box_def Si_box_def rcon_def)

text \<open>The two boxes invert each other.\<close>

lemma Si_box_S_box: "Si_box ! unat (S_box ! unat (b :: byte)) = b"
proof -
  have "map (\<lambda>b. Si_box ! unat b) S_box = map (\<lambda>b. b) all_octets" by (simp add: S_box_def Si_box_def all_octets_def)
  from table_lookup [OF this, of b] show ?thesis using unat_octet [of b] by simp
qed

lemma S_box_Si_box: "S_box ! unat (Si_box ! unat (b :: byte)) = b"
proof -
  have "map (\<lambda>b. S_box ! unat b) Si_box = map (\<lambda>b. b) all_octets" by (simp add: S_box_def Si_box_def all_octets_def)
  from table_lookup [OF this, of b] show ?thesis using unat_octet [of b] by simp
qed

text \<open>The round constants are the powers of two.\<close>

lemma rcon_powers: "map gf_double (butlast rcon) = tl rcon" "hd rcon = 1"
  by (simp_all add: rcon_def gf_double_def)

text \<open>
  The S-box is inversion followed by an affine map; the inverse of an octet is found with the
  logarithms, and the table of powers is that of the generator 3.
\<close>

definition rotate :: "nat \<Rightarrow> byte \<Rightarrow> byte" where
  "rotate n b = push_bit n b OR drop_bit (8 - n) b"

definition affine :: "byte \<Rightarrow> byte" where
  "affine b = b XOR rotate 1 b XOR rotate 2 b XOR rotate 3 b XOR rotate 4 b XOR 0x63"

lemma Alogtable_powers: "map (\<lambda>b. gf_double b XOR b) (butlast Alogtable) = tl Alogtable" "hd Alogtable = 1"
  by (simp_all add: Alogtable_def gf_double_def)

lemma Logtable_inverts: "map (\<lambda>b. Alogtable ! unat (Logtable ! unat b)) (tl all_octets) = tl all_octets"
  by (simp add: Logtable_def Alogtable_def all_octets_def)

text \<open>The inverses of the octets from 1 on.\<close>

definition inverses :: bytes where
  "inverses = [
     1, 141, 246, 203, 82, 123, 209, 232, 79, 41, 192, 176, 225, 229, 199, 116,
     180, 170, 75, 153, 43, 96, 95, 88, 63, 253, 204, 255, 64, 238, 178, 58,
     110, 90, 241, 85, 77, 168, 201, 193, 10, 152, 21, 48, 68, 162, 194, 44,
     69, 146, 108, 243, 57, 102, 66, 242, 53, 32, 111, 119, 187, 89, 25, 29,
     254, 55, 103, 45, 49, 245, 105, 167, 100, 171, 19, 84, 37, 233, 9, 237,
     92, 5, 202, 76, 36, 135, 191, 24, 62, 34, 240, 81, 236, 97, 23, 22,
     94, 175, 211, 73, 166, 54, 67, 244, 71, 145, 223, 51, 147, 33, 59, 121,
     183, 151, 133, 16, 181, 186, 60, 182, 112, 208, 6, 161, 250, 129, 130, 131,
     126, 127, 128, 150, 115, 190, 86, 155, 158, 149, 217, 247, 2, 185, 164, 222,
     106, 50, 109, 216, 138, 132, 114, 42, 20, 159, 136, 249, 220, 137, 154, 251,
     124, 46, 195, 143, 184, 101, 72, 38, 200, 18, 74, 206, 231, 210, 98, 12,
     224, 31, 239, 17, 117, 120, 113, 165, 142, 118, 61, 189, 188, 134, 87, 11,
     40, 47, 163, 218, 212, 228, 15, 169, 39, 83, 4, 27, 252, 172, 230, 122,
     7, 174, 99, 197, 219, 226, 234, 148, 139, 196, 213, 157, 248, 144, 107, 177,
     13, 214, 235, 198, 14, 207, 173, 8, 78, 215, 227, 93, 80, 30, 179, 91,
     35, 56, 52, 104, 70, 3, 140, 221, 156, 125, 160, 205, 26, 65, 28]"

lemma inverses_log: "map (\<lambda>b. Alogtable ! unat (255 - Logtable ! unat b)) (tl all_octets) = inverses"
  by (simp add: Logtable_def Alogtable_def all_octets_def inverses_def)

lemma S_box_affine: "S_box = map affine (0 # inverses)"
  by (simp add: S_box_def affine_def rotate_def inverses_def)

section \<open>The lookup tables agree with the routine that they replace\<close>

text \<open>The powers of the generator, with the exponents modulo 255.\<close>

definition power3 :: "nat \<Rightarrow> byte" where
  "power3 n = Alogtable ! (n mod 255)"

lemma Alogtable_step: "n < 255 \<Longrightarrow> Alogtable ! Suc n = gf_double (Alogtable ! n) XOR Alogtable ! n"
proof -
  assume n: "n < 255"
  have len: "length Alogtable = 256" by (simp add: Alogtable_def)
  have "Alogtable ! Suc n = tl Alogtable ! n" using n len by (simp add: nth_tl)
  also have "\<dots> = map (\<lambda>b. gf_double b XOR b) (butlast Alogtable) ! n" by (simp only: Alogtable_powers(1))
  also have "\<dots> = gf_double (Alogtable ! n) XOR Alogtable ! n" using n len by (simp add: nth_butlast)
  finally show ?thesis .
qed

lemma power3_Suc: "power3 (Suc n) = gf_double (power3 n) XOR power3 n"
proof (cases "Suc (n mod 255) = 255")
  case True
  have "Alogtable ! 255 = Alogtable ! 0" by (simp add: Alogtable_def)
  then show ?thesis using True Alogtable_step [of "n mod 255"] by (simp add: power3_def mod_Suc)
next
  case False
  moreover have "n mod 255 < 255" by simp
  ultimately show ?thesis using Alogtable_step [of "n mod 255"] by (simp add: power3_def mod_Suc)
qed

text \<open>A function that goes along with the generator multiplies with its value at 1.\<close>

lemma power3_shift:
  assumes "\<And>b. f (gf_double b XOR b) = gf_double (f b) XOR f b" "f 1 = power3 k"
  shows "f (power3 n) = power3 (k + n)"
proof (induction n)
  case 0
  have "power3 0 = 1" by (simp add: power3_def Alogtable_def)
  then show ?case by (simp add: assms)
next
  case (Suc n)
  then show ?case by (simp add: power3_Suc assms)
qed

lemma octets_nth: "k < 256 \<Longrightarrow> all_octets ! k = of_nat k"
  by (simp add: all_octets_upt)

text \<open>Every octet but 0 is the power that its logarithm says.\<close>

lemma log_octet:
  assumes "b \<noteq> 0"
  shows "power3 (unat (Logtable ! unat b)) = b" and "unat (Logtable ! unat b) < 255"
proof -
  have len: "length Logtable = 256" "length all_octets = 256" by (simp_all add: Logtable_def all_octets_upt)
  obtain n where n: "unat b = Suc n" using assms by (metis not0_implies_Suc unat_eq_0)
  have n255: "n < 255" using n unat_octet [of b] by simp
  have "tl all_octets ! n = of_nat (unat b)" using n255 len by (simp add: nth_tl octets_nth n)
  then have tl: "tl all_octets ! n = b" by simp
  have "Alogtable ! unat (Logtable ! unat (tl all_octets ! n)) = tl all_octets ! n"
    using arg_cong [OF Logtable_inverts, of "\<lambda>xs. xs ! n"] n255 len by simp
  then have a: "Alogtable ! unat (Logtable ! unat b) = b" by (simp add: tl)
  have "\<forall>l\<in>set (tl Logtable). unat l \<noteq> 255" by (simp add: Logtable_def)
  moreover have "tl Logtable ! n \<in> set (tl Logtable)" using n255 len by (intro nth_mem) simp
  then have "Logtable ! unat b \<in> set (tl Logtable)" using n255 len by (simp add: nth_tl n)
  ultimately have "unat (Logtable ! unat b) \<noteq> 255" by blast
  then show "unat (Logtable ! unat b) < 255" using unat_octet [of "Logtable ! unat b"] by linarith
  with a show "power3 (unat (Logtable ! unat b)) = b" by (simp add: power3_def)
qed

lemma mod255_mod: "n \<le> 508 \<Longrightarrow> unat (mod255 n) = n mod 255"
proof -
  assume n: "n \<le> 508"
  let ?m = "if n \<ge> 255 then n - 255 else n"
  have "?m < 2 ^ LENGTH(8)" using n by auto
  then have "unat (of_nat ?m :: byte) = ?m" by (simp only: unsigned_of_nat take_bit_nat_eq_self of_nat_id)
  also have "?m = n mod 255" using n by (auto simp: mod_if)
  finally show ?thesis by (simp add: mod255_def)
qed

lemma mul_powers:
  assumes "a \<noteq> 0" "b \<noteq> 0"
  shows "mul a b = power3 (unat (Logtable ! unat a) + unat (Logtable ! unat b))"
proof -
  have "unat (Logtable ! unat a) + unat (Logtable ! unat b) \<le> 508"
    using log_octet(2) [OF assms(1)] log_octet(2) [OF assms(2)] by linarith
  from mod255_mod [OF this] assms show ?thesis by (simp add: mul_def power3_def)
qed

text \<open>A function that goes along with the generator is the multiplication with its value at 1.\<close>

lemma mul_entry:
  assumes "\<And>b. f (gf_double b XOR b) = gf_double (f b) XOR f b" "f 0 = 0" "f 1 = c" "c \<noteq> 0"
  shows "f b = mul c b"
proof (cases "b = 0")
  case False
  have "f 1 = power3 (unat (Logtable ! unat c))" by (simp add: assms(3) log_octet(1) [OF assms(4)])
  from power3_shift [where f = f, OF assms(1) this, of "unat (Logtable ! unat b)"] False assms(4) show ?thesis
    by (simp add: mul_powers log_octet(1))
qed (simp add: assms(2) mul_def)

lemmas additive = gf_double_xor xor.assoc xor.commute xor.left_commute

lemma mulBy0x02_mul: "mulBy0x02 ! unat b = mul 0x02 b"
  unfolding table_entries
  by (rule mul_entry) (simp_all add: additive, simp_all add: gf_double_def)

lemma mulBy0x03_mul: "mulBy0x03 ! unat b = mul 0x03 b"
  unfolding table_entries
  by (rule mul_entry) (simp_all add: additive, simp_all add: gf_double_def)

lemma mulBy0x0e_mul: "mulBy0x0e ! unat b = mul 0x0e b"
  unfolding table_entries
  by (rule mul_entry) (simp_all add: additive, simp_all add: gf_double_def)

lemma mulBy0x0b_mul: "mulBy0x0b ! unat b = mul 0x0b b"
  unfolding table_entries
  by (rule mul_entry) (simp_all add: additive, simp_all add: gf_double_def)

lemma mulBy0x0d_mul: "mulBy0x0d ! unat b = mul 0x0d b"
  unfolding table_entries
  by (rule mul_entry) (simp_all add: additive, simp_all add: gf_double_def)

lemma mulBy0x09_mul: "mulBy0x09 ! unat b = mul 0x09 b"
  unfolding table_entries
  by (rule mul_entry) (simp_all add: additive, simp_all add: gf_double_def)

end
