(* ===== verification/Rijndael.thy ===== *)
theory Rijndael
  imports Rijndael_Tables "HOL-Library.Monad_Syntax" "HOL-Library.Signed_Division"
begin

text \<open>
  Model of the block cipher of the cryptographic service provider: \<open>rijndael-alg-ref.c\<close> and
  \<open>rijndaelApi.c\<close> of \<open>src/libsecurity_apple_csp-55003/lib\<close>, for keys and blocks of 128, 192 and 256 bits, as
  they are built (\<open>AES_MUL_BY_LOOKUP\<close> and \<open>GLADMAN_AES_128_ENABLE\<close> set).

  A block is an array of four rows; the columns from \<open>BC\<close> on, which the code neither reads nor
  writes, are left out. The lemmas show that every step of decryption undoes the step of encryption, hence that
  decryption inverts encryption for every key, that the schedule never runs out of round
  constants, and that the tables are products in GF(2^8).
\<close>

type_synonym block = "byte list list"

section \<open>The steps of a round\<close>

definition shifts :: "nat list list list" where
  "shifts = [[[0, 0], [1, 3], [2, 2], [3, 1]], [[0, 0], [1, 5], [2, 4], [3, 3]], [[0, 0], [1, 7], [3, 5], [4, 4]]]"

definition KeyAddition :: "block \<Rightarrow> block \<Rightarrow> nat \<Rightarrow> block" where
  "KeyAddition a rk BC = map (\<lambda>i. map (\<lambda>j. a ! i ! j XOR rk ! i ! j) [0..<BC]) [0..<4]"

definition ShiftRow :: "block \<Rightarrow> nat \<Rightarrow> nat \<Rightarrow> block" where
  "ShiftRow a d BC =
     map (\<lambda>i. if i = 0 then a ! 0
              else map (\<lambda>j. a ! i ! ((j + shifts ! ((BC - 4) div 2) ! i ! d) mod BC)) [0..<BC]) [0..<4]"

definition Substitution :: "block \<Rightarrow> bytes \<Rightarrow> nat \<Rightarrow> block" where
  "Substitution a box BC = map (\<lambda>i. map (\<lambda>j. box ! unat (a ! i ! j)) [0..<BC]) [0..<4]"

definition MixColumn :: "block \<Rightarrow> nat \<Rightarrow> block" where
  "MixColumn a BC =
     map (\<lambda>i. map (\<lambda>j. mulBy0x02 ! unat (a ! i ! j) XOR mulBy0x03 ! unat (a ! ((i + 1) mod 4) ! j) XOR
                       a ! ((i + 2) mod 4) ! j XOR a ! ((i + 3) mod 4) ! j) [0..<BC]) [0..<4]"

definition InvMixColumn :: "block \<Rightarrow> nat \<Rightarrow> block" where
  "InvMixColumn a BC =
     map (\<lambda>i. map (\<lambda>j. mulBy0x0e ! unat (a ! i ! j) XOR mulBy0x0b ! unat (a ! ((i + 1) mod 4) ! j) XOR
                       mulBy0x0d ! unat (a ! ((i + 2) mod 4) ! j) XOR mulBy0x09 ! unat (a ! ((i + 3) mod 4) ! j)) [0..<BC]) [0..<4]"

text \<open>The same two steps in the build without lookup tables.\<close>

definition MixColumn_mul :: "block \<Rightarrow> nat \<Rightarrow> block" where
  "MixColumn_mul a BC =
     map (\<lambda>i. map (\<lambda>j. mul 2 (a ! i ! j) XOR mul 3 (a ! ((i + 1) mod 4) ! j) XOR
                       a ! ((i + 2) mod 4) ! j XOR a ! ((i + 3) mod 4) ! j) [0..<BC]) [0..<4]"

definition InvMixColumn_mul :: "block \<Rightarrow> nat \<Rightarrow> block" where
  "InvMixColumn_mul a BC =
     map (\<lambda>i. map (\<lambda>j. mul 0xe (a ! i ! j) XOR mul 0xb (a ! ((i + 1) mod 4) ! j) XOR
                       mul 0xd (a ! ((i + 2) mod 4) ! j) XOR mul 0x9 (a ! ((i + 3) mod 4) ! j)) [0..<BC]) [0..<4]"

lemma MixColumn_MixColumn_mul: "MixColumn a BC = MixColumn_mul a BC"
  by (simp add: MixColumn_def MixColumn_mul_def mulBy0x02_mul mulBy0x03_mul)

lemma InvMixColumn_InvMixColumn_mul: "InvMixColumn a BC = InvMixColumn_mul a BC"
  by (simp add: InvMixColumn_def InvMixColumn_mul_def mulBy0x0e_mul mulBy0x0b_mul mulBy0x0d_mul mulBy0x09_mul)

section \<open>Sizes\<close>

text \<open>The three \<open>switch\<close> statements: \<open>None\<close> where the code returns an error.\<close>

definition words_of :: "int \<Rightarrow> nat option" where
  "words_of bits = (if bits = 128 then Some 4 else if bits = 192 then Some 6 else if bits = 256 then Some 8 else None)"

definition rounds_of :: "int \<Rightarrow> int \<Rightarrow> nat option" where
  "rounds_of keyBits blockBits =
     (let bits = (if keyBits \<ge> blockBits then keyBits else blockBits) in
      if bits = 128 then Some 10 else if bits = 192 then Some 12 else if bits = 256 then Some 14 else None)"

section \<open>The key schedule\<close>

text \<open>The columns of the working key: column \<open>j\<close> takes in column \<open>j - 1\<close>, for \<open>j\<close> from \<open>from\<close> to \<open>to - 1\<close>.\<close>

fun add_columns :: "nat \<Rightarrow> nat \<Rightarrow> block \<Rightarrow> block" where
  "add_columns j 0 tk = tk"
| "add_columns j (Suc n) tk = add_columns (j + 1) n (map (\<lambda>row. row[j := row ! j XOR row ! (j - 1)]) tk)"

text \<open>One update of the working key with the round constant \<open>rc\<close>.\<close>

definition first_column :: "nat \<Rightarrow> byte \<Rightarrow> block \<Rightarrow> block" where
  "first_column KC rc tk =
     (let tk = foldl (\<lambda>tk i. tk[i := (tk ! i)[0 := tk ! i ! 0 XOR S_box ! unat (tk ! ((i + 1) mod 4) ! (KC - 1))]]) tk [0..<4]
      in tk[0 := (tk ! 0)[0 := tk ! 0 ! 0 XOR rc]])"

definition next_key :: "nat \<Rightarrow> byte \<Rightarrow> block \<Rightarrow> block" where
  "next_key KC rc tk =
     (let tk = first_column KC rc tk in
      if KC \<noteq> 8 then add_columns 1 (KC - 1) tk
      else (let tk = add_columns 1 (KC div 2 - 1) tk;
                tk = map (\<lambda>row. row[KC div 2 := row ! (KC div 2) XOR S_box ! unat (row ! (KC div 2 - 1))]) tk
            in add_columns (KC div 2 + 1) (KC - KC div 2 - 1) tk))"

text \<open>The columns that are copied to the schedule, as long as it has room.\<close>

definition copy_columns :: "nat \<Rightarrow> nat \<Rightarrow> block \<Rightarrow> byte list list \<Rightarrow> byte list list" where
  "copy_columns KC ncols tk W = W @ map (\<lambda>j. map (\<lambda>i. tk ! i ! j) [0..<4]) [0..<min KC (ncols - length W)]"

text \<open>
  The loop; \<open>W\<close> is the list of the columns that have been filled in. There is no result when the
  round constants are used up.
\<close>

function sched_loop :: "nat \<Rightarrow> nat \<Rightarrow> nat \<Rightarrow> block \<Rightarrow> byte list list \<Rightarrow> byte list list option" where
  "sched_loop KC ncols rconpointer tk W =
     (if KC = 0 then None
      else if length W < ncols
      then (if rconpointer \<ge> length rcon then None
            else (let tk = next_key KC (rcon ! rconpointer) tk
                  in sched_loop KC ncols (rconpointer + 1) tk (copy_columns KC ncols tk W)))
      else Some W)"
  by pat_completeness auto
termination
  by (relation "measure (\<lambda>(KC, ncols, r, tk, W). ncols - length W)") (auto simp: copy_columns_def)

declare sched_loop.simps [simp del]

text \<open>The array \<open>W[t / BC][i][t % BC]\<close> from its columns.\<close>

definition schedule_of :: "nat \<Rightarrow> nat \<Rightarrow> byte list list \<Rightarrow> block list" where
  "schedule_of BC ROUNDS W = map (\<lambda>r. map (\<lambda>i. map (\<lambda>j. W ! (r * BC + j) ! i) [0..<BC]) [0..<4]) [0..<ROUNDS + 1]"

text \<open>The return value, and the schedule when it is 0; the outer \<open>None\<close> is an access outside of \<open>rcon\<close>.\<close>

definition rijndaelKeySched :: "block \<Rightarrow> int \<Rightarrow> int \<Rightarrow> (int \<times> block list) option" where
  "rijndaelKeySched k keyBits blockBits =
     (case words_of keyBits of
        None \<Rightarrow> Some (- 1, [])
      | Some KC \<Rightarrow>
          (case words_of blockBits of
             None \<Rightarrow> Some (- 2, [])
           | Some BC \<Rightarrow>
               (case rounds_of keyBits blockBits of
                  None \<Rightarrow> Some (- 3, [])
                | Some ROUNDS \<Rightarrow>
                    do { let ncols = (ROUNDS + 1) * BC;
                         W \<leftarrow> sched_loop KC ncols 0 k (copy_columns KC ncols k []);
                         Some (0, schedule_of BC ROUNDS W) })))"

section \<open>Encryption and decryption\<close>

definition encrypt_round :: "nat \<Rightarrow> block list \<Rightarrow> block \<Rightarrow> nat \<Rightarrow> block" where
  "encrypt_round BC rk a r = KeyAddition (MixColumn (ShiftRow (Substitution a S_box BC) 0 BC) BC) (rk ! r) BC"

definition decrypt_round :: "nat \<Rightarrow> block list \<Rightarrow> block \<Rightarrow> nat \<Rightarrow> block" where
  "decrypt_round BC rk a r = ShiftRow (Substitution (InvMixColumn (KeyAddition a (rk ! r) BC) BC) Si_box BC) 1 BC"

definition rijndaelEncrypt :: "block \<Rightarrow> int \<Rightarrow> int \<Rightarrow> block list \<Rightarrow> int \<times> block" where
  "rijndaelEncrypt a keyBits blockBits rk =
     (case words_of blockBits of
        None \<Rightarrow> (- 2, a)
      | Some BC \<Rightarrow>
          (case rounds_of keyBits blockBits of
             None \<Rightarrow> (- 3, a)
           | Some ROUNDS \<Rightarrow>
               (let a = KeyAddition a (rk ! 0) BC;
                    a = foldl (encrypt_round BC rk) a [1..<ROUNDS];
                    a = Substitution a S_box BC;
                    a = ShiftRow a 0 BC
                in (0, KeyAddition a (rk ! ROUNDS) BC))))"

definition rijndaelDecrypt :: "block \<Rightarrow> int \<Rightarrow> int \<Rightarrow> block list \<Rightarrow> int \<times> block" where
  "rijndaelDecrypt a keyBits blockBits rk =
     (case words_of blockBits of
        None \<Rightarrow> (- 2, a)
      | Some BC \<Rightarrow>
          (case rounds_of keyBits blockBits of
             None \<Rightarrow> (- 3, a)
           | Some ROUNDS \<Rightarrow>
               (let a = KeyAddition a (rk ! ROUNDS) BC;
                    a = Substitution a Si_box BC;
                    a = ShiftRow a 1 BC;
                    a = foldl (decrypt_round BC rk) a (rev [1..<ROUNDS])
                in (0, KeyAddition a (rk ! 0) BC))))"

section \<open>The interface\<close>

record keyInstance =
  keyLen :: int
  blockLen :: int
  columns :: nat
  keySched :: "block list"

abbreviation BAD_KEY_MAT :: int where "BAD_KEY_MAT \<equiv> - 1"
abbreviation BAD_KEY_INSTANCE :: int where "BAD_KEY_INSTANCE \<equiv> - 2"

text \<open>Octets in the order of columns, and back.\<close>

definition to_rows :: "nat \<Rightarrow> bytes \<Rightarrow> block" where
  "to_rows n bs = map (\<lambda>t. map (\<lambda>j. bs ! (4 * j + t)) [0..<n]) [0..<4]"

definition from_rows :: "nat \<Rightarrow> block \<Rightarrow> bytes" where
  "from_rows n a = concat (map (\<lambda>j. map (\<lambda>t. a ! t ! j) [0..<4]) [0..<n])"

text \<open>
  A key from its octets; the result is the return value and the key instance, and \<open>None\<close> when the material is shorter than
  the key. The return value of \<open>rijndaelKeySched\<close> is not looked at.
\<close>

definition makeKey :: "keyInstance option \<Rightarrow> int \<Rightarrow> int \<Rightarrow> bytes option \<Rightarrow> (int \<times> keyInstance option) option" where
  "makeKey key keylen blocklen keyMaterial =
     (case key of
        None \<Rightarrow> Some (BAD_KEY_INSTANCE, None)
      | Some key \<Rightarrow>
          (case keyMaterial of
             None \<Rightarrow> Some (BAD_KEY_MAT, Some key)
           | Some material \<Rightarrow>
               if keylen = 128 \<or> keylen = 192 \<or> keylen = 256
               then (let key = key\<lparr>keyLen := keylen, blockLen := blocklen, columns := nat ((blocklen sdiv 32) mod 2 ^ 32)\<rparr> in
                     if length material < nat (keylen div 8) then None
                     else do { (r, sched) \<leftarrow> rijndaelKeySched (to_rows (nat (keylen div 32)) material) keylen blocklen;
                               Some (1, Some (if r = 0 then key\<lparr>keySched := sched\<rparr> else key)) })
               else Some (BAD_KEY_MAT, Some key)))"

definition bad_instance :: "keyInstance \<Rightarrow> bool" where
  "bad_instance key \<longleftrightarrow>
     keyLen key \<noteq> 128 \<and> keyLen key \<noteq> 192 \<and> keyLen key \<noteq> 256 \<or>
     blockLen key \<noteq> 128 \<and> blockLen key \<noteq> 192 \<and> blockLen key \<noteq> 256"

definition rijndaelBlockEncrypt :: "keyInstance option \<Rightarrow> bytes \<Rightarrow> int \<times> bytes" where
  "rijndaelBlockEncrypt key inp =
     (case key of
        None \<Rightarrow> (BAD_KEY_INSTANCE, [])
      | Some key \<Rightarrow>
          if bad_instance key then (BAD_KEY_INSTANCE, [])
          else (let localBlock = to_rows (columns key) inp;
                    (r, localBlock) = rijndaelEncrypt localBlock (keyLen key) (blockLen key) (keySched key)
                in (blockLen key, from_rows (columns key) localBlock)))"

definition rijndaelBlockDecrypt :: "keyInstance option \<Rightarrow> bytes \<Rightarrow> int \<times> bytes" where
  "rijndaelBlockDecrypt key inp =
     (case key of
        None \<Rightarrow> (BAD_KEY_INSTANCE, [])
      | Some key \<Rightarrow>
          if bad_instance key then (BAD_KEY_INSTANCE, [])
          else (let localBlock = to_rows (columns key) inp;
                    (r, localBlock) = rijndaelDecrypt localBlock (keyLen key) (blockLen key) (keySched key)
                in (blockLen key, from_rows (columns key) localBlock)))"

section \<open>Every step can be undone\<close>

definition shaped :: "nat \<Rightarrow> block \<Rightarrow> bool" where
  "shaped BC a \<longleftrightarrow> length a = 4 \<and> (\<forall>row\<in>set a. length row = BC)"

lemma shaped_row: "shaped BC a \<Longrightarrow> i < 4 \<Longrightarrow> length (a ! i) = BC"
  by (simp add: shaped_def)

text \<open>Two blocks of the same shape are equal when their entries are.\<close>

lemma shaped_eqI:
  assumes "shaped BC a" "shaped BC b" "\<And>i j. i < 4 \<Longrightarrow> j < BC \<Longrightarrow> a ! i ! j = b ! i ! j"
  shows "a = b"
  using assms by (auto simp: shaped_def intro!: nth_equalityI)

named_theorems shapes

lemma step_shapes [shapes]:
  "shaped BC (KeyAddition a rk BC)" "shaped BC (Substitution a box BC)" "shaped BC (MixColumn a BC)"
  "shaped BC (InvMixColumn a BC)"
  by (auto simp: shaped_def KeyAddition_def Substitution_def MixColumn_def InvMixColumn_def)

lemma ShiftRow_shape [shapes]: "shaped BC a \<Longrightarrow> shaped BC (ShiftRow a d BC)"
  by (auto simp: shaped_def ShiftRow_def)

lemma step_entries:
  assumes "i < 4" "j < BC"
  shows "KeyAddition a rk BC ! i ! j = a ! i ! j XOR rk ! i ! j"
    and "Substitution a box BC ! i ! j = box ! unat (a ! i ! j)"
    and "MixColumn a BC ! i ! j = gf_double (a ! i ! j) XOR (gf_double (a ! ((i + 1) mod 4) ! j) XOR a ! ((i + 1) mod 4) ! j) XOR
      a ! ((i + 2) mod 4) ! j XOR a ! ((i + 3) mod 4) ! j"
    and "ShiftRow a d BC ! i ! j = (if i = 0 then a ! 0 ! j else a ! i ! ((j + shifts ! ((BC - 4) div 2) ! i ! d) mod BC))"
  using assms by (auto simp: KeyAddition_def Substitution_def MixColumn_def ShiftRow_def table_entries)

lemma KeyAddition_twice: "shaped BC a \<Longrightarrow> KeyAddition (KeyAddition a rk BC) rk BC = a"
  by (rule shaped_eqI [of BC]) (auto simp: shapes step_entries xor.assoc)

lemma Substitution_inverse: "shaped BC a \<Longrightarrow> Substitution (Substitution a S_box BC) Si_box BC = a"
  by (rule shaped_eqI [of BC]) (auto simp: shapes step_entries Si_box_S_box)

definition legal_BC :: "nat \<Rightarrow> bool" where
  "legal_BC BC \<longleftrightarrow> BC = 4 \<or> BC = 6 \<or> BC = 8"

text \<open>The two distances of a row make up the whole row.\<close>

lemma shifts_complete:
  assumes "legal_BC BC" "0 < i" "i < 4"
  shows "shifts ! ((BC - 4) div 2) ! i ! 0 + shifts ! ((BC - 4) div 2) ! i ! 1 = BC"
proof -
  have "i = 1 \<or> i = 2 \<or> i = 3" using assms(2,3) by linarith
  with assms(1) show ?thesis by (auto simp: legal_BC_def shifts_def)
qed

lemma ShiftRow_inverse:
  assumes "shaped BC a" "legal_BC BC"
  shows "ShiftRow (ShiftRow a 0 BC) 1 BC = a"
proof (rule shaped_eqI [of BC])
  fix i j :: nat assume ij: "i < 4" "j < BC"
  show "ShiftRow (ShiftRow a 0 BC) 1 BC ! i ! j = a ! i ! j"
  proof (cases "i = 0")
    case False
    let ?s = "\<lambda>d. shifts ! ((BC - 4) div 2) ! i ! d"
    have "(j + ?s 1) mod BC < BC" using ij by simp
    then have "ShiftRow (ShiftRow a 0 BC) 1 BC ! i ! j = a ! i ! (((j + ?s 1) mod BC + ?s 0) mod BC)"
      using False ij by (simp add: step_entries)
    also have "((j + ?s 1) mod BC + ?s 0) mod BC = (j + ?s 1 + ?s 0) mod BC" by (rule mod_add_left_eq)
    also have "j + ?s 1 + ?s 0 = j + BC" using shifts_complete [OF assms(2), of i] False ij by linarith
    finally show ?thesis using ij by simp
  qed (use ij in \<open>simp add: step_entries\<close>)
qed (use assms in \<open>auto intro!: shapes\<close>)

text \<open>Substitution works on entries and so commutes with the permutation of the entries.\<close>

lemma Substitution_ShiftRow:
  assumes "shaped BC a"
  shows "Substitution (ShiftRow a d BC) box BC = ShiftRow (Substitution a box BC) d BC"
proof (rule shaped_eqI [of BC])
  fix i j :: nat assume ij: "i < 4" "j < BC"
  then have "(j + k) mod BC < BC" for k by simp
  with ij show "Substitution (ShiftRow a d BC) box BC ! i ! j = ShiftRow (Substitution a box BC) d BC ! i ! j"
    by (simp add: step_entries)
qed (use assms in \<open>auto intro!: shapes\<close>)

text \<open>One column: the matrix of the inverse times the matrix of the mixing is the identity.\<close>

lemma mix_column_inverse:
  fixes a b c d :: byte
  defines "m \<equiv> \<lambda>a b c d. gf_double a XOR (gf_double b XOR b) XOR c XOR d"
  shows "mulBy0x0e ! unat (m a b c d) XOR mulBy0x0b ! unat (m b c d a) XOR mulBy0x0d ! unat (m c d a b) XOR mulBy0x09 ! unat (m d a b c) = a"
  unfolding m_def table_entries gf_double_xor
  by (simp add: xor.assoc xor.left_commute xor.commute)

lemma InvMixColumn_MixColumn:
  assumes "shaped BC a"
  shows "InvMixColumn (MixColumn a BC) BC = a"
proof (rule shaped_eqI [of BC])
  fix i j :: nat assume ij: "i < 4" "j < BC"
  then have i4: "i = 0 \<or> i = 1 \<or> i = 2 \<or> i = 3" by linarith
  let ?r = "\<lambda>k. (i + k) mod 4"
  have rows: "((i + k) mod 4 + l) mod 4 = ?r (k + l)" "?r k < 4" for k l by (simp_all add: mod_add_left_eq add.assoc)
  have wrap: "?r (1 + 3) = i" "?r (2 + 2) = i" "?r (3 + 1) = i" "?r (2 + 3) = ?r 1" "?r (3 + 2) = ?r 1" "?r (3 + 3) = ?r 2"
      "?r (1 + 1) = ?r 2" "?r (1 + 2) = ?r 3" "?r (2 + 1) = ?r 3"
    using i4 by auto
  have "InvMixColumn (MixColumn a BC) BC ! i ! j = mulBy0x0e ! unat (MixColumn a BC ! i ! j) XOR mulBy0x0b ! unat (MixColumn a BC ! ?r 1 ! j) XOR
      mulBy0x0d ! unat (MixColumn a BC ! ?r 2 ! j) XOR mulBy0x09 ! unat (MixColumn a BC ! ?r 3 ! j)"
    using ij by (simp add: InvMixColumn_def)
  also have "\<dots> = a ! i ! j"
    unfolding step_entries(3) [OF ij] step_entries(3) [OF rows(2) ij(2)] rows(1) wrap
    by (rule mix_column_inverse)
  finally show "InvMixColumn (MixColumn a BC) BC ! i ! j = a ! i ! j" .
qed (use assms in \<open>auto simp: shapes\<close>)

lemma round_inverse:
  assumes "shaped BC a" "legal_BC BC"
  shows "decrypt_round BC rk (encrypt_round BC rk a r) r = a"
proof -
  have "shaped BC (MixColumn (ShiftRow (Substitution a S_box BC) 0 BC) BC)" "shaped BC (ShiftRow (Substitution a S_box BC) 0 BC)"
    by (auto intro!: shapes)
  then show ?thesis
    using assms
    by (simp add: decrypt_round_def encrypt_round_def KeyAddition_twice InvMixColumn_MixColumn Substitution_ShiftRow shapes
        Substitution_inverse ShiftRow_inverse del: One_nat_def)
qed

lemma encrypt_round_shape [shapes]: "shaped BC (encrypt_round BC rk a r)"
  by (simp add: encrypt_round_def shapes)

lemma rounds_inverse:
  assumes "shaped BC a" "legal_BC BC"
  shows "foldl (decrypt_round BC rk) (foldl (encrypt_round BC rk) a rs) (rev rs) = a"
  using assms(1)
proof (induction rs arbitrary: a)
  case (Cons r rs)
  then show ?case using round_inverse [OF _ assms(2)] by (simp add: shapes)
qed simp

lemma words_of_legal: "words_of bits = Some BC \<Longrightarrow> legal_BC BC \<and> bits = 32 * int BC"
  by (auto simp: words_of_def legal_BC_def split: if_split_asm)

lemma rounds_shape: "shaped BC a \<Longrightarrow> shaped BC (foldl (encrypt_round BC rk) a rs)"
  by (induction rs arbitrary: a) (auto simp: shapes)

text \<open>Decryption undoes encryption, for any schedule whatsoever.\<close>

lemma rijndaelDecrypt_rijndaelEncrypt:
  assumes "words_of blockBits = Some BC" "rounds_of keyBits blockBits = Some ROUNDS" "shaped BC a"
  shows "\<exists>c. rijndaelEncrypt a keyBits blockBits rk = (0, c) \<and> rijndaelDecrypt c keyBits blockBits rk = (0, a)"
proof -
  have BC: "legal_BC BC" using words_of_legal [OF assms(1)] by simp
  let ?a1 = "KeyAddition a (rk ! 0) BC"
  let ?a2 = "foldl (encrypt_round BC rk) ?a1 [1..<ROUNDS]"
  let ?a3 = "ShiftRow (Substitution ?a2 S_box BC) 0 BC"
  have s2: "shaped BC ?a2" by (rule rounds_shape) (simp add: shapes)
  have "ShiftRow (Substitution (KeyAddition (KeyAddition ?a3 (rk ! ROUNDS) BC) (rk ! ROUNDS) BC) Si_box BC) 1 BC = ?a2"
    using s2 BC by (simp add: KeyAddition_twice shapes Substitution_ShiftRow Substitution_inverse ShiftRow_inverse del: One_nat_def)
  moreover have "foldl (decrypt_round BC rk) ?a2 (rev [1..<ROUNDS]) = ?a1" by (rule rounds_inverse [OF _ BC]) (simp add: shapes)
  ultimately show ?thesis
    using assms by (simp add: rijndaelEncrypt_def rijndaelDecrypt_def Let_def KeyAddition_twice del: One_nat_def)
qed

section \<open>The schedule is always complete\<close>

lemma length_copy_columns: "length (copy_columns KC ncols tk W) = length W + min KC (ncols - length W)"
  by (simp add: copy_columns_def)

text \<open>The loop needs one round constant for every \<open>KC\<close> columns that are missing.\<close>

lemma sched_loop_complete:
  "KC > 0 \<Longrightarrow> ncols - length W \<le> KC * (30 - r) \<Longrightarrow> length W \<le> ncols \<Longrightarrow>
   \<exists>W'. sched_loop KC ncols r tk W = Some W' \<and> length W' = ncols"
proof (induction KC ncols r tk W rule: sched_loop.induct)
  case (1 KC ncols r tk W)
  show ?case
  proof (cases "length W < ncols")
    case True
    then have r: "r < 30" using "1.prems"(2) by (cases "r < 30") auto
    then obtain d where d: "30 - r = Suc d" "30 - (r + 1) = d" by (metis Suc_diff_Suc Suc_eq_plus1)
    have "ncols - length (copy_columns KC ncols (next_key KC (rcon ! r) tk) W) \<le> KC * (30 - (r + 1))"
      using "1.prems"(2) d by (simp add: length_copy_columns)
    with 1(1) [of "next_key KC (rcon ! r) tk"] "1.prems" True r show ?thesis
      by (subst sched_loop.simps) (simp add: length_copy_columns Let_def)
  next
    case False
    with "1.prems" show ?thesis by (subst sched_loop.simps) simp
  qed
qed

lemma rijndaelKeySched_complete:
  assumes "words_of keyBits = Some KC" "words_of blockBits = Some BC"
  shows "\<exists>ROUNDS sched. rounds_of keyBits blockBits = Some ROUNDS \<and> rijndaelKeySched k keyBits blockBits = Some (0, sched) \<and>
    length sched = ROUNDS + 1 \<and> (\<forall>rk\<in>set sched. shaped BC rk)"
proof -
  have sizes: "keyBits \<in> {128, 192, 256} \<and> KC = nat (keyBits div 32)" "blockBits \<in> {128, 192, 256} \<and> BC = nat (blockBits div 32)"
    using assms by (auto simp: words_of_def split: if_split_asm)
  then obtain ROUNDS where R: "rounds_of keyBits blockBits = Some ROUNDS" by (auto simp: rounds_of_def)
  have fit: "KC > 0" "KC \<le> (ROUNDS + 1) * BC" "(ROUNDS + 1) * BC - KC \<le> KC * 30"
    using sizes R by (auto simp: rounds_of_def)
  obtain W where "sched_loop KC ((ROUNDS + 1) * BC) 0 k (copy_columns KC ((ROUNDS + 1) * BC) k []) = Some W"
    using sched_loop_complete [of KC "(ROUNDS + 1) * BC" "copy_columns KC ((ROUNDS + 1) * BC) k []" 0 k] fit
    by (auto simp: length_copy_columns)
  then show ?thesis
    using assms R by (auto simp: rijndaelKeySched_def schedule_of_def shaped_def)
qed

section \<open>Blocks of octets\<close>

lemma to_rows_shape [shapes]: "shaped n (to_rows n bs)"
  by (auto simp: to_rows_def shaped_def)

lemma length_from_rows [simp]: "length (from_rows n a) = 4 * n"
  by (induction n) (simp_all add: from_rows_def)

lemma nth_from_rows: "j < n \<Longrightarrow> t < 4 \<Longrightarrow> from_rows n a ! (4 * j + t) = a ! t ! j"
proof (induction n)
  case (Suc n)
  have split: "from_rows (Suc n) a = from_rows n a @ map (\<lambda>t. a ! t ! n) [0..<4]" by (simp add: from_rows_def)
  show ?case
  proof (cases "j = n")
    case True
    then show ?thesis using Suc.prems by (simp add: split nth_append)
  next
    case False
    then have "j < n" using Suc.prems by simp
    then have "4 * j + t < 4 * n" using Suc.prems by simp
    with \<open>j < n\<close> Suc show ?thesis by (simp add: split nth_append)
  qed
qed simp

lemma to_rows_from_rows: "shaped n a \<Longrightarrow> to_rows n (from_rows n a) = a"
  by (rule shaped_eqI [OF to_rows_shape]) (auto simp: to_rows_def nth_from_rows)

lemma from_rows_to_rows:
  assumes "length bs = 4 * n"
  shows "from_rows n (to_rows n bs) = bs"
proof (rule nth_equalityI)
  fix k assume "k < length (from_rows n (to_rows n bs))"
  then have k: "k = 4 * (k div 4) + k mod 4" "k div 4 < n" "k mod 4 < 4" by auto
  then show "from_rows n (to_rows n bs) ! k = bs ! k"
    using nth_from_rows [of "k div 4" n "k mod 4" "to_rows n bs"] by (simp add: to_rows_def)
qed (simp add: assms)

text \<open>A key instance as \<open>makeKey\<close> leaves it, for sizes that are supported.\<close>

definition key_for :: "int \<Rightarrow> int \<Rightarrow> keyInstance \<Rightarrow> bool" where
  "key_for kl bl key \<longleftrightarrow> keyLen key = kl \<and> blockLen key = bl \<and> columns key = nat (bl div 32) \<and>
     (\<exists>ROUNDS. rounds_of kl bl = Some ROUNDS \<and> length (keySched key) = ROUNDS + 1)"

lemma makeKey_ok:
  assumes "kl \<in> {128, 192, 256}" "bl \<in> {128, 192, 256}" "nat (kl div 8) \<le> length material"
  shows "\<exists>key'. makeKey (Some key) kl bl (Some material) = Some (1, Some key') \<and> key_for kl bl key'"
proof -
  obtain KC BC where w: "words_of kl = Some KC" "words_of bl = Some BC" using assms(1,2) by (auto simp: words_of_def)
  obtain ROUNDS sched where s: "rounds_of kl bl = Some ROUNDS"
    "rijndaelKeySched (to_rows (nat (kl div 32)) material) kl bl = Some (0, sched)" "length sched = ROUNDS + 1"
    using rijndaelKeySched_complete [OF w] by blast
  show ?thesis
    using assms s by (auto simp: makeKey_def Let_def key_for_def)
qed

lemma block_cipher_inverse:
  assumes "key_for kl bl key" "kl \<in> {128, 192, 256}" "bl \<in> {128, 192, 256}" "length p = nat (bl div 8)"
  shows "\<exists>c. rijndaelBlockEncrypt (Some key) p = (bl, c) \<and> length c = length p \<and> rijndaelBlockDecrypt (Some key) c = (bl, p)"
proof -
  obtain BC where BC: "words_of bl = Some BC" "columns key = BC" "length p = 4 * BC"
    using assms by (auto simp: words_of_def key_for_def)
  obtain ROUNDS where R: "rounds_of kl bl = Some ROUNDS" using assms(1) by (auto simp: key_for_def)
  obtain c where c: "rijndaelEncrypt (to_rows BC p) kl bl (keySched key) = (0, c)" "rijndaelDecrypt c kl bl (keySched key) = (0, to_rows BC p)"
    using rijndaelDecrypt_rijndaelEncrypt [OF BC(1) R to_rows_shape] by blast
  have "shaped BC c" using c(1) BC(1) R by (auto simp: rijndaelEncrypt_def Let_def shapes)
  then have "to_rows BC (from_rows BC c) = c" by (rule to_rows_from_rows)
  with c assms BC show ?thesis
    by (auto simp: rijndaelBlockEncrypt_def rijndaelBlockDecrypt_def bad_instance_def key_for_def from_rows_to_rows)
qed

text \<open>An unsupported block length passes \<open>makeKey\<close> and is found out when the key is used.\<close>

lemma makeKey_bad_block_length:
  assumes "kl \<in> {128, 192, 256}" "bl \<notin> {128, 192, 256}" "nat (kl div 8) \<le> length material"
  shows "\<exists>key'. makeKey (Some key) kl bl (Some material) = Some (1, Some key') \<and> keySched key' = keySched key \<and>
    rijndaelBlockEncrypt (Some key') p = (BAD_KEY_INSTANCE, [])"
  using assms by (auto simp: makeKey_def rijndaelKeySched_def words_of_def Let_def rijndaelBlockEncrypt_def bad_instance_def split: option.split)

end
