(* ===== verification/Rijndael_128.thy ===== *)
theory Rijndael_128
  imports Rijndael
begin

text \<open>
  The routines of \<open>rijndael-alg-ref.c\<close> and \<open>rijndaelApi.c\<close> for keys and blocks of 128 bits (built when
  \<open>GLADMAN_AES_128_ENABLE\<close> is off), and the proof that they compute what the general routines compute.

  Where the code casts a row of four octets to a word, the octets are combined one by one: an
  exclusive or of words does not depend on the order of their octets.
\<close>

section \<open>The steps\<close>

definition shifts128 :: "nat list list" where
  "shifts128 = [[0, 0], [8, 24], [16, 16], [24, 8]]"

definition KeyAddition128 :: "block \<Rightarrow> block \<Rightarrow> block" where
  "KeyAddition128 a rk = map (\<lambda>i. map (\<lambda>j. a ! i ! j XOR rk ! i ! j) [0..<4]) [0..<4]"

definition Substitution128 :: "block \<Rightarrow> bytes \<Rightarrow> block" where
  "Substitution128 a box = map (\<lambda>i. map (\<lambda>j. box ! unat (a ! i ! j)) [0..<4]) [0..<4]"

definition rotateWordLeft :: "bytes \<Rightarrow> nat \<Rightarrow> bytes" where
  "rotateWordLeft word rotCount =
     (let bytes = rotCount div 8
      in [word ! (bytes AND 3), word ! ((1 + bytes) AND 3), word ! ((2 + bytes) AND 3), word ! ((3 + bytes) AND 3)])"

definition ShiftRow128 :: "block \<Rightarrow> nat \<Rightarrow> block" where
  "ShiftRow128 a d = map (\<lambda>i. if i = 0 then a ! 0 else rotateWordLeft (a ! i) (shifts128 ! i ! d)) [0..<4]"

definition MixColumn128 :: "block \<Rightarrow> block" where
  "MixColumn128 a =
     map (\<lambda>i. map (\<lambda>j. mulBy0x02 ! unat (a ! i ! j) XOR mulBy0x03 ! unat (a ! ((i + 1) mod 4) ! j) XOR
                       a ! ((i + 2) mod 4) ! j XOR a ! ((i + 3) mod 4) ! j) [0..<4]) [0..<4]"

definition InvMixColumn128 :: "block \<Rightarrow> block" where
  "InvMixColumn128 a =
     map (\<lambda>i. map (\<lambda>j. mulBy0x0e ! unat (a ! i ! j) XOR mulBy0x0b ! unat (a ! ((i + 1) mod 4) ! j) XOR
                       mulBy0x0d ! unat (a ! ((i + 2) mod 4) ! j) XOR mulBy0x09 ! unat (a ! ((i + 3) mod 4) ! j)) [0..<4]) [0..<4]"

section \<open>The key schedule and the cipher\<close>

text \<open>The loop over the columns, with the columns that it has filled in (44 for eleven round keys of four).\<close>

function sched_loop128 :: "nat \<Rightarrow> block \<Rightarrow> byte list list \<Rightarrow> byte list list option" where
  "sched_loop128 rconpointer tk W =
     (if length W < 44
      then (if rconpointer \<ge> length rcon then None
            else (let tk = add_columns 1 3 (first_column 4 (rcon ! rconpointer) tk)
                  in sched_loop128 (rconpointer + 1) tk (copy_columns 4 44 tk W)))
      else Some W)"
  by pat_completeness auto
termination
  by (relation "measure (\<lambda>(r, tk, W). 44 - length W)") (auto simp: copy_columns_def)

declare sched_loop128.simps [simp del]

definition rijndaelKeySched128 :: "block \<Rightarrow> (int \<times> block list) option" where
  "rijndaelKeySched128 k =
     do { W \<leftarrow> sched_loop128 0 k (copy_columns 4 44 k []);
          Some (0, schedule_of 4 10 W) }"

definition encrypt_round128 :: "block list \<Rightarrow> block \<Rightarrow> nat \<Rightarrow> block" where
  "encrypt_round128 rk a r = KeyAddition128 (MixColumn128 (ShiftRow128 (Substitution128 a S_box) 0)) (rk ! r)"

definition decrypt_round128 :: "block list \<Rightarrow> block \<Rightarrow> nat \<Rightarrow> block" where
  "decrypt_round128 rk a r = ShiftRow128 (Substitution128 (InvMixColumn128 (KeyAddition128 a (rk ! r))) Si_box) 1"

definition rijndaelEncrypt128 :: "block \<Rightarrow> block list \<Rightarrow> int \<times> block" where
  "rijndaelEncrypt128 a rk =
     (let a = KeyAddition128 a (rk ! 0);
          a = foldl (encrypt_round128 rk) a [1..<10];
          a = Substitution128 a S_box;
          a = ShiftRow128 a 0
      in (0, KeyAddition128 a (rk ! 10)))"

definition rijndaelDecrypt128 :: "block \<Rightarrow> block list \<Rightarrow> int \<times> block" where
  "rijndaelDecrypt128 a rk =
     (let a = KeyAddition128 a (rk ! 10);
          a = Substitution128 a Si_box;
          a = ShiftRow128 a 1;
          a = foldl (decrypt_round128 rk) a (rev [1..<10])
      in (0, KeyAddition128 a (rk ! 0)))"

section \<open>The interface\<close>

text \<open>The key of the optimised build: the schedule of 128 bits where it was asked for and applies.\<close>

definition makeKey128 :: "keyInstance option \<Rightarrow> int \<Rightarrow> int \<Rightarrow> bytes option \<Rightarrow> bool \<Rightarrow> (int \<times> keyInstance option) option" where
  "makeKey128 key keylen blocklen keyMaterial enable128Opt =
     (case (key, keyMaterial) of
        (Some key, Some material) \<Rightarrow>
          if enable128Opt \<and> keylen = 128 \<and> blocklen = 128
          then (let key = key\<lparr>keyLen := keylen, blockLen := blocklen, columns := nat ((blocklen sdiv 32) mod 2 ^ 32)\<rparr> in
                if length material < 16 then None
                else do { (r, sched) \<leftarrow> rijndaelKeySched128 (to_rows 4 material);
                          Some (1, Some (key\<lparr>keySched := sched\<rparr>)) })
          else makeKey (Some key) keylen blocklen (Some material)
      | _ \<Rightarrow> makeKey key keylen blocklen keyMaterial)"

definition rijndaelBlockEncrypt128 :: "keyInstance \<Rightarrow> bytes \<Rightarrow> int \<times> bytes" where
  "rijndaelBlockEncrypt128 key inp =
     (let (r, localBlock) = rijndaelEncrypt128 (to_rows 4 inp) (keySched key) in (128, from_rows 4 localBlock))"

definition rijndaelBlockDecrypt128 :: "keyInstance \<Rightarrow> bytes \<Rightarrow> int \<times> bytes" where
  "rijndaelBlockDecrypt128 key inp =
     (let (r, localBlock) = rijndaelDecrypt128 (to_rows 4 inp) (keySched key) in (128, from_rows 4 localBlock))"

section \<open>The optimised steps are the general steps\<close>

lemma steps128:
  "KeyAddition128 a rk = KeyAddition a rk 4" "Substitution128 a box = Substitution a box 4"
  "MixColumn128 a = MixColumn a 4" "InvMixColumn128 a = InvMixColumn a 4"
  by (simp_all add: KeyAddition128_def KeyAddition_def Substitution128_def Substitution_def MixColumn128_def MixColumn_def
      InvMixColumn128_def InvMixColumn_def)

text \<open>A rotation by whole octets, with the index taken modulo four by masking.\<close>

lemma rotateWordLeft_nth: "rotateWordLeft row (8 * k) = map (\<lambda>j. row ! ((j + k) mod 4)) [0..<4]"
proof -
  have mask: "n AND 3 = n mod 4" for n :: nat 
    using take_bit_eq_mask [of 2 n] by (simp add: take_bit_eq_mod mask_eq_exp_minus_1)
  show ?thesis by (simp add: rotateWordLeft_def mask upt_rec)
qed

lemma shifts128_shifts: "i < 4 \<Longrightarrow> d < 2 \<Longrightarrow> shifts128 ! i ! d = 8 * (shifts ! 0 ! i ! d)"
proof -
  assume "i < 4" "d < 2"
  then have "(i = 0 \<or> i = 1 \<or> i = 2 \<or> i = 3) \<and> (d = 0 \<or> d = 1)" by linarith
  then show ?thesis by (auto simp: shifts128_def shifts_def)
qed

lemma ShiftRow128_ShiftRow: "d < 2 \<Longrightarrow> ShiftRow128 a d = ShiftRow a d 4"
  by (simp add: ShiftRow128_def ShiftRow_def shifts128_shifts rotateWordLeft_nth)

lemmas optimised = steps128 ShiftRow128_ShiftRow

lemma rounds128: "encrypt_round128 = encrypt_round 4" "decrypt_round128 = decrypt_round 4"
  by (intro ext; simp add: encrypt_round128_def encrypt_round_def optimised)
     (intro ext; simp add: decrypt_round128_def decrypt_round_def optimised)

lemma sizes128: "words_of 128 = Some 4" "rounds_of 128 128 = Some 10"
  by (simp_all add: words_of_def rounds_of_def)

lemma rijndaelEncrypt128_eq: "rijndaelEncrypt128 a rk = rijndaelEncrypt a 128 128 rk"
  by (simp add: rijndaelEncrypt128_def rijndaelEncrypt_def sizes128 Let_def optimised rounds128)

lemma rijndaelDecrypt128_eq: "rijndaelDecrypt128 a rk = rijndaelDecrypt a 128 128 rk"
  by (simp add: rijndaelDecrypt128_def rijndaelDecrypt_def sizes128 Let_def optimised rounds128)

lemma next_key_128: "next_key 4 rc tk = add_columns 1 3 (first_column 4 rc tk)"
  by (simp add: next_key_def Let_def)

lemma sched_loop128_eq: "sched_loop128 r tk W = sched_loop 4 44 r tk W"
proof (induction r tk W rule: sched_loop128.induct)
  case (1 r tk W)
  then show ?case by (subst sched_loop128.simps, subst sched_loop.simps) (simp add: next_key_128 Let_def)
qed

lemma rijndaelKeySched128_eq: "rijndaelKeySched128 k = rijndaelKeySched k 128 128"
  by (simp add: rijndaelKeySched128_def rijndaelKeySched_def sizes128 Let_def sched_loop128_eq)

text \<open>The switch changes nothing about the key.\<close>

lemma makeKey128_eq: "makeKey128 key kl bl material opt = makeKey key kl bl material"
proof (cases "\<exists>k m. key = Some k \<and> material = Some m \<and> opt \<and> kl = 128 \<and> bl = 128")
  case True
  then obtain k m where km: "key = Some k" "material = Some m" "opt" "kl = 128" "bl = 128" by blast
  obtain sched where "rijndaelKeySched (to_rows 4 m) 128 128 = Some (0, sched)"
    using rijndaelKeySched_complete [OF sizes128(1) sizes128(1)] by blast
  with km show ?thesis by (simp add: makeKey128_def makeKey_def rijndaelKeySched128_eq Let_def)
next
  case False
  then show ?thesis by (auto simp: makeKey128_def split: option.split)
qed

lemma blocks128_eq:
  assumes "keyLen key = 128" "blockLen key = 128" "columns key = 4"
  shows "rijndaelBlockEncrypt128 key p = rijndaelBlockEncrypt (Some key) p"
    and "rijndaelBlockDecrypt128 key p = rijndaelBlockDecrypt (Some key) p"
  using assms
  by (simp_all add: rijndaelBlockEncrypt128_def rijndaelBlockEncrypt_def rijndaelBlockDecrypt128_def rijndaelBlockDecrypt_def
      bad_instance_def rijndaelEncrypt128_eq rijndaelDecrypt128_eq)

section \<open>A block cipher is a permutation of the blocks\<close>

text \<open>What the callers rely on: under a good key a block of the right size is encrypted into one that decrypts to it.\<close>

locale block_cipher =
  fixes encrypt :: "keyInstance \<Rightarrow> bytes \<Rightarrow> int \<times> bytes"
    and decrypt :: "keyInstance \<Rightarrow> bytes \<Rightarrow> int \<times> bytes"
    and good :: "keyInstance \<Rightarrow> bool"
  assumes inverse: "good k \<Longrightarrow> length p = nat (blockLen k div 8) \<Longrightarrow>
    \<exists>c. encrypt k p = (blockLen k, c) \<and> length c = length p \<and> decrypt k c = (blockLen k, p)"
begin

lemma encrypt_bij:
  assumes "good k" "n = nat (blockLen k div 8)"
  shows "bij_betw (\<lambda>p. snd (encrypt k p)) {p. length p = n} {c. length c = n}"
proof (rule bij_betw_imageI)
  let ?f = "\<lambda>p. snd (encrypt k p)"
  show inj: "inj_on ?f {p. length p = n}"
  proof (rule inj_onI)
    fix p q assume "p \<in> {p. length p = n}" "q \<in> {p. length p = n}" "?f p = ?f q"
    then show "p = q" using inverse [OF assms(1), of p] inverse [OF assms(1), of q] assms(2) by auto
  qed
  have "?f ` {p. length p = n} \<subseteq> {c. length c = n}"
    using inverse [OF assms(1)] assms(2) by fastforce
  moreover have "finite {c :: bytes. length c = n}" using finite_lists_length_eq [of "UNIV :: byte set" n] by simp
  ultimately show "?f ` {p. length p = n} = {c. length c = n}"
    using inj by (intro card_subset_eq) (simp_all add: card_image)
qed

text \<open>Hence encryption inverts decryption, too.\<close>

lemma encrypt_decrypt:
  assumes "good k" "length c = nat (blockLen k div 8)"
  shows "\<exists>p. decrypt k c = (blockLen k, p) \<and> length p = length c \<and> encrypt k p = (blockLen k, c)"
proof -
  have "c \<in> (\<lambda>p. snd (encrypt k p)) ` {p. length p = length c}"
    using encrypt_bij [OF assms] assms(2) by (auto simp: bij_betw_def)
  then obtain p where "length p = length c" "snd (encrypt k p) = c" by auto
  with inverse [OF assms(1), of p] assms(2) show ?thesis by auto
qed

end

definition good_key :: "keyInstance \<Rightarrow> bool" where
  "good_key key \<longleftrightarrow> keyLen key \<in> {128, 192, 256} \<and> blockLen key \<in> {128, 192, 256} \<and> key_for (keyLen key) (blockLen key) key"

interpretation general: block_cipher "\<lambda>key. rijndaelBlockEncrypt (Some key)" "\<lambda>key. rijndaelBlockDecrypt (Some key)" good_key
proof unfold_locales
  fix k and p :: bytes assume "good_key k" "length p = nat (blockLen k div 8)"
  then show "\<exists>c. rijndaelBlockEncrypt (Some k) p = (blockLen k, c) \<and> length c = length p \<and> rijndaelBlockDecrypt (Some k) c = (blockLen k, p)"
    using block_cipher_inverse [of "keyLen k" "blockLen k" k p] unfolding good_key_def by blast
qed

interpretation optimised: block_cipher rijndaelBlockEncrypt128 rijndaelBlockDecrypt128
    "\<lambda>key. good_key key \<and> keyLen key = 128 \<and> blockLen key = 128"
proof unfold_locales
  fix k and p :: bytes assume k: "good_key k \<and> keyLen k = 128 \<and> blockLen k = 128" and "length p = nat (blockLen k div 8)"
  then have "columns k = 4" by (simp add: good_key_def key_for_def)
  with k have eq: "rijndaelBlockEncrypt128 k q = rijndaelBlockEncrypt (Some k) q" "rijndaelBlockDecrypt128 k q = rijndaelBlockDecrypt (Some k) q" for q
    by (simp_all add: blocks128_eq)
  show "\<exists>c. rijndaelBlockEncrypt128 k p = (blockLen k, c) \<and> length c = length p \<and> rijndaelBlockDecrypt128 k c = (blockLen k, p)"
    unfolding eq using k \<open>length p = nat (blockLen k div 8)\<close> by (intro general.inverse) simp_all
qed

end
