(* ===== verification/Demo_Aes.thy ===== *)
theory Demo_Aes
  imports Rijndael_128
begin

text \<open>
  The example of FIPS 197, appendix C.1, evaluated on the model: a key of 128 bits and one block.
\<close>

definition fips_key :: bytes where
  "fips_key = [0x00, 0x01, 0x02, 0x03, 0x04, 0x05, 0x06, 0x07, 0x08, 0x09, 0x0a, 0x0b, 0x0c, 0x0d, 0x0e, 0x0f]"

definition fips_plain :: bytes where
  "fips_plain = [0x00, 0x11, 0x22, 0x33, 0x44, 0x55, 0x66, 0x77, 0x88, 0x99, 0xaa, 0xbb, 0xcc, 0xdd, 0xee, 0xff]"

definition fips_cipher :: bytes where
  "fips_cipher = [0x69, 0xc4, 0xe0, 0xd8, 0x6a, 0x7b, 0x04, 0x30, 0xd8, 0xcd, 0xb7, 0x80, 0x70, 0xb4, 0xc5, 0x5a]"

definition no_key :: keyInstance where
  "no_key = \<lparr>keyLen = 0, blockLen = 0, columns = 0, keySched = []\<rparr>"

lemma fips_lengths: "length fips_key = 16" "length fips_plain = 16"
  by (simp_all add: fips_key_def fips_plain_def)

lemma fips_encrypt:
  "(case makeKey (Some no_key) 128 128 (Some fips_key) of
      Some (r, key) \<Rightarrow> rijndaelBlockEncrypt key fips_plain
    | None \<Rightarrow> (0, [])) = (128, fips_cipher)"
  by code_simp

end
