(* ===== verification/Enc64.thy ===== *)
theory Enc64
  imports Prelude "HOL-Library.Monad_Syntax" "HOL-Library.Sublist"
begin

text \<open>
  Model of \<open>src/libsecurity_apple_x509_tp-55006/lib/cuEnc64.c\<close>: the base 64 encoding of RFC 1421 and
  the conversion of PEM text, with which the trust policy module reads the certificates that it
  fetches from the network.

  Text is a list of octets. \<open>unsigned\<close> arithmetic is on natural numbers with \<open>mod 2 ^ 32\<close> written out;
  the integer promotions of the shifts only affect bits that the code masks or drops. \<open>malloc\<close>, whose result the code
  does not check, is taken to succeed. \<open>None\<close> is a NULL pointer for \<open>cuDec64\<close>; for \<open>cuEnc64WithLines\<close> it is a
  division by zero or a write beyond the buffer, and for \<open>cuConvertPem\<close> a loop that does not end.
\<close>

section \<open>Encoding\<close>

definition bintoasc :: bytes where
  "bintoasc = [
     0x41, 0x42, 0x43, 0x44, 0x45, 0x46, 0x47, 0x48, 0x49, 0x4a, 0x4b, 0x4c, 0x4d, 0x4e, 0x4f, 0x50,
     0x51, 0x52, 0x53, 0x54, 0x55, 0x56, 0x57, 0x58, 0x59, 0x5a, 0x61, 0x62, 0x63, 0x64, 0x65, 0x66,
     0x67, 0x68, 0x69, 0x6a, 0x6b, 0x6c, 0x6d, 0x6e, 0x6f, 0x70, 0x71, 0x72, 0x73, 0x74, 0x75, 0x76,
     0x77, 0x78, 0x79, 0x7a, 0x30, 0x31, 0x32, 0x33, 0x34, 0x35, 0x36, 0x37, 0x38, 0x39, 0x2b, 0x2f]"

definition asctobin :: bytes where
  "asctobin = [
     0x80, 0x80, 0x80, 0x80, 0x80, 0x80, 0x80, 0x80, 0x80, 0x80, 0x80, 0x80, 0x80, 0x80, 0x80, 0x80,
     0x80, 0x80, 0x80, 0x80, 0x80, 0x80, 0x80, 0x80, 0x80, 0x80, 0x80, 0x80, 0x80, 0x80, 0x80, 0x80,
     0x80, 0x80, 0x80, 0x80, 0x80, 0x80, 0x80, 0x80, 0x80, 0x80, 0x80, 0x3e, 0x80, 0x80, 0x80, 0x3f,
     0x34, 0x35, 0x36, 0x37, 0x38, 0x39, 0x3a, 0x3b, 0x3c, 0x3d, 0x80, 0x80, 0x80, 0x80, 0x80, 0x80,
     0x80, 0x0, 0x1, 0x2, 0x3, 0x4, 0x5, 0x6, 0x7, 0x8, 0x9, 0xa, 0xb, 0xc, 0xd, 0xe,
     0xf, 0x10, 0x11, 0x12, 0x13, 0x14, 0x15, 0x16, 0x17, 0x18, 0x19, 0x80, 0x80, 0x80, 0x80, 0x80,
     0x80, 0x1a, 0x1b, 0x1c, 0x1d, 0x1e, 0x1f, 0x20, 0x21, 0x22, 0x23, 0x24, 0x25, 0x26, 0x27, 0x28,
     0x29, 0x2a, 0x2b, 0x2c, 0x2d, 0x2e, 0x2f, 0x30, 0x31, 0x32, 0x33, 0x80, 0x80, 0x80, 0x80, 0x80]"

definition ENC :: "byte \<Rightarrow> byte" where
  "ENC c = bintoasc ! unat (c AND 0x3f)"

definition PAD :: byte where
  "PAD = 0x3d"

definition encChunk :: "bytes \<Rightarrow> nat \<Rightarrow> bytes" where
  "encChunk inp count =
     (let c1 = drop_bit 2 (inp ! 0);
          c2 = (push_bit 4 (inp ! 0) AND 0x30) OR (drop_bit 4 (inp ! 1) AND 0xf);
          c3 = (push_bit 2 (inp ! 1) AND 0x3c) OR (drop_bit 6 (inp ! 2) AND 0x3);
          c4 = inp ! 2 AND 0x3f
      in [ENC c1, ENC c2] @
         (if count = 1 then [PAD, PAD] else [ENC c3, if count = 2 then PAD else ENC c4]))"

text \<open>The loop over the input, with the number of characters of the current line.\<close>

function enc_loop :: "nat \<Rightarrow> nat \<Rightarrow> bytes \<Rightarrow> bytes" where
  "enc_loop linelen thisLine inbuf =
     (if inbuf = [] then []
      else (let (chunk, inbuf) =
                  (if length inbuf < 3 then (encChunk (inbuf @ replicate (3 - length inbuf) 0) (length inbuf), [])
                   else (encChunk inbuf 3, drop 3 inbuf));
                thisLine = thisLine + 4
            in if linelen \<noteq> 0 \<and> thisLine \<ge> linelen \<and> inbuf \<noteq> []
               then chunk @ [0x0a] @ enc_loop linelen 0 inbuf
               else chunk @ enc_loop linelen thisLine inbuf))"
  by pat_completeness auto
termination
  by (relation "measure (\<lambda>(_, _, inbuf). length inbuf)") (auto split: if_splits)

declare enc_loop.simps [simp del]

text \<open>The size of the buffer; \<open>None\<close> is a division by zero, after \<open>linelen\<close> has been rounded up beyond its width.\<close>

definition round_linelen :: "nat \<Rightarrow> nat" where
  "round_linelen linelen = (if linelen mod 4 \<noteq> 0 then (linelen + 3) mod 2 ^ 32 div 4 * 4 else linelen)"

definition enc_size :: "nat \<Rightarrow> nat \<Rightarrow> nat option" where
  "enc_size inlen linelen =
     (let outTextLen = (inlen + 2) mod 2 ^ 32 div 3 * 4 mod 2 ^ 32
      in do { numLines \<leftarrow>
                (if linelen \<noteq> 0
                 then (let linelen = round_linelen linelen
                       in if linelen = 0 then None else Some ((outTextLen + linelen + (2 ^ 32 - 1)) mod 2 ^ 32 div linelen))
                 else Some 1);
              Some ((outTextLen + 2 * numLines + 1) mod 2 ^ 32) })"

definition cuEnc64WithLines :: "bytes \<Rightarrow> nat \<Rightarrow> bytes option" where
  "cuEnc64WithLines inbuf linelen =
     do { len \<leftarrow> enc_size (length inbuf) linelen;
          let out = enc_loop (if linelen = 0 then 0 else round_linelen linelen) 0 inbuf @ [0x0a, 0];
          if length out > len then None else Some out }"

definition cuEnc64 :: "bytes \<Rightarrow> bytes option" where
  "cuEnc64 inbuf = cuEnc64WithLines inbuf 0"

section \<open>Decoding\<close>

definition isWhite :: "byte \<Rightarrow> bool" where
  "isWhite c \<longleftrightarrow> c = 0x0a \<or> c = 0x0d \<or> c = 0x20 \<or> c = 0x09 \<or> c = 0"

definition stringCleanse :: "bytes \<Rightarrow> bytes" where
  "stringCleanse inbuf = filter (\<lambda>c. \<not> isWhite c) inbuf"

definition dec_char :: "byte \<Rightarrow> byte option" where
  "dec_char b =
     (if b AND 0x80 \<noteq> 0 then None
      else (let c = asctobin ! unat b in if c AND 0x80 \<noteq> 0 then None else Some c))"

text \<open>The last two characters of a group of four, and the number of octets that the group stands for.\<close>

definition dec_tail :: "byte \<Rightarrow> byte \<Rightarrow> byte \<Rightarrow> bool \<Rightarrow> (byte \<times> byte \<times> nat) option" where
  "dec_tail c2 b3 b4 more =
     (if b3 = PAD
      then (if c2 AND 0xf \<noteq> 0 then None
            else if b4 = PAD then (if more then None else Some (0, 0, 1))
            else None)
      else do { c3 \<leftarrow> dec_char b3;
                if b4 = PAD then (if c3 AND 3 \<noteq> 0 then None else Some (c3, 0, 2))
                else do { c4 \<leftarrow> dec_char b4; Some (c3, c4, 3) } })"

fun dec_loop :: "bytes \<Rightarrow> bytes option" where
  "dec_loop [] = Some []"
| "dec_loop (b1 # b2 # b3 # b4 # rest) =
     do { c1 \<leftarrow> dec_char b1;
          c2 \<leftarrow> dec_char b2;
          (c3, c4, thisOlen) \<leftarrow> dec_tail c2 b3 b4 (rest \<noteq> []);
          more \<leftarrow> dec_loop rest;
          Some (take thisOlen
                  [push_bit 2 c1 OR drop_bit 4 c2, push_bit 4 c2 OR drop_bit 2 c3, push_bit 6 c3 OR c4] @ more) }"
| "dec_loop _ = None"

definition cuDec64 :: "bytes \<Rightarrow> bytes option" where
  "cuDec64 inbuf =
     (let news = stringCleanse inbuf in if length news mod 4 \<noteq> 0 then None else dec_loop news)"

fun valid_scan :: "bytes \<Rightarrow> nat \<Rightarrow> nat \<Rightarrow> bool" where
  "valid_scan [] padChars validEncChars = (validEncChars mod 4 = 0)"
| "valid_scan (c # inbuf) padChars validEncChars =
     (if isWhite c then valid_scan inbuf padChars validEncChars
      else if c = PAD
      then (if padChars + 1 > 2 then False else valid_scan inbuf (padChars + 1) (validEncChars + 1))
      else if padChars > 0 then False
      else if c AND 0x80 \<noteq> 0 \<or> asctobin ! unat c AND 0x80 \<noteq> 0 then False
      else valid_scan inbuf padChars (validEncChars + 1))"

definition cuIsValidEnc64 :: "bytes \<Rightarrow> bool" where
  "cuIsValidEnc64 inbuf = valid_scan inbuf 0 0"

section \<open>PEM\<close>

fun findStr :: "bytes \<Rightarrow> bytes \<Rightarrow> nat option" where
  "findStr [] str = None"
| "findStr (c # inText) str =
     (if length (c # inText) < length str then None
      else if take (length str) (c # inText) = str then Some 0
      else map_option Suc (findStr inText str))"

text \<open>The scan of a line: where its first end of line is, and how much it takes with all ends of line after it.\<close>

fun line_scan :: "bytes \<Rightarrow> nat option \<Rightarrow> nat \<Rightarrow> nat option \<times> nat" where
  "line_scan [] newline consumed = (newline, consumed)"
| "line_scan (c # inText) newline consumed =
     (if c = 0x0d \<or> c = 0x0a
      then line_scan inText (if newline = None then Some consumed else newline) (consumed + 1)
      else if newline \<noteq> None then (newline, consumed)
      else line_scan inText newline (consumed + 1))"

definition getLine :: "bytes \<Rightarrow> bytes \<times> nat" where
  "getLine inText =
     (let (newline, consumed) = line_scan inText None 0
      in (take (case newline of Some n \<Rightarrow> n | None \<Rightarrow> consumed) inText, consumed))"

definition strlen :: "bytes \<Rightarrow> nat" where
  "strlen s = length (takeWhile (\<lambda>c. c \<noteq> 0) s)"

text \<open>The loop over empty lines.\<close>

partial_function (option) skip_empty :: "bytes \<Rightarrow> bytes option" where
  "skip_empty text =
     (let (currLine, consumed) = getLine text
      in if strlen currLine = 0 then skip_empty (drop consumed text) else Some text)"

definition BEGIN_marker :: bytes where
  "BEGIN_marker = [0x2d, 0x2d, 0x2d, 0x2d, 0x2d, 0x42, 0x45, 0x47, 0x49, 0x4e]"

definition END_marker :: bytes where
  "END_marker = [0x2d, 0x2d, 0x2d, 0x2d, 0x2d, 0x45, 0x4e, 0x44]"

abbreviation UNSUPPORTED_FORMAT_ERR :: int where "UNSUPPORTED_FORMAT_ERR \<equiv> - 25256"

text \<open>What is left of the text after the first line that has the marker in it.\<close>

definition after_begin :: "bytes \<Rightarrow> bytes" where
  "after_begin inbuf =
     (case findStr inbuf BEGIN_marker of
        Some n \<Rightarrow> (let text = drop n inbuf in drop (snd (getLine text)) text)
      | None \<Rightarrow> inbuf)"

definition cuConvertPem :: "bytes \<Rightarrow> (int \<times> bytes option) option" where
  "cuConvertPem inbuf =
     do { text \<leftarrow> skip_empty (after_begin inbuf);
          if text = [] then Some (UNSUPPORTED_FORMAT_ERR, None)
          else if findStr text END_marker = Some 0 then Some (UNSUPPORTED_FORMAT_ERR, None)
          else (let base64 = (case findStr text END_marker of Some n \<Rightarrow> take n text | None \<Rightarrow> text)
                in case cuDec64 base64 of
                     None \<Rightarrow> Some (UNSUPPORTED_FORMAT_ERR, None)
                   | Some decData \<Rightarrow> Some (0, Some decData)) }"

section \<open>What is encoded is decoded\<close>

lemma ENC_properties:
  "dec_char (ENC c) = Some (c AND 0x3f) \<and> ENC c \<noteq> PAD \<and> \<not> isWhite (ENC c) \<and> ENC c \<noteq> 0x2d"
proof -
  have all: "\<forall>k\<in>set [0..<64]. dec_char (bintoasc ! k) = Some (of_nat k) \<and> bintoasc ! k \<noteq> PAD \<and>
      \<not> isWhite (bintoasc ! k) \<and> bintoasc ! k \<noteq> 0x2d"
    by code_simp
  have "unat (c AND 0x3f) < 64"
  proof -
    have "c AND 0x3f = take_bit 6 c" by (simp add: take_bit_eq_mask mask_eq_exp_minus_1)
    then have "unat (c AND 0x3f) = take_bit 6 (unat c)" by (simp add: unsigned_take_bit_eq)
    then show ?thesis using take_bit_nat_less_exp [of 6 "unat c"] by simp
  qed
  with all have "dec_char (ENC c) = Some (of_nat (unat (c AND 0x3f))) \<and> ENC c \<noteq> PAD \<and> \<not> isWhite (ENC c) \<and> ENC c \<noteq> 0x2d"
    unfolding ENC_def by auto
  then show ?thesis by simp
qed

lemmas ENC_simps [simp] = ENC_properties [THEN conjunct1] ENC_properties [THEN conjunct2, THEN conjunct1]
  ENC_properties [THEN conjunct2, THEN conjunct2, THEN conjunct1] ENC_properties [THEN conjunct2, THEN conjunct2, THEN conjunct2]


text \<open>The three octets of a group, from the four numbers of six bits that they are cut into.\<close>

lemma octet_cases: "(n :: nat) < 8 \<Longrightarrow> n = 0 \<or> n = 1 \<or> n = 2 \<or> n = 3 \<or> n = 4 \<or> n = 5 \<or> n = 6 \<or> n = 7"
  by linarith

lemma group_octets:
  fixes a b c :: byte
  defines "c1 \<equiv> drop_bit 2 a AND 0x3f"
    and "c2 \<equiv> ((push_bit 4 a AND 0x30) OR (drop_bit 4 b AND 0xf)) AND 0x3f"
    and "c3 \<equiv> ((push_bit 2 b AND 0x3c) OR (drop_bit 6 c AND 0x3)) AND 0x3f"
    and "c4 \<equiv> (c AND 0x3f) AND 0x3f"
  shows "push_bit 2 c1 OR drop_bit 4 c2 = a" "push_bit 4 c2 OR drop_bit 2 c3 = b" "push_bit 6 c3 OR c4 = c"
  unfolding c1_def c2_def c3_def c4_def
  by (rule bit_word_eqI, simp, drule octet_cases, elim disjE, simp_all add: bit_simps)+

lemma group_padding:
  fixes a b :: byte
  shows "((push_bit 4 a AND 0x30) OR (drop_bit 4 0 AND 0xf)) AND 0x3f AND 0xf = 0"
    and "((push_bit 2 b AND 0x3c) OR (drop_bit 6 0 AND 0x3)) AND 0x3f AND 3 = 0"
  by (rule bit_word_eqI, simp, drule octet_cases, elim disjE, simp_all add: bit_simps)+

lemma encChunk_3: "encChunk (a # b # c # d # xs) 3 = encChunk [a, b, c] 3"
  by (simp add: encChunk_def)

lemma dec_group:
  "dec_loop (ENC x1 # ENC x2 # ENC x3 # ENC x4 # rest) =
     map_option (\<lambda>more. (push_bit 2 (x1 AND 0x3f) OR drop_bit 4 (x2 AND 0x3f)) # (push_bit 4 (x2 AND 0x3f) OR drop_bit 2 (x3 AND 0x3f)) #
       (push_bit 6 (x3 AND 0x3f) OR (x4 AND 0x3f)) # more) (dec_loop rest)"
  by (cases "dec_loop rest") (simp_all add: dec_tail_def)

lemma dec_group_end:
  "x3 AND 0x3f AND 3 = 0 \<Longrightarrow> dec_loop [ENC x1, ENC x2, ENC x3, PAD] =
     Some [push_bit 2 (x1 AND 0x3f) OR drop_bit 4 (x2 AND 0x3f), push_bit 4 (x2 AND 0x3f) OR drop_bit 2 (x3 AND 0x3f)]"
  "x2 AND 0x3f AND 0xf = 0 \<Longrightarrow> dec_loop [ENC x1, ENC x2, PAD, PAD] = Some [push_bit 2 (x1 AND 0x3f) OR drop_bit 4 (x2 AND 0x3f)]"
  by (simp_all add: dec_tail_def and.assoc)

lemma dec_encChunk_3: "dec_loop (encChunk [a, b, c] 3 @ rest) = map_option (\<lambda>more. a # b # c # more) (dec_loop rest)"
  using dec_group [of "drop_bit 2 a" "(push_bit 4 a AND 0x30) OR (drop_bit 4 b AND 0xf)"
      "(push_bit 2 b AND 0x3c) OR (drop_bit 6 c AND 0x3)" "c AND 0x3f" rest]
  unfolding group_octets by (simp add: encChunk_def Let_def)

lemma dec_encChunk_end: "dec_loop (encChunk [a, b, 0] 2) = Some [a, b]" "dec_loop (encChunk [a, 0, 0] 1) = Some [a]"
  using dec_group_end(1) [OF group_padding(2) [of b], of "drop_bit 2 a" "(push_bit 4 a AND 0x30) OR (drop_bit 4 b AND 0xf)"]
    dec_group_end(2) [OF group_padding(1) [of a], of "drop_bit 2 a"]
  unfolding group_octets by (simp_all add: encChunk_def Let_def)

lemma length_encChunk [simp]: "length (encChunk inp count) = 4"
  by (simp add: encChunk_def Let_def)

lemma PAD_not_white [simp]: "\<not> isWhite PAD" "PAD \<noteq> 0x2d"
  by (simp_all add: isWhite_def PAD_def)

lemma encChunk_not_white: "c \<in> set (encChunk inp count) \<Longrightarrow> \<not> isWhite c \<and> c \<noteq> 0x2d"
  by (auto simp: encChunk_def Let_def split: if_splits)

lemma stringCleanse_simps [simp]:
  "stringCleanse [] = []" "stringCleanse (xs @ ys) = stringCleanse xs @ stringCleanse ys"
  "stringCleanse (encChunk inp count) = encChunk inp count" "stringCleanse (0x0a # xs) = stringCleanse xs"
  "stringCleanse (0 # xs) = stringCleanse xs"
  using encChunk_not_white [of _ inp count]
  by (simp_all add: stringCleanse_def filter_True, simp_all add: isWhite_def)

text \<open>The loop takes three octets at a time, and a last group of one or two.\<close>

lemma enc_loop_Nil: "enc_loop l t [] = []"
  by (subst enc_loop.simps) simp

lemma enc_loop_end:
  "enc_loop l t [a] = encChunk [a, 0, 0] 1" "enc_loop l t [a, b] = encChunk [a, b, 0] 2"
  by (subst enc_loop.simps, simp add: enc_loop_Nil numeral_2_eq_2)+

lemma enc_loop_3:
  "enc_loop l t (a # b # c # xs) =
     encChunk [a, b, c] 3 @
     (if l \<noteq> 0 \<and> t + 4 \<ge> l \<and> xs \<noteq> [] then 0x0a # enc_loop l 0 xs else enc_loop l (t + 4) xs)"
  by (subst enc_loop.simps, cases xs) (simp_all add: encChunk_3 enc_loop_Nil)

fun triples :: "'a list \<Rightarrow> bool" where
  "triples (a # b # c # xs) = triples xs"
| "triples xs = True"

lemma enc_loop_decoded:
  "dec_loop (stringCleanse (enc_loop l t bs)) = Some bs \<and> length (stringCleanse (enc_loop l t bs)) mod 4 = 0"
proof (induction bs arbitrary: t rule: triples.induct)
  case (1 a b c xs)
  then show ?case by (simp add: enc_loop_3 dec_encChunk_3)
qed (simp_all add: enc_loop_Nil enc_loop_end dec_encChunk_end dec_encChunk_end(2) [unfolded One_nat_def])

lemma cuDec64_enc_loop: "cuDec64 (enc_loop l t bs @ [0x0a, 0]) = Some bs" "cuDec64 (enc_loop l t bs @ [0x0a]) = Some bs"
  using enc_loop_decoded [of l t bs] by (simp_all add: cuDec64_def)

lemma cuDec64_cuEnc64WithLines: "cuEnc64WithLines bs linelen = Some text \<Longrightarrow> cuDec64 text = Some bs"
  by (auto simp: cuEnc64WithLines_def cuDec64_enc_loop split: bind_splits if_splits)

section \<open>The buffer\<close>

text \<open>The number of lines that the loop starts, for a length of lines that is a multiple of four.\<close>

lemma groups_3: "(length (a # b # c # xs) + 2) div 3 = Suc ((length xs + 2) div 3)"
  using div_add_self2 [of 3 "length xs + 2"] by (simp add: add.commute)

lemma length_enc_loop_plain: "length (enc_loop 0 t bs) = (length bs + 2) div 3 * 4"
proof (induction bs arbitrary: t rule: triples.induct)
  case (1 a b c xs)
  then show ?case using groups_3 [of a b c xs] by (simp add: enc_loop_3)
qed (simp_all add: enc_loop_Nil enc_loop_end)

text \<open>At most one newline for every full line of text.\<close>

lemma length_enc_loop_lines:
  assumes "0 < l" "4 dvd l"
  shows "bs \<noteq> [] \<Longrightarrow> 4 dvd t \<Longrightarrow> t < l \<Longrightarrow>
    l * (length (enc_loop l t bs) - (length bs + 2) div 3 * 4) < t + (length bs + 2) div 3 * 4 \<and>
    (length bs + 2) div 3 * 4 \<le> length (enc_loop l t bs)"
proof (induction bs arbitrary: t rule: triples.induct)
  case (1 a b c xs)
  let ?n = "(length xs + 2) div 3 * 4"
  have n: "(length (a # b # c # xs) + 2) div 3 * 4 = ?n + 4" by (simp only: groups_3) simp
  obtain k m where km: "l = 4 * k" "t = 4 * m" using assms(2) "1.prems"(2) by (auto simp: dvd_def)
  then have le: "t + 4 \<le> l" using "1.prems"(3) by simp
  show ?case
  proof (cases "xs = []")
    case True
    then show ?thesis using assms by (simp add: enc_loop_3 enc_loop_Nil)
  next
    case False
    show ?thesis
    proof (cases "t + 4 \<ge> l")
      case True
      then have "enc_loop l t (a # b # c # xs) = encChunk [a, b, c] 3 @ 0x0a # enc_loop l 0 xs" using assms False by (simp add: enc_loop_3)
      then have len: "length (enc_loop l t (a # b # c # xs)) = length (enc_loop l 0 xs) + 5" by simp
      have IH: "l * (length (enc_loop l 0 xs) - ?n) < ?n" "?n \<le> length (enc_loop l 0 xs)" using 1(1) [of 0] False assms by simp_all
      have "l * (length (enc_loop l 0 xs) + 5 - (?n + 4)) = l * (length (enc_loop l 0 xs) - ?n) + l"
        using IH(2) by (simp add: algebra_simps Suc_diff_le)
      with IH le True show ?thesis unfolding n len by simp
    next
      case f: False
      then have "enc_loop l t (a # b # c # xs) = encChunk [a, b, c] 3 @ enc_loop l (t + 4) xs" using False by (simp add: enc_loop_3)
      then have len: "length (enc_loop l t (a # b # c # xs)) = length (enc_loop l (t + 4) xs) + 4" by simp
      have "l * (length (enc_loop l (t + 4) xs) - ?n) < t + 4 + ?n" "?n \<le> length (enc_loop l (t + 4) xs)"
        using 1(1) [of "t + 4"] False f km by simp_all
      then show ?thesis unfolding n len by simp
    qed
  qed
qed (use assms in \<open>simp_all add: enc_loop_end\<close>)

text \<open>The buffer is large enough, for data that is not empty and sizes far enough from the width of the integers.\<close>

lemma enc_size_plain: "n < 2 ^ 30 \<Longrightarrow> enc_size n 0 = Some ((n + 2) div 3 * 4 + 3)"
proof -
  assume n: "n < 2 ^ 30"
  then have "(n + 2) mod 2 ^ 32 = n + 2" by simp
  moreover have "(n + 2) div 3 * 4 + 3 < 2 ^ 32" using n by simp
  then have "(n + 2) div 3 * 4 mod 2 ^ 32 = (n + 2) div 3 * 4" "((n + 2) div 3 * 4 + 3) mod 2 ^ 32 = (n + 2) div 3 * 4 + 3"
    by (intro mod_less; linarith)+
  ultimately show ?thesis by (simp add: enc_size_def Let_def)
qed

lemma round_linelen_bounds:
  assumes "0 < linelen" "linelen < 2 ^ 31"
  shows "0 < round_linelen linelen \<and> round_linelen linelen \<le> 2 ^ 31 \<and> 4 dvd round_linelen linelen"
proof -
  have "(linelen + 3) mod 2 ^ 32 = linelen + 3" using assms by simp
  moreover have "(linelen + 3) div 4 * 4 \<le> 2 ^ 31" "0 < (linelen + 3) div 4 * 4" using assms by simp_all
  ultimately show ?thesis using assms by (auto simp: round_linelen_def dvd_eq_mod_eq_0)
qed

lemma enc_size_lines:
  assumes "n < 2 ^ 30" "0 < linelen" "linelen < 2 ^ 31"
  defines "T \<equiv> (n + 2) div 3 * 4" and "L \<equiv> round_linelen linelen"
  shows "enc_size n linelen = Some (T + 2 * ((T + L - 1) div L) + 1)"
proof -
  have L: "0 < L" "L \<le> 2 ^ 31" "4 dvd L" using round_linelen_bounds [OF assms(2,3)] by (simp_all add: L_def)
  then have "4 \<le> L" by (auto elim!: dvdE)
  have T: "T < 1500000000" using assms(1) by (simp add: T_def)
  have sum: "(T + L + (2 ^ 32 - 1)) mod 2 ^ 32 = T + L - 1"
  proof -
    have "T + L + (2 ^ 32 - 1) = (T + L - 1) + 2 ^ 32" using L by simp
    moreover have "T + L - 1 < 2 ^ 32" using T L by simp
    ultimately show ?thesis by (metis mod_add_self2 mod_less)
  qed
  have "(T + L - 1) div L \<le> (T + L - 1) div 4" using \<open>4 \<le> L\<close> by (intro div_le_mono2) simp_all
  then have len: "T + 2 * ((T + L - 1) div L) + 1 < 2 ^ 32" using T L(2) by simp
  have "(n + 2) mod 2 ^ 32 = n + 2" "T mod 2 ^ 32 = T" using assms(1) T by simp_all
  then have t: "(n + 2) mod 2 ^ 32 div 3 * 4 mod 2 ^ 32 = T" by (simp only: T_def)
  show ?thesis
    unfolding enc_size_def Let_def t L_def [symmetric] sum using assms(2) L(1) mod_less [OF len] by simp
qed

lemma cuEnc64WithLines_fits:
  assumes "length bs < 2 ^ 30" "linelen < 2 ^ 31" "linelen = 0 \<or> bs \<noteq> []"
  shows "cuEnc64WithLines bs linelen = Some (enc_loop (if linelen = 0 then 0 else round_linelen linelen) 0 bs @ [0x0a, 0])"
proof (cases "linelen = 0")
  case True
  then show ?thesis using assms(1) by (simp add: cuEnc64WithLines_def enc_size_plain length_enc_loop_plain)
next
  case False
  let ?T = "(length bs + 2) div 3 * 4" and ?L = "round_linelen linelen"
  have L: "0 < ?L" "4 dvd ?L" using round_linelen_bounds [of linelen] assms(2) False by simp_all
  define k where "k = length (enc_loop ?L 0 bs) - ?T"
  have k: "?L * k < ?T" "length (enc_loop ?L 0 bs) = ?T + k"
    using length_enc_loop_lines [OF L, of bs 0] assms(3) L(1) False by (auto simp: k_def)
  then have "?L * (k + 1) \<le> ?T + ?L - 1" by simp
  then have "k + 1 \<le> (?T + ?L - 1) div ?L" using L(1) by (simp add: less_eq_div_iff_mult_less_eq mult.commute)
  then show ?thesis
    using enc_size_lines [OF assms(1) _ assms(2)] False k(2) by (simp add: cuEnc64WithLines_def)
qed

text \<open>Nothing is encoded into lines without a write beyond the buffer.\<close>

lemma cuEnc64WithLines_empty: "0 < linelen \<Longrightarrow> linelen < 2 ^ 31 \<Longrightarrow> cuEnc64WithLines [] linelen = None"
  using enc_size_lines [of 0 linelen] round_linelen_bounds [of linelen]
  by (simp add: cuEnc64WithLines_def enc_loop_Nil div_less)

section \<open>Lines\<close>

definition is_eol :: "byte \<Rightarrow> bool" where
  "is_eol c \<longleftrightarrow> c = 0x0d \<or> c = 0x0a"

lemma line_scan_eol: "line_scan s (Some n) c = (Some n, c + length (takeWhile is_eol s))"
  by (induction s arbitrary: c) (auto simp: is_eol_def)

lemma line_scan_None:
  "line_scan s None c =
     (if \<exists>b\<in>set s. is_eol b
      then (Some (c + length (takeWhile (\<lambda>b. \<not> is_eol b) s)),
            c + length (takeWhile (\<lambda>b. \<not> is_eol b) s) + length (takeWhile is_eol (dropWhile (\<lambda>b. \<not> is_eol b) s)))
      else (None, c + length s))"
  by (induction s arbitrary: c) (auto simp: is_eol_def line_scan_eol)

lemma getLine_eq:
  "getLine s = (takeWhile (\<lambda>b. \<not> is_eol b) s,
     length (takeWhile (\<lambda>b. \<not> is_eol b) s) + length (takeWhile is_eol (dropWhile (\<lambda>b. \<not> is_eol b) s)))"
proof (cases "\<exists>b\<in>set s. is_eol b")
  case True
  then show ?thesis by (simp add: getLine_def line_scan_None flip: takeWhile_eq_take)
next
  case False
  then show ?thesis
    by (simp add: getLine_def line_scan_None takeWhile_eq_all_conv [THEN iffD2] dropWhile_eq_Nil_conv [THEN iffD2])
qed

text \<open>A line that does not begin with an end of line or a zero is not skipped.\<close>

lemma skip_empty_stop: "\<not> is_eol c \<Longrightarrow> c \<noteq> 0 \<Longrightarrow> skip_empty (c # s) = Some (c # s)"
  by (subst skip_empty.simps) (simp add: getLine_eq strlen_def)

text \<open>The loop goes round forever on a text that has nothing but ends of line, for \<open>getLine\<close> has a result for no text at all.\<close>

lemma skip_empty_returns:
  assumes "skip_empty s = Some rest"
  shows "\<exists>b\<in>set s. \<not> is_eol b"
proof (rule skip_empty.raw_induct [where P = "\<lambda>s rest. \<exists>b\<in>set s. \<not> is_eol b", OF _ assms])
  fix f s rest
  assume 1: "\<And>s rest. f s = Some rest \<Longrightarrow> \<exists>b\<in>set s. \<not> is_eol b"
    "(let (currLine, consumed) = getLine s in if strlen currLine = 0 then f (drop consumed s) else Some s) = Some rest"
  obtain line consumed where g: "getLine s = (line, consumed)" by (cases "getLine s")
  show "\<exists>b\<in>set s. \<not> is_eol b"
  proof (cases "strlen line = 0")
    case True
    then obtain b where "b \<in> set (drop consumed s)" "\<not> is_eol b" using 1(1) [of "drop consumed s"] 1(2) g by auto
    then show ?thesis by (meson in_set_dropD)
  next
    case False
    then have "line \<noteq> []" by (auto simp: strlen_def)
    moreover have "line = takeWhile (\<lambda>b. \<not> is_eol b) s" using g by (simp add: getLine_eq)
    ultimately show ?thesis by (cases s) (auto split: if_splits)
  qed
qed

lemma skip_empty_blank: "\<forall>b\<in>set s. is_eol b \<Longrightarrow> skip_empty s = None"
  using skip_empty_returns by (cases "skip_empty s") auto

lemma skip_empty_dropWhile:
  assumes "\<exists>b\<in>set s. \<not> is_eol b" "0 \<notin> set s"
  shows "skip_empty s = Some (dropWhile is_eol s)"
proof -
  obtain c rest where c: "dropWhile is_eol s = c # rest" "\<not> is_eol c"
    using assms(1) by (metis dropWhile_eq_Nil_conv hd_dropWhile list.collapse list.sel(1))
  then have "c \<in> set s" by (metis list.set_intros(1) set_dropWhileD)
  then have stop: "skip_empty (c # rest) = Some (c # rest)" using c(2) assms(2) by (intro skip_empty_stop) auto
  show ?thesis
  proof (cases "takeWhile is_eol s")
    case Nil
    then have "dropWhile is_eol s = s" by (metis append_Nil takeWhile_dropWhile_id)
    with stop c show ?thesis by simp
  next
    case (Cons d ds)
    then have d: "is_eol (hd s)" "s \<noteq> []" by (cases s; auto split: if_splits)+
    then have "takeWhile (\<lambda>b. \<not> is_eol b) s = []" "dropWhile (\<lambda>b. \<not> is_eol b) s = s" by (cases s; simp)+
    then have "getLine s = ([], length (takeWhile is_eol s))" by (simp add: getLine_eq)
    then have "skip_empty s = skip_empty (drop (length (takeWhile is_eol s)) s)"
      by (subst skip_empty.simps) (simp add: strlen_def)
    also have "drop (length (takeWhile is_eol s)) s = dropWhile is_eol s" by (simp add: dropWhile_eq_drop)
    finally show ?thesis using stop c by simp
  qed
qed

text \<open>The search finds the first occurrence.\<close>

lemma findStr_here: "str \<noteq> [] \<Longrightarrow> findStr (str @ rest) str = Some 0"
  by (cases str) auto

lemma findStr_skip: "str \<noteq> [] \<Longrightarrow> hd str \<notin> set xs \<Longrightarrow> findStr (xs @ str @ rest) str = Some (length xs)"
proof (induction xs)
  case (Cons x xs)
  then have "take (length str) ((x # xs) @ str @ rest) \<noteq> str" by (cases str) auto
  with Cons show ?case by simp
qed (simp add: findStr_here)

text \<open>
  The first occurrence. A marker whose last character does not occur earlier in it cannot begin in the text before
  and end in itself.
\<close>

lemma take_before_marker:
  assumes "take (length str) (xs @ str @ rest) = str" "xs \<noteq> []" "last str \<notin> set (butlast str)" "str \<noteq> []"
  shows "\<exists>vs. xs = str @ vs"
proof (cases "length str \<le> length xs")
  case True
  then have "take (length str) xs = str" using assms(1) by simp
  then show ?thesis by (metis append_take_drop_id)
next
  case False
  let ?k = "length str - length xs"
  have k: "?k - 1 < length str - 1" "0 < ?k" using False assms(2,4) by (cases xs; cases str; simp)+
  have "str = xs @ take ?k str" using assms(1) False by simp
  then have "last str = last (take ?k str)" using k assms(4) by (metis last_appendR take_eq_Nil less_irrefl)
  also have "\<dots> = butlast str ! (?k - 1)" using k by (subst last_conv_nth) (auto simp: nth_butlast min_def)
  finally have "last str \<in> set (butlast str)" using k by simp
  with assms(3) show ?thesis by simp
qed

lemma findStr_first:
  assumes "str \<noteq> []" "last str \<notin> set (butlast str)"
  shows "\<nexists>us vs. xs = us @ str @ vs \<Longrightarrow> findStr (xs @ str @ rest) str = Some (length xs)"
proof (induction xs)
  case (Cons x xs)
  have "take (length str) ((x # xs) @ str @ rest) \<noteq> str"
    using take_before_marker [of str "x # xs" rest] assms Cons.prems by (metis append_Nil list.distinct(1))
  moreover have "\<nexists>us vs. xs = us @ str @ vs" using Cons.prems by (metis append_Cons)
  ultimately show ?case using Cons.IH by simp
qed (use assms in \<open>simp add: findStr_here\<close>)

section \<open>PEM is decoded\<close>

lemma enc_loop_start: "bs \<noteq> [] \<Longrightarrow> \<exists>c rest. enc_loop l t bs = c # rest \<and> \<not> isWhite c \<and> c \<noteq> 0x2d"
  by (cases bs rule: triples.cases) (auto simp: enc_loop_3 enc_loop_end encChunk_def Let_def)

lemma enc_loop_no_dash: "0x2d \<notin> set (enc_loop l t bs)"
  by (induction bs arbitrary: t rule: triples.induct)
     (auto simp: enc_loop_Nil enc_loop_3 enc_loop_end dest: encChunk_not_white)

text \<open>Text before the marker, the marker with its line, and the text behind it.\<close>

lemma after_begin_line:
  assumes "\<nexists>us vs. junk = us @ BEGIN_marker @ vs" "\<forall>b\<in>set label. \<not> is_eol b" "\<not> is_eol c"
  shows "after_begin (junk @ BEGIN_marker @ label @ 0x0a # c # rest) = c # rest"
proof -
  have "BEGIN_marker \<noteq> []" "last BEGIN_marker \<notin> set (butlast BEGIN_marker)" by (simp_all add: BEGIN_marker_def)
  then have f: "findStr (junk @ BEGIN_marker @ label @ 0x0a # c # rest) BEGIN_marker = Some (length junk)"
    using findStr_first assms(1) by blast
  have "\<forall>b\<in>set (BEGIN_marker @ label). \<not> is_eol b" using assms(2) by (auto simp: BEGIN_marker_def is_eol_def)
  then have "takeWhile (\<lambda>b. \<not> is_eol b) ((BEGIN_marker @ label) @ 0x0a # c # rest) = BEGIN_marker @ label"
    "dropWhile (\<lambda>b. \<not> is_eol b) ((BEGIN_marker @ label) @ 0x0a # c # rest) = 0x0a # c # rest"
    by (subst takeWhile_append2 dropWhile_append2; simp add: is_eol_def)+
  then have "snd (getLine (BEGIN_marker @ label @ 0x0a # c # rest)) = length (BEGIN_marker @ label) + 1"
    using assms(3) by (simp add: getLine_eq is_eol_def)
  with f show ?thesis by (simp add: after_begin_def Let_def)
qed

lemma cuConvertPem_roundtrip:
  assumes "cuEnc64WithLines bs linelen = Some (enc @ [0])" "bs \<noteq> []"
    "\<nexists>us vs. junk = us @ BEGIN_marker @ vs" "\<forall>b\<in>set label. \<not> is_eol b"
  shows "cuConvertPem (junk @ BEGIN_marker @ label @ 0x0a # enc @ END_marker @ trailer) = Some (0, Some bs)"
proof -
  obtain l where enc: "enc = enc_loop l 0 bs @ [0x0a]"
    using assms(1) by (auto simp: cuEnc64WithLines_def split: bind_splits if_splits)
  obtain c rest where c: "enc_loop l 0 bs = c # rest" "\<not> isWhite c" using enc_loop_start [OF assms(2)] by blast
  have white: "is_eol b \<Longrightarrow> isWhite b" "isWhite 0" for b by (auto simp: is_eol_def isWhite_def)
  let ?text = "enc @ END_marker @ trailer"
  have ab: "after_begin (junk @ BEGIN_marker @ label @ 0x0a # ?text) = ?text"
    using after_begin_line [OF assms(3,4), of c "rest @ 0x0a # END_marker @ trailer"] c white by (auto simp: enc)
  have sk: "skip_empty ?text = Some ?text"
    using skip_empty_stop [of c "rest @ 0x0a # END_marker @ trailer"] c white by (auto simp: enc)
  have "hd END_marker = 0x2d" "END_marker \<noteq> []" by (simp_all add: END_marker_def)
  then have "findStr ?text END_marker = Some (length enc)"
    using findStr_skip [of END_marker enc trailer] enc_loop_no_dash [of l 0 bs] by (simp add: enc)
  then show ?thesis using ab sk by (simp add: cuConvertPem_def enc cuDec64_enc_loop)
qed

lemma cuConvertPem_hangs:
  assumes "0x2d \<notin> set junk" "\<forall>b\<in>set label. \<not> is_eol b" "\<forall>b\<in>set eols. is_eol b"
  shows "cuConvertPem (junk @ BEGIN_marker @ label @ eols) = None" "cuConvertPem eols = None"
proof -
  have "hd BEGIN_marker = 0x2d" "BEGIN_marker \<noteq> []" by (simp_all add: BEGIN_marker_def)
  then have f: "findStr (junk @ BEGIN_marker @ label @ eols) BEGIN_marker = Some (length junk)"
    using findStr_skip [of BEGIN_marker junk] assms(1) by simp
  have "\<forall>b\<in>set (BEGIN_marker @ label). \<not> is_eol b" using assms(2) by (auto simp: BEGIN_marker_def is_eol_def)
  then have "takeWhile (\<lambda>b. \<not> is_eol b) ((BEGIN_marker @ label) @ eols) = (BEGIN_marker @ label) @ takeWhile (\<lambda>b. \<not> is_eol b) eols"
    "dropWhile (\<lambda>b. \<not> is_eol b) ((BEGIN_marker @ label) @ eols) = dropWhile (\<lambda>b. \<not> is_eol b) eols"
    by (subst takeWhile_append2 dropWhile_append2; simp)+
  moreover have "takeWhile (\<lambda>b. \<not> is_eol b) eols = []" "dropWhile (\<lambda>b. \<not> is_eol b) eols = eols" "length (takeWhile is_eol eols) = length eols"
    using assms(3) by (cases eols; simp add: takeWhile_eq_all_conv [THEN iffD2])+
  ultimately have "after_begin (junk @ BEGIN_marker @ label @ eols) = []"
    using f by (simp add: after_begin_def getLine_eq)
  then show "cuConvertPem (junk @ BEGIN_marker @ label @ eols) = None"
    by (simp add: cuConvertPem_def skip_empty_blank)
  have "findStr eols BEGIN_marker = None" if "\<forall>b\<in>set eols. is_eol b" for eols
    using that by (induction eols) (auto simp: BEGIN_marker_def is_eol_def)
  then show "cuConvertPem eols = None"
    using assms(3) by (simp add: cuConvertPem_def after_begin_def skip_empty_blank)
qed

lemma set_after_begin: "set (after_begin inbuf) \<subseteq> set inbuf"
  by (auto simp: after_begin_def Let_def split: option.splits dest!: in_set_dropD)

text \<open>The conversion returns exactly when something that is not an end of line follows the first line.\<close>

lemma cuConvertPem_None_iff:
  assumes "0 \<notin> set inbuf"
  shows "cuConvertPem inbuf = None \<longleftrightarrow> (\<forall>b\<in>set (after_begin inbuf). is_eol b)"
proof (cases "\<forall>b\<in>set (after_begin inbuf). is_eol b")
  case True
  then show ?thesis by (simp add: cuConvertPem_def skip_empty_blank)
next
  case False
  then have "skip_empty (after_begin inbuf) = Some (dropWhile is_eol (after_begin inbuf))"
    using assms set_after_begin [of inbuf] by (intro skip_empty_dropWhile) auto
  with False show ?thesis by (simp add: cuConvertPem_def Let_def split: option.split)
qed

section \<open>The check of the format\<close>

lemma ENC_valid [simp]: "ENC c AND 0x80 = 0" "asctobin ! unat (ENC c) AND 0x80 = 0"
  using ENC_simps(1) [of c] by (auto simp: dec_char_def Let_def split: if_splits)

lemma isWhite_ends [simp]: "isWhite 0x0a" "isWhite 0"
  by (simp_all add: isWhite_def)

lemma valid_scan_ENC [simp]: "valid_scan (ENC c # xs) 0 n = valid_scan xs 0 (Suc n)"
  by simp

text \<open>Encoded data is valid.\<close>

lemma valid_scan_enc_loop: "n mod 4 = 0 \<Longrightarrow> valid_scan (enc_loop l t bs @ [0x0a, 0]) 0 n"
proof (induction bs arbitrary: t n rule: triples.induct)
  case (1 a b c xs)
  have "Suc (Suc (Suc (Suc n))) mod 4 = 0" using "1.prems" by (simp add: mod_Suc)
  with 1(1) show ?case by (simp add: enc_loop_3 encChunk_def Let_def)
qed (simp_all add: enc_loop_Nil enc_loop_end encChunk_def Let_def mod_Suc)

text \<open>
  The converse fails both ways: \<open>QUI=QUI=\<close> is decoded although a character follows the padding, and \<open>QR==\<close> is valid
  although it cannot be decoded.
\<close>

lemma formats_differ:
  "cuDec64 [0x51, 0x55, 0x49, 0x3d, 0x51, 0x55, 0x49, 0x3d] = Some [0x41, 0x42, 0x41, 0x42]"
  "\<not> cuIsValidEnc64 [0x51, 0x55, 0x49, 0x3d, 0x51, 0x55, 0x49, 0x3d]"
  "cuDec64 [0x51, 0x52, 0x3d, 0x3d] = None" "cuIsValidEnc64 [0x51, 0x52, 0x3d, 0x3d]"
  by code_simp+

end
