(* ===== verification/Tp_Time.thy ===== *)
theory Tp_Time
  imports Prelude "HOL-Library.Monad_Syntax"
begin

text \<open>
  Model of \<open>src/libsecurity_apple_x509_tp-55006/lib/tpTime.c\<close>: the time strings of certificates. The trust policy module
  reads validity periods with \<open>timeStringToCfDate\<close> and prints the present with \<open>timeAtNowPlus\<close>.

  CoreFoundation's dates and time zones and the clock are parameters (record \<open>time_env\<close>); a date is
  its absolute time. The offset from Greenwich, a \<open>double\<close> in the code, only takes whole values and
  is an integer. \<open>None\<close> stands for the return value 1.
\<close>

section \<open>The environment\<close>

record CFGregorianDate =
  gd_year :: int
  gd_month :: nat
  gd_day :: nat
  gd_hour :: nat
  gd_minute :: nat
  gd_second :: nat

text \<open>The fields of \<open>struct tm\<close> that the code uses.\<close>

record tm =
  tm_year :: int
  tm_mon :: int
  tm_mday :: int
  tm_hour :: int
  tm_min :: int
  tm_sec :: int

record time_env =
  CFTimeZoneCreate :: "int \<Rightarrow> nat option"
  CFGregorianDateGetAbsoluteTime :: "CFGregorianDate \<Rightarrow> nat \<Rightarrow> int"
  CFDateCompare :: "int \<Rightarrow> int \<Rightarrow> int"
  time_now :: int
  gmtime :: "int \<Rightarrow> tm"

section \<open>The C library\<close>

definition isdigit :: "byte \<Rightarrow> bool" where
  "isdigit c \<longleftrightarrow> 0x30 \<le> c \<and> c \<le> 0x39"

definition isspace :: "byte \<Rightarrow> bool" where
  "isspace c \<longleftrightarrow> c = 0x20 \<or> 0x09 \<le> c \<and> c \<le> 0x0d"

fun digits_value :: "bytes \<Rightarrow> nat \<Rightarrow> nat" where
  "digits_value [] v = v"
| "digits_value (c # cs) v = (if isdigit c then digits_value cs (10 * v + unat (c - 0x30)) else v)"

fun atoi_sign :: "bytes \<Rightarrow> int" where
  "atoi_sign [] = 0"
| "atoi_sign (c # cs) =
     (if c = 0x2d then - int (digits_value cs 0)
      else if c = 0x2b then int (digits_value cs 0)
      else int (digits_value (c # cs) 0))"

definition atoi :: "bytes \<Rightarrow> int" where
  "atoi s = atoi_sign (dropWhile isspace s)"

text \<open>\<open>%0wd\<close> of \<open>sprintf\<close>.\<close>

fun decimal :: "nat \<Rightarrow> bytes" where
  "decimal n = (if n < 10 then [0x30 + of_nat n] else decimal (n div 10) @ [0x30 + of_nat (n mod 10)])"

declare decimal.simps [simp del]

definition print_int :: "nat \<Rightarrow> int \<Rightarrow> bytes" where
  "print_int w i =
     (if i < 0 then 0x2d # replicate (w - 1 - length (decimal (nat (- i)))) 0x30 @ decimal (nat (- i))
      else replicate (w - length (decimal (nat i))) 0x30 @ decimal (nat i))"

section \<open>Reading a time string\<close>

text \<open>What the length says: two digits for the year, a time zone, no final Z, no seconds.\<close>

record time_format =
  isUtc :: bool
  isLocal :: bool
  isCssmTime :: bool
  noSeconds :: bool

definition plain_format :: time_format where
  "plain_format = \<lparr>isUtc = False, isLocal = False, isCssmTime = False, noSeconds = False\<rparr>"

definition time_format_of :: "nat \<Rightarrow> time_format option" where
  "time_format_of len =
     (if len = 11 then Some (plain_format\<lparr>isUtc := True, noSeconds := True\<rparr>)
      else if len = 13 then Some (plain_format\<lparr>isUtc := True\<rparr>)
      else if len = 14 then Some (plain_format\<lparr>isCssmTime := True\<rparr>)
      else if len = 15 then Some plain_format
      else if len = 17 then Some (plain_format\<lparr>isUtc := True, isLocal := True\<rparr>)
      else if len = 19 then Some (plain_format\<lparr>isLocal := True\<rparr>)
      else None)"

definition legal_chars :: "time_format \<Rightarrow> bytes \<Rightarrow> bool" where
  "legal_chars f s \<longleftrightarrow>
     list_all (\<lambda>c. isdigit c \<or> isLocal f \<and> (c = 0x2b \<or> c = 0x2d)) (butlast s) \<and>
     (if isCssmTime f \<or> isLocal f then isdigit (last s) else last s = 0x5a)"

text \<open>\<open>x = atoi(szTemp)\<close> with \<open>x\<close> unsigned, and its conversion to a signed integer.\<close>

definition field :: "bytes \<Rightarrow> nat \<Rightarrow> nat \<Rightarrow> nat" where
  "field s pos n = nat (atoi (take n (drop pos s)) mod 2 ^ 32)"

definition signed32 :: "nat \<Rightarrow> int" where
  "signed32 x = (if x < 2 ^ 31 then int x else int x - 2 ^ 32)"

definition read_year :: "time_format \<Rightarrow> bytes \<Rightarrow> int" where
  "read_year f s =
     (if isUtc f
      then (let x = field s 0 2 in signed32 ((if x < 50 then x + 2000 else x + 1900) mod 2 ^ 32))
      else signed32 (field s 0 4))"

definition read_fields :: "time_format \<Rightarrow> bytes \<Rightarrow> CFGregorianDate option" where
  "read_fields f s =
     (let p = (if isUtc f then 2 else 4);
          mon = field s p 2; day = field s (p + 2) 2; hour = field s (p + 4) 2; minute = field s (p + 6) 2;
          sec = (if noSeconds f then 0 else field s (p + 8) 2)
      in if mon > 12 \<or> mon \<le> 0 then None
         else if day > 31 \<or> day \<le> 0 then None
         else if hour > 23 then None
         else if minute > 59 then None
         else if sec > 59 then None
         else Some \<lparr>gd_year = read_year f s, gd_month = mon, gd_day = day, gd_hour = hour, gd_minute = minute, gd_second = sec\<rparr>)"

text \<open>The products of \<open>atoi\<close> are converted to \<open>unsigned\<close>.\<close>

definition read_zone :: "time_format \<Rightarrow> bytes \<Rightarrow> int option" where
  "read_zone f s =
     (if isLocal f
      then (let p = (if isUtc f then 12 else 14);
                c = s ! p;
                hh = (atoi (take 2 (drop (p + 1) s)) * 60 * 60) mod 2 ^ 32;
                mm = (atoi (take 2 (drop (p + 3) s)) * 60) mod 2 ^ 32
            in do { sign \<leftarrow> (if c = 0x2b then Some 1 else if c = 0x2d then Some (- 1) else None);
                    let gmtOff = sign * hh;
                    Some (if gmtOff < 0 then gmtOff - mm else gmtOff + mm) })
      else Some 0)"

definition timeStringToCfDate :: "time_env \<Rightarrow> bytes \<Rightarrow> int option" where
  "timeStringToCfDate E str =
     (if str = [] then None
      else (let s = (if last str = 0 then butlast str else str)
            in do { f \<leftarrow> time_format_of (length s);
                    if legal_chars f s
                    then do { gd \<leftarrow> read_fields f s;
                              gmtOff \<leftarrow> read_zone f s;
                              timeZone \<leftarrow> CFTimeZoneCreate E gmtOff;
                              Some (CFGregorianDateGetAbsoluteTime E gd timeZone) }
                    else None }))"

text \<open>\<open>None\<close> is the assertion that the comparison has one of its three results.\<close>

definition compareTimes :: "time_env \<Rightarrow> int \<Rightarrow> int \<Rightarrow> int option" where
  "compareTimes E t1 t2 =
     (let r = CFDateCompare E t1 t2
      in if r = - 1 then Some (- 1) else if r = 0 then Some 0 else if r = 1 then Some 1 else None)"

section \<open>Writing a time string\<close>

datatype TpTimeSpec = TIME_UTC | TIME_GEN | TIME_CSSM

definition time_fields :: "tm \<Rightarrow> bytes" where
  "time_fields utc = print_int 2 (tm_mon utc + 1) @ print_int 2 (tm_mday utc) @ print_int 2 (tm_hour utc) @
     print_int 2 (tm_min utc) @ print_int 2 (tm_sec utc)"

definition timeAtNowPlus :: "time_env \<Rightarrow> nat \<Rightarrow> TpTimeSpec \<Rightarrow> bytes" where
  "timeAtNowPlus E secFromNow timeSpec =
     (let utc = gmtime E (time_now E + int secFromNow)
      in case timeSpec of
           TIME_UTC \<Rightarrow>
             (let utc = (if tm_year utc \<ge> 100 then utc\<lparr>tm_year := tm_year utc - 100\<rparr> else utc)
              in print_int 2 (tm_year utc) @ time_fields utc @ [0x5a])
         | TIME_GEN \<Rightarrow> print_int 4 (tm_year utc + 1900) @ time_fields utc @ [0x5a]
         | TIME_CSSM \<Rightarrow> print_int 4 (tm_year utc + 1900) @ time_fields utc)"

definition tpTimeToCssmTimestring :: "bytes \<Rightarrow> bytes option" where
  "tpTimeToCssmTimestring inStr =
     (if inStr = [] then None
      else if length inStr = 13
      then (let year = atoi (take 2 inStr)
            in if year < 50 then Some ([0x32, 0x30] @ take 12 inStr)
               else if year < 70 then None
               else Some ([0x31, 0x39] @ take 12 inStr))
      else if length inStr = 14 then Some inStr
      else if length inStr = 15 then Some (take 14 inStr)
      else None)"

section \<open>Numbers and their digits\<close>

definition digit :: "nat \<Rightarrow> byte" where
  "digit n = 0x30 + of_nat n"

lemma ten_cases: "(n :: nat) < 10 \<Longrightarrow> n \<in> {0, 1, 2, 3, 4, 5, 6, 7, 8, 9}"
  by auto

lemma digit_properties:
  assumes "n < 10"
  shows "isdigit (digit n) \<and> unat (digit n - 0x30) = n \<and> \<not> isspace (digit n) \<and> digit n \<noteq> 0x2d \<and> digit n \<noteq> 0x2b \<and> digit n \<noteq> 0"
  using ten_cases [OF assms] by (auto simp: digit_def isdigit_def isspace_def)

lemma decimal_digits:
  "n < 10 \<Longrightarrow> decimal n = [digit n]" "10 \<le> n \<Longrightarrow> decimal n = decimal (n div 10) @ [digit (n mod 10)]"
  by (subst decimal.simps; simp add: digit_def)+

lemma print_int_2:
  assumes "0 \<le> i" "i < 100"
  shows "print_int 2 i = [digit (nat i div 10), digit (nat i mod 10)]"
proof (cases "nat i < 10")
  case True
  then show ?thesis using assms by (simp add: print_int_def decimal_digits) (simp add: digit_def)
next
  case False
  then show ?thesis using assms by (simp add: print_int_def decimal_digits)
qed

lemma print_int_4:
  assumes "0 \<le> i" "i < 10000"
  shows "print_int 4 i = [digit (nat i div 1000), digit (nat i div 100 mod 10), digit (nat i div 10 mod 10), digit (nat i mod 10)]"
proof -
  define n where "n = nat i"
  have n: "n < 10000" using assms by (simp add: n_def)
  have z: "digit 0 = 0x30" by (simp add: digit_def)
  have d: "n div 10 div 10 = n div 100" "n div 10 div 10 div 10 = n div 1000" "n div 100 div 10 = n div 1000" by (simp_all flip: div_mult2_eq)
  consider "n < 10" | "10 \<le> n" "n < 100" | "100 \<le> n" "n < 1000" | "1000 \<le> n" by linarith
  then have "replicate (4 - length (decimal n)) 0x30 @ decimal n =
      [digit (n div 1000), digit (n div 100 mod 10), digit (n div 10 mod 10), digit (n mod 10)]"
    by cases (use n in \<open>simp_all add: decimal_digits d z numeral_2_eq_2 numeral_3_eq_3\<close>)
  then show ?thesis using assms by (simp add: print_int_def n_def)
qed

lemma atoi_digits:
  "a < 10 \<Longrightarrow> b < 10 \<Longrightarrow> atoi [digit a, digit b] = int (10 * a + b)"
  "a < 10 \<Longrightarrow> b < 10 \<Longrightarrow> c < 10 \<Longrightarrow> d < 10 \<Longrightarrow> atoi [digit a, digit b, digit c, digit d] = int (1000 * a + 100 * b + 10 * c + d)"
  using digit_properties by (simp_all add: atoi_def)

text \<open>A number that is printed with two or four digits is read back.\<close>

lemma read_2: "n < 100 \<Longrightarrow> nat (atoi [digit (n div 10), digit (n mod 10)] mod 2 ^ 32) = n"
  by (simp add: atoi_digits less_mult_imp_div_less)

lemma read_4:
  assumes "n < 10000"
  shows "nat (atoi [digit (n div 1000), digit (n div 100 mod 10), digit (n div 10 mod 10), digit (n mod 10)] mod 2 ^ 32) = n"
proof -
  have "n div 100 = 10 * (n div 1000) + n div 100 mod 10" "n div 10 = 10 * (n div 100) + n div 10 mod 10"
    using mult_div_mod_eq [of 10 "n div 100"] mult_div_mod_eq [of 10 "n div 10"] by (simp_all flip: div_mult2_eq)
  then have "1000 * (n div 1000) + 100 * (n div 100 mod 10) + 10 * (n div 10 mod 10) + n mod 10 = n"
    using mult_div_mod_eq [of 10 n] by linarith
  moreover have "n div 1000 < 10" using assms by (simp add: less_mult_imp_div_less)
  ultimately have "atoi [digit (n div 1000), digit (n div 100 mod 10), digit (n div 10 mod 10), digit (n mod 10)] = int n"
    by (subst atoi_digits) simp_all
  with assms show ?thesis by simp
qed

section \<open>What is printed is read back\<close>

definition calendar :: "tm \<Rightarrow> bool" where
  "calendar utc \<longleftrightarrow> 0 \<le> tm_mon utc \<and> tm_mon utc < 12 \<and> 1 \<le> tm_mday utc \<and> tm_mday utc \<le> 31 \<and>
     0 \<le> tm_hour utc \<and> tm_hour utc \<le> 23 \<and> 0 \<le> tm_min utc \<and> tm_min utc \<le> 59 \<and> 0 \<le> tm_sec utc \<and> tm_sec utc \<le> 59"

lemma calendar_bounds:
  assumes "calendar utc"
  shows "nat (tm_mon utc + 1) < 100" "nat (tm_mday utc) < 100" "nat (tm_hour utc) < 100" "nat (tm_min utc) < 100" "nat (tm_sec utc) < 100"
    "\<not> 12 < nat (tm_mon utc + 1)" "\<not> 31 < nat (tm_mday utc)" "\<not> 23 < nat (tm_hour utc)" "\<not> 59 < nat (tm_min utc)" "\<not> 59 < nat (tm_sec utc)"
  using assms unfolding calendar_def by linarith+

definition date_of :: "tm \<Rightarrow> CFGregorianDate" where
  "date_of utc = \<lparr>gd_year = tm_year utc + 1900, gd_month = nat (tm_mon utc + 1), gd_day = nat (tm_mday utc),
     gd_hour = nat (tm_hour utc), gd_minute = nat (tm_min utc), gd_second = nat (tm_sec utc)\<rparr>"

definition two :: "nat \<Rightarrow> bytes" where
  "two n = [digit (n div 10), digit (n mod 10)]"

definition four :: "nat \<Rightarrow> bytes" where
  "four n = [digit (n div 1000), digit (n div 100 mod 10), digit (n div 10 mod 10), digit (n mod 10)]"

lemma length_two [simp]: "length (two n) = 2" "length (four n) = 4"
  by (simp_all add: two_def four_def)

lemma two_digits: "n < 100 \<Longrightarrow> list_all isdigit (two n)" "n < 10000 \<Longrightarrow> list_all isdigit (four n)"
  by (simp_all add: two_def four_def digit_properties less_mult_imp_div_less)

lemma field_skip: "field (y @ xs) (length y + k) n = field xs k n" "field (y @ xs) (length y) n = field xs 0 n"
  "2 \<le> k \<Longrightarrow> field (two d @ xs) k n = field xs (k - 2) n"
  by (simp_all add: field_def)

lemma field_two: "d < 100 \<Longrightarrow> field (two d @ xs) 0 2 = d"
  using read_2 [of d] by (simp add: field_def two_def)

lemma field_four: "n < 10000 \<Longrightarrow> field (four n @ post) 0 4 = n"
  using read_4 [of n] by (simp add: field_def four_def)

lemma time_fields_two:
  assumes "calendar utc"
  shows "time_fields utc = two (nat (tm_mon utc + 1)) @ two (nat (tm_mday utc)) @ two (nat (tm_hour utc)) @ two (nat (tm_min utc)) @ two (nat (tm_sec utc))"
  using assms by (simp add: time_fields_def calendar_def print_int_2 two_def)

text \<open>The fields after the year.\<close>

lemma read_fields_printed:
  assumes "calendar utc" "length y = (if isUtc f then 2 else 4)" "\<not> noSeconds f" "list_all isdigit y"
  shows "read_fields f (y @ time_fields utc @ z) =
    Some ((date_of utc)\<lparr>gd_year := read_year f (y @ time_fields utc @ z)\<rparr>)"
proof -
  let ?s = "y @ time_fields utc @ z"
  note b = assms(1) [unfolded calendar_def]
  have "field ?s (length y) 2 = nat (tm_mon utc + 1)" "field ?s (length y + 2) 2 = nat (tm_mday utc)"
    "field ?s (length y + 4) 2 = nat (tm_hour utc)" "field ?s (length y + 6) 2 = nat (tm_min utc)"
    "field ?s (length y + 8) 2 = nat (tm_sec utc)"
    unfolding time_fields_two [OF assms(1)] append_assoc
    using b by (simp_all add: field_skip field_two nat_less_iff del: add_2_eq_Suc')
  then show ?thesis
    using b assms(3) calendar_bounds [OF assms(1)] unfolding read_fields_def assms(2) [symmetric] Let_def by (simp add: date_of_def)
qed

lemma printed_digits: "calendar utc \<Longrightarrow> list_all isdigit (time_fields utc)"
  by (simp add: time_fields_two two_digits calendar_bounds)

lemma length_time_fields: "calendar utc \<Longrightarrow> length (time_fields utc) = 10"
  by (simp add: time_fields_two)

text \<open>Reading a string in one of the three formats that are printed.\<close>

lemma read_printed:
  assumes "calendar utc" "list_all isdigit y" "\<not> isLocal f" "\<not> noSeconds f" "length y = (if isUtc f then 2 else 4)"
    "z = (if isCssmTime f then [] else [0x5a])" "time_format_of (length (y @ time_fields utc @ z)) = Some f" "CFTimeZoneCreate E 0 = Some tz"
  shows "timeStringToCfDate E (y @ time_fields utc @ z) =
    Some (CFGregorianDateGetAbsoluteTime E ((date_of utc)\<lparr>gd_year := read_year f (y @ time_fields utc @ z)\<rparr>) tz)"
proof -
  let ?s = "y @ time_fields utc @ z"
  have digits: "list_all isdigit (y @ time_fields utc)" using assms(2) printed_digits [OF assms(1)] by simp
  have ne: "time_fields utc \<noteq> []" using length_time_fields [OF assms(1)] by auto
  have last: "isdigit (last (y @ time_fields utc))" using digits ne by (simp add: list_all_iff)
  have "last ?s \<noteq> 0" using last ne assms(6) by (auto simp: isdigit_def)
  moreover have "legal_chars f ?s"
  proof (cases "isCssmTime f")
    case True
    then show ?thesis using digits last assms(6) ne
      by (auto simp: legal_chars_def list_all_iff dest: in_set_butlastD)
  next
    case False
    then show ?thesis using digits assms(3,6) by (auto simp: legal_chars_def list_all_iff butlast_append)
  qed
  ultimately show ?thesis
    using assms ne read_fields_printed [OF assms(1,5,4,2), of z] by (simp add: timeStringToCfDate_def read_zone_def)
qed

lemma read_year_two:
  assumes "isUtc f" "50 \<le> y" "y < 150"
  shows "read_year f (two (nat (if y \<ge> 100 then y - 100 else y)) @ xs) = y + 1900"
proof -
  have "nat (if y \<ge> 100 then y - 100 else y) < 100" using assms by auto
  from field_two [OF this, of xs] assms show ?thesis by (auto simp: read_year_def Let_def signed32_def)
qed

lemma read_year_four:
  assumes "\<not> isUtc f" "0 \<le> y + 1900" "y + 1900 < 10000"
  shows "read_year f (four (nat (y + 1900)) @ xs) = y + 1900"
  using field_four [of "nat (y + 1900)" xs] assms by (simp add: read_year_def signed32_def nat_less_iff)

text \<open>The years that can be printed in a format.\<close>

definition printable :: "TpTimeSpec \<Rightarrow> int \<Rightarrow> bool" where
  "printable spec y \<longleftrightarrow> (case spec of TIME_UTC \<Rightarrow> 50 \<le> y \<and> y < 150 | _ \<Rightarrow> 0 \<le> y + 1900 \<and> y + 1900 < 10000)"

lemma printed_time:
  assumes "calendar utc" "printable spec (tm_year utc)" "gmtime E (time_now E + int n) = utc"
  shows "timeAtNowPlus E n spec =
    (case spec of
       TIME_UTC \<Rightarrow> two (nat (if tm_year utc \<ge> 100 then tm_year utc - 100 else tm_year utc)) @ time_fields utc @ [0x5a]
     | TIME_GEN \<Rightarrow> four (nat (tm_year utc + 1900)) @ time_fields utc @ [0x5a]
     | TIME_CSSM \<Rightarrow> four (nat (tm_year utc + 1900)) @ time_fields utc)"
  using assms(2,3)
  by (auto simp: timeAtNowPlus_def printable_def print_int_2 print_int_4 two_def four_def time_fields_def Let_def split: TpTimeSpec.splits)

lemma timeStringToCfDate_timeAtNowPlus:
  assumes "calendar utc" "printable spec (tm_year utc)" "gmtime E (time_now E + int n) = utc" "CFTimeZoneCreate E 0 = Some tz"
  shows "timeStringToCfDate E (timeAtNowPlus E n spec) = Some (CFGregorianDateGetAbsoluteTime E (date_of utc) tz)"
proof -
  have same: "(date_of utc)\<lparr>gd_year := tm_year utc + 1900\<rparr> = date_of utc" by (simp add: date_of_def)
  let ?y2 = "nat (if tm_year utc \<ge> 100 then tm_year utc - 100 else tm_year utc)" and ?y4 = "nat (tm_year utc + 1900)"
  show ?thesis
  proof (cases spec)
    case TIME_UTC
    have y: "50 \<le> tm_year utc" "tm_year utc < 150" using assms(2) TIME_UTC by (simp_all add: printable_def)
    then have "list_all isdigit (two ?y2)" by (intro two_digits) auto
    from read_printed [OF assms(1) this, of "plain_format\<lparr>isUtc := True\<rparr>" "[0x5a]" E tz] assms(4)
      read_year_two [of "plain_format\<lparr>isUtc := True\<rparr>", OF _ y]
    show ?thesis unfolding TIME_UTC printed_time [OF assms(1-3), unfolded TIME_UTC]
      by (simp add: plain_format_def time_format_of_def length_time_fields [OF assms(1)] same)
  next
    case TIME_GEN
    have y: "0 \<le> tm_year utc + 1900" "tm_year utc + 1900 < 10000" using assms(2) TIME_GEN by (simp_all add: printable_def)
    then have "list_all isdigit (four ?y4)" by (intro two_digits) simp
    from read_printed [OF assms(1) this, of plain_format "[0x5a]" E tz] assms(4) read_year_four [of plain_format, OF _ y]
    show ?thesis unfolding TIME_GEN printed_time [OF assms(1-3), unfolded TIME_GEN]
      by (simp add: plain_format_def time_format_of_def length_time_fields [OF assms(1)] same)
  next
    case TIME_CSSM
    have y: "0 \<le> tm_year utc + 1900" "tm_year utc + 1900 < 10000" using assms(2) TIME_CSSM by (simp_all add: printable_def)
    then have "list_all isdigit (four ?y4)" by (intro two_digits) simp
    from read_printed [OF assms(1) this, of "plain_format\<lparr>isCssmTime := True\<rparr>" "[]" E tz] assms(4)
      read_year_four [of "plain_format\<lparr>isCssmTime := True\<rparr>", OF _ y]
    show ?thesis unfolding TIME_CSSM printed_time [OF assms(1-3), unfolded TIME_CSSM]
      by (simp add: plain_format_def time_format_of_def length_time_fields [OF assms(1)] same)
  qed
qed

section \<open>The three formats\<close>

lemma atoi_two: "n < 100 \<Longrightarrow> atoi (two n) = int n"
  by (simp add: two_def atoi_digits less_mult_imp_div_less)

lemma four_shift:
  assumes "n < 100" "c < 10" "a < 10"
  shows "four (n + (1000 * a + 100 * c)) = [digit a, digit c] @ two n"
proof -
  let ?m = "n + (1000 * a + 100 * c)"
  have "?m div 1000 = a" "?m div 100 = 10 * a + c" using assms by (intro div_nat_eqI; simp)+
  moreover have "?m div 10 = n div 10 + (100 * a + 10 * c)" "?m mod 10 = n mod 10"
    using div_mult_self1 [of 10 n "100 * a + 10 * c"] mod_mult_self1 [of n "100 * a + 10 * c" 10] by (simp_all add: algebra_simps)
  moreover have "(n div 10 + (100 * a + 10 * c)) mod 10 = n div 10" "(10 * a + c) mod 10 = c"
    using mod_mult_self1 [of "n div 10" "10 * a + c" 10] assms by (simp_all add: algebra_simps less_mult_imp_div_less)
  ultimately show ?thesis by (simp add: four_def two_def)
qed

lemma four_century:
  "50 \<le> y \<Longrightarrow> y < 100 \<Longrightarrow> four (nat (y + 1900)) = [0x31, 0x39] @ two (nat y)"
  "100 \<le> y \<Longrightarrow> y < 150 \<Longrightarrow> four (nat (y + 1900)) = [0x32, 0x30] @ two (nat (y - 100))"
proof -
  show "four (nat (y + 1900)) = [0x31, 0x39] @ two (nat y)" if "50 \<le> y" "y < 100"
  proof -
    have "nat y < 100" "nat (y + 1900) = nat y + 1900" using that by auto
    with four_shift [of "nat y" 9 1] show ?thesis by (simp add: digit_def)
  qed
  show "four (nat (y + 1900)) = [0x32, 0x30] @ two (nat (y - 100))" if "100 \<le> y" "y < 150"
  proof -
    have "nat (y - 100) < 100" "nat (y + 1900) = nat (y - 100) + 2000" using that by auto
    with four_shift [of "nat (y - 100)" 0 2] show ?thesis by (simp add: digit_def)
  qed
qed

lemma tpTimeToCssmTimestring_printed:
  assumes "calendar utc" "printable spec (tm_year utc)" "gmtime E (time_now E + int n) = utc" "spec = TIME_UTC \<longrightarrow> 70 \<le> tm_year utc"
  shows "tpTimeToCssmTimestring (timeAtNowPlus E n spec) = Some (timeAtNowPlus E n TIME_CSSM)"
proof -
  have p: "printable TIME_CSSM (tm_year utc)" using assms(2) by (auto simp: printable_def split: TpTimeSpec.splits)
  show ?thesis
  proof (cases spec)
    case TIME_UTC
    have y: "70 \<le> tm_year utc" "tm_year utc < 150" using assms(2,4) TIME_UTC by (simp_all add: printable_def)
    show ?thesis
    proof (cases "tm_year utc < 100")
      case True
      with y show ?thesis
        unfolding TIME_UTC printed_time [OF assms(1-3), unfolded TIME_UTC] printed_time [OF assms(1) p assms(3)]
        by (simp add: tpTimeToCssmTimestring_def length_time_fields [OF assms(1)] four_century(1) atoi_two nat_less_iff)
    next
      case False
      with y show ?thesis
        unfolding TIME_UTC printed_time [OF assms(1-3), unfolded TIME_UTC] printed_time [OF assms(1) p assms(3)]
        by (simp add: tpTimeToCssmTimestring_def length_time_fields [OF assms(1)] four_century(2) atoi_two nat_less_iff)
    qed
  next
    case TIME_GEN
    then show ?thesis
      unfolding TIME_GEN printed_time [OF assms(1-3), unfolded TIME_GEN] printed_time [OF assms(1) p assms(3)]
      by (simp add: tpTimeToCssmTimestring_def length_time_fields [OF assms(1)])
  next
    case TIME_CSSM
    have "timeAtNowPlus E n TIME_CSSM \<noteq> []" "length (timeAtNowPlus E n TIME_CSSM) = 14"
      using length_time_fields [OF assms(1)] by (auto simp: printed_time [OF assms(1) p assms(3)])
    with TIME_CSSM show ?thesis by (simp add: tpTimeToCssmTimestring_def)
  qed
qed

text \<open>An offset west of Greenwich by less than an hour is taken for one to the east.\<close>

lemma zone_sign_lost:
  assumes "length d \<in> {12, 14}" "isdigit m2"
  shows "timeStringToCfDate E (d @ [0x2d, 0x30, 0x30, m1, m2]) = timeStringToCfDate E (d @ [0x2b, 0x30, 0x30, m1, m2])"
proof -
  have m2: "m2 \<noteq> 0" using assms(2) by (auto simp: isdigit_def)
  have z: "atoi [0x30, 0x30] = 0" by (simp add: atoi_def isspace_def isdigit_def)
  obtain f where f: "time_format_of (Suc (Suc (Suc (Suc (Suc (length d)))))) = Some f" "isLocal f" "\<not> noSeconds f" "length d = (if isUtc f then 12 else 14)"
    using assms(1) by (auto simp: time_format_of_def plain_format_def)
  have "field (d @ xs) pos k = field d pos k" if "pos + k \<le> length d" for xs pos k using that by (simp add: field_def)
  then have "read_fields f (d @ xs) = read_fields f d" for xs
    using f(4) by (cases "isUtc f") (simp_all add: read_fields_def read_year_def Let_def)
  moreover have "read_zone f (d @ [0x2d, 0x30, 0x30, m1, m2]) = read_zone f (d @ [0x2b, 0x30, 0x30, m1, m2])"
  proof -
    have p: "(if isUtc f then 12 else 14) = length d" using f(4) by simp
    show ?thesis unfolding read_zone_def p by (simp add: f(2) z Let_def)
  qed
  moreover have "legal_chars f (d @ [0x2d, 0x30, 0x30, m1, m2]) = legal_chars f (d @ [0x2b, 0x30, 0x30, m1, m2])"
    using f(2) by (simp add: legal_chars_def butlast_append)
  ultimately show ?thesis
    using m2 f(1) by (simp add: timeStringToCfDate_def Let_def)
qed

end
