(* ===== verification/Spec2Isabelle.thy ===== *)
theory Spec2Isabelle
  imports Demo_Handshake Demo_Config Demo_Trust Demo_Aes Enc64 Tp_Time
begin

text \<open>
  \<^bold>\<open>A TLS library, from the record to the connection.\<close>

  The program is the Secure Transport library of Mac OS X 10.6 with TLS 1.2 and AES-GCM added,
  \<open>src/libsecurity_ssl-55002/lib\<close>. An application makes a context (\<open>SSLNewContext\<close>), configures it, and
  calls \<open>SSLHandshake\<close>, \<open>SSLRead\<close>, \<open>SSLWrite\<close> and \<open>SSLClose\<close>; the transport layer cuts data into
  records and queues them, the record layer protects them through one of three tables of callouts
  (\<open>Ssl3Callouts\<close>, \<open>Tls1Callouts\<close>, \<open>Tls12Callouts\<close>), and the handshake layer negotiates version and suite,
  exchanges keys, checks the certificates and takes the keys into use. \<open>src/src\<close> holds the files that the build adds to the
  framework or puts in place of others: the verification of chains with ECDSA and SHA-2, and the second chance that \<open>SecTrust\<close> gives to a
  chain that the old trust policy module has refused. The other directories are libraries of the framework,
  of which three self-contained parts in C are modelled (AES, PEM, times), and the tree from which code was taken.

  \<^bold>\<open>Theories and sources.\<close> In the order of their imports:

  \<^item> \<open>Prelude\<close>: octets, blocks, integers as octets; \<open>Ssl_Utils\<close>: the codecs and counters of \<open>sslUtils.c\<close>;
    \<open>Platform\<close>: status codes, the services that the library gets from outside, the buffers of \<open>sslMemory.c\<close>.
  \<^item> \<open>Gcm\<close>, \<open>Gf128\<close>, \<open>Gcm_Correct\<close>, \<open>Gcm_Aes\<close>: \<open>sslGcm.c\<close>, \<open>sslGcmAes.c\<close>, and the field that the byte loops compute in.
  \<^item> \<open>Hash_Hmac\<close>, \<open>Sym_Cipher\<close>, \<open>Prf\<close>, \<open>Mac\<close>, \<open>Key_Material\<close>: \<open>sslDigests.c\<close>, \<open>tls_hmac.c\<close>, \<open>symCipher.c\<close>,
    \<open>sslGcmCipher.c\<close>, \<open>sslNullCipher.c\<close>, and the cryptographic callouts of \<open>ssl3Callouts.c\<close>, \<open>tls1Callouts.c\<close> and
    \<open>tls12Callouts.c\<close>.
  \<^item> \<open>Session_Cache\<close>, \<open>Session\<close>: \<open>appleSession.c\<close>, \<open>sslSession.c\<close>; \<open>Context\<close>: the record of a connection
    (\<open>sslContext.h\<close>) and the rest of \<open>sslUtils.c\<close>; \<open>Cipher_Specs\<close>: \<open>cipherSpecs.c\<close>.
  \<^item> \<open>Record_Write\<close>, \<open>Record_Read\<close>, \<open>Record_Sync\<close>, \<open>Record_Channel\<close>, \<open>Record_Integrity\<close>: \<open>sslRecord.c\<close> and the record
    callouts; \<open>Alert\<close>, \<open>Alert_Receive\<close>: \<open>sslAlertMessage.c\<close>.
  \<^item> \<open>Change_Cipher\<close>, \<open>Finish\<close>, \<open>Hello\<close>, \<open>Cert\<close>, \<open>Key_Exchange\<close>, \<open>Handshake\<close>: \<open>sslChangeCipher.c\<close>,
    \<open>sslHandshakeFinish.c\<close>, \<open>sslHandshakeHello.c\<close>, \<open>sslCert.c\<close>, \<open>sslKeyExchange.c\<close>, \<open>sslHandshake.c\<close>;
    \<open>Cdsa\<close>, \<open>Modules\<close>: \<open>appleCdsa.c\<close>, \<open>sslBER.c\<close>, \<open>ModuleAttacher.c\<close>; \<open>Chain_Verify\<close>: \<open>tls12_chainverify.c\<close>.
  \<^item> \<open>Ssl2\<close>: \<open>ssl2Record.c\<close>, \<open>ssl2Message.c\<close>, \<open>ssl2Protocol.c\<close>, \<open>ssl2CipherMap.c\<close>.
  \<^item> \<open>Write_Queue\<close>, \<open>Transport\<close>, \<open>App_Data\<close>: \<open>sslTransport.c\<close>; \<open>Config\<close>, \<open>Credentials\<close>: \<open>sslContext.c\<close>,
    \<open>sslKeychain.c\<close>; \<open>Patcher\<close>: \<open>tls12_patcher.c\<close>, \<open>tls12_trust.c\<close>.
  \<^item> \<open>Libcrypto\<close>, \<open>Trust_Eval\<close>: \<open>src/src/tls12_chainverify.c\<close> (the version that the framework is built with; \<open>Chain_Verify\<close> has
    the one of the library and the routines on names that they share), \<open>src/src/tls12_trusteval.c\<close>, and the change to \<open>Trust::evaluate\<close> in
    \<open>src/patches/keychain-55017-Trust.cpp.patch\<close>.
  \<^item> \<open>Frames\<close>, \<open>Connection\<close>, \<open>Agreement\<close>: what processing keeps, the connection as a state machine, and two ends that agree.
  \<^item> \<open>Rijndael_Tables\<close>, \<open>Rijndael\<close>, \<open>Rijndael_128\<close>: \<open>boxes-ref.c\<close>, \<open>rijndael-alg-ref.c\<close> and \<open>rijndaelApi.c\<close> of
    \<open>src/libsecurity_apple_csp-55003/lib\<close>; \<open>Enc64\<close>, \<open>Tp_Time\<close>: \<open>cuEnc64.c\<close> and \<open>tpTime.c\<close> of \<open>src/libsecurity_apple_x509_tp-55006/lib\<close>.
  \<^item> \<open>Demo_Platform\<close>, \<open>Demo_Handshake\<close>, \<open>Demo_Config\<close>, \<open>Demo_Trust\<close>, \<open>Demo_Aes\<close>: concrete instances of everything that is a parameter, and
    evaluated runs; the witnesses rest on them.

  \<^bold>\<open>Conventions.\<close> A definition has the name of the C function. \<open>SSLContext\<close> is a record with the C fields
  and is passed and returned; an \<open>SSLBuffer\<close> that may be NULL is a \<open>bytes option\<close>; lists stand for linked lists. A function
  returns its \<open>OSStatus\<close> with its results. An outer \<open>None\<close> means that the C code has no
  defined behaviour: a failed assertion, an access outside an array, a NULL dereference, data that
  has not been initialised, a buffer descriptor longer than its memory, or a loop that does not end. (The last but one matters once: a routine that decrypts records for a
  block cipher without a MAC, which no suite has, hands such a descriptor to its caller with \<open>noErr\<close>.) Lengths are natural numbers, and where the code converts them to 32 bits (the
  PRFs, the image of a session) the conversion is written out. Code that is not in the repository's library (CommonCrypto, CDSA, libcrypto, the
  Security framework, the C allocator, the random device, the clock, the application's callbacks, the dynamic linker) is a field of one of
  the records \<open>platform\<close>, \<open>cssm\<close>, \<open>keychain\<close>, \<open>patch_env\<close>, \<open>libcrypto\<close> and \<open>time_env\<close>; what the proofs rely on is stated by
  \<open>platform_ok\<close>, \<open>cryptor_laws\<close>, \<open>errors_are_errors\<close>, \<open>keychain_ok\<close> and \<open>libcrypto_works\<close>, each met by the demonstration instance. Integers are words where
  they can wrap (sequence numbers, lengths on the wire, versions, suites, addresses) and natural
  numbers where the code has bounded them. The modelled build has \<open>APPLE_DH\<close> set, \<open>SSL_PAC_SERVER_ENABLE\<close>,
  \<open>SSL_ECDSA_HACK\<close> and \<open>SSL_DEBUG\<close> not.

  Memory that a function frees or reference counts have no counterpart. A cleared \<open>CipherContext\<close> has the null tables
  instead of NULL pointers. The context has a field \<open>wireOut\<close> that is not in the C structure and that no operation reads: what the write callback has taken, in order.
  The size of a structure of the system that differs between 32 and 64 bits (in \<open>ssl_server_name\<close>) is a parameter. Decryption in place returns the plaintext and leaves the buffer of the partial
  record as it was; the next record overwrites it.

  \<^bold>\<open>Loops.\<close> Loops over octets, lists and counters are structural or have a \<open>termination\<close> proof by a length. Five loops
  may run forever and are partial functions whose value is then \<open>None\<close>; there is no fuel: \<open>tlsPHash_loop\<close> (shown to return for every
  length), \<open>SSLServiceWriteQueue\<close> (shown to return when the write callback makes progress),
  \<open>skip_empty\<close> (shown to return exactly when the text is not empty), and
  \<open>proceed_until\<close> and \<open>SSLRead\<close>, which wait for the peer (shown to return on data that has arrived).

  \<^bold>\<open>Interfaces.\<close> Contracts between components are locales, interpreted on the definitions of the model: \<open>gcm_block\<close> (the block
  cipher under GCM), \<open>hmac_provider\<close>, \<open>record_mac\<close> (the MAC of each protocol), \<open>session_store\<close> (the cache as a map with
  expiration), \<open>channel\<close> (records over a connection), \<open>message_encoder\<close> (the frame of the handshake messages), \<open>attachment\<close>
  (modules attached once), \<open>guarded_setter\<close> (settings refused while a session is active), \<open>link_check\<close> (a signature checked
  by hand, for the two routines that do it), and \<open>block_cipher\<close> (a permutation of blocks, for the two variants of AES).

  \<^bold>\<open>Results.\<close> Records: what is written is read back in order, nothing is accepted without its MAC
  or tag, nonces do not repeat, a refused record closes the session; the field multiplication of GCM is that of GF(2^128).
  Handshake: no handshake completes without a verified Finished message in a record that its run has read, the parameters
  of an ephemeral exchange are signed, derived keys put both ends in sync, after the exchange of an RSA premaster secret both directions
  are protected by the same keys, RSA
  decryption is no oracle, hellos round-trip, messages and ChangeCipherSpec out of place are refused, the peer cannot change the
  configuration. Data: what the application writes is what the callback takes and arrives, and reading is a stream. Sessions: the cache
  is a map with expiration, and a resumed session restores what was stored. Application: a new context is ready, an active
  session is frozen, every ClientHello offers TLS 1.2, identities are installed whole and reach the peer in their order, the patcher redirects what it means to and nothing else. Certificates: what stands behind an
  overridden rejection, libcrypto is only given out under locks whatever the threads do, PEM text and printed times are read
  back. AES: decryption inverts encryption and the variants agree. Some properties state what the code does where one would
  expect something else: padding that escapes the checks, verification that is switched off by asking for it, chains that
  are accepted without being connected or because of the last certificate alone, PEM text on which the conversion does not return.

  \<^bold>\<open>Not modelled.\<close> \<open>tls12_interpose.c\<close> (a table for the dynamic linker), \<open>securetransport++.cpp\<close> (a binding), logging, and
  the mutexes of the session cache and the modules (every call is one step; the process-wide variables are passed along; the locks
  that libcrypto is given are modelled). The rest of the framework is C++ or code of others that the merge carries along unchanged: the C++ classes
  around AES and the trust policy module, the decoder of ASN.1 and CMS (from NSS), the big numbers (from SSLeay), keychains, code signing,
  the security server. The tree of the later release is the place code was taken from and is not built.
\<close>

section \<open>The record layer\<close>

text \<open>C1: Records written one after the other are read back complete and in order. Two ends that
  are in sync (same protocol table, version, keys and sequence number, paired cipher states) stay
  so: every legal sequence of records can be written, and if the reader's callback delivers the
  octets that were queued, \<open>SSLReadRecord\<close> returns exactly those records, whatever the protocol
  (SSLv3 to TLS 1.2) and the suite (null, stream, CBC or AES-GCM).\<close>

theorem records_delivered_in_order:
  assumes "platform_ok P" "in_sync P w r" "at_boundary r" "\<forall>rec\<in>set recs. channel_ok rec w"
  shows "\<exists>xs w'. send_all (send_record P) recs w = Some (xs, w') \<and> length xs = length recs \<and>
    (all_arrive (wire_at P) (recv_record P) xs r \<longrightarrow>
      (\<exists>r'. recv_n (recv_record P) (length recs) r = Some (recs, r') \<and> in_sync P w' r' \<and> at_boundary r'))"
proof -
  have sync: "channel_sync P w r" using assms by (simp add: channel_sync_def)
  obtain xs w' where "send_all (send_record P) recs w = Some (xs, w')" "length xs = length recs"
    using ssl_records.all_sent [OF sync assms(4)] by blast
  then show ?thesis
    using ssl_records.all_received [OF sync assms(4)] unfolding channel_sync_def by metis
qed

theorem records_delivered_in_order_witness:
  "\<exists>r'. recv_n (recv_record demo_wire) (length demo_records) demo_ctx = Some (demo_records, r') \<and> at_boundary r'"
proof -
  have "\<exists>xs w'. send_all (send_record demo_wire) demo_records demo_ctx = Some (xs, w') \<and> length xs = length demo_records \<and>
    (all_arrive (wire_at demo_wire) (recv_record demo_wire) xs demo_ctx \<longrightarrow>
      (\<exists>r'. recv_n (recv_record demo_wire) (length demo_records) demo_ctx = Some (demo_records, r') \<and>
         in_sync demo_wire w' r' \<and> at_boundary r'))"
    by (rule records_delivered_in_order)
      (simp_all add: demo_wire_def platform_ok_demo_reader demo_in_sync at_boundary_def demo_records_def
        channel_ok_def sendable_def)
  moreover have "map_option fst (send_all (send_record demo_wire) demo_records demo_ctx) =
      Some [[23, 3, 3, 0, 2, 104, 105], [21, 3, 3, 0, 2, 1, 0]]"
    by (simp add: demo_records_def send_record_def write_steps)
  moreover have "all_arrive (wire_at demo_wire) (recv_record demo_wire) [[23, 3, 3, 0, 2, 104, 105], [21, 3, 3, 0, 2, 1, 0]] demo_ctx"
    by (simp add: wire_at_def recv_record_def read_steps cong: bind_weak_cong prod.case_cong_weak option.case_cong_weak)
  ultimately show ?thesis
    by auto
qed

text \<open>C3: Nothing is accepted without a valid MAC. When one of the three \<open>decryptRecord\<close> routines
  returns successfully for a suite with a MAC, the decrypted payload is the returned content
  between an initial part and a tail that starts with the MAC computed over that content, the
  record type and the reader's own sequence number.\<close>

theorem accepted_record_has_valid_mac:
  assumes "call_decryptRecord P type payload ctx = Some (noErr, content, ctx')"
    and "\<not> isGcm (symCipher (readCipher ctx))" "macRef (readCipher ctx) \<noteq> HA_Null"
  shows "\<exists>plain c iv mac r rest. cipher_decrypt P payload payload (readCipher ctx) = Some (noErr, plain, c) \<and>
    plain = iv @ content @ mac @ rest \<and>
    call_computeMac P (sslTslCalls ctx) (negProtocolVersion ctx) type content c (sequenceNum c) = Some (noErr, mac, r)"
  using decrypt_accepts [OF assms] by (fastforce simp: mac_accepted_def mac_checked_def)

theorem accepted_record_has_valid_mac_witness:
  "\<exists>payload plain c iv mac r rest. cipher_decrypt demo_platform payload payload demo_mac_cipher = Some (noErr, plain, c) \<and>
    plain = iv @ [1, 2, 3] @ mac @ rest \<and>
    call_computeMac demo_platform Tls12Callouts TLS_Version_1_2 23 [1, 2, 3] c (sequenceNum c) = Some (noErr, mac, r)"
proof -
  obtain payload r' where "call_decryptRecord demo_platform 23 payload demo_mac_ctx = Some (noErr, [1, 2, 3], r')"
    using record_delivered [OF platform_ok_demo demo_in_sync(3) demo_sendable(2)] by (auto simp: delivered_def)
  from accepted_record_has_valid_mac [OF this] show ?thesis
    by (simp add: demo_mac_cipher_def demo_cipher_def isGcm_def) blast
qed

text \<open>C10: An AES-GCM record is accepted only if it is, octet by octet, what encryption under the
  reader's key gives for the nonce on the wire and the associated data made of the reader's own
  sequence number, the record type, the negotiated version and the length.\<close>

theorem accepted_gcm_record_is_authentic:
  assumes "platform_ok P" "call_decryptRecord P type payload ctx = Some (noErr, pt, ctx')"
    and "sslTslCalls ctx = Tls12Callouts" "isGcm (symCipher (readCipher ctx))"
    and "cc (readCipher ctx) = CC_aes g" "gcm_ctx_ok g"
  shows "ctx' = ctx \<and> (\<exists>nonce ct tag. payload = nonce @ ct @ tag \<and> length nonce = 8 \<and> length tag = 16 \<and>
    sslGcmEncrypt P (Some g) nonce (tls12GcmBuildAad (sequenceNum (readCipher ctx)) type
      (negProtocolVersion ctx) (of_nat (length pt))) pt = Some (ct, tag))"
  using assms by (rule gcm_accepts)

theorem accepted_gcm_record_is_authentic_witness:
  "\<exists>nonce ct tag. length nonce = 8 \<and> length tag = 16 \<and>
    sslGcmEncrypt demo_platform (Some demo_gcm) nonce
      (tls12GcmBuildAad \<lparr>high = 0, low = 0\<rparr> 23 TLS_Version_1_2 3) [1, 2, 3] = Some (ct, tag)"
proof -
  obtain payload r' where "call_decryptRecord demo_platform 23 payload demo_gcm_ctx = Some (noErr, [1, 2, 3], r')"
    using record_delivered [OF platform_ok_demo demo_in_sync(2) demo_sendable(1)] by (auto simp: delivered_def)
  from accepted_gcm_record_is_authentic [OF platform_ok_demo this _ _ _ gcm_ctx_ok_demo] show ?thesis
    by (simp add: demo_cipher_def isGcm_def) blast
qed

text \<open>C13: The explicit nonces of the AES-GCM records of a connection never repeat, as long as fewer
  than 2^64 records (the range of the sequence number) are written.\<close>

theorem gcm_nonces_never_repeat:
  assumes "send_all (send_record P) recs w = Some (xs, w')" "length recs \<le> 2 ^ 64"
    and "sslTslCalls w = Tls12Callouts" "isGcm (symCipher (writeCipher w))"
  shows "distinct (map wire_nonce xs)"
  using assms by (rule gcm_nonces_distinct)

theorem gcm_nonces_never_repeat_witness:
  "\<exists>xs w'. send_all (send_record demo_platform) [demo_rec, demo_rec] demo_gcm_ctx = Some (xs, w') \<and>
    length xs = 2 \<and> distinct (map wire_nonce xs)"
proof -
  have sync: "channel_sync demo_platform demo_gcm_ctx demo_gcm_ctx"
    and ok: "\<forall>m\<in>set [demo_rec, demo_rec]. channel_ok m demo_gcm_ctx"
    using demo_in_sync(2) demo_sendable(1)
    by (simp_all add: channel_sync_def platform_ok_demo at_boundary_def channel_ok_def)
  obtain xs w' where "send_all (send_record demo_platform) [demo_rec, demo_rec] demo_gcm_ctx = Some (xs, w')"
      "length xs = length [demo_rec, demo_rec]"
    using ssl_records.all_sent [OF sync ok] by blast
  moreover from gcm_nonces_never_repeat [OF this(1)] have "distinct (map wire_nonce xs)"
    by (simp add: isGcm_def)
  ultimately show ?thesis by auto
qed

text \<open>C40: A record that is refused closes the session: whenever decryption returns an error, no
  octet is handed out, the connection is in the error state, and a fatal alert has been issued.\<close>

theorem refused_record_closes_session:
  assumes "call_decryptRecord P type payload ctx = Some (err, out, ctx')" "err \<noteq> noErr"
  shows "out = [] \<and> state ctx' = SSL_HdskStateErrorClose \<and> sentFatalAlert ctx'"
  using decrypt_closed [OF assms(1)] assms(2) by (simp add: closed_by_def)

theorem refused_record_closes_session_witness:
  "\<exists>err out ctx'. call_decryptRecord demo_platform 23 [] demo_gcm_ctx = Some (err, out, ctx') \<and> err \<noteq> noErr \<and>
    out = [] \<and> state ctx' = SSL_HdskStateErrorClose \<and> sentFatalAlert ctx'"
proof -
  obtain ctx' where "call_decryptRecord demo_platform 23 [] demo_gcm_ctx = Some (errSSLDecryptionFail, [], ctx')"
    using demo_refused by blast
  moreover from refused_record_closes_session [OF this] have "state ctx' = SSL_HdskStateErrorClose" "sentFatalAlert ctx'"
    by simp_all
  ultimately show ?thesis by blast
qed

text \<open>C39: The padding check of TLS 1.0 and 1.1 is incomplete. For a block cipher with a MAC, a payload that decrypts to nothing but padding
  passes it, the length of the content (padding and MAC subtracted) wraps around, and the routine goes on to read outside the
  record for the MAC before any MAC has been checked: it has no defined result.\<close>

theorem oversized_padding_escapes_the_checks:
  assumes "cipher_decrypt P payload payload (readCipher ctx) = Some (noErr, replicate (unat p) p, c)" "p \<noteq> 0"
    and "blockSize (symCipher (readCipher ctx)) > 0" "blockSize (symCipher (readCipher ctx)) dvd length payload"
    and "macRef (readCipher ctx) \<noteq> HA_Null"
  shows "tls1DecryptRecord P type payload ctx = None"
  using assms(1-4) by (rule tls_padding_underflow)

theorem oversized_padding_escapes_the_checks_witness:
  "tls1DecryptRecord demo_platform 23 (replicate 16 0x45) (demo_ctx\<lparr>readCipher := demo_cipher\<lparr>macRef := HA_SHA1, symCipher := SSLCipherAES_128,
     cc := CC_cryptorRef \<lparr>cryptorEncrypting = False, cryptorAlg = SSLCipherAES_128, cryptorState = []\<rparr>\<rparr>\<rparr>) = None"
  by (rule oversized_padding_escapes_the_checks [where p = 16])
    (simp_all add: cipher_decrypt_def CCSymmEncryptDecrypt_def isGcm_def isCDSA_def demo_cipher_def demo_platform_def blockSize_def)

section \<open>AES-GCM\<close>

text \<open>C14: AES-GCM decryption accepts exactly what encryption under the same context, explicit
  nonce and associated data produces: \<open>sslGcmDecrypt\<close> returns \<open>pt\<close> if and only if
  \<open>sslGcmEncrypt\<close> of \<open>pt\<close> gives that ciphertext and that tag.\<close>

theorem gcm_decrypt_iff_encrypt:
  assumes "platform_ok P" "gcm_ctx_ok c" "length n = 8" "length tag = 16"
  shows "sslGcmDecrypt P (Some c) n aad ct tag = Some pt \<longleftrightarrow>
    sslGcmEncrypt P (Some c) n aad pt = Some (ct, tag)"
  using assms sslGcmDecrypt_sslGcmEncrypt sslGcmDecrypt_authentic by blast

theorem gcm_decrypt_iff_encrypt_witness:
  "sslGcmDecrypt demo_platform (Some demo_gcm) (replicate 8 0) [1] [9] (replicate 16 0) = Some [5] \<longleftrightarrow>
   sslGcmEncrypt demo_platform (Some demo_gcm) (replicate 8 0) [1] [5] = Some ([9], replicate 16 0)"
  by (rule gcm_decrypt_iff_encrypt) (simp_all add: platform_ok_demo demo_gcm_def gcm_ctx_ok_def)

text \<open>C15: The byte loop \<open>gf_mult\<close> multiplies in \<open>GF(2^128)\<close>: reading a block as a polynomial with
  the GCM bit order, the product block is the product of the polynomials modulo
  \<open>x^128 + x^7 + x^2 + x + 1\<close>.\<close>

theorem gf_mult_refines_field_product:
  assumes "length Y = 16"
  shows "poly_of (gf_mult X Y) = gf_times (poly_of X) (poly_of Y)"
  using assms by (rule poly_of_gf_mult)

theorem gf_mult_refines_field_product_witness:
  "poly_of (gf_mult (replicate 16 1) (replicate 16 2)) =
   gf_times (poly_of (replicate 16 1)) (poly_of (replicate 16 2))"
  by (rule gf_mult_refines_field_product) simp

section \<open>AES\<close>

text \<open>C16: The block cipher of the service provider can be undone. For keys and blocks of 128, 192 and 256 bits in
  any combination, \<open>makeKey\<close> succeeds on any key material that is long enough, and
  \<open>rijndaelBlockDecrypt\<close> under the key that it makes gives back every block that \<open>rijndaelBlockEncrypt\<close> has encrypted,
  and the other way round: encryption is a permutation of the blocks.\<close>

theorem rijndael_decrypt_inverts_encrypt:
  assumes "kl \<in> {128, 192, 256}" "bl \<in> {128, 192, 256}" "nat (kl div 8) \<le> length material" "length p = nat (bl div 8)"
  shows "\<exists>key' c q. makeKey (Some key) kl bl (Some material) = Some (1, Some key') \<and>
    rijndaelBlockEncrypt (Some key') p = (bl, c) \<and> length c = length p \<and> rijndaelBlockDecrypt (Some key') c = (bl, p) \<and>
    rijndaelBlockDecrypt (Some key') p = (bl, q) \<and> length q = length p \<and> rijndaelBlockEncrypt (Some key') q = (bl, p)"
proof -
  obtain key' where key': "makeKey (Some key) kl bl (Some material) = Some (1, Some key')" "key_for kl bl key'"
    using makeKey_ok [OF assms(1,2,3)] by blast
  then have "good_key key'" "blockLen key' = bl" using assms(1,2) by (auto simp: good_key_def key_for_def)
  with general.inverse [of key' p] general.encrypt_decrypt [of key' p] key'(1) assms(4) show ?thesis by blast
qed

theorem rijndael_decrypt_inverts_encrypt_witness:
  "\<exists>key'. makeKey (Some no_key) 128 128 (Some fips_key) = Some (1, Some key') \<and>
    rijndaelBlockEncrypt (Some key') fips_plain = (128, fips_cipher) \<and> rijndaelBlockDecrypt (Some key') fips_cipher = (128, fips_plain)"
  using rijndael_decrypt_inverts_encrypt [of 128 128 fips_key fips_plain no_key] fips_encrypt by (auto simp: fips_lengths)

text \<open>C17: The variants of the cipher agree. Mixing columns with the six lookup tables is mixing columns with the
  multiplication by logarithms that the tables replace; and the routines for keys and blocks of 128 bits
  make the same schedule and the same block as the general routines.\<close>

theorem rijndael_variants_agree:
  "MixColumn a BC = MixColumn_mul a BC \<and> InvMixColumn a BC = InvMixColumn_mul a BC \<and>
   makeKey128 key kl bl material opt = makeKey key kl bl material \<and>
   rijndaelEncrypt128 a rk = rijndaelEncrypt a 128 128 rk \<and> rijndaelDecrypt128 a rk = rijndaelDecrypt a 128 128 rk"
  by (intro conjI MixColumn_MixColumn_mul InvMixColumn_InvMixColumn_mul makeKey128_eq rijndaelEncrypt128_eq rijndaelDecrypt128_eq)

section \<open>Pseudorandom functions\<close>

text \<open>C36: The TLS 1.2 PRF returns, and its output is the first octets
  of \<open>P_hash\<close> over label and seed with the HMAC of the negotiated suite: SHA-384 for the three
  AES-256-GCM suites and SHA-256 otherwise. The code passes the lengths on as 32-bit numbers: of the secret, and of the
  requested length, only the remainder modulo 2^32 counts, and label and seed are assumed to have less than 2^32 octets
  together (beyond that the routine writes outside of its buffer and the model has no result).\<close>

theorem tls12_PRF_is_P_hash:
  assumes "platform_ok P" "length (label @ seed) < 2 ^ 32"
  shows "tls12_PRF P suite secret (Some label) seed n =
    Some (noErr, PRF_expand (CCHmac P (if suite \<in> {0xC030, 0xC02C, 0x009D} then HA_SHA384 else HA_SHA256))
      (take (length secret mod 2 ^ 32) secret) (label @ seed) (n mod 2 ^ 32))"
  using assms tls12_PRF_spec [OF assms(1), where label = "Some label" and seed = seed and s = suite and secret = secret and n = n]
  by (simp add: tls12PrfHmac_def tls12SuiteUsesSHA384_def trunc32_def)

theorem tls12_PRF_is_P_hash_witness:
  "tls12_PRF demo_platform 0xC030 [1, 2] (Some [3]) [4] 100 =
    Some (noErr, PRF_expand (CCHmac demo_platform HA_SHA384) [1, 2] [3, 4] 100)"
  using tls12_PRF_is_P_hash [OF platform_ok_demo, of "[3]" "[4]" "0xC030" "[1, 2]" 100] by simp

text \<open>The PRF of SSLv3-style TLS 1.0 and 1.1 returns for every requested length below 2^32 and is the exclusive
  or of \<open>P_MD5\<close> over the first half of the secret and \<open>P_SHA1\<close> over the second half, the halves
  sharing the middle octet when the length is odd.\<close>

theorem tls10_PRF_is_xor_of_P_hashes:
  assumes "platform_ok P" "length secret < 2 ^ 32" "length (label @ seed) < 2 ^ 32" "n < 2 ^ 32"
  shows "SSLInternal_PRF P secret (Some label) seed n = Some (noErr,
     xor_bytes (PRF_expand (CCHmac P HA_MD5) (take ((length secret + 1) div 2) secret) (label @ seed) n)
               (PRF_expand (CCHmac P HA_SHA1) (drop (length secret div 2) secret) (label @ seed) n))"
  using SSLInternal_PRF_spec [OF assms(1), where label = "Some label" and seed = seed and secret = secret and n = n] assms PRF_halves [of secret] by simp

theorem tls10_PRF_is_xor_of_P_hashes_witness:
  "SSLInternal_PRF demo_platform [1, 2, 3] (Some [4]) [5] 30 = Some (noErr,
     xor_bytes (PRF_expand (CCHmac demo_platform HA_MD5) [1, 2] [4, 5] 30)
               (PRF_expand (CCHmac demo_platform HA_SHA1) [2, 3] [4, 5] 30))"
  using tls10_PRF_is_xor_of_P_hashes [OF platform_ok_demo, of "[1, 2, 3]" "[4]" "[5]" 30] by simp

section \<open>Message authentication\<close>

text \<open>The MAC context that \<open>initMac\<close> makes computes, through the table of each protocol, the MAC
  that the protocol defines over the sequence number, the type, the version (TLS) and the content:
  the nested digest of SSLv3, and the HMAC of TLS with 0x0301 or with the negotiated version.\<close>

theorem computeMac_after_initMac:
  assumes "platform_ok P" "macRef c \<noteq> HA_Null" "macCtx c = NoMacCtx"
  shows "\<exists>c' c''. call_initMac P calls c = Some (noErr, c') \<and>
    call_computeMac P calls vers type data c' seqNo = Some (noErr,
      record_mac_of P calls vers (macRef c) (take (hmac_length (macRef c)) (macSecret c)) seqNo type data, c'')"
proof -
  obtain x s where i: "call_initMac P calls c = Some (noErr, c\<lparr>macCtx := x, macSecret := s\<rparr>)"
    "mac_holds P calls (c\<lparr>macCtx := x, macSecret := s\<rparr>) (take (hmac_length (macRef c)) (macSecret c))"
    by (rule call_initMac_holds [OF assms])
  then show ?thesis
    using ssl3_calls.compute_ok [OF assms(1), of "c\<lparr>macCtx := x, macSecret := s\<rparr>"]
      tls1_calls.compute_ok [OF assms(1), of "c\<lparr>macCtx := x, macSecret := s\<rparr>"]
      tls12_calls.compute_ok [OF assms(1), of "c\<lparr>macCtx := x, macSecret := s\<rparr>"]
    by (cases calls) (fastforce simp: call_computeMac_def record_mac_of_def)+
qed

theorem computeMac_after_initMac_witness:
  "\<exists>c' c''. call_initMac demo_platform Tls12Callouts (demo_cipher\<lparr>macRef := HA_SHA256\<rparr>) = Some (noErr, c') \<and>
    call_computeMac demo_platform Tls12Callouts TLS_Version_1_2 23 [1] c' \<lparr>high = 0, low = 7\<rparr> = Some (noErr,
      CCHmac demo_platform HA_SHA256 (replicate 32 5) [0, 0, 0, 0, 0, 0, 0, 7, 23, 3, 3, 0, 1, 1], c'')"
proof -
  have version_octet: "(771 :: byte) = 3" by simp
  show ?thesis
    using computeMac_after_initMac [OF platform_ok_demo, of "demo_cipher\<lparr>macRef := HA_SHA256\<rparr>" Tls12Callouts
      TLS_Version_1_2 23 "[1]" "\<lparr>high = 0, low = 7\<rparr>"]
    by (simp add: demo_cipher_def record_mac_of_def tls_mac_def tls_mac_header_def SSLEncodeUInt64_def
        hmac_length_def two_octets version_octet)
qed

section \<open>Version and suite negotiation\<close>

text \<open>C33: A version is agreed exactly when the peer's version is one of the five that the code knows, from SSL 2.0 to TLS 1.2, and the
  agreed one is the highest enabled version not above it; on the client only the version the server chose is
  acceptable. A peer that offers a later version, such as 0x0304, is therefore refused, although TLS 1.2 may be enabled.\<close>

theorem version_agreed_iff_highest_common:
  "sslVerifyProtVersion ctx peer = (noErr, Some v) \<longleftrightarrow>
    peer \<in> {0x0002, 0x0300, 0x0301, 0x0302, 0x0303} \<and> versionEnabled ctx v \<and> v \<le> peer \<and>
    (\<forall>w. versionEnabled ctx w \<longrightarrow> w \<le> peer \<longrightarrow> w \<le> v) \<and> (protocolSide ctx = SSL_ClientSide \<longrightarrow> v = peer)"
proof (cases "knownVersion peer")
  case True
  from sslVerifyProtVersion_iff [OF True] True show ?thesis by (simp add: knownVersion_def)
qed (simp add: knownVersion_def sslVerifyProtVersion_def Let_def)

theorem version_agreed_iff_highest_common_witness:
  "sslVerifyProtVersion (demo_ctx\<lparr>protocolSide := SSL_ServerSide, versionTls12Enable := False\<rparr>) TLS_Version_1_2 =
    (noErr, Some TLS_Version_1_1)"
  by (subst version_agreed_iff_highest_common) (simp add: all_versionEnabled, simp add: versionEnabled_def)

text \<open>The version a client offers is the highest one enabled.\<close>

theorem max_version_iff_highest_enabled:
  "sslGetMaxProtVersion ctx = (noErr, Some v) \<longleftrightarrow>
     versionEnabled ctx v \<and> (\<forall>w. versionEnabled ctx w \<longrightarrow> w \<le> v)"
  by (rule sslGetMaxProtVersion_iff)

theorem max_version_iff_highest_enabled_witness:
  "sslGetMaxProtVersion (demo_ctx\<lparr>versionTls12Enable := False\<rparr>) = (noErr, Some TLS_Version_1_1)"
  by (subst max_version_iff_highest_enabled) (simp add: all_versionEnabled, simp add: versionEnabled_def)

text \<open>Building the list of suites never reaches the assertion on unknown key exchange methods,
  and gives the table without the suites that \<open>keepCipherSpec\<close> trims, in the table's order.\<close>

theorem built_suites_are_filtered_table:
  assumes "platform_ok P" "validCipherSpecs ctx = None"
  shows "\<exists>ctx'. sslBuildCipherSpecArray P ctx = Some (noErr, ctx') \<and>
    validCipherSpecs ctx' = Some (filter (\<lambda>s. keepCipherSpec ctx s = Some True) KnownCipherSpecs) \<and>
    distinct (map cipherSpec (the (validCipherSpecs ctx')))"
  using sslBuildCipherSpecArray_ok [OF assms] KnownCipherSpecs_distinct by (auto simp: distinct_map_filter)

theorem built_suites_are_filtered_table_witness:
  "\<exists>ctx'. sslBuildCipherSpecArray demo_platform demo_ctx = Some (noErr, ctx') \<and>
    distinct (map cipherSpec (the (validCipherSpecs ctx')))"
  using built_suites_are_filtered_table [OF platform_ok_demo, of demo_ctx] by auto

text \<open>What the application enables is what is reported back: after a successful
  \<open>SSLSetEnabledCiphers\<close> the enabled suites are exactly the given ones, in the given order, and
  each is a suite of the table.\<close>

theorem enabled_suites_roundtrip:
  assumes "SSLSetEnabledCiphers P ctx suites = (noErr, ctx')" "length suites \<le> n"
  shows "SSLGetEnabledCiphers P ctx' n = Some (noErr, suites, ctx') \<and>
    set suites \<subseteq> cipherSpec ` set KnownCipherSpecs"
proof -
  obtain specs where "findSpecs suites = Some specs"
      "ctx' = sslAnalyzeCipherSpecs (ctx\<lparr>validCipherSpecs := Some specs\<rparr>)"
    using assms(1) by (auto simp: SSLSetEnabledCiphers_def split: if_splits option.splits)
  moreover from this(2) have "validCipherSpecs ctx' = Some specs"
    by (simp add: sslAnalyzeCipherSpecs_def Let_def)
  moreover from calculation(1) have "map cipherSpec specs = suites" "set specs \<subseteq> set KnownCipherSpecs"
    using findSpecs_sound by auto
  ultimately show ?thesis
    using assms(2) image_mono [of "set specs" "set KnownCipherSpecs" cipherSpec]
    by (auto simp: SSLGetEnabledCiphers_def cipherSpecsToCipherSuites_def)
qed

theorem enabled_suites_roundtrip_witness:
  "\<exists>ctx'. SSLSetEnabledCiphers demo_platform (demo_ctx\<lparr>state := SSL_HdskStateUninit\<rparr>) [0x002F, 0xC030] = (noErr, ctx') \<and>
    SSLGetEnabledCiphers demo_platform ctx' 2 = Some (noErr, [0x002F, 0xC030], ctx')"
proof -
  obtain ctx' where c: "SSLSetEnabledCiphers demo_platform (demo_ctx\<lparr>state := SSL_HdskStateUninit\<rparr>) [0x002F, 0xC030] = (noErr, ctx')"
    by (simp add: SSLSetEnabledCiphers_def sslIsSessionActive_def platform_malloc [OF platform_ok_demo] KnownCipherSpecs_def)
  from enabled_suites_roundtrip [OF c, of 2] c show ?thesis by simp
qed

text \<open>The suite that \<open>FindCipherSpec\<close> selects is one of the enabled ones and is the negotiated one.\<close>

theorem selected_suite_is_enabled:
  assumes "FindCipherSpec ctx = Some (noErr, ctx')"
  shows "\<exists>s specs. validCipherSpecs ctx = Some specs \<and> s \<in> set specs \<and>
    cipherSpec s = ucast (selectedCipher ctx) \<and> ctx' = ctx\<lparr>selectedCipherSpec := Some s\<rparr>"
  using assms by (rule FindCipherSpec_ok)

theorem selected_suite_is_enabled_witness:
  "\<exists>s. s \<in> set KnownCipherSpecs \<and> cipherSpec s = 0x009C"
proof -
  have "FindCipherSpec (demo_ctx\<lparr>validCipherSpecs := Some KnownCipherSpecs\<rparr>) =
      Some (noErr, demo_ctx\<lparr>validCipherSpecs := Some KnownCipherSpecs, selectedCipherSpec := Some
        \<lparr>cipherSpec = 0x009C, isExportable = False, keyExchangeMethod = SSL_RSA, macAlgorithm = HA_Null,
          cipher = SSLCipherAES_128_GCM\<rparr>\<rparr>)"
    by (simp add: FindCipherSpec_def KnownCipherSpecs_def sslVerifySelectedCipher_def)
  from selected_suite_is_enabled [OF this] show ?thesis by auto
qed

section \<open>Sessions\<close>

text \<open>C32: What a connection stores with \<open>SSLAddSessionData\<close> a later connection to the same peer gets
  back, for as long as the entry lasts: until the timeout after the store if there was no entry under the peer ID, and otherwise until the
  expiration that the old entry had, which is not renewed. The lookup returns the stored image, and from it the session ID, the protocol version, and
  (through \<open>SSLInstallSessionFromData\<close>, once the suite has been found) the master secret and the
  peer's certificate chain, if there was one. The session has to fit its image: a session ID of at most 32 octets, a master secret of 48, and
  less than 2^32 octets in all (the length is kept in 32 bits and wraps).\<close>

theorem session_resumption_restores:
  assumes "platform_ok P" "peerID ctx = Some pid" "length (stored_sessionID ctx) \<le> 32" "length (masterSecret ctx) = 48"
      "96 + length (encode_certs (peerCert ctx)) < 2 ^ 32"
    and "platform_ok Q" "now Q \<le> session_expiry (now P) (sessionCache ctx) pid (unat (sessionCacheTimeout ctx))"
    and "peerID c = Some pid" "FindCipherSpec c2 = Some (noErr, c3)"
    and "negProtocolVersion c2 \<noteq> SSL_Version_2_0" "selectedCipher c2 \<noteq> 0"
  shows "\<exists>cache data c'. SSLAddSessionData P ctx = Some (noErr, ctx\<lparr>sessionCache := cache\<rparr>) \<and>
    SSLGetSessionData Q (c\<lparr>sessionCache := cache\<rparr>) = (noErr, Some data, c') \<and>
    SSLRetrieveSessionID Q data = Some (noErr, Some (stored_sessionID ctx)) \<and>
    SSLRetrieveSessionProtocolVersion data = Some (noErr, negProtocolVersion ctx) \<and>
    SSLInstallSessionFromData Q data c2 = Some (noErr, c3\<lparr>masterSecret := masterSecret ctx,
      peerCert := (if peerCert ctx = [] then peerCert c3 else peerCert ctx)\<rparr>)"
proof -
  have st: "storable ctx" using assms(3-5) by (simp add: storable_def)
  obtain cache where a: "SSLAddSessionData P ctx = Some (noErr, ctx\<lparr>sessionCache := cache\<rparr>)"
    and g: "\<And>Q c. platform_ok Q \<Longrightarrow> now Q \<le> session_expiry (now P) (sessionCache ctx) pid (unat (sessionCacheTimeout ctx)) \<Longrightarrow>
       peerID c = Some pid \<Longrightarrow> sessionCache c = cache \<Longrightarrow>
       \<exists>cache'. SSLGetSessionData Q c = (noErr, Some (image_of ctx), c\<lparr>sessionCache := cache'\<rparr>)"
    by (rule SSLAddSessionData_stores [OF assms(1,2) st]) blast
  obtain c' where "SSLGetSessionData Q (c\<lparr>sessionCache := cache\<rparr>) = (noErr, Some (image_of ctx), c')"
    using g [OF assms(6,7), of "c\<lparr>sessionCache := cache\<rparr>"] assms(8) by auto
  with a SSLRetrieve_restores [OF assms(6) st] SSLInstallSessionFromData_restores [OF assms(6) st assms(9,10,11)]
  show ?thesis by blast
qed

theorem session_resumption_restores_witness:
  "\<exists>cache data c'. SSLAddSessionData demo_platform demo_ctx = Some (noErr, demo_ctx\<lparr>sessionCache := cache\<rparr>) \<and>
    SSLGetSessionData demo_platform (demo_ctx\<lparr>sessionCache := cache\<rparr>) = (noErr, Some data, c') \<and>
    SSLRetrieveSessionID demo_platform data = Some (noErr, Some [1, 2, 3, 4])"
proof -
  let ?c = "demo_ctx\<lparr>validCipherSpecs := Some [SSL_NULL_WITH_NULL_NULL_CipherSpec\<lparr>cipherSpec := 0x009C, keyExchangeMethod := SSL_RSA\<rparr>]\<rparr>"
  obtain c3 where f: "FindCipherSpec ?c = Some (noErr, c3)"
    by (simp add: FindCipherSpec_def SSL_NULL_WITH_NULL_NULL_CipherSpec_def sslVerifySelectedCipher_def)
  have st: "stored_sessionID demo_ctx = [1, 2, 3, 4]" "length (masterSecret demo_ctx) = 48"
      "96 + length (encode_certs (peerCert demo_ctx)) < 2 ^ 32" by (simp_all add: stored_sessionID_def encode_certs_def)
  have "now demo_platform \<le> session_expiry (now demo_platform) (sessionCache demo_ctx) [112, 101, 101, 114] (unat (sessionCacheTimeout demo_ctx))"
    by (simp add: SESSION_CACHE_TTL_def)
  from session_resumption_restores [OF platform_ok_demo _ _ st(2,3) platform_ok_demo this _ f, of demo_ctx] st(1)
  show ?thesis by auto
qed

text \<open>The session cache is a map with expiration: after any sequence of additions under keys that
  have no expired entry, a lookup gives the last data added under its key, and otherwise what it
  gave before.\<close>

theorem session_cache_last_write_wins:
  assumes "platform_ok P" "cache_inv cache" "\<forall>(k, d)\<in>set kds. \<not> session_expired (now P) cache k"
  shows "fst (snd (sslGetSession P (foldl (\<lambda>c (k, d). snd (the (sslAddSession P c k d ttl))) cache kds) key)) =
    (case map_of (rev kds) key of None \<Rightarrow> fst (snd (sslGetSession P cache key)) | Some d \<Rightarrow> Some d)"
proof -
  have "foldl (\<lambda>s (k, d). (\<lambda>(P, ttl, cache) key data. (P, ttl, snd (the (sslAddSession P cache key data ttl)))) s k d)
      (P, ttl, cache) kds = (P, ttl, foldl (\<lambda>c (k, d). snd (the (sslAddSession P c k d ttl))) cache kds)"
    by (induction kds arbitrary: cache) auto
  then show ?thesis
    using apple_session.get_adds [of "(P, ttl, cache)" kds key] assms by (simp split: option.split)
qed

theorem session_cache_last_write_wins_witness:
  "fst (snd (sslGetSession demo_platform
     (foldl (\<lambda>c (k, d). snd (the (sslAddSession demo_platform c k d 0))) [] [([1], [7]), ([2], [8]), ([1], [9])]) [1])) =
   Some [9]"
  using session_cache_last_write_wins [OF platform_ok_demo, of "[]" "[([1], [7]), ([2], [8]), ([1], [9])]" 0 "[1]"]
  by simp

text \<open>An entry that has run out but is still in the list is not renewed: adding data under its key
  keeps the old expiration, so that a lookup at that moment still reports the session as not found,
  until the entry is deleted.\<close>

theorem expired_session_is_not_renewed:
  assumes "platform_ok P" "session_expired (now P) cache key"
  shows "\<exists>cache'. sslAddSession P cache key data ttl = Some (noErr, cache') \<and>
    fst (snd (sslGetSession P cache' key)) = None"
proof -
  have "session_view (now P) cache key = None"
    using assms(2) by (auto simp: session_view_def session_expired_def split: option.splits)
  then show ?thesis
    using AddEntry_view [OF assms(1), of cache key data ttl] assms
    by (auto simp: sslAddSession_def sslGetSession_view)
qed

theorem expired_session_is_not_renewed_witness:
  "\<exists>cache'. sslAddSession demo_platform [\<lparr>mKey = [1], mSessionData = [7], mExpiration = 999\<rparr>] [1] [8] 600 = Some (noErr, cache') \<and>
    fst (snd (sslGetSession demo_platform cache' [1])) = None"
  by (rule expired_session_is_not_renewed) (simp_all add: platform_ok_demo, simp add: demo_platform_def)

section \<open>Alerts\<close>

text \<open>C34: A fatal alert is final: the connection is in the error state, its session has left the cache
  (a later connection to the peer cannot resume it), at most one record is queued behind the old
  ones, and every later alert is suppressed.\<close>

theorem fatal_alert_is_final:
  assumes "SSLFatalSessionAlert P desc ctx = Some (err, ctx')" "negProtocolVersion ctx \<noteq> SSL_Version_2_0"
    and "peerID ctx = Some pid" "cache_inv (sessionCache ctx)"
  shows "state ctx' = SSL_HdskStateErrorClose \<and>
    session_view t (sessionCache ctx') pid = None \<and>
    (\<exists>new. recordWriteQueue ctx' = recordWriteQueue ctx @ new \<and> length new \<le> 1) \<and>
    SSLSendAlert P level d ctx' = Some (noErr, ctx')"
proof -
  note e = SSLFatalSessionAlert_effect [OF assms(1)]
  have "recordWriteQueue ctx' = recordWriteQueue ctx @ drop (length (recordWriteQueue ctx)) (recordWriteQueue ctx')"
    using e(7) by (metis append_take_drop_id)
  moreover have "length (drop (length (recordWriteQueue ctx)) (recordWriteQueue ctx')) \<le> 1" using e(8) by simp
  moreover have "session_view t (sessionCache ctx') pid = None"
    using e(3) assms(3,4) by (simp add: SSLDeleteSessionData_def sslDeleteSession_def DeleteEntry_eq session_view_filter_key)
  moreover have "SSLSendAlert P level d ctx' = Some (noErr, ctx')"
    using e(2,5) assms(2) by (simp add: SSLSendAlert_silent)
  ultimately show ?thesis using e(1) by blast
qed

theorem fatal_alert_is_final_witness:
  "\<exists>err ctx'. SSLFatalSessionAlert demo_platform SSL_AlertBadRecordMac (demo_ctx\<lparr>sentFatalAlert := True\<rparr>) = Some (err, ctx') \<and>
    state ctx' = SSL_HdskStateErrorClose"
proof -
  obtain err ctx' where f: "SSLFatalSessionAlert demo_platform SSL_AlertBadRecordMac (demo_ctx\<lparr>sentFatalAlert := True\<rparr>) = Some (err, ctx')"
    by (simp add: SSLFatalSessionAlert_def SSLDeleteSessionData_def sslDeleteSession_def SSLSendAlert_def)
  from fatal_alert_is_final [OF f] f show ?thesis by auto
qed

section \<open>Integers on the wire\<close>

text \<open>Reading back an encoded integer gives its low octets, whatever follows it in the buffer; a
  value that fits the width is recovered unchanged.\<close>

theorem integer_codec_roundtrip:
  "SSLDecodeInt (SSLEncodeInt v n @ rest) n = take_bit (8 * n) v \<and> length (SSLEncodeInt v n) = n"
  by (simp add: SSLDecodeInt_SSLEncodeInt)

text \<open>The sequence number, kept in two 32-bit halves, is a 64-bit counter: after \<open>n\<close> increments it has
  grown by \<open>n\<close> modulo 2^64, so that two positions fewer than 2^64 apart never encode alike.\<close>

theorem sequence_number_counts:
  "uint64_of ((IncrementUInt64 ^^ n) v) = uint64_of v + of_nat n \<and>
   (SSLEncodeUInt64 ((IncrementUInt64 ^^ i) v) = SSLEncodeUInt64 ((IncrementUInt64 ^^ j) v) \<longleftrightarrow> i mod 2 ^ 64 = j mod 2 ^ 64)"
proof
  have "SSLEncodeUInt64 ((IncrementUInt64 ^^ i) v) = SSLEncodeUInt64 ((IncrementUInt64 ^^ j) v) \<longleftrightarrow>
      (of_nat i :: uint64) = of_nat j"
    using uint64_of_iterate [of i v] uint64_of_iterate [of j v]
    by (metis SSLEncodeUInt64_inject uint64_of_inject add_left_cancel)
  also have "\<dots> \<longleftrightarrow> i mod 2 ^ 64 = j mod 2 ^ 64"
    by (simp add: word_unat_eq_iff unat_of_nat)
  finally show "SSLEncodeUInt64 ((IncrementUInt64 ^^ i) v) = SSLEncodeUInt64 ((IncrementUInt64 ^^ j) v) \<longleftrightarrow>
      i mod 2 ^ 64 = j mod 2 ^ 64" .
qed (rule uint64_of_iterate)

section \<open>The handshake\<close>

text \<open>C2: No handshake completes without the peer's Finished message. When \<open>SSLHandshake\<close> succeeds on a
  connection whose read cipher was not in force, then its run (after the list of suites has been built, if there was none) is a
  sequence of successful calls of \<open>SSLHandshakeProceed\<close>, and one of them brings the read cipher into force: the record that was read in
  this call is a handshake record that contains, among its messages taken one after the other, a Finished message that comes in
  the state that expects it and whose verify data are correct, and it is with this message that the read cipher comes into force. The only
  other way is that the record is one of SSL 2.0.\<close>

theorem handshake_needs_verified_finished:
  assumes "SSLHandshake P ctx = Some (noErr, ctx')" "\<not> ready (readCipher ctx)"
  shows "\<exists>ctx0 c b rec b' d ctx1. (ctx0 = ctx \<or> sslBuildCipherSpecArray P ctx = Some (noErr, ctx0)) \<and>
    (proceeds P)\<^sup>*\<^sup>* ctx0 c \<and> \<not> ready (readCipher c) \<and>
    before_reading P c = Some (noErr, b) \<and> SSLReadRecord P b = Some (noErr, Some rec, b') \<and> SSLProcessProtocolMessage P rec b' = Some (noErr, d) \<and>
    ready (readCipher d) \<and> (proceeds P)\<^sup>*\<^sup>* d ctx1 \<and> SSLServiceWriteQueue P ctx1 = Some (noErr, ctx') \<and>
    (contentType rec = SSL_RecordTypeV2_0 \<or> contentType rec = SSL_RecordTypeHandshake \<and> finished_in P rec b')"
proof -
  have frame: "readCipher c = readCipher ctx" if "sslBuildCipherSpecArray P ctx = Some (e, c)" for e c
    using that by (auto simp: sslBuildCipherSpecArray_def sslAnalyzeCipherSpecs_def Let_def elim!: bind_SomeE split: if_split_asm)
  have "\<exists>ctx0 ctx1. (ctx0 = ctx \<or> sslBuildCipherSpecArray P ctx = Some (noErr, ctx0)) \<and>
      proceed_until P (\<lambda>ctx. ready (readCipher ctx) \<and> ready (writeCipher ctx)) ctx0 = Some (noErr, ctx1) \<and>
      SSLServiceWriteQueue P ctx1 = Some (noErr, ctx')"
    using assms(1) by (auto simp: SSLHandshake_def elim!: bind_SomeE split: if_split_asm) blast
  then obtain ctx0 ctx1 where b: "ctx0 = ctx \<or> sslBuildCipherSpecArray P ctx = Some (noErr, ctx0)"
    and run: "proceed_until P (\<lambda>ctx. ready (readCipher ctx) \<and> ready (writeCipher ctx)) ctx0 = Some (noErr, ctx1)"
    and rest: "SSLServiceWriteQueue P ctx1 = Some (noErr, ctx')" by blast
  have "\<not> ready (readCipher ctx0)" using b frame assms(2) by auto
  with proceed_until_proceeds [OF run] rtranclp_crossing [of "proceeds P" ctx0 ctx1 "\<lambda>c. ready (readCipher c)"]
  obtain c d where c: "(proceeds P)\<^sup>*\<^sup>* ctx0 c" "\<not> ready (readCipher c)" "proceeds P c d" "ready (readCipher d)" "(proceeds P)\<^sup>*\<^sup>* d ctx1"
    by blast
  with proceeds_finished [OF c(3,2,4)] b rest show ?thesis by blast
qed

theorem handshake_needs_verified_finished_witness:
  "\<exists>ctx'. SSLHandshake demo_fin_wire demo_fin_ctx = Some (noErr, ctx') \<and>
    (\<exists>ctx0 c b rec b' d. (proceeds demo_fin_wire)\<^sup>*\<^sup>* ctx0 c \<and> SSLReadRecord demo_fin_wire b = Some (noErr, Some rec, b') \<and>
       SSLProcessProtocolMessage demo_fin_wire rec b' = Some (noErr, d) \<and> ready (readCipher d) \<and>
       (contentType rec = SSL_RecordTypeV2_0 \<or> contentType rec = SSL_RecordTypeHandshake \<and> finished_in demo_fin_wire rec b'))"
proof -
  obtain ctx' where fin: "SSLHandshake demo_fin_wire demo_fin_ctx = Some (noErr, ctx')" using demo_fin_done by blast
  have "\<not> ready (readCipher demo_fin_ctx)" by (simp add: demo_fin_ctx_def)
  from handshake_needs_verified_finished [OF fin this] fin show ?thesis by blast
qed

text \<open>C18: Nothing a peer sends changes the configuration. Processing a record of any type
  but SSL 2.0, with whatever contents and outcome, leaves as they were: the callbacks and the connection reference, the role, the enabled versions and suites, the own
  keys and certificates, the trusted roots and leaf certificates, the module handles, the curves, the peer's identifier and name, the certificate authorities to be asked for, whether client authentication is
  demanded, the ticket, the master secret callback, the timeout of the cache and the flags that \<open>SSLSetSessionOption\<close> and the setters of trust and ciphers control;
  and the application data that waits to be read. Five settings are not among them because the peer does change them: \<open>tryClientAuth\<close> (which the handshake
  recomputes), \<open>dhParamsPrime\<close> and \<open>dhParamsGenerator\<close> (which a client takes from the server's key exchange), \<open>acceptableDNList\<close> (which
  a client takes from the certificate request) and \<open>negAuthType\<close> (which follows from the request); the encoding of the Diffie-Hellman parameters is not part of the configuration either.\<close>

theorem peer_cannot_change_configuration:
  assumes "SSLProcessProtocolMessage P rec ctx = Some (err, ctx')" "contentType rec \<noteq> SSL_RecordTypeV2_0"
  shows "configuration ctx' = configuration ctx \<and> unread ctx' = unread ctx"
  using conn_steps_steady [OF SSLProcessProtocolMessage_steps [OF assms]] by (auto simp: steady_def unread_def split: option.split)

theorem peer_cannot_change_configuration_witness:
  "\<exists>err ctx'. SSLProcessProtocolMessage demo_platform \<lparr>contentType = 21, protocolVersion = TLS_Version_1_2, contents = [1, 90]\<rparr> demo_ctx =
     Some (err, ctx') \<and> configuration ctx' = configuration demo_ctx"
proof -
  obtain err ctx' where "SSLProcessProtocolMessage demo_platform
      \<lparr>contentType = 21, protocolVersion = TLS_Version_1_2, contents = [1, 90]\<rparr> demo_ctx = Some (err, ctx')"
    using SSLProcessAlert_warning [of "\<lparr>contentType = 21, protocolVersion = TLS_Version_1_2, contents = [1, 90]\<rparr>" 90]
    by (simp add: SSLProcessProtocolMessage_def peer_alert_def implied_fatal_def)
  moreover from peer_cannot_change_configuration [OF this] have "configuration ctx' = configuration demo_ctx" by simp
  ultimately show ?thesis by blast
qed

text \<open>C5: A Finished message is accepted if and only if it is the verify data that the master secret and
  the transcript of the handshake give for the peer's role, in all protocol versions; any other
  message is refused with a protocol error. Both cases return.\<close>

theorem finished_accepted_iff_verify_data:
  assumes "platform_ok P" "transcript_is ctx tr" "calls_for (negProtocolVersion ctx) (sslTslCalls ctx)"
  shows "SSLProcessFinished P message ctx = Some (if message = finished_data P (sslTslCalls ctx) (selectedCipher ctx)
    (masterSecret ctx) tr (protocolSide ctx = SSL_ClientSide) 12 then noErr else errSSLProtocol)"
proof -
  have "(protocolSide ctx \<noteq> SSL_ServerSide) = (protocolSide ctx = SSL_ClientSide)" by (cases "protocolSide ctx") simp_all
  then show ?thesis using SSLProcessFinished_iff [OF assms, of message] by (simp add: verify_data_def)
qed

theorem finished_accepted_iff_verify_data_witness:
  "SSLProcessFinished demo_platform [177, 178, 179, 180, 181, 182, 183, 184, 185, 186, 187, 188] demo_fin_ctx = Some noErr \<and>
   SSLProcessFinished demo_platform [177] demo_fin_ctx = Some errSSLProtocol"
proof -
  have "finished_data demo_platform (sslTslCalls demo_fin_ctx) (selectedCipher demo_fin_ctx) (masterSecret demo_fin_ctx) []
      (protocolSide demo_fin_ctx = SSL_ClientSide) 12 = [177, 178, 179, 180, 181, 182, 183, 184, 185, 186, 187, 188]"
    using demo_verify_data by (simp add: verify_data_def demo_fin_ctx_def)
  moreover have "transcript_is demo_fin_ctx []" "calls_for (negProtocolVersion demo_fin_ctx) (sslTslCalls demo_fin_ctx)"
    by (simp_all add: transcript_is_def calls_for_def demo_fin_ctx_def)
  ultimately show ?thesis
    using finished_accepted_iff_verify_data [OF platform_ok_demo, of demo_fin_ctx "[]"] by simp
qed

text \<open>C7: After both ends have derived their keys they can talk. When a client and a server that agree
  on version, suite, master secret and random values have run \<open>SSLInitPendingCiphers\<close>, each direction
  is in sync as soon as its writer and its reader have taken the pending ciphers into use, for every
  suite of the table that CDSA does not implement, where an AES-GCM suite has been negotiated with the callouts of TLS 1.2 (the code does not
  prevent it from being negotiated with an older version, where the record layer cannot use it). The pending ciphers have to be as a new context or a completed
  handshake leaves them: without a cryptor and a MAC context, with their direction set.\<close>

theorem derived_ciphers_are_in_sync:
  assumes "platform_ok P" "cryptor_laws P" "same_secrets c s"
    and "selectedCipherSpec c = Some cs" "cs \<in> set KnownCipherSpecs" "\<not> isCDSA (cipher cs)"
      "isGcm (cipher cs) \<Longrightarrow> sslTslCalls c = Tls12Callouts"
    and "fresh_pending True (writePending c)" "fresh_pending False (readPending c)"
      "fresh_pending True (writePending s)" "fresh_pending False (readPending s)"
    and "SSLInitPendingCiphers P c = Some (noErr, c')" "SSLInitPendingCiphers P s = Some (noErr, s')"
  shows "in_sync P (install_writePending b c') (install_readPending s') \<and>
    in_sync P (install_writePending b s') (install_readPending c')"
  using pending_in_sync [OF assms] by blast

theorem derived_ciphers_are_in_sync_witness:
  "\<exists>c s. SSLInitPendingCiphers demo_platform (demo_keyed SSL_ClientSide) = Some (noErr, c) \<and>
    SSLInitPendingCiphers demo_platform (demo_keyed SSL_ServerSide) = Some (noErr, s) \<and>
    in_sync demo_platform (install_writePending True c) (install_readPending s) \<and>
    in_sync demo_platform (install_writePending True s) (install_readPending c)"
proof -
  obtain c s where run: "SSLInitPendingCiphers demo_platform (demo_keyed SSL_ClientSide) = Some (noErr, c)"
    "SSLInitPendingCiphers demo_platform (demo_keyed SSL_ServerSide) = Some (noErr, s)" using demo_pending by blast
  have "in_sync demo_platform (install_writePending True c) (install_readPending s) \<and>
      in_sync demo_platform (install_writePending True s) (install_readPending c)"
    by (rule derived_ciphers_are_in_sync [OF platform_ok_demo cryptor_laws_demo _ _ _ _ _ _ _ _ _ run, where cs = demo_gcm_spec])
      (simp_all add: same_secrets_def demo_keyed_def fresh_pending_def zeroed_cipher_def demo_gcm_spec_def KnownCipherSpecs_def isCDSA_def)
  with run show ?thesis by blast
qed

text \<open>The key material is the key block of the protocol: whatever loop the table of the version
  runs (MD5 over SHA-1 with growing labels in SSLv3, the PRF of TLS 1.0, the PRF of the suite in
  TLS 1.2), for every length up to the largest a suite needs it returns the reference value.\<close>

theorem key_material_is_key_block:
  assumes "platform_ok P" "n \<le> 160"
  shows "call_generateKeyMaterial P n ctx = Some (noErr, key_block P (sslTslCalls ctx) (selectedCipher ctx)
    (masterSecret ctx) (serverRandom ctx) (clientRandom ctx) n)"
  using assms by (rule call_generateKeyMaterial_ok)

theorem key_material_is_key_block_witness:
  "call_generateKeyMaterial demo_platform 40 demo_ctx = Some (noErr, PRF_expand (CCHmac demo_platform HA_SHA256)
     (replicate 48 9) (PLS_KEY_EXPAND @ replicate 32 2 @ replicate 32 1) 40)"
proof -
  have "serverRandom demo_ctx = replicate 32 2" "clientRandom demo_ctx = replicate 32 1" by (simp_all add: demo_ctx_def)
  then show ?thesis
    using key_material_is_key_block [OF platform_ok_demo, of 40 demo_ctx]
    by (simp add: key_block_def tls12PrfHmac_def tls12SuiteUsesSHA384_def)
qed

text \<open>C22: A message of the handshake that comes in the wrong state is not decoded:
  the operation returns a protocol error, the session is closed with a fatal alert, and the cipher
  for incoming records stays. The wrong states, for each type of message: a HelloRequest (0) to a server; a ClientHello (1) after the first state of a
  server; a ServerHello (2) unless one is awaited; a Certificate (11), a ServerKeyExchange (12), a CertificateRequest (13), a ServerHelloDone (14), a CertificateVerify (15), a
  ClientKeyExchange (16) or a Finished (20) in any state but the listed ones; a second CertificateRequest; and every other type in any state.\<close>

theorem unexpected_message_is_refused:
  assumes "SSLProcessHandshakeMessage P type body ctx = Some (err, ctx')"
    and "type = 0 \<and> protocolSide ctx = SSL_ServerSide \<or>
      type = 1 \<and> state ctx \<noteq> SSL_HdskStateServerUninit \<or>
      type = 2 \<and> state ctx \<noteq> SSL_HdskStateServerHello \<and> state ctx \<noteq> SSL_HdskStateServerHelloUnknownVersion \<or>
      type = 11 \<and> state ctx \<noteq> SSL_HdskStateCert \<and> state ctx \<noteq> SSL_HdskStateClientCert \<or>
      type = 12 \<and> state ctx \<noteq> SSL_HdskStateKeyExchange \<and> state ctx \<noteq> SSL_HdskStateHelloDone \<or>
      type = 13 \<and> (state ctx \<noteq> SSL_HdskStateHelloDone \<and> state ctx \<noteq> SSL_HdskStateKeyExchange \<or> certRequested ctx) \<or>
      type = 14 \<and> state ctx \<noteq> SSL_HdskStateHelloDone \<or>
      type = 15 \<and> state ctx \<noteq> SSL_HdskStateClientCertVerify \<or>
      type = 16 \<and> state ctx \<noteq> SSL_HdskStateClientKeyExchange \<or>
      type = 20 \<and> state ctx \<noteq> SSL_HdskStateFinished \<or>
      type \<notin> {0, 1, 2, 11, 12, 13, 14, 15, 16, 20}"
  shows "err = errSSLProtocol \<and> state ctx' = SSL_HdskStateErrorClose \<and> sentFatalAlert ctx' \<and> readCipher ctx' = readCipher ctx"
proof -
  have "\<not> expected type ctx" using assms(2) by (auto simp: expected_def)
  then show ?thesis
    using assms(1) alert_return_effect [of P SSL_AlertUnexpectedMsg errSSLProtocol ctx err ctx']
    by (simp add: SSLProcessHandshakeMessage_def)
qed

theorem unexpected_message_is_refused_witness:
  "\<exists>ctx'. SSLProcessHandshakeMessage demo_platform 20 [1] demo_gcm_ctx = Some (errSSLProtocol, ctx') \<and>
    state ctx' = SSL_HdskStateErrorClose \<and> sentFatalAlert ctx'"
proof -
  have e: "\<not> expected 20 demo_gcm_ctx" and s: "state demo_gcm_ctx \<noteq> SSL_HdskStateFinished" by (simp_all add: expected_def demo_gcm_ctx_def)
  then obtain err ctx' where r: "SSLProcessHandshakeMessage demo_platform 20 [1] demo_gcm_ctx = Some (err, ctx')"
    using demo_fatal_alert [of SSL_AlertUnexpectedMsg] by (auto simp: SSLProcessHandshakeMessage_def alert_return_def)
  from unexpected_message_is_refused [OF r] s r show ?thesis by simp
qed

text \<open>C21: A ChangeCipherSpec is refused when it is not the single octet 1, and when it comes outside its place in the handshake, before the keys have been derived or
  in any other state: the operation returns a protocol error, closes the session, and
  the cipher for incoming records stays. The one exception is a client that has a session ticket and a master secret callback and
  waits for a Certificate or a ServerKeyExchange: it resumes by the ticket.\<close>

theorem early_ChangeCipherSpec_is_refused:
  assumes "contents rec \<noteq> [1] \<or> (\<not> ready (readPending ctx) \<or> state ctx \<noteq> SSL_HdskStateChangeCipherSpec) \<and>
      \<not> (protocolSide ctx = SSL_ClientSide \<and> (\<exists>t. sessionTicket ctx = Some t \<and> t \<noteq> []) \<and>
         state ctx \<in> {SSL_HdskStateKeyExchange, SSL_HdskStateCert} \<and> masterSecretCallback ctx)"
    and "SSLProcessChangeCipherSpec P rec ctx = Some (err, ctx')"
  shows "err = errSSLProtocol \<and> state ctx' = SSL_HdskStateErrorClose \<and> readCipher ctx' = readCipher ctx"
  using SSLProcessChangeCipherSpec_early [OF assms] by simp

theorem early_ChangeCipherSpec_is_refused_witness:
  "\<exists>ctx'. SSLProcessChangeCipherSpec demo_platform \<lparr>contentType = 20, protocolVersion = TLS_Version_1_2, contents = [1]\<rparr> demo_gcm_ctx =
     Some (errSSLProtocol, ctx') \<and> state ctx' = SSL_HdskStateErrorClose"
proof -
  let ?rec = "\<lparr>contentType = 20, protocolVersion = TLS_Version_1_2, contents = [1]\<rparr>"
  have t: "sessionTicket demo_gcm_ctx = None" "state demo_gcm_ctx \<noteq> SSL_HdskStateChangeCipherSpec"
    by (simp_all add: demo_gcm_ctx_def demo_ctx_def)
  then obtain err ctx' where r: "SSLProcessChangeCipherSpec demo_platform ?rec demo_gcm_ctx = Some (err, ctx')"
    using demo_fatal_alert [of SSL_AlertUnexpectedMsg]
    by (auto simp: SSLProcessChangeCipherSpec_def resume_by_ticket_none alert_return_def)
  from early_ChangeCipherSpec_is_refused [OF _ r] t r show ?thesis by simp
qed

section \<open>Key exchange\<close>

text \<open>C6: The parameters of an ephemeral key exchange come from the server. When a client under TLS 1.2
  accepts a ServerKeyExchange for an ECDHE suite, the message is exactly parameters, algorithms and
  signature; the point and the curve that the client goes on to use are those of the message; and the
  signature over both random values and the parameters verifies under the key of the server's
  certificate. The hash is chosen by the first octet of the algorithms: 6 is SHA-512 and 5 is SHA-384; any other value is SHA-256 for ECDSA, and
  for RSA SHA-256 from 4 on and SHA-1 below. (The comment over \<open>SSLDecodeSignedServerKeyExchange\<close> has it differently: SHA-256 for 5, and MD5 with SHA-1 otherwise.)\<close>

theorem accepted_key_exchange_is_signed:
  assumes "platform_ok P" "negProtocolVersion ctx = TLS_Version_1_2" "selectedCipherSpec ctx = Some cs"
    "keyExchangeMethod cs \<in> {SSL_ECDHE_ECDSA, SSL_ECDHE_RSA}" "SSLProcessServerKeyExchange P m ctx = Some (noErr, ctx')"
  shows "\<exists>c1 c2 len point alg sigAlg lens sig.
    m = ([3, c1, c2, len] @ point) @ [alg, sigAlg] @ lens @ sig \<and> unat len = length point \<and>
    length lens = 2 \<and> unat (SSLDecodeInt lens 2) = length sig \<and> known_curve (uint (SSLDecodeInt [c1, c2] 2)) \<and>
    ctx' = ctx\<lparr>ecdhPeerPublic := Some point, ecdhPeerCurve := uint (SSLDecodeInt [c1, c2] 2)\<rparr> \<and>
    server_signed P ctx (keyExchangeMethod cs = SSL_ECDHE_RSA) alg
       (clientRandom ctx @ serverRandom ctx @ [3, c1, c2, len] @ point) sig"
  using accepted_ServerKeyExchange [OF assms] by metis

theorem accepted_key_exchange_is_signed_witness:
  "\<exists>c1 c2 len point alg sigAlg lens sig. demo_ske = ([3, c1, c2, len] @ point) @ [alg, sigAlg] @ lens @ sig \<and>
    server_signed demo_platform demo_ecdhe_ctx (keyExchangeMethod demo_ecdhe_spec = SSL_ECDHE_RSA) alg (clientRandom demo_ecdhe_ctx @ serverRandom demo_ecdhe_ctx @ [3, c1, c2, len] @ point) sig"
proof -
  obtain ctx' where "SSLProcessServerKeyExchange demo_platform demo_ske demo_ecdhe_ctx = Some (noErr, ctx')"
    using demo_ske_accepted by blast
  then have "\<exists>c1 c2 len point alg sigAlg lens sig.
    demo_ske = ([3, c1, c2, len] @ point) @ [alg, sigAlg] @ lens @ sig \<and> unat len = length point \<and>
    length lens = 2 \<and> unat (SSLDecodeInt lens 2) = length sig \<and> known_curve (uint (SSLDecodeInt [c1, c2] 2)) \<and>
    ctx' = demo_ecdhe_ctx\<lparr>ecdhPeerPublic := Some point, ecdhPeerCurve := uint (SSLDecodeInt [c1, c2] 2)\<rparr> \<and>
    server_signed demo_platform demo_ecdhe_ctx (keyExchangeMethod demo_ecdhe_spec = SSL_ECDHE_RSA) alg
       (clientRandom demo_ecdhe_ctx @ serverRandom demo_ecdhe_ctx @ [3, c1, c2, len] @ point) sig"
    by (intro accepted_key_exchange_is_signed platform_ok_demo) (simp_all add: demo_ecdhe_ctx_def demo_ecdhe_spec_def)
  then show ?thesis by blast
qed

text \<open>C4: A server cannot be used to tell good RSA padding from bad. For every encrypted premaster
  secret of the length of the key, the server's operation succeeds. The premaster secret is what was
  decrypted, if the CSP has decrypted it (the key could be used and the padding was good), it has 48 octets, and the version in front is the negotiated or the requested
  one; and in all other cases it is the negotiated version and 46 fresh random octets, and nothing else of the connection tells the cases apart.\<close>

theorem rsa_decryption_is_no_oracle:
  assumes "platform_ok P" "protocolSide ctx = SSL_ServerSide" "KeyClass key = CSSM_KEYCLASS_PRIVATE_KEY"
    and "(if encryptPrivKeyRef ctx \<noteq> None then encryptPrivKeyRef ctx else signingPrivKeyRef ctx) = Some (Inr key)"
    and "length m = sslKeyLengthInBytes key"
  shows "SSLDecodeRSAKeyExchange P m ctx = Some (noErr,
    case rsa_plaintext P ctx key m of
      Some secret \<Rightarrow> if length secret = 48 \<and> SSLDecodeInt secret 2 \<in> {negProtocolVersion ctx, clientReqProtocol ctx}
        then ctx\<lparr>preMasterSecret := Some secret\<rparr> else random_secret P ctx
    | None \<Rightarrow> random_secret P ctx)"
  using assms(1,2,4,3,5) by (rule rsa_no_oracle)

theorem rsa_decryption_is_no_oracle_witness:
  "\<exists>ctx'. SSLDecodeRSAKeyExchange demo_platform (replicate 48 0) (demo_ctx\<lparr>protocolSide := SSL_ServerSide,
     encryptPrivKeyRef := Some (Inr demo_rsa_key)\<rparr>) = Some (noErr, ctx')"
  using rsa_decryption_is_no_oracle [OF platform_ok_demo, of "demo_ctx\<lparr>protocolSide := SSL_ServerSide,
     encryptPrivKeyRef := Some (Inr demo_rsa_key)\<rparr>" demo_rsa_key "replicate 48 0"]
  by (auto simp: sslKeyLengthInBytes_def)



section \<open>Hellos\<close>

text \<open>C23: The server understands what the client offers. The ClientHello that a client encodes makes a
  server that has a version and a suite in common answer with the version the negotiation rule gives
  and the first offered suite that it has enabled, and both have the same client random. The server's key has to fit that suite in the
  sense of \<open>sslVerifySelectedCipher\<close>: otherwise it does not look for another suite but returns an error, and for an ECDHE suite it runs into an assertion.
  The client offers fewer than 32768 suites.\<close>

theorem client_hello_roundtrip:
  assumes "platform_ok P" "SSLEncodeClientHello P c = Some (noErr, r, c')" "2 * length (offered_specs c) < 65536"
    and "sslVerifyProtVersion s (protocolVersion r) = (noErr, Some v)" "callouts_of v = Some calls" "validCipherSpecs s = Some specs"
    and "find (acceptable specs) (map (\<lambda>x. ucast (cipherSpec x)) (offered_specs c)) = Some d"
    and "find (\<lambda>x. cipherSpec x = ucast d) specs = Some x" "sslVerifySelectedCipher s x = Some noErr"
  shows "\<exists>s'. SSLProcessClientHello P (drop 4 (contents r)) s = Some (noErr, s') \<and>
    clientReqProtocol s' = protocolVersion r \<and> negProtocolVersion s' = v \<and> sslTslCalls s' = calls \<and>
    clientRandom s' = clientRandom c' \<and> selectedCipher s' = d \<and> selectedCipherSpec s' = Some x \<and> transcript_is s' []"
  using ClientHello_roundtrip [OF assms] by (auto simp: transcript_is_def)

theorem client_hello_roundtrip_witness:
  "\<exists>r c' s'. SSLEncodeClientHello demo_platform (demo_hello SSL_ClientSide) = Some (noErr, r, c') \<and>
    SSLProcessClientHello demo_platform (drop 4 (contents r)) (demo_hello SSL_ServerSide) = Some (noErr, s') \<and>
    negProtocolVersion s' = TLS_Version_1_2 \<and> selectedCipher s' = 0x009C \<and> clientRandom s' = clientRandom c'"
proof -
  let ?c = "demo_hello SSL_ClientSide" and ?s = "demo_hello SSL_ServerSide"
  obtain r c' where enc: "SSLEncodeClientHello demo_platform ?c = Some (noErr, r, c')" using demo_ClientHello by blast
  have "sslGetMaxProtVersion ?c = (noErr, Some (protocolVersion r))"
    by (rule SSLEncodeClientHello_layout [OF platform_ok_demo enc])
  then have v: "protocolVersion r = TLS_Version_1_2" by (simp add: sslGetMaxProtVersion_def demo_hello_def)
  have "\<exists>s'. SSLProcessClientHello demo_platform (drop 4 (contents r)) ?s = Some (noErr, s') \<and>
      clientReqProtocol s' = protocolVersion r \<and> negProtocolVersion s' = TLS_Version_1_2 \<and> sslTslCalls s' = Tls12Callouts \<and>
      clientRandom s' = clientRandom c' \<and> selectedCipher s' = 0x009C \<and> selectedCipherSpec s' = Some demo_gcm_spec \<and> transcript_is s' []"
    by (rule client_hello_roundtrip [OF platform_ok_demo enc, where specs = "[demo_gcm_spec]"])
      (simp_all add: v offered_specs_def CIPHER_SUITE_IS_SSLv2_def demo_hello_def demo_gcm_spec_def acceptable_def callouts_of_def sslVerifyProtVersion_def sslVerifySelectedCipher_def Let_def)
  with enc show ?thesis by blast
qed

text \<open>C24: A client that has the version and the suite enabled understands what the server answers: it takes over the version, the server random and
  the suite of the ServerHello, and with the version the callout table
  that goes with it. It takes over the session identifier if its application has set a peer ID, and keeps its own otherwise; the identifier in the
  message is that of the server's session (of less than 256 octets), and 32 random octets if the server has none.\<close>

theorem server_hello_roundtrip:
  assumes "platform_ok P" "SSLEncodeServerHello P s = Some (err, r, s')" "protocolSide c = SSL_ClientSide"
    and "versionEnabled c (negProtocolVersion s)" "validCipherSpecs c = Some specs"
    and "find (\<lambda>x. cipherSpec x = ucast (selectedCipher s)) specs = Some x"
  shows "\<exists>calls sid. SSLProcessServerHello P (drop 4 (contents r)) c =
      Some (noErr, c\<lparr>negProtocolVersion := negProtocolVersion s, sslTslCalls := calls, serverRandom := serverRandom s',
        sessionID := (if peerID c = None then sessionID c else Some sid), selectedCipher := selectedCipher s,
        selectedCipherSpec := Some x\<rparr>) \<and> calls_for (negProtocolVersion s) calls \<and>
      (\<forall>i. sessionID s = Some i \<longrightarrow> length i < 256 \<longrightarrow> sid = i) \<and>
      (sessionID s = None \<longrightarrow> devRandom P (rngPos s + 1) 32 = Some sid)"
  using ServerHello_roundtrip [OF assms] by (simp add: SSL_NULL_ID_LEN_def)

theorem server_hello_roundtrip_witness:
  "\<exists>r s' c'. SSLEncodeServerHello demo_platform (demo_hello SSL_ServerSide) = Some (noErr, r, s') \<and>
    SSLProcessServerHello demo_platform (drop 4 (contents r)) (demo_hello SSL_ClientSide) = Some (noErr, c') \<and>
    serverRandom c' = serverRandom s' \<and> selectedCipherSpec c' = Some demo_gcm_spec"
proof -
  let ?c = "demo_hello SSL_ClientSide" and ?s = "demo_hello SSL_ServerSide"
  obtain r s' where enc: "SSLEncodeServerHello demo_platform ?s = Some (noErr, r, s')" using demo_ServerHello by blast
  have "protocolSide ?c = SSL_ClientSide" "versionEnabled ?c (negProtocolVersion ?s)" "validCipherSpecs ?c = Some [demo_gcm_spec]"
    "find (\<lambda>x. cipherSpec x = ucast (selectedCipher ?s)) [demo_gcm_spec] = Some demo_gcm_spec"
    by (simp_all add: demo_hello_def versionEnabled_def demo_gcm_spec_def)
  from server_hello_roundtrip [OF platform_ok_demo enc this] enc show ?thesis by auto
qed

section \<open>The table of cipher suites\<close>

text \<open>What an entry of the table has to be for the key derivation and the record layer.\<close>

definition suite_wf :: "SSLCipherSpec \<Rightarrow> bool" where
  "suite_wf cs \<longleftrightarrow> cipherSpec cs < 0x10000 \<and> keyDataLen cs \<le> 160 \<and> digestSize (hash_of (macAlgorithm cs)) \<le> 32 \<and>
     (isGcm (cipher cs) \<longleftrightarrow> macAlgorithm cs = HA_Null) \<and> (isGcm (cipher cs) \<longrightarrow> ivSize (cipher cs) = 4 \<and> \<not> isExportable cs)"

text \<open>The table of cipher suites is well formed: no suite number occurs twice, every number fits the
  two octets it has in the hello, no suite needs more key material or a longer MAC secret than the
  buffers hold, and exactly the AES-GCM suites have no MAC of their own, with a fixed IV of four octets.\<close>

theorem suite_table_well_formed:
  "distinct (map cipherSpec KnownCipherSpecs) \<and> list_all suite_wf KnownCipherSpecs"
  by (simp add: KnownCipherSpecs_def suite_wf_def keyDataLen_def isGcm_def secretKeySize_def ivSize_def keySize_def hmac_length_def)

section \<open>Application data\<close>

text \<open>C11: What the application writes arrives. On an open connection of SSLv3 to TLS 1.2 with nothing queued, with a write callback that makes
  progress and takes no more than it is offered, \<open>SSLWrite\<close> returns for data of any length and reports all of it as written. The data is cut into records of application data, of at most 16300 octets each,
  whose contents put together are the data; their encodings \<open>xs\<close>, as the record layer makes them, are what the callback has taken, in order, followed by what
  is still queued, and when the operation reports success nothing is still queued; and a peer in sync that receives them reads exactly these records.\<close>

theorem written_data_arrives:
  assumes "platform_ok P" "in_sync P w r" "at_boundary r" "record_version_ok w" "write_ok P" "write_progress P" "open_for_writing w"
  shows "\<exists>err w' recs xs w1 out. SSLWrite P data w = Some (err, length data, w') \<and>
    concat (map contents recs) = data \<and> (\<forall>rec\<in>set recs. contentType rec = SSL_RecordTypeAppData \<and> length (contents rec) \<le> 16300) \<and>
    send_all (send_record P) recs w = Some (xs, w1) \<and>
    wireOut w' = wireOut w @ out \<and> concat xs = out @ unsent (recordWriteQueue w') \<and> (err = noErr \<longrightarrow> recordWriteQueue w' = []) \<and>
    (all_arrive (wire_at P) (recv_record P) xs r \<longrightarrow> (\<exists>r'. recv_n (recv_record P) (length recs) r = Some (recs, r')))"
proof -
  have sync: "channel_sync P w r" using assms by (simp add: channel_sync_def)
  let ?recs = "map (app_record (negProtocolVersion w)) (fragments data)"
  obtain err w' w1 xs out where s: "SSLWrite P data w = Some (err, length data, w')"
    "send_all (send_record P) ?recs w = Some (xs, w1)"
    "wireOut w' = wireOut w @ out" "concat xs = out @ unsent (recordWriteQueue w')" "err = noErr \<longrightarrow> recordWriteQueue w' = []"
    using SSLWrite_returns [OF sync assms(4-7), of data] by blast
  have ok: "\<forall>m\<in>set ?recs. channel_ok m w" using fragments_length app_record_ok [OF assms(4)] by auto
  have "\<exists>r'. recv_n (recv_record P) (length ?recs) r = Some (?recs, r')" if "all_arrive (wire_at P) (recv_record P) xs r"
    using ssl_records.all_received [OF sync ok s(2) that] by blast
  moreover have "concat (map contents ?recs) = data" by (simp add: comp_def)
  moreover have "\<forall>rec\<in>set ?recs. contentType rec = SSL_RecordTypeAppData \<and> length (contents rec) \<le> 16300"
    using fragments_length by (auto simp: app_record_def MAX_RECORD_LENGTH_def)
  ultimately show ?thesis using s by blast
qed

theorem written_data_arrives_witness:
  "\<exists>err w'. SSLWrite demo_platform (replicate 20000 65) demo_gcm_ctx = Some (err, 20000, w')"
proof -
  have "open_for_writing demo_gcm_ctx" "record_version_ok demo_gcm_ctx" "at_boundary demo_gcm_ctx"
    by (simp_all add: open_for_writing_def record_version_ok_def at_boundary_def before_handshake_def demo_cipher_def)
      (simp_all add: demo_gcm_ctx_def before_handshake_def)
  moreover have "write_ok demo_platform" "write_progress demo_platform"
    by (simp_all add: write_ok_def write_progress_def demo_platform_def)
  ultimately obtain err w' where "SSLWrite demo_platform (replicate 20000 65) demo_gcm_ctx = Some (err, length (replicate 20000 (65 :: byte)), w')"
    using written_data_arrives [OF platform_ok_demo demo_in_sync(2), of "replicate 20000 65"] by blast
  then show ?thesis by simp
qed

text \<open>C12: \<open>SSLRead\<close> hands out a stream, on an open connection on which it could send what was queued (or would have had to wait for it). When enough octets wait, it hands out
  the first of them, in order and without reading, and the rest goes on waiting. Otherwise it takes all that wait and reads a record: if that is a record of data, the application gets what waited,
  followed by as much of the record as there is room for, and the rest of the record waits; if no record can be read, the application gets what waited together with the error.
  In these cases no octet is lost, repeated or reordered. (A record of another type, which is processed, and the rounds after a record without data are not covered.)\<close>

theorem reading_is_a_stream:
  assumes "open_for_reading r" "flushed P r r0" "0 < n"
  shows "(n \<le> length (unread r) \<longrightarrow>
      (\<exists>r'. SSLRead P n r = Some (noErr, take n (unread r), r') \<and> unread r' = drop n (unread r) \<and> open_for_reading r')) \<and>
    (length (unread r) < n \<and> SSLReadRecord P (emptied r0) = Some (noErr, Some m, r1) \<and>
        contentType m = SSL_RecordTypeAppData \<and> unread r @ contents m \<noteq> [] \<longrightarrow>
      (\<exists>r'. SSLRead P n r = Some (noErr, take n (unread r @ contents m), r') \<and> unread r' = drop n (unread r @ contents m) \<and> buffer_wf r')) \<and>
    (length (unread r) < n \<and> SSLReadRecord P (emptied r0) = Some (err, rec, r2) \<and> err \<noteq> noErr \<longrightarrow>
      (\<exists>r'. SSLRead P n r = Some (err, unread r, r') \<and> unread r' = []))"
  using SSLRead_buffered [OF assms] SSLRead_record [OF assms(1,2), of n m r1] SSLRead_error [OF assms(1,2), of n err rec r2] by blast

theorem reading_is_a_stream_witness:
  "\<exists>r'. SSLRead demo_wire 3 (demo_ctx\<lparr>receivedDataBuffer := Some [1, 2], receivedDataPos := 0\<rparr>) = Some (noErr, [1, 2, 104], r') \<and> unread r' = [105]"
proof -
  let ?r = "demo_ctx\<lparr>receivedDataBuffer := Some [1, 2], receivedDataPos := 0\<rparr>"
  have "flushed demo_wire ?r ?r" by (simp add: flushed_def SSLServiceWriteQueue_empty)
  moreover have "emptied ?r = demo_ctx" by (simp add: emptied_def demo_ctx_def)
  moreover obtain r1 where "SSLReadRecord demo_wire demo_ctx = Some (noErr, Some (hd demo_records), r1)"
    by (simp add: demo_records_def read_steps cong: bind_weak_cong prod.case_cong_weak option.case_cong_weak)
  moreover have "open_for_reading ?r" "unread ?r = [1, 2]"
    by (simp_all add: open_for_reading_def buffer_wf_def unread_def demo_ctx_def demo_cipher_def)
  ultimately show ?thesis
    using reading_is_a_stream [of ?r demo_wire ?r 3 "hd demo_records" r1 noErr None r1] by (auto simp: demo_records_def)
qed

text \<open>C35: The loop that empties the write queue ends, whatever pieces the callback takes, provided that
  it takes at least an octet or reports an error, and no more than it is offered. What waited in the queue is what the callback has taken in this call,
  in order and without a gap, followed by what still waits; on success nothing waits any more; and
  only the queue and the callback's state change.\<close>

theorem write_queue_is_emptied:
  assumes "write_ok P" "write_progress P" "\<forall>r\<in>set (recordWriteQueue ctx). sent r < length (wdata r)"
  shows "\<exists>err ctx' out. SSLServiceWriteQueue P ctx = Some (err, ctx') \<and>
    wireOut ctx' = wireOut ctx @ out \<and> unsent (recordWriteQueue ctx) = out @ unsent (recordWriteQueue ctx') \<and>
    ctx' = ctx\<lparr>ioPos := ioPos ctx', wireOut := wireOut ctx', recordWriteQueue := recordWriteQueue ctx'\<rparr> \<and>
    (err = noErr \<longrightarrow> recordWriteQueue ctx' = [])"
proof -
  have "queue_wf (recordWriteQueue ctx)" using assms(3) by (auto simp: queue_wf_def)
  from SSLServiceWriteQueue_terminates [OF assms(1,2) this assms(3)] show ?thesis by blast
qed

theorem write_queue_is_emptied_witness:
  "\<exists>err ctx' out. SSLServiceWriteQueue demo_platform (demo_ctx\<lparr>recordWriteQueue := [\<lparr>sent = 1, wdata = [1, 2]\<rparr>]\<rparr>) = Some (err, ctx') \<and>
    wireOut ctx' = out \<and> [2] = out @ unsent (recordWriteQueue ctx')"
  using write_queue_is_emptied [of demo_platform "demo_ctx\<lparr>recordWriteQueue := [\<lparr>sent = 1, wdata = [1, 2]\<rparr>]\<rparr>"]
  by (fastforce simp: write_ok_def write_progress_def demo_platform_def)

section \<open>Certificates\<close>

text \<open>C37: A host name matches a name of a certificate exactly when they are equal up to the case of
  letters, or when the name is \<open>*.\<close> followed by what follows the first dot of the host name; the
  wildcard stands for one whole, non-empty label.\<close>

theorem hostname_matches_exactly:
  "hostname_matches pattern host \<longleftrightarrow> map tolower pattern = map tolower host \<or>
     (\<exists>suffix label rest. pattern = 0x2A # 0x2E # suffix \<and> host = label @ 0x2E # rest \<and> label \<noteq> [] \<and>
        0x2E \<notin> set label \<and> map tolower suffix = map tolower rest)"
  by (rule hostname_matches_iff)

text \<open>A certificate chain is accepted if and only if the trust object can be built from it and
  verification is off, the leaf is one of the certificates that the application trusts as they are,
  or the trust evaluation passes, for which the leaf certificate comes first and the host name of
  the connection is part of the request.\<close>

theorem chain_accepted_iff:
  assumes "errors_are_errors P"
  shows "(\<exists>ctx'. sslVerifyCertChain P chain True ctx = Some (noErr, ctx')) \<longleftrightarrow>
    trust_ready P ctx chain \<and>
    (\<not> enableCertVerify ctx \<or>
     (\<exists>leafs. trustedLeafCerts ctx = Some leafs \<and> sslGetMatchingCertInArray P (last chain) leafs) \<or>
     trust_passes P ctx chain (make_request ctx (rev chain) True))"
  using assms by (rule sslVerifyCertChain_accepts)

theorem chain_accepted_iff_witness:
  "\<exists>ctx'. sslVerifyCertChain demo_platform [[48, 1, 2], [48, 3]] True demo_ctx = Some (noErr, ctx')"
proof -
  have "errors_are_errors demo_platform" by (simp add: errors_are_errors_def demo_platform_def)
  moreover have "trust_ready demo_platform demo_ctx [[48, 1, 2], [48, 3]]"
    by (simp add: trust_ready_def demo_platform_def demo_ctx_def trust_calls_def)
  moreover have "trust_passes demo_platform demo_ctx [[48, 1, 2], [48, 3]] req" for req
    by (simp add: trust_passes_def demo_platform_def)
  ultimately show ?thesis using chain_accepted_iff [of demo_platform "[[48, 1, 2], [48, 3]]" demo_ctx] by blast
qed

section \<open>Trust evaluation\<close>

text \<open>C9: What stands behind a rejection that \<open>Trust::evaluate\<close> takes back. When the trust policy module has
  refused a chain and the fallback to libcrypto turns this into success, then libcrypto was protected by a lock callback,
  at most 64 certificates were looked at, and either \<open>X509_verify_cert\<close> accepted the
  leaf with the anchors of the bundle, or every certificate is valid now, all but one are signed with ECDSA by another
  certificate of the list, and the remaining one is issued by an anchor; if no signatures go round in a
  circle, then every certificate leads to that one. If the policies name a server, a certificate of the list has the name.\<close>

theorem overridden_rejection_is_supported:
  assumes "trust_fallback sz L getData g pols certs tp = (CSSM_OK, g')" "tp \<noteq> CSSM_OK" "lc_inv g"
  shows "locking_cb (snd (tls12_libcrypto_handle L g)) \<noteq> None \<and>
    (\<exists>crs s leaf st. certs = Some crs \<and> parse_certs L getData 0 crs \<lparr>leafX = None, owned = [], untrusted = []\<rparr> = Some s \<and>
       leafX s = Some leaf \<and> length (owned s) \<le> 64 \<and> anchor_store L = Some st \<and>
       (fst (pVerify L st leaf (Some (untrusted s))) = 1 \<or>
        (\<exists>t. accepted_by_hand L st (owned s) t \<and>
           (acyclic (issuer_graph (ec_signed L) (owned s)) \<longrightarrow>
            (\<forall>i < length (owned s). (i, t) \<in> (issuer_graph (ec_signed L) (owned s))\<^sup>*)))) \<and>
       (\<forall>host. Option.bind pols (ssl_server_name sz) = Some host \<longrightarrow>
          (\<exists>x\<in>set (owned s). \<exists>der. san_of L x = Some der \<and> san_der_matches_host der host)))"
proof -
  have ok: "fst (trust_fallback sz L getData g pols certs tp) = CSSM_OK" using assms(1) by simp
  from trust_fallback_accepts [OF ok assms(2)] obtain crs s leaf st where
    h: "certs = Some crs" "fst (tls12_libcrypto_handle L g)"
      "parse_certs L getData 0 crs \<lparr>leafX = None, owned = [], untrusted = []\<rparr> = Some s" "leafX s = Some leaf"
      "anchor_store L = Some st" and acc: "trust_accepts L st leaf s (Option.bind pols (ssl_server_name sz))" by blast
  obtain r g1 where r: "tls12_libcrypto_handle L g = (r, g1)" by fastforce
  have lock: "locking_cb g1 \<noteq> None"
    using tls12_libcrypto_handle_inv [OF assms(3) r] h(2) r by (auto simp: lc_inv_def)
  have bound: "length (owned s) \<le> 64" using parse_certs_owned [OF h(3)] by simp
  have lead: "accepted_by_hand L st (owned s) t \<Longrightarrow> acyclic (issuer_graph (ec_signed L) (owned s)) \<Longrightarrow>
      i < length (owned s) \<Longrightarrow> (i, t) \<in> (issuer_graph (ec_signed L) (owned s))\<^sup>*" for t i
    using sec.all_lead_to_top by (simp add: accepted_by_hand_def)
  have host: "\<exists>x\<in>set (owned s). \<exists>der. san_of L x = Some der \<and> san_der_matches_host der host"
    if "Option.bind pols (ssl_server_name sz) = Some host" for host
    using acc that ssl_server_name_nonempty by (cases pols) (auto simp: trust_accepts_def)
  from acc have "fst (pVerify L st leaf (Some (untrusted s))) = 1 \<or> (\<exists>t. accepted_by_hand L st (owned s) t)"
    by (auto simp: trust_accepts_def)
  with h lock r bound lead host show ?thesis by (metis snd_conv)
qed

theorem overridden_rejection_is_supported_witness:
  "fst (trust_fallback 24 demo_libcrypto demo_getData process_start (Some demo_policies) (Some [Some [1, 1, 2], Some [0, 2, 9]])
     CSSMERR_TP_INVALID_CERTIFICATE) = CSSM_OK \<and>
   locking_cb (snd (tls12_libcrypto_handle demo_libcrypto process_start)) \<noteq> None"
proof -
  let ?certs = "[demo_cert True 1 2, demo_cert False 2 9]"
  let ?s = "\<lparr>leafX = Some (demo_cert True 1 2), owned = ?certs, untrusted = [demo_cert False 2 9]\<rparr>"
  have parse: "parse_certs demo_libcrypto demo_getData 0 [Some [1, 1, 2], Some [0, 2, 9]] \<lparr>leafX = None, owned = [], untrusted = []\<rparr> = Some ?s"
    by (simp add: demo_getData_def demo_d2i_def)
  have top: "single_top (ec_signed demo_libcrypto) ?certs 1"
    by (auto simp: single_top_def issuer_graph_def demo_ec_signed less_Suc_eq nth_Cons')
  have "accepted_by_hand demo_libcrypto [demo_anchor] ?certs 1"
    unfolding accepted_by_hand_def using top
    by (simp add: demo_time_ok top_is_anchored_def) (simp add: demo_verify_def demo_cert_def demo_anchor_def)
  then have acc: "trust_accepts demo_libcrypto [demo_anchor] (demo_cert True 1 2) ?s (Option.bind (Some demo_policies) (ssl_server_name 24))"
    using demo_san by (auto simp: trust_accepts_def demo_server_name) (simp_all add: demo_verify_def demo_cert_def)
  have works: "libcrypto_works demo_libcrypto process_start" by (simp add: libcrypto_works_def demo_handle)
  have ok: "fst (trust_fallback 24 demo_libcrypto demo_getData process_start (Some demo_policies) (Some [Some [1, 1, 2], Some [0, 2, 9]])
     CSSMERR_TP_INVALID_CERTIFICATE) = CSSM_OK"
    using trust_fallback_accepted [OF works _ parse _ demo_anchor_store acc] by simp
  then obtain g' where "trust_fallback 24 demo_libcrypto demo_getData process_start (Some demo_policies)
      (Some [Some [1, 1, 2], Some [0, 2, 9]]) CSSMERR_TP_INVALID_CERTIFICATE = (CSSM_OK, g')"
    by (metis prod.collapse)
  from overridden_rejection_is_supported [OF this _ lc_inv_process_start] ok show ?thesis by simp
qed

text \<open>C25: The second chance does not ask for a chain. Two certificates that have signed each other
  (an attacker makes them, with the victim's name in the first) and any third certificate that an anchor has issued,
  with the issuer name of the first chosen such that \<open>X509_verify_cert\<close> reports a failed signature, are accepted for that name,
  whatever the trust policy module has said, although no signatures lead from the
  leaf to the anchored certificate.\<close>

theorem unconnected_chain_is_accepted:
  assumes "libcrypto_works L g" "anchor_store L = Some st"
    and "parse_certs L getData 0 crs \<lparr>leafX = None, owned = [], untrusted = []\<rparr> =
      Some \<lparr>leafX = Some A, owned = [A, B, C], untrusted = [B, C]\<rparr>"
    and "ec_signed L A B" "ec_signed L B A" "\<not> ec_signed L C A" "\<not> ec_signed L C B" "\<not> ec_signed L A C" "\<not> ec_signed L B C"
    and "tls12_cert_time_ok L A" "tls12_cert_time_ok L B" "tls12_cert_time_ok L C"
    and "snd (pVerify L st A (Some [B, C])) = 7" "fst (pVerify L st C None) = 1"
    and "ssl_server_name sz pols = Some host" "san_of L A = Some der" "san_der_matches_host der host"
  shows "fst (trust_fallback sz L getData g (Some pols) (Some crs) tp) = CSSM_OK \<and> (0, 2) \<notin> (issuer_graph (ec_signed L) [A, B, C])\<^sup>*"
proof -
  let ?s = "\<lparr>leafX = Some A, owned = [A, B, C], untrusted = [B, C]\<rparr>"
  have "accepted_by_hand L st [A, B, C] 2"
    unfolding accepted_by_hand_def using assms two_and_one_single_top [of "ec_signed L" A B C]
    by (auto simp: top_is_anchored_def libcrypto_works_def split: prod.split)
  then have acc: "trust_accepts L st A ?s (Option.bind (Some pols) (ssl_server_name sz))"
    using assms by (auto simp: trust_accepts_def libcrypto_works_def)
  have "crs \<noteq> []" using assms(3) by auto
  with trust_fallback_accepted [OF assms(1) _ assms(3) _ assms(2) acc] two_and_one_unconnected [of "ec_signed L" A C B] assms
  show ?thesis by simp
qed

theorem unconnected_chain_is_accepted_witness:
  "fst (trust_fallback 24 demo_libcrypto demo_getData process_start (Some demo_policies)
     (Some [Some [1, 1, 2], Some [1, 2, 1], Some [0, 3, 9]]) CSSMERR_TP_NOT_TRUSTED) = CSSM_OK"
proof -
  let ?A = "demo_cert True 1 2" and ?B = "demo_cert True 2 1" and ?C = "demo_cert False 3 9"
  have "fst (trust_fallback 24 demo_libcrypto demo_getData process_start (Some demo_policies)
     (Some [Some [1, 1, 2], Some [1, 2, 1], Some [0, 3, 9]]) CSSMERR_TP_NOT_TRUSTED) = CSSM_OK \<and>
     (0, 2) \<notin> (issuer_graph (ec_signed demo_libcrypto) [?A, ?B, ?C])\<^sup>*"
  proof (rule unconnected_chain_is_accepted [OF _ demo_anchor_store])
    show "parse_certs demo_libcrypto demo_getData 0 [Some [1, 1, 2], Some [1, 2, 1], Some [0, 3, 9]]
        \<lparr>leafX = None, owned = [], untrusted = []\<rparr> = Some \<lparr>leafX = Some ?A, owned = [?A, ?B, ?C], untrusted = [?B, ?C]\<rparr>"
      by (simp add: demo_getData_def demo_d2i_def)
  qed (use demo_san in \<open>simp_all add: libcrypto_works_def demo_handle demo_ec_signed demo_time_ok demo_server_name\<close>,
      simp_all add: demo_verify_def demo_cert_def demo_anchor_def)
  then show ?thesis by simp
qed

text \<open>C27: Whatever the threads of the process do, and whichever lock callbacks other libraries install, this program gives out libcrypto
  only under locks: all callers get the same answer from \<open>tls12_libcrypto_handle\<close>; when it is a
  handle, a lock callback is installed from then on, and the algorithms were registered, if at all, while one was installed; when the callback is that of this program, every
  mutex that libcrypto may name is initialised, and in between the threads that enter and leave critical sections through it no two are in the same one at once. (What happens under the
  callback of another library is up to that library. When the answer is that there is no handle, the algorithms may have been registered without locks.)\<close>

theorem libcrypto_runs_under_locks:
  assumes "lc_run L process_start es g" "Handle t r \<in> set es"
  shows "(\<forall>u q. Handle u q \<in> set es \<longrightarrow> q = r) \<and>
    (r \<longrightarrow> g_libcrypto_h g \<and> locking_cb g \<noteq> None \<and> (\<forall>cb. registered g = Some cb \<longrightarrow> cb \<noteq> None)) \<and>
    (locking_cb g = Some Tls12Callback \<longrightarrow>
       (\<exists>ms. g_openssl_locks g = Some ms \<and> int (length ms) = g_openssl_nlocks g \<and> (\<forall>m\<in>set ms. usable m))) \<and>
    (\<forall>us vs u v n. es = us @ Enter u n # vs \<and> Leave u n \<notin> set vs \<longrightarrow> Enter v n \<notin> set vs)"
proof -
  have inv: "lc_inv g" using lc_inv_run [OF assms(1) lc_inv_process_start] .
  have answers: "Handle u q \<in> set es \<Longrightarrow> q = g_libcrypto_ok g" for u q
    using lc_run_answers [OF assms(1) lc_inv_process_start] by blast
  have excl: "es = us @ Enter u n # vs \<Longrightarrow> Leave u n \<notin> set vs \<Longrightarrow> Enter v n \<notin> set vs" for us vs u v n
    using critical_sections_exclude [OF _ lc_inv_process_start] assms(1) by blast
  show ?thesis
    using inv answers assms(2) excl unfolding lc_inv_def by (intro conjI; (blast | fastforce))
qed

theorem libcrypto_runs_under_locks_witness:
  "\<exists>g. lc_run demo_libcrypto process_start [Handle 1 True, Enter 1 0, Handle 2 True, Leave 1 0, Enter 2 0] g \<and>
     locking_cb g \<noteq> None"
proof -
  have run: "lc_run demo_libcrypto process_start [Handle 1 True, Enter 1 0, Handle 2 True, Leave 1 0, Enter 2 0]
      (demo_globals [Held 2, Free])"
    unfolding lc_run_Cons using demo_steps lc_run.start by blast
  from libcrypto_runs_under_locks [OF run, of 1 True] run show ?thesis by auto
qed

text \<open>The search of the leaf for an EC key, which decides whether the check for extended validation is left out, finds
  exactly the certificates in whose encoding the identifier of EC public keys occurs somewhere as a DER object.\<close>

theorem leaf_is_ec_iff_oid_occurs:
  "tls12LeafIsEC getData certs \<longleftrightarrow>
     (\<exists>cr rest d. certs = Some (Some cr # rest) \<and> getData cr = (0, Some d) \<and> sublist EC_OID d)"
  using sublist_EC_OID_length
  by (auto simp: tls12LeafIsEC_def ec_oid_scan_sublist not_less split: option.split list.split prod.split)



section \<open>Certificates as text\<close>

text \<open>C30: A certificate survives its conversion to PEM. For every string of octets that is not empty and shorter than 2^30 (where the sizes of the code do not wrap), encoding into lines of
  any length below 2^31 does not write beyond its buffer, decoding gives the octets back, and so does \<open>cuConvertPem\<close> on
  the encoded text between a BEGIN line and an END marker, whatever precedes them that does not contain a BEGIN marker itself, and whatever follows.\<close>

theorem pem_roundtrip:
  assumes "bs \<noteq> []" "length bs < 2 ^ 30" "linelen < 2 ^ 31" "\<nexists>us vs. junk = us @ BEGIN_marker @ vs" "\<forall>b\<in>set label. \<not> is_eol b"
  shows "\<exists>enc. cuEnc64WithLines bs linelen = Some (enc @ [0]) \<and> cuDec64 (enc @ [0]) = Some bs \<and>
    cuConvertPem (junk @ BEGIN_marker @ label @ 0x0a # enc @ END_marker @ trailer) = Some (0, Some bs)"
proof -
  obtain enc where enc: "cuEnc64WithLines bs linelen = Some (enc @ [0])"
    using cuEnc64WithLines_fits [OF assms(2,3)] assms(1) by auto
  with cuDec64_cuEnc64WithLines [OF enc] cuConvertPem_roundtrip [OF enc assms(1,4,5)] show ?thesis by blast
qed

theorem pem_roundtrip_witness:
  "\<exists>enc. cuEnc64WithLines [0x30, 0x82, 0x01, 0x0a] 4 = Some (enc @ [0]) \<and>
    cuConvertPem (BEGIN_marker @ [0x20, 0x43] @ 0x0a # enc @ END_marker) = Some (0, Some [0x30, 0x82, 0x01, 0x0a])"
  using pem_roundtrip [of "[0x30, 0x82, 0x01, 0x0a]" 4 "[]" "[0x20, 0x43]" "[]"] by (auto simp: is_eol_def BEGIN_marker_def)

text \<open>C31: Converting PEM text may not return. On a text without zeros \<open>cuConvertPem\<close> goes round forever
  if and only if nothing but ends of line follow the BEGIN line (or the beginning of the text, if there is no such line):
  \<open>getLine\<close> then returns an empty line for no text at all, contrary to its comment.\<close>

theorem pem_conversion_returns_iff:
  assumes "0 \<notin> set inbuf"
  shows "(\<exists>result. cuConvertPem inbuf = Some result) \<longleftrightarrow> (\<exists>b\<in>set (after_begin inbuf). b \<noteq> 0x0d \<and> b \<noteq> 0x0a)"
  using cuConvertPem_None_iff [OF assms] by (auto simp: is_eol_def)

theorem pem_conversion_returns_iff_witness:
  "(\<exists>result. cuConvertPem [0x51, 0x51, 0x3d, 0x3d] = Some result) \<and> \<not> (\<exists>result. cuConvertPem (BEGIN_marker @ [0x2d, 0x0a]) = Some result)"
proof -
  have "after_begin [0x51, 0x51, 0x3d, 0x3d] = [0x51, 0x51, 0x3d, 0x3d]" "after_begin (BEGIN_marker @ [0x2d, 0x0a]) = []"
    by (simp_all add: after_begin_def BEGIN_marker_def getLine_def)
  then show ?thesis
    using pem_conversion_returns_iff [of "[0x51, 0x51, 0x3d, 0x3d]"] pem_conversion_returns_iff [of "BEGIN_marker @ [0x2d, 0x0a]"]
    by (simp add: BEGIN_marker_def)
qed

section \<open>Configuration\<close>



text \<open>A new connection is ready. When the modules can be attached, \<open>SSLNewContext\<close> succeeds for the client and
  the server, in whatever order the processes got their modules; both ends are in sync in both directions, all
  four pending ciphers are fresh, no session is active, and disposing of the context succeeds and
  takes nothing but stale entries from the session cache.\<close>

theorem new_connection_is_ready:
  assumes "platform_ok P" "handles_ok (handles p)" "attachToModules S (handles p) = (True, h, g)"
    and "handles_ok (handles q)" "attachToModules T (handles q) = (True, h', g')"
  shows "\<exists>c s. SSLNewContext P S n False True p = Some (noErr, Some c, p\<lparr>handles := g\<rparr>) \<and>
    SSLNewContext P T n True True q = Some (noErr, Some s, q\<lparr>handles := g'\<rparr>) \<and>
    in_sync P c s \<and> in_sync P s c \<and> fresh_pending True (writePending c) \<and> fresh_pending False (readPending c) \<and>
    fresh_pending True (writePending s) \<and> fresh_pending False (readPending s) \<and>
    \<not> sslIsSessionActive c \<and> \<not> sslIsSessionActive s \<and>
    SSLDisposeContext P (Some c) = Some (noErr, Some (filter (\<lambda>e. \<not> SessionCacheEntryIsStale e (now P)) (cacheOf p)))"
proof -
  obtain c s where c: "SSLNewContext P S n False True p = Some (noErr, Some c, p\<lparr>handles := g\<rparr>)"
    and s: "SSLNewContext P T n True True q = Some (noErr, Some s, q\<lparr>handles := g'\<rparr>)"
    using SSLNewContext_total [OF assms(1-3)] SSLNewContext_total [OF assms(1,4,5)] by blast
  note fresh = SSLNewContext_fresh [OF c assms(2)] SSLNewContext_fresh [OF s assms(4)]
  then have f: "fresh_context False c" "fresh_context True s" by simp_all
  then have "in_sync P c s" "in_sync P s c"
    by (simp_all add: in_sync_def fresh_context_def zeroed_cipher_def ciphers_paired_def isGcm_def blockSize_def)
  moreover have "SSLDisposeContext P (Some c) = Some (noErr, Some (filter (\<lambda>e. \<not> SessionCacheEntryIsStale e (now P)) (cacheOf p)))"
    using SSLDisposeContext_fresh [OF f(1)] fresh(1) by simp
  ultimately show ?thesis using c s f
    by (simp add: fresh_context_def fresh_pending_def zeroed_cipher_def)
qed

theorem new_connection_is_ready_witness:
  "\<exists>c s p. SSLNewContext demo_platform demo_cssm 4096 False True demo_process = Some (noErr, Some c, p) \<and>
    SSLNewContext demo_platform demo_cssm 4096 True True demo_process = Some (noErr, Some s, p) \<and> in_sync demo_platform c s"
  using new_connection_is_ready [OF platform_ok_demo handles_ok_demo demo_attached handles_ok_demo demo_attached, of 4096] by blast

text \<open>C20: An active session is frozen. While a session is active and no client certificate is being asked
  for, no setter of the application changes anything but six settings: whether chains are verified and any root is allowed,
  RSA blinding, the timeout of the cache, and the callback for the master secret with its argument.\<close>

theorem active_session_is_frozen:
  assumes "setting P K c c'" "sslIsSessionActive c" "clientCertState c \<noteq> kSSLClientCertRequested"
  shows "c' = c\<lparr>enableCertVerify := enableCertVerify c', allowAnyRoot := allowAnyRoot c', rsaBlindingEnable := rsaBlindingEnable c',
    sessionCacheTimeout := sessionCacheTimeout c', masterSecretCallback := masterSecretCallback c', masterSecretArg := masterSecretArg c'\<rparr>"
  using setting_frozen [OF assms] unfolding unguarded_reset_def by (cases c, cases c') simp

theorem active_session_is_frozen_witness:
  "\<exists>c'. SSLSetProtocolVersion kTLSProtocol1 (Some demo_ctx) = (badReqErr, Some c') \<and>
    sslIsSessionActive demo_ctx \<and> sslTslCalls c' = Tls12Callouts"
proof -
  have active: "sslIsSessionActive demo_ctx" by (simp add: sslIsSessionActive_def demo_ctx_def)
  then have set: "SSLSetProtocolVersion kTLSProtocol1 (Some demo_ctx) = (badReqErr, Some demo_ctx)"
    by (simp add: SSLSetProtocolVersion_def setter_simps)
  obtain c' where c': "SSLSetProtocolVersion kTLSProtocol1 (Some demo_ctx) = (badReqErr, Some c')" using set by blast
  from version [OF this, of demo_platform demo_keychain] have "setting demo_platform demo_keychain demo_ctx c'" .
  from active_session_is_frozen [OF this active] have "c' = demo_ctx\<lparr>enableCertVerify := enableCertVerify c',
      allowAnyRoot := allowAnyRoot c', rsaBlindingEnable := rsaBlindingEnable c', sessionCacheTimeout := sessionCacheTimeout c',
      masterSecretCallback := masterSecretCallback c', masterSecretArg := masterSecretArg c'\<rparr>" by (simp add: demo_ctx_def)
  from arg_cong [OF this, of sslTslCalls] have "sslTslCalls c' = Tls12Callouts" by (simp add: demo_ctx_def)
  with active c' show ?thesis by blast
qed

text \<open>C28: Asking for the verification of certificates switches it off for good: after
  \<open>SSLSetEnableCertVerify\<close>, with either argument, and whatever is set later, every chain from which a trust object
  can be built is accepted without an evaluation.\<close>

theorem asking_for_verification_disables_it:
  assumes "SSLSetEnableCertVerify b (Some c) = (err, Some c1)" "(setting P K)\<^sup>*\<^sup>* c1 c2"
    and "errors_are_errors P" "trust_ready P c2 chain"
  shows "err = noErr \<and> SSLGetEnableCertVerify (Some c2) = Inr False \<and> (\<exists>ctx'. sslVerifyCertChain P chain True c2 = Some (noErr, ctx'))"
proof -
  have "err = noErr" "\<not> enableCertVerify c1" using assms(1) by (auto simp: SSLSetEnableCertVerify_def on_context_def)
  with settings_verify [OF assms(2)] have "\<not> enableCertVerify c2" by simp
  with sslVerifyCertChain_accepts [OF assms(3)] assms(4) \<open>err = noErr\<close> show ?thesis
    by (simp add: SSLGetEnableCertVerify_def get_from_def)
qed

theorem asking_for_verification_disables_it_witness:
  "\<exists>c1 ctx'. SSLSetEnableCertVerify True (Some demo_ctx) = (noErr, Some c1) \<and>
    sslVerifyCertChain demo_platform [[48, 1, 2], [48, 3]] True c1 = Some (noErr, ctx')"
proof -
  have "SSLSetEnableCertVerify True (Some demo_ctx) = (noErr, Some (demo_ctx\<lparr>enableCertVerify := False\<rparr>))"
    by (simp add: SSLSetEnableCertVerify_def on_context_def)
  moreover have "errors_are_errors demo_platform" by (simp add: errors_are_errors_def demo_platform_def)
  moreover have "trust_ready demo_platform (demo_ctx\<lparr>enableCertVerify := False\<rparr>) [[48, 1, 2], [48, 3]]"
    by (simp add: trust_ready_def demo_platform_def demo_ctx_def trust_calls_def)
  ultimately show ?thesis using asking_for_verification_disables_it [OF _ rtranclp.rtrancl_refl] by blast
qed

text \<open>C29: The peer's application sees the certificates in the order in which they were set. When a server has
  installed an identity and, later, with the same configuration, sends its Certificate message (with less than 2^24 octets of certificates), and a client
  accepts it, the client holds the same chain in front of the certificates that it held before, and a list that \<open>SSLCopyPeerCertificates\<close> returns
  has the certificates in the order of the array given to \<open>SSLSetCertificate\<close>, after those of before; it does return one when the certificates can be parsed. In the first handshake of
  a connection there are no certificates of before; in a later one they are still there, because \<open>SSLProcessCertificate\<close> never clears the list.\<close>

theorem identity_reaches_the_peer:
  assumes "platform_ok P" "keychain_ok K"
    and "SSLSetCertificate P K (Some items) (Some s) = Some (noErr, Some s1)" "configuration s2 = configuration s1"
    and "SSLEncodeCertificate P s2 = Some (noErr, msg, s3)" "length (cert_list (localCert s1)) < 2 ^ 24"
    and "SSLProcessCertificate P (drop 4 (contents msg)) c = Some (noErr, c')"
  shows "\<exists>i rest cert certs ders. items = IdentityItem i # rest \<and> SecIdentityCopyCertificate K i = Inr cert \<and>
    item_certs rest = Some certs \<and> map (secCertToSslCert P K) (cert # certs) = map Inr ders \<and>
    peerCert c' = localCert s1 @ peerCert c \<and>
    (\<forall>r. SSLCopyPeerCertificates P K (Some c') = Inr r \<longrightarrow> r = Some (rev (peerCert c) @ ders)) \<and>
    (CFArrayCreateOk K \<and> (\<forall>der\<in>set (peerCert c'). SecCertificateCreateFromData P der = noErr) \<longrightarrow>
      SSLCopyPeerCertificates P K (Some c') = Inr (Some (rev (peerCert c) @ ders)))"
proof -
  from SSLSetCertificate_noErr [OF assms(2,3)] obtain i rest cert certs ders where
    r: "items = IdentityItem i # rest" "SecIdentityCopyCertificate K i = Inr cert" "item_certs rest = Some certs"
      "map (secCertToSslCert P K) (cert # certs) = map Inr ders" "localCert s1 = rev ders" "ders \<noteq> []" by blast
  have "localCert s2 = localCert s1" using assms(4) by (simp add: configuration_def)
  then have msg: "drop 4 (contents msg) = vector24 (concat (map vector24 ders))"
    using assms(5) r(5) by (auto simp: SSLEncodeCertificate_def cert_list_def hdsk_record_def hdsk_msg_def Let_def split: if_split_asm)
  have small: "length (concat (map vector24 ders)) < 2 ^ 24" using assms(6) r(5) by (simp add: cert_list_def)
  then have "\<forall>der\<in>set ders. length der < 2 ^ 24"
    by (auto simp: length_concat dest!: split_list)
  from SSLProcessCertificate_noErr [OF assms(1) this small r(6)] assms(7) msg r(5)
  have peer: "peerCert c' = localCert s1 @ peerCert c" by simp
  then have ne: "peerCert c' \<noteq> []" "rev (peerCert c') = rev (peerCert c) @ ders" using r(5,6) by simp_all
  have "SSLCopyPeerCertificates P K (Some c') = Inr (Some (rev (peerCert c) @ ders))"
    if "CFArrayCreateOk K" "\<forall>der\<in>set (peerCert c'). SecCertificateCreateFromData P der = noErr"
    using copy_certs_ok [OF that(2)] ne that(1)
    by (simp add: SSLCopyPeerCertificates_def sslCopyPeerCertificates_def get_from_def)
  with r peer ne peer_certificates_leaf_first [of P K c'] show ?thesis by fastforce
qed

theorem identity_reaches_the_peer_witness:
  "\<exists>c'. peerCert c' = [[48, 6], [48, 5]] \<and> SSLCopyPeerCertificates demo_platform demo_keychain (Some c') = Inr (Some [[48, 5], [48, 6]])"
proof -
  let ?items = "[IdentityItem 5, CertificateItem [48, 6]]"
  obtain s1 where s1: "SSLSetCertificate demo_platform demo_keychain (Some ?items) (Some demo_server) = Some (noErr, Some s1)"
    "localCert s1 = [[48, 6], [48, 5]]" "protocolSide s1 = SSL_ServerSide" "negProtocolVersion s1 = TLS_Version_1_2"
    by (rule demo_identity)
  have "\<exists>s3. SSLEncodeCertificate demo_platform s1 = Some (noErr, hdsk_record s1 (hdsk_msg SSL_HdskCert (vector24 (cert_list (localCert s1)))), s3)"
    using s1 by (simp add: SSLEncodeCertificate_def platform_ok_demo)
  then obtain s3 where enc: "SSLEncodeCertificate demo_platform s1 =
      Some (noErr, hdsk_record s1 (hdsk_msg SSL_HdskCert (vector24 (cert_list (localCert s1)))), s3)" ..
  obtain c' where "SSLProcessCertificate demo_platform (vector24 (cert_list [[48, 6], [48, 5]])) (demo_ctx\<lparr>peerCert := []\<rparr>) = Some (noErr, c')"
    by (rule demo_certificate)
  then have accepted: "SSLProcessCertificate demo_platform (drop 4 (contents (hdsk_record s1 (hdsk_msg SSL_HdskCert (vector24 (cert_list (localCert s1)))))))
      (demo_ctx\<lparr>peerCert := []\<rparr>) = Some (noErr, c')" using s1(2) by (simp add: hdsk_record_def hdsk_msg_def)
  have small: "length (cert_list (localCert s1)) < 2 ^ 24" by (simp add: s1(2) cert_list_def)
  have ok: "CFArrayCreateOk demo_keychain" "SecCertificateCreateFromData demo_platform der = noErr" for der
    by (simp_all add: demo_keychain_def demo_platform_def)
  from identity_reaches_the_peer [OF platform_ok_demo keychain_ok_demo s1(1) refl enc small accepted] show ?thesis
    using s1(2) by (intro exI [of _ c']) (auto simp: ok demo_secCert demo_identity_cert)
qed

section \<open>The patcher\<close>

text \<open>C38: The patcher redirects exactly what it means to. When the libraries can be opened and the
  functions of the framework to be redirected are at least 14 octets apart: every function of the table that the framework has and that this library (or else another loaded image) has at
  a different address starts with
  an absolute jump to its replacement (\<open>FF 25 00 00 00 00\<close> and the address, least significant octet first), provided that its pages can be made writable by one of the
  two calls; no octet outside these jumps has changed, so that the functions whose pages could not be made writable are as they were; and of the two counters that are reported one is the number
  of the former and the other the number of the latter.\<close>

theorem patched_functions_jump:
  assumes "dlopen_library E \<or> dlopen_self E" "dlopen_security E" "apart E"
    and "tls12_init E mem = (patched, failed, mem')"
  shows "(\<forall>name\<in>set ssl_syms. \<forall>sec our. redirected E name sec our \<and> writable E sec \<longrightarrow>
      load mem' sec 14 = [0xFF, 0x25, 0, 0, 0, 0] @ le64 our) \<and>
    (\<forall>x. (\<forall>name\<in>set ssl_syms. \<forall>sec our. redirected E name sec our \<and> writable E sec \<longrightarrow> x \<notin> window sec 14) \<longrightarrow> mem' x = mem x) \<and>
    patched = card (redirected_names E (writable E)) \<and> failed = card (redirected_names E (\<lambda>sec. \<not> writable E sec))"
proof -
  have run: "patch_all E ssl_syms (0, 0, mem) = (patched, failed, mem')" using tls12_init_runs [OF assms(1,2)] assms(4) by simp
  have "separate (targets E ssl_syms)"
    using separate_targets [OF distinct_ssl_syms] assms(3) unfolding apart_def by blast
  from patch_all_patched [OF run this]
  have jumps: "\<forall>(sec, our) \<in> set (targets E ssl_syms). writable E sec \<longrightarrow> load mem' sec 14 = trampoline our"
    and counts: "patched = length (filter (writable E \<circ> fst) (targets E ssl_syms))"
      "failed = length (filter ((\<lambda>sec. \<not> writable E sec) \<circ> fst) (targets E ssl_syms))"
    by (simp_all add: comp_def)
  have "load mem' sec 14 = [0xFF, 0x25, 0, 0, 0, 0] @ le64 our"
    if "name \<in> set ssl_syms" "redirected E name sec our" "writable E sec" for name sec our
    using jumps that set_targets [of sec our E ssl_syms] by (auto simp: trampoline_def)
  moreover have "mem' x = mem x"
    if "\<forall>name\<in>set ssl_syms. \<forall>sec our. redirected E name sec our \<and> writable E sec \<longrightarrow> x \<notin> window sec 14" for x
    using patch_all_outside [OF run, of x] that set_targets [of _ _ E ssl_syms] by fastforce
  ultimately show ?thesis
    using counts count_targets [OF distinct_ssl_syms] by (auto simp: redirected_names_def)
qed

theorem patched_functions_jump_witness:
  "\<exists>mem'. tls12_init demo_patch_env (\<lambda>a. 0x90) = (1, 1, mem') \<and>
    load mem' 0x1000 14 = [0xFF, 0x25, 0, 0, 0, 0, 0, 0x90, 0, 0, 0, 0, 0, 0] \<and> mem' 0x100E = 0x90"
proof -
  obtain patched failed mem' where run: "tls12_init demo_patch_env (\<lambda>a. 0x90) = (patched, failed, mem')" by (metis prod_cases3)
  have jumps: "\<forall>name\<in>set ssl_syms. \<forall>sec our. redirected demo_patch_env name sec our \<and> writable demo_patch_env sec \<longrightarrow>
        load mem' sec 14 = [0xFF, 0x25, 0, 0, 0, 0] @ le64 our"
    and kept: "\<forall>x. (\<forall>name\<in>set ssl_syms. \<forall>sec our. redirected demo_patch_env name sec our \<and> writable demo_patch_env sec \<longrightarrow> x \<notin> window sec 14) \<longrightarrow>
        mem' x = 0x90"
    and counts: "patched = card (redirected_names demo_patch_env (writable demo_patch_env))"
      "failed = card (redirected_names demo_patch_env (\<lambda>sec. \<not> writable demo_patch_env sec))"
    using patched_functions_jump [OF _ demo_opens(2) demo_apart run] demo_opens(1) by blast+
  have "''SSLRead'' \<in> set ssl_syms" by (simp add: ssl_syms_def)
  with jumps have "redirected demo_patch_env ''SSLRead'' 0x1000 0x9000 \<and> writable demo_patch_env 0x1000 \<longrightarrow>
      load mem' 0x1000 14 = [0xFF, 0x25, 0, 0, 0, 0] @ le64 0x9000" by blast
  moreover have "le64 0x9000 = [0, 0x90, 0, 0, 0, 0, 0, 0]" by (simp add: le64_def upt_rec drop_bit_eq_div)
  ultimately have jump: "load mem' 0x1000 14 = [0xFF, 0x25, 0, 0, 0, 0, 0, 0x90, 0, 0, 0, 0, 0, 0]"
    by (simp add: demo_redirected demo_writable)
  have "(0x100E :: addr) \<notin> window 0x1000 14"
    by (simp add: window_def lessThan_nat_numeral lessThan_Suc)
  then have "mem' 0x100E = 0x90"
    by (intro kept [rule_format]) (auto simp: demo_redirected demo_writable)
  moreover have "redirected_names demo_patch_env (writable demo_patch_env) = {''SSLRead''}"
      "redirected_names demo_patch_env (\<lambda>sec. \<not> writable demo_patch_env sec) = {''SSLWrite''}"
    by (auto simp: redirected_names_def demo_redirected demo_writable ssl_syms_def)
  ultimately show ?thesis using run counts jump by simp
qed

end
